(* ===== verification/Py_Prelude.thy ===== *)
theory Py_Prelude
  imports Complex_Main "HOL-Library.Sublist"
begin

text \<open>
  The shared ground of the development: results of fallible Python code, Python's
  list and dictionary idioms, and the lemma collections of the components.

  \<^item> A Python exception is a value: a fallible function returns \<open>'e + 'a\<close>, with
    \<open>Inl\<close> for the exception and \<open>Inr\<close> for the value.  \<open>py_exc\<close> names the built-in
    exceptions the modelled code can raise.
  \<^item> A Python \<open>float\<close> is a real number.  Rounding of IEEE arithmetic is not modelled;
    where the code reads a float from text, \<open>inf\<close> and \<open>nan\<close> are separate outcomes
    (type \<open>py_num\<close> of theory \<open>Py_Text\<close>).
  \<^item> A Python \<open>int\<close> is an \<open>int\<close>, a \<open>str\<close> a list of characters (code points below 256).
  \<^item> A \<open>dict\<close> whose order matters is an association list in insertion order.
\<close>

named_theorems bounds_simps \<open>bounds on indices, widths and lengths\<close>
named_theorems text_simps \<open>searching and replacing in text\<close>
named_theorems stat_simps \<open>order statistics\<close>

section \<open>Exceptions\<close>

datatype py_exc =
    ValueError | KeyError | IndexError | TypeError | RuntimeError
  | AssertionError | OverflowError | ZeroDivisionError | NonFinite

definition ok_res :: "'e + 'a \<Rightarrow> bool" where
  "ok_res r = (case r of Inl _ \<Rightarrow> False | Inr _ \<Rightarrow> True)"

lemma ok_res_simps [simp]: "ok_res (Inr x)" "\<not> ok_res (Inl e)"
  by (simp_all add: ok_res_def)

lemma ok_resE: "ok_res r \<Longrightarrow> (\<And>x. r = Inr x \<Longrightarrow> P) \<Longrightarrow> P"
  by (cases r) auto

text \<open>\<open>res_bind r f\<close> goes on with the value of \<open>r\<close> unless it raised.\<close>

definition res_bind :: "'e + 'a \<Rightarrow> ('a \<Rightarrow> 'e + 'b) \<Rightarrow> 'e + 'b" where
  "res_bind r f = (case r of Inl e \<Rightarrow> Inl e | Inr x \<Rightarrow> f x)"

lemma res_bind_simps [simp]: "res_bind (Inl e) f = Inl e" "res_bind (Inr x) f = f x"
  by (simp_all add: res_bind_def)

lemma res_bind_Inr [simp]: "res_bind r f = Inr y \<longleftrightarrow> (\<exists>x. r = Inr x \<and> f x = Inr y)"
  by (cases r) auto

definition opt_res :: "'e \<Rightarrow> 'a option \<Rightarrow> 'e + 'a" where
  "opt_res e v = (case v of None \<Rightarrow> Inl e | Some x \<Rightarrow> Inr x)"

lemma opt_res_Inr [simp]: "opt_res e v = Inr x \<longleftrightarrow> v = Some x"
  by (cases v) (auto simp: opt_res_def)

text \<open>\<open>map_res f xs\<close> is a loop over \<open>xs\<close> that stops at the first exception.\<close>

fun map_res :: "('a \<Rightarrow> 'e + 'b) \<Rightarrow> 'a list \<Rightarrow> 'e + 'b list" where
  "map_res f [] = Inr []"
| "map_res f (x # xs) =
     (case f x of Inl e \<Rightarrow> Inl e
      | Inr y \<Rightarrow> (case map_res f xs of Inl e \<Rightarrow> Inl e | Inr ys \<Rightarrow> Inr (y # ys)))"

lemma map_res_length: "map_res f xs = Inr ys \<Longrightarrow> length ys = length xs"
  by (induction xs arbitrary: ys) (auto split: sum.splits)

lemma map_res_nth: "map_res f xs = Inr ys \<Longrightarrow> i < length xs \<Longrightarrow> f (xs ! i) = Inr (ys ! i)"
proof (induction xs arbitrary: ys i)
  case (Cons x xs)
  then show ?case by (cases i) (auto split: sum.splits)
qed simp

lemma map_res_Inr_iff: "(\<exists>ys. map_res f xs = Inr ys) \<longleftrightarrow> (\<forall>x\<in>set xs. ok_res (f x))"
  by (induction xs) (auto split: sum.splits)

lemma map_res_pure: "(\<And>x. x \<in> set xs \<Longrightarrow> f x = Inr (g x)) \<Longrightarrow> map_res f xs = Inr (map g xs)"
  by (induction xs) auto

section \<open>Dictionaries in insertion order\<close>

text \<open>\<open>dict_set\<close> is \<open>d[k] = v\<close>: it overwrites in place or appends.\<close>

fun dict_set :: "('k \<times> 'v) list \<Rightarrow> 'k \<Rightarrow> 'v \<Rightarrow> ('k \<times> 'v) list" where
  "dict_set [] k v = [(k, v)]"
| "dict_set ((k', v') # d) k v =
     (if k' = k then (k, v) # d else (k', v') # dict_set d k v)"

lemma map_of_dict_set [simp]: "map_of (dict_set d k v) = (map_of d)(k \<mapsto> v)"
  by (induction d) (auto simp: fun_eq_iff)

lemma keys_dict_set:
  "map fst (dict_set d k v) = (if k \<in> set (map fst d) then map fst d else map fst d @ [k])"
  by (induction d) (auto, force+)

lemma set_keys_dict_set [simp]: "set (map fst (dict_set d k v)) = insert k (set (map fst d))"
  by (simp add: keys_dict_set del: set_map) auto

lemma distinct_dict_set [simp]:
  "distinct (map fst d) \<Longrightarrow> distinct (map fst (dict_set d k v))"
  by (simp add: keys_dict_set del: set_map)

lemma set_dict_set: "(k', v') \<in> set (dict_set d k v) \<Longrightarrow> (k', v') = (k, v) \<or> (k', v') \<in> set d"
  by (induction d k v rule: dict_set.induct) (auto split: if_splits)

section \<open>Python integers\<close>

text \<open>\<open>py_range a b\<close> is \<open>range(a, b)\<close>.\<close>

abbreviation py_range :: "int \<Rightarrow> int \<Rightarrow> int list" where
  "py_range a b \<equiv> [a..b - 1]"

text \<open>\<open>sorted(set(xs))\<close>: the distinct elements in increasing order.\<close>

definition sorted_set :: "'a::linorder list \<Rightarrow> 'a list" where
  "sorted_set xs = remdups (sort xs)"

lemma set_sorted_set [simp]: "set (sorted_set xs) = set xs"
  by (simp add: sorted_set_def)

lemma sorted_sorted_set [simp]: "sorted (sorted_set xs)"
  by (simp add: sorted_set_def sorted_remdups)

lemma distinct_sorted_set [simp]: "distinct (sorted_set xs)"
  by (simp add: sorted_set_def)

lemma sorted_set_unique:
  "sorted ys \<Longrightarrow> distinct ys \<Longrightarrow> set ys = set xs \<Longrightarrow> sorted_set xs = ys"
  by (rule sorted_distinct_set_unique) auto

lemma sorted_set_Nil_iff [simp]: "sorted_set xs = [] \<longleftrightarrow> xs = []"
  by (metis set_sorted_set set_empty)

section \<open>Minimum and maximum of a list\<close>

text \<open>Python's \<open>min(xs)\<close> and \<open>max(xs)\<close> raise \<open>ValueError\<close> on an empty sequence.\<close>

definition py_min :: "'a::linorder list \<Rightarrow> py_exc + 'a" where
  "py_min xs = (case xs of [] \<Rightarrow> Inl ValueError | x # ys \<Rightarrow> Inr (fold min ys x))"

definition py_max :: "'a::linorder list \<Rightarrow> py_exc + 'a" where
  "py_max xs = (case xs of [] \<Rightarrow> Inl ValueError | x # ys \<Rightarrow> Inr (fold max ys x))"

lemma py_min_Min: "xs \<noteq> [] \<Longrightarrow> py_min xs = Inr (Min (set xs))"
  by (cases xs) (simp_all add: py_min_def Min.set_eq_fold [symmetric] del: Min_insert)

lemma py_max_Max: "xs \<noteq> [] \<Longrightarrow> py_max xs = Inr (Max (set xs))"
  by (cases xs) (simp_all add: py_max_def Max.set_eq_fold [symmetric] del: Max_insert)

lemma py_min_Nil [simp]: "py_min [] = Inl ValueError"
  by (simp add: py_min_def)

lemma py_max_Nil [simp]: "py_max [] = Inl ValueError"
  by (simp add: py_max_def)

lemma py_minD: "py_min xs = Inr m \<Longrightarrow> m \<in> set xs \<and> (\<forall>x\<in>set xs. m \<le> x)"
  by (cases "xs = []") (auto simp: py_min_Min)

lemma py_maxD: "py_max xs = Inr m \<Longrightarrow> m \<in> set xs \<and> (\<forall>x\<in>set xs. x \<le> m)"
  by (cases "xs = []") (auto simp: py_max_Max)

section \<open>Lists\<close>

lemma sum_list_map_le:
  "(\<And>x. x \<in> set xs \<Longrightarrow> f x \<le> (b::nat)) \<Longrightarrow> sum_list (map f xs) \<le> length xs * b"
  by (induction xs) (force simp: add_mono)+

lemma sum_list_le_const:
  "(\<And>x. x \<in> set xs \<Longrightarrow> x \<le> (b::nat)) \<Longrightarrow> sum_list xs \<le> length xs * b"
  using sum_list_map_le [of xs "\<lambda>x. x" b] by simp

text \<open>\<open>slice_to n xs\<close> is \<open>xs[:n]\<close>: a negative bound counts from the end.\<close>

definition slice_to :: "int \<Rightarrow> 'a list \<Rightarrow> 'a list" where
  "slice_to n xs = (if 0 \<le> n then take (nat n) xs else take (nat (int (length xs) + n)) xs)"

lemma prefix_slice_to [simp]: "prefix (slice_to n xs) xs"
  by (simp add: slice_to_def take_is_prefix)

lemma slice_to_nonempty: "1 \<le> n \<Longrightarrow> xs \<noteq> [] \<Longrightarrow> slice_to n xs \<noteq> []"
  by (auto simp: slice_to_def)

lemma slice_to_all: "int (length xs) \<le> n \<Longrightarrow> slice_to n xs = xs"
  by (simp add: slice_to_def)

lemma length_slice_to: "0 \<le> n \<Longrightarrow> length (slice_to n xs) = min (nat n) (length xs)"
  by (simp add: slice_to_def)

lemma prefix_take [simp, intro]: "prefix (take n xs) xs"
  by (metis append_take_drop_id prefixI)

end
