(* ===== verification/Py_Text.thy ===== *)
theory Py_Text
  imports Py_Prelude
begin

text \<open>
  The \<open>str\<close> operations of Python that the modelled code uses, and the two number
  parsers \<open>int(s)\<close> and \<open>float(s)\<close>.  A string is a list of characters with code points
  below 256.  The lemmas in \<open>text_simps\<close> describe searching and replacing: they carry
  every proof about the source patchers.
\<close>

section \<open>Characters\<close>

definition ord_c :: "char \<Rightarrow> nat" where
  "ord_c c = of_char c"

definition is_digit_c :: "char \<Rightarrow> bool" where
  "is_digit_c c \<longleftrightarrow> 48 \<le> ord_c c \<and> ord_c c \<le> 57"

definition is_alpha_c :: "char \<Rightarrow> bool" where
  "is_alpha_c c \<longleftrightarrow> (65 \<le> ord_c c \<and> ord_c c \<le> 90) \<or> (97 \<le> ord_c c \<and> ord_c c \<le> 122)"

text \<open>White space as \<open>str.strip\<close> and \<open>str.isspace\<close> see it, below code point 256.\<close>

definition is_space_c :: "char \<Rightarrow> bool" where
  "is_space_c c \<longleftrightarrow> (9 \<le> ord_c c \<and> ord_c c \<le> 13) \<or> (28 \<le> ord_c c \<and> ord_c c \<le> 32)
     \<or> ord_c c = 133 \<or> ord_c c = 160"

definition lower_c :: "char \<Rightarrow> char" where
  "lower_c c = (if (65 \<le> ord_c c \<and> ord_c c \<le> 90)
       \<or> (192 \<le> ord_c c \<and> ord_c c \<le> 222 \<and> ord_c c \<noteq> 215)
     then char_of (ord_c c + 32) else c)"

definition digit_val :: "char \<Rightarrow> nat" where
  "digit_val c = ord_c c - 48"

definition digit_char :: "nat \<Rightarrow> char" where
  "digit_char d = char_of (48 + d)"

lemma ord_digit_char: "d < 10 \<Longrightarrow> ord_c (digit_char d) = 48 + d"
  by (simp add: ord_c_def digit_char_def of_char_of)

lemma is_digit_digit_char [simp]: "d < 10 \<Longrightarrow> is_digit_c (digit_char d)"
  by (simp add: is_digit_c_def ord_digit_char)

lemma digit_val_digit_char [simp]: "d < 10 \<Longrightarrow> digit_val (digit_char d) = d"
  by (simp add: digit_val_def ord_digit_char)

lemma digit_val_lt: "is_digit_c c \<Longrightarrow> digit_val c < 10"
  by (auto simp: is_digit_c_def digit_val_def)

section \<open>Trimming, case and splitting\<close>

definition lstrip_by :: "(char \<Rightarrow> bool) \<Rightarrow> string \<Rightarrow> string" where
  "lstrip_by p s = dropWhile p s"

definition rstrip_by :: "(char \<Rightarrow> bool) \<Rightarrow> string \<Rightarrow> string" where
  "rstrip_by p s = rev (dropWhile p (rev s))"

definition strip_by :: "(char \<Rightarrow> bool) \<Rightarrow> string \<Rightarrow> string" where
  "strip_by p s = rstrip_by p (lstrip_by p s)"

abbreviation strip :: "string \<Rightarrow> string" where
  "strip \<equiv> strip_by is_space_c"

abbreviation lower :: "string \<Rightarrow> string" where
  "lower \<equiv> map lower_c"

lemma strip_by_id:
  "(s = [] \<or> (\<not> p (hd s) \<and> \<not> p (last s))) \<Longrightarrow> strip_by p s = s"
  by (cases s) (auto simp: strip_by_def rstrip_by_def lstrip_by_def hd_rev
        dropWhile_eq_self_iff split: if_splits)

text \<open>\<open>split_on c s\<close> is \<open>s.split(c)\<close> for a one-character separator.\<close>

fun split_on :: "char \<Rightarrow> string \<Rightarrow> string list" where
  "split_on c [] = [[]]"
| "split_on c (x # xs) =
     (if x = c then [] # split_on c xs
      else (case split_on c xs of [] \<Rightarrow> [[x]] | w # ws \<Rightarrow> (x # w) # ws))"

lemma split_on_nonempty [simp]: "split_on c s \<noteq> []"
  by (induction s) (auto split: list.splits)

text \<open>\<open>join_with c ws\<close> is \<open>c.join(ws)\<close>.\<close>

fun join_with :: "string \<Rightarrow> string list \<Rightarrow> string" where
  "join_with c [] = []"
| "join_with c [w] = w"
| "join_with c (w # v # ws) = w @ c @ join_with c (v # ws)"

lemma split_on_noSep: "c \<notin> set w \<Longrightarrow> split_on c w = [w]"
  by (induction w) auto

lemma split_on_append_sep: "c \<notin> set w \<Longrightarrow> split_on c (w @ c # s) = w # split_on c s"
  by (induction w) auto

lemma split_join:
  "ws \<noteq> [] \<Longrightarrow> \<forall>w\<in>set ws. c \<notin> set w \<Longrightarrow> split_on c (join_with [c] ws) = ws"
  by (induction "[c]" ws rule: join_with.induct) (auto simp: split_on_noSep split_on_append_sep)

lemma join_split: "join_with [c] (split_on c s) = s"
proof (induction s)
  case IH: (Cons x xs)
  show ?case
  proof (cases "split_on c xs")
    case (Cons w ws)
    with IH show ?thesis by (cases ws) auto
  qed simp
qed simp

text \<open>\<open>partition_on c s\<close> is \<open>s.partition(c)\<close>: head, whether the separator occurs, tail.\<close>

fun partition_on :: "char \<Rightarrow> string \<Rightarrow> string \<times> bool \<times> string" where
  "partition_on c [] = ([], False, [])"
| "partition_on c (x # xs) =
     (if x = c then ([], True, xs)
      else (case partition_on c xs of (h, b, t) \<Rightarrow> (x # h, b, t)))"

lemma partition_on_noSep: "c \<notin> set s \<Longrightarrow> partition_on c s = (s, False, [])"
  by (induction s) auto

lemma partition_on_sep: "c \<notin> set h \<Longrightarrow> partition_on c (h @ c # t) = (h, True, t)"
  by (induction h) auto

lemma partition_on_spec:
  "partition_on c s = (h, b, t) \<Longrightarrow>
     c \<notin> set h \<and> (if b then s = h @ c # t else s = h \<and> t = [])"
  by (induction s arbitrary: h b t) (auto split: if_splits prod.splits)

section \<open>Searching and replacing\<close>

text \<open>\<open>starts_with p s\<close> is \<open>s.startswith(p)\<close>.\<close>

definition starts_with :: "string \<Rightarrow> string \<Rightarrow> bool" where
  "starts_with p s \<longleftrightarrow> take (length p) s = p"

definition ends_with :: "string \<Rightarrow> string \<Rightarrow> bool" where
  "ends_with p s \<longleftrightarrow> starts_with (rev p) (rev s)"

lemma starts_with_iff [text_simps]: "starts_with p s \<longleftrightarrow> (\<exists>t. s = p @ t)"
  by (metis append_take_drop_id append_eq_conv_conj starts_with_def)

lemma starts_with_Nil [simp]: "starts_with [] s"
  by (simp add: starts_with_def)

lemma starts_with_append [simp]: "starts_with p (p @ t)"
  by (simp add: starts_with_def)

lemma starts_with_length: "starts_with p s \<Longrightarrow> length p \<le> length s"
  by (auto simp: starts_with_iff)

lemma ends_with_iff: "ends_with p s \<longleftrightarrow> (\<exists>t. s = t @ p)"
proof
  assume "ends_with p s"
  then obtain t where "rev s = rev p @ t" by (auto simp: ends_with_def starts_with_iff)
  then have "s = rev t @ p" by (metis rev_append rev_rev_ident)
  then show "\<exists>t. s = t @ p" ..
qed (auto simp: ends_with_def starts_with_iff)

text \<open>\<open>contains p s\<close> is \<open>p in s\<close>.\<close>

fun contains :: "string \<Rightarrow> string \<Rightarrow> bool" where
  "contains p [] = (p = [])"
| "contains p (c # cs) = (starts_with p (c # cs) \<or> contains p cs)"

lemma contains_iff [text_simps]: "contains p s \<longleftrightarrow> (\<exists>a b. s = a @ p @ b)"
proof (induction s)
  case (Cons c cs)
  show ?case
  proof
    assume "contains p (c # cs)"
    then consider "starts_with p (c # cs)" | "contains p cs" by auto
    then show "\<exists>a b. c # cs = a @ p @ b"
    proof cases
      case 1
      then obtain t where "c # cs = [] @ p @ t" by (auto simp: starts_with_iff)
      then show ?thesis by blast
    next
      case 2
      with Cons.IH obtain a b where "c # cs = (c # a) @ p @ b" by auto
      then show ?thesis by blast
    qed
  next
    assume "\<exists>a b. c # cs = a @ p @ b"
    then obtain a b where e: "c # cs = a @ p @ b" by blast
    show "contains p (c # cs)"
    proof (cases a)
      case Nil
      with e have "starts_with p (c # cs)" by (auto simp: starts_with_iff)
      then show ?thesis by simp
    next
      case (Cons x a')
      with e Cons.IH show ?thesis by auto
    qed
  qed
qed simp

lemma contains_refl [simp]: "contains p p"
  by (metis append_Nil append_Nil2 contains_iff)

lemma contains_appendI1: "contains p s \<Longrightarrow> contains p (s @ t)"
  by (metis append.assoc contains_iff)

lemma contains_appendI2: "contains p t \<Longrightarrow> contains p (s @ t)"
  by (metis append.assoc contains_iff)

lemma contains_trans: "contains p q \<Longrightarrow> contains q s \<Longrightarrow> contains p s"
  by (metis contains_appendI1 contains_appendI2 contains_iff)

text \<open>\<open>text_count p s\<close> is \<open>s.count(p)\<close>: disjoint occurrences, from the left.\<close>

function text_count :: "string \<Rightarrow> string \<Rightarrow> nat" where
  "text_count p s =
     (if p = [] then length s + 1
      else if s = [] then 0
      else if starts_with p s then Suc (text_count p (drop (length p) s))
      else text_count p (tl s))"
  by pat_completeness auto
termination
  by (relation "measure (\<lambda>(p, s). length s)") (auto simp: starts_with_iff)

declare text_count.simps [simp del]

lemma text_count_empty [simp]: "p \<noteq> [] \<Longrightarrow> text_count p [] = 0"
  by (simp add: text_count.simps)

lemma text_count_Cons:
  "p \<noteq> [] \<Longrightarrow> text_count p (c # cs) =
     (if starts_with p (c # cs) then Suc (text_count p (drop (length p) (c # cs)))
      else text_count p cs)"
  by (simp add: text_count.simps [of p "c # cs"])

lemma text_count_0_iff [text_simps]:
  "p \<noteq> [] \<Longrightarrow> text_count p s = 0 \<longleftrightarrow> \<not> contains p s"
proof (induction s)
  case (Cons c cs)
  then show ?case by (auto simp: text_count_Cons)
qed simp

lemma text_count_pos_iff [text_simps]:
  "p \<noteq> [] \<Longrightarrow> 0 < text_count p s \<longleftrightarrow> contains p s"
  using text_count_0_iff [of p s] by auto

lemma text_count_Nil_pos [simp]: "0 < text_count [] s"
  by (simp add: text_count.simps)

lemma text_count_contains: "text_count p s \<noteq> 0 \<Longrightarrow> contains p s"
  by (cases "p = []") (auto simp: text_simps)

text \<open>\<open>replace_first old new s\<close> is \<open>s.replace(old, new, 1)\<close>.\<close>

fun replace_first :: "string \<Rightarrow> string \<Rightarrow> string \<Rightarrow> string" where
  "replace_first old new [] = (if old = [] then new else [])"
| "replace_first old new (c # cs) =
     (if starts_with old (c # cs) then new @ drop (length old) (c # cs)
      else c # replace_first old new cs)"

lemma replace_first_absent: "\<not> contains old s \<Longrightarrow> replace_first old new s = s"
  by (induction s) auto

lemma replace_first_split:
  "contains old s \<Longrightarrow> \<exists>a b. s = a @ old @ b \<and> replace_first old new s = a @ new @ b"
proof (induction s)
  case Nil
  then show ?case by simp
next
  case (Cons c cs)
  show ?case
  proof (cases "starts_with old (c # cs)")
    case True
    then obtain t where t: "c # cs = old @ t" by (auto simp: starts_with_iff)
    have "replace_first old new (c # cs) = new @ drop (length old) (c # cs)"
      using True by simp
    then have "replace_first old new (c # cs) = new @ t" by (simp add: t)
    with t show ?thesis by (metis append_Nil)
  next
    case False
    with Cons obtain a b where "cs = a @ old @ b" "replace_first old new cs = a @ new @ b"
      by auto
    with False show ?thesis by (metis append_Cons replace_first.simps(2))
  qed
qed

lemma contains_replace_first: "contains old s \<Longrightarrow> contains new (replace_first old new s)"
  using replace_first_split [of old s new] by (auto simp: contains_iff)

text \<open>\<open>find_from p i s\<close> is \<open>s.find(p, i)\<close> for \<open>0 \<le> i\<close>, with \<open>None\<close> for -1.\<close>

fun find_text :: "string \<Rightarrow> string \<Rightarrow> nat option" where
  "find_text p [] = (if p = [] then Some 0 else None)"
| "find_text p (c # cs) =
     (if starts_with p (c # cs) then Some 0 else map_option Suc (find_text p cs))"

definition find_from :: "string \<Rightarrow> nat \<Rightarrow> string \<Rightarrow> nat option" where
  "find_from p i s =
     (if length s < i then None else map_option (\<lambda>k. k + i) (find_text p (drop i s)))"

lemma find_text_Some:
  "find_text p s = Some i \<Longrightarrow>
     starts_with p (drop i s) \<and> i \<le> length s \<and> (\<forall>j<i. \<not> starts_with p (drop j s))"
proof (induction s arbitrary: i)
  case (Cons c cs)
  then show ?case
  proof (cases "starts_with p (c # cs)")
    case False
    with Cons.prems obtain k where k: "i = Suc k" "find_text p cs = Some k" by auto
    have "\<not> starts_with p (drop j (c # cs))" if "j < i" for j
      using that False k Cons.IH [of k] by (cases j) auto
    with k Cons.IH [of k] show ?thesis by auto
  qed (use Cons.prems in auto)
qed (auto split: if_splits)

lemma starts_with_Nil2 [simp]: "starts_with p [] \<longleftrightarrow> p = []"
  by (auto simp: starts_with_iff)

lemma find_text_None: "find_text p s = None \<longleftrightarrow> \<not> contains p s"
  by (induction s) auto

lemma find_text_least:
  "starts_with p (drop i s) \<Longrightarrow> i \<le> length s \<Longrightarrow> \<forall>j<i. \<not> starts_with p (drop j s)
     \<Longrightarrow> find_text p s = Some i"
proof (induction s arbitrary: i)
  case (Cons c cs)
  show ?case
  proof (cases i)
    case 0
    with Cons.prems show ?thesis by simp
  next
    case (Suc k)
    have "\<not> starts_with p (c # cs)" using Cons.prems(3) Suc by fastforce
    moreover have "find_text p cs = Some k"
      using Cons.prems Suc by (intro Cons.IH) force+
    ultimately show ?thesis using Suc by simp
  qed
qed auto

section \<open>Reading numbers\<close>

text \<open>
  \<open>digit_part s\<close> reads digits with single underscores between them, the way \<open>int\<close> and
  \<open>float\<close> do: it returns the digits and the rest, or \<open>None\<close> when \<open>s\<close> does not start
  with a digit.
\<close>

fun digit_part :: "string \<Rightarrow> (nat list \<times> string) option" where
  "digit_part [] = None"
| "digit_part (c # cs) =
     (if is_digit_c c then
        (case cs of
           [] \<Rightarrow> Some ([digit_val c], [])
         | d # ds \<Rightarrow>
             (if is_digit_c d then
                map_option (\<lambda>(v, r). (digit_val c # v, r)) (digit_part cs)
              else if d = CHR ''_'' then
                (case digit_part ds of
                   None \<Rightarrow> Some ([digit_val c], cs)
                 | Some (v, r) \<Rightarrow> Some (digit_val c # v, r))
              else Some ([digit_val c], cs)))
      else None)"

definition digits_val :: "nat list \<Rightarrow> nat" where
  "digits_val ds = foldl (\<lambda>n d. 10 * n + d) 0 ds"

definition read_sign :: "string \<Rightarrow> int \<times> string" where
  "read_sign s = (case s of
       CHR ''-'' # r \<Rightarrow> (- 1, r)
     | CHR ''+'' # r \<Rightarrow> (1, r)
     | _ \<Rightarrow> (1, s))"

text \<open>\<open>parse_int s\<close> is \<open>int(s)\<close>, with \<open>None\<close> for \<open>ValueError\<close>.\<close>

definition parse_int :: "string \<Rightarrow> int option" where
  "parse_int s = (case read_sign (strip s) of (sg, r) \<Rightarrow>
     (case digit_part r of Some (ds, []) \<Rightarrow> Some (sg * int (digits_val ds)) | _ \<Rightarrow> None))"

text \<open>\<open>float(s)\<close>: a finite number, an infinity, a nan, or \<open>ValueError\<close> (\<open>None\<close>).\<close>

datatype py_num = Fin real | PosInf | NegInf | NaN

definition read_exp :: "string \<Rightarrow> int option" where
  "read_exp s = (if s = [] then Some 0
     else if lower_c (hd s) = CHR ''e'' then
       (case read_sign (tl s) of (sg, r) \<Rightarrow>
          (case digit_part r of Some (ds, []) \<Rightarrow> Some (sg * int (digits_val ds)) | _ \<Rightarrow> None))
     else None)"

definition read_frac :: "string \<Rightarrow> nat list \<times> string" where
  "read_frac s = (case s of CHR ''.'' # r \<Rightarrow>
       (case digit_part r of None \<Rightarrow> ([], r) | Some (ds, r') \<Rightarrow> (ds, r'))
     | _ \<Rightarrow> ([], s))"

definition ten_pow :: "int \<Rightarrow> real" where
  "ten_pow e = (if 0 \<le> e then 10 ^ nat e else 1 / 10 ^ nat (- e))"

definition decimal_val :: "nat list \<Rightarrow> nat list \<Rightarrow> int \<Rightarrow> real" where
  "decimal_val ip fp e = real (digits_val (ip @ fp)) * ten_pow (e - int (length fp))"

definition parse_unsigned :: "string \<Rightarrow> py_num option" where
  "parse_unsigned r =
     (if lower r \<in> {''inf'', ''infinity''} then Some PosInf
      else if lower r = ''nan'' then Some NaN
      else (case (case digit_part r of None \<Rightarrow> ([], r) | Some p \<Rightarrow> p) of (ip, r1) \<Rightarrow>
        (case read_frac r1 of (fp, r2) \<Rightarrow>
          (if ip = [] \<and> fp = [] then None
           else map_option (\<lambda>e. Fin (decimal_val ip fp e)) (read_exp r2)))))"

definition parse_float :: "string \<Rightarrow> py_num option" where
  "parse_float s = (case read_sign (strip s) of (sg, r) \<Rightarrow>
     map_option (\<lambda>v. case v of
         Fin x \<Rightarrow> Fin (of_int sg * x)
       | PosInf \<Rightarrow> (if sg = 1 then PosInf else NegInf)
       | NegInf \<Rightarrow> NegInf | NaN \<Rightarrow> NaN) (parse_unsigned r))"

definition is_finite :: "py_num \<Rightarrow> bool" where
  "is_finite v = (case v of Fin _ \<Rightarrow> True | _ \<Rightarrow> False)"

section \<open>Writing numbers\<close>

fun show_nat :: "nat \<Rightarrow> string" where
  "show_nat n = (if n < 10 then [digit_char n] else show_nat (n div 10) @ [digit_char (n mod 10)])"

declare show_nat.simps [simp del]

definition show_int :: "int \<Rightarrow> string" where
  "show_int i = (if i < 0 then CHR ''-'' # show_nat (nat (- i)) else show_nat (nat i))"

lemma digit_char_distinct:
  assumes "d < 10"
  shows "\<not> is_space_c (digit_char d)" "digit_char d \<noteq> CHR ''-''" "digit_char d \<noteq> CHR ''+''"
    "digit_char d = CHR ''0'' \<longleftrightarrow> d = 0"
proof -
  have o: "ord_c (digit_char d) = 48 + d" by (rule ord_digit_char [OF assms])
  have "ord_c (CHR ''-'') = 45" "ord_c (CHR ''+'') = 43" "ord_c (CHR ''0'') = 48"
    by (simp_all add: ord_c_def)
  with o show "digit_char d \<noteq> CHR ''-''" "digit_char d \<noteq> CHR ''+''" by auto
  show "\<not> is_space_c (digit_char d)" using o assms by (simp add: is_space_c_def)
  have z: "digit_char 0 = CHR ''0''" by code_simp
  with o \<open>ord_c (CHR ''0'') = 48\<close> show "digit_char d = CHR ''0'' \<longleftrightarrow> d = 0" by auto
qed

lemma digit_part_digits:
  "ds \<noteq> [] \<Longrightarrow> \<forall>d\<in>set ds. d < 10 \<Longrightarrow> digit_part (map digit_char ds) = Some (ds, [])"
proof (induction ds)
  case (Cons d ds)
  then show ?case by (cases ds) auto
qed simp

text \<open>Reading what was written.\<close>

lemma show_nat_digits:
  "\<exists>ds. show_nat n = map digit_char ds \<and> ds \<noteq> [] \<and> (\<forall>d\<in>set ds. d < 10) \<and> digits_val ds = n"
proof (induction n rule: show_nat.induct)
  case (1 n)
  show ?case
  proof (cases "n < 10")
    case True
    then have "show_nat n = map digit_char [n]" by (subst show_nat.simps) simp
    with True show ?thesis by (intro exI [of _ "[n]"]) (simp add: digits_val_def)
  next
    case False
    then obtain ds where "show_nat (n div 10) = map digit_char ds" "ds \<noteq> []"
      "\<forall>d\<in>set ds. d < 10" "digits_val ds = n div 10"
      using "1.IH" by blast
    moreover have "show_nat n = show_nat (n div 10) @ [digit_char (n mod 10)]"
      using False by (subst show_nat.simps) simp
    ultimately show ?thesis
      by (intro exI [of _ "ds @ [n mod 10]"]) (auto simp: digits_val_def)
  qed
qed

lemma parse_int_show_int [simp]: "parse_int (show_int i) = Some i"
proof -
  obtain ds where ds: "show_nat (nat \<bar>i\<bar>) = map digit_char ds" "ds \<noteq> []"
    "\<forall>d\<in>set ds. d < 10" "digits_val ds = nat \<bar>i\<bar>"
    using show_nat_digits by blast
  have h: "hd ds < 10" "last ds < 10" using ds(2,3) by simp_all
  have sp: "\<not> is_space_c (CHR ''-'')" by code_simp
  show ?thesis
  proof (cases "i < 0")
    case True
    then have s: "show_int i = CHR ''-'' # map digit_char ds" using ds(1) by (simp add: show_int_def)
    have "strip (show_int i) = show_int i"
      using ds(2) h sp by (intro strip_by_id) (simp add: s last_map digit_char_distinct)
    then show ?thesis
      using True ds by (simp add: parse_int_def s read_sign_def digit_part_digits)
  next
    case False
    then have s: "show_int i = map digit_char ds" using ds(1) by (simp add: show_int_def)
    have "strip (show_int i) = show_int i"
      using ds(2) h by (intro strip_by_id) (simp add: s last_map hd_map digit_char_distinct)
    moreover have "read_sign (show_int i) = (1, show_int i)"
      using ds(2) h digit_char_distinct(2,3) [of "hd ds"]
      by (cases ds) (auto simp: s read_sign_def split: char.splits bool.splits)
    ultimately show ?thesis
      using False ds by (simp add: parse_int_def s digit_part_digits)
  qed
qed

lemma show_int_inj [simp]: "show_int i = show_int j \<longleftrightarrow> i = j"
  by (metis parse_int_show_int option.inject)

lemma parse_zero_point:
  assumes "ds \<noteq> []" "\<forall>d\<in>set ds. d < 10"
  shows "parse_float (''0.'' @ map digit_char ds) =
     Some (Fin (real (digits_val ds) / 10 ^ length ds))"
proof -
  have "last ds \<in> set ds" using assms(1) by simp
  then have "\<not> is_space_c (last (''0.'' @ map digit_char ds))"
    using assms digit_char_distinct(1) by (simp add: last_map)
  moreover have "\<not> is_space_c (CHR ''0'')" by code_simp
  ultimately have s: "strip (''0.'' @ map digit_char ds) = ''0.'' @ map digit_char ds"
    by (intro strip_by_id) simp
  have sg: "read_sign (''0.'' @ map digit_char ds) = (1, ''0.'' @ map digit_char ds)"
    by (simp add: read_sign_def)
  have l: "lower_c (CHR ''0'') = CHR ''0''" by code_simp
  have d0: "is_digit_c (CHR ''0'')" "\<not> is_digit_c (CHR ''.'')" "digit_val (CHR ''0'') = 0"
    by code_simp+
  have dp: "digit_part (''0.'' @ map digit_char ds) = Some ([0], ''.'' @ map digit_char ds)"
    by (simp add: d0)
  have "digits_val (0 # ds) = digits_val ds" by (simp add: digits_val_def)
  then have "parse_unsigned (''0.'' @ map digit_char ds) =
      Some (Fin (real (digits_val ds) / 10 ^ length ds))"
    using assms unfolding parse_unsigned_def dp
    by (simp add: l read_frac_def digit_part_digits read_exp_def decimal_val_def ten_pow_def)
  with s sg show ?thesis by (simp add: parse_float_def)
qed

end
