(* ===== verification/Py_Stats.thy ===== *)
theory Py_Stats
  imports Py_Prelude "HOL-Library.Multiset"
begin

text \<open>
  Order statistics as the tools of the repository use them: \<open>statistics.median\<close>,
  \<open>statistics.fmean\<close>, \<open>round(x, n)\<close> and the nearest-rank index.  The lemma
  \<open>sort_nth_le_iff\<close> relates the \<open>i\<close>-th smallest value to the number of values below a
  bound; every fact about medians and percentiles comes from it.
\<close>

section \<open>Ranks\<close>

definition count_le :: "real \<Rightarrow> real list \<Rightarrow> nat" where
  "count_le c xs = length (filter (\<lambda>x. x \<le> c) xs)"

lemma sorted_nth_le_iff:
  "sorted ys \<Longrightarrow> i < length ys \<Longrightarrow> ys ! i \<le> c \<longleftrightarrow> i < count_le c ys"
proof (induction ys arbitrary: i)
  case (Cons y ys)
  show ?case
  proof (cases i)
    case 0
    show ?thesis
    proof (cases "y \<le> c")
      case False
      with Cons.prems(1) have "\<forall>x\<in>set ys. \<not> x \<le> c" by auto
      then have "filter (\<lambda>x. x \<le> c) ys = []" by (simp add: filter_empty_conv)
      with 0 False show ?thesis by (simp add: count_le_def)
    qed (simp add: 0 count_le_def)
  next
    case (Suc k)
    show ?thesis
    proof (cases "y \<le> c")
      case False
      with Cons.prems(1) have "\<forall>x\<in>set ys. \<not> x \<le> c" by auto
      moreover from this have "filter (\<lambda>x. x \<le> c) ys = []" by (simp add: filter_empty_conv)
      ultimately show ?thesis using False Suc Cons.prems(2) by (auto simp: count_le_def)
    qed (use Cons Suc in \<open>simp add: count_le_def\<close>)
  qed
qed simp

lemma count_le_sort [simp]: "count_le c (sort xs) = count_le c xs"
  unfolding count_le_def by (metis filter_sort length_sort)

lemma sort_nth_le_iff [stat_simps]:
  "i < length xs \<Longrightarrow> sort xs ! i \<le> c \<longleftrightarrow> i < count_le c xs"
  using sorted_nth_le_iff [of "sort xs" i c] by simp

lemma count_le_length: "count_le c xs \<le> length xs"
  by (simp add: count_le_def)

lemma sort_nth_mem: "i < length xs \<Longrightarrow> sort xs ! i \<in> set xs"
  by (metis length_sort nth_mem set_sort)

lemma sort_map_mono:
  fixes f :: "real \<Rightarrow> real"
  shows "mono f \<Longrightarrow> sort (map f xs) = map f (sort xs)"
proof (rule properties_for_sort)
  assume f: "mono f"
  show "mset (map f (sort xs)) = mset (map f xs)" by simp
  show "sorted (map f (sort xs))"
    unfolding sorted_map
    by (rule sorted_wrt_mono_rel [OF _ sorted_sort]) (use f in \<open>simp add: mono_def\<close>)
qed

section \<open>Median\<close>

text \<open>\<open>statistics.median\<close> of a non-empty list.\<close>

definition median :: "real list \<Rightarrow> real" where
  "median xs = (let n = length xs; ys = sort xs in
     if odd n then ys ! (n div 2) else (ys ! (n div 2 - 1) + ys ! (n div 2)) / 2)"

definition median_opt :: "real list \<Rightarrow> real option" where
  "median_opt xs = (if xs = [] then None else Some (median xs))"

lemma median_scale:
  assumes "xs \<noteq> []" and "0 < c"
  shows "median (map (\<lambda>x. c * x) xs) = c * median xs"
proof -
  have "sort (map (\<lambda>x. c * x) xs) = map (\<lambda>x. c * x) (sort xs)"
    using assms(2) by (intro sort_map_mono) (simp add: mono_def)
  moreover have "length xs div 2 < length xs" "length xs div 2 - 1 < length xs"
    using assms(1) by (cases xs; simp)+
  ultimately show ?thesis
    by (simp add: median_def Let_def distrib_left)
qed

lemma median_between:
  assumes "xs \<noteq> []" and "\<forall>x\<in>set xs. lo \<le> x \<and> x \<le> hi"
  shows "lo \<le> median xs \<and> median xs \<le> hi"
proof -
  have i: "length xs div 2 < length xs" "length xs div 2 - 1 < length xs"
    using assms(1) by (cases xs; simp)+
  have "lo \<le> sort xs ! i \<and> sort xs ! i \<le> hi" if "i < length xs" for i
    using sort_nth_mem [OF that] assms(2) by blast
  from this [OF i(1)] this [OF i(2)] show ?thesis
    by (simp add: median_def Let_def)
qed

lemma median_pos: "xs \<noteq> [] \<Longrightarrow> \<forall>x\<in>set xs. 0 < x \<Longrightarrow> 0 < median xs"
proof -
  assume a: "xs \<noteq> []" "\<forall>x\<in>set xs. 0 < x"
  have "\<forall>x\<in>set xs. Min (set xs) \<le> x \<and> x \<le> Max (set xs)" by simp
  with a(1) have "Min (set xs) \<le> median xs" using median_between by blast
  moreover have "Min (set xs) \<in> set xs" using a(1) by (intro Min_in) auto
  ultimately show ?thesis using a(2) by fastforce
qed

text \<open>A strict majority of values at or below \<open>c\<close> pulls the median to \<open>c\<close> or below.\<close>

lemma median_le_majority:
  assumes "length xs < 2 * count_le c xs"
  shows "median xs \<le> c"
proof -
  have n: "xs \<noteq> []" using assms by (auto simp: count_le_def)
  then have i: "length xs div 2 < length xs" "length xs div 2 - 1 < length xs"
    by (cases xs; simp)+
  have "sort xs ! (length xs div 2) \<le> c" "sort xs ! (length xs div 2 - 1) \<le> c"
    using assms i by (simp_all add: sort_nth_le_iff)
  then show ?thesis by (simp add: median_def Let_def)
qed

lemma median_le_odd_iff:
  assumes "odd (length xs)"
  shows "median xs \<le> c \<longleftrightarrow> length xs < 2 * count_le c xs"
proof -
  have i: "length xs div 2 < length xs" using assms by (cases xs) auto
  have "median xs \<le> c \<longleftrightarrow> length xs div 2 < count_le c xs"
    using assms i by (simp add: median_def Let_def sort_nth_le_iff)
  with assms show ?thesis by presburger
qed

section \<open>Nearest rank\<close>

text \<open>The \<open>r\<close>-th smallest value, \<open>1 \<le> r \<le> n\<close>.\<close>

definition nth_smallest :: "nat \<Rightarrow> real list \<Rightarrow> real" where
  "nth_smallest r xs = sort xs ! (r - 1)"

text \<open>
  It is a sample, at least \<open>r\<close> samples are at or below it, and it is the least sample
  with that property.
\<close>

lemma nth_smallest_spec:
  assumes "1 \<le> r" and "r \<le> length xs"
  shows "nth_smallest r xs \<in> set xs"
    and "r \<le> count_le (nth_smallest r xs) xs"
    and "\<And>c. r \<le> count_le c xs \<Longrightarrow> nth_smallest r xs \<le> c"
proof -
  have i: "r - 1 < length xs" using assms by simp
  show "nth_smallest r xs \<in> set xs"
    using i by (simp add: nth_smallest_def sort_nth_mem)
  have "r - 1 < count_le (nth_smallest r xs) xs"
    using i by (simp add: nth_smallest_def flip: sort_nth_le_iff)
  then show "r \<le> count_le (nth_smallest r xs) xs" by simp
  show "nth_smallest r xs \<le> c" if "r \<le> count_le c xs" for c
    using that i assms(1) by (simp add: nth_smallest_def sort_nth_le_iff)
qed

lemma nth_smallest_mono:
  assumes "1 \<le> r" "r \<le> s" "s \<le> length xs"
  shows "nth_smallest r xs \<le> nth_smallest s xs"
  using nth_smallest_spec [of s xs] nth_smallest_spec [of r xs] assms by auto

lemma nth_smallest_last:
  assumes "xs \<noteq> []"
  shows "nth_smallest (length xs) xs = Max (set xs)"
proof (rule antisym)
  have l: "1 \<le> length xs" using assms by (cases xs) auto
  show "nth_smallest (length xs) xs \<le> Max (set xs)"
    using nth_smallest_spec(1) [OF l order_refl] assms by simp
  have "Max (set xs) \<in> set xs" using assms by (intro Max_in) auto
  moreover have "\<forall>x\<in>set xs. x \<le> nth_smallest (length xs) xs"
    using nth_smallest_spec(2) [OF l order_refl] unfolding count_le_def
    by (metis filter_id_conv le_antisym length_filter_less length_filter_le not_less)
  ultimately show "Max (set xs) \<le> nth_smallest (length xs) xs" by blast
qed

section \<open>Mean\<close>

definition mean :: "real list \<Rightarrow> real" where
  "mean xs = sum_list xs / real (length xs)"

definition mean_opt :: "real list \<Rightarrow> real option" where
  "mean_opt xs = (if xs = [] then None else Some (mean xs))"

lemma sum_list_between:
  fixes xs :: "real list"
  shows "\<forall>x\<in>set xs. lo \<le> x \<and> x \<le> hi \<Longrightarrow>
     real (length xs) * lo \<le> sum_list xs \<and> sum_list xs \<le> real (length xs) * hi"
  by (induction xs) (auto simp: algebra_simps)

lemma mean_between:
  assumes "xs \<noteq> []" and "\<forall>x\<in>set xs. lo \<le> x \<and> x \<le> hi"
  shows "lo \<le> mean xs \<and> mean xs \<le> hi"
  using sum_list_between [OF assms(2)] assms(1)
  by (simp add: mean_def field_simps)

section \<open>Rounding\<close>

text \<open>\<open>round(x, n)\<close>: to the nearest multiple of \<open>10 ^ -n\<close>, halves to the even one.\<close>

definition round_half_even :: "real \<Rightarrow> int" where
  "round_half_even x = (let f = \<lfloor>x\<rfloor>; d = x - of_int f in
     if d < 1 / 2 then f else if d > 1 / 2 then f + 1 else if even f then f else f + 1)"

definition py_round :: "nat \<Rightarrow> real \<Rightarrow> real" where
  "py_round n x = of_int (round_half_even (x * 10 ^ n)) / 10 ^ n"

lemma round_half_even_error: "\<bar>of_int (round_half_even x) - x\<bar> \<le> 1 / 2"
proof -
  have "of_int \<lfloor>x\<rfloor> \<le> x" "x < of_int \<lfloor>x\<rfloor> + 1" by linarith+
  then show ?thesis
    unfolding round_half_even_def Let_def by (simp split: if_split)
qed

lemma py_round_error: "\<bar>py_round n x - x\<bar> \<le> 1 / (2 * 10 ^ n)"
proof -
  have "py_round n x - x = (of_int (round_half_even (x * 10 ^ n)) - x * 10 ^ n) / 10 ^ n"
    by (simp add: py_round_def field_simps)
  then have "\<bar>py_round n x - x\<bar> = \<bar>of_int (round_half_even (x * 10 ^ n)) - x * 10 ^ n\<bar> / 10 ^ n"
    by simp
  also have "\<dots> \<le> (1 / 2) / 10 ^ n"
    by (rule divide_right_mono [OF round_half_even_error]) simp
  finally show ?thesis by simp
qed

end
