(* ===== verification/Adaptive_K.thy ===== *)
theory Adaptive_K
  imports Py_Text Py_Stats
begin

text \<open>
  The adaptive verification length of \<open>vllm-exl3/overlay/patch_adaptive_k.py\<close>: the
  class \<open>_Glm53AdaptiveK\<close> that the patch installs in the scheduler (an exponential
  moving average of accepted draft tokens per request, from which a uniform verified
  width of the batch is chosen), the patched \<open>update_draft_token_ids\<close>, and the CUDA
  graph helper.  The class is the record \<open>ak\<close>; each method is a function that returns
  the new record.  \<open>math.ceil\<close> is \<open>\<lceil>_\<rceil>\<close>; \<open>min\<close> and \<open>max\<close> of an empty
  list raise \<open>ValueError\<close>, as the code does with an empty candidate set.  Log output is
  not modelled.  Reading the override file is an argument (\<open>ak_file\<close>): for each field
  what Python's coercion of the JSON value yields, an exception included.
\<close>

section \<open>State\<close>

record ak =
  enabled :: bool
  graphs_enabled :: bool
  alpha :: real
  margin :: real
  min_steps :: int
  k_set :: "int list"
  saturate :: string
  hist_every :: int
  batch_margin :: bool
  pos_trim :: bool
  ema_state :: "(string \<times> (real \<times> nat)) list"
  hist :: "(int \<times> nat) list"
  steps :: nat
  k_max :: int
  boot_set :: "int list"
  boot_enabled :: bool
  boot_graphs :: bool
  file_mtime :: "nat option"

type_synonym environ = "string \<Rightarrow> string option"

definition getenv :: "environ \<Rightarrow> string \<Rightarrow> string \<Rightarrow> string" where
  "getenv env key dflt = (case env key of None \<Rightarrow> dflt | Some v \<Rightarrow> v)"

definition flag_on :: "string \<Rightarrow> bool" where
  "flag_on s \<longleftrightarrow> s \<in> {''1'', ''on'', ''true'', ''yes''}"

definition mode_on :: "string \<Rightarrow> bool" where
  "mode_on s \<longleftrightarrow> s \<in> {''ema'', ''on'', ''1''}"

definition env_int :: "environ \<Rightarrow> string \<Rightarrow> string \<Rightarrow> py_exc + int" where
  "env_int env key dflt =
     (case parse_int (getenv env key dflt) of None \<Rightarrow> Inl ValueError | Some i \<Rightarrow> Inr i)"

definition env_float :: "environ \<Rightarrow> string \<Rightarrow> string \<Rightarrow> py_exc + real" where
  "env_float env key dflt =
     (case parse_float (getenv env key dflt) of
        None \<Rightarrow> Inl ValueError
      | Some (Fin x) \<Rightarrow> Inr x
      | Some _ \<Rightarrow> Inl NonFinite)"

text \<open>\<open>{int(x) for x in raw.split(",") if x.strip()}\<close>, sorted.\<close>

definition parse_k_set :: "string \<Rightarrow> py_exc + int list" where
  "parse_k_set raw =
     (case map_res (\<lambda>x. case parse_int x of None \<Rightarrow> Inl ValueError | Some i \<Rightarrow> Inr i)
             (filter (\<lambda>x. strip x \<noteq> []) (split_on CHR '','' raw)) of
        Inl e \<Rightarrow> Inl e
      | Inr ks \<Rightarrow> Inr (sorted_set ks))"

section \<open>The override file\<close>

record ak_override =
  ov_mode :: "string option"
  ov_alpha :: "(py_exc + real) option"
  ov_margin :: "(py_exc + real) option"
  ov_min_steps :: "(py_exc + int) option"
  ov_saturate :: "string option"
  ov_set :: "(py_exc + int list) option"

datatype ak_file = NoFile | BadJson nat | Config nat ak_override

fun mtime_of :: "ak_file \<Rightarrow> nat option" where
  "mtime_of NoFile = None"
| "mtime_of (BadJson t) = Some t"
| "mtime_of (Config t _) = Some t"

text \<open>
  The assignments of \<open>_reload\<close>, in the code's order.  An exception stops the sequence
  and leaves the assignments made so far: the flag of the result says whether the end
  was reached.
\<close>

definition set_alpha :: "ak_override \<Rightarrow> ak \<Rightarrow> py_exc + ak" where
  "set_alpha ov a = (case ov_alpha ov of None \<Rightarrow> Inr a
     | Some (Inl e) \<Rightarrow> Inl e | Some (Inr x) \<Rightarrow> Inr (a\<lparr>alpha := x\<rparr>))"

definition set_margin :: "ak_override \<Rightarrow> ak \<Rightarrow> py_exc + ak" where
  "set_margin ov a = (case ov_margin ov of None \<Rightarrow> Inr a
     | Some (Inl e) \<Rightarrow> Inl e | Some (Inr x) \<Rightarrow> Inr (a\<lparr>margin := x\<rparr>))"

definition set_min_steps :: "ak_override \<Rightarrow> ak \<Rightarrow> py_exc + ak" where
  "set_min_steps ov a = (case ov_min_steps ov of None \<Rightarrow> Inr a
     | Some (Inl e) \<Rightarrow> Inl e | Some (Inr x) \<Rightarrow> Inr (a\<lparr>min_steps := x\<rparr>))"

definition set_saturate :: "ak_override \<Rightarrow> ak \<Rightarrow> py_exc + ak" where
  "set_saturate ov a =
     Inr (a\<lparr>saturate := lower (strip (case ov_saturate ov of None \<Rightarrow> saturate a | Some s \<Rightarrow> s))\<rparr>)"

definition set_k_set :: "ak_override \<Rightarrow> ak \<Rightarrow> py_exc + ak" where
  "set_k_set ov a = (case ov_set ov of None \<Rightarrow> Inr a
     | Some (Inl e) \<Rightarrow> Inl e
     | Some (Inr want) \<Rightarrow>
         (let ks = sorted_set (filter (\<lambda>k. k \<in> set (boot_set a)) want) in
          Inr (a\<lparr>k_set := (if ks = [] then boot_set a else ks)\<rparr>)))"

fun run_sets :: "(ak \<Rightarrow> py_exc + ak) list \<Rightarrow> ak \<Rightarrow> ak \<times> bool" where
  "run_sets [] a = (a, True)"
| "run_sets (f # fs) a = (case f a of Inl _ \<Rightarrow> (a, False) | Inr b \<Rightarrow> run_sets fs b)"

definition apply_override :: "ak_override \<Rightarrow> ak \<Rightarrow> ak" where
  "apply_override ov a =
     (let a0 = a\<lparr>enabled :=
            mode_on (lower (strip (case ov_mode ov of None \<Rightarrow> ''ema'' | Some m \<Rightarrow> m)))\<rparr> in
      (case run_sets [set_alpha ov, set_margin ov, set_min_steps ov, set_saturate ov, set_k_set ov] a0 of
         (b, True) \<Rightarrow> b\<lparr>ema_state := [], hist := []\<rparr>
       | (b, False) \<Rightarrow> b))"

definition reload :: "ak_file \<Rightarrow> ak \<Rightarrow> ak" where
  "reload f a =
     (if \<not> boot_enabled a then a
      else if mtime_of f = file_mtime a then a
      else (let b = a\<lparr>file_mtime := mtime_of f\<rparr> in
        (case f of NoFile \<Rightarrow> b | BadJson _ \<Rightarrow> b | Config _ ov \<Rightarrow> apply_override ov b)))"

section \<open>Construction\<close>

definition ak_init :: "environ \<Rightarrow> ak_file \<Rightarrow> py_exc + ak" where
  "ak_init env f =
     (let mode = lower (strip (getenv env ''GLM53_ADAPTIVE_K'' ''off''));
          capture = lower (strip (getenv env ''GLM53_ADAPTIVE_K_CAPTURE'' ''0''));
          en = mode_on mode; gr = (en \<or> flag_on capture) in
      (case env_float env ''GLM53_ADAPTIVE_K_ALPHA'' ''0.25'' of Inl e \<Rightarrow> Inl e | Inr al \<Rightarrow>
      (case env_float env ''GLM53_ADAPTIVE_K_MARGIN'' ''1.0'' of Inl e \<Rightarrow> Inl e | Inr mg \<Rightarrow>
      (case env_int env ''GLM53_ADAPTIVE_K_MIN_STEPS'' ''4'' of Inl e \<Rightarrow> Inl e | Inr ms \<Rightarrow>
      (case parse_k_set (getenv env ''GLM53_ADAPTIVE_K_SET'' ''2,4,7'') of Inl e \<Rightarrow> Inl e | Inr ks \<Rightarrow>
      (case env_int env ''GLM53_ADAPTIVE_K_HIST'' ''200'' of Inl e \<Rightarrow> Inl e | Inr he \<Rightarrow>
        Inr (reload f
          \<lparr>enabled = en, graphs_enabled = gr, alpha = al, margin = mg, min_steps = ms,
           k_set = ks,
           saturate = lower (strip (getenv env ''GLM53_ADAPTIVE_K_SATURATE'' ''max'')),
           hist_every = he,
           batch_margin = flag_on (lower (strip (getenv env ''GLM53_ADAPTIVE_K_BATCH_MARGIN'' ''0''))),
           pos_trim = flag_on (lower (strip (getenv env ''GLM53_ADAPTIVE_K_POS_TRIM'' ''0''))),
           ema_state = [], hist = [], steps = 0,
           k_max = (if ks = [] then 0 else Max (set ks)),
           boot_set = ks, boot_enabled = en, boot_graphs = gr, file_mtime = None\<rparr>)))))))"

section \<open>Observing and choosing\<close>

definition observe :: "ak \<Rightarrow> string \<Rightarrow> int \<Rightarrow> int \<Rightarrow> ak" where
  "observe a rid num_draft num_accepted =
     (if \<not> enabled a \<or> num_draft \<le> 0 then a
      else
        (let obs = (if num_accepted \<ge> num_draft \<and> saturate a \<noteq> ''n''
                    then real_of_int (max (k_max a) num_draft) else real_of_int num_accepted)
         in (case map_of (ema_state a) rid of
               None \<Rightarrow> a\<lparr>ema_state := dict_set (ema_state a) rid
                         (obs * alpha a + real_of_int (k_max a) * (1 - alpha a), 1)\<rparr>
             | Some (e, m) \<Rightarrow> a\<lparr>ema_state := dict_set (ema_state a) rid
                         (obs * alpha a + e * (1 - alpha a), m + 1)\<rparr>)))"

definition choose_k :: "ak \<Rightarrow> string \<Rightarrow> int \<Rightarrow> bool \<Rightarrow> py_exc + int option" where
  "choose_k a rid k structured =
     (if \<not> enabled a \<or> structured \<or> k \<le> 0 then Inr None
      else (case map_of (ema_state a) rid of
              None \<Rightarrow> Inr None
            | Some (e, m) \<Rightarrow>
                (if int m < min_steps a then Inr None
                 else
                   (let target = \<lceil>e + margin a\<rceil>;
                        cands = filter (\<lambda>v. v \<le> min target k) (k_set a) in
                    (case (if cands \<noteq> [] then py_max cands else py_min (k_set a)) of
                       Inl x \<Rightarrow> Inl x
                     | Inr n \<Rightarrow> Inr (Some (max 1 (min n k))))))))"

section \<open>Trimming a batch\<close>

record ak_req =
  request_id :: string
  spec_token_ids :: "int list"
  is_prefill_chunk :: bool
  use_structured_output :: bool
  finished :: bool

definition spec_len :: "ak_req \<Rightarrow> int" where
  "spec_len r = int (length (spec_token_ids r))"

text \<open>\<open>r.spec_token_ids[:n]\<close> where the request is longer than \<open>n\<close>.\<close>

definition trim_to :: "int \<Rightarrow> ak_req \<Rightarrow> ak_req" where
  "trim_to n r = (if spec_len r > n then r\<lparr>spec_token_ids := slice_to n (spec_token_ids r)\<rparr> else r)"

definition margin_width :: "ak \<Rightarrow> (ak_req \<times> bool) list \<Rightarrow> int option list \<Rightarrow> int option" where
  "margin_width a reqs picks =
     (if \<not> batch_margin a \<or> (\<exists>(r, s)\<in>set reqs. s) then None
      else (let known = List.map_filter id picks in
            if known = [] then None else Some (Min (set known))))"

definition pos_width :: "ak \<Rightarrow> (ak_req \<times> bool) list \<Rightarrow> int option list \<Rightarrow> int \<Rightarrow> int option" where
  "pos_width a reqs picks n =
     (if \<not> (pos_trim a \<and> batch_margin a) then None
      else if \<exists>(r, s)\<in>set reqs. s then None
      else if length reqs < 2 then None
      else if None \<in> set picks then None
      else (let floor_k = (if k_set a \<noteq> [] then Min (set (k_set a)) else n) in
            if floor_k < n then Some (min n floor_k) else None))"

definition count_step :: "int \<Rightarrow> string set \<Rightarrow> ak \<Rightarrow> ak" where
  "count_step n live a =
     (let b = a\<lparr>hist := dict_set (hist a) n (case map_of (hist a) n of None \<Rightarrow> 1 | Some c \<Rightarrow> c + 1),
               steps := steps a + 1\<rparr> in
      if hist_every b > 0 \<and> int (steps b) mod hist_every b = 0
      then b\<lparr>ema_state := filter (\<lambda>(rid, _). rid \<in> live) (ema_state b)\<rparr>
      else b)"

definition batch_width :: "ak \<Rightarrow> (ak_req \<times> bool) list \<Rightarrow> int option list \<Rightarrow> int" where
  "batch_width a reqs picks =
     (if None \<notin> set picks then
        (let n = Min (the ` set picks) in
         (case pos_width a reqs picks n of None \<Rightarrow> n | Some g \<Rightarrow> g))
      else
        (case margin_width a reqs picks of
           Some n \<Rightarrow> n
         | None \<Rightarrow> Max ((\<lambda>(r, s). spec_len r) ` set reqs)))"

text \<open>Every fiftieth step starts by looking at the override file.\<close>

definition active :: "ak_file \<Rightarrow> ak \<Rightarrow> ak" where
  "active f a = (if steps a mod 50 = 0 then reload f a else a)"

definition apply_trim ::
  "ak_file \<Rightarrow> ak \<Rightarrow> (ak_req \<times> bool) list \<Rightarrow> string set \<Rightarrow> py_exc + ak \<times> ak_req list" where
  "apply_trim f a0 reqs live =
     (let a = active f a0 in
      if \<not> enabled a \<or> reqs = [] then Inr (a\<lparr>steps := steps a + 1\<rparr>, map fst reqs)
      else (case map_res (\<lambda>(r, s). choose_k a (request_id r) (spec_len r) s) reqs of
              Inl e \<Rightarrow> Inl e
            | Inr picks \<Rightarrow>
                (let n = batch_width a reqs picks in
                 Inr (count_step n live a, map (\<lambda>(r, s). trim_to n r) reqs))))"

text \<open>
  \<open>batch_k\<close>: the loop stops at the first request without a choice and falls back to
  \<open>k\<close>; requests that are absent (\<open>None\<close>) or in prefill are skipped.
\<close>

fun batch_picks :: "ak \<Rightarrow> int \<Rightarrow> ak_req option list \<Rightarrow> int list \<Rightarrow> py_exc + int list option" where
  "batch_picks a k [] ns = Inr (Some ns)"
| "batch_picks a k (None # rs) ns = batch_picks a k rs ns"
| "batch_picks a k (Some r # rs) ns =
     (if is_prefill_chunk r then batch_picks a k rs ns
      else (case choose_k a (request_id r) k (use_structured_output r) of
              Inl e \<Rightarrow> Inl e
            | Inr None \<Rightarrow> Inr None
            | Inr (Some n) \<Rightarrow> batch_picks a k rs (ns @ [n])))"

definition batch_k ::
  "ak_file \<Rightarrow> ak \<Rightarrow> int \<Rightarrow> ak_req option list \<Rightarrow> string set \<Rightarrow> py_exc + ak \<times> int" where
  "batch_k f a0 k reqs live =
     (let a = active f a0 in
      if \<not> enabled a \<or> k \<le> 0 then Inr (a\<lparr>steps := steps a + 1\<rparr>, k)
      else (case batch_picks a k reqs [] of
              Inl e \<Rightarrow> Inl e
            | Inr ns \<Rightarrow>
                (let n = (case ns of None \<Rightarrow> k | Some [] \<Rightarrow> k | Some xs \<Rightarrow> Min (set xs)) in
                 Inr (count_step n live a, n))))"

section \<open>Receiving draft tokens\<close>

text \<open>
  The patched \<open>update_draft_token_ids\<close>.  The structured-output manager of the server is a
  parameter: \<open>should_adv r\<close> is \<open>should_advance(request)\<close> and \<open>validate r ts\<close> the prefix
  that \<open>grammar.validate_tokens\<close> accepts.  Requests are a dictionary by id; the pairs
  (request, structured) handed to \<open>apply\<close> are kept as ids, as they are references.
\<close>

fun upd_loop ::
  "(ak_req \<Rightarrow> bool) \<Rightarrow> (ak_req \<Rightarrow> int list \<Rightarrow> int list) \<Rightarrow> bool \<Rightarrow> (string \<times> int list) list
   \<Rightarrow> (string \<times> ak_req) list \<Rightarrow> (string \<times> bool) list
   \<Rightarrow> (string \<times> ak_req) list \<times> (string \<times> bool) list" where
  "upd_loop should_adv validate en [] d refs = (d, refs)"
| "upd_loop should_adv validate en ((rid, toks) # ps) d refs =
     (case map_of d rid of
        None \<Rightarrow> upd_loop should_adv validate en ps d refs
      | Some r \<Rightarrow>
          (if finished r then upd_loop should_adv validate en ps d refs
           else if is_prefill_chunk r then
             upd_loop should_adv validate en ps
               (if spec_token_ids r \<noteq> [] then dict_set d rid (r\<lparr>spec_token_ids := []\<rparr>) else d) refs
           else
             (let st = should_adv r; toks' = (if st then validate r toks else toks) in
              upd_loop should_adv validate en ps (dict_set d rid (r\<lparr>spec_token_ids := toks'\<rparr>))
                (if en \<and> toks' \<noteq> [] then refs @ [(rid, st)] else refs))))"

definition write_back ::
  "(string \<times> bool) list \<Rightarrow> ak_req list \<Rightarrow> (string \<times> ak_req) list \<Rightarrow> (string \<times> ak_req) list" where
  "write_back refs rs d = fold (\<lambda>((rid, _), r) d. dict_set d rid r) (zip refs rs) d"

definition update_draft_token_ids ::
  "(ak_req \<Rightarrow> bool) \<Rightarrow> (ak_req \<Rightarrow> int list \<Rightarrow> int list) \<Rightarrow> ak_file \<Rightarrow> ak
   \<Rightarrow> (string \<times> int list) list \<Rightarrow> (string \<times> ak_req) list
   \<Rightarrow> py_exc + ak \<times> (string \<times> ak_req) list" where
  "update_draft_token_ids should_adv validate f a drafts d =
     (case upd_loop should_adv validate (enabled a) drafts d [] of (d', refs) \<Rightarrow>
        (if refs = [] then Inr (a, d')
         else (case apply_trim f a (map (\<lambda>(rid, s). (the (map_of d' rid), s)) refs)
                      (fst ` set d') of
                 Inl e \<Rightarrow> Inl e
               | Inr (a', rs) \<Rightarrow> Inr (a', write_back refs rs d'))))"

section \<open>CUDA graph lengths\<close>

definition query_lens :: "environ \<Rightarrow> int list \<Rightarrow> int \<Rightarrow> py_exc + int list" where
  "query_lens env lens decode_query_len =
     (let mode = lower (strip (getenv env ''GLM53_ADAPTIVE_K'' ''off''));
          capture = lower (strip (getenv env ''GLM53_ADAPTIVE_K_CAPTURE'' ''0'')) in
      if \<not> (mode_on mode \<or> flag_on capture) then Inr lens
      else (case parse_k_set (getenv env ''GLM53_ADAPTIVE_K_SET'' ''2,4,7'') of
              Inl e \<Rightarrow> Inl e
            | Inr ks \<Rightarrow>
                (let extra = filter (\<lambda>q. 0 < q \<and> q \<le> decode_query_len) (map (\<lambda>k. k + 1) ks)
                 in Inr (sorted_set (lens @ extra @ [decode_query_len])))))"


section \<open>The choice of one request\<close>

lemma choose_k_cases:
  assumes "choose_k a rid k s = Inr (Some n)"
  obtains e m n0 where "enabled a" "\<not> s" "0 < k"
    "map_of (ema_state a) rid = Some (e, m)" "min_steps a \<le> int m"
    "n = max 1 (min n0 k)"
    "(if filter (\<lambda>v. v \<le> min \<lceil>e + margin a\<rceil> k) (k_set a) \<noteq> []
      then py_max (filter (\<lambda>v. v \<le> min \<lceil>e + margin a\<rceil> k) (k_set a))
      else py_min (k_set a)) = Inr n0"
  using assms unfolding choose_k_def
  by (force simp: Let_def split: if_splits option.splits sum.splits)

lemma choose_k_structured [simp]: "choose_k a rid k True = Inr None"
  by (simp add: choose_k_def)

lemma choose_k_disabled [simp]: "\<not> enabled a \<Longrightarrow> choose_k a rid k s = Inr None"
  by (simp add: choose_k_def)

lemma choose_k_range:
  "choose_k a rid k s = Inr (Some n) \<Longrightarrow> 1 \<le> n \<and> n \<le> k"
  by (erule choose_k_cases) auto

lemma choose_k_ok_if_set:
  "k_set a \<noteq> [] \<Longrightarrow> ok_res (choose_k a rid k s)"
proof -
  assume "k_set a \<noteq> []"
  then obtain m where m: "py_min (k_set a) = Inr m" by (simp add: py_min_Min)
  have "\<exists>x. py_max cs = Inr x" if "cs \<noteq> []" for cs :: "int list"
    using that by (simp add: py_max_Max)
  then show ?thesis using m
    by (auto simp: choose_k_def Let_def split: option.splits sum.splits) (metis sum.distinct(1))
qed

text \<open>C30: a chosen width is between 1 and the request's draft length; it is the largest
  ladder value that fits both the moving average plus margin and the draft, clamped to at
  least 1, or the ladder's least value when none fits; and no choice is made for a
  structured request or before \<open>MIN_STEPS\<close> observations.\<close>

theorem choose_k_spec:
  assumes "choose_k a rid k structured = Inr (Some n)"
  shows "\<exists>e m. map_of (ema_state a) rid = Some (e, m) \<and> \<not> structured \<and> min_steps a \<le> int m
     \<and> 1 \<le> n \<and> n \<le> k
     \<and> (if \<exists>v\<in>set (k_set a). v \<le> \<lceil>e + margin a\<rceil> \<and> v \<le> k
        then \<exists>v\<in>set (k_set a). v \<le> \<lceil>e + margin a\<rceil> \<and> v \<le> k \<and> n = max 1 v
               \<and> (\<forall>w\<in>set (k_set a). w \<le> \<lceil>e + margin a\<rceil> \<and> w \<le> k \<longrightarrow> w \<le> v)
        else n = max 1 (min (Min (set (k_set a))) k))"
  using assms
proof (rule choose_k_cases)
  fix e m n0
  assume a: "\<not> structured" "0 < k" "map_of (ema_state a) rid = Some (e, m)"
    "min_steps a \<le> int m" "n = max 1 (min n0 k)"
    and n0: "(if filter (\<lambda>v. v \<le> min \<lceil>e + margin a\<rceil> k) (k_set a) \<noteq> []
      then py_max (filter (\<lambda>v. v \<le> min \<lceil>e + margin a\<rceil> k) (k_set a))
      else py_min (k_set a)) = Inr n0"
  let ?fits = "\<lambda>v. v \<le> \<lceil>e + margin a\<rceil> \<and> v \<le> k"
  have "if \<exists>v\<in>set (k_set a). ?fits v
        then \<exists>v\<in>set (k_set a). v \<le> \<lceil>e + margin a\<rceil> \<and> v \<le> k \<and> n = max 1 v
               \<and> (\<forall>w\<in>set (k_set a). w \<le> \<lceil>e + margin a\<rceil> \<and> w \<le> k \<longrightarrow> w \<le> v)
        else n = max 1 (min (Min (set (k_set a))) k)"
  proof (cases "\<exists>v\<in>set (k_set a). ?fits v")
    case True
    then have "filter (\<lambda>v. v \<le> min \<lceil>e + margin a\<rceil> k) (k_set a) \<noteq> []"
      by (auto simp: filter_empty_conv)
    with n0 have "py_max (filter (\<lambda>v. v \<le> min \<lceil>e + margin a\<rceil> k) (k_set a)) = Inr n0"
      by (simp only: not_False_eq_True if_True)
    from py_maxD [OF this] have "n0 \<in> set (k_set a)" "?fits n0"
      "\<forall>w\<in>set (k_set a). ?fits w \<longrightarrow> w \<le> n0" by auto
    with a(5) True show ?thesis by (auto simp: min_absorb1)
  next
    case False
    then have "filter (\<lambda>v. v \<le> min \<lceil>e + margin a\<rceil> k) (k_set a) = []"
      by (auto simp: filter_empty_conv)
    with n0 have p: "py_min (k_set a) = Inr n0" by simp
    then have "k_set a \<noteq> []" by auto
    with p have "n0 = Min (set (k_set a))" by (simp add: py_min_Min)
    with a(5) False show ?thesis by auto
  qed
  with a choose_k_range [OF assms] show ?thesis by blast
qed

section \<open>The moving average\<close>

lemma observe_frame [simp]:
  "enabled (observe a i d x) = enabled a" "alpha (observe a i d x) = alpha a"
  "margin (observe a i d x) = margin a" "k_max (observe a i d x) = k_max a"
  "k_set (observe a i d x) = k_set a" "min_steps (observe a i d x) = min_steps a"
  "saturate (observe a i d x) = saturate a" "boot_set (observe a i d x) = boot_set a"
  by (simp_all add: observe_def Let_def split: option.splits prod.splits)

fun observe_n :: "nat \<Rightarrow> ak \<Rightarrow> string \<Rightarrow> int \<Rightarrow> int \<Rightarrow> ak" where
  "observe_n 0 a rid d x = a"
| "observe_n (Suc n) a rid d x = observe (observe_n n a rid d x) rid d x"

lemma observe_n_frame [simp]:
  "enabled (observe_n n a i d x) = enabled a" "alpha (observe_n n a i d x) = alpha a"
  "margin (observe_n n a i d x) = margin a" "k_max (observe_n n a i d x) = k_max a"
  "k_set (observe_n n a i d x) = k_set a" "min_steps (observe_n n a i d x) = min_steps a"
  by (induction n) simp_all

text \<open>The moving average in closed form.  A request not seen before, from which the
  target model accepts \<open>x\<close> of \<open>d\<close> draft tokens \<open>n\<close> times in a row, ends at
  \<open>x + (1 - alpha)^n (k_max - x)\<close> after exactly \<open>n\<close> counted observations: the estimate
  starts at full length and decays geometrically towards what is accepted.\<close>

lemma observe_closed_form:
  assumes "enabled a" "0 < d" "x < d" "map_of (ema_state a) rid = None" "0 < n"
  shows "map_of (ema_state (observe_n n a rid d x)) rid =
     Some (of_int x + (1 - alpha a) ^ n * of_int (k_max a - x), n)"
  using assms(5)
proof (induction n)
  case (Suc n)
  show ?case
  proof (cases n)
    case 0
    with assms show ?thesis by (simp add: observe_def Let_def algebra_simps)
  next
    case (Suc k)
    with Suc.IH have IH: "map_of (ema_state (observe_n n a rid d x)) rid =
        Some (of_int x + (1 - alpha a) ^ n * of_int (k_max a - x), n)" by simp
    with assms(1-3) show ?thesis
      by (simp add: observe_def Let_def) (simp add: algebra_simps)
  qed
qed simp


lemma choose_k_Some_if_observed:
  assumes "enabled a" "0 < k" "k_set a \<noteq> []" "map_of (ema_state a) rid = Some (e, m)"
    "min_steps a \<le> int m"
  obtains v where "choose_k a rid k False = Inr (Some v)"
proof -
  have "ok_res (choose_k a rid k False)" by (rule choose_k_ok_if_set) fact
  then obtain r where r: "choose_k a rid k False = Inr r" by (rule ok_resE)
  moreover from this assms have "r \<noteq> None"
    by (auto simp: choose_k_def Let_def split: sum.splits if_splits)
  ultimately show thesis using that by auto
qed

lemma decay_eventually_small:
  fixes q b c :: real
  assumes "0 \<le> q" "q < 1" "0 < c"
  shows "\<exists>N. \<forall>n\<ge>N. q ^ n * b < c"
proof -
  have "(\<lambda>n. q ^ n * b) \<longlonglongrightarrow> 0 * b"
    by (intro tendsto_mult tendsto_const LIMSEQ_realpow_zero) (use assms in auto)
  then have "\<forall>\<^sub>F n in sequentially. q ^ n * b < c"
    using assms(3) by (intro order_tendstoD(2)) auto
  then show ?thesis by (simp add: eventually_sequentially)
qed

text \<open>The policy reacts.  With a smoothing factor in \<open>(0, 1]\<close> and a non-empty
  ladder, a request of which only \<open>x\<close> draft tokens are accepted step after step is, from
  some step on, always given a width at most \<open>\<lfloor>x + margin\<rfloor> + 1\<close> (or the ladder's
  least value, when that is larger).\<close>

theorem persistent_rejection_shortens:
  assumes "enabled a" "0 < d" "x < d" "map_of (ema_state a) rid = None"
    "0 < alpha a" "alpha a \<le> 1" "k_set a \<noteq> []" "0 < k"
  shows "\<exists>N. \<forall>n\<ge>N. \<exists>v. choose_k (observe_n n a rid d x) rid k False = Inr (Some v) \<and>
     v \<le> max 1 (max (Min (set (k_set a))) (\<lfloor>of_int x + margin a\<rfloor> + 1))"
proof -
  let ?B = "\<lfloor>of_int x + margin a\<rfloor> + 1"
  have "0 < of_int ?B - (of_int x + margin a)" by linarith
  then obtain N1 where N1: "\<And>n. N1 \<le> n \<Longrightarrow>
      (1 - alpha a) ^ n * of_int (k_max a - x) < of_int ?B - (of_int x + margin a)"
    using decay_eventually_small [of "1 - alpha a" _ "of_int (k_max a - x)"] assms(5,6)
    by (metis diff_ge_0_iff_ge diff_less_eq less_add_same_cancel1)
  show ?thesis
  proof (rule exI [where x = "max (max N1 1) (nat (min_steps a))"], intro allI impI)
    fix n assume n: "max (max N1 1) (nat (min_steps a)) \<le> n"
    let ?a = "observe_n n a rid d x"
    obtain e where e: "map_of (ema_state ?a) rid = Some (e, n)"
      and ev: "e = of_int x + (1 - alpha a) ^ n * of_int (k_max a - x)"
      using observe_closed_form [OF assms(1-4), of n] n by auto
    have ms: "min_steps a \<le> int n" using n by (simp add: nat_le_iff)
    obtain v where v: "choose_k ?a rid k False = Inr (Some v)"
      using choose_k_Some_if_observed [of ?a k rid e n] assms ms e by auto
    have "e + margin a < of_int ?B" using N1 [of n] n by (simp add: ev)
    then have c: "\<lceil>e + margin a\<rceil> \<le> ?B" by linarith
    have "v \<le> max 1 (max (Min (set (k_set a))) ?B)"
      using choose_k_spec [OF v] e c by (auto split: if_splits)
    with v show "\<exists>v. choose_k ?a rid k False = Inr (Some v) \<and>
        v \<le> max 1 (max (Min (set (k_set a))) ?B)" by blast
  qed
qed

section \<open>Trimming a batch\<close>

lemma trim_to_frame [simp]:
  "request_id (trim_to n r) = request_id r" "finished (trim_to n r) = finished r"
  "is_prefill_chunk (trim_to n r) = is_prefill_chunk r"
  by (simp_all add: trim_to_def)

lemma trim_to_prefix: "prefix (spec_token_ids (trim_to n r)) (spec_token_ids r)"
  by (simp add: trim_to_def)

lemma trim_to_id: "spec_len r \<le> n \<Longrightarrow> trim_to n r = r"
  by (simp add: trim_to_def)

lemma trim_to_len: "0 \<le> n \<Longrightarrow> spec_len (trim_to n r) = min n (spec_len r)"
  by (auto simp: trim_to_def spec_len_def length_slice_to)

lemma trim_none: "\<exists>n. map fst reqs = map (\<lambda>(r, s). trim_to n r) reqs"
proof
  let ?n = "Max (insert 0 ((\<lambda>(r, s). spec_len r) ` set reqs))"
  have "trim_to ?n r = r" if "(r, s) \<in> set reqs" for r s
    using that by (intro trim_to_id Max_ge) force+
  then show "map fst reqs = map (\<lambda>(r, s). trim_to ?n r) reqs"
    by (auto intro!: map_cong)
qed

text \<open>The two ways \<open>apply\<close> can end.\<close>

lemma apply_trim_cases:
  assumes "apply_trim f a0 reqs live = Inr (a', rs)"
  obtains (idle) "\<not> enabled (active f a0) \<or> reqs = []" "rs = map fst reqs"
      "a' = (active f a0)\<lparr>steps := steps (active f a0) + 1\<rparr>"
  | (trim) picks n where "enabled (active f a0)" "reqs \<noteq> []"
      "map_res (\<lambda>(r, s). choose_k (active f a0) (request_id r) (spec_len r) s) reqs = Inr picks"
      "n = batch_width (active f a0) reqs picks"
      "rs = map (\<lambda>(r, s). trim_to n r) reqs" "a' = count_step n live (active f a0)"
  using assms by (auto simp: apply_trim_def Let_def split: if_splits sum.splits)

lemma picks_structured_None:
  assumes "map_res (\<lambda>(r, s). choose_k a (request_id r) (spec_len r) s) reqs = Inr picks"
    and "(r, True) \<in> set reqs"
  shows "None \<in> set picks"
proof -
  from assms(2) obtain i where i: "i < length reqs" "reqs ! i = (r, True)"
    by (auto simp: in_set_conv_nth)
  with map_res_nth [OF assms(1)] have "picks ! i = None" by fastforce
  with i map_res_length [OF assms(1)] show ?thesis by (metis nth_mem)
qed

lemma picks_range:
  assumes "map_res (\<lambda>(r, s). choose_k a (request_id r) (spec_len r) s) reqs = Inr picks"
    and "Some v \<in> set picks"
  shows "1 \<le> v"
proof -
  from assms(2) obtain i where i: "i < length picks" "picks ! i = Some v"
    by (auto simp: in_set_conv_nth)
  with map_res_nth [OF assms(1), of i] map_res_length [OF assms(1)] choose_k_range show ?thesis
    by (cases "reqs ! i") fastforce
qed

text \<open>a structured request holds the batch.  When any request of the batch advances a
  grammar, \<open>apply\<close> leaves every request's draft tokens as they are, whatever the
  averages, the batch margin and the positional trim say.\<close>

theorem structured_pins_batch:
  assumes "apply_trim f a reqs live = Inr (a', rs)" and "(r, True) \<in> set reqs"
  shows "rs = map fst reqs"
  using assms(1)
proof (cases rule: apply_trim_cases)
  case (trim picks n)
  have "None \<in> set picks" using picks_structured_None trim(3) assms(2) by blast
  moreover have "margin_width (active f a) reqs picks = None"
    using assms(2) by (auto simp: margin_width_def)
  ultimately have n: "n = Max ((\<lambda>(r, s). spec_len r) ` set reqs)"
    using trim(4) by (simp add: batch_width_def)
  have "trim_to n q = q" if "(q, s) \<in> set reqs" for q s
    using that by (intro trim_to_id) (force simp: n intro!: Max_ge)
  with trim(5) show ?thesis by (auto intro!: map_cong)
qed simp


lemma margin_width_mem:
  "margin_width a reqs picks = Some n \<Longrightarrow> Some n \<in> set picks \<and> batch_margin a"
proof -
  assume m: "margin_width a reqs picks = Some n"
  let ?known = "List.map_filter id picks"
  from m have k: "?known \<noteq> []" "n = Min (set ?known)" and b: "batch_margin a"
    by (auto simp: margin_width_def Let_def split: if_splits)
  then have "n \<in> set ?known" by (metis List.finite_set Min_in set_empty)
  with b show ?thesis by (auto simp: List.map_filter_def)
qed

lemma batch_width_pos:
  assumes "map_res (\<lambda>(r, s). choose_k a (request_id r) (spec_len r) s) reqs = Inr picks"
    and "reqs \<noteq> []" and "\<forall>v\<in>set (k_set a). 1 \<le> v" and "\<exists>(r, s)\<in>set reqs. 1 \<le> spec_len r"
  shows "1 \<le> batch_width a reqs picks"
proof (cases "None \<in> set picks")
  case False
  have ne: "picks \<noteq> []" using map_res_length [OF assms(1)] assms(2) by auto
  have all: "1 \<le> v" if "v \<in> the ` set picks" for v
    using that False picks_range [OF assms(1)] by (metis imageE option.collapse)
  then have m: "1 \<le> Min (the ` set picks)" using ne by (simp add: Min_ge_iff)
  show ?thesis
  proof (cases "pos_width a reqs picks (Min (the ` set picks))")
    case (Some g)
    have "1 \<le> Min (set (k_set a))" if "k_set a \<noteq> []"
      using that assms(3) by (simp add: Min_ge_iff)
    with Some m have "1 \<le> g" by (auto simp: pos_width_def Let_def split: if_splits)
    with Some False show ?thesis by (simp add: batch_width_def Let_def)
  qed (use False m in \<open>simp add: batch_width_def Let_def\<close>)
next
  case True
  show ?thesis
  proof (cases "margin_width a reqs picks")
    case None
    from assms(4) obtain r s where r: "(r, s) \<in> set reqs" "1 \<le> spec_len r" by blast
    then have "spec_len r \<le> Max ((\<lambda>(r, s). spec_len r) ` set reqs)"
      by (intro Max_ge) force+
    with r None True show ?thesis by (simp add: batch_width_def)
  next
    case (Some n)
    with True picks_range [OF assms(1)] margin_width_mem show ?thesis
      by (fastforce simp: batch_width_def)
  qed
qed

text \<open>\<open>apply\<close> only trims, and uniformly.  There is one width \<open>n\<close>, at least 1 when the
  ladder is positive and some request has drafts, such that every request keeps exactly the
  first \<open>min n len\<close> of its draft tokens; no request is lost, reordered or renamed.\<close>

theorem apply_trim_uniform:
  assumes "apply_trim f a reqs live = Inr (a', rs)"
    and "\<forall>v\<in>set (k_set (active f a)). 1 \<le> v" and "\<forall>(r, s)\<in>set reqs. spec_token_ids r \<noteq> []"
  shows "\<exists>n\<ge>1. rs = map (\<lambda>(r, s). r\<lparr>spec_token_ids := take (nat n) (spec_token_ids r)\<rparr>) reqs"
  using assms(1)
proof (cases rule: apply_trim_cases)
  case idle
  let ?n = "1 + Max (insert 0 ((\<lambda>(r, s). spec_len r) ` set reqs))"
  have "take (nat ?n) (spec_token_ids r) = spec_token_ids r" if "(r, s) \<in> set reqs" for r s
  proof -
    have "spec_len r \<le> Max (insert 0 ((\<lambda>(r, s). spec_len r) ` set reqs))"
      using that by (intro Max_ge) force+
    then show ?thesis by (simp add: spec_len_def)
  qed
  with idle(2) have "rs = map (\<lambda>(r, s). r\<lparr>spec_token_ids := take (nat ?n) (spec_token_ids r)\<rparr>) reqs"
    by (auto intro!: map_cong)
  moreover have "1 \<le> ?n" by simp
  ultimately show ?thesis by blast
next
  case (trim picks n)
  have "\<exists>(r, s)\<in>set reqs. 1 \<le> spec_len r"
  proof -
    from trim(2) obtain r s where "(r, s) \<in> set reqs" by (cases reqs) auto
    with assms(3) have "(r, s) \<in> set reqs \<and> 1 \<le> spec_len r"
      by (cases "spec_token_ids r") (auto simp: spec_len_def)
    then show ?thesis by blast
  qed
  then have n: "1 \<le> n" using batch_width_pos [OF trim(3,2) assms(2)] trim(4) by simp
  then have "trim_to n r = r\<lparr>spec_token_ids := take (nat n) (spec_token_ids r)\<rparr>" for r
    by (auto simp: trim_to_def slice_to_def spec_len_def)
  with trim(5) n show ?thesis by auto
qed

lemma pos_width_off [simp]:
  "length reqs < 2 \<Longrightarrow> pos_width a reqs picks n = None"
  "\<not> pos_trim a \<Longrightarrow> pos_width a reqs picks n = None"
  by (simp_all add: pos_width_def)

text \<open>The positional trim is gated by concurrency.  A lone request gets the width it
  would get with the knob off, and with the knob on the width of a batch never grows and
  never falls below the smaller of the ladder's least value and the ungated width.\<close>

theorem pos_trim_gated:
  "(length reqs < 2 \<longrightarrow> batch_width a reqs picks = batch_width (a\<lparr>pos_trim := False\<rparr>) reqs picks)
   \<and> batch_width a reqs picks \<le> batch_width (a\<lparr>pos_trim := False\<rparr>) reqs picks
   \<and> (k_set a \<noteq> [] \<longrightarrow>
       min (Min (set (k_set a))) (batch_width (a\<lparr>pos_trim := False\<rparr>) reqs picks)
         \<le> batch_width a reqs picks)"
proof -
  have mw: "margin_width (a\<lparr>pos_trim := False\<rparr>) reqs picks = margin_width a reqs picks"
    by (simp add: margin_width_def)
  show ?thesis
  proof (cases "None \<in> set picks")
    case True
    with mw show ?thesis by (simp add: batch_width_def)
  next
    case False
    let ?n = "Min (the ` set picks)"
    have off: "batch_width (a\<lparr>pos_trim := False\<rparr>) reqs picks = ?n"
      using False by (simp add: batch_width_def Let_def)
    have "g = min ?n (Min (set (k_set a)))" if "k_set a \<noteq> []" "pos_width a reqs picks ?n = Some g" for g
      using that by (auto simp: pos_width_def Let_def split: if_splits)
    moreover have "g \<le> ?n" if "pos_width a reqs picks ?n = Some g" for g
      using that by (auto simp: pos_width_def Let_def split: if_splits)
    ultimately show ?thesis using False off
      by (auto simp: batch_width_def Let_def split: option.splits)
  qed
qed


section \<open>Receiving draft tokens\<close>

lemma upd_loop_dict:
  "fst (upd_loop sa va en ps d refs) = fst (upd_loop sa va False ps d [])"
  by (induction sa va en ps d refs rule: upd_loop.induct)
     (auto simp: Let_def split: option.splits)

lemma upd_loop_disabled: "snd (upd_loop sa va False ps d refs) = refs"
  by (induction sa va False ps d refs rule: upd_loop.induct)
     (auto simp: Let_def split: option.splits)

lemma upd_loop_dom:
  "dom (map_of (fst (upd_loop sa va en ps d refs))) = dom (map_of d)"
proof (induction sa va en ps d refs rule: upd_loop.induct)
  case (2 sa va en i toks ps d refs)
  show ?case
  proof (cases "map_of d i")
    case (Some r)
    then have "dom (\<lambda>a. if a = i then Some x else map_of d a) = dom (map_of d)" for x
      by (auto simp: dom_def)
    with 2 Some show ?thesis by (auto simp: Let_def)
  qed (use 2 in simp)
qed simp

lemma upd_loop_refs:
  "(rid, s) \<in> set (snd (upd_loop sa va en ps d refs)) \<Longrightarrow>
     (rid, s) \<in> set refs \<or> rid \<in> dom (map_of d)"
proof (induction sa va en ps d refs rule: upd_loop.induct)
  case (2 sa va en i toks ps d refs)
  show ?case
  proof (cases "map_of d i")
    case None
    with 2 show ?thesis by simp
  next
    case (Some r)
    show ?thesis
    proof (cases "finished r")
      case True
      with 2(2) [OF Some True] 2(5) Some show ?thesis by simp
    next
      case nf: False
      show ?thesis
      proof (cases "is_prefill_chunk r")
        case True
        with 2(3) [OF Some nf True] 2(5) Some nf show ?thesis by (auto split: if_splits)
      next
        case False
        let ?ts = "if sa r then va r toks else toks"
        have "(rid, s) \<in> set (snd (upd_loop sa va en ps (dict_set d i (r\<lparr>spec_token_ids := ?ts\<rparr>))
            (if en \<and> ?ts \<noteq> [] then refs @ [(i, sa r)] else refs)))"
          using 2(5) Some nf False by (simp add: Let_def)
        from 2(4) [OF Some nf False refl refl this] Some show ?thesis
          by (auto split: if_splits)
      qed
    qed
  qed
qed simp

definition stock_update ::
  "(ak_req \<Rightarrow> bool) \<Rightarrow> (ak_req \<Rightarrow> int list \<Rightarrow> int list) \<Rightarrow> (string \<times> int list) list
   \<Rightarrow> (string \<times> ak_req) list \<Rightarrow> (string \<times> ak_req) list" where
  "stock_update sa va drafts d = fst (upd_loop sa va False drafts d [])"

text \<open>the kill switch.  With the policy off the patched method is the method of the
  unpatched scheduler: same request table, policy state untouched.\<close>

theorem update_disabled_is_stock:
  "\<not> enabled a \<Longrightarrow>
     update_draft_token_ids sa va f a drafts d = Inr (a, stock_update sa va drafts d)"
  using upd_loop_disabled [of sa va drafts d "[]"]
  by (auto simp: update_draft_token_ids_def stock_update_def split: prod.splits)

lemma write_back_rel:
  assumes "\<forall>((rid, s), r)\<in>set (zip refs rs). \<exists>q n. map_of d rid = Some q \<and> r = trim_to n q"
  shows "\<exists>n. map_of (write_back refs rs d) i = map_option (trim_to n) (map_of d i)"
proof -
  let ?step = "\<lambda>((rid, _), r) d. dict_set d rid r"
  have "\<exists>n. map_of (fold ?step zs c) i = map_option (trim_to n) (map_of d i)"
    if "\<forall>((rid, s), r)\<in>set zs. \<exists>q n. map_of d rid = Some q \<and> r = trim_to n q"
      and "\<exists>n. map_of c i = map_option (trim_to n) (map_of d i)" for zs c
    using that
  proof (induction zs arbitrary: c)
    case (Cons z zs)
    obtain rid s r where z: "z = ((rid, s), r)" by (metis prod.exhaust)
    from Cons.prems(1) z obtain q n where q: "map_of d rid = Some q" "r = trim_to n q" by auto
    have "\<exists>n. map_of (dict_set c rid r) i = map_option (trim_to n) (map_of d i)"
      using q Cons.prems(2) by (cases "rid = i") auto
    with Cons z show ?case by auto
  qed simp
  moreover have "\<exists>n. map_of d i = map_option (trim_to n) (map_of d i)"
  proof (cases "map_of d i")
    case (Some r)
    then have "map_of d i = map_option (trim_to (spec_len r)) (map_of d i)"
      by (simp add: trim_to_id)
    then show ?thesis ..
  qed simp
  ultimately show ?thesis using assms by (simp add: write_back_def)
qed

text \<open>Request by request, the update is the stock one with the draft cut.\<close>

lemma update_trims_stock:
  assumes "update_draft_token_ids sa va f a drafts d = Inr (a', d')"
  shows "\<exists>n. map_of d' i = map_option (trim_to n) (map_of (stock_update sa va drafts d) i)"
proof -
  obtain e refs where l: "upd_loop sa va (enabled a) drafts d [] = (e, refs)" by fastforce
  have st: "stock_update sa va drafts d = e"
    using upd_loop_dict [of sa va "enabled a" drafts d "[]"] l by (simp add: stock_update_def)
  have "\<exists>n. map_of d' i = map_option (trim_to n) (map_of e i)"
  proof (cases "refs = []")
    case True
    with assms l have "d' = e" by (simp add: update_draft_token_ids_def)
    then show ?thesis using write_back_rel [of "[]" "[]" e i] by (simp add: write_back_def)
  next
    case False
    let ?reqs = "map (\<lambda>(rid, s). (the (map_of e rid), s)) refs"
    from False assms l obtain rs where
      ap: "apply_trim f a ?reqs (fst ` set e) = Inr (a', rs)" and d': "d' = write_back refs rs e"
      by (auto simp: update_draft_token_ids_def split: sum.splits)
    have "\<exists>n. rs = map (\<lambda>(r, s). trim_to n r) ?reqs"
      using ap
    proof (cases rule: apply_trim_cases)
      case idle
      then show ?thesis using trim_none [of ?reqs] by metis
    qed blast
    then obtain n where n: "rs = map (\<lambda>(r, s). trim_to n r) ?reqs" by blast
    have "\<exists>q n. map_of e rid = Some q \<and> r = trim_to n q"
      if "((rid, s), r) \<in> set (zip refs rs)" for rid s r
    proof -
      from that obtain i where i: "i < length refs" "refs ! i = (rid, s)" "rs ! i = r"
        by (auto simp: in_set_zip)
      then have "(rid, s) \<in> set refs" "r = trim_to n (the (map_of e rid))"
        by (auto simp: n in_set_conv_nth)
      moreover from this(1) have "rid \<in> dom (map_of e)"
        using upd_loop_refs [of rid s sa va "enabled a" drafts d "[]"] l
          upd_loop_dom [of sa va "enabled a" drafts d "[]"] by auto
      ultimately show ?thesis by auto
    qed
    then show ?thesis unfolding d' by (intro write_back_rel) auto
  qed
  with st show ?thesis by simp
qed

text \<open>C2: the policy refines the stock scheduler.  After the patched update every request
  of the table is the stock one with its draft tokens cut to a prefix: no request is added
  or lost, and no token is invented, moved or replaced.\<close>

theorem update_refines_stock:
  assumes "update_draft_token_ids sa va f a drafts d = Inr (a', d')"
  shows "dom (map_of d') = dom (map_of d) \<and>
    (\<forall>rid r. map_of (stock_update sa va drafts d) rid = Some r \<longrightarrow>
       (\<exists>ts. prefix ts (spec_token_ids r) \<and> map_of d' rid = Some (r\<lparr>spec_token_ids := ts\<rparr>)))"
proof -
  let ?e = "stock_update sa va drafts d"
  note rel = update_trims_stock [OF assms]
  have "i \<in> dom (map_of d') \<longleftrightarrow> i \<in> dom (map_of ?e)" for i
    using rel [of i] by (metis domIff option.map_disc_iff)
  moreover have "dom (map_of ?e) = dom (map_of d)"
    using upd_loop_dom [of sa va False drafts d "[]"] by (simp add: stock_update_def)
  moreover have "\<exists>ts. prefix ts (spec_token_ids r) \<and> map_of d' i = Some (r\<lparr>spec_token_ids := ts\<rparr>)"
    if er: "map_of ?e i = Some r" for i r
  proof -
    obtain n where "map_of d' i = Some (trim_to n r)" using rel [of i] er by auto
    then show ?thesis
      by (intro exI [of _ "spec_token_ids (trim_to n r)"]) (simp add: trim_to_def)
  qed
  ultimately show ?thesis by blast
qed


section \<open>Lifetime of the policy object\<close>

text \<open>
  The invariant of the object: the smoothing factor is a weight, every moving average lies
  between 0 and the longest draft, at least one observation was counted for it, the ladder
  stays within the ladder of boot (for which graphs were captured), the policy is never on
  when it was off at boot, and the histogram never counts more steps than were taken.
\<close>

definition ak_inv :: "ak \<Rightarrow> bool" where
  "ak_inv a \<longleftrightarrow> 0 \<le> alpha a \<and> alpha a \<le> 1 \<and> 0 \<le> k_max a
     \<and> (\<forall>(rid, e, m)\<in>set (ema_state a). 0 \<le> e \<and> e \<le> of_int (k_max a) \<and> 1 \<le> m)
     \<and> set (k_set a) \<subseteq> set (boot_set a)
     \<and> (enabled a \<longrightarrow> boot_enabled a)
     \<and> sum_list (map snd (hist a)) \<le> steps a"

text \<open>Override files of this lifetime carry a smoothing factor in \<open>[0, 1]\<close>.\<close>

definition good_file :: "ak_file \<Rightarrow> bool" where
  "good_file f = (case f of
       Config _ ov \<Rightarrow> (case ov_alpha ov of Some (Inr x) \<Rightarrow> 0 \<le> x \<and> x \<le> 1 | _ \<Rightarrow> True)
     | _ \<Rightarrow> True)"

inductive ak_reach :: "environ \<Rightarrow> ak \<Rightarrow> bool" for env where
  boot: "good_file f \<Longrightarrow> ak_init env f = Inr a \<Longrightarrow> ak_reach env a"
| obs: "ak_reach env a \<Longrightarrow> 0 \<le> x \<Longrightarrow> x \<le> d \<Longrightarrow> d \<le> k_max a \<Longrightarrow> ak_reach env (observe a rid d x)"
| trim: "ak_reach env a \<Longrightarrow> good_file f \<Longrightarrow> apply_trim f a reqs live = Inr (a', rs)
     \<Longrightarrow> ak_reach env a'"
| batch: "ak_reach env a \<Longrightarrow> good_file f \<Longrightarrow> batch_k f a k rqs live = Inr (a', n)
     \<Longrightarrow> ak_reach env a'"

lemma dict_set_memD: "(i, w) \<in> set (dict_set d k v) \<Longrightarrow> (i, w) = (k, v) \<or> (i, w) \<in> set d"
  by (induction d) (auto split: if_splits)

lemma sum_dict_set_bump:
  "sum_list (map snd (dict_set h n (case map_of h n of None \<Rightarrow> 1 | Some c \<Rightarrow> c + 1)))
     = sum_list (map snd h) + (1::nat)"
  by (induction h) (auto split: option.splits)

lemma weighted_between:
  fixes x e al K :: real
  assumes "0 \<le> al" "al \<le> 1" "0 \<le> x" "x \<le> K" "0 \<le> e" "e \<le> K"
  shows "0 \<le> x * al + e * (1 - al) \<and> x * al + e * (1 - al) \<le> K"
proof
  show "0 \<le> x * al + e * (1 - al)" using assms by simp
  have "x * al + e * (1 - al) \<le> K * al + K * (1 - al)"
    using assms by (intro add_mono mult_right_mono) auto
  then show "x * al + e * (1 - al) \<le> K" by (simp add: algebra_simps)
qed

lemma ak_inv_observe:
  assumes inv: "ak_inv a" and x: "0 \<le> x" "x \<le> d" "d \<le> k_max a"
  shows "ak_inv (observe a rid d x)"
proof (cases "enabled a \<and> 0 < d")
  case False
  then have "observe a rid d x = a" by (auto simp: observe_def)
  with inv show ?thesis by simp
next
  case True
  let ?obs = "if d \<le> x \<and> saturate a \<noteq> ''n'' then real_of_int (max (k_max a) d) else real_of_int x"
  have o: "0 \<le> ?obs" "?obs \<le> of_int (k_max a)" using x True by auto
  have w: "0 \<le> ?obs * alpha a + e * (1 - alpha a)
      \<and> ?obs * alpha a + e * (1 - alpha a) \<le> of_int (k_max a)"
    if "0 \<le> e" "e \<le> of_int (k_max a)" for e
    by (rule weighted_between) (use inv o that in \<open>simp_all add: ak_inv_def\<close>)
  have K: "(0::real) \<le> of_int (k_max a)" using inv by (simp add: ak_inv_def)
  show ?thesis
  proof (cases "map_of (ema_state a) rid")
    case None
    with True inv w [OF K order_refl] show ?thesis
      by (auto simp: observe_def ak_inv_def Let_def dest!: dict_set_memD split: if_splits)
  next
    case (Some em)
    obtain e m where em: "em = (e, m)" by force
    with Some have "(rid, e, m) \<in> set (ema_state a)" by (auto dest: map_of_SomeD)
    with inv have "0 \<le> e" "e \<le> of_int (k_max a)" by (auto simp: ak_inv_def)
    from w [OF this] True inv Some em show ?thesis
      by (auto simp: observe_def ak_inv_def Let_def dest!: dict_set_memD split: if_splits)
  qed
qed

lemma ak_inv_count: "ak_inv a \<Longrightarrow> ak_inv (count_step n live a)"
  using sum_dict_set_bump [of "hist a" n]
  by (auto simp: count_step_def Let_def ak_inv_def)

lemma run_sets_preserves:
  "(\<And>g b c. g \<in> set fs \<Longrightarrow> P b \<Longrightarrow> g b = Inr c \<Longrightarrow> P c) \<Longrightarrow> P a \<Longrightarrow> P (fst (run_sets fs a))"
  by (induction fs arbitrary: a) (auto split: sum.splits)

lemma ak_inv_set_alpha:
  "ak_inv b \<Longrightarrow> good_file (Config t ov) \<Longrightarrow> set_alpha ov b = Inr c \<Longrightarrow> ak_inv c"
  by (auto simp: ak_inv_def good_file_def set_alpha_def split: option.splits sum.splits)

lemma ak_inv_set_margin: "ak_inv b \<Longrightarrow> set_margin ov b = Inr c \<Longrightarrow> ak_inv c"
  by (auto simp: ak_inv_def set_margin_def split: option.splits sum.splits)

lemma ak_inv_set_min_steps: "ak_inv b \<Longrightarrow> set_min_steps ov b = Inr c \<Longrightarrow> ak_inv c"
  by (auto simp: ak_inv_def set_min_steps_def split: option.splits sum.splits)

lemma ak_inv_set_saturate: "ak_inv b \<Longrightarrow> set_saturate ov b = Inr c \<Longrightarrow> ak_inv c"
  by (auto simp: ak_inv_def set_saturate_def)

lemma ak_inv_set_k_set: "ak_inv b \<Longrightarrow> set_k_set ov b = Inr c \<Longrightarrow> ak_inv c"
  by (auto simp: ak_inv_def set_k_set_def Let_def split: option.splits sum.splits if_splits)

lemma ak_inv_mode: "ak_inv b \<Longrightarrow> boot_enabled b \<Longrightarrow> ak_inv (b\<lparr>enabled := v\<rparr>)"
  by (simp add: ak_inv_def)

lemma ak_inv_flush: "ak_inv b \<Longrightarrow> ak_inv (b\<lparr>ema_state := [], hist := []\<rparr>)"
  by (simp add: ak_inv_def)

lemma ak_inv_mtime: "ak_inv b \<Longrightarrow> ak_inv (b\<lparr>file_mtime := t\<rparr>)"
  by (simp add: ak_inv_def)

lemma ak_inv_reload:
  assumes "ak_inv a" "good_file f"
  shows "ak_inv (reload f a)"
proof (cases f)
  case (Config t ov)
  have step: "ak_inv c"
    if g: "g \<in> set [set_alpha ov, set_margin ov, set_min_steps ov, set_saturate ov, set_k_set ov]"
      and b: "ak_inv b" and c: "g b = Inr c" for g b c
  proof -
    have gf: "good_file (Config t ov)" using assms(2) Config by simp
    consider "g = set_alpha ov" | "g = set_margin ov" | "g = set_min_steps ov"
      | "g = set_saturate ov" | "g = set_k_set ov" using g by auto
    then show ?thesis
    proof cases
      case 1 show ?thesis by (rule ak_inv_set_alpha [OF b gf c [unfolded 1]])
    next
      case 2 show ?thesis by (rule ak_inv_set_margin [OF b c [unfolded 2]])
    next
      case 3 show ?thesis by (rule ak_inv_set_min_steps [OF b c [unfolded 3]])
    next
      case 4 show ?thesis by (rule ak_inv_set_saturate [OF b c [unfolded 4]])
    next
      case 5 show ?thesis by (rule ak_inv_set_k_set [OF b c [unfolded 5]])
    qed
  qed
  have ov: "ak_inv (apply_override ov b)" if "ak_inv b" "boot_enabled b" for b
  proof -
    let ?b = "b\<lparr>enabled := mode_on (lower (strip (case ov_mode ov of None \<Rightarrow> ''ema'' | Some m \<Rightarrow> m)))\<rparr>"
    let ?r = "run_sets [set_alpha ov, set_margin ov, set_min_steps ov, set_saturate ov, set_k_set ov] ?b"
    have b0: "ak_inv ?b" by (rule ak_inv_mode [OF that])
    have r: "ak_inv (fst ?r)" by (rule run_sets_preserves [where P = ak_inv, OF step b0])
    obtain c ok where c: "?r = (c, ok)" by (rule prod.exhaust)
    have "ak_inv c" using r unfolding c by simp
    then show ?thesis unfolding apply_override_def Let_def c
      by (cases ok) (simp_all add: ak_inv_flush)
  qed
  show ?thesis using assms(1) ov [OF ak_inv_mtime [OF assms(1)], of "Some t"] Config
    by (simp add: reload_def Let_def)
qed (use assms in \<open>simp_all add: reload_def ak_inv_mtime Let_def\<close>)

lemma ak_inv_active: "ak_inv a \<Longrightarrow> good_file f \<Longrightarrow> ak_inv (active f a)"
  by (simp add: active_def ak_inv_reload)

lemma ak_inv_tick: "ak_inv a \<Longrightarrow> ak_inv (a\<lparr>steps := Suc (steps a)\<rparr>)"
  by (auto simp: ak_inv_def)

lemma ak_inv_apply_trim:
  assumes "ak_inv a" "good_file f" "apply_trim f a reqs live = Inr (a', rs)"
  shows "ak_inv a'"
  using assms(3)
  by (cases rule: apply_trim_cases)
     (simp_all add: ak_inv_active ak_inv_tick ak_inv_count assms(1,2))

lemma ak_inv_batch_k:
  assumes "ak_inv a" "good_file f" "batch_k f a k rqs live = Inr (a', n)"
  shows "ak_inv a'"
  using assms(3) ak_inv_active [OF assms(1,2)]
  by (auto simp: batch_k_def Let_def intro: ak_inv_tick ak_inv_count split: if_splits sum.splits)

lemma ak_inv_init:
  assumes "ak_init env f = Inr a" "good_file f"
    and "\<And>x. env_float env ''GLM53_ADAPTIVE_K_ALPHA'' ''0.25'' = Inr x \<Longrightarrow> 0 \<le> x \<and> x \<le> 1"
    and "\<And>ks. parse_k_set (getenv env ''GLM53_ADAPTIVE_K_SET'' ''2,4,7'') = Inr ks \<Longrightarrow> \<forall>k\<in>set ks. 0 \<le> k"
  shows "ak_inv a"
proof -
  obtain al mg ms ks he where
      al: "env_float env ''GLM53_ADAPTIVE_K_ALPHA'' ''0.25'' = Inr al"
    and mg: "env_float env ''GLM53_ADAPTIVE_K_MARGIN'' ''1.0'' = Inr mg"
    and ms: "env_int env ''GLM53_ADAPTIVE_K_MIN_STEPS'' ''4'' = Inr ms"
    and ks: "parse_k_set (getenv env ''GLM53_ADAPTIVE_K_SET'' ''2,4,7'') = Inr ks"
    and he: "env_int env ''GLM53_ADAPTIVE_K_HIST'' ''200'' = Inr he"
    using assms(1) unfolding ak_init_def Let_def by (force split: sum.splits)
  have k0: "0 \<le> (if ks = [] then 0 else Max (set ks))"
    using assms(4) [OF ks] by (auto intro: Max_ge_iff [THEN iffD2])
  show ?thesis using assms(1) unfolding ak_init_def Let_def al mg ms ks he sum.case
    by (simp only: sum.inject, elim ssubst [OF sym])
       (rule ak_inv_reload [OF _ assms(2)], use assms(3) [OF al] k0 in \<open>simp add: ak_inv_def\<close>)
qed


text \<open>a malformed override file is not ignored.  The code reports such a file as
  ignored, but a file whose \<open>margin\<close> does not convert has by then replaced the mode and
  the smoothing factor, while the averages computed under the old one are kept.\<close>

theorem bad_override_half_applied:
  assumes "ov_alpha ov = Some (Inr x)" "ov_margin ov = Some (Inl e)" "ov_mode ov = None"
  shows "alpha (apply_override ov a) = x \<and> enabled (apply_override ov a)
     \<and> margin (apply_override ov a) = margin a
     \<and> ema_state (apply_override ov a) = ema_state a"
proof -
  have m: "mode_on (lower (strip ''ema''))" by code_simp
  show ?thesis unfolding apply_override_def Let_def assms(3) option.case
    by (simp add: m set_alpha_def set_margin_def assms(1,2) del: map_append)
qed

section \<open>The theorems at concrete states\<close>

definition demo :: ak where
  "demo = \<lparr>enabled = True, graphs_enabled = True, alpha = 1 / 4, margin = 1, min_steps = 4,
     k_set = [2, 4, 7], saturate = ''max'', hist_every = 200, batch_margin = True,
     pos_trim = True, ema_state = [(''a'', (3, 5)), (''b'', (6, 9))], hist = [], steps = 1,
     k_max = 7, boot_set = [2, 4, 7], boot_enabled = True, boot_graphs = True,
     file_mtime = None\<rparr>"

definition demo_req :: "string \<Rightarrow> ak_req" where
  "demo_req i = \<lparr>request_id = i, spec_token_ids = [11, 12, 13, 14, 15, 16, 17],
     is_prefill_chunk = False, use_structured_output = False, finished = False\<rparr>"

lemma demo_simps [simp]:
  "enabled demo" "alpha demo = 1 / 4" "margin demo = 1" "min_steps demo = 4"
  "k_set demo = [2, 4, 7]" "batch_margin demo" "pos_trim demo" "k_max demo = 7" "steps demo = 1"
  "ema_state demo = [(''a'', (3, 5)), (''b'', (6, 9))]" "active f demo = demo"
  "spec_len (demo_req i) = 7" "request_id (demo_req i) = i"
  "spec_token_ids (demo_req i) = [11, 12, 13, 14, 15, 16, 17]"
  "\<not> finished (demo_req i)" "\<not> is_prefill_chunk (demo_req i)"
  by (simp_all add: demo_def demo_req_def active_def spec_len_def)

lemma demo_choice [simp]: "choose_k demo ''a'' 7 False = Inr (Some 4)"
  "choose_k demo ''b'' 7 False = Inr (Some 7)"
  by (simp_all add: choose_k_def Let_def py_max_Max)

lemma choose_k_spec_witness:
  "choose_k demo ''a'' 7 False = Inr (Some 4) \<and> (\<exists>v\<in>set (k_set demo). (4::int) = max 1 v)"
  using choose_k_spec [OF demo_choice(1)] by auto

lemma persistent_rejection_shortens_witness:
  "\<exists>N. \<forall>n\<ge>N. \<exists>v. choose_k (observe_n n demo ''c'' 7 1) ''c'' 7 False = Inr (Some v) \<and> v \<le> 3"
  using persistent_rejection_shortens [of demo 7 1 "''c''" 7] by simp

lemma demo_trim: "apply_trim NoFile demo [(demo_req ''a'', True), (demo_req ''b'', False)] {} =
    Inr (count_step 7 {} demo, [demo_req ''a'', demo_req ''b''])"
  by (simp add: apply_trim_def Let_def batch_width_def margin_width_def trim_to_def)

lemma structured_pins_batch_witness:
  "\<exists>a' rs. apply_trim NoFile demo [(demo_req ''a'', True), (demo_req ''b'', False)] {} = Inr (a', rs)
     \<and> rs = [demo_req ''a'', demo_req ''b'']"
  using structured_pins_batch [OF demo_trim, of "demo_req ''a''"] demo_trim by auto

lemma apply_trim_uniform_witness:
  "\<exists>a' rs. apply_trim NoFile demo [(demo_req ''a'', True), (demo_req ''b'', False)] {} = Inr (a', rs)
     \<and> (\<exists>n\<ge>1. rs = map (\<lambda>(r, s). r\<lparr>spec_token_ids := take (nat n) (spec_token_ids r)\<rparr>)
          [(demo_req ''a'', True), (demo_req ''b'', False)])"
proof -
  have "\<exists>n\<ge>1. [demo_req ''a'', demo_req ''b''] =
      map (\<lambda>(r, s). r\<lparr>spec_token_ids := take (nat n) (spec_token_ids r)\<rparr>)
          [(demo_req ''a'', True), (demo_req ''b'', False)]"
    by (rule apply_trim_uniform [OF demo_trim]) simp_all
  from conjI [OF demo_trim this] show ?thesis by - (rule exI, rule exI)
qed

lemma pos_trim_gated_witness:
  "min 2 (batch_width (demo\<lparr>pos_trim := False\<rparr>) [(demo_req ''a'', False), (demo_req ''b'', False)]
       [Some 4, Some 7])
     \<le> batch_width demo [(demo_req ''a'', False), (demo_req ''b'', False)] [Some 4, Some 7]
   \<and> batch_width demo [(demo_req ''a'', False)] [Some 4]
     = batch_width (demo\<lparr>pos_trim := False\<rparr>) [(demo_req ''a'', False)] [Some 4]"
  using pos_trim_gated [of "[(demo_req ''a'', False), (demo_req ''b'', False)]" demo "[Some 4, Some 7]"]
    pos_trim_gated [of "[(demo_req ''a'', False)]" demo "[Some 4]"] by simp

lemma update_disabled_is_stock_witness:
  "update_draft_token_ids (\<lambda>_. False) (\<lambda>_ ts. ts) NoFile (demo\<lparr>enabled := False\<rparr>)
       [(''a'', [1, 2])] [(''a'', demo_req ''a'')] =
     Inr (demo\<lparr>enabled := False\<rparr>, stock_update (\<lambda>_. False) (\<lambda>_ ts. ts)
       [(''a'', [1, 2])] [(''a'', demo_req ''a'')])"
  by (rule update_disabled_is_stock) simp

lemma demo_update:
  "update_draft_token_ids (\<lambda>_. False) (\<lambda>_ ts. ts) NoFile demo
       [(''a'', [1, 2, 3, 4, 5])] [(''a'', demo_req ''a'')] =
     Inr (count_step 4 {''a''} demo, [(''a'', (demo_req ''a'')\<lparr>spec_token_ids := [1, 2, 3, 4]\<rparr>)])"
proof -
  have "choose_k demo ''a'' 5 False = Inr (Some 4)"
    by (simp add: choose_k_def Let_def py_max_Max)
  then show ?thesis
    by (simp add: update_draft_token_ids_def apply_trim_def Let_def batch_width_def
        pos_width_def trim_to_def spec_len_def write_back_def slice_to_def)
qed

lemma update_refines_stock_witness:
  "\<exists>a' d'. update_draft_token_ids (\<lambda>_. False) (\<lambda>_ ts. ts) NoFile demo
       [(''a'', [1, 2, 3, 4, 5])] [(''a'', demo_req ''a'')] = Inr (a', d')
     \<and> dom (map_of d') = {''a''}"
  using update_refines_stock [OF demo_update] demo_update by auto


lemma bad_override_half_applied_witness:
  "let ov = \<lparr>ov_mode = None, ov_alpha = Some (Inr (1 / 2)), ov_margin = Some (Inl ValueError),
       ov_min_steps = None, ov_saturate = None, ov_set = None\<rparr> in
   alpha (apply_override ov demo) = 1 / 2 \<and> ema_state (apply_override ov demo) \<noteq> []"
  unfolding Let_def
  using bad_override_half_applied [of "\<lparr>ov_mode = None, ov_alpha = Some (Inr (1 / 2)),
       ov_margin = Some (Inl ValueError), ov_min_steps = None, ov_saturate = None,
       ov_set = None\<rparr>" "1 / 2" ValueError demo] by simp

end
