(* ===== verification/Sched_Floors.thy ===== *)
theory Sched_Floors
  imports Py_Text
begin

text \<open>
  What the scheduler overlays compute: the mixed-step prefill policy and the two fragments
  of \<open>schedule()\<close> that consult it (\<open>patch_scheduler_decode_floor.py\<close>), and the block
  alignment of a prefill chunk (\<open>patch_align_floor.py\<close>), files of \<open>vllm-exl3/overlay\<close>.
  The stock fragments are modelled next to the patched ones.
\<close>

section \<open>The mixed-step policy\<close>

record sreq =
  sid :: string
  num_computed_tokens :: int
  num_prompt_tokens :: int

text \<open>What \<open>GLM53_MIXED_PREFILL_CHUNK\<close> configures: no policy, or a cap (0 skips).\<close>

definition mixed_cap :: "string option \<Rightarrow> int option" where
  "mixed_cap env =
     (let raw = lower (strip (case env of None \<Rightarrow> ''skip'' | Some v \<Rightarrow> v)) in
      if raw \<in> {''0'', ''off'', ''no''} then None
      else if raw \<in> {''skip'', ''-1''} then Some 0
      else (let cap = (case parse_int raw of None \<Rightarrow> 0 | Some i \<Rightarrow> i) in
            if cap \<le> 0 then None else Some cap))"

fun policy_loop :: "sreq list \<Rightarrow> sreq \<Rightarrow> int \<Rightarrow> int option" where
  "policy_loop [] current cap = None"
| "policy_loop (r # rs) current cap =
     (if sid r = sid current then policy_loop rs current cap
      else if num_computed_tokens r \<ge> num_prompt_tokens r then Some cap
      else policy_loop rs current cap)"

definition mixed_prefill_policy :: "string option \<Rightarrow> sreq list \<Rightarrow> sreq \<Rightarrow> int option" where
  "mixed_prefill_policy env running current =
     (case mixed_cap env of None \<Rightarrow> None | Some cap \<Rightarrow> policy_loop running current cap)"

section \<open>The fragments of the scheduler\<close>

text \<open>\<open>if 0 < threshold < n: n = threshold\<close>\<close>

definition lptt_cap :: "int \<Rightarrow> int \<Rightarrow> int" where
  "lptt_cap threshold n = (if 0 < threshold \<and> threshold < n then threshold else n)"

definition stock_running :: "int \<Rightarrow> int \<Rightarrow> int \<Rightarrow> int \<Rightarrow> int" where
  "stock_running threshold token_budget input_left n =
     min (lptt_cap threshold n) (min token_budget input_left)"

definition patched_running ::
  "string option \<Rightarrow> sreq list \<Rightarrow> int \<Rightarrow> int \<Rightarrow> int \<Rightarrow> sreq \<Rightarrow> int \<Rightarrow> int" where
  "patched_running env running threshold token_budget input_left r n =
     (let n1 = stock_running threshold token_budget input_left n in
      case mixed_prefill_policy env running r of
        None \<Rightarrow> n1
      | Some cap \<Rightarrow> (if num_computed_tokens r < num_prompt_tokens r then min n1 cap else n1))"

text \<open>The waiting loop: \<open>None\<close> is the branch that puts the request back and goes on with the
  next one; \<open>computed\<close> is the loop's local count, which includes prefix-cache hits.\<close>

definition patched_waiting ::
  "string option \<Rightarrow> sreq list \<Rightarrow> int \<Rightarrow> sreq \<Rightarrow> int \<Rightarrow> int \<Rightarrow> int option" where
  "patched_waiting env running threshold r computed n =
     (let n1 = lptt_cap threshold n in
      case mixed_prefill_policy env running r of
        None \<Rightarrow> Some n1
      | Some cap \<Rightarrow>
          (if computed < num_prompt_tokens r
           then (if cap \<le> 0 then None else Some (min n1 cap))
           else Some n1))"

section \<open>Block alignment\<close>

definition align_floor :: "string option \<Rightarrow> bool" where
  "align_floor env \<longleftrightarrow>
     lower (strip (case env of None \<Rightarrow> ''1'' | Some v \<Rightarrow> v)) \<notin> {''0'', ''off'', ''false'', ''no'', ''''}"

definition stock_split :: "int \<Rightarrow> int \<Rightarrow> int \<Rightarrow> int \<Rightarrow> int" where
  "stock_split block_size max_prefill start fin =
     (let aligned = fin div block_size * block_size in
      if aligned > start \<or> block_size \<le> max_prefill then aligned else fin)"

definition patched_split :: "bool \<Rightarrow> int \<Rightarrow> int \<Rightarrow> int \<Rightarrow> int \<Rightarrow> int" where
  "patched_split floor_on block_size max_prefill start fin =
     (let aligned = fin div block_size * block_size in
      if aligned > start \<or> (block_size \<le> max_prefill \<and> \<not> floor_on) then aligned else fin)"

section \<open>Lemmas\<close>

definition decoding_peer :: "sreq list \<Rightarrow> sreq \<Rightarrow> bool" where
  "decoding_peer running r \<longleftrightarrow>
     (\<exists>q\<in>set running. sid q \<noteq> sid r \<and> num_prompt_tokens q \<le> num_computed_tokens q)"

lemma policy_loop_peer:
  "policy_loop running r cap = (if decoding_peer running r then Some cap else None)"
  by (induction running r cap rule: policy_loop.induct) (auto simp: decoding_peer_def)

lemma mixed_prefill_policy_peer:
  "mixed_prefill_policy env running r = (if decoding_peer running r then mixed_cap env else None)"
  by (simp add: mixed_prefill_policy_def policy_loop_peer split: option.split)

lemma mixed_cap_nonneg: "mixed_cap env = Some cap \<Longrightarrow> 0 \<le> cap"
  by (auto simp: mixed_cap_def Let_def split: if_splits)

lemma mixed_cap_default: "mixed_cap None = Some 0"
  by code_simp

text \<open>C7: the decode floor.  With the default setting a request still in its prompt is given no
  token while another running request decodes: the running loop schedules at most 0 and
  the waiting loop puts it back.\<close>

theorem decode_floor_default:
  assumes "decoding_peer running r" "num_computed_tokens r < num_prompt_tokens r"
    and "computed < num_prompt_tokens r"
  shows "patched_running None running threshold budget left r n \<le> 0
    \<and> patched_waiting None running threshold r computed n = None"
  using assms
  by (simp add: patched_running_def patched_waiting_def mixed_prefill_policy_peer
      mixed_cap_default Let_def)

lemma decode_floor_default_witness:
  "patched_running None [\<lparr>sid = ''d'', num_computed_tokens = 9, num_prompt_tokens = 4\<rparr>] 1792 1024 1024
      \<lparr>sid = ''p'', num_computed_tokens = 0, num_prompt_tokens = 80000\<rparr> 80000 \<le> 0
   \<and> patched_waiting None [\<lparr>sid = ''d'', num_computed_tokens = 9, num_prompt_tokens = 4\<rparr>] 1792
      \<lparr>sid = ''p'', num_computed_tokens = 0, num_prompt_tokens = 80000\<rparr> 3584 80000 = None"
  by (rule decode_floor_default) (simp_all add: decoding_peer_def)

text \<open>The policy touches nothing else.  Without a decoding peer, with the policy off, or for
  a request that is itself past its prompt, both fragments are the stock ones; a numeric
  setting only lowers the chunk, and never below the smaller of the stock chunk and the
  cap.\<close>

theorem decode_floor_frame:
  "(\<not> decoding_peer running r \<or> mixed_cap env = None \<or> num_prompt_tokens r \<le> num_computed_tokens r
      \<longrightarrow> patched_running env running threshold budget left r n
            = stock_running threshold budget left n)
   \<and> (\<not> decoding_peer running r \<or> mixed_cap env = None \<or> num_prompt_tokens r \<le> computed
      \<longrightarrow> patched_waiting env running threshold r computed n = Some (lptt_cap threshold n))
   \<and> (\<forall>cap. mixed_cap env = Some cap \<longrightarrow>
        min (stock_running threshold budget left n) cap
          \<le> patched_running env running threshold budget left r n
        \<and> patched_running env running threshold budget left r n
            \<le> stock_running threshold budget left n)"
  by (auto simp: patched_running_def patched_waiting_def mixed_prefill_policy_peer Let_def
      split: option.splits)

lemma decode_floor_frame_witness:
  "patched_running (Some ''128'') [] 1792 1024 1024
      \<lparr>sid = ''p'', num_computed_tokens = 0, num_prompt_tokens = 80000\<rparr> 80000 = 1024"
proof -
  have "stock_running 1792 1024 1024 80000 = (1024 :: int)"
    by (simp add: stock_running_def lptt_cap_def)
  with decode_floor_frame [of "[]" "\<lparr>sid = ''p'', num_computed_tokens = 0, num_prompt_tokens = 80000\<rparr>"
      "Some ''128''" 1792 1024 1024 80000 0]
  show ?thesis by (simp add: decoding_peer_def)
qed


lemma aligned_le: "0 < b \<Longrightarrow> e div b * b \<le> (e::int)"
  using pos_mod_sign [of b e] minus_mod_eq_div_mult [of e b] by linarith

lemma aligned_boundary:
  assumes "0 < (b::int)" "\<not> start < e div b * b" "b dvd x" "start < x"
  shows "e < x"
proof (rule ccontr)
  assume "\<not> e < x"
  then have "x div b \<le> e div b" using assms(1) by (simp add: zdiv_mono1)
  then have "x div b * b \<le> e div b * b" using assms(1) by (simp add: mult_right_mono)
  then show False using assms(2-4) by simp
qed

text \<open>the alignment floor.  With the floor on, a non-empty chunk stays non-empty, never
  grows, and ends on a block boundary unless no boundary lies inside it; with the floor
  off the split is the stock one, and also with it on whenever the block is larger than
  the prefill limit, the production setting.\<close>

theorem align_floor_spec:
  assumes "0 < block" "start < fin"
  shows "start < patched_split True block max_prefill start fin
    \<and> patched_split True block max_prefill start fin \<le> fin
    \<and> (block dvd patched_split True block max_prefill start fin
        \<or> (\<forall>x. block dvd x \<longrightarrow> start < x \<longrightarrow> fin < x))
    \<and> patched_split False block max_prefill start fin = stock_split block max_prefill start fin
    \<and> (max_prefill < block \<longrightarrow>
        patched_split True block max_prefill start fin = stock_split block max_prefill start fin)"
  using assms aligned_le [OF assms(1), of fin] aligned_boundary [OF assms(1), of start fin]
  by (auto simp: patched_split_def stock_split_def Let_def)

lemma align_floor_spec_witness:
  "0 < patched_split True 3584 3584 0 512 \<and> stock_split 3584 3584 0 512 = 0"
  using align_floor_spec [of 3584 0 512 3584] by (simp add: stock_split_def)

text \<open>Prefilling a prompt chunk by chunk under a cap, as the decode floor hands it down.\<close>

fun prefill :: "bool \<Rightarrow> int \<Rightarrow> int \<Rightarrow> int \<Rightarrow> int \<Rightarrow> nat \<Rightarrow> int \<Rightarrow> int" where
  "prefill floor_on block max_prefill cap prompt 0 start = start"
| "prefill floor_on block max_prefill cap prompt (Suc k) start =
     (if prompt \<le> start then start
      else prefill floor_on block max_prefill cap prompt k
        (max start (patched_split floor_on block max_prefill start (min prompt (start + cap)))))"

lemma prefill_progress:
  assumes "0 < block" "0 < cap" "start + int k \<ge> prompt" "start \<le> prompt"
  shows "prefill True block mp cap prompt k start = prompt"
  using assms(3,4)
proof (induction k arbitrary: start)
  case (Suc k)
  show ?case
  proof (cases "prompt \<le> start")
    case False
    let ?e = "patched_split True block mp start (min prompt (start + cap))"
    have s: "start < min prompt (start + cap)" using False assms(2) by simp
    have e: "start < ?e" "?e \<le> min prompt (start + cap)"
      using s aligned_le [OF assms(1), of "min prompt (start + cap)"]
      by (auto simp: patched_split_def Let_def)
    then show ?thesis using False Suc by (simp add: max_absorb2)
  qed (use Suc in simp)
qed simp

lemma prefill_stalls:
  assumes "0 < cap" "cap < block" "block \<le> mp" "cap < prompt"
  shows "prefill False block mp cap prompt k 0 = 0"
proof (induction k)
  case (Suc k)
  have "cap div block = 0" using assms(1,2) by simp
  then have "patched_split False block mp 0 (min prompt cap) = 0"
    using assms by (simp add: patched_split_def Let_def min_absorb2)
  then show ?case using Suc assms by simp
qed simp

text \<open>why the two overlays need each other.  A capped chunk inside one block is scheduled
  as nothing by the stock split once the prefill limit reaches the block size, however
  often it is retried; the patched split makes progress, so that the prompt is finished
  after at most as many chunks as it has tokens left.\<close>

theorem capped_prefill:
  assumes "0 < cap" "cap < block" "block \<le> max_prefill" "cap < prompt"
  shows "prefill False block max_prefill cap prompt k 0 = 0
    \<and> prefill True block max_prefill cap prompt (nat prompt) 0 = prompt"
  using prefill_stalls [OF assms] prefill_progress [of block cap prompt 0 "nat prompt" max_prefill] assms
  by simp

lemma capped_prefill_witness:
  "prefill False 3584 3584 512 8000 100 0 = 0 \<and> prefill True 3584 3584 512 8000 (nat 8000) 0 = 8000"

  by (rule capped_prefill) simp_all

end
