(* ===== verification/Stop_Guard.thy ===== *)
theory Stop_Guard
  imports Py_Text
begin

text \<open>
  What \<open>vllm-exl3/overlay/patch_suppress_stops_in_reasoning.py\<close> installs in the
  detokenizer: when the guard on client stop strings is armed, and the step that keeps the
  stops dormant until the end-of-reasoning marker has been generated.  The tokenizer of
  the server is a parameter (what \<open>convert_tokens_to_ids\<close> and \<open>encode\<close> return); so is the
  reasoning configuration.  An exception in the arming code leaves the guard off and is
  not modelled further.
\<close>

section \<open>Arming\<close>

definition suppress_stops_enabled :: "(string \<Rightarrow> string option) \<Rightarrow> bool" where
  "suppress_stops_enabled env =
     (case env ''GLM53_SUPPRESS_STOPS_IN_REASONING'' of
        Some v \<Rightarrow> v \<noteq> ''0''
      | None \<Rightarrow> (case env ''VLLM_SUPPRESS_STOPS_IN_REASONING'' of
                  Some v \<Rightarrow> v \<noteq> ''0'' | None \<Rightarrow> True))"

text \<open>The configured markers; an empty one falls back to the default.\<close>

definition reasoning_stop_markers :: "(string \<times> string) option \<Rightarrow> string \<times> string" where
  "reasoning_stop_markers rc = (case rc of
       None \<Rightarrow> (''<think>'', ''</think>'')
     | Some (s, e) \<Rightarrow> (if s = [] then ''<think>'' else s, if e = [] then ''</think>'' else e))"

definition think_id :: "(string \<Rightarrow> int option) \<Rightarrow> (string \<Rightarrow> int list option) \<Rightarrow> string \<Rightarrow> int option" where
  "think_id convert encode start =
     (let i = convert start in
      if i = None \<or> the i < 0 then
        (case encode start of
           Some [t] \<Rightarrow> Some t
         | _ \<Rightarrow> i)
      else i)"

record detok =
  stop_guard :: bool
  reasoning_closed :: bool
  reasoning_end_str :: string
  output_text :: string

definition fresh_detok :: detok where
  "fresh_detok = \<lparr>stop_guard = False, reasoning_closed = False, reasoning_end_str = ''</think>'',
     output_text = []\<rparr>"

definition maybe_enable_guard ::
  "(string \<Rightarrow> string option) \<Rightarrow> (string \<times> string) option \<Rightarrow> (string \<Rightarrow> int option)
   \<Rightarrow> (string \<Rightarrow> int list option) \<Rightarrow> string list \<Rightarrow> int list \<Rightarrow> detok \<Rightarrow> detok" where
  "maybe_enable_guard env rc convert encode stop ptids d =
     (if \<not> suppress_stops_enabled env \<or> stop = [] \<or> ptids = [] then d
      else (case reasoning_stop_markers rc of (start, fin) \<Rightarrow>
        (case think_id convert encode start of
           None \<Rightarrow> d
         | Some t \<Rightarrow>
             (if t \<ge> 0 \<and> last ptids = t
              then d\<lparr>stop_guard := True, reasoning_end_str := fin\<rparr> else d))))"

section \<open>The stop step\<close>

text \<open>
  \<open>stop_step d offset\<close> is the inserted fragment: the marker is searched from
  \<open>max(0, offset - (len(marker) - 1))\<close>; the result is the new state, the offset from
  which stop strings are looked for, and whether they are looked for at all.
\<close>

definition stop_step :: "detok \<Rightarrow> nat \<Rightarrow> string list \<Rightarrow> bool \<Rightarrow> detok \<times> nat \<times> bool" where
  "stop_step d offset stop past_min =
     (let (d', offset') =
        (if stop_guard d \<and> \<not> reasoning_closed d then
           (let marker = reasoning_end_str d; window = offset + 1 - length marker in
            (case find_from marker window (output_text d) of
               None \<Rightarrow> (d, offset)
             | Some idx \<Rightarrow> (d\<lparr>reasoning_closed := True\<rparr>, max offset (idx + length marker))))
         else (d, offset))
      in (d', offset', stop \<noteq> [] \<and> past_min \<and> (\<not> stop_guard d' \<or> reasoning_closed d')))"

text \<open>One update: the new text is appended and the step looks from the old end of the text.\<close>

definition feed :: "string list \<Rightarrow> detok \<Rightarrow> string \<Rightarrow> detok \<times> nat \<times> bool" where
  "feed stop d chunk =
     stop_step (d\<lparr>output_text := output_text d @ chunk\<rparr>) (length (output_text d)) stop True"

fun feed_all :: "string list \<Rightarrow> detok \<Rightarrow> string list \<Rightarrow> detok" where
  "feed_all stop d [] = d"
| "feed_all stop d (c # cs) = feed_all stop (fst (feed stop d c)) cs"

section \<open>Lemmas\<close>

lemma starts_with_take:
  "starts_with p (drop j s) \<Longrightarrow> j + length p \<le> n \<Longrightarrow> contains p (take n s)"
proof -
  assume a: "starts_with p (drop j s)" "j + length p \<le> n"
  then obtain t where t: "drop j s = p @ t" by (auto simp: starts_with_iff)
  have "take n s = take j s @ take (n - j) (drop j s)"
    using a(2) by (metis add_leE le_add_diff_inverse take_add)
  also have "take (n - j) (drop j s) = p @ take (n - j - length p) t"
    using t a(2) by simp
  finally show ?thesis unfolding contains_iff by blast
qed

text \<open>Searching from the window finds what a search of the whole text finds, as the text
  before the offset has no marker.\<close>

lemma find_window:
  assumes "p \<noteq> []" "\<not> contains p (take offset s)" "offset \<le> length s"
  shows "find_from p (offset + 1 - length p) s = find_text p s"
proof -
  let ?w = "offset + 1 - length p"
  have w: "?w \<le> length s" using assms(1,3) by (cases p) auto
  have early: "\<not> starts_with p (drop j s)" if "j < ?w" for j
  proof
    assume "starts_with p (drop j s)"
    moreover have "j + length p \<le> offset" using that by linarith
    ultimately show False using starts_with_take assms(2) by blast
  qed
  show ?thesis
  proof (cases "find_text p s")
    case None
    then have "\<not> contains p s" by (simp add: find_text_None)
    then have "\<not> contains p (drop ?w s)"
      by (metis append_take_drop_id contains_appendI2)
    then have "find_text p (drop ?w s) = None" by (simp add: find_text_None)
    then show ?thesis using None w by (simp add: find_from_def)
  next
    case (Some i)
    from find_text_Some [OF Some] have i: "starts_with p (drop i s)" "i \<le> length s"
      "\<forall>j<i. \<not> starts_with p (drop j s)" by auto
    then have "?w \<le> i" using early by (meson not_le)
    then have "find_text p (drop ?w s) = Some (i - ?w)"
      by (intro find_text_least) (use i in \<open>auto simp: add.commute less_diff_conv\<close>)
    then show ?thesis using Some w \<open>?w \<le> i\<close> by (simp add: find_from_def)
  qed
qed

lemma stop_step_text [simp]:
  "output_text (fst (stop_step d n stop m)) = output_text d"
  "stop_guard (fst (stop_step d n stop m)) = stop_guard d"
  "reasoning_end_str (fst (stop_step d n stop m)) = reasoning_end_str d"
  by (auto simp: stop_step_def Let_def split: option.splits)

lemma feed_text [simp]:
  "output_text (fst (feed stop d c)) = output_text d @ c"
  "stop_guard (fst (feed stop d c)) = stop_guard d"
  "reasoning_end_str (fst (feed stop d c)) = reasoning_end_str d"
  by (simp_all add: feed_def)

definition guard_inv :: "detok \<Rightarrow> bool" where
  "guard_inv d \<longleftrightarrow> stop_guard d \<and> reasoning_end_str d \<noteq> []
     \<and> (reasoning_closed d \<longleftrightarrow> contains (reasoning_end_str d) (output_text d))"

lemma feed_inv:
  assumes "guard_inv d"
  shows "guard_inv (fst (feed stop d c))"
proof (cases "reasoning_closed d")
  case True
  then show ?thesis using assms
    by (auto simp: guard_inv_def feed_def stop_step_def Let_def contains_appendI1)
next
  case False
  let ?m = "reasoning_end_str d" and ?s = "output_text d @ c"
  have "\<not> contains ?m (take (length (output_text d)) ?s)" using False assms by (simp add: guard_inv_def)
  then have f: "find_from ?m (length (output_text d) + 1 - length ?m) ?s = find_text ?m ?s"
    using assms by (intro find_window) (simp_all add: guard_inv_def)
  have "reasoning_closed (fst (feed stop d c)) \<longleftrightarrow> find_text ?m ?s \<noteq> None"
    using False assms f by (auto simp: guard_inv_def feed_def stop_step_def Let_def split: option.splits)
  then show ?thesis using assms by (simp add: guard_inv_def find_text_None)
qed

lemma feed_all_inv: "guard_inv d \<Longrightarrow> guard_inv (feed_all stop d cs)"
  by (induction stop d cs rule: feed_all.induct) (simp_all add: feed_inv)

lemma feed_all_text:
  "output_text (feed_all stop d cs) = output_text d @ concat cs
   \<and> stop_guard (feed_all stop d cs) = stop_guard d
   \<and> reasoning_end_str (feed_all stop d cs) = reasoning_end_str d"
  by (induction stop d cs rule: feed_all.induct) simp_all


definition demo_guard :: detok where
  "demo_guard = fresh_detok\<lparr>stop_guard := True\<rparr>"


text \<open>stop strings restated inside the reasoning cannot end the request.  When the armed
  guard closes in an update, the search for stop strings starts at or after the end of
  the first marker; and before that update nothing of the new text was searched.\<close>

theorem stops_start_after_marker:
  assumes "guard_inv d" "\<not> reasoning_closed d" "feed stop d c = (d', offset, True)"
  shows "\<exists>i. find_text (reasoning_end_str d) (output_text d') = Some i
    \<and> i + length (reasoning_end_str d) \<le> offset \<and> length (output_text d) \<le> offset"
proof -
  let ?m = "reasoning_end_str d" and ?s = "output_text d @ c"
  have "\<not> contains ?m (take (length (output_text d)) ?s)" using assms(1,2) by (simp add: guard_inv_def)
  then have f: "find_from ?m (length (output_text d) + 1 - length ?m) ?s = find_text ?m ?s"
    using assms by (intro find_window) (simp_all add: guard_inv_def)
  from assms f show ?thesis
    by (auto simp: guard_inv_def feed_def stop_step_def Let_def split: option.splits)
qed

lemma stops_start_after_marker_witness:
  "\<exists>d' offset. feed [''Question:''] demo_guard ''x</think>'' = (d', offset, True) \<and> 9 \<le> offset"
proof -
  let ?r = "feed [''Question:''] demo_guard ''x</think>''"
  have g: "guard_inv demo_guard" "\<not> reasoning_closed demo_guard"
    by (simp_all add: guard_inv_def demo_guard_def fresh_detok_def)
  have r: "?r = (demo_guard\<lparr>output_text := ''x</think>'', reasoning_closed := True\<rparr>, 9, True)"
    by (simp add: feed_def stop_step_def Let_def demo_guard_def fresh_detok_def find_from_def
        starts_with_def eval_nat_numeral)
  have "\<exists>i. i + length ''</think>'' \<le> (9::nat)"
    using stops_start_after_marker [OF g r] by (auto simp: demo_guard_def fresh_detok_def)
  with r show ?thesis by blast
qed

end
