(* ===== verification/No_Store.thy ===== *)
theory No_Store
  imports Py_Text
begin

text \<open>
  The code \<open>vllm-exl3/overlay/patch_apc_no_store.py\<close> installs: the strict 0/1 flag of a
  request, its validation on the client's side, its resolution in the engine, and the
  guards at the two sites that store blocks in the prefix cache.  Values are what JSON and
  Python can hand over: a bool, an int, a str, or anything else.  \<open>ValueError\<close> is the left
  side of a sum; log lines are not modelled.
\<close>

section \<open>Parsing\<close>

datatype flag_value = VBool bool | VInt int | VStr string | VOther

fun parse_no_store :: "flag_value \<Rightarrow> py_exc + bool" where
  "parse_no_store (VBool b) = Inr b"
| "parse_no_store (VInt i) = (if i = 0 \<or> i = 1 then Inr (i \<noteq> 0) else Inl ValueError)"
| "parse_no_store (VStr s) = (if s = ''0'' \<or> s = ''1'' then Inr (s = ''1'') else Inl ValueError)"
| "parse_no_store VOther = Inl ValueError"

text \<open>The kill switch \<open>GLM53_APC_NO_STORE\<close>, read at import.\<close>

definition no_store_env :: "string option \<Rightarrow> py_exc + bool" where
  "no_store_env raw = (case raw of
       None \<Rightarrow> Inr True
     | Some r \<Rightarrow> (if r = ''0'' \<or> r = ''1'' then Inr (r = ''1'') else Inl ValueError))"

section \<open>The request's parameters\<close>

text \<open>\<open>typed\<close> is the field \<open>skip_writing_prefix_cache\<close>; \<open>extra\<close> is \<open>extra_args\<close>, a
  dictionary or \<open>None\<close>.\<close>

record sampling_params =
  typed :: "flag_value option"
  extra :: "(string \<times> flag_value) list option"

definition no_store_key :: string where
  "no_store_key = ''skip_writing_prefix_cache''"

definition extra_flag :: "sampling_params \<Rightarrow> flag_value option" where
  "extra_flag p = (case extra p of None \<Rightarrow> None | Some d \<Rightarrow> map_of d no_store_key)"

definition validate_no_store_params :: "sampling_params \<Rightarrow> py_exc + sampling_params" where
  "validate_no_store_params p =
     (case (case typed p of
              None \<Rightarrow> Inr p
            | Some v \<Rightarrow> (case parse_no_store v of
                           Inl e \<Rightarrow> Inl e | Inr b \<Rightarrow> Inr (p\<lparr>typed := Some (VBool b)\<rparr>))) of
        Inl e \<Rightarrow> Inl e
      | Inr p1 \<Rightarrow>
          (case extra_flag p1 of
             None \<Rightarrow> Inr p1
           | Some v \<Rightarrow> (case parse_no_store v of Inl e \<Rightarrow> Inl e | Inr _ \<Rightarrow> Inr p1)))"

text \<open>The engine's side never raises; \<open>switch_on\<close> is the kill switch's value.\<close>

definition resolve_no_store :: "bool \<Rightarrow> sampling_params option \<Rightarrow> bool" where
  "resolve_no_store switch_on sp = (case sp of
       None \<Rightarrow> False
     | Some p \<Rightarrow>
         (case (case typed p of Some v \<Rightarrow> Some v | None \<Rightarrow> extra_flag p) of
            None \<Rightarrow> False
          | Some raw \<Rightarrow>
              (case parse_no_store raw of
                 Inl _ \<Rightarrow> False
               | Inr value \<Rightarrow> value \<and> switch_on)))"

section \<open>The store sites\<close>

text \<open>
  \<open>cache_full_blocks\<close> from its patched guard on: the blocks a request would enter into the
  prefix cache.  \<open>stored\<close> is what the stock code inserts for the new full blocks.
\<close>

definition stock_full_blocks :: "nat \<Rightarrow> nat \<Rightarrow> 'b list \<Rightarrow> 'b list" where
  "stock_full_blocks num_cached num_full blocks =
     (if num_cached \<ge> num_full then [] else drop num_cached (take num_full blocks))"

definition cache_full_blocks :: "bool \<Rightarrow> nat \<Rightarrow> nat \<Rightarrow> 'b list \<Rightarrow> 'b list" where
  "cache_full_blocks skip_writing num_cached num_full blocks =
     (if num_cached \<ge> num_full then []
      else if skip_writing then []
      else drop num_cached (take num_full blocks))"

definition cache_partial_block :: "bool \<Rightarrow> bool \<Rightarrow> 'b \<Rightarrow> 'b option" where
  "cache_partial_block skip_writing is_null entry =
     (if is_null then None else if skip_writing then None else Some entry)"

section \<open>Lemmas\<close>

lemma parse_no_store_Inr:
  "parse_no_store v = Inr b \<longleftrightarrow>
     v = VBool b \<or> v = VInt (if b then 1 else 0) \<or> v = VStr (if b then ''1'' else ''0'')"
  by (cases v) auto

lemma extra_flag_typed [simp]: "extra_flag (p\<lparr>typed := t\<rparr>) = extra_flag p"
  by (simp add: extra_flag_def)

lemma validate_Inr:
  "validate_no_store_params p = Inr q \<longleftrightarrow>
     (\<forall>v. extra_flag p = Some v \<longrightarrow> (\<exists>b. parse_no_store v = Inr b))
     \<and> (case typed p of
          None \<Rightarrow> q = p
        | Some v \<Rightarrow> (\<exists>b. parse_no_store v = Inr b \<and> q = p\<lparr>typed := Some (VBool b)\<rparr>))"
  by (auto simp: validate_no_store_params_def split: option.splits sum.splits)

text \<open>both sides read a request alike.  For parameters that pass validation the engine
  stores nothing exactly when the flag of the request (the typed field, else the extra
  argument) is one of the three spellings of true and the kill switch is on; and the
  normalisation done by validation does not change that.\<close>

theorem resolve_agrees_with_validation:
  assumes "validate_no_store_params p = Inr q"
  shows "resolve_no_store sw (Some q) = resolve_no_store sw (Some p)
    \<and> (resolve_no_store sw (Some q) \<longleftrightarrow> sw \<and>
        (case typed p of
           Some v \<Rightarrow> v \<in> {VBool True, VInt 1, VStr ''1''}
         | None \<Rightarrow> extra_flag p \<in> Some ` {VBool True, VInt 1, VStr ''1''}))"
proof (cases "typed p")
  case None
  then have q: "q = p" "\<forall>v. extra_flag p = Some v \<longrightarrow> (\<exists>b. parse_no_store v = Inr b)"
    using assms by (auto simp: validate_Inr)
  show ?thesis
  proof (cases "extra_flag p")
    case (Some v)
    then obtain b where b: "parse_no_store v = Inr b" using q(2) by blast
    then have "b = (v \<in> {VBool True, VInt 1, VStr ''1''})"
      by (cases v) (auto split: if_splits)
    then show ?thesis using b Some q(1) None by (auto simp: resolve_no_store_def)
  qed (use None q in \<open>auto simp: resolve_no_store_def\<close>)
next
  case (Some v)
  then obtain b where b: "parse_no_store v = Inr b" "q = p\<lparr>typed := Some (VBool b)\<rparr>"
    using assms by (auto simp: validate_Inr)
  then have "b = (v \<in> {VBool True, VInt 1, VStr ''1''})"
    by (cases v) (auto split: if_splits)
  then show ?thesis using b Some by (auto simp: resolve_no_store_def)
qed

lemma resolve_agrees_with_validation_witness:
  "resolve_no_store True (Some \<lparr>typed = None, extra = Some [(no_store_key, VStr ''1'')]\<rparr>)"
proof -
  have "validate_no_store_params \<lparr>typed = None, extra = Some [(no_store_key, VStr ''1'')]\<rparr>
      = Inr \<lparr>typed = None, extra = Some [(no_store_key, VStr ''1'')]\<rparr>"
    by (simp add: validate_no_store_params_def extra_flag_def)
  from resolve_agrees_with_validation [OF this, of True] show ?thesis
    by (simp add: extra_flag_def)
qed

text \<open>A request that resolves to no-store inserts nothing at either site, and the stock
  behaviour is untouched for every other request.\<close>

lemma store_sites:
  "cache_full_blocks True m n bs = []" "cache_partial_block True z e = None"
  "cache_full_blocks False m n bs = stock_full_blocks m n bs"
  by (simp_all add: cache_full_blocks_def cache_partial_block_def stock_full_blocks_def)

text \<open>The kill switch only ever turns the flag off, and does not excuse a malformed value.\<close>

lemma kill_switch: "resolve_no_store sw sp \<Longrightarrow> sw \<and> resolve_no_store True sp"
  by (auto simp: resolve_no_store_def split: option.splits sum.splits)

end
