(* ===== verification/Kpool_Slots.thy ===== *)
theory Kpool_Slots
  imports Py_Prelude
begin

text \<open>
  The slot mapping of \<open>vllm-exl3/overlay/patch_kpool_tail_slotmap.py\<close>: the CPU replica
  \<open>circular_slot_ids\<close> of the patched kernel, the count of positions the unpatched kernel
  would read past the row, and the index computation of the kernel fragment itself.
  Python indexing with a negative index counts from the end; \<open>//\<close> and \<open>%\<close> by zero
  raise.
\<close>

definition py_index :: "'a list \<Rightarrow> int \<Rightarrow> py_exc + 'a" where
  "py_index xs i =
     (if 0 \<le> i \<and> i < int (length xs) then Inr (xs ! nat i)
      else if - int (length xs) \<le> i \<and> i < 0 then Inr (xs ! nat (int (length xs) + i))
      else Inl IndexError)"

definition count_overruns :: "int list \<Rightarrow> int \<Rightarrow> int \<Rightarrow> py_exc + nat" where
  "count_overruns positions block_size stride =
     (if block_size < 1 \<or> stride < 1 then Inl ValueError
      else Inr (length (filter (\<lambda>pos. pos div block_size \<ge> stride) positions)))"

definition slot_of :: "bool \<Rightarrow> int list \<Rightarrow> int \<Rightarrow> int \<Rightarrow> py_exc + int" where
  "slot_of clamp row block_size pos =
     (if block_size = 0 then Inl ZeroDivisionError
      else
        (let stride = int (length row); idx = pos div block_size in
         if \<not> clamp \<and> (idx < 0 \<or> idx \<ge> stride) then Inl IndexError
         else (case py_index row (if clamp then min idx (stride - 1) else idx) of
                 Inl e \<Rightarrow> Inl e
               | Inr b \<Rightarrow> Inr (b * block_size + pos mod block_size))))"

definition circular_slot_ids :: "int list \<Rightarrow> int list \<Rightarrow> int \<Rightarrow> bool \<Rightarrow> py_exc + int list" where
  "circular_slot_ids positions row block_size clamp =
     (if row = [] then Inl ValueError else map_res (slot_of clamp row block_size) positions)"

text \<open>The kernel fragment: the block index, before and after the inserted clamp.\<close>

definition block_index :: "int \<Rightarrow> int \<Rightarrow> int \<Rightarrow> int \<Rightarrow> int" where
  "block_index virtual blocks_per_kv local_offset block_size =
     virtual * blocks_per_kv + local_offset div block_size"

definition clamped_index :: "int \<Rightarrow> int \<Rightarrow> int" where
  "clamped_index idx stride = min idx (stride - 1)"

section \<open>Lemmas\<close>

lemma div_nonneg: "0 \<le> (p::int) \<Longrightarrow> 1 \<le> b \<Longrightarrow> 0 \<le> p div b"
  by (simp add: pos_imp_zdiv_nonneg_iff)

lemma slot_of_clamped:
  assumes "1 \<le> b" "row \<noteq> []" "0 \<le> pos"
  shows "slot_of True row b pos =
     Inr (row ! nat (min (pos div b) (int (length row) - 1)) * b + pos mod b)"
proof -
  have "0 \<le> min (pos div b) (int (length row) - 1)" using assms div_nonneg by (cases row) auto
  then show ?thesis using assms by (simp add: slot_of_def py_index_def Let_def min_less_iff_disj)
qed

lemma slot_of_unclamped:
  assumes "1 \<le> b" "0 \<le> pos"
  shows "slot_of False row b pos =
     (if pos div b \<ge> int (length row) then Inl IndexError
      else Inr (row ! nat (pos div b) * b + pos mod b))"
  using assms div_nonneg [OF assms(2,1)] by (auto simp: slot_of_def py_index_def Let_def)

lemma map_res_cong: "(\<And>x. x \<in> set xs \<Longrightarrow> f x = g x) \<Longrightarrow> map_res f xs = map_res g xs"
  by (induction xs) (auto split: sum.splits)

lemma map_res_Inl_if: "\<exists>x\<in>set xs. \<exists>e. f x = Inl e \<Longrightarrow> \<exists>e. map_res f xs = Inl e"
  using map_res_Inr_iff [of f xs]
  by (cases "map_res f xs") (auto simp: ok_res_def)

text \<open>every slot of the clamped mapping lies in a block of the request's own row, at the
  position's offset in the block; for a row of one block it is the circular address.\<close>

theorem clamped_slots_in_row:
  assumes "1 \<le> b" "row \<noteq> []" "\<forall>pos\<in>set positions. 0 \<le> pos"
  shows "\<exists>slots. circular_slot_ids positions row b True = Inr slots
    \<and> length slots = length positions
    \<and> (\<forall>i<length positions. \<exists>blk\<in>set row. slots ! i = blk * b + positions ! i mod b
          \<and> blk * b \<le> slots ! i \<and> slots ! i < (blk + 1) * b)"
proof -
  let ?f = "\<lambda>pos. row ! nat (min (pos div b) (int (length row) - 1)) * b + pos mod b"
  have r: "circular_slot_ids positions row b True = Inr (map ?f positions)"
    using assms slot_of_clamped [OF assms(1,2)]
    by (simp add: circular_slot_ids_def map_res_cong [of positions _ "\<lambda>p. Inr (?f p)"] map_res_pure)
  have "\<exists>blk\<in>set row. ?f p = blk * b + p mod b \<and> blk * b \<le> ?f p \<and> ?f p < (blk + 1) * b"
    if "p \<in> set positions" for p
  proof -
    let ?k = "nat (min (p div b) (int (length row) - 1))"
    have "?k < length row" using assms(2) by (cases row) auto
    then have "row ! ?k \<in> set row" by simp
    moreover have "0 \<le> p mod b" "p mod b < b" using assms(1) by simp_all
    ultimately show ?thesis by (intro bexI [of _ "row ! ?k"]) (simp_all add: algebra_simps)
  qed
  then show ?thesis using r by (intro exI [of _ "map ?f positions"]) simp
qed

lemma clamped_slots_in_row_witness:
  "\<exists>slots. circular_slot_ids [0, 15, 16, 2047] [9] 16 True = Inr slots
     \<and> (\<forall>i<4. \<exists>blk\<in>set [9]. slots ! i = blk * 16 + [0, 15, 16, 2047] ! i mod 16)"
proof -
  have "\<forall>pos\<in>set [0, 15, 16, 2047 :: int]. 0 \<le> pos" by simp
  from clamped_slots_in_row [of 16 "[9]" "[0, 15, 16, 2047]"] this
  obtain slots where "circular_slot_ids [0, 15, 16, 2047] [9] 16 True = Inr slots"
    "\<forall>i<length [0, 15, 16, 2047 :: int]. \<exists>blk\<in>set [9]. slots ! i = blk * 16 + [0, 15, 16, 2047] ! i mod 16"
    by auto
  then show ?thesis by (intro exI [of _ slots] conjI) simp_all
qed

text \<open>The clamp changes only what was out of bounds.  When no position overruns the row
  both mappings agree; when one does, the unclamped mapping has no result.\<close>

theorem clamp_is_identity_without_overruns:
  assumes "1 \<le> b" "row \<noteq> []" "\<forall>pos\<in>set positions. 0 \<le> pos"
    and "count_overruns positions b (int (length row)) = Inr n"
  shows "if n = 0
    then circular_slot_ids positions row b False = circular_slot_ids positions row b True
    else \<exists>e. circular_slot_ids positions row b False = Inl e"
proof -
  have n: "n = length (filter (\<lambda>pos. pos div b \<ge> int (length row)) positions)"
    using assms(4) by (simp add: count_overruns_def split: if_splits)
  show ?thesis
  proof (cases "n = 0")
    case True
    then have "slot_of False row b p = slot_of True row b p" if "p \<in> set positions" for p
    proof -
      have lt: "p div b < int (length row)" using that n True by (auto simp: filter_empty_conv not_le)
      then have "min (p div b) (int (length row) - 1) = p div b" by simp
      then show ?thesis using that lt assms(3) slot_of_clamped [OF assms(1,2)] slot_of_unclamped [OF assms(1)]
        by simp
    qed
    then have "map_res (slot_of False row b) positions = map_res (slot_of True row b) positions"
      by (rule map_res_cong)
    then show ?thesis using True by (simp add: circular_slot_ids_def)
  next
    case False
    then obtain p where "p \<in> set positions" "p div b \<ge> int (length row)"
      using n by (auto simp: filter_empty_conv)
    then have "\<exists>p\<in>set positions. \<exists>e. slot_of False row b p = Inl e"
      using assms(3) slot_of_unclamped [OF assms(1)] by auto
    then have "\<exists>e. map_res (slot_of False row b) positions = Inl e" by (rule map_res_Inl_if)
    then show ?thesis using False assms(2) by (simp add: circular_slot_ids_def)
  qed
qed

lemma clamp_is_identity_without_overruns_witness:
  "(\<exists>e. circular_slot_ids [0, 16] [9] 16 False = Inl e)
   \<and> circular_slot_ids [0, 15] [9] 16 False = circular_slot_ids [0, 15] [9] 16 True"
  using clamp_is_identity_without_overruns [of 16 "[9]" "[0, 16]" 1]
    clamp_is_identity_without_overruns [of 16 "[9]" "[0, 15]" 0]
  by (simp add: count_overruns_def)

end
