(* ===== verification/Grammar_Gate.thy ===== *)
theory Grammar_Gate
  imports Py_Prelude "HOL-Library.Sublist"
begin

text \<open>
  The grammar code that \<open>vllm-exl3/overlay/patch_xgrammar_termination.py\<close> replaces, in both
  versions: \<open>accept_tokens\<close>, \<open>validate_tokens\<close> and \<open>reset\<close> of the XGrammar backend, and
  the per-token step of the structured-output manager.  The matcher of the XGrammar library
  is a parameter: \<open>acc m t\<close> is \<open>accept_token\<close> (\<open>None\<close>: rejected, state kept), \<open>term\<close> is
  \<open>is_terminated\<close>, \<open>rb n\<close> is \<open>rollback(n)\<close> and \<open>rs\<close> is \<open>reset\<close>.
\<close>

record 'm grammar =
  matcher :: 'm
  num_processed :: nat
  terminated :: bool

section \<open>The patched backend\<close>

fun accept_loop ::
  "('m \<Rightarrow> int \<Rightarrow> 'm option) \<Rightarrow> ('m \<Rightarrow> bool) \<Rightarrow> 'm grammar \<Rightarrow> int list \<Rightarrow> bool \<times> 'm grammar" where
  "accept_loop acc term g [] = (True, g)"
| "accept_loop acc term g (t # ts) =
     (case acc (matcher g) t of
        None \<Rightarrow> (False, g)
      | Some m \<Rightarrow>
          (let g' = g\<lparr>matcher := m, num_processed := num_processed g + 1, terminated := term m\<rparr> in
           if terminated g' then (True, g') else accept_loop acc term g' ts))"

definition accept_tokens ::
  "('m \<Rightarrow> int \<Rightarrow> 'm option) \<Rightarrow> ('m \<Rightarrow> bool) \<Rightarrow> 'm grammar \<Rightarrow> int list \<Rightarrow> bool \<times> 'm grammar" where
  "accept_tokens acc term g ts = (if terminated g then (True, g) else accept_loop acc term g ts)"

fun validate_loop ::
  "('m \<Rightarrow> int \<Rightarrow> 'm option) \<Rightarrow> ('m \<Rightarrow> bool) \<Rightarrow> 'm \<Rightarrow> int list \<Rightarrow> int list \<times> 'm" where
  "validate_loop acc term m [] = ([], m)"
| "validate_loop acc term m (t # ts) =
     (case acc m t of
        None \<Rightarrow> ([], m)
      | Some m' \<Rightarrow>
          (if term m' then ([t], m')
           else (case validate_loop acc term m' ts of (vs, m'') \<Rightarrow> (t # vs, m''))))"

definition validate_tokens ::
  "('m \<Rightarrow> int \<Rightarrow> 'm option) \<Rightarrow> ('m \<Rightarrow> bool) \<Rightarrow> (nat \<Rightarrow> 'm \<Rightarrow> 'm) \<Rightarrow> 'm grammar \<Rightarrow> int list
   \<Rightarrow> int list \<times> 'm grammar" where
  "validate_tokens acc term rb g ts =
     (if terminated g then ([], g)
      else (case validate_loop acc term (matcher g) ts of
              (vs, m) \<Rightarrow> (vs, g\<lparr>matcher := (if vs \<noteq> [] then rb (length vs) m else m)\<rparr>)))"

definition reset_grammar :: "('m \<Rightarrow> 'm) \<Rightarrow> 'm grammar \<Rightarrow> 'm grammar" where
  "reset_grammar rs g = g\<lparr>matcher := rs (matcher g), num_processed := 0, terminated := False\<rparr>"

section \<open>The stock backend\<close>

fun stock_accept_loop ::
  "('m \<Rightarrow> int \<Rightarrow> 'm option) \<Rightarrow> 'm grammar \<Rightarrow> int list \<Rightarrow> bool \<times> 'm grammar" where
  "stock_accept_loop acc g [] = (True, g)"
| "stock_accept_loop acc g (t # ts) =
     (case acc (matcher g) t of
        None \<Rightarrow> (False, g)
      | Some m \<Rightarrow> stock_accept_loop acc (g\<lparr>matcher := m, num_processed := num_processed g + 1\<rparr>) ts)"

definition stock_accept_tokens ::
  "('m \<Rightarrow> int \<Rightarrow> 'm option) \<Rightarrow> ('m \<Rightarrow> bool) \<Rightarrow> 'm grammar \<Rightarrow> int list \<Rightarrow> bool \<times> 'm grammar" where
  "stock_accept_tokens acc term g ts =
     (if terminated g then (False, g)
      else (case stock_accept_loop acc g ts of
              (False, g') \<Rightarrow> (False, g')
            | (True, g') \<Rightarrow> (True, g'\<lparr>terminated := term (matcher g')\<rparr>)))"

definition stock_reset :: "('m \<Rightarrow> 'm) \<Rightarrow> 'm grammar \<Rightarrow> 'm grammar" where
  "stock_reset rs g = g\<lparr>matcher := rs (matcher g), num_processed := 0\<rparr>"

section \<open>The manager's step\<close>

text \<open>One token of a speculative window; the number counts the state advancements.\<close>

definition manager_step ::
  "('m \<Rightarrow> int \<Rightarrow> 'm option) \<Rightarrow> ('m \<Rightarrow> bool) \<Rightarrow> (nat \<Rightarrow> 'm \<Rightarrow> 'm) \<Rightarrow> bool \<Rightarrow> bool
   \<Rightarrow> 'm grammar \<times> nat \<Rightarrow> int \<Rightarrow> py_exc + 'm grammar \<times> nat" where
  "manager_step acc term rb advance post_end st token =
     (case st of (g, n) \<Rightarrow>
       (if advance \<and> \<not> terminated g then
          (let (accepted, g') =
             (if post_end then
                (case validate_tokens acc term rb g [token] of
                   (vs, g1) \<Rightarrow> (if vs \<noteq> [] then accept_tokens acc term g1 [token] else (False, g1)))
              else accept_tokens acc term g [token])
           in if accepted then Inr (g', n + 1)
              else if \<not> post_end then Inl AssertionError
              else Inr (g', n))
        else Inr (g, n)))"

fun manager_window ::
  "('m \<Rightarrow> int \<Rightarrow> 'm option) \<Rightarrow> ('m \<Rightarrow> bool) \<Rightarrow> (nat \<Rightarrow> 'm \<Rightarrow> 'm) \<Rightarrow> bool \<Rightarrow> bool
   \<Rightarrow> 'm grammar \<times> nat \<Rightarrow> int list \<Rightarrow> py_exc + 'm grammar \<times> nat" where
  "manager_window acc term rb advance post_end st [] = Inr st"
| "manager_window acc term rb advance post_end st (t # ts) =
     (case manager_step acc term rb advance post_end st t of
        Inl e \<Rightarrow> Inl e
      | Inr st' \<Rightarrow> manager_window acc term rb advance post_end st' ts)"

section \<open>Lemmas\<close>

fun run :: "('m \<Rightarrow> int \<Rightarrow> 'm option) \<Rightarrow> 'm \<Rightarrow> int list \<Rightarrow> 'm option" where
  "run acc m [] = Some m"
| "run acc m (t # ts) = (case acc m t of None \<Rightarrow> None | Some m' \<Rightarrow> run acc m' ts)"

text \<open>Rolling back as many tokens as were accepted restores the matcher: the library's
  documented contract.\<close>

definition rolls_back :: "('m \<Rightarrow> int \<Rightarrow> 'm option) \<Rightarrow> (nat \<Rightarrow> 'm \<Rightarrow> 'm) \<Rightarrow> bool" where
  "rolls_back acc rb \<longleftrightarrow> (\<forall>m ts m'. run acc m ts = Some m' \<longrightarrow> rb (length ts) m' = m)"

definition flag_ok :: "('m \<Rightarrow> bool) \<Rightarrow> 'm grammar \<Rightarrow> bool" where
  "flag_ok term g \<longleftrightarrow> terminated g = term (matcher g)"

lemma validate_loop_run:
  "validate_loop acc term m ts = (vs, m') \<Longrightarrow>
     prefix vs ts \<and> run acc m vs = Some m'
     \<and> (vs = ts \<or> (vs \<noteq> [] \<and> term m') \<or> acc m' (ts ! length vs) = None)"
proof (induction acc "term" m ts arbitrary: vs m' rule: validate_loop.induct)
  case (2 acc "term" m t ts)
  show ?case
  proof (cases "acc m t")
    case (Some m1)
    show ?thesis
    proof (cases "term m1")
      case False
      obtain ws m2 where w: "validate_loop acc term m1 ts = (ws, m2)" by force
      from "2.IH" [OF Some False w] 2(2) Some False w show ?thesis by auto
    qed (use 2 Some in auto)
  qed (use 2 in auto)
qed simp

lemma accept_validated:
  "validate_loop acc term (matcher g) ts = (vs, m') \<Longrightarrow> vs \<noteq> [] \<Longrightarrow>
     accept_loop acc term g vs =
       (True, g\<lparr>matcher := m', num_processed := num_processed g + length vs, terminated := term m'\<rparr>)"
proof (induction ts arbitrary: g vs)
  case (Cons t ts)
  then obtain m1 where a: "acc (matcher g) t = Some m1" by (auto split: option.splits)
  show ?case
  proof (cases "term m1")
    case False
    let ?g = "g\<lparr>matcher := m1, num_processed := num_processed g + 1, terminated := False\<rparr>"
    obtain ws where w: "validate_loop acc term m1 ts = (ws, m')" "vs = t # ws"
      using Cons.prems(1) a False by (auto split: prod.splits)
    show ?thesis
    proof (cases "ws = []")
      case True
      then have "m' = m1" using validate_loop_run [OF w(1)] by simp
      then show ?thesis using a False w True by simp
    next
      case ne: False
      from Cons.IH [of ?g ws] w ne a False show ?thesis by simp
    qed
  qed (use Cons a in auto)
qed simp

lemma validate_frame:
  assumes "rolls_back acc rb"
  shows "snd (validate_tokens acc term rb g ts) = g"
proof (cases "terminated g")
  case False
  obtain vs m where l: "validate_loop acc term (matcher g) ts = (vs, m)" by force
  have "(if vs \<noteq> [] then rb (length vs) m else m) = matcher g"
    using validate_loop_run [OF l] assms by (auto simp: rolls_back_def)
  then show ?thesis using False l by (simp add: validate_tokens_def)
qed (simp add: validate_tokens_def)

text \<open>C9: validation is a dry run.  It leaves the grammar as it was, returns a prefix that the
  matcher accepts and that cannot be extended (the next token is rejected, or the grammar
  has terminated), and accepting that prefix afterwards succeeds and consumes all of it.\<close>

theorem validate_is_dry_run:
  assumes "rolls_back acc rb" "\<not> terminated g" "validate_tokens acc term rb g ts = (vs, g')"
  shows "g' = g \<and> prefix vs ts
    \<and> (\<exists>m. run acc (matcher g) vs = Some m
         \<and> (vs = ts \<or> (vs \<noteq> [] \<and> term m) \<or> acc m (ts ! length vs) = None)
         \<and> accept_tokens acc term g vs =
             (True, g\<lparr>matcher := m, num_processed := num_processed g + length vs,
                     terminated := vs \<noteq> [] \<and> term m\<rparr>))"
proof -
  obtain m where l: "validate_loop acc term (matcher g) ts = (vs, m)"
    and g': "g' = g\<lparr>matcher := (if vs \<noteq> [] then rb (length vs) m else m)\<rparr>"
    using assms(2,3) by (auto simp: validate_tokens_def split: prod.splits)
  note r = validate_loop_run [OF l]
  have "(if vs \<noteq> [] then rb (length vs) m else m) = matcher g"
    using r assms(1) by (auto simp: rolls_back_def)
  then have "g' = g" using g' by simp
  moreover have "accept_tokens acc term g vs =
      (True, g\<lparr>matcher := m, num_processed := num_processed g + length vs,
              terminated := vs \<noteq> [] \<and> term m\<rparr>)"
  proof (cases "vs = []")
    case True
    then have "m = matcher g" using r by simp
    then show ?thesis using True assms(2) by (simp add: accept_tokens_def)
  next
    case False
    then show ?thesis using accept_validated [OF l] assms(2) by (simp add: accept_tokens_def)
  qed
  ultimately show ?thesis using r by blast
qed

lemma accept_loop_flag: "flag_ok term g \<Longrightarrow> flag_ok term (snd (accept_loop acc term g ts))"
  by (induction acc "term" g ts rule: accept_loop.induct)
     (auto simp: flag_ok_def Let_def split: option.splits)

lemma accept_loop_append:
  "accept_loop acc term g ts = (True, g') \<Longrightarrow> terminated g' \<Longrightarrow> \<not> terminated g \<Longrightarrow>
     accept_loop acc term g (ts @ us) = (True, g')"
proof (induction ts arbitrary: g)
  case (Cons t ts)
  then show ?case by (auto simp: Let_def split: option.splits if_splits)
qed simp

text \<open>the termination flag cannot drift from the matcher, and tokens after the end of the
  grammar are ignored.  The flag agrees with the matcher after every batch, accepted or
  not, and a batch that terminates the grammar has the same outcome with any further
  tokens behind it; on the same batch the stock code reports a failure as soon as the
  matcher rejects the first trailing token.\<close>

theorem termination_flag:
  assumes "flag_ok term g" "accept_tokens acc term g ts = (ok, g')"
  shows "flag_ok term g'
    \<and> (ok \<and> terminated g' \<longrightarrow> accept_tokens acc term g (ts @ us) = (True, g'))"
proof (cases "terminated g")
  case False
  then have l: "accept_loop acc term g ts = (ok, g')" using assms(2) by (simp add: accept_tokens_def)
  then have "flag_ok term g'" using accept_loop_flag [OF assms(1), of acc ts] by simp
  moreover have "accept_tokens acc term g (ts @ us) = (True, g')" if "ok" "terminated g'"
    using accept_loop_append [of acc "term" g ts g' us] l that False by (simp add: accept_tokens_def)
  ultimately show ?thesis by blast
qed (use assms in \<open>auto simp: accept_tokens_def\<close>)

text \<open>a draft produced before the end of reasoning cannot crash the step.  Inside such a
  window the manager never raises, whatever the tokens; it advances by at most the
  window's length and keeps the termination flag in step with the matcher.\<close>

theorem reasoning_window_never_raises:
  assumes "rolls_back acc rb" "flag_ok term g"
  shows "\<exists>g' n'. manager_window acc term rb advance True (g, n) ts = Inr (g', n')
    \<and> flag_ok term g' \<and> n \<le> n' \<and> n' \<le> n + length ts"
  using assms(2)
proof (induction ts arbitrary: g n)
  case (Cons t ts)
  show ?case
  proof (cases "advance \<and> \<not> terminated g")
    case True
    obtain vs where v: "validate_tokens acc term rb g [t] = (vs, g)"
      using validate_frame [OF assms(1), of "term" g "[t]"] by (metis prod.collapse)
    obtain ok g2 where a: "accept_tokens acc term g [t] = (ok, g2)" by force
    have f: "flag_ok term g2"
      using accept_loop_flag [OF Cons.prems, of acc "[t]"] a True by (simp add: accept_tokens_def)
    have "\<exists>g' n'. manager_step acc term rb advance True (g, n) t = Inr (g', n')
        \<and> flag_ok term g' \<and> n \<le> n' \<and> n' \<le> Suc n"
      using True v a f Cons.prems by (auto simp: manager_step_def)
    then obtain g' n' where s: "manager_step acc term rb advance True (g, n) t = Inr (g', n')"
      "flag_ok term g'" "n \<le> n'" "n' \<le> Suc n" by blast
    from Cons.IH [OF s(2), of n'] s show ?thesis by auto
  next
    case False
    then have "manager_step acc term rb advance True (g, n) t = Inr (g, n)"
      by (cases advance) (simp_all add: manager_step_def)
    with Cons.IH [OF Cons.prems, of n] show ?thesis by auto
  qed
qed simp

section \<open>The theorems on a counting matcher\<close>

text \<open>A matcher that accepts the token 1 three times and then terminates.\<close>

definition demo_acc :: "nat \<Rightarrow> int \<Rightarrow> nat option" where
  "demo_acc m t = (if t = 1 \<and> m < 3 then Some (m + 1) else None)"

definition demo_grammar :: "nat grammar" where
  "demo_grammar = \<lparr>matcher = 0, num_processed = 0, terminated = False\<rparr>"

lemma demo_rolls_back: "rolls_back demo_acc (\<lambda>n m. m - n)"
proof -
  have eq: "run demo_acc m ts = Some m' \<Longrightarrow> m' = m + length ts" for m ts m'
    by (induction ts arbitrary: m) (fastforce simp: demo_acc_def split: if_splits option.splits)+
  show ?thesis unfolding rolls_back_def by (intro allI impI, drule eq) simp
qed

lemma validate_is_dry_run_witness:
  "validate_tokens demo_acc (\<lambda>m. m = 3) (\<lambda>n m. m - n) demo_grammar [1, 1, 5] = ([1, 1], demo_grammar)
   \<and> fst (accept_tokens demo_acc (\<lambda>m. m = 3) demo_grammar [1, 1])"
proof -
  have v: "validate_tokens demo_acc (\<lambda>m. m = 3) (\<lambda>n m. m - n) demo_grammar [1, 1, 5]
      = ([1, 1], demo_grammar)"
    by (simp add: validate_tokens_def demo_acc_def demo_grammar_def)
  have "\<not> terminated demo_grammar" by (simp add: demo_grammar_def)
  from validate_is_dry_run [OF demo_rolls_back this v] v show ?thesis by auto
qed

lemma termination_flag_witness:
  "accept_tokens demo_acc (\<lambda>m. m = 3) demo_grammar ([1, 1, 1] @ [9, 9])
     = (True, \<lparr>matcher = 3, num_processed = 3, terminated = True\<rparr>)
   \<and> fst (stock_accept_tokens demo_acc (\<lambda>m. m = 3) demo_grammar ([1, 1, 1] @ [9, 9])) = False"
proof -
  have f: "flag_ok (\<lambda>m. m = 3) demo_grammar" by (simp add: flag_ok_def demo_grammar_def)
  have a: "accept_tokens demo_acc (\<lambda>m. m = 3) demo_grammar [1, 1, 1]
      = (True, \<lparr>matcher = 3, num_processed = 3, terminated = True\<rparr>)"
    by (simp add: accept_tokens_def demo_acc_def demo_grammar_def Let_def)
  from termination_flag [OF f a, of "[9, 9]"] show ?thesis
    by (simp add: stock_accept_tokens_def demo_acc_def demo_grammar_def)
qed

lemma reasoning_window_never_raises_witness:
  "\<exists>g' n'. manager_window demo_acc (\<lambda>m. m = 3) (\<lambda>n m. m - n) True True (demo_grammar, 0) [1, 7, 1]
     = Inr (g', n') \<and> n' \<le> 3"
  using reasoning_window_never_raises [OF demo_rolls_back, of "\<lambda>m. m = 3" demo_grammar True 0 "[1, 7, 1]"]
  by (auto simp: flag_ok_def demo_grammar_def)

end
