(* ===== verification/Retention.thy ===== *)
theory Retention
  imports Py_Text
begin

text \<open>
  What the coordinator overlays compute (files of \<open>vllm-exl3/overlay\<close>): the choice of the
  EAGLE groups and the hit-length loop of \<open>patch_hybrid_prefix_hit.py\<close>, the per-group
  retention of \<open>patch_apc_per_group_retention.py\<close>, and the partial-hit veto of
  \<open>patch_fine_grained_apc.py\<close>.  A KV-cache spec is a leaf (its class name and the two
  attributes that are read) or a wrapper with a dictionary of leaves, of which the first
  value counts.  The lookup of a cache manager is a parameter.
\<close>

section \<open>Specs\<close>

record kv_leaf =
  spec_class :: string
  sliding_window :: "int option"
  block_size :: "int option"

datatype kv_spec = Plain kv_leaf | Grouped kv_leaf "(string \<times> kv_leaf) list"

fun inner_kv_spec :: "kv_spec \<Rightarrow> kv_leaf" where
  "inner_kv_spec (Plain l) = l"
| "inner_kv_spec (Grouped l []) = l"
| "inner_kv_spec (Grouped l ((_, s) # _)) = s"

definition is_draft_swa :: "kv_spec \<Rightarrow> bool" where
  "is_draft_swa s \<longleftrightarrow> spec_class (inner_kv_spec s) = ''SlidingWindowSpec''"

text \<open>The ids of the drafter groups, as the comprehensions over \<open>enumerate\<close> collect them.\<close>

definition swa_ids :: "kv_spec list \<Rightarrow> nat set" where
  "swa_ids groups = set (filter (\<lambda>i. is_draft_swa (groups ! i)) [0..<length groups])"

section \<open>EAGLE groups and the hybrid hit\<close>

definition stock_eagle_ids :: "bool \<Rightarrow> nat set \<Rightarrow> kv_spec list \<Rightarrow> nat set" where
  "stock_eagle_ids use_eagle flagged groups =
     (if use_eagle \<and> flagged = {} then {0..<length groups} else flagged)"

definition eagle_ids :: "bool \<Rightarrow> nat set \<Rightarrow> kv_spec list \<Rightarrow> nat set" where
  "eagle_ids use_eagle flagged groups =
     (if use_eagle \<and> flagged = {} then
        (if swa_ids groups \<noteq> {} then swa_ids groups else {0..<length groups})
      else flagged)"

text \<open>One turn of the hit loop: a group of managers with spec \<open>spec\<close> found a hit of length
  \<open>len\<close> and blocks for each of its ids.\<close>

record 'b hits =
  curr_hit :: int
  longest_hit :: int
  eagle_verified :: "nat set"
  blocks_by_group :: "(nat \<times> 'b) list"
  length_by_group :: "(nat \<times> int) list"

fun record_hit :: "(nat \<times> 'b) list \<Rightarrow> int \<Rightarrow> 'b hits \<Rightarrow> 'b hits" where
  "record_hit [] len h = h"
| "record_hit ((gid, b) # gs) len h =
     record_hit gs len (h\<lparr>blocks_by_group := dict_set (blocks_by_group h) gid b,
                          length_by_group := dict_set (length_by_group h) gid len\<rparr>)"

definition note_eagle :: "bool \<Rightarrow> nat \<Rightarrow> int \<Rightarrow> 'b hits \<Rightarrow> 'b hits" where
  "note_eagle drop_block idx len h =
     (if drop_block then h\<lparr>eagle_verified := insert idx (eagle_verified h)\<rparr>
      else if len < curr_hit h then h\<lparr>eagle_verified := {}\<rparr> else h)"

definition stock_hit_step ::
  "bool \<Rightarrow> nat \<Rightarrow> (nat \<times> 'b) list \<Rightarrow> int \<Rightarrow> 'b hits \<Rightarrow> 'b hits" where
  "stock_hit_step drop_block idx found len h =
     (let h1 = record_hit found len ((note_eagle drop_block idx len h)\<lparr>curr_hit := len\<rparr>) in
      h1\<lparr>longest_hit := max (longest_hit h1) (curr_hit h1)\<rparr>)"

definition hit_step ::
  "kv_spec \<Rightarrow> bool \<Rightarrow> nat \<Rightarrow> (nat \<times> 'b) list \<Rightarrow> int \<Rightarrow> 'b hits \<Rightarrow> 'b hits" where
  "hit_step spec drop_block idx found len h =
     (if is_draft_swa spec then
        (let h0 = note_eagle drop_block idx len h in
         if len \<ge> curr_hit h0 then record_hit found len h0 else h0)
      else stock_hit_step drop_block idx found len h)"

text \<open>A pass over the attention groups; \<open>look i c\<close> is what the managers of the group find
  below a current hit of length \<open>c\<close>.\<close>

fun hit_pass ::
  "(nat \<Rightarrow> int \<Rightarrow> bool \<times> (nat \<times> 'b) list \<times> int) \<Rightarrow> (nat \<times> kv_spec) list \<Rightarrow> 'b hits \<Rightarrow> 'b hits" where
  "hit_pass look [] h = h"
| "hit_pass look ((i, spec) # gs) h =
     (case look i (curr_hit h) of (drop_block, found, len) \<Rightarrow>
        hit_pass look gs (hit_step spec drop_block i found len h))"

fun stock_hit_pass ::
  "(nat \<Rightarrow> int \<Rightarrow> bool \<times> (nat \<times> 'b) list \<times> int) \<Rightarrow> (nat \<times> kv_spec) list \<Rightarrow> 'b hits \<Rightarrow> 'b hits" where
  "stock_hit_pass look [] h = h"
| "stock_hit_pass look ((i, spec) # gs) h =
     (case look i (curr_hit h) of (drop_block, found, len) \<Rightarrow>
        stock_hit_pass look gs (stock_hit_step drop_block i found len h))"

section \<open>Per-group retention\<close>

definition swa_retention_env :: "int \<Rightarrow> int \<Rightarrow> string option \<Rightarrow> py_exc + int option" where
  "swa_retention_env sched_block max_interval env =
     (let raw = (case env of None \<Rightarrow> '''' | Some v \<Rightarrow> v) in
      if strip raw = [] then Inr None
      else (case parse_int (strip raw) of
              None \<Rightarrow> Inl ValueError
            | Some v \<Rightarrow>
                (if v < 0 then Inl ValueError
                 else if sched_block \<noteq> 0 \<and> v mod sched_block \<noteq> 0 then Inl ValueError
                 else if v > max_interval then Inl ValueError
                 else Inr (Some v))))"

definition min_exempt_ids :: "kv_spec list \<Rightarrow> nat set \<Rightarrow> nat set" where
  "min_exempt_ids groups eagle =
     (let swa = swa_ids groups in if swa = {} \<or> eagle \<noteq> swa then {} else swa)"

definition truthy :: "int option \<Rightarrow> bool" where
  "truthy v = (case v of None \<Rightarrow> False | Some i \<Rightarrow> i \<noteq> 0)"

definition retention_for_group ::
  "kv_spec \<Rightarrow> int option \<Rightarrow> int option \<Rightarrow> int \<Rightarrow> bool \<Rightarrow> int option" where
  "retention_for_group spec global swa align exempt =
     (if \<not> is_draft_swa spec \<or> \<not> exempt then global
      else if swa \<noteq> None then swa
      else (let w = sliding_window (inner_kv_spec spec); b = block_size (inner_kv_spec spec) in
            if \<not> truthy w \<or> \<not> truthy b \<or> align = 0 then global
            else if the w \<ge> align then global
            else Some 0))"

definition resolve_retention ::
  "kv_spec list \<Rightarrow> nat set \<Rightarrow> int option \<Rightarrow> int option \<Rightarrow> int \<Rightarrow> py_exc + int option list" where
  "resolve_retention groups eagle global swa align =
     (let exempt = min_exempt_ids groups eagle in
      if swa \<noteq> None \<and> exempt = {} then Inl ValueError
      else Inr (map (\<lambda>i. retention_for_group (groups ! i) global swa align (i \<in> exempt))
                  [0..<length groups]))"

definition validate_retention :: "int option list \<Rightarrow> int \<Rightarrow> py_exc + unit" where
  "validate_retention intervals sched_block =
     (if \<exists>v\<in>set intervals. \<exists>i. v = Some i \<and> i \<noteq> 0 \<and> (i < 0 \<or> i mod sched_block \<noteq> 0)
      then Inl ValueError else Inr ())"

definition format_retention :: "int option list \<Rightarrow> string" where
  "format_retention intervals =
     ''['' @ join_with '','' (map (\<lambda>v. case v of None \<Rightarrow> ''None'' | Some i \<Rightarrow> show_int i) intervals)
       @ '']''"

text \<open>The inserted lines of the coordinator's constructor, after the hybrid overlay's choice
  of the EAGLE groups: the retention vector, or the boot error.\<close>

definition coordinator_retention ::
  "bool \<Rightarrow> nat set \<Rightarrow> kv_spec list \<Rightarrow> int option \<Rightarrow> string option \<Rightarrow> int
   \<Rightarrow> py_exc + int option list" where
  "coordinator_retention use_eagle flagged groups global env sched_block =
     (case swa_retention_env sched_block 1000000 env of
        Inl e \<Rightarrow> Inl e
      | Inr swa \<Rightarrow>
          (case resolve_retention groups (eagle_ids use_eagle flagged groups) global swa sched_block of
             Inl e \<Rightarrow> Inl e
           | Inr v \<Rightarrow> (case validate_retention v sched_block of Inl e \<Rightarrow> Inl e | Inr _ \<Rightarrow> Inr v)))"

section \<open>The partial-hit veto\<close>

record manager =
  manager_name :: string
  supports_fine :: bool
  manager_block :: int
  participates :: bool

definition stock_veto :: "int \<Rightarrow> manager list \<Rightarrow> string set" where
  "stock_veto hash_block ms =
     manager_name ` {m \<in> set ms. \<not> supports_fine m \<and> manager_block m \<noteq> hash_block}"

definition veto :: "int \<Rightarrow> manager list \<Rightarrow> string set" where
  "veto hash_block ms =
     manager_name ` {m \<in> set ms. participates m \<and> \<not> supports_fine m \<and> manager_block m \<noteq> hash_block}"

section \<open>Lemmas\<close>

lemma swa_ids_iff: "i \<in> swa_ids groups \<longleftrightarrow> i < length groups \<and> is_draft_swa (groups ! i)"
  by (auto simp: swa_ids_def)

lemma record_hit_frame [simp]:
  "curr_hit (record_hit gs len h) = curr_hit h" "longest_hit (record_hit gs len h) = longest_hit h"
  "eagle_verified (record_hit gs len h) = eagle_verified h"
  by (induction gs len h rule: record_hit.induct) auto

lemma note_eagle_frame [simp]:
  "curr_hit (note_eagle d i len h) = curr_hit h" "longest_hit (note_eagle d i len h) = longest_hit h"
  by (simp_all add: note_eagle_def)

lemma hit_step_draft:
  "is_draft_swa spec \<Longrightarrow> curr_hit (hit_step spec d i found len h) = curr_hit h
     \<and> longest_hit (hit_step spec d i found len h) = longest_hit h"
  by (simp add: hit_step_def Let_def)

lemma stock_hit_step_lengths:
  "curr_hit (stock_hit_step d i found len h) = len"
  "longest_hit (stock_hit_step d i found len h) = max (longest_hit h) len"
  by (simp_all add: stock_hit_step_def Let_def)

text \<open>C5: the drafter cannot shorten a prefix hit.  A pass of the patched loop ends with the
  current and longest hit lengths that the stock loop computes over the other groups
  alone, whatever the drafter's managers find.\<close>

theorem drafter_never_shrinks_hit:
  assumes "curr_hit h = curr_hit h'" "longest_hit h = longest_hit h'"
  shows "curr_hit (hit_pass look gs h)
      = curr_hit (stock_hit_pass look (filter (\<lambda>(i, s). \<not> is_draft_swa s) gs) h')
    \<and> longest_hit (hit_pass look gs h)
      = longest_hit (stock_hit_pass look (filter (\<lambda>(i, s). \<not> is_draft_swa s) gs) h')"
  using assms
proof (induction gs arbitrary: h h')
  case (Cons g gs)
  obtain i spec where g: "g = (i, spec)" by force
  obtain d found len where l: "look i (curr_hit h) = (d, found, len)" by (metis surj_pair)
  show ?case
  proof (cases "is_draft_swa spec")
    case True
    then show ?thesis using Cons.IH [of "hit_step spec d i found len h" h'] Cons.prems l g
      by (simp add: hit_step_draft)
  next
    case False
    have "hit_step spec d i found len h = stock_hit_step d i found len h"
      using False by (simp add: hit_step_def)
    then show ?thesis
      using Cons.IH [of "stock_hit_step d i found len h" "stock_hit_step d i found len h'"]
        Cons.prems l g False by (simp add: stock_hit_step_lengths)
  qed
qed simp

definition demo_hits :: "nat hits" where
  "demo_hits = \<lparr>curr_hit = 7168, longest_hit = 0, eagle_verified = {}, blocks_by_group = [],
     length_by_group = []\<rparr>"

definition demo_leaf :: "string \<Rightarrow> kv_leaf" where
  "demo_leaf c = \<lparr>spec_class = c, sliding_window = Some 2048, block_size = Some 64\<rparr>"

lemma drafter_never_shrinks_hit_witness:
  "curr_hit (hit_pass (\<lambda>i c. (False, [], if i = 2 then 0 else 7168))
     [(0, Plain (demo_leaf ''MLASpec'')), (2, Plain (demo_leaf ''SlidingWindowSpec''))] demo_hits) = 7168"
  using drafter_never_shrinks_hit [of demo_hits demo_hits "\<lambda>i c. (False, [], if i = 2 then 0 else 7168)"
      "[(0, Plain (demo_leaf ''MLASpec'')), (2, Plain (demo_leaf ''SlidingWindowSpec''))]"]
  by (simp add: is_draft_swa_def demo_leaf_def stock_hit_step_lengths)

lemma min_exempt_after_fallback:
  "use_eagle \<Longrightarrow> min_exempt_ids groups (eagle_ids use_eagle {} groups) = swa_ids groups"
  by (auto simp: min_exempt_ids_def eagle_ids_def Let_def)

lemma swa_retention_env_valid:
  "swa_retention_env sb mx env = Inr (Some v) \<Longrightarrow> 0 \<le> v \<and> v \<le> mx \<and> (sb \<noteq> 0 \<longrightarrow> v mod sb = 0)"
  by (auto simp: swa_retention_env_def Let_def split: if_splits option.splits)

text \<open>who gets which retention.  When the constructor returns a vector, the groups outside
  the exempt set keep the global interval; an exempt group has the operator's value when
  one is set, otherwise 0 if its window is smaller than the block alignment and the global
  interval if not; and setting a value without an exempt group is a boot error.\<close>

theorem retention_vector_spec:
  assumes "swa_retention_env sb 1000000 env = Inr swa" "0 < sb"
    and "\<forall>g. global = Some g \<longrightarrow> 0 \<le> g \<and> g mod sb = 0"
  shows "(case coordinator_retention use_eagle flagged groups global env sb of
      Inl e \<Rightarrow> swa \<noteq> None \<and> min_exempt_ids groups (eagle_ids use_eagle flagged groups) = {}
    | Inr v \<Rightarrow> length v = length groups \<and>
        (\<forall>i<length groups.
           v ! i = (if i \<notin> min_exempt_ids groups (eagle_ids use_eagle flagged groups) then global
             else if swa \<noteq> None then swa
             else (case (sliding_window (inner_kv_spec (groups ! i)),
                         block_size (inner_kv_spec (groups ! i))) of
                     (Some w, Some b) \<Rightarrow> (if w \<noteq> 0 \<and> b \<noteq> 0 \<and> w < sb then Some 0 else global)
                   | _ \<Rightarrow> global))))"
proof -
  let ?ex = "min_exempt_ids groups (eagle_ids use_eagle flagged groups)"
  let ?v = "map (\<lambda>i. retention_for_group (groups ! i) global swa sb (i \<in> ?ex)) [0..<length groups]"
  have ex: "i \<in> ?ex \<Longrightarrow> is_draft_swa (groups ! i)" for i
    by (auto simp: min_exempt_ids_def Let_def swa_ids_iff split: if_splits)
  have swa_ok: "swa = Some s \<Longrightarrow> 0 \<le> s \<and> s mod sb = 0" for s
    using swa_retention_env_valid assms(1,2) by blast
  have "retention_for_group s global swa sb b = Some i \<Longrightarrow> i = 0 \<or> (0 \<le> i \<and> i mod sb = 0)" for s b i
    using assms(3) swa_ok by (auto simp: retention_for_group_def Let_def split: if_splits)
  then have ok: "validate_retention ?v sb = Inr ()"
    by (fastforce simp: validate_retention_def)
  show ?thesis
  proof (cases "swa \<noteq> None \<and> ?ex = {}")
    case True
    then show ?thesis using assms(1) by (simp add: coordinator_retention_def resolve_retention_def)
  next
    case False
    then have c: "coordinator_retention use_eagle flagged groups global env sb = Inr ?v"
      using assms(1) ok by (auto simp: coordinator_retention_def resolve_retention_def Let_def)
    show ?thesis unfolding c
      using assms(2) ex
      by (auto simp: retention_for_group_def truthy_def Let_def split: option.splits)
  qed
qed

definition demo_groups :: "kv_spec list" where
  "demo_groups = [Plain (demo_leaf ''MLASpec''), Plain (demo_leaf ''SlidingWindowSpec'')]"

lemma demo_exempt: "min_exempt_ids demo_groups (eagle_ids True {} demo_groups) = {1}"
proof -
  have "swa_ids demo_groups = {1}"
    by (auto simp: swa_ids_def demo_groups_def is_draft_swa_def demo_leaf_def less_Suc_eq nth_Cons')
  then show ?thesis by (simp add: min_exempt_after_fallback)
qed

lemma demo_group_facts:
  "length demo_groups = 2" "sliding_window (inner_kv_spec (demo_groups ! 1)) = Some 2048"
  "block_size (inner_kv_spec (demo_groups ! 1)) = Some 64"
  by (simp_all add: demo_groups_def demo_leaf_def)

lemma retention_vector_spec_witness:
  "case coordinator_retention True {} demo_groups None None 3584 of
     Inl e \<Rightarrow> False | Inr v \<Rightarrow> length v = 2 \<and> v ! 0 = None \<and> v ! 1 = Some 0"
proof -
  have e: "swa_retention_env 3584 1000000 None = Inr None" by code_simp
  from retention_vector_spec [OF e, where global = None and use_eagle = True and flagged = "{}"
      and groups = demo_groups]
  show ?thesis
    by (simp only: demo_exempt demo_group_facts) (simp add: demo_group_facts [simplified] split: sum.splits)
qed

text \<open>A manager that does not take part in prefix caching cannot veto partial hits, and the
  others veto as before.\<close>

lemma veto_spec:
  "veto hb ms = stock_veto hb (filter participates ms)" "veto hb ms \<subseteq> stock_veto hb ms"
  by (auto simp: veto_def stock_veto_def)

end
