(* ===== verification/Patch_Engine.thy ===== *)
theory Patch_Engine
  imports Py_Text
begin

text \<open>
  What the installers of \<open>vllm-exl3/overlay/patch_*.py\<close> share.  Each of them reads a source
  file of the serving engine, replaces anchor texts that must occur exactly once, checks
  the result and writes it back; a run on a file that carries the overlay's marker writes
  nothing.  A file system is a partial map from paths to texts, \<open>SystemExit\<close>,
  \<open>ValueError\<close> and \<open>AssertionError\<close> of an installer are the left side of a sum
  (\<open>fault\<close>), and the text edit of an installer is a function \<open>string \<Rightarrow> fault + string\<close>.
  Whether a text parses as Python (\<open>ast.parse\<close>, \<open>compile\<close>) is a parameter.

  The contracts of the installers are locales: \<open>marked_patch\<close> (a success leaves the
  marker, a marked text is never edited) and \<open>stable_patch\<close> (a marked text is moreover
  accepted).  The theories of the overlays interpret them.
\<close>

type_synonym files = "string \<Rightarrow> string option"

type_synonym edit = "string \<times> string \<times> string"  \<comment> \<open>label, old, new\<close>

datatype fault =
    MissingFile
  | Found string nat
  | Refused string
  | Unparsable

section \<open>Editing a text\<close>

definition replace_once :: "string \<Rightarrow> string \<Rightarrow> string \<Rightarrow> string \<Rightarrow> fault + string" where
  "replace_once label old new s =
     (let n = text_count old s in
      if n \<noteq> 1 then Inl (Found label n) else Inr (replace_first old new s))"

fun apply_edits :: "edit list \<Rightarrow> string \<Rightarrow> fault + string" where
  "apply_edits [] s = Inr s"
| "apply_edits ((label, old, new) # es) s =
     (case replace_once label old new s of Inl e \<Rightarrow> Inl e | Inr u \<Rightarrow> apply_edits es u)"

text \<open>\<open>"import os\n" in text.split("import time\n", 1)[0]\<close>: the plain import stands before
  the first \<open>import time\<close>.\<close>

definition import_os :: string where
  "import_os = ''import os\<newline>''"

definition import_time :: string where
  "import_time = ''import time\<newline>''"

definition before_first :: "string \<Rightarrow> string \<Rightarrow> string" where
  "before_first p s = (case find_text p s of None \<Rightarrow> s | Some i \<Rightarrow> take i s)"

definition has_import_os :: "string \<Rightarrow> bool" where
  "has_import_os s = contains import_os (before_first import_time s)"

section \<open>Installing one file\<close>

definition install :: "(string \<Rightarrow> fault + string) \<Rightarrow> string \<Rightarrow> files \<Rightarrow> files \<times> fault option" where
  "install prepare p fs =
     (case fs p of
        None \<Rightarrow> (fs, Some MissingFile)
      | Some s \<Rightarrow>
          (case prepare s of
             Inl e \<Rightarrow> (fs, Some e)
           | Inr u \<Rightarrow> (if u \<noteq> s then fs(p \<mapsto> u) else fs, None)))"

section \<open>Installing several files, all or nothing\<close>

text \<open>
  \<open>stage\<close> prepares every target before the first write, as the multi-file installers do;
  \<open>commit\<close> performs the writes in the same order.
\<close>

type_synonym plan = "(string \<times> (string \<Rightarrow> fault + string)) list"

fun stage :: "plan \<Rightarrow> files \<Rightarrow> fault + (string \<times> string) list" where
  "stage [] fs = Inr []"
| "stage ((p, prepare) # ps) fs =
     (case fs p of
        None \<Rightarrow> Inl MissingFile
      | Some s \<Rightarrow>
          (case prepare s of
             Inl e \<Rightarrow> Inl e
           | Inr u \<Rightarrow>
               (case stage ps fs of
                  Inl e \<Rightarrow> Inl e
                | Inr ws \<Rightarrow> Inr (if u \<noteq> s then (p, u) # ws else ws))))"

definition commit :: "(string \<times> string) list \<Rightarrow> files \<Rightarrow> files" where
  "commit ws fs = fold (\<lambda>(p, u) fs. fs(p \<mapsto> u)) ws fs"

definition install_all :: "plan \<Rightarrow> files \<Rightarrow> files \<times> fault option" where
  "install_all plan fs =
     (case stage plan fs of Inl e \<Rightarrow> (fs, Some e) | Inr ws \<Rightarrow> (commit ws fs, None))"

section \<open>Texts that do not interfere\<close>

text \<open>
  \<open>touch p q\<close>: some occurrence of \<open>q\<close> could start inside an occurrence of \<open>p\<close>.  Two
  texts that touch in neither direction never overlap, so that replacing one of them
  leaves every occurrence of the other.
\<close>

fun compat :: "string \<Rightarrow> string \<Rightarrow> bool" where
  "compat [] q = True"
| "compat (x # xs) [] = True"
| "compat (x # xs) (y # ys) = (x = y \<and> compat xs ys)"

fun touch :: "string \<Rightarrow> string \<Rightarrow> bool" where
  "touch [] q = False"
| "touch (c # cs) q = (compat (c # cs) q \<or> touch cs q)"

definition apart :: "string \<Rightarrow> string \<Rightarrow> bool" where
  "apart p q \<longleftrightarrow> \<not> touch p q \<and> \<not> touch q p"

lemma compat_append: "s @ b = q @ d \<Longrightarrow> compat s q"
  by (induction s q rule: compat.induct) auto

lemma touch_append: "s \<noteq> [] \<Longrightarrow> compat s q \<Longrightarrow> touch (x @ s) q"
  by (induction x) (cases s; auto)+

lemma touch_overlap:
  assumes "a @ p @ b = c @ q @ d" "length a \<le> length c" "length c < length a + length p"
  shows "touch p q"
proof -
  obtain x where c: "c = a @ x"
    using assms(1,2) by (metis append_eq_append_conv_if append_eq_conv_conj)
  then have pb: "p @ b = x @ q @ d" using assms(1) by simp
  have "length x < length p" using assms(3) c by simp
  then have "x = take (length x) p" using pb by (metis append_eq_conv_conj less_imp_le_nat take_append
        diff_is_0_eq' take_0 append_Nil2)
  then obtain s where p: "p = x @ s" by (metis append_take_drop_id)
  then have "s \<noteq> []" using \<open>length x < length p\<close> by auto
  moreover have "s @ b = q @ d" using pb p by simp
  ultimately show ?thesis using p touch_append compat_append by blast
qed

lemma occurs_apart:
  assumes "a @ p @ b = c @ w @ d" "apart p w" "w \<noteq> []" "p \<noteq> []"
  shows "contains w a \<or> contains w b"
proof -
  consider "length c + length w \<le> length a" | "length a + length p \<le> length c"
    | "length a \<le> length c" "length c < length a + length p"
    | "length c \<le> length a" "length a < length c + length w" by linarith
  then show ?thesis
  proof cases
    case 1
    have "take (length a) (a @ p @ b) = take (length a) (c @ w @ d)" using assms(1) by simp
    then have "a = c @ w @ take (length a - length c - length w) d" using 1 by simp
    then show ?thesis by (metis contains_iff)
  next
    case 2
    have "drop (length a + length p) (a @ p @ b) = drop (length a + length p) (c @ w @ d)"
      using assms(1) by simp
    then have "b = drop (length a + length p) c @ w @ d" using 2 by simp
    then show ?thesis by (metis contains_iff)
  next
    case 3
    then have "touch p w" using touch_overlap [OF assms(1)] by blast
    then show ?thesis using assms(2) by (simp add: apart_def)
  next
    case 4
    then have "touch w p" using touch_overlap [OF assms(1) [symmetric]] by blast
    then show ?thesis using assms(2) by (simp add: apart_def)
  qed
qed

lemma contains_Nil [simp]: "contains [] s"
  by (cases s) auto

lemma contains_middle: "contains w a \<or> contains w b \<Longrightarrow> contains w (a @ x @ b)"
  using contains_appendI1 contains_appendI2 by blast

text \<open>An occurrence apart from the replaced text survives the replacement, and one apart
  from the inserted text was there before.\<close>

lemma contains_replace_keep:
  assumes "contains w s" "apart old w"
  shows "contains w (replace_first old new s)"
proof (cases "w = [] \<or> \<not> contains old s")
  case True
  then show ?thesis using assms(1) by (auto simp: replace_first_absent)
next
  case False
  then obtain a b where s: "s = a @ old @ b" and r: "replace_first old new s = a @ new @ b"
    using replace_first_split by blast
  obtain c d where "s = c @ w @ d" using assms(1) by (auto simp: contains_iff)
  with s have eq: "a @ old @ b = c @ w @ d" by simp
  show ?thesis
  proof (cases "old = []")
    case True
    then have "touch w old \<or> w = []" by (cases w) auto
    then show ?thesis using assms(2) by (auto simp: apart_def)
  next
    case old: False
    show ?thesis using occurs_apart [OF eq assms(2) _ old] False r by (simp add: contains_middle)
  qed
qed

lemma contains_replace_new:
  assumes "contains w (replace_first old new s)" "apart new w" "new \<noteq> []"
  shows "contains w s"
proof (cases "w = [] \<or> \<not> contains old s")
  case True
  then show ?thesis using assms(1) by (auto simp: replace_first_absent)
next
  case False
  then obtain a b where s: "s = a @ old @ b" and r: "replace_first old new s = a @ new @ b"
    using replace_first_split by blast
  obtain c d where "a @ new @ b = c @ w @ d" using assms(1) r by (auto simp: contains_iff)
  from occurs_apart [OF this assms(2) _ assms(3)] False show ?thesis
    by (simp add: s contains_middle)
qed

section \<open>Lemmas on the edits\<close>

lemma replace_once_Inr:
  "replace_once l old new s = Inr u \<longleftrightarrow> text_count old s = 1 \<and> u = replace_first old new s"
  by (auto simp: replace_once_def Let_def)

lemma replace_once_contains: "replace_once l old new s = Inr u \<Longrightarrow> contains new u"
  by (simp add: replace_once_Inr contains_replace_first text_count_contains)

lemma replace_once_frame:
  "replace_once l old new s = Inr u \<Longrightarrow> \<exists>a b. s = a @ old @ b \<and> u = a @ new @ b"
  using replace_first_split [of old s new] text_count_contains [of old s]
  by (auto simp: replace_once_Inr)

lemma replace_once_keep:
  "replace_once l old new s = Inr u \<Longrightarrow> apart old w \<Longrightarrow> contains w s \<Longrightarrow> contains w u"
  by (auto simp: replace_once_Inr contains_replace_keep)

lemma apply_edits_append:
  "apply_edits (es @ fs) s = (case apply_edits es s of Inl e \<Rightarrow> Inl e | Inr u \<Rightarrow> apply_edits fs u)"
  by (induction es s rule: apply_edits.induct) (auto split: sum.splits)

lemma apply_edits_keep:
  "apply_edits es s = Inr u \<Longrightarrow> contains w s \<Longrightarrow> \<forall>(l, old, new)\<in>set es. apart old w
     \<Longrightarrow> contains w u"
  by (induction es s rule: apply_edits.induct) (auto split: sum.splits dest: replace_once_keep)

lemma apply_edits_last:
  assumes "apply_edits (es @ [(l, old, new)]) s = Inr u"
  shows "contains new u"
  using assms by (auto simp: apply_edits_append split: sum.splits dest: replace_once_contains)

lemma apply_edits_new:
  "apply_edits es s = Inr u \<Longrightarrow> contains w u \<Longrightarrow> \<forall>(l, old, new)\<in>set es. apart new w \<and> new \<noteq> []
     \<Longrightarrow> contains w s"
  by (induction es s rule: apply_edits.induct)
     (auto simp: replace_once_Inr split: sum.splits dest: contains_replace_new)

section \<open>Texts written as lines\<close>

text \<open>
  Anchors are several lines long.  They are written as lists of lines, and the questions
  whether they contain a marker or can overlap with it are answered line by line, as a
  marker has no line break.
\<close>

definition newline :: char where "newline = CHR 0x0A"

fun text_lines :: "string list \<Rightarrow> string" where
  "text_lines [] = []"
| "text_lines (l # ls) = l @ newline # text_lines ls"

lemma contains_lines: "\<exists>l\<in>set ls. contains w l \<Longrightarrow> contains w (text_lines ls)"
proof (induction ls)
  case (Cons l ls)
  show ?case
  proof (cases "contains w l")
    case True
    then show ?thesis by (simp add: contains_appendI1)
  next
    case False
    with Cons have "contains w (text_lines ls)" by simp
    then have "contains w ((l @ [newline]) @ text_lines ls)" by (rule contains_appendI2)
    then show ?thesis by simp
  qed
qed simp

lemma compat_Nil2 [simp]: "compat p []"
  by (cases p) auto

lemma compat_newline: "newline \<notin> set w \<Longrightarrow> compat (s @ newline # r) w = compat (s @ [newline]) w"
proof (induction s arbitrary: w)
  case Nil
  then show ?case by (cases w) auto
next
  case (Cons x s)
  then show ?case by (cases w) auto
qed

lemma compat_newline_Nil: "newline \<notin> set w \<Longrightarrow> compat (newline # r) w = (w = [])"
  by (cases w) auto

lemma touch_newline:
  "newline \<notin> set w \<Longrightarrow> w \<noteq> [] \<Longrightarrow> touch (l @ newline # r) w = (touch (l @ [newline]) w \<or> touch r w)"
proof (induction l)
  case Nil
  then show ?case by (simp add: compat_newline_Nil)
next
  case (Cons c l)
  have "compat ((c # l) @ newline # r) w = compat ((c # l) @ [newline]) w"
    using Cons.prems by (intro compat_newline) auto
  with Cons show ?case by auto
qed

lemma touch_lines:
  "newline \<notin> set w \<Longrightarrow> w \<noteq> [] \<Longrightarrow>
     touch (text_lines ls) w = (\<exists>l\<in>set ls. touch (l @ [newline]) w)"
proof (induction ls)
  case (Cons l ls)
  then show ?case using touch_newline [of w l "text_lines ls"] by simp
qed simp

lemma compat_newline2:
  "newline \<notin> set s \<Longrightarrow> compat s (l @ newline # r) = compat s (l @ [newline])"
proof (induction s arbitrary: l)
  case (Cons c s)
  then show ?case by (cases l) auto
qed simp

lemma touch_line2:
  "newline \<notin> set w \<Longrightarrow> touch w (l @ newline # r) = touch w (l @ [newline])"
proof (induction w)
  case (Cons c w)
  have "compat (c # w) (l @ newline # r) = compat (c # w) (l @ [newline])"
    by (rule compat_newline2) (use Cons.prems in simp)
  with Cons show ?case by simp
qed simp

text \<open>What is left to evaluate when an anchor of several lines is compared with a word.\<close>

definition lines_apart :: "string list \<Rightarrow> string \<Rightarrow> bool" where
  "lines_apart ls w \<longleftrightarrow> w \<noteq> [] \<and> newline \<notin> set w \<and> ls \<noteq> []
     \<and> (\<forall>l\<in>set ls. \<not> touch (l @ [newline]) w) \<and> \<not> touch w (hd ls @ [newline])"

lemma lines_apart:
  assumes "lines_apart ls w"
  shows "apart (text_lines ls) w"
proof -
  obtain l ls' where ls: "ls = l # ls'" using assms by (cases ls) (auto simp: lines_apart_def)
  have "\<not> touch (text_lines ls) w"
    using assms touch_lines [of w ls] by (simp add: lines_apart_def)
  moreover have "\<not> touch w (text_lines ls)"
    using assms ls touch_line2 [of w l "text_lines ls'"] by (simp add: lines_apart_def)
  ultimately show ?thesis by (simp add: apart_def)
qed

text \<open>Counting an anchor in a text assembled from parts.\<close>

lemma starts_with_compat: "starts_with p (s @ t) \<Longrightarrow> compat s p"
proof (induction s p rule: compat.induct)
  case (3 x xs y ys)
  then show ?case by (auto simp: starts_with_def)
qed auto

lemma text_count_skip: "p \<noteq> [] \<Longrightarrow> \<not> touch a p \<Longrightarrow> text_count p (a @ s) = text_count p s"
proof (induction a)
  case (Cons c a)
  then have "\<not> starts_with p ((c # a) @ s)" using starts_with_compat by fastforce
  with Cons show ?case by (simp add: text_count_Cons)
qed simp

lemma text_count_here: "p \<noteq> [] \<Longrightarrow> text_count p (p @ s) = Suc (text_count p s)"
  by (cases p) (simp_all add: text_count_Cons starts_with_def)

lemma replace_first_skip: "p \<noteq> [] \<Longrightarrow> \<not> touch a p \<Longrightarrow> replace_first p n (a @ s) = a @ replace_first p n s"
proof (induction a)
  case (Cons c a)
  then have "\<not> starts_with p ((c # a) @ s)" using starts_with_compat by fastforce
  with Cons show ?case by simp
qed simp

lemma replace_first_here: "p \<noteq> [] \<Longrightarrow> replace_first p n (p @ s) = n @ s"
  by (cases p) (simp_all add: starts_with_def)

lemma compat_prefix: "compat s (l @ r) \<Longrightarrow> compat s l"
  by (induction s l rule: compat.induct) auto

lemma touch_prefix: "touch a (l @ r) \<Longrightarrow> touch a l"
  by (induction a) (auto dest: compat_prefix)

text \<open>The same for a text whose last line has no line break.\<close>

lemma touch_lines_tail:
  assumes "newline \<notin> set w" "w \<noteq> []"
  shows "touch (text_lines ls @ r) w = ((\<exists>l\<in>set ls. touch (l @ [newline]) w) \<or> touch r w)"
proof (induction ls)
  case (Cons l ls)
  then show ?case using touch_newline [OF assms, of l "text_lines ls @ r"] by simp
qed simp

lemma lines_tail_apart:
  assumes "lines_apart ls w" "\<not> touch r w"
  shows "apart (text_lines ls @ r) w"
proof -
  obtain l ls' where ls: "ls = l # ls'" using assms by (cases ls) (auto simp: lines_apart_def)
  have "\<not> touch (text_lines ls @ r) w"
    using assms touch_lines_tail [of w ls r] by (simp add: lines_apart_def)
  moreover have "\<not> touch w (text_lines ls @ r)"
    using assms ls touch_line2 [of w l "text_lines ls' @ r"] by (simp add: lines_apart_def)
  ultimately show ?thesis by (simp add: apart_def)
qed

lemma apart_sym: "apart p q \<Longrightarrow> apart q p"
  by (auto simp: apart_def)

text \<open>Two anchors of several lines that share no first line never overlap.\<close>

definition anchors_apart :: "string list \<Rightarrow> string list \<Rightarrow> bool" where
  "anchors_apart ls ms \<longleftrightarrow> ls \<noteq> [] \<and> ms \<noteq> [] \<and> hd ls \<noteq> [] \<and> hd ms \<noteq> []
     \<and> newline \<notin> set (hd ls) \<and> newline \<notin> set (hd ms)
     \<and> (\<forall>l\<in>set ls. \<not> touch (l @ [newline]) (hd ms))
     \<and> (\<forall>m\<in>set ms. \<not> touch (m @ [newline]) (hd ls))"

lemma anchors_apart:
  assumes "anchors_apart ls ms"
  shows "apart (text_lines ls) (text_lines ms)"
proof -
  obtain l ls' m ms' where e: "ls = l # ls'" "ms = m # ms'"
    using assms by (cases ls; cases ms) (auto simp: anchors_apart_def)
  have "\<not> touch (text_lines ls) m" "\<not> touch (text_lines ms) l"
    using assms e touch_lines [of m ls] touch_lines [of l ms] by (simp_all add: anchors_apart_def)
  then show ?thesis
    using e touch_prefix [of "text_lines ls" m] touch_prefix [of "text_lines ms" l]
    by (auto simp: apart_def)
qed

lemma count_lines_skip:
  assumes "l \<noteq> []" "newline \<notin> set l" "\<forall>m\<in>set ms. \<not> touch (m @ [newline]) l"
  shows "text_count (text_lines (l # ls)) (text_lines ms @ s) = text_count (text_lines (l # ls)) s"
    and "replace_first (text_lines (l # ls)) n (text_lines ms @ s)
           = text_lines ms @ replace_first (text_lines (l # ls)) n s"
proof -
  have "\<not> touch (text_lines ms) (text_lines (l # ls))"
    using assms touch_lines [of l ms] touch_prefix [of "text_lines ms" l] by auto
  then show "text_count (text_lines (l # ls)) (text_lines ms @ s) = text_count (text_lines (l # ls)) s"
    and "replace_first (text_lines (l # ls)) n (text_lines ms @ s)
           = text_lines ms @ replace_first (text_lines (l # ls)) n s"
    using assms(1) by (simp_all add: text_count_skip replace_first_skip)
qed

text \<open>\<open>clear l a\<close>: a text of whole lines in which the line \<open>l\<close> cannot start.  Replacing an
  anchor between two texts clear of its first line hits exactly that anchor.\<close>

definition clear :: "string \<Rightarrow> string \<Rightarrow> bool" where
  "clear l a \<longleftrightarrow> \<not> touch a l \<and> (a = [] \<or> last a = newline)"

lemma clear_lines:
  assumes "l \<noteq> [] \<and> newline \<notin> set l \<and> (\<forall>m\<in>set ms. \<not> touch (m @ [newline]) l)"
  shows "clear l (text_lines ms)"
proof -
  have "text_lines ms = [] \<or> last (text_lines ms) = newline"
    by (induction ms) auto
  then show ?thesis using assms touch_lines [of l ms] by (simp add: clear_def)
qed

lemma clear_Nil [simp]: "clear l []"
  by (simp add: clear_def)

lemma clear_append:
  assumes "newline \<notin> set l" "l \<noteq> []" "clear l a" "clear l b"
  shows "clear l (a @ b)"
proof (cases "a = []")
  case False
  then obtain a' where a: "a = a' @ [newline]" using assms(3) by (metis append_butlast_last_id clear_def)
  then have "touch (a @ b) l = (touch a l \<or> touch b l)"
    using touch_newline [OF assms(1,2), of a' b] by simp
  then show ?thesis using assms(3,4) by (cases "b = []") (simp_all add: clear_def)
qed (use assms in simp)

lemma compat_self [simp]: "compat p (p @ x)" "compat p p"
  by (induction p) auto

lemma contains_touch: "p \<noteq> [] \<Longrightarrow> contains p s \<Longrightarrow> touch s p"
proof (induction s)
  case (Cons c cs)
  then show ?case using starts_with_compat [of p "c # cs" "[]"] by auto
qed auto

lemma clear_not_contains: "l \<noteq> [] \<Longrightarrow> clear l a \<Longrightarrow> \<not> contains (l @ r) a"
  using contains_touch [of "l @ r" a] touch_prefix [of a l r] by (auto simp: clear_def)

lemma replace_once_prefix:
  assumes "old = l @ r" "l \<noteq> []" "clear l a" "clear l b"
  shows "replace_once lab old new (a @ old @ b) = Inr (a @ new @ b)"
    and "text_count old (a @ old @ b) = 1"
    and "replace_first old new (a @ old @ b) = a @ new @ b"
proof -
  have old: "old = l @ r" "old \<noteq> []" using assms(1,2) by simp_all
  have t: "\<not> touch a old" using assms(3) touch_prefix [of a l] by (auto simp: clear_def old)
  have "\<not> contains old b" using clear_not_contains [OF assms(2,4)] by (simp add: old)
  then have z: "text_count old b = 0" using text_count_0_iff [OF old(2)] by simp
  show c: "text_count old (a @ old @ b) = 1" using t z old(2)
    by (simp add: text_count_skip text_count_here)
  show r: "replace_first old new (a @ old @ b) = a @ new @ b" using t old(2)
    by (simp add: replace_first_skip replace_first_here)
  show "replace_once lab old new (a @ old @ b) = Inr (a @ new @ b)"
    by (simp only: replace_once_Inr c r simp_thms)
qed

lemma replace_once_clear:
  assumes "old = text_lines (l # ls)" "l \<noteq> []" "clear l a" "clear l b"
  shows "replace_once lab old new (a @ old @ b) = Inr (a @ new @ b)"
    and "text_count old (a @ old @ b) = 1"
    and "replace_first old new (a @ old @ b) = a @ new @ b"
  using assms replace_once_prefix [of old l "newline # text_lines ls" a b] by simp_all

lemma text_lines_snoc: "(text_lines ls @ t) @ [newline] = text_lines (ls @ [t])"
  by (induction ls) auto

lemma text_lines_append: "text_lines (ls @ ms) = text_lines ls @ text_lines ms"
  by (induction ls) auto

lemma starts_with_append_iff:
  "length w \<le> length a \<Longrightarrow> starts_with w (a @ b) = starts_with w a"
  by (simp add: starts_with_def)

lemma text_count_apart:
  assumes "apart x w" "w \<noteq> []" "x \<noteq> []"
  shows "text_count w (a @ x @ b) = text_count w a + text_count w b"
proof (induction a rule: length_induct)
  case (1 a)
  show ?case
  proof (cases a)
    case Nil
    then show ?thesis using assms text_count_skip [of w x b] by (simp add: apart_def)
  next
    case (Cons c a')
    show ?thesis
    proof (cases "starts_with w (a @ x @ b)")
      case True
      then obtain t where t: "a @ x @ b = w @ t" by (auto simp: starts_with_iff)
      have le: "length w \<le> length a"
      proof (rule ccontr)
        assume "\<not> length w \<le> length a"
        then have "touch w x" using touch_overlap [of "[]" w t a x b] t by simp
        then show False using assms(1) by (simp add: apart_def)
      qed
      then have sa: "starts_with w a" using True by (simp add: starts_with_append_iff)
      have "text_count w (drop (length w) a @ x @ b)
          = text_count w (drop (length w) a) + text_count w b"
        using 1 assms(2) Cons le by (metis diff_less length_drop length_greater_0_conv list.distinct(1))
      with True sa le Cons assms(2) show ?thesis
        by (simp add: text_count_Cons drop_Cons')
    next
      case False
      then have "\<not> starts_with w a" by (auto simp: starts_with_iff)
      with False Cons assms(2) 1 show ?thesis by (simp add: text_count_Cons)
    qed
  qed
qed

lemma replace_once_count:
  assumes "replace_once l old new s = Inr u" "apart old w" "apart new w" "w \<noteq> []" "old \<noteq> []" "new \<noteq> []"
  shows "text_count w u = text_count w s"
  using replace_once_frame [OF assms(1)] assms text_count_apart by metis

text \<open>Counting: dropping a prefix no longer than the pattern loses at most one occurrence.\<close>

lemma text_count_drop_both:
  assumes "p \<noteq> []"
  shows "(\<forall>k\<le>length p. text_count p b \<le> Suc (text_count p (drop k b)))
    \<and> (\<forall>k. text_count p (drop k b) \<le> text_count p b)"
proof (induction b rule: length_induct)
  case (1 b)
  show ?case
  proof (cases b)
    case (Cons c b')
    have IH: "\<And>k. k \<le> length p \<Longrightarrow> text_count p xs \<le> Suc (text_count p (drop k xs))"
      "\<And>k. text_count p (drop k xs) \<le> text_count p xs" if "length xs < length b" for xs
      using 1 that by blast+
    let ?d = "drop (length p) b"
    have d: "length ?d < length b" using assms Cons by (cases p) auto
    show ?thesis
    proof (cases "starts_with p b")
      case True
      then have c: "text_count p b = Suc (text_count p ?d)"
        using assms Cons by (simp add: text_count_Cons)
      have "text_count p ?d \<le> text_count p (drop k b)" if "k \<le> length p" for k
      proof (cases k)
        case (Suc k')
        have "?d = drop (length p - k + k) b" using that by simp
        then have "?d = drop (length p - k) (drop k b)" by (simp only: drop_drop)
        moreover have "length (drop k b) < length b" using Suc Cons by simp
        ultimately show ?thesis using IH(2) by metis
      qed (use c in simp)
      moreover have "text_count p (drop k b) \<le> text_count p b" for k
      proof (cases "k \<le> length p")
        case True
        show ?thesis
        proof (cases k)
          case (Suc k')
          have l: "length (drop k b) < length b" using Suc Cons by simp
          have "text_count p (drop k b) \<le> Suc (text_count p (drop (length p - k) (drop k b)))"
            by (rule IH(1) [OF l]) simp
          then show ?thesis using c True by simp
        qed simp
      next
        case False
        then have "drop k b = drop (k - length p) ?d" by simp
        then show ?thesis using IH(2) [OF d, of "k - length p"] c by simp
      qed
      ultimately show ?thesis using c by simp
    next
      case False
      then have c: "text_count p b = text_count p b'" using assms Cons by (simp add: text_count_Cons)
      have "text_count p b \<le> Suc (text_count p (drop k b))" if "k \<le> length p" for k
        using IH(1) [of b' "k - 1"] that c Cons by (cases k) auto
      moreover have "text_count p (drop k b) \<le> text_count p b" for k
        using IH(2) [of b' "k - 1"] c Cons by (cases k) auto
      ultimately show ?thesis by blast
    qed
  qed simp
qed

lemma text_count_superadd:
  assumes "p \<noteq> []"
  shows "text_count p a + text_count p b \<le> text_count p (a @ b)"
proof (induction a rule: length_induct)
  case (1 a)
  show ?case
  proof (cases a)
    case (Cons c a')
    show ?thesis
    proof (cases "starts_with p a")
      case True
      then have sp: "starts_with p (a @ b)" and le: "length p \<le> length a"
        by (auto simp: starts_with_iff)
      have "length (drop (length p) a) < length a" using assms Cons by (cases p) auto
      with 1 have "text_count p (drop (length p) a) + text_count p b
          \<le> text_count p (drop (length p) a @ b)" by blast
      then show ?thesis using True sp le Cons assms by (simp add: text_count_Cons drop_Cons')
    next
      case na: False
      have "text_count p a' + text_count p b \<le> text_count p (a' @ b)" using 1 Cons by simp
      moreover have "text_count p (a' @ b) \<le> text_count p (a @ b)"
        using text_count_drop_both [OF assms, of "a @ b"] Cons
        by (metis append_Cons drop0 drop_Suc_Cons)
      ultimately show ?thesis using na Cons assms by (simp add: text_count_Cons)
    qed
  qed (simp add: assms)
qed

lemma text_count_part:
  assumes "w \<noteq> []"
  shows "text_count (x @ w @ y) s \<le> text_count w s"
proof (induction s rule: length_induct)
  case (1 s)
  let ?p = "x @ w @ y"
  have p: "?p \<noteq> []" using assms by simp
  show ?case
  proof (cases s)
    case (Cons c s')
    show ?thesis
    proof (cases "starts_with ?p s")
      case True
      then obtain r where r: "s = ?p @ r" by (auto simp: starts_with_iff)
      have "text_count ?p s = Suc (text_count ?p r)"
        unfolding r by (rule text_count_here [OF p])
      moreover have "text_count ?p r \<le> text_count w r" using 1 r assms by simp
      moreover have "Suc (text_count w r) \<le> text_count w s"
      proof -
        have "text_count w (w @ (y @ r)) = Suc (text_count w (y @ r))" by (rule text_count_here [OF assms])
        moreover have "text_count w r \<le> text_count w (y @ r)"
          using text_count_superadd [OF assms, of y r] by simp
        moreover have "text_count w (w @ y @ r) \<le> text_count w s"
          using text_count_superadd [OF assms, of x "w @ y @ r"] r by simp
        ultimately show ?thesis by simp
      qed
      ultimately show ?thesis by simp
    next
      case False
      have "text_count ?p s' \<le> text_count w s'" using 1 Cons by simp
      moreover have "text_count w s' \<le> text_count w s"
        using text_count_superadd [OF assms, of "[c]" s'] Cons by simp
      moreover have "text_count ?p s = text_count ?p s'"
        using False Cons p text_count_Cons [OF p] by simp
      ultimately show ?thesis by simp
    qed
  next
    case Nil
    have "text_count ?p [] = 0" by (rule text_count_empty [OF p])
    then show ?thesis using Nil by simp
  qed
qed

text \<open>A helper text that opens with a blank line is counted by its first real line.\<close>

lemma count_helper_once:
  assumes h: "h = text_lines ([] # l # ls)" and l: "l \<noteq> []" "newline \<notin> set l"
    and c: "clear l a" "clear l b" "clear l (text_lines ls)"
  shows "text_count h (a @ h @ b) = 1"
proof -
  have "clear l [newline]" using l by (cases l) (auto simp: clear_def)
  then have 1: "clear l (a @ [newline])" "clear l (text_lines ls @ b)"
    using l c by (simp_all add: clear_append)
  have e: "a @ h @ b = (a @ [newline]) @ text_lines [l] @ (text_lines ls @ b)" by (simp add: h)
  have "text_count (text_lines [l]) (a @ h @ b) = 1"
    unfolding e by (rule replace_once_clear(2) [OF refl l(1) 1])
  moreover have "text_count h (a @ h @ b) \<le> text_count (text_lines [l]) (a @ h @ b)"
    using text_count_part [of "text_lines [l]" "[newline]" "text_lines ls"] by (simp add: h)
  moreover have "contains h (a @ h @ b)" by (auto simp: contains_iff)
  then have "0 < text_count h (a @ h @ b)" using text_count_pos_iff [of h] h by simp
  ultimately show ?thesis by linarith
qed

text \<open>Counting a word without a line break goes line by line.\<close>

lemma text_count_lines_append:
  assumes "newline \<notin> set w" "w \<noteq> []"
  shows "text_count w (text_lines ls @ b) = text_count w (text_lines ls) + text_count w b"
proof (induction ls)
  case (Cons l ls)
  have "\<not> touch w [newline]" using assms(1)
    by (induction w) auto
  moreover have "\<not> touch [newline] w" using assms by (cases w) auto
  ultimately have a: "apart [newline] w" by (simp add: apart_def)
  have "text_count w (l @ [newline] @ r) = text_count w l + text_count w r" for r
    by (rule text_count_apart [OF a assms(2)]) simp
  then show ?case using Cons by (simp add: assms)
qed (simp add: assms)

section \<open>Sequencing\<close>

definition and_then :: "'e + 'a \<Rightarrow> ('a \<Rightarrow> 'e + 'b) \<Rightarrow> 'e + 'b" where
  "and_then r f = (case r of Inl e \<Rightarrow> Inl e | Inr x \<Rightarrow> f x)"

lemma and_then_Inr_iff [simp]: "and_then r f = Inr u \<longleftrightarrow> (\<exists>v. r = Inr v \<and> f v = Inr u)"
  by (simp add: and_then_def split: sum.split)

lemma and_then_simps [simp]: "and_then (Inl e) f = Inl e" "and_then (Inr x) f = f x"
  by (simp_all add: and_then_def)

section \<open>The contracts\<close>

locale marked_patch =
  fixes prepare :: "string \<Rightarrow> fault + string" and marked :: "string \<Rightarrow> bool"
  assumes success_marked: "prepare s = Inr u \<Longrightarrow> marked u"
    and marked_frozen: "marked s \<Longrightarrow> prepare s = Inr u \<Longrightarrow> u = s"
begin

lemma never_twice: "prepare s = Inr u \<Longrightarrow> prepare u = Inr v \<Longrightarrow> v = u"
  using success_marked marked_frozen by blast

lemma install_success:
  assumes "install prepare p fs = (fs', None)"
  shows "\<exists>u. fs' p = Some u \<and> marked u \<and> fs' = fs(p \<mapsto> u)"
proof -
  obtain s u where s: "fs p = Some s" "prepare s = Inr u"
    and fs': "fs' = (if u \<noteq> s then fs(p \<mapsto> u) else fs)"
    using assms by (auto simp: install_def split: option.splits sum.splits)
  then have "fs' = fs(p \<mapsto> u)" by (cases "u = s") (auto simp: fun_upd_idem)
  with success_marked [OF s(2)] show ?thesis by auto
qed

lemma install_failure: "install prepare p fs = (fs', Some e) \<Longrightarrow> fs' = fs"
  by (auto simp: install_def split: option.splits sum.splits)

lemma install_frame: "q \<noteq> p \<Longrightarrow> fst (install prepare p fs) q = fs q"
  by (auto simp: install_def split: option.splits sum.splits)

lemma install_no_second_write: "fst (install prepare p (fst (install prepare p fs)))
    = fst (install prepare p fs)"
proof (cases "install prepare p fs")
  case (Pair fs' r)
  show ?thesis
  proof (cases r)
    case None
    with Pair install_success obtain u where u: "fs' p = Some u" "marked u" by blast
    then show ?thesis using Pair marked_frozen [OF u(2)]
      by (auto simp: install_def split: option.splits sum.splits)
  next
    case (Some e)
    then have "fs' = fs" using Pair install_failure by blast
    then show ?thesis using Pair Some by simp
  qed
qed

end

locale stable_patch = marked_patch +
  assumes marked_accepted: "marked s \<Longrightarrow> prepare s = Inr s"
begin

lemma prepare_idem: "prepare s = Inr u \<Longrightarrow> prepare u = Inr u"
  using success_marked marked_accepted by blast

lemma fixpoint_iff: "prepare s = Inr s \<longleftrightarrow> marked s"
  using success_marked marked_accepted by blast

lemma install_idem:
  "install prepare p (fst (install prepare p fs)) = install prepare p fs"
proof (cases "install prepare p fs")
  case (Pair fs' r)
  show ?thesis
  proof (cases r)
    case None
    with Pair install_success obtain u where u: "fs' p = Some u" "marked u" by blast
    then show ?thesis using Pair None marked_accepted [OF u(2)] by (simp add: install_def)
  next
    case (Some e)
    then have "fs' = fs" using Pair install_failure by blast
    then show ?thesis using Pair Some by simp
  qed
qed

end

section \<open>Several overlays on one file\<close>

text \<open>The overlays of one file run one after the other, in the launcher's order.\<close>

fun boot :: "(string \<Rightarrow> fault + string) list \<Rightarrow> string \<Rightarrow> fault + string" where
  "boot [] s = Inr s"
| "boot (f # fs) s = and_then (f s) (boot fs)"

lemma boot_marks:
  assumes "boot (map fst ps) s = Inr u" "\<forall>(f, m)\<in>set ps. stable_patch f m"
    and "sorted_wrt (\<lambda>(f, m) (g, n). \<forall>s u. g s = Inr u \<longrightarrow> m s \<longrightarrow> m u) ps"
  shows "\<forall>(f, m)\<in>set ps. m u"
  using assms
proof (induction ps arbitrary: s u rule: rev_induct)
  case (snoc p ps)
  obtain f m where p: "p = (f, m)" by force
  have split: "boot (fs @ [f]) s = and_then (boot fs s) f" for fs :: "(string \<Rightarrow> fault + string) list" and s
    by (induction fs arbitrary: s) (simp_all add: and_then_def split: sum.split)
  from snoc.prems(1) p obtain v where v: "boot (map fst ps) s = Inr v" "f v = Inr u"
    by (auto simp: split)
  have sp: "stable_patch f m" using snoc.prems(2) p by simp
  have "\<forall>(f, m)\<in>set ps. m v"
    by (rule snoc.IH [OF v(1)]) (use snoc.prems in \<open>auto simp: sorted_wrt_append\<close>)
  moreover have "\<forall>(g, n)\<in>set ps. n v \<longrightarrow> n u" using snoc.prems(3) p v(2)
    by (auto simp: sorted_wrt_append)
  moreover have "m u" using stable_patch.axioms(1) [OF sp] v(2) marked_patch.success_marked by blast
  ultimately show ?case using p by auto
qed simp

lemma boot_marked: "\<forall>(f, m)\<in>set ps. stable_patch f m \<and> m u \<Longrightarrow> boot (map fst ps) u = Inr u"
  by (induction ps) (auto simp: stable_patch.marked_accepted)

lemma boot_idem:
  assumes "boot (map fst ps) s = Inr u" "\<forall>(f, m)\<in>set ps. stable_patch f m"
    and "sorted_wrt (\<lambda>(f, m) (g, n). \<forall>s u. g s = Inr u \<longrightarrow> m s \<longrightarrow> m u) ps"
  shows "boot (map fst ps) u = Inr u"
  using boot_marks [OF assms] assms(2) by (intro boot_marked) auto

section \<open>All or nothing\<close>

lemma stage_reads:
  "stage ps fs = Inr ws \<Longrightarrow> \<forall>(p, f)\<in>set ps. \<exists>s u. fs p = Some s \<and> f s = Inr u"
  by (induction ps fs arbitrary: ws rule: stage.induct) (auto split: option.splits sum.splits)

lemma stage_paths: "stage ps fs = Inr ws \<Longrightarrow> fst ` set ws \<subseteq> fst ` set ps"
  by (induction ps fs arbitrary: ws rule: stage.induct)
     (force split: option.splits sum.splits if_splits)+

lemma commit_other: "p \<notin> fst ` set ws \<Longrightarrow> commit ws fs p = fs p"
  by (induction ws arbitrary: fs) (auto simp: commit_def)

lemma commit_Cons: "commit ((p, u) # ws) fs = commit ws (fs(p \<mapsto> u))"
  by (simp add: commit_def)

lemma stage_commit:
  assumes "stage ps fs = Inr ws" "distinct (map fst ps)" "(p, f) \<in> set ps"
  shows "\<exists>s u. fs p = Some s \<and> f s = Inr u \<and> commit ws fs' p = (if u \<noteq> s then Some u else fs' p)"
  using assms
proof (induction ps fs arbitrary: ws fs' rule: stage.induct)
  case (2 q g ps fs)
  from "2.prems"(1) obtain s u ws' where s: "fs q = Some s" "g s = Inr u" "stage ps fs = Inr ws'"
    and ws: "ws = (if u \<noteq> s then (q, u) # ws' else ws')"
    by (auto split: option.splits sum.splits)
  show ?case
  proof (cases "p = q")
    case True
    then have f: "f = g" using "2.prems"(2,3) by (auto simp: image_iff)
    have "q \<notin> fst ` set ws'" using stage_paths [OF s(3)] "2.prems"(2) by auto
    then show ?thesis using True f s ws by (simp add: commit_Cons commit_other)
  next
    case False
    then have "(p, f) \<in> set ps" using "2.prems"(3) by auto
    from "2.IH" [OF s(1,2,3) _ this, of "if u \<noteq> s then fs'(q \<mapsto> u) else fs'"] "2.prems"(2) False ws
    show ?thesis by (auto simp: commit_Cons split: if_splits)
  qed
qed simp

lemma install_all_failure: "install_all plan fs = (fs', Some e) \<Longrightarrow> fs' = fs"
  by (auto simp: install_all_def split: sum.splits)

lemma install_all_success:
  assumes "install_all plan fs = (fs', None)" "distinct (map fst plan)" "(p, f) \<in> set plan"
  shows "\<exists>s u. fs p = Some s \<and> f s = Inr u \<and> fs' p = Some u"
proof -
  obtain ws where ws: "stage plan fs = Inr ws" "fs' = commit ws fs"
    using assms(1) by (auto simp: install_all_def split: sum.splits)
  from stage_commit [OF ws(1) assms(2,3), of fs] ws(2) show ?thesis by auto
qed

lemma install_all_frame:
  assumes "install_all plan fs = (fs', r)" "p \<notin> fst ` set plan"
  shows "fs' p = fs p"
proof (cases "stage plan fs")
  case (Inr ws)
  then have "p \<notin> fst ` set ws" using stage_paths assms(2) by blast
  then have "commit ws fs p = fs p" by (rule commit_other)
  then show ?thesis using assms(1) Inr by (simp add: install_all_def)
qed (use assms in \<open>simp add: install_all_def\<close>)

end
