(* ===== verification/Patch_Scheduler.thy ===== *)
theory Patch_Scheduler
  imports Patch_Engine
begin

text \<open>
  The installers that edit the scheduler of the serving engine, in the launcher's order:
  \<open>patch_scheduler_decode_floor.py\<close>, \<open>patch_align_floor.py\<close> and
  \<open>patch_adaptive_k.py\<close> (files of \<open>vllm-exl3/overlay\<close>).  The anchors are the texts of
  the source; what each installer does to the text of the scheduler is one function.
  What the installed code computes is in \<open>Sched_Floors\<close> and \<open>Adaptive_K\<close>.  The
  questions asked of the parsed module (does it parse, is there a top-level \<open>import os\<close>)
  are parameters.
\<close>

section \<open>The decode floor\<close>

definition df_mark :: string where
  \<open>df_mark = ''# [glm53-decode-floor]''\<close>

definition df_import_old :: string where
  \<open>df_import_old = text_lines [
     ''import itertools'',
     ''import time'']\<close>

definition df_import_new :: string where
  \<open>df_import_new = text_lines [
     ''import itertools'',
     ''import os'',
     ''import time'']\<close>

definition df_helper :: string where
  \<open>df_helper = text_lines [
     [],
     ''def _glm53_mixed_prefill_policy(running, current):'',
     ''    """Mixed-step prefill policy when a peer in '' @ [CHR 0x60] @ ''running'' @ [CHR 0x60] @ '' is decoding.'',
     [],
     ''    None = no extra policy. 0 = skip this prefill this step. N>0 = cap.'',
     ''    """'',
     ''    raw = os.environ.get("GLM53_MIXED_PREFILL_CHUNK", "skip").strip().lower()'',
     ''    if raw in ("0", "off", "no"):'',
     ''        return None'',
     ''    if raw in ("skip", "-1"):'',
     ''        cap = 0'',
     ''    else:'',
     ''        try:'',
     ''            cap = int(raw)'',
     ''        except ValueError:'',
     ''            cap = 0'',
     ''        if cap <= 0:'',
     ''            return None'',
     ''    cur_id = getattr(current, "request_id", None)'',
     ''    for r in running:'',
     ''        if r is current or getattr(r, "request_id", None) == cur_id:'',
     ''            continue'',
     ''        if r.num_computed_tokens >= r.num_prompt_tokens:'',
     ''            return cap'',
     ''    return None'',
     [],
     []]\<close>

definition df_running_old :: string where
  \<open>df_running_old = text_lines [
     ''            if 0 < self.scheduler_config.long_prefill_token_threshold < num_new_tokens:'',
     ''                num_new_tokens = self.scheduler_config.long_prefill_token_threshold'',
     ''            num_new_tokens = min('',
     ''                num_new_tokens, token_budget, input_budget - draft_slots'',
     ''            )'',
     [],
     ''            # Make sure the input position does not exceed the max model len.'']\<close>

definition df_running_new :: string where
  \<open>df_running_new = text_lines [
     ''            if 0 < self.scheduler_config.long_prefill_token_threshold < num_new_tokens:'',
     ''                num_new_tokens = self.scheduler_config.long_prefill_token_threshold'',
     ''            num_new_tokens = min('',
     ''                num_new_tokens, token_budget, input_budget - draft_slots'',
     ''            )'',
     ''            mixed_cap = _glm53_mixed_prefill_policy(self.running, request)  # [glm53-decode-floor]'',
     ''            if mixed_cap is not None and request.num_computed_tokens < request.num_prompt_tokens:'',
     ''                num_new_tokens = min(num_new_tokens, mixed_cap)'',
     [],
     ''            # Make sure the input position does not exceed the max model len.'']\<close>

definition df_waiting_old :: string where
  \<open>df_waiting_old = text_lines [
     ''                    threshold = self.scheduler_config.long_prefill_token_threshold'',
     ''                    if 0 < threshold < num_new_tokens:'',
     ''                        num_new_tokens = threshold'',
     [],
     ''                    # chunked prefill has to be enabled explicitly to allow'']\<close>

definition df_waiting_new :: string where
  \<open>df_waiting_new = text_lines [
     ''                    threshold = self.scheduler_config.long_prefill_token_threshold'',
     ''                    if 0 < threshold < num_new_tokens:'',
     ''                        num_new_tokens = threshold'',
     ''                    mixed_cap = _glm53_mixed_prefill_policy(self.running, request)  # [glm53-decode-floor]'',
     ''                    if mixed_cap is not None and num_computed_tokens < request.num_prompt_tokens:'',
     ''                        if mixed_cap <= 0:'',
     ''                            request_queue.pop_request()'',
     ''                            step_skipped_waiting.prepend_request(request)'',
     ''                            continue'',
     ''                        num_new_tokens = min(num_new_tokens, mixed_cap)'',
     [],
     ''                    # chunked prefill has to be enabled explicitly to allow'']\<close>

definition sched_needle :: string where
  "sched_needle = text_lines [''from vllm.compilation.cuda_graph import CUDAGraphStat'']"

definition ensure_import_os :: "string \<Rightarrow> fault + string" where
  "ensure_import_os s =
     (if has_import_os s then Inr s
      else replace_once ''import os'' df_import_old df_import_new s)"

definition df_prepare :: "string \<Rightarrow> fault + string" where
  "df_prepare s =
     (if contains df_mark s then Inr s
      else and_then (ensure_import_os s) (\<lambda>s1.
           and_then (if contains ''def _glm53_mixed_prefill_policy('' s1 then Inr s1
                     else replace_once ''helper'' sched_needle (df_helper @ sched_needle) s1) (\<lambda>s2.
           apply_edits [(''running-prefill'', df_running_old, df_running_new),
                        (''waiting-prefill'', df_waiting_old, df_waiting_new)] s2)))"

section \<open>The alignment floor\<close>

definition al_mark :: string where
  \<open>al_mark = ''# [glm53-align-floor]''\<close>

definition al_helper :: string where
  \<open>al_helper = text_lines [
     [],
     ''_GLM53_ALIGN_FLOOR = None'',
     [],
     [],
     ''def _glm53_align_floor():'',
     ''    """True when the align-floor fix is enabled (default on).  # [glm53-align-floor]'',
     [],
     ''    Off restores the exact upstream disjunct, so rollback is one env value with'',
     ''    no kernel-shape change and therefore no JIT cache wipe.'',
     ''    """'',
     ''    global _GLM53_ALIGN_FLOOR'',
     ''    if _GLM53_ALIGN_FLOOR is None:'',
     ''        v = os.environ.get("GLM53_ALIGN_FLOOR", "1").strip().lower()'',
     ''        _GLM53_ALIGN_FLOOR = v not in ("0", "off", "false", "no", "")'',
     ''    return _GLM53_ALIGN_FLOOR'',
     []]\<close>

definition al_split_old :: string where
  \<open>al_split_old = text_lines [
     ''            aligned_end = end // block_size * block_size'',
     ''            if aligned_end > start or block_size <= max_prefill_tokens:'',
     ''                end = aligned_end'']\<close>

definition al_split_new :: string where
  \<open>al_split_new = text_lines [
     ''            aligned_end = end // block_size * block_size'',
     ''            # [glm53-align-floor] Truncate to the block boundary only when that'',
     ''            # leaves forward progress. With LPTT >= block_size the second'',
     ''            # disjunct fired even when aligned_end <= start, zeroing any'',
     ''            # sub-block chunk (notably the decode-floor late-admit ladder,'',
     ''            # whose caps are all < block_size) and stalling the request for as'',
     ''            # long as a peer decoded. Advancing sub-block and re-aligning at'',
     ''            # the next boundary is what the LPTT < block_size regime already'',
     ''            # does. Mandatory stops below are unaffected.'',
     ''            if aligned_end > start or ('',
     ''                block_size <= max_prefill_tokens and not _glm53_align_floor()'',
     ''            ):'',
     ''                end = aligned_end'']\<close>

definition al_validate :: "(string \<Rightarrow> bool) \<Rightarrow> (string \<Rightarrow> bool) \<Rightarrow> string \<Rightarrow> fault + string" where
  "al_validate parses top_import_os s =
     (if \<not> parses s then Inl Unparsable
      else if text_count al_split_new s \<noteq> 1 then Inl (Refused ''split block not present once'')
      else if text_count al_split_old s \<noteq> 0 then Inl (Refused ''upstream split block present'')
      else if text_count al_helper s \<noteq> 1 then Inl (Refused ''helper missing or drifted'')
      else if \<not> top_import_os s then Inl (Refused ''no top-level import os'')
      else Inr s)"

definition al_prepare :: "(string \<Rightarrow> bool) \<Rightarrow> (string \<Rightarrow> bool) \<Rightarrow> string \<Rightarrow> fault + string" where
  "al_prepare parses top_import_os s =
     (if contains al_mark s then al_validate parses top_import_os s
      else if contains al_split_new s \<or> contains ''def _glm53_align_floor('' s
      then Inl (Refused ''partial or conflicting install'')
      else and_then (ensure_import_os s) (\<lambda>s1.
           and_then (if contains ''def _glm53_align_floor('' s1 then Inr s1
                     else replace_once ''helper'' sched_needle (al_helper @ sched_needle) s1) (\<lambda>s2.
           and_then (replace_once ''mamba-align-split'' al_split_old al_split_new s2)
                    (al_validate parses top_import_os))))"

section \<open>The adaptive length\<close>

definition akp_mark :: string where
  \<open>akp_mark = ''# [glm53-adaptive-k]''\<close>

definition akp_draft_hook :: string where
  \<open>akp_draft_hook = ''_GLM53_ADAPTIVE_K.batch_k(''\<close>

definition akp_helper :: string where
  \<open>akp_helper = text_lines [
     [],
     ''class _Glm53AdaptiveK:  # [glm53-adaptive-k]'',
     ''    """CPU-only EMA policy for the *verified* draft prefix length.'',
     [],
     ''    '' @ [CHR 0x60] @ [CHR 0x60] @ ''batch_k'' @ [CHR 0x60] @ [CHR 0x60] @ '' exists for unit tests and must not be wired into'',
     ''    '' @ [CHR 0x60] @ [CHR 0x60] @ ''num_spec_tokens_to_schedule'' @ [CHR 0x60] @ [CHR 0x60] @ '' on this image (that field sizes the'',
     ''    trained eight-row DFlash draft).'',
     ''    """'',
     [],
     ''    def __init__(self) -> None:'',
     ''        mode = os.environ.get("GLM53_ADAPTIVE_K", "off").strip().lower()'',
     ''        capture = os.environ.get("GLM53_ADAPTIVE_K_CAPTURE", "0").strip().lower()'',
     ''        self.enabled = mode in ("ema", "on", "1")'',
     ''        self.graphs_enabled = self.enabled or capture in ("1", "on", "true", "yes")'',
     ''        self.alpha = float(os.environ.get("GLM53_ADAPTIVE_K_ALPHA", "0.25"))'',
     ''        self.margin = float(os.environ.get("GLM53_ADAPTIVE_K_MARGIN", "1.0"))'',
     ''        self.min_steps = int(os.environ.get("GLM53_ADAPTIVE_K_MIN_STEPS", "4"))'',
     ''        raw = os.environ.get("GLM53_ADAPTIVE_K_SET", "2,4,7")'',
     ''        self.k_set = sorted({int(x) for x in raw.split(",") if x.strip()})'',
     ''        self.saturate = os.environ.get("GLM53_ADAPTIVE_K_SATURATE", "max").strip().lower()'',
     ''        self.hist_every = int(os.environ.get("GLM53_ADAPTIVE_K_HIST", "200"))'',
     ''        self.batch_margin = os.environ.get('',
     ''            "GLM53_ADAPTIVE_K_BATCH_MARGIN", "0"'',
     ''        ).strip().lower() in ("1", "on", "true", "yes")'',
     ''        self.pos_trim = os.environ.get('',
     ''            "GLM53_ADAPTIVE_K_POS_TRIM", "0"'',
     ''        ).strip().lower() in ("1", "on", "true", "yes")'',
     ''        self.state: dict[str, list[float]] = {}  # req_id -> [ema, observed_steps]'',
     ''        self.hist: dict[int, int] = {}'',
     ''        self.steps = 0'',
     ''        self.k_max = max(self.k_set) if self.k_set else 0'',
     ''        self.boot_set = list(self.k_set)'',
     ''        self.boot_enabled = self.enabled'',
     ''        self.boot_graphs = self.graphs_enabled'',
     ''        self.file = os.environ.get('',
     ''            "GLM53_ADAPTIVE_K_FILE", "/root/.cache/vllm/glm53_adaptive_k.json"'',
     ''        )'',
     ''        self.file_mtime = None'',
     ''        self._reload()'',
     ''        if self.enabled:'',
     ''            print('',
     ''                f"[glm53-adaptive-k] enabled set={self.k_set} alpha={self.alpha} "'',
     ''                f"margin={self.margin} min_steps={self.min_steps} "'',
     ''                f"saturate={self.saturate} graphs={self.graphs_enabled} "'',
     ''                f"batch_margin={int(self.batch_margin)} "'',
     ''                f"pos_trim={int(self.pos_trim)}",'',
     ''                flush=True,'',
     ''            )'',
     ''        elif self.graphs_enabled:'',
     ''            print('',
     ''                f"[glm53-adaptive-k] capture-only graphs set={self.k_set} "'',
     ''                "(policy off)",'',
     ''                flush=True,'',
     ''            )'',
     [],
     ''    def _reload(self) -> None:'',
     ''        if not self.boot_enabled:'',
     ''            return'',
     ''        try:'',
     ''            mtime = os.stat(self.file).st_mtime'',
     ''        except OSError:'',
     ''            mtime = None'',
     ''        if mtime == self.file_mtime:'',
     ''            return'',
     ''        self.file_mtime = mtime'',
     ''        if mtime is None:'',
     ''            return'',
     ''        try:'',
     ''            import json'',
     [],
     ''            with open(self.file) as fh:'',
     ''                cfg = json.load(fh)'',
     ''            mode = str(cfg.get("mode", "ema")).strip().lower()'',
     ''            self.enabled = mode in ("ema", "on", "1")'',
     ''            self.alpha = float(cfg.get("alpha", self.alpha))'',
     ''            self.margin = float(cfg.get("margin", self.margin))'',
     ''            self.min_steps = int(cfg.get("min_steps", self.min_steps))'',
     ''            self.saturate = str(cfg.get("saturate", self.saturate)).strip().lower()'',
     ''            if "set" in cfg:'',
     ''                want = {'',
     ''                    int(x)'',
     ''                    for x in ('',
     ''                        cfg["set"]'',
     ''                        if isinstance(cfg["set"], list)'',
     ''                        else str(cfg["set"]).split(",")'',
     ''                    )'',
     ''                }'',
     ''                self.k_set = sorted(want & set(self.boot_set)) or list(self.boot_set)'',
     ''            self.state.clear()'',
     ''            self.hist.clear()'',
     ''            print('',
     ''                f"[glm53-adaptive-k] reloaded {self.file}: enabled={self.enabled} "'',
     ''                f"set={self.k_set} alpha={self.alpha} margin={self.margin} "'',
     ''                f"min_steps={self.min_steps} saturate={self.saturate} "'',
     ''                f"batch_margin={int(self.batch_margin)} "'',
     ''                f"pos_trim={int(self.pos_trim)}",'',
     ''                flush=True,'',
     ''            )'',
     ''        except Exception as exc:  # noqa: BLE001'',
     ''            print(f"[glm53-adaptive-k] override file ignored: {exc!r}", flush=True)'',
     [],
     ''    def observe(self, req_id: str, num_draft: int, num_accepted: int) -> None:'',
     ''        if not self.enabled or num_draft <= 0:'',
     ''            return'',
     ''        if num_accepted >= num_draft and self.saturate != "n":'',
     ''            obs = float(max(self.k_max, num_draft))'',
     ''        else:'',
     ''            obs = float(num_accepted)'',
     ''        st = self.state.get(req_id)'',
     ''        if st is None:'',
     ''            self.state[req_id] = ['',
     ''                obs * self.alpha + float(self.k_max) * (1.0 - self.alpha),'',
     ''                1.0,'',
     ''            ]'',
     ''        else:'',
     ''            st[0] = obs * self.alpha + st[0] * (1.0 - self.alpha)'',
     ''            st[1] += 1.0'',
     [],
     ''    def choose(self, req_id: str, k: int, structured: bool):'',
     ''        """Draft length for one request, or None when it must stay at full k."""'',
     ''        if not self.enabled or structured or k <= 0:'',
     ''            return None'',
     ''        st = self.state.get(req_id)'',
     ''        if st is None or st[1] < self.min_steps:'',
     ''            return None'',
     ''        import math'',
     [],
     ''        target = int(math.ceil(st[0] + self.margin))'',
     ''        cands = [v for v in self.k_set if v <= min(target, k)]'',
     ''        n = max(cands) if cands else min(self.k_set)'',
     ''        return max(1, min(n, k))'',
     [],
     ''    def apply(self, reqs, live_ids) -> None:'',
     ''        """Trim spec_token_ids to a uniform verified prefix.'',
     [],
     ''        All-observed batches take the min choice. Pinned batches stay at'',
     ''        full k, except when the batch margin fires (see _margin_width):'',
     ''        then the uniform row is the trimmed width, so one warmup-pinned'',
     ''        request does not hold the target verify at k=7. Trimming only'',
     ''        drops trailing (rejected or never-committed) rows; every'',
     ''        request's accepted prefix is untouched. The concurrency-gated'',
     ''        pos trim (see _pos_width) additionally clamps the row to the'',
     ''        ladder floor, but only when 2+ observed requests share the'',
     ''        batch; at C1 it is a no-op.'',
     ''        """'',
     ''        if self.steps % 50 == 0:'',
     ''            self._reload()'',
     ''        if not self.enabled or not reqs:'',
     ''            self.steps += 1'',
     ''            return'',
     ''        picks = ['',
     ''            self.choose(r.request_id, len(r.spec_token_ids), s) for r, s in reqs'',
     ''        ]'',
     ''        if all(v is not None for v in picks):'',
     ''            n = min(picks)'',
     ''            gated = self._pos_width(reqs, picks, n)'',
     ''            if gated is not None:'',
     ''                n = gated'',
     ''        else:'',
     ''            n = self._margin_width(reqs, picks)'',
     ''            if n is None:'',
     ''                n = max(len(r.spec_token_ids) for r, _ in reqs)'',
     ''        for r, _ in reqs:'',
     ''            if len(r.spec_token_ids) > n:'',
     ''                r.spec_token_ids = r.spec_token_ids[:n]'',
     ''        self._count(n, live_ids)'',
     [],
     ''    def _margin_width(self, reqs, picks) -> int | None:'',
     ''        """Trimmed uniform width when the batch margin fires, else None.'',
     [],
     ''        Fires only when the margin knob is on and no request is'',
     ''        structured: a structured pin keeps the batch at full k because'',
     ''        its rows passed grammar validation. Policy-warmup pins'',
     ''        (unseen, or under MIN_STEPS) hold only droppable'',
     ''        tail, so the batch takes the min of the known choices. None'',
     ''        when nothing is known (all requests unseen) '' @ [CHR 0xE2] @ [CHR 0x80] @ [CHR 0x94] @ '' nothing to trim'',
     ''        toward. Shorter rows are left alone. No draft execution changes.'',
     ''        """'',
     ''        if not self.batch_margin or any(s for _, s in reqs):'',
     ''            return None'',
     ''        known = [v for v in picks if v is not None]'',
     ''        return min(known) if known else None'',
     [],
     ''    def _pos_width(self, reqs, picks, n: int) -> int | None:'',
     ''        """Concurrency-gated clamp of the uniform row to the ladder floor.'',
     [],
     ''        Fires only when the pos-trim knob is on, the batch-margin knob is'',
     ''        on (both or neither: a single verify-width policy), no request is'',
     ''        structured, 2+ requests share the batch, and every request in the'',
     ''        batch already has a known EMA choice (all-observed branch; any'',
     ''        warmup pin leaves the batch-margin width untouched). Then the'',
     ''        uniform row is min(n, ladder floor) where the ladder floor is'',
     ''        min(k_set). C1 batches always return None (no-op), so lone'',
     ''        requests keep the warm EMA choice. Shorter rows are left alone.'',
     ''        No draft execution changes.'',
     ''        """'',
     ''        if not (self.pos_trim and self.batch_margin):'',
     ''            return None'',
     ''        if any(s for _, s in reqs):'',
     ''            return None'',
     ''        if len(reqs) < 2:'',
     ''            return None'',
     ''        if any(v is None for v in picks):'',
     ''            return None'',
     ''        floor = min(self.k_set) if self.k_set else n'',
     ''        return min(n, floor) if floor < n else None'',
     [],
     ''    def batch_k(self, k: int, reqs, live_ids) -> int:'',
     ''        """Policy-only helper. Do not wire this into the drafter count."""'',
     ''        if self.steps % 50 == 0:'',
     ''            self._reload()'',
     ''        if not self.enabled or k <= 0:'',
     ''            self.steps += 1'',
     ''            return k'',
     ''        ns = []'',
     ''        for r in reqs:'',
     ''            if r is None or getattr(r, "is_prefill_chunk", False):'',
     ''                continue'',
     ''            n_i = self.choose('',
     ''                r.request_id, k, bool(getattr(r, "use_structured_output", False))'',
     ''            )'',
     ''            if n_i is None:'',
     ''                ns = None'',
     ''                break'',
     ''            ns.append(n_i)'',
     ''        n = k if not ns else min(ns)'',
     ''        self._count(n, live_ids)'',
     ''        return n'',
     [],
     ''    def _count(self, n: int, live_ids) -> None:'',
     ''        self.hist[n] = self.hist.get(n, 0) + 1'',
     ''        self.steps += 1'',
     ''        if self.hist_every > 0 and self.steps % self.hist_every == 0:'',
     ''            total = sum(self.hist.values())'',
     ''            parts = " ".join(f"{k}:{v}" for k, v in sorted(self.hist.items()))'',
     ''            emas = " ".join('',
     ''                f"{rid[:8]}={st[0]:.2f}/{int(st[1])}"'',
     ''                for rid, st in list(self.state.items())[:4]'',
     ''            )'',
     ''            print('',
     ''                f"[glm53-adaptive-k] step {self.steps} chosen-length hist "'',
     ''                f"({total}): {parts} | ema {emas}",'',
     ''                flush=True,'',
     ''            )'',
     ''            self.state = {rid: st for rid, st in self.state.items() if rid in live_ids}'',
     [],
     [],
     ''_GLM53_ADAPTIVE_K = _Glm53AdaptiveK()  # [glm53-adaptive-k]'',
     [],
     []]\<close>

definition akp_obs_old :: string where
  \<open>akp_obs_old = text_lines [
     ''                num_draft_tokens = len(scheduled_spec_token_ids)'',
     ''                num_sampled = self.num_sampled_tokens_per_step'',
     ''                num_accepted = max(len(generated_token_ids) - num_sampled, 0)'']\<close>

definition akp_obs_new :: string where
  \<open>akp_obs_new = text_lines [
     ''                num_draft_tokens = len(scheduled_spec_token_ids)'',
     ''                num_sampled = self.num_sampled_tokens_per_step'',
     ''                num_accepted = max(len(generated_token_ids) - num_sampled, 0)'',
     ''                _GLM53_ADAPTIVE_K.observe(req_id, num_draft_tokens, num_accepted)  # [glm53-adaptive-k]'']\<close>

definition akp_upd_old :: string where
  \<open>akp_upd_old = text_lines [
     ''    def update_draft_token_ids(self, draft_token_ids: DraftTokenIds) -> None:'',
     ''        for req_id, spec_token_ids in zip('',
     ''            draft_token_ids.req_ids,'',
     ''            draft_token_ids.draft_token_ids,'',
     ''        ):'',
     ''            request = self.requests.get(req_id)'',
     ''            if request is None or request.is_finished():'',
     ''                # The request may have been finished. Skip.'',
     ''                continue'',
     [],
     ''            if request.is_prefill_chunk:'',
     ''                # Ignore draft tokens for prefill chunks.'',
     ''                if request.spec_token_ids:'',
     ''                    request.spec_token_ids = []'',
     ''                continue'',
     [],
     ''            # Add newly generated spec token ids to the request.'',
     ''            if self.structured_output_manager.should_advance(request):'',
     ''                metadata = request.structured_output_request'',
     ''                spec_token_ids = metadata.grammar.validate_tokens(spec_token_ids)  # type: ignore[union-attr]'',
     ''            request.spec_token_ids = spec_token_ids'']\<close>

definition akp_upd_new :: string where
  \<open>akp_upd_new = text_lines [
     ''    def update_draft_token_ids(self, draft_token_ids: DraftTokenIds) -> None:'',
     ''        _ak_reqs = []  # [glm53-adaptive-k]'',
     ''        for req_id, spec_token_ids in zip('',
     ''            draft_token_ids.req_ids,'',
     ''            draft_token_ids.draft_token_ids,'',
     ''        ):'',
     ''            request = self.requests.get(req_id)'',
     ''            if request is None or request.is_finished():'',
     ''                # The request may have been finished. Skip.'',
     ''                continue'',
     [],
     ''            if request.is_prefill_chunk:'',
     ''                # Ignore draft tokens for prefill chunks.'',
     ''                if request.spec_token_ids:'',
     ''                    request.spec_token_ids = []'',
     ''                continue'',
     [],
     ''            # Add newly generated spec token ids to the request.'',
     ''            _ak_structured = self.structured_output_manager.should_advance(request)  # [glm53-adaptive-k]'',
     ''            if _ak_structured:'',
     ''                metadata = request.structured_output_request'',
     ''                spec_token_ids = metadata.grammar.validate_tokens(spec_token_ids)  # type: ignore[union-attr]'',
     ''            request.spec_token_ids = spec_token_ids'',
     ''            if _GLM53_ADAPTIVE_K.enabled and spec_token_ids:  # [glm53-adaptive-k]'',
     ''                _ak_reqs.append((request, _ak_structured))'',
     ''        if _ak_reqs:  # [glm53-adaptive-k]'',
     ''            _GLM53_ADAPTIVE_K.apply(_ak_reqs, self.requests)'']\<close>

definition akp_sched_k_old :: string where
  \<open>akp_sched_k_old = text_lines [
     ''        # Dynamic speculative decoding: compute optimal K'',
     ''        num_spec_tokens_to_schedule = self.num_spec_tokens'',
     ''        if self.dynamic_sd_lookup is not None and len(num_scheduled_tokens) > 0:'',
     ''            num_spec_tokens_to_schedule = self.dynamic_sd_lookup['',
     ''                len(num_scheduled_tokens)'',
     ''            ]'']\<close>

definition akp_cg_helper :: string where
  \<open>akp_cg_helper = text_lines [
     [],
     ''def _glm53_adaptive_k_query_lens(lens, decode_query_len):  # [glm53-adaptive-k]'',
     ''    """Extra *target* uniform decode graph lengths (k+1 for 2 and 4).'',
     [],
     ''    Drafter graphs stay native query_len=8. Enable when the EMA policy is'',
     ''    on or when GLM53_ADAPTIVE_K_CAPTURE=1 (B0 capture-only control).'',
     ''    """'',
     ''    import os'',
     [],
     ''    mode = os.environ.get("GLM53_ADAPTIVE_K", "off").strip().lower()'',
     ''    capture = os.environ.get("GLM53_ADAPTIVE_K_CAPTURE", "0").strip().lower()'',
     ''    graphs = mode in ("ema", "on", "1") or capture in ("1", "on", "true", "yes")'',
     ''    if not graphs:'',
     ''        return lens'',
     ''    raw = os.environ.get("GLM53_ADAPTIVE_K_SET", "2,4,7")'',
     ''    ks = {int(x) for x in raw.split(",") if x.strip()}'',
     ''    extra = {k + 1 for k in ks if 0 < k + 1 <= decode_query_len}'',
     ''    out = sorted(set(lens) | extra | {decode_query_len})'',
     ''    print(f"[glm53-adaptive-k] uniform decode graph query lens: {out}", flush=True)'',
     ''    return out'',
     [],
     []]\<close>

definition akp_cg_anchor :: string where
  \<open>akp_cg_anchor = text_lines [
     ''@dataclass(frozen=True)'',
     ''class BatchExecutionDescriptor:'']\<close>

definition akp_cg_old :: string where
  \<open>akp_cg_old = text_lines [
     ''        else:'',
     ''            decode_query_lens = [self.decode_query_len]'']\<close>

definition akp_cg_new :: string where
  \<open>akp_cg_new = text_lines [
     ''        else:'',
     ''            decode_query_lens = [self.decode_query_len]'',
     ''        decode_query_lens = _glm53_adaptive_k_query_lens(decode_query_lens, self.decode_query_len)  # [glm53-adaptive-k]'']\<close>

definition no_draft_hook :: "string \<Rightarrow> fault + string" where
  "no_draft_hook s =
     (if contains akp_draft_hook s then Inl (Refused ''draft-facing hook'')
      else if text_count akp_sched_k_old s \<noteq> 1 then Inl (Refused ''num_spec_tokens anchor drifted'')
      else Inr s)"

definition akp_validate_scheduler :: "(string \<Rightarrow> bool) \<Rightarrow> string \<Rightarrow> fault + string" where
  "akp_validate_scheduler parses s =
     (if \<not> parses s then Inl Unparsable
      else if text_count akp_mark s < 4 then Inl (Refused ''marker incomplete'')
      else if text_count akp_helper s \<noteq> 1 then Inl (Refused ''helper missing or drifted'')
      else if \<not> contains ''_GLM53_ADAPTIVE_K.observe('' s then Inl (Refused ''observe hook missing'')
      else if \<not> contains ''_GLM53_ADAPTIVE_K.apply('' s then Inl (Refused ''apply hook missing'')
      else and_then (no_draft_hook s) (\<lambda>_.
           if \<not> has_import_os s then Inl (Refused ''no top-level import os'') else Inr s))"

definition akp_scheduler :: "(string \<Rightarrow> bool) \<Rightarrow> string \<Rightarrow> fault + string" where
  "akp_scheduler parses s =
     (if contains akp_mark s then akp_validate_scheduler parses s
      else if contains ''def _Glm53AdaptiveK'' s \<or> contains ''_GLM53_ADAPTIVE_K'' s
      then Inl (Refused ''partial or conflicting install'')
      else and_then (no_draft_hook s) (\<lambda>_.
           if text_count akp_obs_old s \<noteq> 1 then Inl (Found ''observe'' (text_count akp_obs_old s))
           else if text_count akp_upd_old s \<noteq> 1
           then Inl (Found ''update_draft_token_ids'' (text_count akp_upd_old s))
           else if text_count sched_needle s \<noteq> 1 then Inl (Found ''helper'' (text_count sched_needle s))
           else if \<not> has_import_os s then Inl (Refused ''no top-level import os'')
           else and_then (apply_edits
                  [(''observe'', akp_obs_old, akp_obs_new),
                   (''update_draft_token_ids'', akp_upd_old, akp_upd_new)]
                  (replace_first sched_needle (akp_helper @ sched_needle) s))
                (akp_validate_scheduler parses)))"

definition akp_validate_cudagraph :: "(string \<Rightarrow> bool) \<Rightarrow> string \<Rightarrow> fault + string" where
  "akp_validate_cudagraph parses s =
     (if \<not> parses s then Inl Unparsable
      else if text_count akp_mark s < 2 then Inl (Refused ''graph marker incomplete'')
      else if text_count akp_cg_helper s \<noteq> 1 then Inl (Refused ''graph helper missing or drifted'')
      else if \<not> contains ''_glm53_adaptive_k_query_lens(decode_query_lens'' s
      then Inl (Refused ''decode_query_lens hook missing'')
      else Inr s)"

definition akp_cudagraph :: "(string \<Rightarrow> bool) \<Rightarrow> string \<Rightarrow> fault + string" where
  "akp_cudagraph parses s =
     (if contains akp_mark s then akp_validate_cudagraph parses s
      else if contains ''_glm53_adaptive_k_query_lens'' s
      then Inl (Refused ''partial or conflicting graph install'')
      else if text_count akp_cg_anchor s \<noteq> 1
      then Inl (Found ''helper'' (text_count akp_cg_anchor s))
      else if text_count akp_cg_old s \<noteq> 1
      then Inl (Found ''decode_query_lens'' (text_count akp_cg_old s))
      else and_then (apply_edits [(''decode_query_lens'', akp_cg_old, akp_cg_new)]
                  (replace_first akp_cg_anchor (akp_cg_helper @ akp_cg_anchor) s))
             (akp_validate_cudagraph parses))"

text \<open>
  \<open>main\<close>: the scheduler is written before the graph file is looked at.  \<open>wanted\<close> is the
  gate on the environment (the test hook, the policy, the capture knob).
\<close>

definition akp_main ::
  "bool \<Rightarrow> (string \<Rightarrow> bool) \<Rightarrow> string \<Rightarrow> string \<Rightarrow> files \<Rightarrow> files \<times> fault option" where
  "akp_main wanted parses sched cg fs =
     (if \<not> wanted then (fs, None)
      else (case install (akp_scheduler parses) sched fs of
              (fs1, Some e) \<Rightarrow> (fs1, Some e)
            | (fs1, None) \<Rightarrow> install (akp_cudagraph parses) cg fs1))"

section \<open>Contracts\<close>

lemma df_waiting_new_marked: "contains df_mark df_waiting_new"
  unfolding df_waiting_new_def by (rule contains_lines) code_simp

lemma al_split_new_marked: "contains al_mark al_split_new"
  unfolding al_split_new_def by (rule contains_lines) code_simp

lemma df_prepare_marked: "df_prepare s = Inr u \<Longrightarrow> contains df_mark u"
proof (cases "contains df_mark s")
  case False
  assume "df_prepare s = Inr u"
  with False obtain s2 where "apply_edits ([(''running-prefill'', df_running_old, df_running_new)] @
      [(''waiting-prefill'', df_waiting_old, df_waiting_new)]) s2 = Inr u"
    by (auto simp: df_prepare_def simp del: apply_edits.simps)
  then show "contains df_mark u" using apply_edits_last contains_trans df_waiting_new_marked by blast
qed (simp add: df_prepare_def)

interpretation df: stable_patch df_prepare "contains df_mark"
  by unfold_locales (auto simp: df_prepare_marked, simp_all add: df_prepare_def)

definition al_done :: "(string \<Rightarrow> bool) \<Rightarrow> (string \<Rightarrow> bool) \<Rightarrow> string \<Rightarrow> bool" where
  "al_done parses top_import_os s \<longleftrightarrow> contains al_mark s \<and> parses s \<and> top_import_os s
     \<and> text_count al_split_new s = 1 \<and> \<not> contains al_split_old s \<and> text_count al_helper s = 1"

lemma al_split_old_nonempty [simp]: "al_split_old \<noteq> []"
  by (simp add: al_split_old_def)

lemma al_validate_Inr:
  "al_validate P T s = Inr u \<longleftrightarrow> u = s \<and> P s \<and> T s \<and> text_count al_split_new s = 1
     \<and> \<not> contains al_split_old s \<and> text_count al_helper s = 1"
  using text_count_0_iff [OF al_split_old_nonempty, of s] by (auto simp: al_validate_def)

lemma al_validate_done: "al_validate P T s = Inr u \<Longrightarrow> al_done P T u"
  using contains_trans [OF al_split_new_marked text_count_contains, of s]
  by (auto simp: al_validate_Inr al_done_def)

lemma al_prepare_done: "al_prepare P T s = Inr u \<Longrightarrow> al_done P T u"
  by (auto simp: al_prepare_def al_validate_done split: if_splits)

interpretation al: stable_patch "al_prepare parses imp" "al_done parses imp" for parses imp
  by unfold_locales
     (auto simp: al_prepare_done, auto simp: al_done_def al_prepare_def al_validate_Inr)

definition akp_done :: "(string \<Rightarrow> bool) \<Rightarrow> string \<Rightarrow> bool" where
  "akp_done parses s \<longleftrightarrow> contains akp_mark s \<and> akp_validate_scheduler parses s = Inr s"

lemma akp_validate_scheduler_Inr:
  "akp_validate_scheduler P s = Inr u \<longleftrightarrow> u = s \<and> P s \<and> 4 \<le> text_count akp_mark s
     \<and> text_count akp_helper s = 1 \<and> contains ''_GLM53_ADAPTIVE_K.observe('' s
     \<and> contains ''_GLM53_ADAPTIVE_K.apply('' s \<and> no_draft_hook s = Inr s \<and> has_import_os s"
  by (auto simp: akp_validate_scheduler_def no_draft_hook_def)

lemma akp_scheduler_validated:
  "akp_scheduler P s = Inr u \<Longrightarrow> akp_validate_scheduler P u = Inr u"
  by (auto simp: akp_scheduler_def akp_validate_scheduler_Inr split: if_splits)

lemma akp_scheduler_done: "akp_scheduler P s = Inr u \<Longrightarrow> akp_done P u"
  using akp_scheduler_validated [of P s u] text_count_contains [of akp_mark u]
  by (auto simp: akp_done_def akp_validate_scheduler_Inr)

interpretation akp: stable_patch "akp_scheduler parses" "akp_done parses" for parses
  by unfold_locales (auto simp: akp_scheduler_done, auto simp: akp_done_def akp_scheduler_def)

definition akp_cg_done :: "(string \<Rightarrow> bool) \<Rightarrow> string \<Rightarrow> bool" where
  "akp_cg_done parses s \<longleftrightarrow> contains akp_mark s \<and> akp_validate_cudagraph parses s = Inr s"

lemma akp_validate_cudagraph_Inr:
  "akp_validate_cudagraph P s = Inr u \<longleftrightarrow> u = s \<and> P s \<and> 2 \<le> text_count akp_mark s
     \<and> text_count akp_cg_helper s = 1 \<and> contains ''_glm53_adaptive_k_query_lens(decode_query_lens'' s"
  by (auto simp: akp_validate_cudagraph_def)

lemma akp_cudagraph_done: "akp_cudagraph P s = Inr u \<Longrightarrow> akp_cg_done P u"
  using text_count_contains [of akp_mark u]
  by (auto simp: akp_cudagraph_def akp_cg_done_def akp_validate_cudagraph_Inr split: if_splits)

interpretation akp_cg: stable_patch "akp_cudagraph parses" "akp_cg_done parses" for parses
  by unfold_locales (auto simp: akp_cudagraph_done, auto simp: akp_cg_done_def akp_cudagraph_def)

section \<open>Restarting with the overlays installed\<close>

lemma al_keeps_df_mark:
  assumes "al_prepare P T s = Inr u" "contains df_mark s"
  shows "contains df_mark u"
proof -
  have a: "apart df_import_old df_mark" "apart sched_needle df_mark" "apart al_split_old df_mark"
    unfolding df_import_old_def sched_needle_def al_split_old_def
    by (rule lines_apart, code_simp)+
  show ?thesis using assms a
    by (auto simp: al_prepare_def al_validate_Inr ensure_import_os_def split: if_splits
        elim!: replace_once_keep)
qed

lemma akp_keeps_df_mark:
  assumes "akp_scheduler P s = Inr u" "contains df_mark s"
  shows "contains df_mark u"
proof -
  have a: "apart sched_needle df_mark" "apart akp_obs_old df_mark" "apart akp_upd_old df_mark"
    unfolding akp_obs_old_def sched_needle_def akp_upd_old_def
    by (rule lines_apart, code_simp)+
  show ?thesis
  proof (cases "contains akp_mark s")
    case True
    then show ?thesis using assms by (simp add: akp_scheduler_def akp_validate_scheduler_Inr)
  next
    case False
    let ?s = "replace_first sched_needle (akp_helper @ sched_needle) s"
    have "contains df_mark ?s" using a(1) assms(2) by (rule contains_replace_keep [rotated])
    moreover have "apply_edits
                  [(''observe'', akp_obs_old, akp_obs_new),
                   (''update_draft_token_ids'', akp_upd_old, akp_upd_new)] ?s = Inr u"
      using assms(1) False
      by (auto simp: akp_scheduler_def akp_validate_scheduler_Inr split: if_splits simp del: apply_edits.simps)
    ultimately show ?thesis using a(2,3) apply_edits_keep by fastforce
  qed
qed

text \<open>a restart of the container runs every scheduler overlay again.  Once the decode
  floor and the alignment floor have been installed in that order, running both again
  succeeds and leaves the scheduler's text as it is.\<close>

theorem scheduler_boot_idem:
  "boot [df_prepare, al_prepare P T] s = Inr u \<Longrightarrow> boot [df_prepare, al_prepare P T] u = Inr u"
  using boot_idem [of "[(df_prepare, contains df_mark), (al_prepare P T, al_done P T)]" s u]
    df.stable_patch_axioms al.stable_patch_axioms al_keeps_df_mark by auto

text \<open>What a successful run of the adaptive-length installer guarantees.  Both files end
  complete: the scheduler has the marker, one helper, both hooks, one untouched
  drafter anchor and no draft-facing hook; the graph file has its helper and hook.\<close>

lemma akp_main_complete:
  assumes "akp_main True P sched cg fs = (fs', None)" "sched \<noteq> cg"
  shows "\<exists>s g. fs' sched = Some s \<and> fs' cg = Some g
     \<and> text_count akp_helper s = 1 \<and> contains ''_GLM53_ADAPTIVE_K.observe('' s
     \<and> contains ''_GLM53_ADAPTIVE_K.apply('' s \<and> \<not> contains akp_draft_hook s
     \<and> text_count akp_sched_k_old s = 1 \<and> text_count akp_cg_helper g = 1
     \<and> contains ''_glm53_adaptive_k_query_lens(decode_query_lens'' g \<and> P s \<and> P g"
proof -
  obtain fs1 where 1: "install (akp_scheduler P) sched fs = (fs1, None)"
    and 2: "install (akp_cudagraph P) cg fs1 = (fs', None)"
    using assms(1) by (auto simp: akp_main_def split: prod.splits option.splits)
  obtain s where s: "fs1 sched = Some s" "akp_done P s" using akp.install_success [OF 1] by blast
  obtain g where g: "fs' cg = Some g" "akp_cg_done P g" "fs' = fs1(cg \<mapsto> g)"
    using akp_cg.install_success [OF 2] by blast
  have "fs' sched = Some s" using g(3) s(1) assms(2) by simp
  then show ?thesis using s(2) g(1,2)
    by (simp add: akp_done_def akp_cg_done_def akp_validate_scheduler_Inr
        akp_validate_cudagraph_Inr no_draft_hook_def split: if_splits)
qed

section \<open>The theorems on a synthetic scheduler\<close>

text \<open>A scheduler text made of the anchors alone.\<close>

definition demo_head :: string where
  "demo_head = text_lines [''import itertools'', ''import os'', ''import time'']"

definition demo_sched :: string where
  "demo_sched = demo_head @ sched_needle @ df_running_old @ df_waiting_old @ al_split_old"

definition l_needle :: string where
  "l_needle = ''from vllm.compilation.cuda_graph import CUDAGraphStat''"

definition l_running :: string where
  "l_running = ''            if 0 < self.scheduler_config.long_prefill_token_threshold < num_new_tokens:''"

definition l_waiting :: string where
  "l_waiting = ''                    threshold = self.scheduler_config.long_prefill_token_threshold''"

definition l_split :: string where
  "l_split = ''            aligned_end = end // block_size * block_size''"

lemmas anchor_defs = demo_head_def sched_needle_def df_running_old_def df_waiting_old_def
  al_split_old_def df_helper_def df_running_new_def df_waiting_new_def al_helper_def
  al_split_new_def

lemma clear_needle:
  "clear l_needle demo_head" "clear l_needle df_running_old" "clear l_needle df_waiting_old"
  "clear l_needle al_split_old" "clear l_needle df_helper" "clear l_needle df_running_new"
  "clear l_needle df_waiting_new"
  unfolding anchor_defs l_needle_def by (rule clear_lines, code_simp)+

lemma clear_running:
  "clear l_running demo_head" "clear l_running df_waiting_old"
  "clear l_running al_split_old" "clear l_running df_helper" "clear l_running sched_needle"
  unfolding anchor_defs l_running_def by (rule clear_lines, code_simp)+

lemma clear_waiting:
  "clear l_waiting demo_head" "clear l_waiting df_running_new"
  "clear l_waiting al_split_old" "clear l_waiting df_helper" "clear l_waiting sched_needle"
  unfolding anchor_defs l_waiting_def by (rule clear_lines, code_simp)+

lemma clear_split:
  "clear l_split demo_head" "clear l_split df_running_new" "clear l_split df_waiting_new"
  "clear l_split df_helper" "clear l_split sched_needle" "clear l_split al_helper"
  unfolding anchor_defs l_split_def by (rule clear_lines, code_simp)+

definition l_helper :: string where
  "l_helper = ''_GLM53_ALIGN_FLOOR = None''"

lemma clear_helper:
  "clear l_helper demo_head" "clear l_helper sched_needle" "clear l_helper df_helper"
  "clear l_helper df_running_new" "clear l_helper df_waiting_new" "clear l_helper al_split_new"
  unfolding anchor_defs l_helper_def by (rule clear_lines, code_simp)+

lemma clear_guard:
  "clear ''# [glm53-decode-floor]'' demo_sched"
  "clear ''def _glm53_mixed_prefill_policy('' demo_sched"
  unfolding demo_sched_def anchor_defs
  by (intro clear_append; (rule clear_lines)?; code_simp)+

lemma clear_guard2:
  "x \<in> {demo_head, df_helper, sched_needle, df_running_new, df_waiting_new, al_split_old} \<Longrightarrow>
     clear ''# [glm53-align-floor]'' x \<and> clear ''def _glm53_align_floor('' x"
  unfolding anchor_defs
  by (elim insertE emptyE; hypsubst) (rule conjI; rule clear_lines; code_simp)+

lemma demo_import [simp]: "ensure_import_os (demo_head @ x) = Inr (demo_head @ x)"
  by (simp add: ensure_import_os_def has_import_os_def before_first_def demo_head_def
      newline_def import_time_def import_os_def starts_with_def)

definition demo_df :: string where
  "demo_df = demo_head @ df_helper @ sched_needle @ df_running_new @ df_waiting_new @ al_split_old"

definition demo_al :: string where
  "demo_al = demo_head @ df_helper @ al_helper @ sched_needle @ df_running_new @ df_waiting_new
     @ al_split_new"

lemma ls_nonempty [simp]: "l_needle \<noteq> []" "l_running \<noteq> []" "l_waiting \<noteq> []" "l_split \<noteq> []"
  "l_helper \<noteq> []" "newline \<notin> set l_needle" "newline \<notin> set l_running" "newline \<notin> set l_waiting"
  "newline \<notin> set l_split" "newline \<notin> set l_helper"
  by (simp_all add: l_needle_def l_running_def l_waiting_def l_split_def l_helper_def newline_def)

lemmas clear_all = clear_needle clear_running clear_waiting clear_split clear_helper

lemma demo_df_prepare: "df_prepare demo_sched = Inr demo_df"
proof -
  have 1: "\<not> contains df_mark demo_sched" "\<not> contains ''def _glm53_mixed_prefill_policy('' demo_sched"
    using clear_not_contains [OF _ clear_guard(1), of "[]"] clear_not_contains [OF _ clear_guard(2), of "[]"]
    by (simp_all add: df_mark_def)
  have 2: "replace_once ''helper'' sched_needle (df_helper @ sched_needle) demo_sched =
      Inr (demo_head @ (df_helper @ sched_needle) @ df_running_old @ df_waiting_old @ al_split_old)"
    unfolding demo_sched_def
    by (rule replace_once_clear(1) [where l = l_needle and ls = "[]"])
       (simp_all add: sched_needle_def l_needle_def [symmetric] clear_append clear_all)
  have 3: "replace_once ''running-prefill'' df_running_old df_running_new
      ((demo_head @ df_helper @ sched_needle) @ df_running_old @ df_waiting_old @ al_split_old) =
      Inr ((demo_head @ df_helper @ sched_needle) @ df_running_new @ df_waiting_old @ al_split_old)"
    by (rule replace_once_clear(1) [where l = l_running])
       (unfold df_running_old_def l_running_def [symmetric], rule refl,
        simp_all add: clear_append clear_all)
  have 4: "replace_once ''waiting-prefill'' df_waiting_old df_waiting_new
      ((demo_head @ df_helper @ sched_needle @ df_running_new) @ df_waiting_old @ al_split_old) =
      Inr ((demo_head @ df_helper @ sched_needle @ df_running_new) @ df_waiting_new @ al_split_old)"
    by (rule replace_once_clear(1) [where l = l_waiting])
       (unfold df_waiting_old_def l_waiting_def [symmetric], rule refl,
        simp_all add: clear_append clear_all)
  have i: "ensure_import_os demo_sched = Inr demo_sched" unfolding demo_sched_def by simp
  from 1 2 3 4 i show ?thesis by (simp add: df_prepare_def demo_df_def)
qed

lemma demo_al_helper: "text_count al_helper demo_al = 1"
proof -
  have "\<exists>ls. al_helper = text_lines ([] # l_helper # ls) \<and> clear l_helper (text_lines ls)"
    unfolding al_helper_def l_helper_def by (intro exI conjI, rule refl, rule clear_lines, code_simp)
  then obtain ls where h: "al_helper = text_lines ([] # l_helper # ls)" "clear l_helper (text_lines ls)"
    by blast
  have "text_count al_helper ((demo_head @ df_helper) @ al_helper @ sched_needle @ df_running_new
      @ df_waiting_new @ al_split_new) = 1"
    by (rule count_helper_once [OF h(1) _ _ _ _ h(2)]) (simp_all add: clear_append clear_all)
  then show ?thesis by (simp add: demo_al_def)
qed

lemma demo_al_prepare: "al_prepare (\<lambda>_. True) (\<lambda>_. True) demo_df = Inr demo_al"
proof -
  have g: "clear ''# [glm53-align-floor]'' demo_df \<and> clear ''def _glm53_align_floor('' demo_df"
    unfolding demo_df_def by (intro conjI clear_append) (simp_all add: clear_guard2 newline_def)
  have "\<not> contains al_mark demo_df" "\<not> contains ''def _glm53_align_floor('' demo_df"
    using g clear_not_contains [of "''# [glm53-align-floor]''" demo_df "[]"]
      clear_not_contains [of "''def _glm53_align_floor(''" demo_df "[]"] by (simp_all add: al_mark_def)
  moreover from this(1) have "\<not> contains al_split_new demo_df"
    using contains_trans al_split_new_marked by blast
  moreover have "replace_once ''helper'' sched_needle (al_helper @ sched_needle) demo_df =
      Inr ((demo_head @ df_helper) @ (al_helper @ sched_needle) @ df_running_new @ df_waiting_new
            @ al_split_old)"
    unfolding demo_df_def append_assoc [symmetric, of demo_head df_helper]
    by (rule replace_once_clear(1) [where l = l_needle and ls = "[]"])
       (simp_all add: sched_needle_def l_needle_def [symmetric] clear_append clear_all)
  moreover have "replace_once ''mamba-align-split'' al_split_old al_split_new
      ((demo_head @ df_helper @ al_helper @ sched_needle @ df_running_new @ df_waiting_new)
         @ al_split_old @ []) =
      Inr ((demo_head @ df_helper @ al_helper @ sched_needle @ df_running_new @ df_waiting_new)
         @ al_split_new @ [])"
    by (rule replace_once_clear(1) [where l = l_split])
       (unfold al_split_old_def l_split_def [symmetric], rule refl,
        simp_all add: clear_append clear_all)
  moreover have "text_count al_split_new
      ((demo_head @ df_helper @ al_helper @ sched_needle @ df_running_new @ df_waiting_new)
         @ al_split_new @ []) = 1"
    by (rule replace_once_clear(2) [where l = l_split])
       (unfold al_split_new_def l_split_def [symmetric], rule refl,
        simp_all add: clear_append clear_all)
  moreover have "\<not> contains al_split_old demo_al"
  proof -
    let ?w = "''            if aligned_end > start or block_size <= max_prefill_tokens:''"
    have "clear ?w x" if "x \<in> {demo_head, df_helper, al_helper, sched_needle, df_running_new,
        df_waiting_new, al_split_new}" for x
      using that unfolding anchor_defs
      by (elim insertE emptyE; hypsubst) (rule clear_lines; code_simp)+
    then have "clear ?w demo_al" unfolding demo_al_def
      by (intro clear_append) (simp_all add: newline_def)
    then have "\<not> contains ?w demo_al" using clear_not_contains [of ?w demo_al "[]"] by simp
    moreover have "contains ?w al_split_old" unfolding al_split_old_def
      by (rule contains_lines) simp
    ultimately show ?thesis using contains_trans by blast
  qed
  moreover have "ensure_import_os demo_df = Inr demo_df" unfolding demo_df_def by simp
  ultimately show ?thesis using demo_al_helper
    by (simp add: al_prepare_def al_validate_Inr demo_al_def)
qed

lemma scheduler_boot_idem_witness:
  "boot [df_prepare, al_prepare (\<lambda>_. True) (\<lambda>_. True)] demo_sched = Inr demo_al
   \<and> boot [df_prepare, al_prepare (\<lambda>_. True) (\<lambda>_. True)] demo_al = Inr demo_al"
proof -
  have b: "boot [df_prepare, al_prepare (\<lambda>_. True) (\<lambda>_. True)] demo_sched = Inr demo_al"
    by (simp add: demo_df_prepare demo_al_prepare)
  from b scheduler_boot_idem [OF b] show ?thesis by blast
qed

end
