(* ===== verification/Patch_Coordinator.thy ===== *)
theory Patch_Coordinator
  imports Patch_Engine
begin

text \<open>
  The installers that edit the KV-cache coordinator of the serving engine, in the
  launcher's order: \<open>patch_hybrid_prefix_hit.py\<close>, \<open>patch_apc_per_group_retention.py\<close>
  and \<open>patch_fine_grained_apc.py\<close> (files of \<open>vllm-exl3/overlay\<close>).  All three insert
  helpers before the same line and share the helper \<open>_glm53_inner_kv_spec\<close>.  What the
  installed code computes is in \<open>Retention\<close>.
\<close>

section \<open>The hybrid prefix hit\<close>

definition hy_mark :: string where
  \<open>hy_mark = ''# [glm53-hybrid-apc]''\<close>

definition hy_helper :: string where
  \<open>hy_helper = text_lines [
     [],
     ''def _glm53_inner_kv_spec(spec):'',
     ''    specs = getattr(spec, "kv_cache_specs", None)'',
     ''    if isinstance(specs, dict) and specs:'',
     ''        return next(iter(specs.values()))'',
     ''    return spec'',
     [],
     [],
     ''def _glm53_is_draft_swa_spec(spec) -> bool:'',
     ''    """DFlash2 drafter: exact SlidingWindowSpec, not KpoolTailSpec."""'',
     ''    return type(_glm53_inner_kv_spec(spec)).__name__ == "SlidingWindowSpec"'',
     [],
     []]\<close>

definition hy_eagle_old :: string where
  \<open>hy_eagle_old = text_lines [
     ''        # Conservatively fall back to flag all groups when no group is flagged.'',
     ''        if use_eagle and not self.eagle_group_ids:'',
     ''            self.eagle_group_ids = set(range(len(kv_cache_config.kv_cache_groups)))'']\<close>

definition hy_eagle_new :: string where
  \<open>hy_eagle_new = text_lines [
     ''        # Conservatively fall back to flag all groups when no group is flagged.'',
     ''        if use_eagle and not self.eagle_group_ids:'',
     ''            # [glm53-hybrid-apc] dflash is use_eagle(); GLM has no is_eagle_group'',
     ''            # annotator. Flag only the drafter SlidingWindowSpec group so MLA /'',
     ''            # mamba do not drop a whole scheduler page (~3584). MTP with no SWA'',
     ''            # group keeps the upstream all-groups fallback.'',
     ''            swa_ids = {'',
     ''                i'',
     ''                for i, g in enumerate(kv_cache_config.kv_cache_groups)'',
     ''                if _glm53_is_draft_swa_spec(g.kv_cache_spec)'',
     ''            }'',
     ''            self.eagle_group_ids = swa_ids or set('',
     ''                range(len(kv_cache_config.kv_cache_groups))'',
     ''            )'']\<close>

definition hy_min_old :: string where
  \<open>hy_min_old = text_lines [
     ''                if drop_eagle_block:'',
     ''                    eagle_verified.add(idx)'',
     ''                elif _new_hit_length < curr_hit_length:'',
     ''                    # length shrunk; invalidate previous eagle verifications'',
     ''                    eagle_verified.clear()'',
     ''                curr_hit_length = _new_hit_length'',
     ''                for group_id, blocks in zip(group_ids, hit_blocks):'',
     ''                    hit_blocks_by_group[group_id] = blocks'',
     ''                    hit_length_by_group[group_id] = _new_hit_length'',
     [],
     ''                longest_hit_length = max(longest_hit_length, curr_hit_length)'']\<close>

definition hy_min_new :: string where
  \<open>hy_min_new = text_lines [
     ''                if drop_eagle_block:'',
     ''                    eagle_verified.add(idx)'',
     ''                elif _new_hit_length < curr_hit_length:'',
     ''                    # length shrunk; invalidate previous eagle verifications'',
     ''                    eagle_verified.clear()'',
     ''                if _glm53_is_draft_swa_spec(spec):  # [glm53-hybrid-apc]'',
     ''                    # Drafter SWA must not min() the hybrid hit. Its EAGLE pop'',
     ''                    # re-aligns by LCM(window block, MLA page) = 3584. If the'',
     ''                    # cached window does not cover the MLA/mamba hit, leave'',
     ''                    # blocks empty so a fresh window is allocated; do not'',
     ''                    # reseed the indexer tail here (KpoolTail already opted out).'',
     ''                    if _new_hit_length >= curr_hit_length:'',
     ''                        for group_id, blocks in zip(group_ids, hit_blocks):'',
     ''                            hit_blocks_by_group[group_id] = blocks'',
     ''                            hit_length_by_group[group_id] = _new_hit_length'',
     ''                    continue'',
     ''                curr_hit_length = _new_hit_length'',
     ''                for group_id, blocks in zip(group_ids, hit_blocks):'',
     ''                    hit_blocks_by_group[group_id] = blocks'',
     ''                    hit_length_by_group[group_id] = _new_hit_length'',
     [],
     ''                longest_hit_length = max(longest_hit_length, curr_hit_length)'']\<close>

definition hy_log_old :: string where
  \<open>hy_log_old = text_lines [
     ''        # Propagate the eagle bit to each manager (default to '' @ [CHR 0x60] @ [CHR 0x60] @ ''use_eagle=False'' @ [CHR 0x60] @ [CHR 0x60] @ '').'',
     ''        for group in self.attention_groups:'',
     ''            if group.use_eagle:'',
     ''                for gid in group.group_ids:'',
     ''                    self.single_type_managers[gid].use_eagle = True'']\<close>

definition hy_log_new :: string where
  \<open>hy_log_new = text_lines [
     ''        # Propagate the eagle bit to each manager (default to '' @ [CHR 0x60] @ [CHR 0x60] @ ''use_eagle=False'' @ [CHR 0x60] @ [CHR 0x60] @ '').'',
     ''        for group in self.attention_groups:'',
     ''            if group.use_eagle:'',
     ''                for gid in group.group_ids:'',
     ''                    self.single_type_managers[gid].use_eagle = True'',
     ''        logger.info(  # [glm53-hybrid-apc]'',
     ''            "hybrid APC groups: %s; eagle_group_ids=%s",'',
     ''            ['',
     ''                ('',
     ''                    type(_glm53_inner_kv_spec(g.spec)).__name__,'',
     ''                    g.group_ids,'',
     ''                    getattr(g.manager_cls, "__name__", type(g.manager_cls).__name__),'',
     ''                    g.use_eagle,'',
     ''                )'',
     ''                for g in self.attention_groups'',
     ''            ],'',
     ''            sorted(self.eagle_group_ids),'',
     ''        )'']\<close>

definition coord_needle :: string where
  "coord_needle = text_lines [''def _validate_prefix_cache_retention_interval('']"

definition inner_def :: string where
  "inner_def = ''def _glm53_inner_kv_spec(''"

definition hy_prepare :: "string \<Rightarrow> fault + string" where
  "hy_prepare s =
     (if contains hy_mark s then Inr s
      else if text_count coord_needle s \<noteq> 1 then Inl (Found ''helper'' (text_count coord_needle s))
      else apply_edits
        [(''eagle-fallback'', hy_eagle_old, hy_eagle_new),
         (''hybrid-min'', hy_min_old, hy_min_new),
         (''group-log'', hy_log_old, hy_log_new)]
        (if contains inner_def s then s
         else replace_first coord_needle (hy_helper @ coord_needle) s))"

section \<open>Per-group retention\<close>

definition pg_mark :: string where
  \<open>pg_mark = ''# [glm53-apc-per-group]''\<close>

definition pg_import_old :: string where
  \<open>pg_import_old = text_lines [
     ''from abc import ABC, abstractmethod'',
     ''from collections.abc import Sequence'']\<close>

definition pg_import_new :: string where
  \<open>pg_import_new = text_lines [
     ''import os  # [glm53-apc-per-group]'',
     ''from abc import ABC, abstractmethod'',
     ''from collections.abc import Sequence'']\<close>

definition pg_base_helper :: string where
  \<open>pg_base_helper = text_lines [
     [],
     ''def _glm53_inner_kv_spec(spec):'',
     ''    specs = getattr(spec, "kv_cache_specs", None)'',
     ''    if isinstance(specs, dict) and specs:'',
     ''        return next(iter(specs.values()))'',
     ''    return spec'',
     [],
     [],
     ''def _glm53_is_draft_swa_spec(spec) -> bool:'',
     ''    """DFlash2 drafter: exact SlidingWindowSpec, not KpoolTailSpec."""'',
     ''    return type(_glm53_inner_kv_spec(spec)).__name__ == "SlidingWindowSpec"'',
     [],
     []]\<close>

definition pg_helper :: string where
  \<open>pg_helper = text_lines [
     [],
     ''def _glm53_swa_retention_env(  # [glm53-apc-per-group]'',
     ''    scheduler_block_size,'',
     ''    max_interval=1_000_000,'',
     ''):'',
     ''    """Parse + validate VLLM_PREFIX_CACHE_RETENTION_INTERVAL_SWA.'',
     [],
     ''    Unset/empty -> None (automatic rule). Otherwise the raw value is validated'',
     ''    *unconditionally* '' @ [CHR 0xE2] @ [CHR 0x80] @ [CHR 0x94] @ '' before any group is inspected '' @ [CHR 0xE2] @ [CHR 0x80] @ [CHR 0x94] @ '' so a typo is a boot'',
     ''    failure rather than a silent no-op on a model without a drafter group:'',
     ''    integer, non-negative, a multiple of '' @ [CHR 0x60] @ [CHR 0x60] @ ''scheduler_block_size'' @ [CHR 0x60] @ [CHR 0x60] @ '' (the base'',
     ''    cache-hit granularity, so a retained tail lands on a real hit boundary),'',
     ''    and <= '' @ [CHR 0x60] @ [CHR 0x60] @ ''max_interval'' @ [CHR 0x60] @ [CHR 0x60] @ ''.'',
     ''    """'',
     ''    key = "VLLM_PREFIX_CACHE_RETENTION_INTERVAL_SWA"'',
     ''    raw = os.environ.get(key, "")'',
     ''    if raw.strip() == "":'',
     ''        return None'',
     ''    try:'',
     ''        value = int(raw.strip())'',
     ''    except ValueError:'',
     ''        raise ValueError('',
     ''            f"{key} must be an integer (got {raw!r}); "'',
     ''            "leave it unset for the automatic rule."'',
     ''        ) from None'',
     ''    if value < 0:'',
     ''        raise ValueError(f"{key} ({value}) must be non-negative.")'',
     ''    if scheduler_block_size and value % scheduler_block_size != 0:'',
     ''        raise ValueError('',
     ''            f"{key} ({value}) must be a multiple of scheduler_block_size "'',
     ''            f"({scheduler_block_size}); 0 means reachable boundaries only."'',
     ''        )'',
     ''    if value > max_interval:'',
     ''        raise ValueError('',
     ''            f"{key} ({value}) exceeds the maximum supported retention "'',
     ''            f"interval ({max_interval})."'',
     ''        )'',
     ''    return value'',
     [],
     [],
     ''def _glm53_min_exempt_group_ids(  # [glm53-apc-per-group]'',
     ''    kv_cache_groups,'',
     ''    eagle_group_ids,'',
     ''):'',
     ''    """Group ids the coordinator itself treats as EAGLE-exempt drafter groups.'',
     [],
     ''    Derived from coordinator state, never from a class name alone. A group'',
     ''    qualifies only when'',
     [],
     ''      (a) its inner spec is an *exact* '' @ [CHR 0x60] @ [CHR 0x60] @ ''SlidingWindowSpec'' @ [CHR 0x60] @ [CHR 0x60] @ '' (the DFlash2'',
     ''          drafter; '' @ [CHR 0x60] @ [CHR 0x60] @ ''KpoolTailSpec'' @ [CHR 0x60] @ [CHR 0x60] @ '' subclasses it and never prefix-caches), and'',
     ''      (b) '' @ [CHR 0x60] @ [CHR 0x60] @ ''eagle_group_ids'' @ [CHR 0x60] @ [CHR 0x60] @ '' is *exactly* that set of drafter groups.'',
     [],
     ''    (b) is the state overlay/patch_hybrid_prefix_hit.py establishes: it narrows'',
     ''    '' @ [CHR 0x60] @ [CHR 0x60] @ ''eagle_group_ids'' @ [CHR 0x60] @ [CHR 0x60] @ '' from the upstream all-groups fallback down to the drafter'',
     ''    SWA groups and, driven by the same discriminator, makes those groups skip the'',
     ''    hybrid hit '' @ [CHR 0x60] @ [CHR 0x60] @ ''min()'' @ [CHR 0x60] @ [CHR 0x60] @ ''. When '' @ [CHR 0x60] @ [CHR 0x60] @ ''eagle_group_ids'' @ [CHR 0x60] @ [CHR 0x60] @ '' is the undiscriminating'',
     ''    all-groups fallback (or is annotated over some other group), the equality'',
     ''    fails and this returns the empty set '' @ [CHR 0xE2] @ [CHR 0x80] @ [CHR 0x94] @ '' so an explicit SWA override fails'',
     ''    closed instead of starving a group that still shortens the hybrid hit.'',
     ''    """'',
     ''    eagle = set(eagle_group_ids)'',
     ''    swa = {'',
     ''        i'',
     ''        for i, g in enumerate(kv_cache_groups)'',
     ''        if _glm53_is_draft_swa_spec(g.kv_cache_spec)'',
     ''    }'',
     ''    if not swa or eagle != swa:'',
     ''        return frozenset()'',
     ''    return frozenset(swa)'',
     [],
     [],
     ''def _glm53_retention_for_group(  # [glm53-apc-per-group]'',
     ''    spec,'',
     ''    global_interval,'',
     ''    swa_interval,'',
     ''    alignment_tokens,'',
     ''    is_min_exempt,'',
     ''):'',
     ''    """Prefix-cache retention interval for one KV cache group.'',
     [],
     ''    Only a group that is both an exact '' @ [CHR 0x60] @ [CHR 0x60] @ ''SlidingWindowSpec'' @ [CHR 0x60] @ [CHR 0x60] @ '' **and** EAGLE/'',
     ''    min-exempt per '' @ [CHR 0x60] @ [CHR 0x60] @ ''_glm53_min_exempt_group_ids'' @ [CHR 0x60] @ [CHR 0x60] @ '' diverges from the global'',
     ''    value. Both the explicit and the automatic path require min-exemption: a'',
     ''    sliding-window group that still participates in the hybrid hit '' @ [CHR 0x60] @ [CHR 0x60] @ ''min()'' @ [CHR 0x60] @ [CHR 0x60],
     ''    must keep the global interval, because sparsifying it would shorten every'',
     ''    hit.'',
     [],
     ''    '' @ [CHR 0x60] @ [CHR 0x60] @ ''swa_interval is not None'' @ [CHR 0x60] @ [CHR 0x60] @ ''  -> use it verbatim for min-exempt drafter'',
     ''        groups (operator override; the caller has already validated it and has'',
     ''        already refused the setting outright if no group is min-exempt).'',
     ''    '' @ [CHR 0x60] @ [CHR 0x60] @ ''swa_interval is None'' @ [CHR 0x60] @ [CHR 0x60] @ ''      -> automatic rule: a *hit-inert* sliding-window'',
     ''        group -- window smaller than the cache-hit alignment (so its cached tail'',
     ''        can only ever be consulted at an alignment boundary) AND EAGLE/min-exempt'',
     ''        (so its hit length is discarded) -- costs'',
     ''        '' @ [CHR 0x60] @ [CHR 0x60] @ ''need = cdiv(window - 1, block) + 1'' @ [CHR 0x60] @ [CHR 0x60] @ '' ids per boundary (>= 2 for any'',
     ''        EAGLE group) while contributing nothing to hit length, so keep only the'',
     ''        reachable boundaries (0). Any other group falls through to the global'',
     ''        value, including a genuine SWA model whose window spans the alignment.'',
     ''    """'',
     ''    if not _glm53_is_draft_swa_spec(spec) or not is_min_exempt:'',
     ''        return global_interval'',
     ''    if swa_interval is not None:'',
     ''        return swa_interval'',
     ''    inner = _glm53_inner_kv_spec(spec)'',
     ''    window = getattr(inner, "sliding_window", None)'',
     ''    block = getattr(inner, "block_size", None)'',
     ''    if not window or not block or not alignment_tokens:'',
     ''        return global_interval'',
     ''    if window >= alignment_tokens:'',
     ''        return global_interval'',
     ''    return 0'',
     [],
     [],
     ''def _glm53_resolve_retention_by_group(  # [glm53-apc-per-group]'',
     ''    kv_cache_groups,'',
     ''    eagle_group_ids,'',
     ''    global_interval,'',
     ''    swa_interval,'',
     ''    alignment_tokens,'',
     ''):'',
     ''    """Resolve the per-group retention vector, failing closed on a misdirected'',
     ''    SWA override.'',
     [],
     ''    An explicit '' @ [CHR 0x60] @ [CHR 0x60] @ ''VLLM_PREFIX_CACHE_RETENTION_INTERVAL_SWA'' @ [CHR 0x60] @ [CHR 0x60] @ '' is only meaningful'',
     ''    for the EAGLE-exempt drafter group. If the coordinator has not singled such a'',
     ''    group out, refuse to boot rather than ignore the setting (which would look'',
     ''    like the knob worked) or apply it by class name (which would sparsify a group'',
     ''    that is still inside the hit '' @ [CHR 0x60] @ [CHR 0x60] @ ''min()'' @ [CHR 0x60] @ [CHR 0x60] @ '').'',
     ''    """'',
     ''    min_exempt = _glm53_min_exempt_group_ids(kv_cache_groups, eagle_group_ids)'',
     ''    if swa_interval is not None and not min_exempt:'',
     ''        raise ValueError('',
     ''            "VLLM_PREFIX_CACHE_RETENTION_INTERVAL_SWA is set "'',
     ''            f"({swa_interval}) but this coordinator has no EAGLE-exempt drafter "'',
     ''            "sliding-window group: eagle_group_ids="'',
     ''            f"{sorted(set(eagle_group_ids))} does not match the set of exact "'',
     ''            "SlidingWindowSpec groups. Applying it would sparsify a group that "'',
     ''            "still shortens the hybrid prefix-cache hit. Unset the variable (the "'',
     ''            "automatic rule is safe on any model) or apply "'',
     ''            "overlay/patch_hybrid_prefix_hit.py first."'',
     ''        )'',
     ''    return tuple('',
     ''        _glm53_retention_for_group('',
     ''            g.kv_cache_spec,'',
     ''            global_interval,'',
     ''            swa_interval,'',
     ''            alignment_tokens,'',
     ''            i in min_exempt,'',
     ''        )'',
     ''        for i, g in enumerate(kv_cache_groups)'',
     ''    )'',
     [],
     [],
     ''def _glm53_validate_retention_intervals(  # [glm53-apc-per-group]'',
     ''    intervals,'',
     ''    scheduler_block_size,'',
     ''):'',
     ''    """Per-group counterpart of _validate_prefix_cache_retention_interval.'',
     [],
     ''    Defence in depth over the resolved vector: every non-'' @ [CHR 0x60] @ [CHR 0x60] @ ''None'' @ [CHR 0x60] @ [CHR 0x60] @ '' entry is either'',
     ''    0 or a non-negative multiple of '' @ [CHR 0x60] @ [CHR 0x60] @ ''scheduler_block_size'' @ [CHR 0x60] @ [CHR 0x60] @ ''. No upper bound here'',
     ''    '' @ [CHR 0xE2] @ [CHR 0x80] @ [CHR 0x94] @ '' inherited *global* values are upstream's to bound; the 1,000,000 cap'',
     ''    applies to the SWA value this overlay introduces ('' @ [CHR 0x60] @ [CHR 0x60] @ ''_glm53_swa_retention_env'' @ [CHR 0x60] @ [CHR 0x60] @ '').'',
     ''    """'',
     ''    for group_id, value in enumerate(intervals):'',
     ''        if value is None or value == 0:'',
     ''            continue'',
     ''        if value < 0 or value % scheduler_block_size != 0:'',
     ''            raise ValueError('',
     ''                f"prefix-cache retention interval for KV cache group {group_id} "'',
     ''                f"({value}) must be non-negative and a multiple of "'',
     ''                f"scheduler_block_size ({scheduler_block_size})."'',
     ''            )'',
     [],
     [],
     ''def _glm53_format_retention_vector(intervals):  # [glm53-apc-per-group]'',
     ''    """Compact, greppable rendering of the resolved vector: '' @ [CHR 0x60] @ [CHR 0x60] @ ''[None,None,0]'' @ [CHR 0x60] @ [CHR 0x60] @ ''."""'',
     ''    return "[" + ",".join("None" if v is None else str(v) for v in intervals) + "]"'',
     [],
     []]\<close>

definition pg_init_old :: string where
  \<open>pg_init_old = text_lines [
     ''        self.retention_interval = envs.VLLM_PREFIX_CACHE_RETENTION_INTERVAL'',
     ''        _validate_prefix_cache_retention_interval('',
     ''            self.retention_interval, self.scheduler_block_size, kv_cache_config'',
     ''        )'']\<close>

definition pg_init_new :: string where
  \<open>pg_init_new = text_lines [
     ''        self.retention_interval = envs.VLLM_PREFIX_CACHE_RETENTION_INTERVAL'',
     ''        _validate_prefix_cache_retention_interval('',
     ''            self.retention_interval, self.scheduler_block_size, kv_cache_config'',
     ''        )'',
     ''        # [glm53-apc-per-group] Per-group retention. The DFlash2 drafter SWA group'',
     ''        # hashes cdiv(window - 1, block) + 1 == 33 block ids at EVERY hit boundary'',
     ''        # and frees them *cached* onto the LRU tail (BlockPool.free_blocks), i.e.'',
     ''        # 33 of the 38 ids a cached 3584-token segment costs -- for a group that is'',
     ''        # exempted from the hybrid hit min(). Give it its own sparse interval so'',
     ''        # MLA and mamba can stay dense and keep the fine hit grid. The raw env'',
     ''        # value is validated unconditionally; it is applied only to the groups the'',
     ''        # coordinator itself flagged EAGLE-exempt, else boot fails.'',
     ''        _glm53_swa_interval = _glm53_swa_retention_env(self.scheduler_block_size)'',
     ''        _glm53_min_exempt = _glm53_min_exempt_group_ids('',
     ''            kv_cache_config.kv_cache_groups, self.eagle_group_ids'',
     ''        )'',
     ''        self.retention_interval_by_group = _glm53_resolve_retention_by_group('',
     ''            kv_cache_config.kv_cache_groups,'',
     ''            self.eagle_group_ids,'',
     ''            self.retention_interval,'',
     ''            _glm53_swa_interval,'',
     ''            self.scheduler_block_size,'',
     ''        )'',
     ''        _glm53_validate_retention_intervals('',
     ''            self.retention_interval_by_group, self.scheduler_block_size'',
     ''        )'',
     ''        logger.info(  # [glm53-apc-per-group]'',
     ''            "[glm53-apc-per-group] retention_by_group=%s "'',
     ''            "(global=%s swa_env=%s eagle_min_exempt=%s)",'',
     ''            _glm53_format_retention_vector(self.retention_interval_by_group),'',
     ''            self.retention_interval,'',
     ''            _glm53_swa_interval,'',
     ''            sorted(_glm53_min_exempt),'',
     ''        )'']\<close>

definition pg_base_cache_old :: string where
  \<open>pg_base_cache_old = text_lines [
     ''        for manager in self.single_type_managers:'',
     ''            manager.cache_blocks('',
     ''                request,'',
     ''                num_computed_tokens,'',
     ''                retention_interval=self.retention_interval,'',
     ''            )'']\<close>

definition pg_base_cache_new :: string where
  \<open>pg_base_cache_new = text_lines [
     ''        for i, manager in enumerate(self.single_type_managers):'',
     ''            manager.cache_blocks('',
     ''                request,'',
     ''                num_computed_tokens,'',
     ''                # [glm53-apc-per-group] per-group, not the single global value'',
     ''                retention_interval=self.retention_interval_by_group[i],'',
     ''            )'']\<close>

definition pg_loop_old :: string where
  \<open>pg_loop_old = text_lines [
     ''        for manager in self.single_type_managers:'',
     ''            num_tokens_to_cache = aligned_num_computed_tokens'']\<close>

definition pg_loop_new :: string where
  \<open>pg_loop_new = text_lines [
     ''        for i, manager in enumerate(self.single_type_managers):'',
     ''            num_tokens_to_cache = aligned_num_computed_tokens'']\<close>

definition pg_cache_old :: string where
  \<open>pg_cache_old = text_lines [
     ''            manager.cache_blocks('',
     ''                request,'',
     ''                num_tokens_to_cache,'',
     ''                retention_interval=self.retention_interval,'',
     ''            )'']\<close>

definition pg_cache_new :: string where
  \<open>pg_cache_new = text_lines [
     ''            manager.cache_blocks('',
     ''                request,'',
     ''                num_tokens_to_cache,'',
     ''                # [glm53-apc-per-group] per-group, not the single global value'',
     ''                retention_interval=self.retention_interval_by_group[i],'',
     ''            )'']\<close>

text \<open>\<open>main\<close> with \<open>GLM53_APC_PER_GROUP_RETENTION\<close> at its default \<open>1\<close>.\<close>

definition pg_prepare :: "string \<Rightarrow> fault + string" where
  "pg_prepare s =
     (if contains pg_mark s then Inr s
      else if text_count coord_needle s \<noteq> 1 then Inl (Found ''helper'' (text_count coord_needle s))
      else and_then (if contains ([newline] @ import_os) s then Inr s
                     else replace_once ''import'' pg_import_old pg_import_new s) (\<lambda>s1.
           apply_edits
             [(''retention-init'', pg_init_old, pg_init_new),
              (''base-cache_blocks'', pg_base_cache_old, pg_base_cache_new),
              (''hybrid-loop'', pg_loop_old, pg_loop_new),
              (''hybrid-cache_blocks'', pg_cache_old, pg_cache_new)]
             (replace_first coord_needle (pg_helper @ coord_needle)
               (if contains inner_def s1 then s1
                else replace_first coord_needle (pg_base_helper @ coord_needle) s1))))"

section \<open>Fine-grained prefix hits\<close>

definition fg_mark :: string where
  \<open>fg_mark = ''[glm53-fgapc]''\<close>

definition fg_helper :: string where
  \<open>fg_helper = text_lines [
     [],
     ''def _glm53_inner_kv_spec(spec):'',
     ''    specs = getattr(spec, "kv_cache_specs", None)'',
     ''    if isinstance(specs, dict) and specs:'',
     ''        return next(iter(specs.values()))'',
     ''    return spec'',
     [],
     []]\<close>

definition fg_veto_old :: string where
  \<open>fg_veto_old = text_lines [
     ''            unsupported_partial_hit_managers = {'',
     ''                type(manager).__name__'',
     ''                for manager in self.single_type_managers'',
     ''                if not manager.supports_fine_grained_hash_lookup'',
     ''                and manager.block_size != hash_block_size''] @ ''            }''\<close>

definition fg_veto_new :: string where
  \<open>fg_veto_new = text_lines [
     ''            unsupported_partial_hit_managers = {'',
     ''                type(manager).__name__'',
     ''                for manager, group in zip('',
     ''                    self.single_type_managers, kv_cache_config.kv_cache_groups'',
     ''                )'',
     ''                # [glm53-fgapc] A transient/non-shareable manager cannot'',
     ''                # constrain prefix-hit granularity because it never'',
     ''                # participates in the lookup.'',
     ''                if group.kv_cache_spec.participates_in_prefix_caching'',
     ''                and not manager.supports_fine_grained_hash_lookup'',
     ''                and manager.block_size != hash_block_size''] @ ''            }''\<close>

definition fg_diag_old :: string where
  \<open>fg_diag_old = ''        self.verify_and_split_kv_cache_groups()''\<close>

definition fg_diag_new :: string where
  \<open>fg_diag_new = text_lines [
     ''        logger.info('',
     ''            # [glm53-fgapc]'',
     ''            "[glm53-fgapc] partial_hash=%s hash_block=%s managers=%s",'',
     ''            self.enable_partial_hash_hits,'',
     ''            hash_block_size,'',
     ''            sorted('',
     ''                ('',
     ''                    type(manager).__name__,'',
     ''                    manager.block_size,'',
     ''                    bool(group.kv_cache_spec.participates_in_prefix_caching),'',
     ''                    bool('',
     ''                        getattr('',
     ''                            manager, "supports_fine_grained_hash_lookup", False'',
     ''                        )'',
     ''                    ),'',
     ''                )'',
     ''                for manager, group in zip('',
     ''                    self.single_type_managers, kv_cache_config.kv_cache_groups'',
     ''                )'',
     ''            ),'',
     ''        )''] @ ''        self.verify_and_split_kv_cache_groups()''\<close>

text \<open>\<open>patch_file\<close>, without the dry run; \<open>parses\<close> is \<open>ast.parse\<close>.\<close>

definition fg_prepare :: "(string \<Rightarrow> bool) \<Rightarrow> string \<Rightarrow> fault + string" where
  "fg_prepare parses s =
     (if contains fg_mark s then
        (if contains fg_veto_new s \<and> contains fg_diag_new s then
           (if parses s then Inr s else Inl Unparsable)
         else Inl (Refused ''patched forms incomplete''))
      else if \<not> contains fg_veto_old s then Inl (Found ''veto'' 0)
      else and_then
        (if contains inner_def s then Inr s
         else if text_count coord_needle s = 1
         then Inr (replace_first coord_needle (fg_helper @ coord_needle) s)
         else replace_once ''helper'' ''class HybridKVCacheCoordinator''
                (fg_helper @ ''class HybridKVCacheCoordinator'') s) (\<lambda>s1.
        and_then (replace_once ''verify_and_split'' fg_diag_old fg_diag_new
                    (replace_first fg_veto_old fg_veto_new s1)) (\<lambda>u.
          if parses u then Inr u else Inl Unparsable)))"

section \<open>Contracts\<close>

lemma hy_log_new_marked: "contains hy_mark hy_log_new"
  unfolding hy_log_new_def by (rule contains_lines) code_simp

lemma hy_prepare_marked:
  assumes "hy_prepare s = Inr u"
  shows "contains hy_mark u"
proof (cases "contains hy_mark s")
  case False
  with assms obtain s1 where "apply_edits ([(''eagle-fallback'', hy_eagle_old, hy_eagle_new),
         (''hybrid-min'', hy_min_old, hy_min_new)] @ [(''group-log'', hy_log_old, hy_log_new)]) s1 = Inr u"
    by (auto simp: hy_prepare_def simp del: apply_edits.simps split: if_splits)
  then show ?thesis using apply_edits_last contains_trans hy_log_new_marked by blast
qed (use assms in \<open>simp add: hy_prepare_def\<close>)

interpretation hy: stable_patch hy_prepare "contains hy_mark"
  by unfold_locales (auto simp: hy_prepare_marked, simp_all add: hy_prepare_def)

lemma pg_cache_new_marked: "contains pg_mark pg_cache_new"
  unfolding pg_cache_new_def by (rule contains_lines) code_simp

lemma pg_prepare_marked:
  assumes "pg_prepare s = Inr u"
  shows "contains pg_mark u"
proof (cases "contains pg_mark s")
  case False
  with assms obtain s1 where "apply_edits ([(''retention-init'', pg_init_old, pg_init_new),
              (''base-cache_blocks'', pg_base_cache_old, pg_base_cache_new),
              (''hybrid-loop'', pg_loop_old, pg_loop_new)]
              @ [(''hybrid-cache_blocks'', pg_cache_old, pg_cache_new)]) s1 = Inr u"
    by (auto simp: pg_prepare_def simp del: apply_edits.simps split: if_splits)
  then show ?thesis using apply_edits_last contains_trans pg_cache_new_marked by blast
qed (use assms in \<open>simp add: pg_prepare_def\<close>)

interpretation pg: stable_patch pg_prepare "contains pg_mark"
  by unfold_locales (auto simp: pg_prepare_marked, simp_all add: pg_prepare_def)

definition fg_done :: "(string \<Rightarrow> bool) \<Rightarrow> string \<Rightarrow> bool" where
  "fg_done parses s \<longleftrightarrow> contains fg_mark s \<and> contains fg_veto_new s \<and> contains fg_diag_new s \<and> parses s"

lemma fg_veto_new_marked: "contains fg_mark fg_veto_new"
  unfolding fg_veto_new_def
  by (rule contains_appendI1, rule contains_lines) code_simp

lemma fg_diag_apart: "apart fg_diag_old fg_veto_new"
  unfolding fg_diag_old_def fg_veto_new_def by (rule apart_sym, rule lines_tail_apart; code_simp)

lemma fg_veto_apart: "apart coord_needle fg_veto_old" "apart ''class HybridKVCacheCoordinator'' fg_veto_old"
proof -
  let ?v = "''            unsupported_partial_hit_managers = {''"
  let ?c = "''def _validate_prefix_cache_retention_interval(''"
  have v: "\<exists>r. fg_veto_old = ?v @ r" unfolding fg_veto_old_def by (simp only: text_lines.simps append_assoc) blast
  have c: "coord_needle = ?c @ [newline]" by (simp add: coord_needle_def)
  have 1: "apart (text_lines [?c]) ?v" by (rule lines_apart) code_simp
  have 2: "apart fg_veto_old ?c" "apart fg_veto_old ''class HybridKVCacheCoordinator''"
    unfolding fg_veto_old_def by (rule lines_tail_apart; code_simp)+
  show "apart coord_needle fg_veto_old"
    using v 1 2(1) c touch_prefix unfolding apart_def coord_needle_def by metis
  show "apart ''class HybridKVCacheCoordinator'' fg_veto_old"
    by (rule apart_sym [OF 2(2)])
qed

lemma fg_prepare_done:
  assumes "fg_prepare P s = Inr u"
  shows "fg_done P u"
proof (cases "contains fg_mark s")
  case False
  then have v: "contains fg_veto_old s" using assms by (auto simp: fg_prepare_def split: if_splits)
  obtain s1 where k: "(if contains inner_def s then Inr s
         else if text_count coord_needle s = 1
         then Inr (replace_first coord_needle (fg_helper @ coord_needle) s)
         else replace_once ''helper'' ''class HybridKVCacheCoordinator''
                (fg_helper @ ''class HybridKVCacheCoordinator'') s) = Inr s1"
    and u: "replace_once ''verify_and_split'' fg_diag_old fg_diag_new
        (replace_first fg_veto_old fg_veto_new s1) = Inr u" "P u"
    using assms False v by (auto simp: fg_prepare_def split: if_splits)
  have "contains fg_veto_old s1" using k v fg_veto_apart
    by (auto intro: contains_replace_keep replace_once_keep split: if_splits)
  then have n: "contains fg_veto_new (replace_first fg_veto_old fg_veto_new s1)"
    by (rule contains_replace_first)
  have "contains fg_veto_new u" by (rule replace_once_keep [OF u(1) fg_diag_apart n])
  moreover have "contains fg_diag_new u" by (rule replace_once_contains [OF u(1)])
  ultimately show ?thesis using u(2) contains_trans [OF fg_veto_new_marked] by (simp add: fg_done_def)
qed (use assms in \<open>simp add: fg_prepare_def fg_done_def split: if_splits\<close>)

interpretation fg: stable_patch "fg_prepare parses" "fg_done parses" for parses
  by unfold_locales (auto simp: fg_prepare_done, auto simp: fg_done_def fg_prepare_def)

section \<open>Restarting with the overlays installed\<close>

lemma keeps_hy_mark:
  "pg_prepare s = Inr u \<Longrightarrow> contains hy_mark s \<Longrightarrow> contains hy_mark u"
  "fg_prepare P s = Inr u \<Longrightarrow> contains hy_mark s \<Longrightarrow> contains hy_mark u"
proof -
  have a: "apart coord_needle hy_mark" "apart pg_import_old hy_mark" "apart pg_init_old hy_mark"
    "apart pg_base_cache_old hy_mark" "apart pg_loop_old hy_mark" "apart pg_cache_old hy_mark"
    unfolding coord_needle_def pg_import_old_def pg_init_old_def pg_base_cache_old_def
      pg_loop_old_def pg_cache_old_def by (rule lines_apart, code_simp)+
  have b: "apart fg_veto_old hy_mark"
    unfolding fg_veto_old_def by (rule lines_tail_apart; code_simp)
  have b': "apart fg_diag_old hy_mark" "apart ''class HybridKVCacheCoordinator'' hy_mark"
    by code_simp+
  show "contains hy_mark u" if h: "pg_prepare s = Inr u" and m: "contains hy_mark s"
  proof (cases "contains pg_mark s")
    case False
    then obtain s1 where 1: "(if contains ([newline] @ import_os) s then Inr s
                     else replace_once ''import'' pg_import_old pg_import_new s) = Inr s1"
      and 2: "apply_edits [(''retention-init'', pg_init_old, pg_init_new),
              (''base-cache_blocks'', pg_base_cache_old, pg_base_cache_new),
              (''hybrid-loop'', pg_loop_old, pg_loop_new),
              (''hybrid-cache_blocks'', pg_cache_old, pg_cache_new)]
             (replace_first coord_needle (pg_helper @ coord_needle)
               (if contains inner_def s1 then s1
                else replace_first coord_needle (pg_base_helper @ coord_needle) s1)) = Inr u"
      using h by (auto simp: pg_prepare_def simp del: apply_edits.simps split: if_splits)
    have "contains hy_mark s1" using 1 m a(2) by (auto intro: replace_once_keep split: if_splits)
    then have "contains hy_mark (replace_first coord_needle (pg_helper @ coord_needle)
               (if contains inner_def s1 then s1
                else replace_first coord_needle (pg_base_helper @ coord_needle) s1))"
      using a(1) by (auto intro!: contains_replace_keep)
    then show ?thesis by (rule apply_edits_keep [OF 2]) (simp add: a)
  qed (use h m in \<open>simp add: pg_prepare_def\<close>)
  show "contains hy_mark u" if "fg_prepare P s = Inr u" "contains hy_mark s"
    using that a(1) b b' unfolding fg_prepare_def
    by (auto split: if_splits intro!: contains_replace_keep elim!: replace_once_keep)
qed

lemma fg_keeps_pg_mark:
  assumes "fg_prepare P s = Inr u" "contains pg_mark s"
  shows "contains pg_mark u"
proof -
  have a: "apart coord_needle pg_mark" unfolding coord_needle_def by (rule lines_apart) code_simp
  have b: "apart fg_veto_old pg_mark" unfolding fg_veto_old_def by (rule lines_tail_apart; code_simp)
  have b': "apart fg_diag_old pg_mark" "apart ''class HybridKVCacheCoordinator'' pg_mark"
    by code_simp+
  show ?thesis using assms a b b' unfolding fg_prepare_def
    by (auto split: if_splits intro!: contains_replace_keep elim!: replace_once_keep)
qed

text \<open>after the three coordinator overlays have been installed in the launcher's order, a
  restart that runs them again succeeds and changes nothing, although only the last of
  them checks more than its own marker.\<close>

theorem coordinator_boot_idem:
  "boot [hy_prepare, pg_prepare, fg_prepare P] s = Inr u
     \<Longrightarrow> boot [hy_prepare, pg_prepare, fg_prepare P] u = Inr u"
  using boot_idem [of "[(hy_prepare, contains hy_mark), (pg_prepare, contains pg_mark),
      (fg_prepare P, fg_done P)]" s u]
    hy.stable_patch_axioms pg.stable_patch_axioms fg.stable_patch_axioms
    keeps_hy_mark fg_keeps_pg_mark by auto

section \<open>The order of the installers matters\<close>

definition swa_def :: string where
  "swa_def = ''def _glm53_is_draft_swa_spec(''"

definition swa_call :: string where
  "swa_call = ''if _glm53_is_draft_swa_spec(spec):''"

lemma fg_news_apart:
  "apart (fg_helper @ coord_needle) swa_def"
  "apart (fg_helper @ ''class HybridKVCacheCoordinator'') swa_def"
  "apart fg_veto_new swa_def" "apart fg_diag_new swa_def"
  unfolding fg_helper_def fg_veto_new_def fg_diag_new_def swa_def_def
  by (rule lines_tail_apart; code_simp)+

lemma hy_news_apart:
  "apart hy_eagle_new swa_def" "apart hy_min_new swa_def" "apart hy_log_new swa_def"
  unfolding hy_eagle_new_def hy_min_new_def hy_log_new_def swa_def_def
  by (rule lines_apart, code_simp)+

lemma fg_olds_apart_inner: "apart fg_veto_old inner_def" "apart fg_diag_old inner_def"
proof -
  show "apart fg_veto_old inner_def"
    unfolding fg_veto_old_def inner_def_def by (rule lines_tail_apart; code_simp)
  show "apart fg_diag_old inner_def" by code_simp
qed

lemma fg_helper_inner: "contains inner_def fg_helper"
  unfolding fg_helper_def inner_def_def by (rule contains_lines) code_simp

lemma fg_fresh:
  assumes "fg_prepare P s = Inr u" "\<not> contains fg_mark s"
  shows "contains inner_def u \<and> (contains swa_def u \<longrightarrow> contains swa_def s)"
proof -
  obtain s1 where k: "(if contains inner_def s then Inr s
         else if text_count coord_needle s = 1
         then Inr (replace_first coord_needle (fg_helper @ coord_needle) s)
         else replace_once ''helper'' ''class HybridKVCacheCoordinator''
                (fg_helper @ ''class HybridKVCacheCoordinator'') s) = Inr s1"
    and u: "replace_once ''verify_and_split'' fg_diag_old fg_diag_new
        (replace_first fg_veto_old fg_veto_new s1) = Inr u"
    using assms by (auto simp: fg_prepare_def split: if_splits)
  have ne: "fg_veto_new \<noteq> []" "fg_diag_new \<noteq> []" "fg_helper @ x \<noteq> []" for x
    by (simp_all add: fg_veto_new_def fg_diag_new_def fg_helper_def)
  have i: "contains inner_def s1"
  proof (cases "contains inner_def s")
    case False
    with k have "contains (fg_helper @ coord_needle) s1
        \<or> contains (fg_helper @ ''class HybridKVCacheCoordinator'') s1"
      by (auto split: if_splits dest: replace_once_contains
          simp: contains_replace_first [OF text_count_contains])
    then show ?thesis using contains_trans contains_appendI1 fg_helper_inner by blast
  qed (use k in simp)
  have "contains inner_def (replace_first fg_veto_old fg_veto_new s1)"
    by (rule contains_replace_keep [OF i fg_olds_apart_inner(1)])
  then have "contains inner_def u" by (rule replace_once_keep [OF u fg_olds_apart_inner(2)])
  moreover have "contains swa_def s" if "contains swa_def u"
  proof -
    have "contains swa_def (replace_first fg_veto_old fg_veto_new s1)"
      using that u fg_news_apart(4) ne(2) by (auto simp: replace_once_Inr intro: contains_replace_new)
    then have "contains swa_def s1" using fg_news_apart(3) ne(1) by (rule contains_replace_new)
    then show ?thesis using k fg_news_apart(1,2) ne(3)
      by (auto simp: replace_once_Inr split: if_splits dest: contains_replace_new)
  qed
  ultimately show ?thesis by blast
qed

text \<open>the installers are not independent.  When the fine-grained overlay runs on a fresh
  file before the hybrid one, its helper makes the hybrid installer skip its own; the
  hybrid run succeeds, and the result calls \<open>_glm53_is_draft_swa_spec\<close> without
  defining it.\<close>

theorem fine_grained_first_breaks_hybrid:
  assumes "fg_prepare P s = Inr u" "\<not> contains fg_mark s" "\<not> contains swa_def s"
    and "hy_prepare u = Inr v" "\<not> contains hy_mark u"
  shows "contains swa_call v \<and> \<not> contains swa_def v"
proof -
  have i: "contains inner_def u" and n: "\<not> contains swa_def u"
    using fg_fresh [OF assms(1,2)] assms(3) by auto
  have e: "apply_edits [(''eagle-fallback'', hy_eagle_old, hy_eagle_new),
         (''hybrid-min'', hy_min_old, hy_min_new), (''group-log'', hy_log_old, hy_log_new)] u = Inr v"
    using assms(4,5) i by (auto simp: hy_prepare_def simp del: apply_edits.simps split: if_splits)
  have "\<not> contains swa_def v"
    using apply_edits_new [OF e, of swa_def] n hy_news_apart
    by (auto simp: hy_eagle_new_def hy_min_new_def hy_log_new_def)
  moreover obtain s2 where s2: "apply_edits ([(''eagle-fallback'', hy_eagle_old, hy_eagle_new)]
      @ [(''hybrid-min'', hy_min_old, hy_min_new)]) u = Inr s2"
    and v: "replace_once ''group-log'' hy_log_old hy_log_new s2 = Inr v"
    using e by (auto split: sum.splits)
  have c: "contains swa_call hy_min_new"
    unfolding hy_min_new_def swa_call_def by (rule contains_lines) code_simp
  have "contains swa_call s2" using contains_trans [OF c apply_edits_last [OF s2]] .
  moreover have "apart hy_log_old swa_call"
    unfolding hy_log_old_def swa_call_def by (rule lines_apart) code_simp
  ultimately show ?thesis using replace_once_keep [OF v] by blast
qed

section \<open>The theorems on synthetic coordinators\<close>

definition demo_done :: string where
  "demo_done = text_lines [hy_mark, pg_mark, fg_mark] @ fg_veto_new @ [newline] @ fg_diag_new"

lemma coordinator_boot_idem_witness:
  "boot [hy_prepare, pg_prepare, fg_prepare (\<lambda>_. True)] demo_done = Inr demo_done"
proof -
  have m: "contains hy_mark demo_done" "contains pg_mark demo_done" "contains fg_mark demo_done"
    unfolding demo_done_def by (intro contains_appendI1 contains_lines; simp)+
  have "contains fg_veto_new demo_done" "contains fg_diag_new demo_done"
    unfolding demo_done_def
    by (rule contains_appendI2, rule contains_appendI1, rule contains_refl)
       (rule contains_appendI2, rule contains_appendI2, rule contains_appendI2, rule contains_refl)
  with m have "boot [hy_prepare, pg_prepare, fg_prepare (\<lambda>_. True)] demo_done = Inr demo_done"
    by (simp add: hy_prepare_def pg_prepare_def fg_prepare_def)
  from coordinator_boot_idem [OF this] show ?thesis .
qed

definition diag_old_line :: string where
  "diag_old_line = fg_diag_old @ [newline]"

definition l_eagle :: string where
  "l_eagle = ''        # Conservatively fall back to flag all groups when no group is flagged.''"

definition l_min :: string where
  "l_min = ''                if drop_eagle_block:''"

definition l_log :: string where
  "l_log = ''        # Propagate the eagle bit to each manager''"

definition l_veto :: string where
  "l_veto = ''            unsupported_partial_hit_managers = {''"

definition l_coord :: string where
  "l_coord = ''def _validate_prefix_cache_retention_interval(''"

definition veto_old_line :: string where
  "veto_old_line = fg_veto_old @ [newline]"

definition veto_new_line :: string where
  "veto_new_line = fg_veto_new @ [newline]"

lemmas coord_defs = coord_needle_def hy_eagle_old_def hy_min_old_def hy_log_old_def
  fg_veto_old_def hy_eagle_new_def hy_min_new_def fg_veto_new_def fg_diag_new_def
  fg_helper_def veto_old_line_def veto_new_line_def

lemma diag_lines: "diag_old_line = text_lines [''        self.verify_and_split_kv_cache_groups()'']"
  by (simp add: diag_old_line_def fg_diag_old_def)

lemma clear_coord:
  "clear l_coord hy_eagle_old" "clear l_coord hy_min_old" "clear l_coord hy_log_old"
  "clear l_coord veto_old_line" "clear l_coord diag_old_line"
  unfolding coord_defs l_coord_def diag_lines by (subst text_lines_snoc | rule clear_lines, code_simp)+

lemma clear_diag:
  "clear fg_diag_old fg_helper" "clear fg_diag_old coord_needle"
  "clear fg_diag_old hy_eagle_old" "clear fg_diag_old hy_min_old" "clear fg_diag_old hy_log_old"
  "clear fg_diag_old veto_new_line"
  unfolding coord_defs fg_diag_old_def by (subst text_lines_snoc | rule clear_lines, code_simp)+

lemma clear_veto:
  "clear l_veto fg_helper" "clear l_veto coord_needle"
  "clear l_veto hy_eagle_old" "clear l_veto hy_min_old" "clear l_veto hy_log_old"
  "clear l_veto (newline # fg_diag_old @ [newline])"
  unfolding coord_defs l_veto_def by (rule clear_lines, code_simp)+ code_simp

lemma clear_eagle:
  "clear l_eagle fg_helper" "clear l_eagle coord_needle" "clear l_eagle hy_min_old"
  "clear l_eagle hy_log_old" "clear l_eagle veto_new_line" "clear l_eagle (fg_diag_new @ [newline])"
  unfolding coord_defs l_eagle_def by (subst text_lines_snoc | rule clear_lines, code_simp)+

lemma clear_min:
  "clear l_min fg_helper" "clear l_min coord_needle" "clear l_min hy_eagle_new"
  "clear l_min hy_log_old" "clear l_min veto_new_line" "clear l_min (fg_diag_new @ [newline])"
  unfolding coord_defs l_min_def by (subst text_lines_snoc | rule clear_lines, code_simp)+

lemma clear_log:
  "clear l_log fg_helper" "clear l_log coord_needle" "clear l_log hy_eagle_new"
  "clear l_log hy_min_new" "clear l_log veto_new_line" "clear l_log (fg_diag_new @ [newline])"
  unfolding coord_defs l_log_def by (subst text_lines_snoc | rule clear_lines, code_simp)+

definition demo_coord :: string where
  "demo_coord = coord_needle @ hy_eagle_old @ hy_min_old @ hy_log_old @ veto_old_line @ diag_old_line"

lemma clear_words:
  "clear fg_mark coord_needle"
  "clear fg_mark hy_eagle_old"
  "clear fg_mark hy_min_old"
  "clear fg_mark hy_log_old"
  "clear fg_mark veto_old_line"
  "clear fg_mark diag_old_line"
  "clear inner_def coord_needle"
  "clear inner_def hy_eagle_old"
  "clear inner_def hy_min_old"
  "clear inner_def hy_log_old"
  "clear inner_def veto_old_line"
  "clear inner_def diag_old_line"
  "clear swa_def coord_needle"
  "clear swa_def hy_eagle_old"
  "clear swa_def hy_min_old"
  "clear swa_def hy_log_old"
  "clear swa_def veto_old_line"
  "clear swa_def diag_old_line"
  unfolding coord_defs fg_mark_def inner_def_def swa_def_def diag_lines
  by (subst text_lines_snoc | rule clear_lines, code_simp)+

lemma clear_hy_mark:
  "clear hy_mark fg_helper"
  "clear hy_mark coord_needle"
  "clear hy_mark hy_eagle_old"
  "clear hy_mark hy_min_old"
  "clear hy_mark hy_log_old"
  "clear hy_mark veto_new_line"
  "clear hy_mark (fg_diag_new @ [newline])"
  unfolding coord_defs hy_mark_def
  by (subst text_lines_snoc | rule clear_lines, code_simp)+

lemma words_nonempty [simp]:
  "fg_mark \<noteq> []" "inner_def \<noteq> []" "swa_def \<noteq> []" "hy_mark \<noteq> []" "fg_diag_old \<noteq> []"
  "l_coord \<noteq> []" "l_veto \<noteq> []" "l_eagle \<noteq> []" "l_min \<noteq> []" "l_log \<noteq> []"
  "newline \<notin> set fg_mark" "newline \<notin> set inner_def" "newline \<notin> set swa_def"
  "newline \<notin> set hy_mark" "newline \<notin> set fg_diag_old" "newline \<notin> set l_coord"
  "newline \<notin> set l_veto" "newline \<notin> set l_eagle" "newline \<notin> set l_min" "newline \<notin> set l_log"
  by (simp_all add: fg_mark_def inner_def_def swa_def_def hy_mark_def fg_diag_old_def
      l_coord_def l_veto_def l_eagle_def l_min_def l_log_def newline_def)

definition demo_fg :: string where
  "demo_fg = (fg_helper @ coord_needle) @ hy_eagle_old @ hy_min_old @ hy_log_old @ veto_new_line
     @ (fg_diag_new @ [newline])"

definition demo_hy :: string where
  "demo_hy = (fg_helper @ coord_needle) @ hy_eagle_new @ hy_min_new @ hy_log_new @ veto_new_line
     @ (fg_diag_new @ [newline])"

lemma demo_fg_prepare: "fg_prepare (\<lambda>_. True) demo_coord = Inr demo_fg"
proof -
  have n: "\<not> contains fg_mark demo_coord" "\<not> contains inner_def demo_coord"
    using clear_not_contains [of fg_mark demo_coord "[]"] clear_not_contains [of inner_def demo_coord "[]"]
    by (simp_all add: demo_coord_def clear_append clear_words)
  have v: "contains fg_veto_old demo_coord"
  proof -
    have "demo_coord = (coord_needle @ hy_eagle_old @ hy_min_old @ hy_log_old) @ fg_veto_old
        @ [newline] @ diag_old_line" by (simp add: demo_coord_def veto_old_line_def)
    then show ?thesis unfolding contains_iff by blast
  qed
  have h: "text_count coord_needle demo_coord = 1"
    "replace_first coord_needle (fg_helper @ coord_needle) demo_coord =
       (fg_helper @ coord_needle) @ hy_eagle_old @ hy_min_old @ hy_log_old @ veto_old_line @ diag_old_line"
    using replace_once_prefix(2,3) [of coord_needle l_coord "[newline]" "[]"
        "hy_eagle_old @ hy_min_old @ hy_log_old @ veto_old_line @ diag_old_line"]
    by (simp_all add: demo_coord_def coord_needle_def l_coord_def [symmetric] clear_append clear_coord)
  let ?pre = "(fg_helper @ coord_needle) @ hy_eagle_old @ hy_min_old @ hy_log_old"
  have r: "replace_first fg_veto_old fg_veto_new (?pre @ fg_veto_old @ ([newline] @ diag_old_line))
      = ?pre @ fg_veto_new @ ([newline] @ diag_old_line)"
  proof -
    have "\<exists>r. fg_veto_old = l_veto @ r" unfolding fg_veto_old_def l_veto_def
      by (simp only: text_lines.simps append_assoc) blast
    then obtain r where "fg_veto_old = l_veto @ r" by blast
    then show ?thesis
      by (rule replace_once_prefix(3)) (simp_all add: clear_append clear_veto diag_old_line_def)
  qed
  have d: "replace_once ''verify_and_split'' fg_diag_old fg_diag_new
      ((?pre @ veto_new_line) @ fg_diag_old @ [newline])
      = Inr ((?pre @ veto_new_line) @ fg_diag_new @ [newline])"
    by (rule replace_once_prefix(1) [of _ fg_diag_old "[]"])
       (simp_all add: clear_append clear_diag, simp add: clear_def fg_diag_old_def newline_def)
  show ?thesis using n v h r d
    by (simp add: fg_prepare_def demo_fg_def veto_old_line_def veto_new_line_def diag_old_line_def)
qed

lemma demo_hy_prepare: "hy_prepare demo_fg = Inr demo_hy"
proof -
  have m: "\<not> contains hy_mark demo_fg"
    using clear_not_contains [of hy_mark demo_fg "[]"]
    by (simp add: demo_fg_def clear_append clear_hy_mark)
  have i: "contains inner_def demo_fg"
    unfolding demo_fg_def using fg_helper_inner by (simp add: contains_appendI1)
  let ?h = "fg_helper @ coord_needle"
  let ?e = "veto_new_line @ fg_diag_new @ [newline]"
  have c: "clear l_coord fg_helper" "clear l_coord veto_new_line" "clear l_coord (fg_diag_new @ [newline])"
    unfolding coord_defs l_coord_def by (subst text_lines_snoc | rule clear_lines, code_simp)+
  have n: "text_count coord_needle (fg_helper @ coord_needle @ hy_eagle_old @ hy_min_old @ hy_log_old @ ?e) = 1"
    by (rule replace_once_prefix(2) [of _ l_coord "[newline]"])
       (simp_all add: coord_needle_def l_coord_def [symmetric] clear_append clear_coord c)
  have 1: "replace_once ''eagle-fallback'' hy_eagle_old hy_eagle_new
      (?h @ hy_eagle_old @ hy_min_old @ hy_log_old @ ?e)
      = Inr (?h @ hy_eagle_new @ hy_min_old @ hy_log_old @ ?e)"
    by (rule replace_once_clear(1) [of _ l_eagle])
       (unfold hy_eagle_old_def l_eagle_def, rule refl, fold l_eagle_def,
        simp_all add: clear_append clear_eagle)
  have 2: "replace_once ''hybrid-min'' hy_min_old hy_min_new
      ((?h @ hy_eagle_new) @ hy_min_old @ hy_log_old @ ?e)
      = Inr ((?h @ hy_eagle_new) @ hy_min_new @ hy_log_old @ ?e)"
    by (rule replace_once_clear(1) [of _ l_min])
       (unfold hy_min_old_def l_min_def, rule refl, fold l_min_def,
        simp_all add: clear_append clear_min)
  have 3: "replace_once ''group-log'' hy_log_old hy_log_new
      ((?h @ hy_eagle_new @ hy_min_new) @ hy_log_old @ ?e)
      = Inr ((?h @ hy_eagle_new @ hy_min_new) @ hy_log_new @ ?e)"
  proof -
    have "\<exists>r. hy_log_old = l_log @ r" unfolding hy_log_old_def l_log_def by simp
    then obtain r where "hy_log_old = l_log @ r" by blast
    then show ?thesis by (rule replace_once_prefix(1)) (simp_all add: clear_append clear_log)
  qed
  show ?thesis using m i n 1 2 3 by (simp add: hy_prepare_def demo_fg_def demo_hy_def)
qed

lemma fine_grained_first_breaks_hybrid_witness:
  "fg_prepare (\<lambda>_. True) demo_coord = Inr demo_fg \<and> hy_prepare demo_fg = Inr demo_hy
   \<and> contains swa_call demo_hy \<and> \<not> contains swa_def demo_hy"
proof -
  have "\<not> contains fg_mark demo_coord" "\<not> contains swa_def demo_coord" "\<not> contains hy_mark demo_fg"
    using clear_not_contains [of fg_mark demo_coord "[]"] clear_not_contains [of swa_def demo_coord "[]"]
      clear_not_contains [of hy_mark demo_fg "[]"]
    by (simp_all add: demo_coord_def demo_fg_def clear_append clear_words clear_hy_mark)
  from fine_grained_first_breaks_hybrid [OF demo_fg_prepare this(1,2) demo_hy_prepare this(3)]
  show ?thesis using demo_fg_prepare demo_hy_prepare by blast
qed

end
