(* ===== verification/Patch_Multi.thy ===== *)
theory Patch_Multi
  imports Patch_Engine
begin

text \<open>
  The two installers of \<open>vllm-exl3/overlay\<close> that edit several files and verify all of them
  before the first write: \<open>patch_apc_no_store.py\<close> and
  \<open>patch_prefix_cache_sparse_miss_metric.py\<close>.  Both carry the same \<open>preflight\<close> over a
  table of edits and a marker; \<open>parses\<close> is \<open>ast.parse\<close>.  The anchors are the texts of
  the source.  The behaviour of the code installed by the first is in \<open>No_Store\<close>.
\<close>

section \<open>The shared preflight\<close>

definition expected_marks :: "string \<Rightarrow> edit list \<Rightarrow> int" where
  "expected_marks mark edits =
     sum_list (map (\<lambda>(l, old, new). int (text_count mark new) - int (text_count mark old)) edits)"

definition preflight ::
  "string \<Rightarrow> edit list \<Rightarrow> string list \<Rightarrow> (string \<Rightarrow> bool) \<Rightarrow> string \<Rightarrow> fault + string option" where
  "preflight mark edits requires parses s =
     (let have = text_count mark s; want = expected_marks mark edits in
      if 0 < have then
        (if int have \<noteq> want \<or> (\<exists>(l, old, new)\<in>set edits. text_count new s \<noteq> 1)
         then Inl (Refused ''partially modified'')
         else if parses s then Inr None else Inl Unparsable)
      else if \<exists>r\<in>set requires. text_count r s \<noteq> 1 then Inl (Refused ''prerequisite not unique'')
      else and_then (apply_edits edits s) (\<lambda>u.
        if int (text_count mark u) \<noteq> want then Inl (Refused ''marker count'')
        else if parses u then Inr (Some u) else Inl Unparsable))"

text \<open>What the file holds afterwards: the old text where nothing is staged.\<close>

definition staged ::
  "string \<Rightarrow> edit list \<Rightarrow> string list \<Rightarrow> (string \<Rightarrow> bool) \<Rightarrow> string \<Rightarrow> fault + string" where
  "staged mark edits requires parses s =
     and_then (preflight mark edits requires parses s)
       (\<lambda>r. Inr (case r of None \<Rightarrow> s | Some u \<Rightarrow> u))"

lemma staged_Inr:
  assumes "staged mark edits req P s = Inr u"
  shows "int (text_count mark u) = expected_marks mark edits \<and> P u
    \<and> (u = s \<or> (text_count mark s = 0 \<and> apply_edits edits s = Inr u))"
  using assms by (auto simp: staged_def preflight_def Let_def split: if_splits)

lemma staged_marked_patch:
  assumes "0 < expected_marks mark edits"
  shows "marked_patch (staged mark edits req P) (\<lambda>s. 0 < text_count mark s)"
proof
  fix s u
  assume "staged mark edits req P s = Inr u"
  from staged_Inr [OF this] assms show "0 < text_count mark u" by simp
next
  fix s u
  assume "0 < text_count mark s" "staged mark edits req P s = Inr u"
  with staged_Inr [OF this(2)] show "u = s" by auto
qed

lemma expected_marks_pos:
  assumes "mark \<noteq> []" "\<forall>(l, old, new)\<in>set es. \<not> contains mark old"
    "\<exists>(l, old, new)\<in>set es. contains mark new"
  shows "0 < expected_marks mark es"
  using assms(2,3)
proof (induction es)
  case (Cons e es)
  obtain l old new where e: "e = (l, old, new)" by (cases e) auto
  have z: "text_count mark old = 0" using Cons.prems e text_count_0_iff [OF assms(1)] by auto
  have nn: "0 \<le> expected_marks mark es"
  proof -
    have "text_count mark o' = 0" if "(l', o', n') \<in> set es" for l' o' n'
      using that Cons.prems(1) text_count_0_iff [OF assms(1)] by auto
    then show ?thesis unfolding expected_marks_def by (intro sum_list_nonneg) force
  qed
  have "0 < text_count mark new \<or> 0 < expected_marks mark es"
    using Cons e text_count_pos_iff [OF assms(1)] by auto
  then show ?case using z nn e by (auto simp: expected_marks_def)
qed simp

section \<open>The no-store overlay\<close>

definition ns_mark :: string where
  \<open>ns_mark = ''# [glm53-apc-no-store]''\<close>

definition ns_field_old :: string where
  \<open>ns_field_old = text_lines [
     ''    skip_reading_prefix_cache: bool | None = None'']\<close>

definition ns_field_new :: string where
  \<open>ns_field_new = text_lines [
     ''    skip_reading_prefix_cache: bool | None = None'',
     ''    skip_writing_prefix_cache: bool | None = None  # [glm53-apc-no-store]'',
     ''    """If True, this request's KV blocks are never inserted into the GPU'',
     ''    prefix cache (overlay/patch_apc_no_store.py). Lookups are unaffected: the'',
     ''    request may still read-hit. Its blocks stay unhashed, so'',
     ''    '' @ [CHR 0x60] @ [CHR 0x60] @ ''BlockPool.free_blocks'' @ [CHR 0x60] @ [CHR 0x60] @ '' recycles them LIFO from the front of the free'',
     ''    queue instead of queueing them behind -- and thereby evicting -- other'',
     ''    sessions' cached blocks. For one-off batch lanes whose prefix will never be'',
     ''    reused. Also reachable as '' @ [CHR 0x60] @ [CHR 0x60] @ ''vllm_xargs: {"skip_writing_prefix_cache": 1}'' @ [CHR 0x60] @ [CHR 0x60],
     ''    ('' @ [CHR 0x60] @ [CHR 0x60] @ ''extra_args'' @ [CHR 0x60] @ [CHR 0x60] @ ''); accepted values are bool, int 0/1 and str "0"/"1"'',
     ''    (pydantic coerces a JSON boolean in '' @ [CHR 0x60] @ [CHR 0x60] @ ''vllm_xargs'' @ [CHR 0x60] @ [CHR 0x60] @ '' to 1/0)."""'']\<close>

definition ns_class_anchor :: string where
  \<open>ns_class_anchor = text_lines [
     [],
     ''class SamplingParams('']\<close>

definition ns_helpers :: string where
  \<open>ns_helpers = text_lines [
     [],
     ''# [glm53-apc-no-store] helper-begin'',
     ''_GLM53_NO_STORE_KEY = "skip_writing_prefix_cache"'',
     ''_GLM53_NO_STORE_ENV = "GLM53_APC_NO_STORE"'',
     [],
     [],
     ''def _glm53_parse_no_store(value, where):  # [glm53-apc-no-store]'',
     ''    """Strict 0/1 parser for the per-request no-store flag.'',
     [],
     ''    Accepts bool, int 0/1 and str "0"/"1" -- nothing else. '' @ [CHR 0x60] @ [CHR 0x60] @ ''bool("0")'' @ [CHR 0x60] @ [CHR 0x60] @ '' is'',
     ''    True, floats are ambiguous, "yes"/"true" are not part of the contract, so'',
     ''    all of those raise ValueError (an HTTP 400 through the OpenAI server's'',
     ''    ValueError handler when raised from SamplingParams.__post_init__).'',
     ''    """'',
     ''    if isinstance(value, bool):'',
     ''        return value'',
     ''    if isinstance(value, int) and value in (0, 1):'',
     ''        return bool(value)'',
     ''    if isinstance(value, str) and value in ("0", "1"):'',
     ''        return value == "1"'',
     ''    raise ValueError('',
     ''        f"{where} must be 0 or 1 (int), '' @ [CHR 0x5C] @ ''"0'' @ [CHR 0x5C] @ ''"/'' @ [CHR 0x5C] @ ''"1'' @ [CHR 0x5C] @ ''" (str) or a JSON boolean; "'',
     ''        f"got {value!r}."'',
     ''    )'',
     [],
     [],
     ''def _glm53_no_store_env():  # [glm53-apc-no-store]'',
     ''    """GLM53_APC_NO_STORE: unset -> enabled; exactly "0"/"1"; else fail closed."""'',
     ''    import os as _os'',
     [],
     ''    raw = _os.environ.get(_GLM53_NO_STORE_ENV)'',
     ''    if raw is None:'',
     ''        return True'',
     ''    if raw in ("0", "1"):'',
     ''        return raw == "1"'',
     ''    raise ValueError('',
     ''        f"{_GLM53_NO_STORE_ENV} must be exactly 0 or 1 (got {raw!r}); "'',
     ''        "unset it to keep the per-request no-store flag honoured."'',
     ''    )'',
     [],
     [],
     ''_GLM53_NO_STORE_ENABLED = _glm53_no_store_env()'',
     [],
     [],
     ''def _glm53_validate_no_store_params(params):  # [glm53-apc-no-store]'',
     ''    """Reject a malformed flag where the request is still the client's.'',
     [],
     ''    Runs from '' @ [CHR 0x60] @ [CHR 0x60] @ ''SamplingParams.__post_init__'' @ [CHR 0x60] @ [CHR 0x60] @ '' -- i.e. in the API-server'',
     ''    process for /v1/chat/completions etc. ('' @ [CHR 0x60] @ [CHR 0x60] @ ''to_sampling_params'' @ [CHR 0x60] @ [CHR 0x60] @ '' ->'',
     ''    '' @ [CHR 0x60] @ [CHR 0x60] @ ''from_optional'' @ [CHR 0x60] @ [CHR 0x60] @ '') and in the caller's process for the offline '' @ [CHR 0x60] @ [CHR 0x60] @ ''LLM'' @ [CHR 0x60] @ [CHR 0x60],
     ''    API -- BEFORE the kill switch is consulted, so '' @ [CHR 0x60] @ [CHR 0x60] @ ''GLM53_APC_NO_STORE=0'' @ [CHR 0x60] @ [CHR 0x60],
     ''    never turns a typo into a silent no-op. The typed field is normalised to'',
     ''    a bool; '' @ [CHR 0x60] @ [CHR 0x60] @ ''extra_args'' @ [CHR 0x60] @ [CHR 0x60] @ '' is left as sent.'',
     ''    """'',
     ''    typed = params.skip_writing_prefix_cache'',
     ''    if typed is not None:'',
     ''        params.skip_writing_prefix_cache = _glm53_parse_no_store('',
     ''            typed, "SamplingParams.skip_writing_prefix_cache"'',
     ''        )'',
     ''    extra = params.extra_args'',
     ''    if extra and _GLM53_NO_STORE_KEY in extra:'',
     ''        _glm53_parse_no_store('',
     ''            extra[_GLM53_NO_STORE_KEY], 'vllm_xargs["skip_writing_prefix_cache"]'' @ [CHR 0x27],
     ''        )'',
     [],
     [],
     ''def _glm53_resolve_no_store(sampling_params, request_id):  # [glm53-apc-no-store]'',
     ''    """Engine-side resolution: typed field first, then '' @ [CHR 0x60] @ [CHR 0x60] @ ''extra_args'' @ [CHR 0x60] @ [CHR 0x60] @ ''.'',
     [],
     ''    Never raises: '' @ [CHR 0x60] @ [CHR 0x60] @ ''Request'' @ [CHR 0x60] @ [CHR 0x60] @ '' is materialised in the engine-core input thread'',
     ''    ('' @ [CHR 0x60] @ [CHR 0x60] @ ''EngineCore.preprocess_add_request'' @ [CHR 0x60] @ [CHR 0x60] @ ''), where an exception is not a'',
     ''    request-scoped error. A value that fails the strict parser here is'',
     ''    unreachable through the OpenAI API ('' @ [CHR 0x60] @ [CHR 0x60] @ ''_glm53_validate_no_store_params'' @ [CHR 0x60] @ [CHR 0x60],
     ''    already rejected it with a 400); if it happens anyway it is logged once and'',
     ''    the request stores normally. Malformed values are rejected BEFORE the kill'',
     ''    switch is applied; the switch only decides whether a valid 1 is honoured.'',
     ''    """'',
     ''    if sampling_params is None:'',
     ''        return False'',
     ''    raw = getattr(sampling_params, _GLM53_NO_STORE_KEY, None)'',
     ''    where = "SamplingParams.skip_writing_prefix_cache"'',
     ''    if raw is None:'',
     ''        extra = getattr(sampling_params, "extra_args", None)'',
     ''        if not extra or _GLM53_NO_STORE_KEY not in extra:'',
     ''            return False'',
     ''        raw = extra[_GLM53_NO_STORE_KEY]'',
     ''        where = 'vllm_xargs["skip_writing_prefix_cache"]'' @ [CHR 0x27],
     ''    try:'',
     ''        value = _glm53_parse_no_store(raw, where)'',
     ''    except ValueError as exc:'',
     ''        logger.warning('',
     ''            "[glm53-apc-no-store] %s -- request %s stores normally "'',
     ''            "(this value should have been rejected at the API boundary)",'',
     ''            exc,'',
     ''            request_id,'',
     ''        )'',
     ''        return False'',
     ''    if not value:'',
     ''        return False'',
     ''    # '' @ [CHR 0x60] @ [CHR 0x60] @ ''*_once'' @ [CHR 0x60] @ [CHR 0x60] @ '' is keyed on (msg, args): keep the request id OUT of the args'',
     ''    # so these really are one line per process; the per-request id is a debug'',
     ''    # line.'',
     ''    if not _GLM53_NO_STORE_ENABLED:'',
     ''        logger.info_once('',
     ''            "[glm53-apc-no-store] ignoring skip_writing_prefix_cache=1: "'',
     ''            "GLM53_APC_NO_STORE=0 (first occurrence; later ones not logged)"'',
     ''        )'',
     ''        logger.debug("[glm53-apc-no-store] ignored for request %s", request_id)'',
     ''        return False'',
     ''    logger.info_once('',
     ''        "[glm53-apc-no-store] first request resolved skip_writing_prefix_cache=1 "'',
     ''        "(lookups unaffected, prefix-cache stores suppressed; later "'',
     ''        "occurrences not logged)"'',
     ''    )'',
     ''    logger.debug("[glm53-apc-no-store] request %s is no-store", request_id)'',
     ''    return True'',
     ''# [glm53-apc-no-store] helper-end'',
     []]\<close>

definition ns_post_old :: string where
  \<open>ns_post_old = text_lines [
     ''            self.skip_reading_prefix_cache = self.prompt_logprobs is not None'']\<close>

definition ns_post_new :: string where
  \<open>ns_post_new = text_lines [
     ''            self.skip_reading_prefix_cache = self.prompt_logprobs is not None'',
     ''        _glm53_validate_no_store_params(self)  # [glm53-apc-no-store]'']\<close>

definition ns_resolve_old :: string where
  \<open>ns_resolve_old = text_lines [
     ''        self.skip_reading_prefix_cache = self.get_skip_reading_prefix_cache()'']\<close>

definition ns_resolve_new :: string where
  \<open>ns_resolve_new = text_lines [
     ''        self.skip_reading_prefix_cache = self.get_skip_reading_prefix_cache()'',
     ''        # [glm53-apc-no-store] write-side sibling; resolved once, never raises'',
     ''        self.skip_writing_prefix_cache = self.get_skip_writing_prefix_cache()'']\<close>

definition ns_method_old :: string where
  \<open>ns_method_old = text_lines [
     ''        return False'',
     [],
     ''    def is_finished(self) -> bool:'']\<close>

definition ns_method_new :: string where
  \<open>ns_method_new = text_lines [
     ''        return False'',
     [],
     ''    def get_skip_writing_prefix_cache(self) -> bool:  # [glm53-apc-no-store]'',
     ''        """Whether this request's blocks must never enter the prefix cache.'',
     [],
     ''        Typed '' @ [CHR 0x60] @ [CHR 0x60] @ ''SamplingParams.skip_writing_prefix_cache'' @ [CHR 0x60] @ [CHR 0x60] @ '' first, then'',
     ''        '' @ [CHR 0x60] @ [CHR 0x60] @ ''SamplingParams.extra_args'' @ [CHR 0x60] @ [CHR 0x60] @ '' (the '' @ [CHR 0x60] @ [CHR 0x60] @ ''vllm_xargs'' @ [CHR 0x60] @ [CHR 0x60] @ '' route). Strict 0/1'',
     ''        values; the kill switch GLM53_APC_NO_STORE=0 makes a valid 1 a logged'',
     ''        no-op. Never raises (see _glm53_resolve_no_store). PoolingParams are'',
     ''        out of scope (chat/completions only).'',
     ''        """'',
     ''        from vllm.sampling_params import _glm53_resolve_no_store'',
     [],
     ''        return _glm53_resolve_no_store(self.sampling_params, self.request_id)'',
     [],
     ''    def is_finished(self) -> bool:'']\<close>

definition ns_pool_anchor :: string where
  \<open>ns_pool_anchor = text_lines [
     [],
     ''class BlockPool:'']\<close>

definition ns_pool_helper :: string where
  \<open>ns_pool_helper = text_lines [
     [],
     ''def _glm53_log_nostore(request, site) -> None:  # [glm53-apc-no-store]'',
     ''    """Proof-of-life: log the first time a no-store request suppresses a store.'',
     [],
     ''    Pair with the resolution receipt logged by Request: that one proves the'',
     ''    flag reached the engine, this one proves the store path was cut. A warm'',
     ''    no-store request that has nothing new to store legitimately emits only'',
     ''    the first.'',
     ''    """'',
     ''    # '' @ [CHR 0x60] @ [CHR 0x60] @ ''info_once'' @ [CHR 0x60] @ [CHR 0x60] @ '' is keyed on (msg, args): the site is a bounded set (two'',
     ''    # values), the request id is deliberately not an arg.'',
     ''    logger.info_once('',
     ''        "[glm53-apc-no-store] suppressing prefix-cache store (%s site); "'',
     ''        "lookups still enabled; later occurrences not logged",'',
     ''        site,'',
     ''    )'',
     ''    logger.debug('',
     ''        "[glm53-apc-no-store] %s store suppressed for request %s",'',
     ''        site,'',
     ''        getattr(request, "request_id", "<unknown>"),'',
     ''    )'',
     []]\<close>

definition ns_full_old :: string where
  \<open>ns_full_old = text_lines [
     ''        if num_cached_blocks >= num_full_blocks:'',
     ''            return'',
     ''        new_full_blocks = blocks[num_cached_blocks:num_full_blocks]'']\<close>

definition ns_full_new :: string where
  \<open>ns_full_new = text_lines [
     ''        if num_cached_blocks >= num_full_blocks:'',
     ''            return'',
     ''        if getattr(request, "skip_writing_prefix_cache", False):  # [glm53-apc-no-store]'',
     ''            # No-store request: insert no hash, emit no BlockStored event.'',
     ''            # The caller (SingleTypeKVCacheManager.cache_blocks) still advances'',
     ''            # '' @ [CHR 0x60] @ [CHR 0x60] @ ''num_cached_block'' @ [CHR 0x60] @ [CHR 0x60] @ '' -- the running-request sentinel read at'',
     ''            # single_type_kv_cache_manager.py:196 and kv_cache_coordinator.py:241'',
     ''            # -- so allocation accounting is unchanged. These blocks keep'',
     ''            # '' @ [CHR 0x60] @ [CHR 0x60] @ ''block_hash is None'' @ [CHR 0x60] @ [CHR 0x60] @ '' and are recycled LIFO from the front of the'',
     ''            # free queue by '' @ [CHR 0x60] @ [CHR 0x60] @ ''free_blocks'' @ [CHR 0x60] @ [CHR 0x60] @ '' below, ahead of anything cached.'',
     ''            _glm53_log_nostore(request, "full")'',
     ''            return'',
     ''        new_full_blocks = blocks[num_cached_blocks:num_full_blocks]'']\<close>

definition ns_partial_old :: string where
  \<open>ns_partial_old = text_lines [
     ''        if block.is_null:'',
     ''            return None'',
     [],
     ''        assert block_size > self.hash_block_size'']\<close>

definition ns_partial_new :: string where
  \<open>ns_partial_new = text_lines [
     ''        if block.is_null:'',
     ''            return None'',
     ''        if getattr(request, "skip_writing_prefix_cache", False):  # [glm53-apc-no-store]'',
     ''            # No-store request: no partial entry. Returning None also stops'',
     ''            # MambaManager._cache_partial_tail_block from registering this'',
     ''            # request in '' @ [CHR 0x60] @ [CHR 0x60] @ ''_partial_hit_reqs'' @ [CHR 0x60] @ [CHR 0x60] @ '' as a partial-tail *producer*'',
     ''            # (single_type_kv_cache_manager.py:1865), which keeps'',
     ''            # get_num_blocks_to_allocate and allocate_new_blocks in agreement'',
     ''            # and keeps move_block_hashes unreachable for it. The *reader* side'',
     ''            # of the partial-hit CoW (add_local_computed_blocks:285-291) is'',
     ''            # untouched: lookups remain enabled for no-store requests.'',
     ''            _glm53_log_nostore(request, "partial")'',
     ''            return None'',
     [],
     ''        assert block_size > self.hash_block_size'']\<close>

definition ns_logger :: string where
  "ns_logger = text_lines [''logger = init_logger(__name__)'']"

definition ns_sampling_edits :: "edit list" where
  "ns_sampling_edits =
     [(''sampling-field'', ns_field_old, ns_field_new),
      (''sampling-helpers'', ns_class_anchor, ns_helpers @ ns_class_anchor),
      (''sampling-post-init'', ns_post_old, ns_post_new)]"

definition ns_request_edits :: "edit list" where
  "ns_request_edits =
     [(''request-resolve'', ns_resolve_old, ns_resolve_new),
      (''request-method'', ns_method_old, ns_method_new)]"

definition ns_pool_edits :: "edit list" where
  "ns_pool_edits =
     [(''block-pool-helper'', ns_pool_anchor, ns_pool_helper @ ns_pool_anchor),
      (''block-pool-full'', ns_full_old, ns_full_new),
      (''block-pool-partial'', ns_partial_old, ns_partial_new)]"

definition ns_plan :: "(string \<Rightarrow> bool) \<Rightarrow> string \<Rightarrow> string \<Rightarrow> string \<Rightarrow> plan" where
  "ns_plan parses sampling request pool =
     [(sampling, staged ns_mark ns_sampling_edits [ns_logger] parses),
      (request, staged ns_mark ns_request_edits [] parses),
      (pool, staged ns_mark ns_pool_edits [ns_logger] parses)]"

section \<open>The sparse-miss metric\<close>

definition sm_mark :: string where
  \<open>sm_mark = ''# [glm53-prefix-cache-sparse-miss-metric]''\<close>

definition sm_stats_old :: string where
  \<open>sm_stats_old = text_lines [
     ''    preempted_hits: int = 0'',
     ''    """The '' @ [CHR 0x60] @ ''hits'' @ [CHR 0x60] @ '' number for preempted requests."""'',
     [],
     ''    def record(self, num_tokens: int, num_hits: int, preempted: bool) -> None:'',
     ''        """Aggregate request information into the stats."""'',
     ''        if preempted:'']\<close>

definition sm_stats_new :: string where
  \<open>sm_stats_new = text_lines [
     ''    preempted_hits: int = 0'',
     ''    """The '' @ [CHR 0x60] @ ''hits'' @ [CHR 0x60] @ '' number for preempted requests."""'',
     [],
     ''    sparse_retention_misses: int = 0  # [glm53-prefix-cache-sparse-miss-metric]'',
     ''    """Tokens in a shared prefix matched by some KV cache group but not reused'',
     ''    because another participating group held no checkpoint at that position.'',
     ''    Counted for preempted and new requests alike."""'',
     [],
     ''    def record('',
     ''        self,'',
     ''        num_tokens: int,'',
     ''        num_hits: int,'',
     ''        preempted: bool,'',
     ''        sparse_retention_misses: int = 0,'',
     ''    ) -> None:'',
     ''        """Aggregate request information into the stats."""'',
     ''        self.sparse_retention_misses += sparse_retention_misses'',
     ''        if preempted:'']\<close>

definition sm_manager_old :: string where
  \<open>sm_manager_old = text_lines [
     ''        assert self.prefix_cache_stats is not None'',
     ''        self.prefix_cache_stats.record('',
     ''            num_tokens=request.num_tokens,'',
     ''            num_hits=num_hits,'',
     ''            preempted=request.num_preemptions > 0,'',
     ''        )'']\<close>

definition sm_manager_new :: string where
  \<open>sm_manager_new = text_lines [
     ''        assert self.prefix_cache_stats is not None'',
     ''        # The stored junction is the reconciled hit plus the shared prefix'',
     ''        # discarded by a lagging group. Record only the discarded suffix.'',
     ''        sparse_retention_misses = (  # [glm53-prefix-cache-sparse-miss-metric]'',
     ''            max(request.shared_prefix_boundary - num_hits, 0)'',
     ''            if request.shared_prefix_boundary'',
     ''            else 0'',
     ''        )'',
     ''        self.prefix_cache_stats.record('',
     ''            num_tokens=request.num_tokens,'',
     ''            num_hits=num_hits,'',
     ''            preempted=request.num_preemptions > 0,'',
     ''            sparse_retention_misses=sparse_retention_misses,'',
     ''        )'']\<close>

definition sm_counter_old :: string where
  \<open>sm_counter_old = text_lines [
     ''        self.counter_prefix_cache_hits = create_metric_per_engine('',
     ''            counter_prefix_cache_hits, per_engine_labelvalues'',
     ''        )'',
     [],
     ''        #'',
     ''        # External - KV connector prefix cache'']\<close>

definition sm_counter_new :: string where
  \<open>sm_counter_new = text_lines [
     ''        self.counter_prefix_cache_hits = create_metric_per_engine('',
     ''            counter_prefix_cache_hits, per_engine_labelvalues'',
     ''        )'',
     [],
     ''        counter_prefix_cache_sparse_retention_misses = self._counter_cls('',
     ''            name="vllm:prefix_cache_sparse_retention_misses",  # [glm53-prefix-cache-sparse-miss-metric]'',
     ''            documentation=('',
     ''                "Shared-prefix tokens matched by some KV cache group but not "'',
     ''                "reused because another participating group held no checkpoint "'',
     ''                "at that position."'',
     ''            ),'',
     ''            labelnames=labelnames,'',
     ''        )'',
     ''        self.counter_prefix_cache_sparse_retention_misses = ('',
     ''            create_metric_per_engine('',
     ''                counter_prefix_cache_sparse_retention_misses,'',
     ''                per_engine_labelvalues,'',
     ''            )'',
     ''        )'',
     [],
     ''        #'',
     ''        # External - KV connector prefix cache'']\<close>

definition sm_record_old :: string where
  \<open>sm_record_old = text_lines [
     ''            self.counter_prefix_cache_hits[engine_idx].inc('',
     ''                scheduler_stats.prefix_cache_stats.hits'',
     ''            )'',
     [],
     ''            if scheduler_stats.connector_prefix_cache_stats is not None:'']\<close>

definition sm_record_new :: string where
  \<open>sm_record_new = text_lines [
     ''            self.counter_prefix_cache_hits[engine_idx].inc('',
     ''                scheduler_stats.prefix_cache_stats.hits'',
     ''            )'',
     ''            self.counter_prefix_cache_sparse_retention_misses[engine_idx].inc('',
     ''                scheduler_stats.prefix_cache_stats.sparse_retention_misses'',
     ''            )  # [glm53-prefix-cache-sparse-miss-metric]'',
     [],
     ''            if scheduler_stats.connector_prefix_cache_stats is not None:'']\<close>

definition sm_admission :: string where
  \<open>sm_admission = text_lines [
     ''                # Record at admission so unscheduled lookups are not counted.'',
     ''                if did_prefix_cache_lookup:'',
     ''                    self.kv_cache_manager.record_prefix_cache_stats('',
     ''                        request, num_new_local_computed_tokens'',
     ''                    )'']\<close>

definition sm_alloc_exit :: string where
  \<open>sm_alloc_exit = text_lines [
     ''                if new_blocks is None:'',
     ''                    # The request cannot be scheduled.'',
     [],
     ''                    # NOTE: we need to untouch the request from the encode cache'',
     ''                    # manager'',
     ''                    if request.has_encoder_inputs:'',
     ''                        self.encoder_cache_manager.free(request)'',
     ''                    break'']\<close>

definition sm_enabled :: "string option \<Rightarrow> fault + bool" where
  "sm_enabled env = (case env of
       None \<Rightarrow> Inr True
     | Some raw \<Rightarrow> (if raw = ''0'' \<or> raw = ''1'' then Inr (raw = ''1'')
                    else Inl (Refused ''must be exactly 0 or 1'')))"

definition sm_plan :: "(string \<Rightarrow> bool) \<Rightarrow> string \<Rightarrow> string \<Rightarrow> string \<Rightarrow> plan" where
  "sm_plan parses stats manager loggers =
     [(stats, staged sm_mark [(''prefix-cache-stats'', sm_stats_old, sm_stats_new)]
        [text_lines [''@dataclass'', ''class PrefixCacheStats(BaseCacheStats):'']] parses),
      (manager, staged sm_mark [(''admission-stats'', sm_manager_old, sm_manager_new)]
        [text_lines [''def record_prefix_cache_stats(self, request: Request, num_hits: int) -> None:'']]
        parses),
      (loggers, staged sm_mark [(''prometheus-counter'', sm_counter_old, sm_counter_new),
         (''prometheus-record'', sm_record_old, sm_record_new)] [] parses)]"

definition sm_scheduler_ok :: "(string \<Rightarrow> bool) \<Rightarrow> string \<Rightarrow> fault option" where
  "sm_scheduler_ok parses s =
     (if \<not> parses s then Some Unparsable
      else if text_count sm_alloc_exit s \<noteq> 1
      then Some (Found ''allocation-failure exit'' (text_count sm_alloc_exit s))
      else if text_count sm_admission s \<noteq> 1
      then Some (Found ''admission-time stats call'' (text_count sm_admission s))
      else if the (find_text sm_alloc_exit s) > the (find_text sm_admission s)
      then Some (Refused ''stats not after allocation success'')
      else None)"

definition sm_main ::
  "string option \<Rightarrow> (string \<Rightarrow> bool) \<Rightarrow> string \<Rightarrow> string \<Rightarrow> string \<Rightarrow> string \<Rightarrow> files
   \<Rightarrow> files \<times> fault option" where
  "sm_main env parses sched stats manager loggers fs =
     (case sm_enabled env of
        Inl e \<Rightarrow> (fs, Some e)
      | Inr False \<Rightarrow> (fs, None)
      | Inr True \<Rightarrow>
          (case fs sched of
             None \<Rightarrow> (fs, Some MissingFile)
           | Some s \<Rightarrow>
               (case sm_scheduler_ok parses s of
                  Some e \<Rightarrow> (fs, Some e)
                | None \<Rightarrow> install_all (sm_plan parses stats manager loggers) fs)))"

section \<open>Contracts\<close>

lemma lines_no_mark: "lines_apart ls w \<Longrightarrow> \<not> contains w (text_lines ls)"
  using contains_touch [of w "text_lines ls"] lines_apart [of ls w]
  by (auto simp: apart_def lines_apart_def)

lemma ns_olds: "\<not> contains ns_mark ns_field_old" "\<not> contains ns_mark ns_class_anchor"
  "\<not> contains ns_mark ns_post_old" "\<not> contains ns_mark ns_resolve_old"
  "\<not> contains ns_mark ns_method_old" "\<not> contains ns_mark ns_pool_anchor"
  "\<not> contains ns_mark ns_full_old" "\<not> contains ns_mark ns_partial_old"
  unfolding ns_field_old_def ns_class_anchor_def ns_post_old_def ns_resolve_old_def
    ns_method_old_def ns_pool_anchor_def ns_full_old_def ns_partial_old_def
  by (rule lines_no_mark, code_simp)+

lemma ns_news: "contains ns_mark ns_post_new" "contains ns_mark ns_resolve_new"
  "contains ns_mark ns_full_new"
  unfolding ns_post_new_def ns_resolve_new_def ns_full_new_def
  by (rule contains_lines, code_simp)+

lemma ns_mark_nonempty [simp]: "ns_mark \<noteq> []"
  by (simp add: ns_mark_def)

lemma ns_expected:
  "0 < expected_marks ns_mark ns_sampling_edits" "0 < expected_marks ns_mark ns_request_edits"
  "0 < expected_marks ns_mark ns_pool_edits"
  by (rule expected_marks_pos; simp add: ns_sampling_edits_def ns_request_edits_def
      ns_pool_edits_def ns_olds ns_news)+

interpretation ns_sampling: marked_patch "staged ns_mark ns_sampling_edits req parses"
  "\<lambda>s. 0 < text_count ns_mark s" for req parses
  by (rule staged_marked_patch [OF ns_expected(1)])

interpretation ns_request: marked_patch "staged ns_mark ns_request_edits req parses"
  "\<lambda>s. 0 < text_count ns_mark s" for req parses
  by (rule staged_marked_patch [OF ns_expected(2)])

interpretation ns_pool: marked_patch "staged ns_mark ns_pool_edits req parses"
  "\<lambda>s. 0 < text_count ns_mark s" for req parses
  by (rule staged_marked_patch [OF ns_expected(3)])

lemma sm_olds: "\<not> contains sm_mark sm_stats_old" "\<not> contains sm_mark sm_manager_old"
  "\<not> contains sm_mark sm_counter_old" "\<not> contains sm_mark sm_record_old"
  unfolding sm_stats_old_def sm_manager_old_def sm_counter_old_def sm_record_old_def
  by (rule lines_no_mark, code_simp)+

lemma sm_news: "contains sm_mark sm_stats_new" "contains sm_mark sm_manager_new"
  "contains sm_mark sm_record_new"
  unfolding sm_stats_new_def sm_manager_new_def sm_record_new_def
  by (rule contains_lines, code_simp)+

lemma sm_mark_nonempty [simp]: "sm_mark \<noteq> []"
  by (simp add: sm_mark_def)

lemma sm_expected:
  "0 < expected_marks sm_mark [(''prefix-cache-stats'', sm_stats_old, sm_stats_new)]"
  "0 < expected_marks sm_mark [(''admission-stats'', sm_manager_old, sm_manager_new)]"
  "0 < expected_marks sm_mark [(''prometheus-counter'', sm_counter_old, sm_counter_new),
         (''prometheus-record'', sm_record_old, sm_record_new)]"
  by (rule expected_marks_pos; simp add: sm_olds sm_news)+

interpretation sm_stats: marked_patch
  "staged sm_mark [(''prefix-cache-stats'', sm_stats_old, sm_stats_new)] req parses"
  "\<lambda>s. 0 < text_count sm_mark s" for req parses
  by (rule staged_marked_patch [OF sm_expected(1)])

interpretation sm_manager: marked_patch
  "staged sm_mark [(''admission-stats'', sm_manager_old, sm_manager_new)] req parses"
  "\<lambda>s. 0 < text_count sm_mark s" for req parses
  by (rule staged_marked_patch [OF sm_expected(2)])

interpretation sm_loggers: marked_patch
  "staged sm_mark [(''prometheus-counter'', sm_counter_old, sm_counter_new),
         (''prometheus-record'', sm_record_old, sm_record_new)] req parses"
  "\<lambda>s. 0 < text_count sm_mark s" for req parses
  by (rule staged_marked_patch [OF sm_expected(3)])

section \<open>All or nothing\<close>

text \<open>Running a plan again on its own result: every file already carries the marker.\<close>

lemma stage_frozen:
  assumes "\<forall>(p, f)\<in>set ps. \<exists>m s. marked_patch f m \<and> fs p = Some s \<and> m s" "stage ps fs = Inr ws"
  shows "ws = []"
  using assms
proof (induction ps arbitrary: ws)
  case (Cons pf ps)
  obtain p f where pf: "pf = (p, f)" by force
  then obtain m s where m: "marked_patch f m" "fs p = Some s" "m s" using Cons.prems(1) by auto
  then show ?case using Cons pf marked_patch.marked_frozen [OF m(1,3)]
    by (auto split: sum.splits)
qed simp

lemma install_all_frozen:
  assumes "\<forall>(p, f)\<in>set ps. \<exists>m s. marked_patch f m \<and> fs p = Some s \<and> m s"
  shows "fst (install_all ps fs) = fs"
  using stage_frozen [OF assms] by (auto simp: install_all_def commit_def split: sum.splits)

lemma install_all_marks:
  assumes "install_all ps fs = (fs', None)" "distinct (map fst ps)" "(p, f) \<in> set ps" "marked_patch f m"
  shows "\<exists>u. fs' p = Some u \<and> m u"
  using install_all_success [OF assms(1-3)] marked_patch.success_marked [OF assms(4)] by blast

text \<open>The no-store installer is all or nothing.  A failing run has written nothing.  After a
  successful one each of the three files carries exactly the expected number of markers
  and parses, no other file has changed, and a second run writes nothing.\<close>

theorem no_store_install:
  assumes "install_all (ns_plan P sp rq bp) fs = (fs', r)" "distinct [sp, rq, bp]"
  shows "(r \<noteq> None \<longrightarrow> fs' = fs)
    \<and> (\<forall>p. p \<notin> {sp, rq, bp} \<longrightarrow> fs' p = fs p)
    \<and> (r = None \<longrightarrow>
        (\<forall>(p, es)\<in>{(sp, ns_sampling_edits), (rq, ns_request_edits), (bp, ns_pool_edits)}.
           \<exists>u. fs' p = Some u \<and> int (text_count ns_mark u) = expected_marks ns_mark es \<and> P u)
        \<and> fst (install_all (ns_plan P sp rq bp) fs') = fs')"
proof (intro conjI)
  show "r \<noteq> None \<longrightarrow> fs' = fs" using assms(1) install_all_failure by blast
  show "\<forall>p. p \<notin> {sp, rq, bp} \<longrightarrow> fs' p = fs p"
    using install_all_frame [OF assms(1)] by (auto simp: ns_plan_def)
  show "r = None \<longrightarrow>
        (\<forall>(p, es)\<in>{(sp, ns_sampling_edits), (rq, ns_request_edits), (bp, ns_pool_edits)}.
           \<exists>u. fs' p = Some u \<and> int (text_count ns_mark u) = expected_marks ns_mark es \<and> P u)
        \<and> fst (install_all (ns_plan P sp rq bp) fs') = fs'"
  proof
    assume r: "r = None"
    have d: "distinct (map fst (ns_plan P sp rq bp))" using assms(2) by (simp add: ns_plan_def)
    have one: "\<exists>u. fs' p = Some u \<and> int (text_count ns_mark u) = expected_marks ns_mark es \<and> P u"
      if "(p, staged ns_mark es req P) \<in> set (ns_plan P sp rq bp)" for p es req
      using install_all_success [OF assms(1) [unfolded r] d that] staged_Inr by blast
    have all: "\<forall>(p, es)\<in>{(sp, ns_sampling_edits), (rq, ns_request_edits), (bp, ns_pool_edits)}.
           \<exists>u. fs' p = Some u \<and> int (text_count ns_mark u) = expected_marks ns_mark es \<and> P u"
      using one by (auto simp: ns_plan_def)
    have mk: "\<exists>m s. marked_patch f m \<and> fs' p = Some s \<and> m s"
      if "(p, f) \<in> set (ns_plan P sp rq bp)" "marked_patch f m" for p f m
      using install_all_marks [OF assms(1) [unfolded r] d that] that(2) by blast
    have "\<forall>(p, f)\<in>set (ns_plan P sp rq bp). \<exists>m s. marked_patch f m \<and> fs' p = Some s \<and> m s"
      using mk [OF _ ns_sampling.marked_patch_axioms] mk [OF _ ns_request.marked_patch_axioms]
        mk [OF _ ns_pool.marked_patch_axioms] by (simp add: ns_plan_def)
    from install_all_frozen [OF this] all
    show "(\<forall>(p, es)\<in>{(sp, ns_sampling_edits), (rq, ns_request_edits), (bp, ns_pool_edits)}.
           \<exists>u. fs' p = Some u \<and> int (text_count ns_mark u) = expected_marks ns_mark es \<and> P u)
        \<and> fst (install_all (ns_plan P sp rq bp) fs') = fs'" by blast
  qed
qed

section \<open>The theorem on synthetic files\<close>

text \<open>The files are made of the anchors alone; the anchors that open with a blank line come
  first.\<close>

definition l_field :: string where
  "l_field = ''    skip_reading_prefix_cache: bool | None = None''"

definition l_post :: string where
  "l_post = ''            self.skip_reading_prefix_cache = self.prompt_logprobs''"

definition l_resolve :: string where
  "l_resolve = ''        self.skip_reading_prefix_cache = self.get_skip_reading''"

definition l_method :: string where
  "l_method = ''        return False''"

definition l_logger :: string where
  "l_logger = ''logger = init_logger(__name__)''"

definition l_class :: string where
  "l_class = ''class SamplingParams(''"

definition l_pool :: string where
  "l_pool = ''class BlockPool:''"

definition l_full :: string where
  "l_full = ''        if num_cached_blocks >= num_full_blocks:''"

definition l_partial :: string where
  "l_partial = ''        if block.is_null:''"

lemmas ns_defs = ns_logger_def ns_field_old_def ns_field_new_def ns_class_anchor_def ns_helpers_def
  ns_post_old_def ns_post_new_def ns_resolve_old_def ns_resolve_new_def ns_method_old_def
  ns_pool_anchor_def ns_pool_helper_def ns_full_old_def ns_full_new_def ns_partial_old_def
  ns_partial_new_def

lemmas ns_line_defs = l_field_def l_post_def l_resolve_def l_method_def l_logger_def l_class_def
  l_pool_def l_full_def l_partial_def

lemma ns_words [simp]:
  "l_field \<noteq> []" "l_post \<noteq> []" "l_resolve \<noteq> []" "l_method \<noteq> []" "l_logger \<noteq> []"
  "l_class \<noteq> []" "l_pool \<noteq> []" "l_full \<noteq> []" "l_partial \<noteq> []"
  "newline \<notin> set l_field" "newline \<notin> set l_post" "newline \<notin> set l_resolve"
  "newline \<notin> set l_method" "newline \<notin> set l_logger" "newline \<notin> set l_class"
  "newline \<notin> set l_pool" "newline \<notin> set l_full" "newline \<notin> set l_partial"
  "newline \<notin> set ns_mark"
  by (simp_all add: ns_line_defs newline_def ns_mark_def)

lemma clear_sampling:
  "clear l_field ns_class_anchor" "clear l_field ns_logger" "clear l_field ns_post_old"
  "clear l_class ns_logger" "clear l_class ns_field_new" "clear l_class ns_post_old"
  "clear l_post ns_helpers" "clear l_post ns_class_anchor" "clear l_post ns_logger"
  "clear l_post ns_field_new"
  "clear l_logger ns_class_anchor" "clear l_logger ns_field_old" "clear l_logger ns_post_old"
  unfolding ns_defs ns_line_defs by (rule clear_lines, code_simp)+

lemma clear_request:
  "clear l_resolve ns_method_old" "clear l_method ns_resolve_new"
  unfolding ns_defs ns_line_defs by (rule clear_lines, code_simp)+

lemma clear_pool:
  "clear l_pool ns_logger" "clear l_pool ns_full_old" "clear l_pool ns_partial_old"
  "clear l_full ns_pool_helper" "clear l_full ns_pool_anchor" "clear l_full ns_logger"
  "clear l_full ns_partial_old"
  "clear l_partial ns_pool_helper" "clear l_partial ns_pool_anchor" "clear l_partial ns_logger"
  "clear l_partial ns_full_new"
  "clear l_logger ns_pool_anchor" "clear l_logger ns_full_old" "clear l_logger ns_partial_old"
  unfolding ns_defs ns_line_defs by (rule clear_lines, code_simp)+

lemma mark_sum [simp]:
  "text_count ns_mark (ns_logger @ b) = text_count ns_mark b"
  "text_count ns_mark (ns_field_old @ b) = text_count ns_mark b"
  "text_count ns_mark (ns_class_anchor @ b) = text_count ns_mark b"
  "text_count ns_mark (ns_resolve_old @ b) = text_count ns_mark b"
  "text_count ns_mark (ns_pool_anchor @ b) = text_count ns_mark b"
  "text_count ns_mark (ns_full_old @ b) = text_count ns_mark b"
  "text_count ns_mark ns_field_old = 0" "text_count ns_mark ns_class_anchor = 0"
  "text_count ns_mark ns_post_old = 0" "text_count ns_mark ns_resolve_old = 0"
  "text_count ns_mark ns_method_old = 0" "text_count ns_mark ns_pool_anchor = 0"
  "text_count ns_mark ns_full_old = 0" "text_count ns_mark ns_partial_old = 0"
proof -
  have l: "\<not> contains ns_mark ns_logger"
    unfolding ns_logger_def by (rule lines_no_mark) code_simp
  note z = text_count_0_iff [OF ns_mark_nonempty]
  show "text_count ns_mark ns_field_old = 0" "text_count ns_mark ns_class_anchor = 0"
  "text_count ns_mark ns_post_old = 0" "text_count ns_mark ns_resolve_old = 0"
  "text_count ns_mark ns_method_old = 0" "text_count ns_mark ns_pool_anchor = 0"
  "text_count ns_mark ns_full_old = 0" "text_count ns_mark ns_partial_old = 0"
    using z ns_olds by auto
  have app: "text_count ns_mark (x @ b) = text_count ns_mark b"
    if "\<not> contains ns_mark x" "\<exists>ls. x = text_lines ls" for x
    using that z text_count_lines_append [of ns_mark] by auto
  show "text_count ns_mark (ns_logger @ b) = text_count ns_mark b"
    by (rule app [OF l]) (auto simp only: ns_logger_def)
  show "text_count ns_mark (ns_field_old @ b) = text_count ns_mark b"
    by (rule app [OF ns_olds(1)]) (auto simp only: ns_field_old_def)
  show "text_count ns_mark (ns_class_anchor @ b) = text_count ns_mark b"
    by (rule app [OF ns_olds(2)]) (auto simp only: ns_class_anchor_def)
  show "text_count ns_mark (ns_resolve_old @ b) = text_count ns_mark b"
    by (rule app [OF ns_olds(4)]) (auto simp only: ns_resolve_old_def)
  show "text_count ns_mark (ns_pool_anchor @ b) = text_count ns_mark b"
    by (rule app [OF ns_olds(6)]) (auto simp only: ns_pool_anchor_def)
  show "text_count ns_mark (ns_full_old @ b) = text_count ns_mark b"
    by (rule app [OF ns_olds(7)]) (auto simp only: ns_full_old_def)
qed

lemma mark_split [simp]:
  "text_count ns_mark (ns_field_new @ b) = text_count ns_mark ns_field_new + text_count ns_mark b"
  "text_count ns_mark (ns_helpers @ b) = text_count ns_mark ns_helpers + text_count ns_mark b"
  "text_count ns_mark (ns_resolve_new @ b) = text_count ns_mark ns_resolve_new + text_count ns_mark b"
  "text_count ns_mark (ns_pool_helper @ b) = text_count ns_mark ns_pool_helper + text_count ns_mark b"
  "text_count ns_mark (ns_full_new @ b) = text_count ns_mark ns_full_new + text_count ns_mark b"
  unfolding ns_field_new_def ns_helpers_def ns_resolve_new_def ns_pool_helper_def ns_full_new_def
  by (rule text_count_lines_append; simp)+

lemma staged_fresh:
  assumes "text_count mark s = 0" "\<forall>r\<in>set req. text_count r s = 1" "apply_edits es s = Inr u"
    "int (text_count mark u) = expected_marks mark es"
  shows "staged mark es req (\<lambda>_. True) s = Inr u"
  using assms by (simp add: staged_def preflight_def Let_def)

definition demo_sampling :: string where
  "demo_sampling = ns_class_anchor @ ns_logger @ ns_field_old @ ns_post_old"

lemma demo_sampling_staged:
  "staged ns_mark ns_sampling_edits [ns_logger] (\<lambda>_. True) demo_sampling =
     Inr (ns_helpers @ ns_class_anchor @ ns_logger @ ns_field_new @ ns_post_new)"
proof (rule staged_fresh)
  show "text_count ns_mark demo_sampling = 0" by (simp add: demo_sampling_def)
  show "\<forall>r\<in>set [ns_logger]. text_count r demo_sampling = 1"
    using replace_once_prefix(2) [of ns_logger l_logger "[newline]" ns_class_anchor
        "ns_field_old @ ns_post_old"]
    by (simp add: demo_sampling_def ns_logger_def l_logger_def [symmetric] clear_append clear_sampling)
  have 1: "replace_once ''sampling-field'' ns_field_old ns_field_new
      ((ns_class_anchor @ ns_logger) @ ns_field_old @ ns_post_old)
      = Inr ((ns_class_anchor @ ns_logger) @ ns_field_new @ ns_post_old)"
    by (rule replace_once_prefix(1) [of _ l_field "[newline]"])
       (simp_all add: clear_append clear_sampling, simp add: ns_field_old_def l_field_def)
  have ne: "ns_class_anchor \<noteq> []" by (simp add: ns_class_anchor_def)
  have "\<not> contains l_class (ns_logger @ ns_field_new @ ns_post_old)"
    using clear_not_contains [of l_class "ns_logger @ ns_field_new @ ns_post_old" "[]"]
    by (simp add: clear_append clear_sampling)
  moreover have "contains l_class ns_class_anchor"
    unfolding ns_class_anchor_def l_class_def by (rule contains_lines) simp
  ultimately have "\<not> contains ns_class_anchor (ns_logger @ ns_field_new @ ns_post_old)"
    using contains_trans by blast
  then have 2: "replace_once ''sampling-helpers'' ns_class_anchor (ns_helpers @ ns_class_anchor)
      (ns_class_anchor @ ns_logger @ ns_field_new @ ns_post_old)
      = Inr ((ns_helpers @ ns_class_anchor) @ ns_logger @ ns_field_new @ ns_post_old)"
    using text_count_0_iff [OF ne]
    by (simp add: replace_once_Inr text_count_here [OF ne] replace_first_here [OF ne])
  have 3: "replace_once ''sampling-post-init'' ns_post_old ns_post_new
      ((ns_helpers @ ns_class_anchor @ ns_logger @ ns_field_new) @ ns_post_old @ [])
      = Inr ((ns_helpers @ ns_class_anchor @ ns_logger @ ns_field_new) @ ns_post_new @ [])"
    by (rule replace_once_prefix(1) [of _ l_post "'' is not None'' @ [newline]"])
       (simp_all add: clear_append clear_sampling, simp add: ns_post_old_def l_post_def)
  show "apply_edits ns_sampling_edits demo_sampling =
     Inr (ns_helpers @ ns_class_anchor @ ns_logger @ ns_field_new @ ns_post_new)"
    using 1 2 3 by (simp add: ns_sampling_edits_def demo_sampling_def)
  show "int (text_count ns_mark (ns_helpers @ ns_class_anchor @ ns_logger @ ns_field_new @ ns_post_new))
      = expected_marks ns_mark ns_sampling_edits"
    by (simp add: expected_marks_def ns_sampling_edits_def)
qed

lemma demo_request_staged:
  "staged ns_mark ns_request_edits [] (\<lambda>_. True) (ns_resolve_old @ ns_method_old) =
     Inr (ns_resolve_new @ ns_method_new)"
proof (rule staged_fresh)
  have 1: "replace_once ''request-resolve'' ns_resolve_old ns_resolve_new ([] @ ns_resolve_old @ ns_method_old)
      = Inr ([] @ ns_resolve_new @ ns_method_old)"
    by (rule replace_once_prefix(1) [of _ l_resolve "''_prefix_cache()'' @ [newline]"])
       (simp_all add: clear_request, simp add: ns_resolve_old_def l_resolve_def)
  have "\<exists>r. ns_method_old = l_method @ r" by (simp add: ns_method_old_def l_method_def)
  then obtain r where r: "ns_method_old = l_method @ r" by blast
  have 2: "replace_once ''request-method'' ns_method_old ns_method_new (ns_resolve_new @ ns_method_old @ [])
      = Inr (ns_resolve_new @ ns_method_new @ [])"
    by (rule replace_once_prefix(1) [OF r]) (simp_all add: clear_request)
  show "apply_edits ns_request_edits (ns_resolve_old @ ns_method_old) = Inr (ns_resolve_new @ ns_method_new)"
    using 1 2 by (simp add: ns_request_edits_def)
qed (simp_all add: expected_marks_def ns_request_edits_def)

lemma demo_pool_staged:
  "staged ns_mark ns_pool_edits [ns_logger] (\<lambda>_. True)
      (ns_pool_anchor @ ns_logger @ ns_full_old @ ns_partial_old) =
     Inr (ns_pool_helper @ ns_pool_anchor @ ns_logger @ ns_full_new @ ns_partial_new)"
proof (rule staged_fresh)
  let ?s = "ns_pool_anchor @ ns_logger @ ns_full_old @ ns_partial_old"
  show "\<forall>r\<in>set [ns_logger]. text_count r ?s = 1"
    using replace_once_prefix(2) [of ns_logger l_logger "[newline]" ns_pool_anchor
        "ns_full_old @ ns_partial_old"]
    by (simp add: ns_logger_def l_logger_def [symmetric] clear_append clear_pool)
  have ne: "ns_pool_anchor \<noteq> []" by (simp add: ns_pool_anchor_def)
  have "\<not> contains l_pool (ns_logger @ ns_full_old @ ns_partial_old)"
    using clear_not_contains [of l_pool "ns_logger @ ns_full_old @ ns_partial_old" "[]"]
    by (simp add: clear_append clear_pool)
  moreover have "contains l_pool ns_pool_anchor"
    unfolding ns_pool_anchor_def l_pool_def by (rule contains_lines) simp
  ultimately have "\<not> contains ns_pool_anchor (ns_logger @ ns_full_old @ ns_partial_old)"
    using contains_trans by blast
  then have 1: "replace_once ''block-pool-helper'' ns_pool_anchor (ns_pool_helper @ ns_pool_anchor) ?s
      = Inr ((ns_pool_helper @ ns_pool_anchor) @ ns_logger @ ns_full_old @ ns_partial_old)"
    using text_count_0_iff [OF ne]
    by (simp add: replace_once_Inr text_count_here [OF ne] replace_first_here [OF ne])
  have "\<exists>r. ns_full_old = l_full @ r" "\<exists>r. ns_partial_old = l_partial @ r"
    by (simp_all add: ns_full_old_def l_full_def ns_partial_old_def l_partial_def)
  then obtain r q where r: "ns_full_old = l_full @ r" and q: "ns_partial_old = l_partial @ q" by blast
  have 2: "replace_once ''block-pool-full'' ns_full_old ns_full_new
      ((ns_pool_helper @ ns_pool_anchor @ ns_logger) @ ns_full_old @ ns_partial_old)
      = Inr ((ns_pool_helper @ ns_pool_anchor @ ns_logger) @ ns_full_new @ ns_partial_old)"
    by (rule replace_once_prefix(1) [OF r]) (simp_all add: clear_append clear_pool)
  have 3: "replace_once ''block-pool-partial'' ns_partial_old ns_partial_new
      ((ns_pool_helper @ ns_pool_anchor @ ns_logger @ ns_full_new) @ ns_partial_old @ [])
      = Inr ((ns_pool_helper @ ns_pool_anchor @ ns_logger @ ns_full_new) @ ns_partial_new @ [])"
    by (rule replace_once_prefix(1) [OF q]) (simp_all add: clear_append clear_pool)
  show "apply_edits ns_pool_edits ?s =
     Inr (ns_pool_helper @ ns_pool_anchor @ ns_logger @ ns_full_new @ ns_partial_new)"
    using 1 2 3 by (simp add: ns_pool_edits_def)
qed (simp_all add: expected_marks_def ns_pool_edits_def)

lemma no_store_install_witness:
  "\<exists>fs fs'. install_all (ns_plan (\<lambda>_. True) ''sp'' ''rq'' ''bp'') fs = (fs', None)
     \<and> fst (install_all (ns_plan (\<lambda>_. True) ''sp'' ''rq'' ''bp'') fs') = fs'
     \<and> (\<exists>u. fs' ''sp'' = Some u
          \<and> int (text_count ns_mark u) = expected_marks ns_mark ns_sampling_edits)"
proof -
  let ?fs = "[''sp'' \<mapsto> demo_sampling, ''rq'' \<mapsto> ns_resolve_old @ ns_method_old,
      ''bp'' \<mapsto> ns_pool_anchor @ ns_logger @ ns_full_old @ ns_partial_old]"
  have "\<exists>ws. stage (ns_plan (\<lambda>_. True) ''sp'' ''rq'' ''bp'') ?fs = Inr ws"
    by (simp add: ns_plan_def demo_sampling_staged demo_request_staged demo_pool_staged)
  then obtain fs' where i: "install_all (ns_plan (\<lambda>_. True) ''sp'' ''rq'' ''bp'') ?fs = (fs', None)"
    by (auto simp: install_all_def)
  have d: "distinct [''sp'', ''rq'', ''bp'']" by simp
  note t = no_store_install [OF i d]
  have f: "fst (install_all (ns_plan (\<lambda>_. True) ''sp'' ''rq'' ''bp'') fs') = fs'"
    using t by blast
  have g: "\<exists>u. fs' ''sp'' = Some u
          \<and> int (text_count ns_mark u) = expected_marks ns_mark ns_sampling_edits"
    using bspec [OF t [THEN conjunct2, THEN conjunct2, THEN mp, OF refl, THEN conjunct1],
        of "(''sp'', ns_sampling_edits)"] by simp
  show ?thesis
    by (rule exI [where x = ?fs], rule exI [where x = fs'], rule conjI [OF i conjI [OF f g]])
qed

end
