(* ===== verification/Patch_Backends.thy ===== *)
theory Patch_Backends
  imports Patch_Engine
begin

text \<open>
  The installers of \<open>vllm-exl3/overlay\<close> that edit one file of a backend each:
  \<open>patch_xgrammar_termination.py\<close> (two files), \<open>patch_kpool_tail_slotmap.py\<close>,
  \<open>patch_spinwait.py\<close> and \<open>patch_suppress_stops_in_reasoning.py\<close>.  The anchors are the
  texts of the source.  What the installed fragments compute is in \<open>Grammar_Gate\<close>,
  \<open>Kpool_Slots\<close> and \<open>Stop_Guard\<close>.
\<close>

section \<open>Grammar termination\<close>

definition xg_backend_mark :: string where
  \<open>xg_backend_mark = text_lines [
     ''    # [glm53-xgrammar-termination] Source-exact vLLM 12f64b39 backport.'']\<close>

definition xg_manager_mark :: string where
  \<open>xg_manager_mark = text_lines [
     ''                    # [glm53-xgrammar-reasoning] Source-exact vLLM c6e19b3 backport.'']\<close>

definition xg_accept_old :: string where
  \<open>xg_accept_old = text_lines [
     ''    def accept_tokens(self, request_id: str, tokens: list[int]) -> bool:'',
     ''        """Accepts a list of tokens and advances the FSM.'',
     [],
     ''        Returns True if the FSM was advanced successfully.'',
     ''        Returns False if the FSM failed to advance.'',
     ''        """'',
     ''        if self._is_terminated:'',
     ''            return False'',
     ''        for token in tokens:'',
     ''            if not self.matcher.accept_token(token):'',
     ''                logger.error('',
     ''                    "Failed to advance FSM for request %s "'',
     ''                    "for tokens %s. Please file an issue.",'',
     ''                    request_id,'',
     ''                    token,'',
     ''                )'',
     ''                return False'',
     ''            self.num_processed_tokens += 1'',
     ''        self._is_terminated = self.matcher.is_terminated()'',
     ''        return True'']\<close>

definition xg_accept_new :: string where
  \<open>xg_accept_new = text_lines [
     ''    def accept_tokens(self, request_id: str, tokens: list[int]) -> bool:'',
     ''        """Accepts a list of tokens and advances the FSM.'',
     [],
     ''        Returns True if all grammar-constrained tokens were accepted.'',
     ''        Tokens after termination are ignored. Returns False if the FSM'',
     ''        failed to advance.'',
     ''        """'',
     ''        if self._is_terminated:'',
     ''            return True'',
     ''        for token in tokens:'',
     ''            if not self.matcher.accept_token(token):'',
     ''                logger.error('',
     ''                    "Failed to advance FSM for request %s "'',
     ''                    "for tokens %s. Please file an issue.",'',
     ''                    request_id,'',
     ''                    token,'',
     ''                )'',
     ''                return False'',
     ''            self.num_processed_tokens += 1'',
     ''            self._is_terminated = self.matcher.is_terminated()'',
     ''            if self._is_terminated:'',
     ''                break'',
     ''        return True'']\<close>

definition xg_validate_old :: string where
  \<open>xg_validate_old = text_lines [
     ''    def validate_tokens(self, tokens: list[int]) -> list[int]:'',
     ''        """Checks if the list of tokens are accepted by the FSM in sequence.'',
     ''        Will not advance the FSM.'',
     [],
     ''        Returns the prefix list of tokens that are accepted by the FSM.'',
     ''        """'',
     ''        accepted_tokens = []'',
     ''        for token in tokens:'',
     ''            if self.matcher.accept_token(token):'',
     ''                accepted_tokens.append(token)'',
     ''            else:'',
     ''                break'',
     ''        if len(accepted_tokens) > 0:'',
     ''            # Rollback the FSM to the initial state'',
     ''            self.matcher.rollback(len(accepted_tokens))'',
     ''        return accepted_tokens'']\<close>

definition xg_validate_new :: string where
  \<open>xg_validate_new = text_lines [
     ''    def validate_tokens(self, tokens: list[int]) -> list[int]:'',
     ''        """Checks if the list of tokens are accepted by the FSM in sequence.'',
     ''        Will not advance the FSM.'',
     [],
     ''        Returns the prefix list of tokens that are accepted by the FSM.'',
     ''        """'',
     ''        if self._is_terminated:'',
     ''            return []'',
     [],
     ''        accepted_tokens = []'',
     ''        for token in tokens:'',
     ''            if self.matcher.accept_token(token):'',
     ''                accepted_tokens.append(token)'',
     ''                if self.matcher.is_terminated():'',
     ''                    break'',
     ''            else:'',
     ''                break'',
     ''        if len(accepted_tokens) > 0:'',
     ''            # Rollback the FSM to the initial state'',
     ''            self.matcher.rollback(len(accepted_tokens))'',
     ''        return accepted_tokens'']\<close>

definition xg_reset_old :: string where
  \<open>xg_reset_old = text_lines [
     ''    def reset(self):'',
     ''        self.num_processed_tokens = 0'',
     ''        self.matcher.reset()'']\<close>

definition xg_reset_new :: string where
  \<open>xg_reset_new = text_lines [
     ''    def reset(self):'',
     ''        self.matcher.reset()'',
     ''        self.num_processed_tokens = 0'',
     ''        self._is_terminated = False'']\<close>

definition xg_manager_old :: string where
  \<open>xg_manager_old = text_lines [
     ''                    if advance_grammar and not grammar.is_terminated():'',
     ''                        accepted = grammar.accept_tokens(req_id, [token])'',
     ''                        if accepted:'',
     ''                            state_advancements += 1'',
     ''                        elif not post_reasoning_end_in_window:'',
     ''                            raise AssertionError('',
     ''                                (token, req_id, scheduled_spec_decode_tokens)'',
     ''                            )'']\<close>

definition xg_manager_new :: string where
  \<open>xg_manager_new = text_lines [
     ''                    if advance_grammar and not grammar.is_terminated():'',
     ''                        if post_reasoning_end_in_window:'',
     ''                            accepted = bool(grammar.validate_tokens([token]))'',
     ''                            if accepted:'',
     ''                                accepted = grammar.accept_tokens(req_id, [token])'',
     ''                        else:'',
     ''                            accepted = grammar.accept_tokens(req_id, [token])'',
     ''                        if accepted:'',
     ''                            state_advancements += 1'',
     ''                        elif not post_reasoning_end_in_window:'',
     ''                            raise AssertionError('',
     ''                                (token, req_id, scheduled_spec_decode_tokens)'',
     ''                            )'']\<close>

definition backend_counts :: "string \<Rightarrow> nat list \<times> nat list" where
  "backend_counts s =
     (map (\<lambda>x. text_count x s) [xg_accept_old, xg_validate_old, xg_reset_old],
      map (\<lambda>x. text_count x s) [xg_accept_new, xg_validate_new, xg_reset_new])"

definition verified_backend_state :: "string \<Rightarrow> bool" where
  "verified_backend_state s \<longleftrightarrow> backend_counts s = ([0, 0, 0], [1, 1, 1])"

definition verified_manager_state :: "string \<Rightarrow> bool" where
  "verified_manager_state s \<longleftrightarrow> text_count xg_manager_old s = 0 \<and> text_count xg_manager_new s = 1"

definition prepare_backend :: "string \<Rightarrow> fault + string" where
  "prepare_backend s =
     (let marker = text_count xg_backend_mark s in
      if marker \<noteq> 0 then
        (if marker \<noteq> 1 \<or> \<not> verified_backend_state s then Inl (Refused ''partial/inconsistent'')
         else Inr s)
      else if verified_backend_state s then Inr s
      else if backend_counts s \<noteq> ([1, 1, 1], [0, 0, 0]) then Inl (Refused ''anchors drifted'')
      else (let u = replace_first xg_reset_old xg_reset_new
                     (replace_first xg_validate_old xg_validate_new
                       (replace_first xg_accept_old (xg_backend_mark @ xg_accept_new) s)) in
            if \<not> verified_backend_state u \<or> text_count xg_backend_mark u \<noteq> 1
            then Inl (Refused ''post-patch verification'') else Inr u))"

definition prepare_manager :: "string \<Rightarrow> fault + string" where
  "prepare_manager s =
     (let marker = text_count xg_manager_mark s in
      if marker \<noteq> 0 then
        (if marker \<noteq> 1 \<or> \<not> verified_manager_state s then Inl (Refused ''partial/inconsistent'')
         else Inr s)
      else if verified_manager_state s then Inr s
      else if text_count xg_manager_old s \<noteq> 1 \<or> text_count xg_manager_new s \<noteq> 0
      then Inl (Refused ''anchor drifted'')
      else (let u = replace_first xg_manager_old (xg_manager_mark @ xg_manager_new) s in
            if \<not> verified_manager_state u \<or> text_count xg_manager_mark u \<noteq> 1
            then Inl (Refused ''post-patch verification'') else Inr u))"

text \<open>\<open>main\<close>: both files exist, both prepare, both compile, and only then are written.\<close>

definition xgrammar_main ::
  "(string \<Rightarrow> bool) \<Rightarrow> string \<Rightarrow> string \<Rightarrow> files \<Rightarrow> files \<times> fault option" where
  "xgrammar_main compiles backend manager fs =
     (case fs backend of
        None \<Rightarrow> (fs, Some MissingFile)
      | Some bs \<Rightarrow>
     (case fs manager of
        None \<Rightarrow> (fs, Some MissingFile)
      | Some ms \<Rightarrow>
     (case prepare_backend bs of
        Inl e \<Rightarrow> (fs, Some e)
      | Inr bu \<Rightarrow>
     (case prepare_manager ms of
        Inl e \<Rightarrow> (fs, Some e)
      | Inr mu \<Rightarrow>
          (if \<not> compiles bu \<or> \<not> compiles mu then (fs, Some Unparsable)
           else (let fs1 = (if bu \<noteq> bs then fs(backend \<mapsto> bu) else fs) in
                 (if mu \<noteq> ms then fs1(manager \<mapsto> mu) else fs1, None)))))))"

section \<open>The k-pool slot map\<close>

definition kp_mark :: string where
  \<open>kp_mark = text_lines [
     ''    # [glm53-kpool-tail-slotmap] Never index past the request's'']\<close>

definition kp_anchor :: string where
  \<open>kp_anchor = text_lines [
     ''        block_indices = ('',
     ''            virtual_block_indices * BLOCKS_PER_KV_BLOCK'',
     ''            + local_block_offsets // block_size'',
     ''        )'',
     ''        block_numbers = tl.load('',
     ''            block_table_ptr + row_offset + block_indices,'',
     ''            mask=mask & is_local,'',
     ''            other=0,'',
     ''        ).to(tl.int64)'']\<close>

definition kp_patched :: string where
  \<open>kp_patched = text_lines [
     ''        block_indices = ('',
     ''            virtual_block_indices * BLOCKS_PER_KV_BLOCK'',
     ''            + local_block_offsets // block_size'',
     ''        )'',
     ''        # [glm53-kpool-tail-slotmap] Never index past the request's'',
     ''        # block-table row. KpoolTailSpec is a one-block circular scratch'',
     ''        # whose row is a single entry; without this clamp every token at'',
     ''        # pos >= block_size reads adjacent memory and the kpool kernels'',
     ''        # write through garbage. Clamping pins that group to entry 0:'',
     ''        # block_table[req, 0] * block_size + pos % block_size.'',
     ''        # For every other group this is identity.'',
     ''        block_indices = tl.minimum(block_indices, block_table_stride - 1)'',
     ''        block_numbers = tl.load('',
     ''            block_table_ptr + row_offset + block_indices,'',
     ''            mask=mask & is_local,'',
     ''            other=0,'',
     ''        ).to(tl.int64)'']\<close>

definition kp_clamp :: string where
  "kp_clamp = ''tl.minimum(block_indices, block_table_stride - 1)''"

definition kp_verified_state :: "string \<Rightarrow> bool" where
  "kp_verified_state s \<longleftrightarrow> text_count kp_anchor s = 0 \<and> text_count kp_patched s = 1
     \<and> text_count kp_mark s = 1 \<and> contains kp_clamp s"

definition kp_prepare :: "string \<Rightarrow> fault + string" where
  "kp_prepare s =
     (let marker = text_count kp_mark s in
      if marker \<noteq> 0 then
        (if marker \<noteq> 1 \<or> \<not> kp_verified_state s then Inl (Refused ''partial/inconsistent'') else Inr s)
      else if kp_verified_state s then Inr s
      else if text_count kp_anchor s \<noteq> 1 then Inl (Found ''anchor'' (text_count kp_anchor s))
      else if contains kp_clamp s then Inl (Refused ''already clamps'')
      else (let u = replace_first kp_anchor kp_patched s in
            if \<not> kp_verified_state u then Inl (Refused ''post-patch verification'') else Inr u))"

section \<open>Stop strings while reasoning\<close>

definition st_mark :: string where
  \<open>st_mark = ''# [suppress-stops-in-reasoning]''\<close>

definition st_import_old :: string where
  \<open>st_import_old = text_lines [
     ''import sys'',
     ''from abc import ABC, abstractmethod'']\<close>

definition st_import_new :: string where
  \<open>st_import_new = text_lines [
     ''import os'',
     ''import sys'',
     ''from abc import ABC, abstractmethod'']\<close>

definition st_factory_old :: string where
  \<open>st_factory_old = text_lines [
     ''        if USE_FAST_DETOKENIZER and isinstance(tokenizer, TokenizersBackend):'',
     ''            # Fast tokenizer => use tokenizers library DecodeStream.'',
     ''            return FastIncrementalDetokenizer(tokenizer, request)'',
     [],
     ''        # Fall back to slow python-based incremental detokenization.'',
     ''        return SlowIncrementalDetokenizer(tokenizer, request)'']\<close>

definition st_factory_new :: string where
  \<open>st_factory_new = text_lines [
     ''        if USE_FAST_DETOKENIZER and isinstance(tokenizer, TokenizersBackend):'',
     ''            # Fast tokenizer => use tokenizers library DecodeStream.'',
     ''            detok = FastIncrementalDetokenizer(tokenizer, request)'',
     ''        else:'',
     ''            # Fall back to slow python-based incremental detokenization.'',
     ''            detok = SlowIncrementalDetokenizer(tokenizer, request)'',
     ''        IncrementalDetokenizer._maybe_enable_reasoning_stop_guard('',
     ''            detok, tokenizer, request'',
     ''        )'',
     ''        return detok'',
     [],
     ''    @staticmethod'',
     ''    def _reasoning_stop_markers() -> tuple[str, str]:'',
     ''        # [suppress-stops-in-reasoning] prefer reasoning_config markers.'',
     ''        start, end = "<think>", "</think>"'',
     ''        try:'',
     ''            from vllm.config import get_current_vllm_config_or_none'',
     [],
     ''            cfg = get_current_vllm_config_or_none()'',
     ''            rc = getattr(cfg, "reasoning_config", None) if cfg else None'',
     ''            if rc is not None:'',
     ''                start = getattr(rc, "reasoning_start_str", "") or start'',
     ''                end = getattr(rc, "reasoning_end_str", "") or end'',
     ''        except Exception as e:'',
     ''            logger.debug('',
     ''                "suppress-stops-in-reasoning: no reasoning config (%s); using %r / %r",'',
     ''                e,'',
     ''                start,'',
     ''                end,'',
     ''            )'',
     ''        return start, end'',
     [],
     ''    @staticmethod'',
     ''    def _suppress_stops_enabled() -> bool:'',
     ''        for key in ('',
     ''            "GLM53_SUPPRESS_STOPS_IN_REASONING",'',
     ''            "VLLM_SUPPRESS_STOPS_IN_REASONING",'',
     ''        ):'',
     ''            if key in os.environ:'',
     ''                return os.environ.get(key) != "0"'',
     ''        return True'',
     [],
     ''    @staticmethod'',
     ''    def _maybe_enable_reasoning_stop_guard(detok, tokenizer, request) -> None:'',
     ''        # [suppress-stops-in-reasoning] last prompt token == <think> '' @ [CHR 0xE2] @ [CHR 0x86] @ [CHR 0x92],
     ''        # keep client stop strings dormant until </think>.'',
     ''        if not IncrementalDetokenizer._suppress_stops_enabled():'',
     ''            return'',
     ''        try:'',
     ''            stop = getattr(detok, "stop", None)'',
     ''            ptids = getattr(request, "prompt_token_ids", None)'',
     ''            if not stop or not ptids:'',
     ''                return'',
     ''            start_str, end_str = IncrementalDetokenizer._reasoning_stop_markers()'',
     ''            think_id = None'',
     ''            convert = getattr(tokenizer, "convert_tokens_to_ids", None)'',
     ''            if callable(convert):'',
     ''                think_id = convert(start_str)'',
     ''            if think_id is None or think_id < 0:'',
     ''                encode = getattr(tokenizer, "encode", None)'',
     ''                if callable(encode):'',
     ''                    try:'',
     ''                        ids = encode(start_str, add_special_tokens=False)'',
     ''                    except TypeError:'',
     ''                        ids = encode(start_str)'',
     ''                    if isinstance(ids, list) and len(ids) == 1:'',
     ''                        think_id = ids[0]'',
     ''            if think_id is not None and think_id >= 0 and ptids[-1] == think_id:'',
     ''                detok._reasoning_stop_guard = True'',
     ''                detok._reasoning_end_str = end_str'',
     ''        except Exception as e:'',
     ''            logger.debug("suppress-stops-in-reasoning: guard not armed (%s)", e)'']\<close>

definition st_init_old :: string where
  \<open>st_init_old = text_lines [
     ''        self._last_output_text_offset: int = 0'',
     [],
     ''        # Generation data'',
     ''        self.output_text = ""'']\<close>

definition st_init_new :: string where
  \<open>st_init_new = text_lines [
     ''        self._last_output_text_offset: int = 0'',
     [],
     ''        # [suppress-stops-in-reasoning] client stops stay dormant while'',
     ''        # generation is still inside <think> (think-in-prompt).'',
     ''        self._reasoning_stop_guard: bool = False'',
     ''        self._reasoning_closed: bool = False'',
     ''        self._reasoning_end_str: str = "</think>"'',
     [],
     ''        # Generation data'',
     ''        self.output_text = ""'']\<close>

definition st_stop_old :: string where
  \<open>st_stop_old = text_lines [
     ''        # 2) Evaluate stop strings.'',
     ''        stop_string = None'',
     ''        if self.stop and self.num_output_tokens() > self.min_tokens:'',
     ''            stop = check_stop_strings('']\<close>

definition st_stop_new :: string where
  \<open>st_stop_new = text_lines [
     ''        # 2) Evaluate stop strings.'',
     ''        # [suppress-stops-in-reasoning] keep stops dormant while reasoning'',
     ''        # is open. Advance stop_check_offset past </think> so a speculative'',
     ''        # chunk that also carries the last think tokens cannot fire.'',
     ''        if self._reasoning_stop_guard and not self._reasoning_closed:'',
     ''            marker = self._reasoning_end_str'',
     ''            window = max(0, stop_check_offset - (len(marker) - 1))'',
     ''            idx = self.output_text.find(marker, window)'',
     ''            if idx != -1:'',
     ''                self._reasoning_closed = True'',
     ''                stop_check_offset = max(stop_check_offset, idx + len(marker))'',
     ''        stop_string = None'',
     ''        if ('',
     ''            self.stop'',
     ''            and self.num_output_tokens() > self.min_tokens'',
     ''            and (not self._reasoning_stop_guard or self._reasoning_closed)'',
     ''        ):'',
     ''            stop = check_stop_strings('']\<close>

definition st_guard_name :: string where
  "st_guard_name = ''_maybe_enable_reasoning_stop_guard''"

text \<open>The arrow of a comment in \<open>FACTORY_NEW\<close> is written as its UTF-8 bytes.  A missing anchor
  is an error value: the script then returns 1 and writes nothing.\<close>

definition st_apply_text :: "string \<Rightarrow> fault + string" where
  "st_apply_text s =
     (if contains st_mark s \<and> contains st_guard_name s then Inr s
      else if \<not> (contains st_import_old s \<and> contains st_factory_old s \<and> contains st_init_old s
                  \<and> contains st_stop_old s)
      then Inl (Refused ''missing'')
      else Inr (replace_first st_stop_old st_stop_new
                 (replace_first st_init_old st_init_new
                   (replace_first st_factory_old st_factory_new
                     (replace_first st_import_old st_import_new s)))))"

section \<open>The spin window\<close>

definition sw_stock_line :: string where
  "sw_stock_line = text_lines [''        busy_loop_s: float = 1,'']"

text \<open>\<open>re.fullmatch(r"[0-9]+", raw)\<close> is a non-empty string of ASCII digits.\<close>

definition parse_spinwait_ms :: "string option \<Rightarrow> py_exc + nat option" where
  "parse_spinwait_ms raw = (case raw of
       None \<Rightarrow> Inr None
     | Some r \<Rightarrow>
         (if r = ''stock'' then Inr None
          else if r = [] \<or> \<not> list_all is_digit_c r then Inl ValueError
          else (let v = digits_val (map digit_val r) in
                if \<not> (1 \<le> v \<and> v \<le> 1000) then Inl ValueError else Inr (Some v))))"

text \<open>\<open>f"0.{ms:03d}".rstrip("0")\<close>\<close>

definition pad3 :: "nat \<Rightarrow> string" where
  "pad3 n = (let s = show_nat n in replicate (3 - length s) CHR ''0'' @ s)"

definition seconds_literal :: "nat \<Rightarrow> string" where
  "seconds_literal ms =
     (if ms = 1000 then ''1'' else rstrip_by (\<lambda>c. c = CHR ''0'') (''0.'' @ pad3 ms))"

definition configured_line :: "nat \<Rightarrow> string" where
  "configured_line ms = ''        busy_loop_s: float = '' @ seconds_literal ms @ '','' @ [newline]"

definition sw_prepare :: "nat option \<Rightarrow> string \<Rightarrow> fault + string" where
  "sw_prepare ms s =
     (let stock = text_count sw_stock_line s in
      case ms of
        None \<Rightarrow> (if stock \<noteq> 1 then Inl (Found ''stock'' stock) else Inr s)
      | Some m \<Rightarrow>
          (let r = configured_line m in
           if r = sw_stock_line then (if stock \<noteq> 1 then Inl (Found ''stock'' stock) else Inr s)
           else (let n = text_count r s in
                 if stock = 1 \<and> n = 0 then Inr (replace_first sw_stock_line r s)
                 else if stock = 0 \<and> n = 1 then Inr s
                 else Inl (Refused ''ambiguous or drifted''))))"

section \<open>Contracts\<close>

definition backend_done :: "string \<Rightarrow> bool" where
  "backend_done s \<longleftrightarrow> verified_backend_state s \<and> text_count xg_backend_mark s \<le> 1"

definition manager_done :: "string \<Rightarrow> bool" where
  "manager_done s \<longleftrightarrow> verified_manager_state s \<and> text_count xg_manager_mark s \<le> 1"

interpretation xg_backend: stable_patch prepare_backend backend_done
  by unfold_locales
     (auto simp: prepare_backend_def backend_done_def Let_def split: if_splits)

interpretation xg_manager: stable_patch prepare_manager manager_done
  by unfold_locales
     (auto simp: prepare_manager_def manager_done_def Let_def split: if_splits)

interpretation kp: stable_patch kp_prepare kp_verified_state
  by unfold_locales
     (auto simp: kp_prepare_def Let_def kp_verified_state_def split: if_splits)

text \<open>The XGrammar installer is all or nothing, and a second run changes nothing.\<close>

lemma xgrammar_main_failure: "xgrammar_main C b m fs = (fs', Some e) \<Longrightarrow> fs' = fs"
  by (auto simp: xgrammar_main_def Let_def split: option.splits sum.splits if_splits)

lemma xgrammar_main_success:
  assumes "xgrammar_main C b m fs = (fs', None)" "b \<noteq> m"
  shows "\<exists>bu mu. fs' = fs(b \<mapsto> bu, m \<mapsto> mu) \<and> backend_done bu \<and> manager_done mu \<and> C bu \<and> C mu"
proof -
  obtain bs ms bu mu where r: "fs b = Some bs" "fs m = Some ms" "prepare_backend bs = Inr bu"
    "prepare_manager ms = Inr mu" "C bu" "C mu"
    and fs': "fs' = (let fs1 = (if bu \<noteq> bs then fs(b \<mapsto> bu) else fs) in
                 (if mu \<noteq> ms then fs1(m \<mapsto> mu) else fs1))"
    using assms(1)
    by (auto simp: xgrammar_main_def Let_def split: option.splits sum.splits if_splits)
  have "fs' = fs(b \<mapsto> bu, m \<mapsto> mu)" using fs' r(1,2) assms(2)
    by (auto simp: Let_def fun_eq_iff)
  then show ?thesis
    using xg_backend.success_marked [OF r(3)] xg_manager.success_marked [OF r(4)] r(5,6) by blast
qed

lemma xgrammar_main_idem:
  assumes "xgrammar_main C b m fs = (fs', None)" "b \<noteq> m"
  shows "xgrammar_main C b m fs' = (fs', None)"
proof -
  obtain bu mu where "fs' = fs(b \<mapsto> bu, m \<mapsto> mu)" "backend_done bu" "manager_done mu" "C bu" "C mu"
    using xgrammar_main_success [OF assms] by blast
  then show ?thesis using assms(2) xg_backend.marked_accepted xg_manager.marked_accepted
    by (simp add: xgrammar_main_def Let_def)
qed

lemma st_factory_guard: "contains st_guard_name st_factory_new"
  unfolding st_factory_new_def st_guard_name_def by (rule contains_lines) code_simp

lemma st_stop_marked: "contains st_mark st_stop_new"
  unfolding st_stop_new_def by (rule contains_lines) code_simp

lemma st_olds_apart:
  "apart st_init_old st_guard_name" "apart st_stop_old st_guard_name"
  unfolding st_init_old_def st_stop_old_def st_guard_name_def by (rule lines_apart, code_simp)+

lemma st_fresh_anchors:
  "apart st_import_old st_factory_old" "apart st_factory_old st_init_old"
  "apart st_import_old st_stop_old" "apart st_import_old st_init_old"
  "apart st_factory_old st_stop_old" "apart st_init_old st_stop_old"
  unfolding st_import_old_def st_factory_old_def st_init_old_def st_stop_old_def
  by (rule anchors_apart, code_simp)+

lemma st_apply_done:
  assumes "st_apply_text s = Inr u"
  shows "contains st_mark u \<and> contains st_guard_name u"
proof (cases "contains st_mark s \<and> contains st_guard_name s")
  case False
  let ?s1 = "replace_first st_import_old st_import_new s"
  let ?s2 = "replace_first st_factory_old st_factory_new ?s1"
  let ?s3 = "replace_first st_init_old st_init_new ?s2"
  have c: "contains st_factory_old s" "contains st_stop_old s"
    and u: "u = replace_first st_stop_old st_stop_new ?s3"
    using assms False by (auto simp: st_apply_text_def split: if_splits)
  have "contains st_factory_old ?s1"
    by (rule contains_replace_keep [OF c(1) st_fresh_anchors(1)])
  then have "contains st_factory_new ?s2" by (rule contains_replace_first)
  then have "contains st_guard_name ?s2" using contains_trans st_factory_guard by blast
  then have "contains st_guard_name ?s3" using st_olds_apart(1) by (rule contains_replace_keep)
  then have g: "contains st_guard_name u" unfolding u using st_olds_apart(2) by (rule contains_replace_keep)
  have "contains st_stop_old ?s1" by (rule contains_replace_keep [OF c(2) st_fresh_anchors(3)])
  then have "contains st_stop_old ?s2" using st_fresh_anchors(5) by (rule contains_replace_keep)
  then have "contains st_stop_old ?s3" using st_fresh_anchors(6) by (rule contains_replace_keep)
  then have "contains st_stop_new u" unfolding u by (rule contains_replace_first)
  then show ?thesis using g contains_trans st_stop_marked by blast
qed (use assms in \<open>simp add: st_apply_text_def\<close>)

interpretation st: stable_patch st_apply_text "\<lambda>s. contains st_mark s \<and> contains st_guard_name s"
  by unfold_locales (auto simp: st_apply_done, simp_all add: st_apply_text_def)

section \<open>The spin window's literal\<close>

lemma parse_spinwait_range:
  "parse_spinwait_ms raw = Inr (Some n) \<Longrightarrow> 1 \<le> n \<and> n \<le> 1000"
  by (auto simp: parse_spinwait_ms_def Let_def split: option.splits if_splits)

lemma pad3_digits:
  assumes "a < 10" "b < 10" "c < 10"
  shows "pad3 (100 * a + 10 * b + c) = map digit_char [a, b, c]"
proof -
  let ?n = "100 * a + 10 * b + c"
  have q: "?n div 10 = 10 * a + b" "?n mod 10 = c" "(10 * a + b) div 10 = a" "(10 * a + b) mod 10 = b"
  proof -
    have "(10 * k + c) div 10 = k" "(10 * k + c) mod 10 = c" for k using assms(3) by simp_all
    from this [of "10 * a + b"] show "?n div 10 = 10 * a + b" "?n mod 10 = c" by simp_all
    show "(10 * a + b) div 10 = a" "(10 * a + b) mod 10 = b" using assms(2) by simp_all
  qed
  have z: "digit_char 0 = CHR ''0''" by code_simp
  have s1: "show_nat d = [digit_char d]" if "d < 10" for d using that by (subst show_nat.simps) simp
  show ?thesis
  proof (cases "a = 0")
    case True
    show ?thesis
    proof (cases "b = 0")
      case True
      then show ?thesis using \<open>a = 0\<close> assms s1 [of c] z by (simp add: pad3_def numeral_2_eq_2)
    next
      case False
      then have "show_nat (10 * b + c) = [digit_char b, digit_char c]"
        using assms s1 [of b] by (subst show_nat.simps) (simp add: div_add1_eq)
      then show ?thesis using \<open>a = 0\<close> z by (simp add: pad3_def)
    qed
  next
    case False
    have "show_nat (10 * a + b) = [digit_char a, digit_char b]"
      using False assms s1 [of a] by (subst show_nat.simps) (simp add: div_add1_eq)
    then have "show_nat ?n = [digit_char a, digit_char b, digit_char c]"
      using False q by (subst show_nat.simps) simp
    then show ?thesis by (simp add: pad3_def)
  qed
qed

text \<open>The value written into the serving engine is the one asked for.  For every spin
  window the parser accepts, the literal of the patched line reads back as exactly that
  many thousandths of a second.\<close>

theorem spinwait_literal_value:
  assumes "parse_spinwait_ms raw = Inr (Some n)"
  shows "parse_float (seconds_literal n) = Some (Fin (real n / 1000))"
proof (cases "n = 1000")
  case True
  have "parse_float ''1'' = Some (Fin 1)" by code_simp
  with True show ?thesis by (simp add: seconds_literal_def)
next
  case False
  then have n: "1 \<le> n" "n < 1000" using parse_spinwait_range [OF assms] by auto
  obtain a b c where a_b_c_def: "a = n div 100" "b = n div 10 mod 10" "c = n mod 10" by blast
  have abc: "a < 10" "b < 10" "c < 10" "n = 100 * a + 10 * b + c"
  proof -
    have "n = 10 * (n div 10) + n mod 10" "n div 10 = 10 * (n div 10 div 10) + n div 10 mod 10"
      by simp_all
    moreover have "n div 10 div 10 = n div 100" by (simp add: div_mult2_eq [symmetric])
    ultimately show "n = 100 * a + 10 * b + c" unfolding a_b_c_def by linarith
    show "a < 10" "b < 10" "c < 10" using n by (simp_all add: a_b_c_def)
  qed
  have lit: "seconds_literal n = rstrip_by (\<lambda>c. c = CHR ''0'') (''0.'' @ map digit_char [a, b, c])"
    using False pad3_digits [OF abc(1-3)] abc(4) by (simp add: seconds_literal_def)
  note zero = digit_char_distinct(4) [OF abc(1)] digit_char_distinct(4) [OF abc(2)]
    digit_char_distinct(4) [OF abc(3)]
  consider "c \<noteq> 0" | "c = 0" "b \<noteq> 0" | "c = 0" "b = 0" "a \<noteq> 0" using n abc(4) by auto
  then show ?thesis
  proof cases
    case 1
    then have "seconds_literal n = ''0.'' @ map digit_char [a, b, c]"
      using zero by (simp add: lit rstrip_by_def)
    then show ?thesis using parse_zero_point [of "[a, b, c]"] abc by (simp add: digits_val_def)
  next
    case 2
    then have "seconds_literal n = ''0.'' @ map digit_char [a, b]"
      using zero by (simp add: lit rstrip_by_def)
    then show ?thesis using parse_zero_point [of "[a, b]"] abc 2 by (simp add: digits_val_def)
  next
    case 3
    then have "seconds_literal n = ''0.'' @ map digit_char [a]"
      using zero by (simp add: lit rstrip_by_def)
    then show ?thesis using parse_zero_point [of "[a]"] abc 3 by (simp add: digits_val_def)
  qed
qed

lemma spinwait_literal_value_witness:
  "parse_spinwait_ms (Some ''160'') = Inr (Some 160)
   \<and> parse_float (seconds_literal 160) = Some (Fin (160 / 1000))"
proof -
  have "parse_spinwait_ms (Some ''160'') = Inr (Some 160)" by code_simp
  from spinwait_literal_value [OF this] this show ?thesis by simp
qed

end
