(* ===== verification/Indexer_Workspace.thy ===== *)
theory Indexer_Workspace
  imports Py_Text
begin

text \<open>
  \<open>overlay/patch_indexer_workspace.py\<close>: the sizing of the indexer's prefill workspace
  from the configuration, the check the metadata builder makes at start-up, and the
  splitter that packs prefill requests into chunks.  Sizes are in entries, sequence
  lengths in tokens before and in pools after compression.
\<close>

section \<open>Sizing\<close>

text \<open>A value of the model's JSON configuration; \<open>int_of_cfg\<close> is \<open>int(raw or 1)\<close>.\<close>

datatype cfg_value = CNone | CBool bool | CInt int | CFloat real | CStr string | COther

fun int_of_cfg :: "cfg_value \<Rightarrow> int option" where
  "int_of_cfg CNone = Some 1"
| "int_of_cfg (CBool b) = Some 1"
| "int_of_cfg (CInt i) = Some (if i = 0 then 1 else i)"
| "int_of_cfg (CFloat r) = Some (if r = 0 then 1 else if r > 0 then \<lfloor>r\<rfloor> else \<lceil>r\<rceil>)"
| "int_of_cfg (CStr s) = (if s = [] then Some 1 else parse_int s)"
| "int_of_cfg COther = None"

record ws_config =
  max_model_len :: int
  index_kpool :: cfg_value
  num_speculative_tokens :: "int option"
  max_num_seqs :: int
  max_num_batched_tokens :: int

text \<open>\<open>_glm53_workspace_mode\<close>: whether to right-size.\<close>

definition workspace_mode :: "string option \<Rightarrow> py_exc + bool" where
  "workspace_mode env = (case env of
      None \<Rightarrow> Inr False
    | Some raw \<Rightarrow>
        (if raw \<notin> {''stock'', ''rightsize''} then Inl ValueError else Inr (raw = ''rightsize'')))"

definition stock_workspace_entries :: "int \<Rightarrow> int" where
  "stock_workspace_entries len = len * 40"

definition indexer_compress_ratio :: "ws_config \<Rightarrow> int" where
  "indexer_compress_ratio c = (case int_of_cfg (index_kpool c) of
      None \<Rightarrow> 1 | Some ratio \<Rightarrow> if ratio > 1 then ratio else 1)"

definition rightsized_workspace_entries :: "ws_config \<Rightarrow> int" where
  "rightsized_workspace_entries c =
     (let stock = stock_workspace_entries (max_model_len c); ratio = indexer_compress_ratio c in
      if ratio \<le> 1 then stock
      else
        (let num_spec = (case num_speculative_tokens c of None \<Rightarrow> 0 | Some n \<Rightarrow> n);
             max_prefill_reqs = max 1 (min (max_num_seqs c) (max_num_batched_tokens c));
             span = max_model_len c + max 0 num_spec;
             per_req = - ((- span) div ratio) in
         min (per_req * max_prefill_reqs) stock))"

definition get_max_prefill_buffer_size :: "string option \<Rightarrow> ws_config \<Rightarrow> py_exc + int" where
  "get_max_prefill_buffer_size env c =
     (let stock = stock_workspace_entries (max_model_len c) in
      case workspace_mode env of
        Inl e \<Rightarrow> Inl e
      | Inr False \<Rightarrow> Inr stock
      | Inr True \<Rightarrow>
          (let entries = rightsized_workspace_entries c in
           if entries \<ge> stock then Inr stock else Inr entries))"

text \<open>The check of the metadata builder against the ratio the runtime divides by.\<close>

definition builder_check :: "string option \<Rightarrow> ws_config \<Rightarrow> int \<Rightarrow> int \<Rightarrow> py_exc + unit" where
  "builder_check env c compress_ratio buffer =
     (case workspace_mode env of
        Inl e \<Rightarrow> Inl e
      | Inr False \<Rightarrow> Inr ()
      | Inr True \<Rightarrow>
          (if indexer_compress_ratio c \<noteq> compress_ratio then Inl ValueError
           else if buffer < min (rightsized_workspace_entries c)
                              (stock_workspace_entries (max_model_len c)) then Inl ValueError
           else Inr ()))"

section \<open>The splitter\<close>

text \<open>A request is its query length and its compressed sequence length.  \<open>fill\<close> is the inner
  loop: how many requests fit, and the sums it has accumulated.\<close>

fun fill :: "int \<Rightarrow> int \<Rightarrow> int \<Rightarrow> int \<Rightarrow> (int \<times> int) list \<Rightarrow> nat \<times> int \<times> int" where
  "fill ws me m n [] = (0, m, n)"
| "fill ws me m n ((q, s) # rs) =
     (if n + s \<le> ws \<and> (m + q) * (n + s) \<le> me then
        (case fill ws me (m + q) (n + s) rs of (k, m', n') \<Rightarrow> (Suc k, m', n'))
      else (0, m, n))"

text \<open>\<open>range(0, m, k)\<close> for a positive step.\<close>

definition offsets :: "int \<Rightarrow> int \<Rightarrow> int list" where
  "offsets m k = map (\<lambda>i. int i * k) [0..<nat (- ((- m) div k))]"

type_synonym chunk = "(nat \<times> nat) \<times> (int \<times> int)"

definition sub_chunks :: "nat \<times> nat \<Rightarrow> int \<Rightarrow> int \<Rightarrow> chunk list" where
  "sub_chunks sl m max_q = map (\<lambda>q. (sl, (q, q + min max_q (m - q)))) (offsets m max_q)"

text \<open>One turn of the outer loop: the requests of the chunk, its rows and its entries.\<close>

definition take_chunk :: "int \<Rightarrow> int \<Rightarrow> (int \<times> int) list \<Rightarrow> nat \<times> int \<times> int" where
  "take_chunk ws me rs =
     (case fill ws me 0 0 rs of (k, m, n) \<Rightarrow>
        if k = 0 then (1, fst (hd rs), snd (hd rs)) else (k, m, n))"

lemma take_chunk_pos: "take_chunk ws me rs = (k, m, n) \<Longrightarrow> 0 < k"
  by (auto simp: take_chunk_def split: prod.splits if_splits)

definition row_limit :: "int \<Rightarrow> int \<Rightarrow> int \<Rightarrow> int" where
  "row_limit me m n = (if n > 0 then max 1 (me div n) else max 1 m)"

function split_loop :: "int \<Rightarrow> int \<Rightarrow> nat \<Rightarrow> (int \<times> int) list \<Rightarrow> chunk list" where
  "split_loop ws me start rs =
     (if rs = [] then []
      else (case take_chunk ws me rs of (k, m, n) \<Rightarrow>
              sub_chunks (start, start + k) m (row_limit me m n)
                @ split_loop ws me (start + k) (drop k rs)))"
  by auto
termination
  by (relation "measure (\<lambda>(ws, me, start, rs). length rs)") (auto dest: take_chunk_pos [OF sym])

declare split_loop.simps [simp del]

definition split_prefill_chunks ::
  "int list \<Rightarrow> int list \<Rightarrow> int \<Rightarrow> int \<Rightarrow> py_exc + chunk list" where
  "split_prefill_chunks seq_lens query_lens workspace_size max_logits_bytes =
     (if length query_lens < length seq_lens then Inl IndexError
      else Inr (split_loop workspace_size (max_logits_bytes div 4) 0 (zip query_lens seq_lens)))"

section \<open>Lemmas: the inner loop\<close>

lemma fill_sums:
  "fill ws me m n rs = (k, m', n') \<Longrightarrow>
     k \<le> length rs \<and> m' = m + sum_list (map fst (take k rs)) \<and> n' = n + sum_list (map snd (take k rs))"
  by (induction ws me m n rs arbitrary: k m' n' rule: fill.induct)
    (auto split: if_splits prod.splits)

lemma fill_within:
  "fill ws me m n rs = (k, m', n') \<Longrightarrow> 0 < k \<Longrightarrow> n' \<le> ws \<and> m' * n' \<le> me"
proof (induction ws me m n rs arbitrary: k m' n' rule: fill.induct)
  case (2 ws me m n q s rs)
  obtain j a b where f: "fill ws me (m + q) (n + s) rs = (j, a, b)" by (metis prod_cases3)
  show ?case
  proof (cases "j = 0")
    case True
    then have "a = m + q \<and> b = n + s" using fill_sums [OF f] by simp
    then show ?thesis using "2.prems" f True by (auto split: if_splits)
  qed (use "2.prems" "2.IH" [OF _ f] f in \<open>auto split: if_splits\<close>)
qed simp

text \<open>The workspace only matters while it can be exceeded.\<close>

lemma fill_workspace:
  assumes "\<forall>(q, s)\<in>set rs. 0 \<le> s" "n + sum_list (map snd rs) \<le> ws" "n + sum_list (map snd rs) \<le> ws'"
  shows "fill ws me m n rs = fill ws' me m n rs"
  using assms
proof (induction rs arbitrary: m n)
  case (Cons r rs)
  obtain q s where r: "r = (q, s)" by force
  have "0 \<le> sum_list (map snd rs)" using Cons.prems(1) by (intro sum_list_nonneg) auto
  then have "n + s \<le> ws" "n + s \<le> ws'" using Cons.prems r by auto
  then show ?case using Cons.IH [of "n + s" "m + q"] Cons.prems r by simp
qed simp

lemma sum_list_drop_le:
  "\<forall>x\<in>set xs. 0 \<le> (x::int) \<Longrightarrow> sum_list (drop k xs) \<le> sum_list xs"
proof -
  assume a: "\<forall>x\<in>set xs. 0 \<le> x"
  have "sum_list xs = sum_list (take k xs) + sum_list (drop k xs)"
    by (metis append_take_drop_id sum_list_append)
  moreover have "0 \<le> sum_list (take k xs)" using a by (intro sum_list_nonneg) (auto dest: in_set_takeD)
  ultimately show ?thesis by simp
qed

lemma split_workspace:
  assumes "\<forall>(q, s)\<in>set rs. 0 \<le> s" "sum_list (map snd rs) \<le> ws" "sum_list (map snd rs) \<le> ws'"
  shows "split_loop ws me start rs = split_loop ws' me start rs"
  using assms
proof (induction ws me start rs rule: split_loop.induct)
  case (1 ws me start rs)
  show ?case
  proof (cases "rs = []")
    case False
    have t: "take_chunk ws me rs = take_chunk ws' me rs"
      using fill_workspace [of rs 0 ws ws' me 0] "1.prems" by (simp add: take_chunk_def)
    obtain k m n where k: "take_chunk ws me rs = (k, m, n)" by (metis prod_cases3)
    have d: "\<forall>(q, s)\<in>set (drop k rs). 0 \<le> s" using "1.prems"(1) by (auto dest: in_set_dropD)
    have "sum_list (map snd (drop k rs)) \<le> sum_list (map snd rs)"
      using sum_list_drop_le [of "map snd rs" k] "1.prems"(1) by (simp add: drop_map case_prod_beta)
    then have "split_loop ws me (start + k) (drop k rs) = split_loop ws' me (start + k) (drop k rs)"
      using "1.prems" d by (intro "1.IH" [OF False k [symmetric] refl]) auto
    then show ?thesis using False k t
      by (simp add: split_loop.simps [of ws me start rs] split_loop.simps [of ws' me start rs])
  qed (simp add: split_loop.simps)
qed

section \<open>Lemmas: legal batches\<close>

text \<open>What the scheduler can form in one step: at most \<open>max_num_seqs\<close> prefill rows of at least
  one query token each, within the token budget, with sequence lengths up to the model
  length plus the draft length.  The builder divides the lengths by the ratio.\<close>

definition legal_batch :: "ws_config \<Rightarrow> int list \<Rightarrow> int list \<Rightarrow> bool" where
  "legal_batch c qs ts \<longleftrightarrow>
     length ts = length qs \<and> int (length qs) \<le> max_num_seqs c
     \<and> sum_list qs \<le> max_num_batched_tokens c \<and> (\<forall>q\<in>set qs. 1 \<le> q)
     \<and> (\<forall>t\<in>set ts. 0 \<le> t \<and> t \<le> max_model_len c
          + max 0 (case num_speculative_tokens c of None \<Rightarrow> 0 | Some n \<Rightarrow> n))"

lemma length_le_sum: "\<forall>q\<in>set qs. 1 \<le> q \<Longrightarrow> int (length qs) \<le> sum_list qs"
  by (induction qs) auto

lemma sum_list_le_mult: "\<forall>x\<in>set xs. x \<le> (b::int) \<Longrightarrow> sum_list xs \<le> int (length xs) * b"
  by (induction xs) (auto simp: algebra_simps)

lemma div_le_cdiv: "0 < (r::int) \<Longrightarrow> t \<le> b \<Longrightarrow> t div r \<le> - ((- b) div r)"
proof -
  assume "0 < r" "t \<le> b"
  then have "t div r \<le> b div r" by (intro zdiv_mono1)
  also have "b div r \<le> - ((- b) div r)"
    using \<open>0 < r\<close> by (simp add: div_minus_minus zdiv_zminus1_eq_if)
  finally show ?thesis .
qed

lemma legal_sum:
  assumes "legal_batch c qs ts" "1 < indexer_compress_ratio c" "0 \<le> max_model_len c"
  shows "sum_list (map (\<lambda>t. t div indexer_compress_ratio c) ts)
    \<le> - ((- (max_model_len c + max 0 (case num_speculative_tokens c of None \<Rightarrow> 0 | Some n \<Rightarrow> n)))
           div indexer_compress_ratio c) * max 1 (min (max_num_seqs c) (max_num_batched_tokens c))"
proof -
  let ?span = "max_model_len c + max 0 (case num_speculative_tokens c of None \<Rightarrow> 0 | Some n \<Rightarrow> n)"
  let ?r = "indexer_compress_ratio c"
  let ?p = "- ((- ?span) div ?r)"
  have "\<forall>x\<in>set (map (\<lambda>t. t div ?r) ts). x \<le> ?p"
    using assms div_le_cdiv [of ?r _ ?span] by (auto simp: legal_batch_def)
  then have "sum_list (map (\<lambda>t. t div ?r) ts) \<le> int (length ts) * ?p"
    using sum_list_le_mult [of "map (\<lambda>t. t div ?r) ts" ?p] by simp
  also have "\<dots> \<le> max 1 (min (max_num_seqs c) (max_num_batched_tokens c)) * ?p"
  proof (rule mult_right_mono)
    show "int (length ts) \<le> max 1 (min (max_num_seqs c) (max_num_batched_tokens c))"
      using assms(1) length_le_sum [of qs] by (auto simp: legal_batch_def)
    show "0 \<le> ?p" using assms(2,3) div_le_cdiv [of ?r 0 ?span] by simp
  qed
  finally show ?thesis by (simp add: mult.commute)
qed

text \<open>C4: right-sizing changes no batch.  In right-size mode, on a runtime that passes the
  builder's check, every batch the scheduler can legally form is split into the same
  chunks as with the stock workspace, which is never smaller.\<close>

theorem rightsize_same_chunks:
  assumes "workspace_mode env = Inr True" "get_max_prefill_buffer_size env c = Inr ws"
    and "builder_check env c ratio ws = Inr ()"
    and "0 \<le> max_model_len c" "legal_batch c qs ts"
  shows "ws \<le> stock_workspace_entries (max_model_len c)
    \<and> split_prefill_chunks (map (\<lambda>t. t div ratio) ts) qs ws logits_bytes
      = split_prefill_chunks (map (\<lambda>t. t div ratio) ts) qs
          (stock_workspace_entries (max_model_len c)) logits_bytes"
proof (cases "ws = stock_workspace_entries (max_model_len c)")
  case False
  let ?stock = "stock_workspace_entries (max_model_len c)"
  have r: "ratio = indexer_compress_ratio c"
    using assms(1,3) by (auto simp: builder_check_def split: if_splits)
  have ws: "ws = rightsized_workspace_entries c" "ws < ?stock"
    using assms(1,2) False by (auto simp: get_max_prefill_buffer_size_def Let_def split: if_splits)
  then have r1: "1 < ratio" by (auto simp: rightsized_workspace_entries_def Let_def r split: if_splits)
  have sum: "sum_list (map (\<lambda>t. t div ratio) ts) \<le> ws"
    using legal_sum [OF assms(5)] r1 r ws assms(4)
    by (auto simp: rightsized_workspace_entries_def Let_def min_def split: if_splits)
  have snd_zip: "map snd (zip qs (map (\<lambda>t. t div ratio) ts)) = map (\<lambda>t. t div ratio) ts"
    using assms(5) by (simp add: legal_batch_def)
  have nonneg: "\<forall>(q, s)\<in>set (zip qs (map (\<lambda>t. t div ratio) ts)). 0 \<le> s"
    using assms(5) r1 by (auto simp: legal_batch_def pos_imp_zdiv_nonneg_iff dest!: set_zip_rightD)
  have "split_loop ws (logits_bytes div 4) 0 (zip qs (map (\<lambda>t. t div ratio) ts))
      = split_loop ?stock (logits_bytes div 4) 0 (zip qs (map (\<lambda>t. t div ratio) ts))"
    by (rule split_workspace [OF nonneg]) (use snd_zip sum ws in simp_all)
  then show ?thesis using ws by (simp add: split_prefill_chunks_def)
qed simp

definition glm_ws :: ws_config where
  "glm_ws = \<lparr>max_model_len = 1000000, index_kpool = CInt 4, num_speculative_tokens = Some 7,
     max_num_seqs = 16, max_num_batched_tokens = 8192\<rparr>"

lemma rightsize_same_chunks_witness:
  "4000032 \<le> stock_workspace_entries 1000000
   \<and> split_prefill_chunks (map (\<lambda>t. t div 4) [900000, 1000007]) [4096, 4096] 4000032 268435456
     = split_prefill_chunks (map (\<lambda>t. t div 4) [900000, 1000007]) [4096, 4096] (stock_workspace_entries 1000000) 268435456"
proof -
  have w: "workspace_mode (Some ''rightsize'') = Inr True" by code_simp
  have g: "get_max_prefill_buffer_size (Some ''rightsize'') glm_ws = Inr 4000032"
    by (simp add: get_max_prefill_buffer_size_def w rightsized_workspace_entries_def glm_ws_def
        indexer_compress_ratio_def stock_workspace_entries_def Let_def)
  have b: "builder_check (Some ''rightsize'') glm_ws 4 4000032 = Inr ()"
    by (simp add: builder_check_def w rightsized_workspace_entries_def glm_ws_def
        indexer_compress_ratio_def stock_workspace_entries_def Let_def)
  show ?thesis
    using rightsize_same_chunks [OF w g b, of "[4096, 4096]" "[900000, 1000007]" 268435456]
    by (simp add: glm_ws_def legal_batch_def)
qed

section \<open>Lemmas: the chunks tile the batch\<close>

lemma upto_append: "a \<le> b \<Longrightarrow> b \<le> c \<Longrightarrow> [a..b - 1] @ [b..c - 1] = [a..c - (1::int)]"
  using upto_split2 [of a "b - 1" "c - 1"] by (cases "a = b") auto

text \<open>Rows \<open>0..m - 1\<close> cut every \<open>k\<close>.\<close>

lemma offsets_tile_upto:
  assumes "0 < k" "int j * k < m + k"
  shows "concat (map (\<lambda>i. [b + int i * k..b + (int i * k + min k (m - int i * k)) - 1]) [0..<j])
    = [b..b + min m (int j * k) - 1]"
  using assms(2)
proof (induction j)
  case (Suc j)
  let ?f = "\<lambda>i. [b + int i * k..b + (int i * k + min k (m - int i * k)) - 1]"
  have jk: "int j * k < m" using Suc.prems by (simp add: algebra_simps)
  have "concat (map ?f [0..<j]) = [b..b + min m (int j * k) - 1]"
    by (rule Suc.IH) (use jk assms(1) in linarith)
  then have j: "concat (map ?f [0..<j]) = [b..(b + int j * k) - 1]" using jk by simp
  have f: "?f j = [b + int j * k..(b + min m (int (Suc j) * k)) - 1]"
    by (rule arg_cong [where f = "\<lambda>x. [b + int j * k..b + x - 1]"]) (simp add: min_def algebra_simps)
  have "concat (map ?f [0..<Suc j]) = concat (map ?f [0..<j]) @ ?f j" by simp
  also have "\<dots> = [b..(b + min m (int (Suc j) * k)) - 1]"
    unfolding j f using jk assms(1) by (intro upto_append) (auto simp: min_def algebra_simps)
  finally show ?case by simp
qed simp

lemma cdiv_bounds: "0 < (k::int) \<Longrightarrow> m \<le> - ((- m) div k) * k \<and> - ((- m) div k) * k < m + k"
proof -
  assume k: "0 < k"
  define d r where "d = (- m) div k" and "r = (- m) mod k"
  have "- m = d * k + r" "0 \<le> r" "r < k" using k by (simp_all add: d_def r_def)
  then show ?thesis unfolding d_def [symmetric] by auto
qed

definition base :: "int list \<Rightarrow> nat \<Rightarrow> int" where
  "base qs a = sum_list (take a qs)"

text \<open>The query rows of the batch that a chunk processes.\<close>

definition chunk_rows :: "int list \<Rightarrow> chunk \<Rightarrow> int list" where
  "chunk_rows qs c = (case c of ((a, _), (lo, hi)) \<Rightarrow> [base qs a + lo..base qs a + hi - 1])"

lemma sub_chunks_rows:
  assumes "0 < k" "0 \<le> m"
  shows "concat (map (chunk_rows qs) (sub_chunks (a, e) m k)) = [base qs a..base qs a + m - 1]"
proof -
  let ?j = "nat (- ((- m) div k))"
  have "0 \<le> - ((- m) div k)" using assms by (simp add: div_nonpos_pos_le0)
  then have j: "int ?j = - ((- m) div k)" by simp
  note b = cdiv_bounds [OF assms(1), of m]
  have "concat (map (chunk_rows qs) (sub_chunks (a, e) m k))
      = concat (map (\<lambda>i. [base qs a + int i * k..base qs a + (int i * k + min k (m - int i * k)) - 1]) [0..<?j])"
    by (simp add: sub_chunks_def offsets_def chunk_rows_def comp_def)
  also have "\<dots> = [base qs a..base qs a + min m (int ?j * k) - 1]"
    by (rule offsets_tile_upto [OF assms(1)]) (use b j in simp)
  also have "min m (int ?j * k) = m" using b j by simp
  finally show ?thesis by simp
qed

lemma take_chunk_spec:
  assumes "take_chunk ws me rs = (k, m, n)" "rs \<noteq> []"
  shows "0 < k \<and> k \<le> length rs \<and> m = sum_list (map fst (take k rs)) \<and> n = sum_list (map snd (take k rs))
    \<and> (k = 1 \<or> (n \<le> ws \<and> m * n \<le> me))"
proof -
  obtain j a b where f: "fill ws me 0 0 rs = (j, a, b)" by (metis prod_cases3)
  show ?thesis
    using assms f fill_sums [OF f] fill_within [OF f]
    by (cases rs) (auto simp: take_chunk_def split: if_splits)
qed

lemma row_limit_pos: "0 < row_limit me m n"
  by (simp add: row_limit_def max_def)

lemma split_loop_rows:
  assumes "\<forall>q\<in>set (map fst rs). 0 \<le> q" "start = length pre"
  shows "concat (map (chunk_rows (pre @ map fst rs)) (split_loop ws me start rs))
    = [sum_list pre..sum_list (pre @ map fst rs) - 1]"
  using assms
proof (induction ws me start rs arbitrary: pre rule: split_loop.induct)
  case (1 ws me start rs)
  show ?case
  proof (cases "rs = []")
    case False
    obtain k m n where k: "take_chunk ws me rs = (k, m, n)" by (metis prod_cases3)
    note t = take_chunk_spec [OF k False]
    have m: "0 \<le> m" using t "1.prems"(1) by (force intro!: sum_list_nonneg dest: in_set_takeD)
    let ?pre = "pre @ map fst (take k rs)"
    let ?qs = "pre @ map fst rs"
    have qs: "?qs = ?pre @ map fst (drop k rs)" by (metis append.assoc append_take_drop_id map_append)
    have rest: "0 \<le> sum_list (map fst (drop k rs))"
      using "1.prems"(1) by (force intro!: sum_list_nonneg dest: in_set_dropD)
    have "concat (map (chunk_rows ?qs) (split_loop ws me (start + k) (drop k rs)))
        = [sum_list ?pre..sum_list ?qs - 1]"
      unfolding qs using "1.prems" t
      by (intro "1.IH" [OF False k [symmetric] refl]) (auto dest: in_set_dropD)
    moreover have "base ?qs start = sum_list pre" using "1.prems"(2) by (simp add: base_def)
    moreover have "sum_list ?pre = sum_list pre + m" using t by simp
    moreover have "sum_list ?qs = sum_list ?pre + sum_list (map fst (drop k rs))" unfolding qs by simp
    ultimately have "concat (map (chunk_rows ?qs) (split_loop ws me start rs))
        = [sum_list pre..sum_list ?pre - 1] @ [sum_list ?pre..sum_list ?qs - 1]"
      using False k sub_chunks_rows [OF row_limit_pos [of me m n] m, of ?qs start "start + k"]
      by (simp add: split_loop.simps [of ws me start rs])
    also have "\<dots> = [sum_list pre..sum_list ?qs - 1]"
      using m t rest qs \<open>sum_list ?pre = _\<close> \<open>sum_list ?qs = _\<close> by (intro upto_append) auto
    finally show ?thesis .
  qed (simp add: split_loop.simps)
qed

text \<open>Each sub-chunk respects the two limits, up to a single request or a single row.\<close>

definition chunk_entries :: "int list \<Rightarrow> chunk \<Rightarrow> int" where
  "chunk_entries ss c = (case c of ((a, e), _) \<Rightarrow> sum_list (take (e - a) (drop a ss)))"

definition chunk_ok :: "int \<Rightarrow> int \<Rightarrow> int list \<Rightarrow> chunk \<Rightarrow> bool" where
  "chunk_ok ws me ss c = (case c of ((a, e), (lo, hi)) \<Rightarrow>
     a < e \<and> 0 \<le> lo \<and> lo < hi \<and> (e = a + 1 \<or> chunk_entries ss c \<le> ws)
     \<and> (hi = lo + 1 \<or> (hi - lo) * chunk_entries ss c \<le> me))"

lemma sub_chunks_ok:
  assumes "c \<in> set (sub_chunks (a, a + k) m (row_limit me m n))" "0 < k" "0 \<le> me" "0 \<le> n"
    and "n = sum_list (take k (drop a ss))" "k = 1 \<or> n \<le> ws"
  shows "chunk_ok ws me ss c"
proof -
  let ?l = "row_limit me m n"
  have l: "0 < ?l" by (rule row_limit_pos)
  obtain i where i: "i < nat (- ((- m) div ?l))"
      "c = ((a, a + k), (int i * ?l, int i * ?l + min ?l (m - int i * ?l)))"
    using assms(1) by (auto simp: sub_chunks_def offsets_def)
  have "int i + 1 \<le> - ((- m) div ?l)" using i(1) by linarith
  then have "(int i + 1) * ?l \<le> - ((- m) div ?l) * ?l" using l by (intro mult_right_mono) auto
  then have pos: "int i * ?l < m" using cdiv_bounds [OF l, of m] by (simp add: algebra_simps)
  have "min ?l (m - int i * ?l) = 1 \<or> min ?l (m - int i * ?l) * n \<le> me"
  proof (cases "0 < n \<and> 1 < me div n")
    case True
    then have "min ?l (m - int i * ?l) * n \<le> (me div n) * n"
      by (intro mult_right_mono) (auto simp: row_limit_def)
    also have "\<dots> \<le> me" using True pos_mod_sign [of n me] div_mult_mod_eq [of me n] by linarith
    finally show ?thesis ..
  next
    case False
    then consider "n = 0" | "?l = 1" using assms(4) by (force simp: row_limit_def)
    then show ?thesis using assms(3) pos by cases auto
  qed
  moreover have "0 \<le> int i * ?l" using l by simp
  ultimately show ?thesis
    using i(2) pos l assms(2,5,6) by (auto simp: chunk_ok_def chunk_entries_def)
qed

lemma split_loop_ok:
  assumes "\<forall>s\<in>set (map snd rs). 0 \<le> s" "start = length pre" "0 \<le> me"
  shows "\<forall>c\<in>set (split_loop ws me start rs). chunk_ok ws me (pre @ map snd rs) c"
  using assms
proof (induction ws me start rs arbitrary: pre rule: split_loop.induct)
  case (1 ws me start rs)
  show ?case
  proof (cases "rs = []")
    case False
    obtain k m n where k: "take_chunk ws me rs = (k, m, n)" by (metis prod_cases3)
    note t = take_chunk_spec [OF k False]
    have n: "0 \<le> n" "n = sum_list (take k (drop start (pre @ map snd rs)))"
      using t "1.prems"(1,2) by (force intro!: sum_list_nonneg dest: in_set_takeD simp: take_map)+
    have "\<forall>c\<in>set (split_loop ws me (start + k) (drop k rs)).
        chunk_ok ws me ((pre @ map snd (take k rs)) @ map snd (drop k rs)) c"
      using "1.prems" t by (intro "1.IH" [OF False k [symmetric] refl]) (auto dest: in_set_dropD)
    moreover have "(pre @ map snd (take k rs)) @ map snd (drop k rs) = pre @ map snd rs"
      by (metis append.assoc append_take_drop_id map_append)
    ultimately show ?thesis
      using sub_chunks_ok [OF _ _ "1.prems"(3) n] t False k
      by (auto simp: split_loop.simps [of ws me start rs])
  qed (simp add: split_loop.simps)
qed

text \<open>C26: the splitter packs every row exactly once.  For any batch of non-empty requests its
  chunks, in order, process the query rows \<open>0, 1, \<dots>\<close> of the batch, each exactly once; every
  chunk has at least one row, exceeds the workspace only when it holds a single request,
  and exceeds the logits budget only when it holds a single row.\<close>

theorem split_tiles_batch:
  assumes "length seq_lens = length query_lens" "\<forall>q\<in>set query_lens. 1 \<le> q"
    and "\<forall>s\<in>set seq_lens. 0 \<le> s" "0 \<le> logits_bytes"
  shows "\<exists>cs. split_prefill_chunks seq_lens query_lens ws logits_bytes = Inr cs
    \<and> concat (map (chunk_rows query_lens) cs) = [0..sum_list query_lens - 1]
    \<and> (\<forall>c\<in>set cs. chunk_ok ws (logits_bytes div 4) seq_lens c)"
proof -
  let ?rs = "zip query_lens seq_lens"
  have z: "map fst ?rs = query_lens" "map snd ?rs = seq_lens" using assms(1) by simp_all
  have nn: "\<forall>q\<in>set query_lens. 0 \<le> q" using assms(2) by force
  show ?thesis
    using nn assms split_loop_rows [of ?rs 0 "[]" ws "logits_bytes div 4"]
      split_loop_ok [of ?rs 0 "[]" "logits_bytes div 4" ws]
    unfolding z by (auto simp: split_prefill_chunks_def)
qed

lemma split_tiles_batch_witness:
  "\<exists>cs. split_prefill_chunks [10, 20, 30] [4, 5, 6] 35 400 = Inr cs
    \<and> concat (map (chunk_rows [4, 5, 6]) cs) = [0..14]"
  using split_tiles_batch [of "[10, 20, 30]" "[4, 5, 6]" 400 35] by auto

lemma split_example:
  "split_prefill_chunks [10, 20, 30] [4, 5, 6] 35 400
    = Inr [((0, 1), (0, 4)), ((1, 2), (0, 5)), ((2, 3), (0, 3)), ((2, 3), (3, 6))]"
  by code_simp

end
