(* ===== verification/Patch_Indexer.thy ===== *)
theory Patch_Indexer
  imports Patch_Engine
begin

text \<open>
  The installer half of \<open>overlay/patch_indexer_workspace.py\<close>: the three sites (marker,
  anchor, replacement), the exact post-state check and \<open>prepare\<close>.  The replacements
  contain the code that theory \<open>Indexer_Workspace\<close> models.
\<close>

section \<open>Sites\<close>

definition iw_import_mark :: string where
  \<open>iw_import_mark = text_lines [
     ''import os  # [glm53-indexer-workspace] workspace mode env'']\<close>

definition iw_import_old :: string where
  \<open>iw_import_old = text_lines [
     ''# SPDX-FileCopyrightText: Copyright contributors to the vLLM project'',
     ''from dataclasses import dataclass'']\<close>

definition iw_import_new :: string where
  \<open>iw_import_new = text_lines [
     ''# SPDX-FileCopyrightText: Copyright contributors to the vLLM project'',
     ''import os  # [glm53-indexer-workspace] workspace mode env'',
     ''from dataclasses import dataclass'']\<close>

definition iw_size_mark :: string where
  \<open>iw_size_mark = text_lines [
     ''    # [glm53-indexer-workspace] The workspace is sized in TOKENS but indexed in'']\<close>

definition iw_size_old :: string where
  \<open>iw_size_old = text_lines [
     ''def get_max_prefill_buffer_size(vllm_config: VllmConfig):'',
     ''    max_model_len = vllm_config.model_config.max_model_len'',
     ''    # NOTE(Chen): 40 is a magic number for controlling the prefill buffer size.'',
     ''    # Each entry is 128 fp8 bytes and 4 scale bytes for a total of 132 bytes.'',
     ''    # The flashmla_sparse backend uses a workspace size of 5 * max_model_len.'',
     ''    # The memory usage of the workspace there is 576 * 2 bytes; so we size this as'',
     ''    # (576 * 2 // 132) * 5 = 40 to maximize this workspace size while still fitting'',
     ''    # within the flashmla_sparse workspace.'',
     ''    # For DeepSeek-V3.2, the max_model_len is 163840.'',
     ''    #   40 * 163840 * 132 = 865075200 bytes = 825 MB'',
     ''    return max_model_len * 40'']\<close>

definition iw_size_new :: string where
  \<open>iw_size_new = text_lines [
     ''# [glm53-indexer-workspace] Opt-in right-sizing of the prefill gather'',
     ''# workspace. See overlay/patch_indexer_workspace.py and'',
     ''# docs/DESIGN-indexer-workspace.md in the recipe. Default is stock.'',
     ''_GLM53_WORKSPACE_ENV = "GLM53_INDEXER_WORKSPACE"'',
     [],
     [],
     ''def _glm53_workspace_mode() -> str:'',
     ''    """Exactly "stock" or "rightsize"; an UNSET var means "stock".'',
     [],
     ''    Same contract as the launcher: start.sh runs'',
     ''    '' @ [CHR 0x60] @ [CHR 0x60] @ ''_glm53_validate_enum GLM53_INDEXER_WORKSPACE "${GLM53_INDEXER_WORKSPACE-stock}"'',
     ''    stock rightsize'' @ [CHR 0x60] @ [CHR 0x60] @ '', which substitutes the default only when the var is'',
     ''    unset and then compares the value literally. So no normalisation here'',
     ''    either -- no strip, no lower, and "" is a value, not an absence.'',
     ''    "RIGHTSIZE", " rightsize " and "" are operator errors on both sides of the'',
     ''    container boundary, and must not silently select a serving mode.'',
     ''    """'',
     ''    raw = os.environ.get(_GLM53_WORKSPACE_ENV)'',
     ''    if raw is None:'',
     ''        return "stock"'',
     ''    if raw not in ("stock", "rightsize"):'',
     ''        raise ValueError('',
     ''            f"{_GLM53_WORKSPACE_ENV} must be exactly one of: stock rightsize "'',
     ''            f"(got: {raw!r})"'',
     ''        )'',
     ''    return raw'',
     [],
     [],
     ''def _glm53_stock_workspace_entries(max_model_len: int) -> int:'',
     ''    return max_model_len * 40'',
     [],
     [],
     ''def _glm53_indexer_compress_ratio(vllm_config) -> int:'',
     ''    """Indexer pool width from config only. 1 == no compression == no-op."""'',
     ''    hf = getattr(vllm_config.model_config, "hf_text_config", None)'',
     ''    raw = getattr(hf, "index_kpool", None) if hf is not None else None'',
     ''    try:'',
     ''        ratio = int(raw or 1)'',
     ''    except (TypeError, ValueError):'',
     ''        return 1'',
     ''    return ratio if ratio > 1 else 1'',
     [],
     [],
     ''def _glm53_rightsized_workspace_entries(vllm_config) -> int:'',
     ''    """Legal maximum compressed N a single prefill step can require.'',
     [],
     ''    Never larger than the stock value: this is a narrowing only.'',
     ''    """'',
     ''    max_model_len = int(vllm_config.model_config.max_model_len)'',
     ''    stock = _glm53_stock_workspace_entries(max_model_len)'',
     ''    ratio = _glm53_indexer_compress_ratio(vllm_config)'',
     ''    if ratio <= 1:'',
     ''        return stock'',
     ''    sched = vllm_config.scheduler_config'',
     ''    spec_cfg = getattr(vllm_config, "speculative_config", None)'',
     ''    num_spec = int(getattr(spec_cfg, "num_speculative_tokens", 0) or 0)'',
     ''    # Every prefill row costs at least one query token, so a step can carry at'',
     ''    # most this many prefill requests.'',
     ''    max_prefill_reqs = max('',
     ''        1, min(int(sched.max_num_seqs), int(sched.max_num_batched_tokens))'',
     ''    )'',
     ''    # seq_lens_cpu_upper_bound may run ahead of max_model_len by the draft'',
     ''    # length on async-spec extend rows; cdiv because the consumer floors.'',
     ''    span = max_model_len + max(0, num_spec)'',
     ''    per_req = -(-span // ratio)'',
     ''    return min(per_req * max_prefill_reqs, stock)'',
     [],
     [],
     ''def get_max_prefill_buffer_size(vllm_config: VllmConfig):'',
     ''    max_model_len = vllm_config.model_config.max_model_len'',
     ''    # NOTE(Chen): 40 is a magic number for controlling the prefill buffer size.'',
     ''    # Each entry is 128 fp8 bytes and 4 scale bytes for a total of 132 bytes.'',
     ''    # The flashmla_sparse backend uses a workspace size of 5 * max_model_len.'',
     ''    # The memory usage of the workspace there is 576 * 2 bytes; so we size this as'',
     ''    # (576 * 2 // 132) * 5 = 40 to maximize this workspace size while still fitting'',
     ''    # within the flashmla_sparse workspace.'',
     ''    # For DeepSeek-V3.2, the max_model_len is 163840.'',
     ''    #   40 * 163840 * 132 = 865075200 bytes = 825 MB'',
     ''    # [glm53-indexer-workspace] The workspace is sized in TOKENS but indexed in'',
     ''    # POOLS: split_indexer_prefill_chunks above is fed seq_lens // compress_ratio'',
     ''    # by the metadata builder, and models/deepseek_v4/attention.py already'',
     ''    # divides this return value by compress_ratio at its call site --'',
     ''    # models/glm5next/nvidia/attention.py does not. At max_model_len=1e6 the'',
     ''    # stock value is 40,000,000 entries; a 2026-09-01 VLLM_DEBUG_WORKSPACE boot'',
     ''    # measured the resulting lock at 5036.40 MB, inside the memory profile and'',
     ''    # therefore straight out of the KV pool.'',
     ''    #'',
     ''    # "rightsize" returns the LEGAL MAXIMUM a single step can need, so the'',
     ''    # workspace constraint in the splitter binds exactly where it already did'',
     ''    # and the chunk list is unchanged. It never exceeds the stock value.'',
     ''    # Default is stock: an unset env var is byte-for-byte the expression below.'',
     ''    _glm53_stock = _glm53_stock_workspace_entries(max_model_len)'',
     ''    if _glm53_workspace_mode() != "rightsize":'',
     ''        return _glm53_stock'',
     ''    _glm53_entries = _glm53_rightsized_workspace_entries(vllm_config)'',
     ''    if _glm53_entries >= _glm53_stock:'',
     ''        # The legal maximum is already above stock: stock is under-sized here'',
     ''        # to begin with. Return it unchanged rather than growing the profile.'',
     ''        logger.warning('',
     ''            "[glm53-indexer-workspace] legal max %d entries >= stock %d; "'',
     ''            "keeping stock sizing",'',
     ''            _glm53_entries,'',
     ''            _glm53_stock,'',
     ''        )'',
     ''        return _glm53_stock'',
     ''    logger.info('',
     ''        "[glm53-indexer-workspace] rightsize: compress_ratio=%d "'',
     ''        "max_num_seqs=%d max_num_batched_tokens=%d -> %d entries "'',
     ''        "(stock %d, ~%.1f MiB reclaimed at 132 B/entry)",'',
     ''        _glm53_indexer_compress_ratio(vllm_config),'',
     ''        vllm_config.scheduler_config.max_num_seqs,'',
     ''        vllm_config.scheduler_config.max_num_batched_tokens,'',
     ''        _glm53_entries,'',
     ''        _glm53_stock,'',
     ''        (_glm53_stock - _glm53_entries) * 132 / (1024 * 1024),'',
     ''    )'',
     ''    return _glm53_entries'']\<close>

definition iw_guard_mark :: string where
  \<open>iw_guard_mark = text_lines [
     ''        # [glm53-indexer-workspace] The sizing above ran against'']\<close>

definition iw_guard_old :: string where
  \<open>iw_guard_old = text_lines [
     ''        # KV compression. Default to 1 for no compression.'',
     ''        self.compress_ratio = 1'',
     ''        # Get compress_ratio for DeepseekV4 support'',
     ''        if isinstance(self.kv_cache_spec, MLAAttentionSpec):'',
     ''            self.compress_ratio = self.kv_cache_spec.compress_ratio'',
     ''        if self.dcp_world_size > 1 and self.compress_ratio > 1:'',
     ''            raise NotImplementedError('',
     ''                "DCP is not supported with sparse indexer KV compression "'',
     ''                f"(compress_ratio={self.compress_ratio})."'',
     ''            )'']\<close>

definition iw_guard_new :: string where
  \<open>iw_guard_new = text_lines [
     ''        # KV compression. Default to 1 for no compression.'',
     ''        self.compress_ratio = 1'',
     ''        # Get compress_ratio for DeepseekV4 support'',
     ''        if isinstance(self.kv_cache_spec, MLAAttentionSpec):'',
     ''            self.compress_ratio = self.kv_cache_spec.compress_ratio'',
     ''        if self.dcp_world_size > 1 and self.compress_ratio > 1:'',
     ''            raise NotImplementedError('',
     ''                "DCP is not supported with sparse indexer KV compression "'',
     ''                f"(compress_ratio={self.compress_ratio})."'',
     ''            )'',
     ''        # [glm53-indexer-workspace] The sizing above ran against'',
     ''        # hf_text_config.index_kpool, because get_max_prefill_buffer_size only'',
     ''        # receives vllm_config. THIS is the authoritative ratio: the runtime'',
     ''        # divides seq_lens by self.compress_ratio before handing them to the'',
     ''        # splitter. They are the same number by construction'',
     ''        # (models/glm5next/nvidia/attention.py replaces the indexer spec with'',
     ''        # compress_ratio=index_kpool), but construction is not a check. Fail at'',
     ''        # init, on every TP rank, rather than at the first oversized step.'',
     ''        #'',
     ''        # The comparison is UNCONDITIONAL in rightsize mode, in both'',
     ''        # directions. Guarding it on self.compress_ratio > 1 would skip the one'',
     ''        # case that actually under-sizes: index_kpool=4 with'',
     ''        # kv_cache_spec.compress_ratio=1 sizes the workspace for ~4M compressed'',
     ''        # entries while the runtime hands the splitter up to ~16M token'',
     ''        # entries. The mirror case (index_kpool absent/1 with compress_ratio>1)'',
     ''        # sizes at stock and so cannot under-run, but it still means the two'',
     ''        # config sources disagree about the model being served, which is not a'',
     ''        # state to serve rightsize from.'',
     ''        if _glm53_workspace_mode() == "rightsize":'',
     ''            _glm53_cfg_ratio = _glm53_indexer_compress_ratio(self.vllm_config)'',
     ''            if _glm53_cfg_ratio != self.compress_ratio:'',
     ''                raise ValueError('',
     ''                    "[glm53-indexer-workspace] compress-ratio disagreement: "'',
     ''                    f"hf_text_config.index_kpool={_glm53_cfg_ratio} but "'',
     ''                    f"kv_cache_spec.compress_ratio={self.compress_ratio}. "'',
     ''                    "Refusing to serve on a workspace sized from the wrong "'',
     ''                    f"ratio; unset {_GLM53_WORKSPACE_ENV} to use stock sizing."'',
     ''                )'',
     ''            _glm53_need = _glm53_rightsized_workspace_entries(self.vllm_config)'',
     ''            _glm53_stock = _glm53_stock_workspace_entries('',
     ''                self.vllm_config.model_config.max_model_len'',
     ''            )'',
     ''            if self.max_prefill_buffer_size < min(_glm53_need, _glm53_stock):'',
     ''                raise ValueError('',
     ''                    "[glm53-indexer-workspace] workspace "'',
     ''                    f"{self.max_prefill_buffer_size} entries is below the legal "'',
     ''                    f"per-step maximum {_glm53_need} (compress_ratio="'',
     ''                    f"{self.compress_ratio}, max_num_seqs="'',
     ''                    f"{self.vllm_config.scheduler_config.max_num_seqs})."'',
     ''                )'',
     ''            logger.info('',
     ''                "[glm53-indexer-workspace] builder: compress_ratio=%d "'',
     ''                "workspace=%d entries (legal max %d, stock %d)",'',
     ''                self.compress_ratio,'',
     ''                self.max_prefill_buffer_size,'',
     ''                _glm53_need,'',
     ''                _glm53_stock,'',
     ''            )'']\<close>

text \<open>The name, marker, anchor and replacement of each site.\<close>

definition iw_sites :: "(string \<times> string \<times> string \<times> string) list" where
  "iw_sites = [(''os import'', iw_import_mark, iw_import_old, iw_import_new),
     (''workspace sizing'', iw_size_mark, iw_size_old, iw_size_new),
     (''builder cross-check'', iw_guard_mark, iw_guard_old, iw_guard_new)]"

section \<open>Installing\<close>

definition iw_verified_state :: "string \<Rightarrow> bool" where
  "iw_verified_state s \<longleftrightarrow> (\<forall>(_, mark, old, new)\<in>set iw_sites.
     text_count mark s = 1 \<and> text_count new s = 1 \<and> text_count old s = text_count old new)"

definition iw_marks :: "string \<Rightarrow> nat" where
  "iw_marks s = sum_list (map (\<lambda>(_, mark, _, _). text_count mark s) iw_sites)"

definition iw_edits :: "edit list" where
  "iw_edits = map (\<lambda>(name, _, old, new). (name, old, new)) iw_sites"

definition iw_prepare :: "string \<Rightarrow> fault + string" where
  "iw_prepare s =
     (if iw_marks s \<noteq> 0 then
        (if iw_marks s \<noteq> length iw_sites \<or> \<not> iw_verified_state s
         then Inl (Refused ''partial/inconsistent'') else Inr s)
      else and_then (apply_edits iw_edits s) (\<lambda>u.
        if \<not> iw_verified_state u then Inl (Refused ''post-patch verification'') else Inr u))"

text \<open>\<open>main\<close>: \<open>compiles\<close> is the built-in \<open>compile\<close>; a preflight run writes nothing.\<close>

definition iw_main :: "(string \<Rightarrow> bool) \<Rightarrow> bool \<Rightarrow> string \<Rightarrow> files \<Rightarrow> files \<times> fault option" where
  "iw_main compiles preflight_only p fs =
     (case fs p of
        None \<Rightarrow> (fs, Some MissingFile)
      | Some s \<Rightarrow>
          (case iw_prepare s of
             Inl e \<Rightarrow> (fs, Some e)
           | Inr u \<Rightarrow>
               (if \<not> compiles u then (fs, Some Unparsable)
                else if preflight_only then (fs, None)
                else (if u \<noteq> s then fs(p \<mapsto> u) else fs, None))))"

section \<open>Lemmas\<close>

lemma iw_verified_marks: "iw_verified_state s \<Longrightarrow> iw_marks s = length iw_sites"
proof -
  assume v: "iw_verified_state s"
  have "sum_list (map (\<lambda>(_, mark, _, _). text_count mark s) sites) = length sites"
    if "\<forall>(_, mark, old, new)\<in>set sites. text_count mark s = 1" for sites :: "(string \<times> string \<times> string \<times> string) list"
    using that by (induction sites) auto
  from this [of iw_sites] v show ?thesis unfolding iw_marks_def iw_verified_state_def by fastforce
qed

lemma iw_sites_length: "length iw_sites = 3"
  by (simp only: iw_sites_def list.size)

interpretation iw: stable_patch iw_prepare iw_verified_state
proof
  fix s u
  show "iw_prepare s = Inr u \<Longrightarrow> iw_verified_state u"
    by (auto simp: iw_prepare_def split: if_splits)
  show "iw_verified_state s \<Longrightarrow> iw_prepare s = Inr u \<Longrightarrow> u = s"
    using iw_verified_marks [of s] by (simp add: iw_prepare_def iw_sites_length)
  show "iw_verified_state s \<Longrightarrow> iw_prepare s = Inr s"
    using iw_verified_marks [of s] by (simp add: iw_prepare_def iw_sites_length)
qed

text \<open>A preflight run and a failing run write nothing, and installing twice is installing once.\<close>

lemma iw_main_preflight: "fst (iw_main C True p fs) = fs"
  by (simp add: iw_main_def split: option.split sum.split)

lemma iw_main_failure: "iw_main C b p fs = (fs', Some e) \<Longrightarrow> fs' = fs"
  by (auto simp: iw_main_def split: option.splits sum.splits if_splits)

lemma iw_main_idem: "iw_main C b p (fst (iw_main C b p fs)) = iw_main C b p fs"
  using iw.prepare_idem
  by (auto simp: iw_main_def split: option.splits sum.splits if_splits)

end
