(* ===== verification/Py_Lines.thy ===== *)
theory Py_Lines
  imports Py_Text
begin

text \<open>
  Lines, words and pattern matching, as \<open>str.splitlines\<close>, \<open>str.split\<close> and the regular
  expressions of the tools use them.  Every expression of the tools is deterministic
  enough to be read by a recursive matcher: a matcher takes the text at a position, and
  whether a word character precedes it, and returns the captured group.
\<close>

section \<open>Lines\<close>

text \<open>The line boundaries of \<open>str.splitlines\<close> below code point 256.\<close>

definition is_eol_c :: "char \<Rightarrow> bool" where
  "is_eol_c c \<longleftrightarrow> ord_c c \<in> {10, 11, 12, 13, 28, 29, 30, 133}"

fun cons_line :: "char \<Rightarrow> string list \<Rightarrow> string list" where
  "cons_line c [] = [[c]]"
| "cons_line c (l # ls) = (c # l) # ls"

fun splitlines :: "string \<Rightarrow> string list" where
  "splitlines [] = []"
| "splitlines [c] = (if is_eol_c c then [[]] else [[c]])"
| "splitlines (c # d # cs) =
     (if c = CHR 0x0D \<and> d = CHR 0x0A then [] # splitlines cs
      else if is_eol_c c then [] # splitlines (d # cs)
      else cons_line c (splitlines (d # cs)))"

lemma is_eol_LF [simp]: "is_eol_c (CHR 0x0A)" "is_eol_c (CHR 0x0D)"
  by code_simp+

lemma cons_line_append: "xs \<noteq> [] \<Longrightarrow> cons_line c (xs @ ys) = cons_line c xs @ ys"
  by (cases xs) auto

lemma splitlines_Nil_iff [simp]: "splitlines s = [] \<longleftrightarrow> s = []"
proof (induction s rule: splitlines.induct)
  case (3 c d cs)
  then show ?case by (cases "splitlines (d # cs)") auto
qed auto

text \<open>A line feed ends a line whatever precedes it.\<close>

lemma splitlines_LF:
  "splitlines (x @ CHR 0x0A # r) = splitlines (x @ [CHR 0x0A]) @ splitlines r"
proof (induction x rule: splitlines.induct)
  case 1
  then show ?case by (cases r) auto
next
  case (2 c)
  then show ?case by (cases r) (auto simp: cons_line_append)
next
  case (3 c d cs)
  then show ?case by (auto simp: cons_line_append)
qed

lemma count_LF_lines: "count_list s (CHR 0x0A) \<le> length (splitlines s)"
proof (induction s rule: splitlines.induct)
  case (3 c d cs)
  then show ?case by (cases "splitlines (d # cs)") (auto split: if_splits)
qed auto

text \<open>\<open>xs[-n:]\<close> for a positive \<open>n\<close>.\<close>

definition last_n :: "nat \<Rightarrow> 'a list \<Rightarrow> 'a list" where
  "last_n n xs = drop (length xs - n) xs"

lemma last_n_append: "n \<le> length ys \<Longrightarrow> last_n n (xs @ ys) = last_n n ys"
  by (simp add: last_n_def)

lemma last_n_length [simp]: "length (last_n n xs) = min n (length xs)"
  by (simp add: last_n_def)

lemma set_last_n: "set (last_n n xs) \<subseteq> set xs"
  by (simp add: last_n_def set_drop_subset)

section \<open>Words\<close>

text \<open>\<open>s.split()\<close>.\<close>

fun words :: "string \<Rightarrow> string list" where
  "words [] = []"
| "words [c] = (if is_space_c c then [] else [[c]])"
| "words (c # d # cs) =
     (if is_space_c c then words (d # cs)
      else if is_space_c d then [c] # words (d # cs)
      else cons_line c (words (d # cs)))"

section \<open>Matchers\<close>

text \<open>\<open>\w\<close> below code point 256.\<close>

definition is_word_c :: "char \<Rightarrow> bool" where
  "is_word_c c \<longleftrightarrow> is_alpha_c c \<or> is_digit_c c \<or> c = CHR ''_''
     \<or> ord_c c \<in> {170, 178, 179, 181, 185, 186, 188, 189, 190}
     \<or> (192 \<le> ord_c c \<and> ord_c c \<noteq> 215 \<and> ord_c c \<noteq> 247)"

type_synonym matcher = "bool \<Rightarrow> string \<Rightarrow> string option"

text \<open>\<open>pattern.search\<close>: the first position at which the matcher succeeds.\<close>

fun search_from :: "matcher \<Rightarrow> bool \<Rightarrow> string \<Rightarrow> string option" where
  "search_from m prev [] = m prev []"
| "search_from m prev (c # cs) =
     (case m prev (c # cs) of Some g \<Rightarrow> Some g | None \<Rightarrow> search_from m (is_word_c c) cs)"

definition search :: "matcher \<Rightarrow> string \<Rightarrow> string option" where
  "search m s = search_from m False s"

text \<open>A literal, exactly and ignoring case (the literal is given in lower case).\<close>

definition lit :: "string \<Rightarrow> string \<Rightarrow> string option" where
  "lit p s = (if starts_with p s then Some (drop (length p) s) else None)"

definition lit_ci :: "string \<Rightarrow> string \<Rightarrow> string option" where
  "lit_ci p s = (if map lower_c (take (length p) s) = p then Some (drop (length p) s) else None)"

definition skip_space :: "string \<Rightarrow> string" where
  "skip_space s = dropWhile is_space_c s"

text \<open>\<open>[0-9]+(?:\.[0-9]+)?\<close>: the matched text and the rest.\<close>

definition read_decimal :: "string \<Rightarrow> (string \<times> string) option" where
  "read_decimal s =
     (let ds = takeWhile is_digit_c s; r = dropWhile is_digit_c s in
      if ds = [] then None
      else (case r of
              CHR ''.'' # q \<Rightarrow>
                (let f = takeWhile is_digit_c q in
                 if f = [] then Some (ds, r)
                 else Some (ds @ CHR ''.'' # f, dropWhile is_digit_c q))
            | _ \<Rightarrow> Some (ds, r)))"

definition one_of :: "string list \<Rightarrow> string \<Rightarrow> string option" where
  "one_of ps s = (case filter (\<lambda>p. lit_ci p s \<noteq> None) ps of [] \<Rightarrow> None | p # _ \<Rightarrow> lit_ci p s)"

lemma search_complete:
  "m prev s = Some g \<Longrightarrow> search_from m prev s \<noteq> None"
  by (cases s) auto

end
