(* ===== verification/Watchdog.thy ===== *)
theory Watchdog
  imports Py_Lines Py_Stats
begin

text \<open>
  \<open>vllm-exl3/scripts/prefill-watchdog.py\<close>: reading Prometheus snapshots and log lines,
  turning cumulative counters into per-interval observations, comparing the recent window
  with a median baseline, reading the tail of a large log, and the exit code.  Scraping
  over HTTP and the file system are arguments of \<open>watchdog\<close>; the log is read as bytes
  that decode to themselves.
\<close>

section \<open>Snapshots\<close>

record snapshot =
  source :: string
  ts :: real
  prompt_tokens :: "real option"
  ttft_sum :: "real option"
  ttft_count :: "real option"
  process_start :: "real option"
  boot_label :: "string option"

definition metric_char :: "char \<Rightarrow> bool" where
  "metric_char c \<longleftrightarrow> is_alpha_c c \<or> is_digit_c c \<or> c = CHR ''_'' \<or> c = CHR '':''"

text \<open>The value of a sample, when it is a finite number.\<close>

definition metric_value :: "string \<Rightarrow> real option" where
  "metric_value tok =
     (if \<forall>c\<in>set tok. is_digit_c c \<or> c \<in> {CHR ''.'', CHR ''e'', CHR ''E'', CHR ''+'', CHR ''-''} then
        (case parse_float tok of Some (Fin x) \<Rightarrow> Some x | _ \<Rightarrow> None)
      else None)"

definition timestamp_token :: "string \<Rightarrow> bool" where
  "timestamp_token tok \<longleftrightarrow>
     (case read_decimal (snd (read_sign tok)) of Some (_, []) \<Rightarrow> True | _ \<Rightarrow> False)"

text \<open>\<open>_METRIC_RE.match(line)\<close> and \<open>_parse_value\<close>: a metric name, optional labels, a value
  and an optional timestamp.\<close>

definition metric_line :: "string \<Rightarrow> (string \<times> real) option" where
  "metric_line s =
     (let name = takeWhile metric_char s; r = dropWhile metric_char s in
      if name = [] \<or> is_digit_c (hd name) then None
      else
        (let r1 = (case r of
              CHR ''{'' # q \<Rightarrow> (if CHR ''}'' \<in> set q then tl (dropWhile (\<lambda>c. c \<noteq> CHR ''}'') q) else [])
            | _ \<Rightarrow> r) in
         if r1 = [] \<or> \<not> is_space_c (hd r1) then None
         else (case words r1 of
                 [v] \<Rightarrow> map_option (\<lambda>x. (name, x)) (metric_value v)
               | [v, t] \<Rightarrow>
                   (if timestamp_token t then map_option (\<lambda>x. (name, x)) (metric_value v) else None)
               | _ \<Rightarrow> None)))"

definition boot_label_at :: matcher where
  "boot_label_at prev s =
     (if prev then None
      else (case lit (''boot_id='' @ [CHR 0x22]) s of
              None \<Rightarrow> None
            | Some q \<Rightarrow>
                (let l = takeWhile (\<lambda>c. c \<noteq> CHR 0x22) q in
                 if l = [] \<or> length l = length q then None else Some l)))"

text \<open>\<open>_START_METRIC_RE.search(name)\<close>.\<close>

definition start_metric :: "string \<Rightarrow> bool" where
  "start_metric name \<longleftrightarrow>
     (let ws = [''process'', ''engine'', ''server'']; st = ''start_time_seconds'' in
      (ends_with st name \<and> (\<exists>w\<in>set ws. contains w (take (length name - length st) name)))
      \<or> (\<exists>w\<in>set ws. ends_with w name \<and> contains st (take (length name - length w) name)))"

definition add_value :: "real option \<Rightarrow> real \<Rightarrow> real option" where
  "add_value old v = Some ((case old of None \<Rightarrow> 0 | Some x \<Rightarrow> x) + v)"

definition metric_step :: "snapshot \<Rightarrow> string \<Rightarrow> snapshot" where
  "metric_step sn raw =
     (let line = strip raw in
      if line = [] \<or> starts_with ''#'' line then sn
      else
        (let sn1 = (if boot_label sn = None then sn\<lparr>boot_label := search boot_label_at line\<rparr> else sn) in
         case metric_line line of
           None \<Rightarrow> sn1
         | Some (name, v) \<Rightarrow>
             (if name = ''vllm:prompt_tokens_total'' then
                sn1\<lparr>prompt_tokens := add_value (prompt_tokens sn1) v\<rparr>
              else if name = ''vllm:time_to_first_token_seconds_sum'' then
                sn1\<lparr>ttft_sum := add_value (ttft_sum sn1) v\<rparr>
              else if name = ''vllm:time_to_first_token_seconds_count'' then
                sn1\<lparr>ttft_count := add_value (ttft_count sn1) v\<rparr>
              else if start_metric name \<and> process_start sn1 = None then
                sn1\<lparr>process_start := Some v\<rparr>
              else sn1)))"

definition parse_metrics_text :: "string \<Rightarrow> string \<Rightarrow> real \<Rightarrow> snapshot" where
  "parse_metrics_text text src t =
     foldl metric_step \<lparr>source = src, ts = t, prompt_tokens = None, ttft_sum = None,
       ttft_count = None, process_start = None, boot_label = None\<rparr> (splitlines text)"

section \<open>Observations\<close>

record observation =
  tok_s :: "real option"
  ttft_s :: "real option"
  obs_tokens :: real
  dt_s :: "real option"

text \<open>\<open>d(current) - d(previous)\<close> where both are exported.\<close>

definition delta :: "('a \<Rightarrow> real option) \<Rightarrow> 'a \<Rightarrow> 'a \<Rightarrow> real option" where
  "delta f p c = (case (f p, f c) of (Some a, Some b) \<Rightarrow> Some (b - a) | _ \<Rightarrow> None)"

datatype interval = Skip | Clear | Observe observation

definition restarted :: "snapshot \<Rightarrow> snapshot \<Rightarrow> bool" where
  "restarted p c \<longleftrightarrow> (case (process_start p, process_start c) of
      (Some a, Some b) \<Rightarrow> a \<noteq> b | _ \<Rightarrow> False)"

definition observe_interval :: "snapshot \<Rightarrow> snapshot \<Rightarrow> interval" where
  "observe_interval p c =
     (case delta prompt_tokens p c of
        None \<Rightarrow> Skip
      | Some d_prompt \<Rightarrow>
          (if restarted p c then Clear
           else
             (let d_sum = delta ttft_sum p c; d_count = delta ttft_count p c in
              if d_prompt < 0 \<or> (case d_sum of None \<Rightarrow> False | Some d \<Rightarrow> d < 0) then Clear
              else if d_prompt \<le> 0 then Skip
              else
                (let dt = (if ts c > ts p then Some (ts c - ts p) else None);
                     tok = (case d_sum of
                              Some d \<Rightarrow> (if d > 0 then Some (d_prompt / d)
                                         else (case dt of Some t \<Rightarrow> Some (d_prompt / t) | None \<Rightarrow> None))
                            | None \<Rightarrow> (case dt of Some t \<Rightarrow> Some (d_prompt / t) | None \<Rightarrow> None));
                     ttft = (case (d_sum, d_count) of
                               (Some d, Some n) \<Rightarrow> (if n > 0 then Some (d / n) else None)
                             | _ \<Rightarrow> None) in
                 Observe \<lparr>tok_s = tok, ttft_s = ttft, obs_tokens = d_prompt, dt_s = dt\<rparr>))))"

fun observe_loop :: "observation list \<Rightarrow> snapshot list \<Rightarrow> observation list" where
  "observe_loop acc (p # c # ss) =
     (case observe_interval p c of
        Skip \<Rightarrow> observe_loop acc (c # ss)
      | Clear \<Rightarrow> observe_loop [] (c # ss)
      | Observe ob \<Rightarrow> observe_loop (acc @ [ob]) (c # ss))"
| "observe_loop acc _ = acc"

definition observations_from_snapshots :: "snapshot list \<Rightarrow> observation list" where
  "observations_from_snapshots ss = observe_loop [] ss"

section \<open>The verdict on a series\<close>

datatype status = Insufficient | Healthy | Degraded

record analysis =
  an_status :: status
  an_n :: nat
  an_baseline :: "real option"
  an_recent :: "real option"
  an_drop :: "real option"
  an_cutoff :: "real option"
  an_below :: nat

definition insufficient :: "nat \<Rightarrow> analysis" where
  "insufficient n = \<lparr>an_status = Insufficient, an_n = n, an_baseline = None, an_recent = None,
     an_drop = None, an_cutoff = None, an_below = 0\<rparr>"

definition clean_values :: "real option list \<Rightarrow> real list" where
  "clean_values vs = filter (\<lambda>x. x > 0) (List.map_filter (\<lambda>v. v) vs)"

definition baseline_pool :: "int \<Rightarrow> int \<Rightarrow> real list \<Rightarrow> real list" where
  "baseline_pool window baseline_window xs =
     drop (nat (int (length xs) - window - baseline_window)) (take (length xs - nat window) xs)"

definition analyze_series ::
  "int \<Rightarrow> real \<Rightarrow> int \<Rightarrow> real option list \<Rightarrow> py_exc + analysis" where
  "analyze_series window threshold baseline_window vs =
     (if window < 1 then Inl ValueError
      else if baseline_window < 1 then Inl ValueError
      else if \<not> (0 < threshold \<and> threshold < 1) then Inl ValueError
      else
        (let xs = clean_values vs in
         if int (length xs) < window + 1 then Inr (insufficient (length xs))
         else
           (let recent_values = last_n (nat window) xs;
                baseline_values = baseline_pool window baseline_window xs in
            if baseline_values = [] then Inr (insufficient (length xs))
            else
              (let baseline = median baseline_values; recent = median recent_values;
                   cutoff = baseline * (1 - threshold) in
               Inr \<lparr>an_status = (if recent \<le> cutoff then Degraded else Healthy),
                    an_n = length xs, an_baseline = Some baseline, an_recent = Some recent,
                    an_drop = (if baseline > 0 then Some (1 - recent / baseline) else None),
                    an_cutoff = Some cutoff,
                    an_below = length (filter (\<lambda>v. v \<le> cutoff) recent_values)\<rparr>))))"

section \<open>Log lines\<close>

text \<open>The four expressions of \<open>_LOG_PATTERNS\<close>, each with its case folding.\<close>

definition throughput_at :: matcher where
  "throughput_at prev s =
     Option.bind (lit_ci ''avg prompt throughput:'' s) (\<lambda>r.
     Option.bind (read_decimal (skip_space r)) (\<lambda>(num, q).
     map_option (\<lambda>_. num) (one_of [''tokens/s'', ''token/s''] (skip_space q))))"

definition prefill_at :: matcher where
  "prefill_at prev s =
     (if prev then None
      else Option.bind (lit_ci ''prefill'' s) (\<lambda>r.
        let r1 = skip_space (case one_of [''_tok_s'', ''_tokens_per_second''] r of
                               None \<Rightarrow> r | Some q \<Rightarrow> q) in
        case r1 of
          c # q \<Rightarrow> (if c = CHR ''='' \<or> c = CHR '':'' then map_option fst (read_decimal (skip_space q))
                    else None)
        | [] \<Rightarrow> None))"

fun rate_within :: "nat \<Rightarrow> string \<Rightarrow> string option" where
  "rate_within k s =
     (case Option.bind (read_decimal s) (\<lambda>(num, q).
             map_option (\<lambda>_. num) (one_of [''tok/s'', ''tokens/s'', ''token/s''] (skip_space q))) of
        Some num \<Rightarrow> Some num
      | None \<Rightarrow>
          (case (k, s) of
             (Suc j, c # cs) \<Rightarrow> (if c = CHR 0x0A then None else rate_within j cs)
           | _ \<Rightarrow> None))"

declare rate_within.simps [simp del]

definition prefill_rate_at :: matcher where
  "prefill_rate_at prev s =
     (if prev then None
      else Option.bind (lit_ci ''prefill'' s) (\<lambda>r.
        if r \<noteq> [] \<and> is_word_c (hd r) then None else rate_within 80 r))"

definition prefill_json_at :: matcher where
  "prefill_json_at prev s =
     Option.bind (lit_ci ([CHR 0x22] @ ''prefill_tok_s'' @ [CHR 0x22]) s) (\<lambda>r.
     Option.bind (lit '':'' (skip_space r)) (\<lambda>q.
     map_option fst (read_decimal (skip_space q))))"

fun first_match :: "matcher list \<Rightarrow> string \<Rightarrow> string option" where
  "first_match [] s = None"
| "first_match (m # ms) s = (case search m s of Some g \<Rightarrow> Some g | None \<Rightarrow> first_match ms s)"

definition log_value :: "string \<Rightarrow> real option" where
  "log_value line =
     Option.bind (first_match [throughput_at, prefill_at, prefill_rate_at, prefill_json_at] line)
       metric_value"

fun parse_log_values :: "string list \<Rightarrow> real list \<times> nat" where
  "parse_log_values [] = ([], 0)"
| "parse_log_values (l # ls) =
     (case parse_log_values ls of (vs, z) \<Rightarrow>
        (case log_value l of
           None \<Rightarrow> (vs, z)
         | Some v \<Rightarrow> if v \<le> 0 then (vs, Suc z) else (v # vs, z)))"

section \<open>The tail of a log\<close>

text \<open>Blocks of 64 KiB are prepended until more than \<open>m\<close> line feeds have been read.\<close>

function tail_data :: "nat \<Rightarrow> string \<Rightarrow> nat \<Rightarrow> string \<Rightarrow> string" where
  "tail_data m body e data =
     (if 0 < e \<and> count_list data (CHR 0x0A) \<le> m then
        (let step = min 65536 e in
         tail_data m body (e - step) (take step (drop (e - step) body) @ data))
      else data)"
  by auto
termination by (relation "measure (\<lambda>(m, body, e, data). e)") (auto simp: min_def)

declare tail_data.simps [simp del]

datatype wd_error = CannotRead | BadTailLines | LogNotFound | NoSamples

definition read_tail :: "int \<Rightarrow> string \<Rightarrow> wd_error + string list" where
  "read_tail max_lines body =
     (if max_lines < 1 then Inl BadTailLines
      else Inr (last_n (nat max_lines)
             (splitlines (tail_data (nat max_lines) body (length body) []))))"

section \<open>The run\<close>

record wd_args =
  window :: int
  threshold :: real
  baseline_window :: int
  samples :: int
  scrape_interval :: real
  tail_lines :: int
  has_metrics_files :: bool
  has_log_file :: bool

datatype log_file = LogMissing | LogUnreadable | LogText string

datatype run_status = RunOK | RunDegraded | RunError

record payload =
  run_status :: run_status
  exit_code :: int
  analyses :: "(string \<times> analysis) list"
  run_errors :: "wd_error list"
  primary :: "analysis option"

definition rounded :: "analysis \<Rightarrow> analysis" where
  "rounded a = a\<lparr>an_baseline := map_option (py_round 4) (an_baseline a),
     an_recent := map_option (py_round 4) (an_recent a),
     an_drop := map_option (py_round 4) (an_drop a),
     an_cutoff := map_option (py_round 4) (an_cutoff a)\<rparr>"

text \<open>The first degraded record, else the first healthy one, else the first.\<close>

definition primary_record :: "(string \<times> analysis) list \<Rightarrow> analysis option" where
  "primary_record rs =
     map_option (rounded \<circ> snd)
       (case List.find (\<lambda>r. an_status (snd r) = Degraded) rs of
          Some r \<Rightarrow> Some r
        | None \<Rightarrow>
            (case List.find (\<lambda>r. an_status (snd r) = Healthy) rs of
               Some r \<Rightarrow> Some r
             | None \<Rightarrow> (case rs of [] \<Rightarrow> None | r # _ \<Rightarrow> Some r)))"

definition analyze_metrics :: "wd_args \<Rightarrow> snapshot list \<Rightarrow> py_exc + analysis" where
  "analyze_metrics a ss =
     analyze_series (window a) (threshold a) (baseline_window a)
       (map tok_s (filter (\<lambda>ob. tok_s ob \<noteq> None) (observations_from_snapshots ss)))"

definition analyze_log :: "wd_args \<Rightarrow> string list \<Rightarrow> py_exc + analysis" where
  "analyze_log a ls =
     analyze_series (window a) (threshold a) (baseline_window a) (map Some (fst (parse_log_values ls)))"

text \<open>Step 1: the metrics, from files or over HTTP.  \<open>files\<close> and \<open>http n\<close> are the snapshots
  that could be read, or \<open>None\<close> for a \<open>WatchdogError\<close>; only the files make that an error.\<close>

definition metrics_step ::
  "wd_args \<Rightarrow> snapshot list option \<Rightarrow> (int \<Rightarrow> snapshot list option) \<Rightarrow>
   py_exc + (string \<times> analysis) list \<times> wd_error list" where
  "metrics_step a files http =
     (let analyse = (\<lambda>ss. case analyze_metrics a ss of Inl e \<Rightarrow> Inl e
                        | Inr r \<Rightarrow> Inr ([(''metrics'', r)], [])) in
      if has_metrics_files a then
        (case files of None \<Rightarrow> Inr ([], [CannotRead]) | Some ss \<Rightarrow> analyse ss)
      else if \<not> has_log_file a then
        (case http (max (if samples a \<noteq> 0 then samples a else window a + 4) 2) of
           None \<Rightarrow> Inr ([], []) | Some ss \<Rightarrow> analyse ss)
      else Inr ([], []))"

text \<open>Step 2: the log, when it was asked for or the metrics gave nothing.\<close>

definition log_step ::
  "wd_args \<Rightarrow> log_file \<Rightarrow> (string \<times> analysis) list \<times> wd_error list \<Rightarrow>
   py_exc + (string \<times> analysis) list \<times> wd_error list" where
  "log_step a lf st =
     (let (rs, es) = st;
          empty_metrics = (rs = [] \<or> (\<exists>r\<in>set rs. an_status (snd r) = Insufficient)) in
      if has_log_file a \<or> (\<not> has_metrics_files a \<and> empty_metrics) then
        (case lf of
           LogMissing \<Rightarrow> Inr (rs, if has_log_file a then es @ [LogNotFound] else es)
         | LogUnreadable \<Rightarrow>
             Inr (rs, es @ [if tail_lines a < 1 then BadTailLines else CannotRead])
         | LogText body \<Rightarrow>
             (case read_tail (tail_lines a) body of
                Inl e \<Rightarrow> Inr (rs, es @ [e])
              | Inr ls \<Rightarrow>
                  (case analyze_log a ls of Inl e \<Rightarrow> Inl e | Inr r \<Rightarrow> Inr (rs @ [(''log'', r)], es))))
      else Inr (rs, es))"

text \<open>Step 3: the verdict of the run.\<close>

definition conclude :: "(string \<times> analysis) list \<times> wd_error list \<Rightarrow> payload" where
  "conclude st =
     (let (rs, es) = st; usable = filter (\<lambda>r. an_status (snd r) \<noteq> Insufficient) rs in
      if es \<noteq> [] then
        \<lparr>run_status = RunError, exit_code = 1, analyses = rs, run_errors = es, primary = primary_record rs\<rparr>
      else if usable = [] then
        \<lparr>run_status = RunError, exit_code = 1, analyses = rs, run_errors = [NoSamples],
          primary = primary_record rs\<rparr>
      else if \<exists>r\<in>set usable. an_status (snd r) = Degraded then
        \<lparr>run_status = RunDegraded, exit_code = 2, analyses = rs, run_errors = [], primary = primary_record rs\<rparr>
      else
        \<lparr>run_status = RunOK, exit_code = 0, analyses = rs, run_errors = [], primary = primary_record rs\<rparr>)"

definition valid_args :: "wd_args \<Rightarrow> bool" where
  "valid_args a \<longleftrightarrow> 1 \<le> window a \<and> 1 \<le> baseline_window a \<and> 0 < threshold a \<and> threshold a < 1
     \<and> 0 \<le> samples a \<and> 0 < scrape_interval a"

text \<open>\<open>main\<close>: the exit code and, unless the arguments are refused, the payload it prints.\<close>

definition watchdog ::
  "wd_args \<Rightarrow> snapshot list option \<Rightarrow> (int \<Rightarrow> snapshot list option) \<Rightarrow> log_file \<Rightarrow>
   py_exc + int \<times> payload option" where
  "watchdog a files http lf =
     (if \<not> valid_args a then Inr (1, None)
      else (case metrics_step a files http of
              Inl e \<Rightarrow> Inl e
            | Inr st \<Rightarrow>
                (case log_step a lf st of
                   Inl e \<Rightarrow> Inl e
                 | Inr st' \<Rightarrow> Inr (exit_code (conclude st'), Some (conclude st')))))"

section \<open>Lemmas: the series\<close>

lemma median_gt_majority:
  assumes "xs \<noteq> []" "2 * count_le c xs < length xs"
  shows "c < median xs"
proof -
  have i: "length xs div 2 < length xs" "length xs div 2 - 1 < length xs"
    using assms by (cases xs; simp)+
  have a: "c < sort xs ! (length xs div 2)"
    using assms i sort_nth_le_iff [OF i(1), of c] by linarith
  show ?thesis
  proof (cases "odd (length xs)")
    case True
    with a show ?thesis by (simp add: median_def Let_def)
  next
    case False
    then have "c < sort xs ! (length xs div 2 - 1)"
      using assms i sort_nth_le_iff [OF i(2), of c] by (auto elim: evenE)
    with a False show ?thesis by (simp add: median_def Let_def)
  qed
qed

lemma clean_pos: "x \<in> set (clean_values vs) \<Longrightarrow> 0 < x"
  by (auto simp: clean_values_def)

lemma baseline_pool_nonempty:
  assumes "1 \<le> w" "1 \<le> b" "w + 1 \<le> int (length xs)"
  shows "baseline_pool w b xs \<noteq> []"
  using assms by (simp add: baseline_pool_def)

lemma baseline_pool_set: "set (baseline_pool w b xs) \<subseteq> set xs"
  unfolding baseline_pool_def by (meson order.trans set_drop_subset set_take_subset)

lemma baseline_pool_split:
  assumes "1 \<le> w" "1 \<le> b" "w + 1 \<le> int (length xs)"
  shows "suffix (baseline_pool w b xs @ last_n (nat w) xs) xs"
    "length (baseline_pool w b xs) = min (nat b) (length xs - nat w)"
proof -
  have "xs = take (length xs - nat w) xs @ last_n (nat w) xs" by (simp add: last_n_def)
  moreover have "suffix (baseline_pool w b xs) (take (length xs - nat w) xs)"
    by (simp add: baseline_pool_def suffix_drop)
  ultimately show "suffix (baseline_pool w b xs @ last_n (nat w) xs) xs"
    by (metis same_suffix_suffix)
  show "length (baseline_pool w b xs) = min (nat b) (length xs - nat w)"
    using assms by (simp add: baseline_pool_def)
qed

text \<open>The code after the argument checks, with its unreachable branch removed.\<close>

lemma analyze_series_eq:
  assumes "1 \<le> w" "1 \<le> b" "0 < t" "t < 1" "w + 1 \<le> int (length (clean_values vs))"
  shows "\<exists>a. analyze_series w t b vs = Inr a
    \<and> an_baseline a = Some (median (baseline_pool w b (clean_values vs)))
    \<and> an_cutoff a = Some (median (baseline_pool w b (clean_values vs)) * (1 - t))
    \<and> an_below a = count_le (median (baseline_pool w b (clean_values vs)) * (1 - t))
                     (last_n (nat w) (clean_values vs))
    \<and> an_status a = (if median (last_n (nat w) (clean_values vs))
          \<le> median (baseline_pool w b (clean_values vs)) * (1 - t) then Degraded else Healthy)"
  using assms baseline_pool_nonempty [of w b "clean_values vs"]
  by (simp add: analyze_series_def Let_def count_le_def)

lemma analyze_series_total:
  assumes "1 \<le> w" "1 \<le> b" "0 < t" "t < 1"
  shows "\<exists>a. analyze_series w t b vs = Inr a"
proof (cases "int (length (clean_values vs)) < w + 1")
  case True
  then show ?thesis using assms by (simp add: analyze_series_def)
next
  case False
  then show ?thesis using analyze_series_eq [OF assms, of vs] by auto
qed

text \<open>the verdict is robust.  With enough samples it is \<open>degraded\<close> whenever a strict majority
  of the recent ones is at or below the cutoff and \<open>ok\<close> whenever a strict majority is
  above it, whatever the others are; the baseline is the median of the last
  \<open>baseline_window\<close> samples before the recent ones and is positive; with too few samples
  there is no verdict.\<close>

theorem analyze_series_robust:
  assumes "1 \<le> w" "1 \<le> b" "0 < t" "t < 1"
  shows "\<exists>a. analyze_series w t b vs = Inr a \<and>
    (if int (length (clean_values vs)) < w + 1 then an_status a = Insufficient
     else (\<exists>old m cut. suffix (old @ last_n (nat w) (clean_values vs)) (clean_values vs)
         \<and> length old = min (nat b) (length (clean_values vs) - nat w)
         \<and> m = median old \<and> 0 < m \<and> cut = m * (1 - t) \<and> an_cutoff a = Some cut
         \<and> an_below a = count_le cut (last_n (nat w) (clean_values vs))
         \<and> (w < 2 * int (an_below a) \<longrightarrow> an_status a = Degraded)
         \<and> (2 * int (an_below a) < w \<longrightarrow> an_status a = Healthy)))"
proof (cases "int (length (clean_values vs)) < w + 1")
  case True
  then show ?thesis using assms by (simp add: analyze_series_def insufficient_def)
next
  case False
  define xs where "xs = clean_values vs"
  define old where "old = baseline_pool w b xs"
  have l: "w + 1 \<le> int (length (clean_values vs))" using False by simp
  obtain a where a: "analyze_series w t b vs = Inr a"
      "an_cutoff a = Some (median old * (1 - t))"
      "an_below a = count_le (median old * (1 - t)) (last_n (nat w) xs)"
      "an_status a = (if median (last_n (nat w) xs) \<le> median old * (1 - t) then Degraded else Healthy)"
    using analyze_series_eq [OF assms l] unfolding xs_def old_def by blast
  have len: "length (last_n (nat w) xs) = nat w" using l by (simp add: xs_def)
  have ne: "last_n (nat w) xs \<noteq> []" using len assms(1) by (auto simp del: last_n_length)
  have m: "0 < median old"
    using baseline_pool_nonempty [OF assms(1,2) l] baseline_pool_set [of w b xs] clean_pos
    by (intro median_pos) (auto simp: old_def xs_def)
  have deg: "w < 2 * int (an_below a) \<Longrightarrow> an_status a = Degraded"
    using median_le_majority [of "last_n (nat w) xs" "median old * (1 - t)"] a(3,4) len assms(1)
    by (simp del: last_n_length)
  have ok: "2 * int (an_below a) < w \<Longrightarrow> an_status a = Healthy"
    using median_gt_majority [OF ne, of "median old * (1 - t)"] a(3,4) len
    by (simp del: last_n_length add: zless_nat_eq_int_zless)
  show ?thesis
    using False a(1,2,3) m deg ok baseline_pool_split [OF assms(1,2) l]
    unfolding old_def xs_def by (intro exI [where x = a]) auto
qed

lemma analyze_series_robust_witness:
  "\<exists>a. analyze_series 3 (3 / 10) 20 (map Some [900, 910, 890, 905, 400, 880, 410]) = Inr a
     \<and> an_status a = Degraded"
proof -
  define vs where "vs = map Some [900, 910, 890, 905, 400, 880, 410 :: real]"
  have c: "clean_values vs = [900, 910, 890, 905, 400, 880, 410]"
    by (simp add: vs_def clean_values_def List.map_filter_def)
  have r: "last_n (nat 3) (clean_values vs) = [400, 880, 410]" by (simp add: c last_n_def)
  have n: "length (clean_values vs) = 7" by (simp add: c)
  from analyze_series_robust [of 3 20 "3 / 10" vs] obtain a where
    a: "analyze_series 3 (3 / 10) 20 vs = Inr a"
    and d: "(if int (length (clean_values vs)) < 3 + 1 then an_status a = Insufficient
     else (\<exists>old m cut. suffix (old @ last_n (nat 3) (clean_values vs)) (clean_values vs)
         \<and> length old = min (nat 20) (length (clean_values vs) - nat 3)
         \<and> m = median old \<and> 0 < m \<and> cut = m * (1 - 3 / 10) \<and> an_cutoff a = Some cut
         \<and> an_below a = count_le cut (last_n (nat 3) (clean_values vs))
         \<and> (3 < 2 * int (an_below a) \<longrightarrow> an_status a = Degraded)
         \<and> (2 * int (an_below a) < 3 \<longrightarrow> an_status a = Healthy)))"
    by auto
  have "\<not> int (length (clean_values vs)) < 3 + 1" using n by simp
  from d [unfolded if_not_P [OF this]] obtain old m cut where
    b: "suffix (old @ last_n (nat 3) (clean_values vs)) (clean_values vs)"
      "length old = min (nat 20) (length (clean_values vs) - nat 3)"
      "an_below a = count_le cut (last_n (nat 3) (clean_values vs))"
      "3 < 2 * int (an_below a) \<longrightarrow> an_status a = Degraded"
    and cut: "m = median old" "cut = m * (1 - 3 / 10)"
    by blast
  from b(1) obtain p where "clean_values vs = p @ old @ [400, 880, 410]"
    unfolding r by (auto simp: suffix_def)
  then have "old = [900, 910, 890, 905]"
    using b(2) unfolding c by (cases p) (auto simp: append_eq_Cons_conv Cons_eq_append_conv)
  then have "an_below a = 2"
    using b(3) unfolding r cut by (simp add: median_def Let_def count_le_def)
  with a b(4) show ?thesis by (auto simp: vs_def)
qed

section \<open>Lemmas: observations\<close>

lemma observe_loop_clear:
  "observe_interval p c = Clear \<Longrightarrow> observe_loop acc (xs @ p # c # ys) = observe_loop [] (c # ys)"
proof (induction xs arbitrary: acc)
  case (Cons x xs)
  then show ?case by (cases xs) (auto split: interval.splits)
qed simp

definition good_observation :: "observation \<Rightarrow> bool" where
  "good_observation ob \<longleftrightarrow> 0 < obs_tokens ob \<and> (\<forall>r. tok_s ob = Some r \<longrightarrow> 0 < r)
     \<and> (\<forall>d. dt_s ob = Some d \<longrightarrow> 0 < d)"

lemma observe_interval_good: "observe_interval p c = Observe ob \<Longrightarrow> good_observation ob"
  by (auto simp: observe_interval_def good_observation_def Let_def split: option.splits if_splits)

lemma observe_loop_good:
  "\<forall>ob\<in>set acc. good_observation ob \<Longrightarrow> ob \<in> set (observe_loop acc ss) \<Longrightarrow> good_observation ob"
  by (induction acc ss rule: observe_loop.induct)
    (auto split: interval.splits dest: observe_interval_good)


definition demo_snapshot :: "real \<Rightarrow> real \<Rightarrow> snapshot" where
  "demo_snapshot t n = \<lparr>source = ''s'', ts = t, prompt_tokens = Some n, ttft_sum = None,
     ttft_count = None, process_start = None, boot_label = None\<rparr>"


section \<open>Lemmas: the tail\<close>

lemma tail_data_spec:
  assumes "e \<le> length body" "data = drop e body"
  shows "\<exists>k. tail_data m body e data = drop k body
    \<and> (k = 0 \<or> m < count_list (drop k body) (CHR 0x0A))"
  using assms
proof (induction m body e data rule: tail_data.induct)
  case (1 m body e data)
  show ?case
  proof (cases "0 < e \<and> count_list data (CHR 0x0A) \<le> m")
    case True
    have "take (min 65536 e) (drop (e - min 65536 e) body) @ data = drop (e - min 65536 e) body"
      using "1.prems" by (metis add.commute append_take_drop_id drop_drop le_add_diff_inverse min.cobounded2)
    with True "1.IH" "1.prems" show ?thesis
      by (subst tail_data.simps) (simp add: Let_def)
  next
    case False
    then show ?thesis using "1.prems" by (subst tail_data.simps) (auto simp: Let_def)
  qed
qed

text \<open>Lines before a sufficient number of line feeds do not matter.\<close>

lemma last_lines_drop:
  assumes "m < count_list (drop k body) (CHR 0x0A)"
  shows "last_n m (splitlines (drop k body)) = last_n m (splitlines body)"
proof -
  have "CHR 0x0A \<in> set (drop k body)"
    using assms by (metis count_notin not_less_zero)
  then obtain a r where ar: "drop k body = a @ CHR 0x0A # r" "CHR 0x0A \<notin> set a"
    by (meson split_list_first)
  have "m \<le> count_list r (CHR 0x0A)" using assms ar by simp
  then have m: "m \<le> length (splitlines r)" using count_LF_lines le_trans by blast
  have "body = (take k body @ a) @ CHR 0x0A # r" using ar(1) by (metis append.assoc append_take_drop_id)
  then have "last_n m (splitlines body) = last_n m (splitlines r)"
    using m splitlines_LF last_n_append by metis
  moreover have "last_n m (splitlines (drop k body)) = last_n m (splitlines r)"
    unfolding ar(1) splitlines_LF [of a r] by (rule last_n_append [OF m])
  ultimately show ?thesis by simp
qed

text \<open>C40: reading the tail by blocks is reading the file.  The blockwise reader returns the last
  \<open>max_lines\<close> lines of the whole log, whichever line boundaries it contains and wherever
  the first block begins.\<close>

theorem read_tail_spec:
  assumes "1 \<le> max_lines"
  shows "read_tail max_lines body = Inr (last_n (nat max_lines) (splitlines body))"
proof -
  obtain k where "tail_data (nat max_lines) body (length body) [] = drop k body"
      "k = 0 \<or> nat max_lines < count_list (drop k body) (CHR 0x0A)"
    using tail_data_spec [of "length body" body "[]" "nat max_lines"] by auto
  then show ?thesis
    using assms last_lines_drop [of "nat max_lines" k body] by (auto simp: read_tail_def)
qed

lemma read_tail_spec_witness:
  "read_tail 2 (''a'' @ [CHR 0x0D, CHR 0x0A] @ ''b'' @ [CHR 0x0A] @ ''c'') = Inr [''b'', ''c'']"
  by (subst read_tail_spec) code_simp+

section \<open>Lemmas: the run\<close>

lemma ok_res_map [simp]: "ok_res (case r of Inl e \<Rightarrow> Inl e | Inr x \<Rightarrow> Inr (f x)) = ok_res r"
  by (cases r) simp_all

lemma valid_args_series: "valid_args a \<Longrightarrow>
  ok_res (analyze_series (window a) (threshold a) (baseline_window a) vs)"
  using analyze_series_total [of "window a" "baseline_window a" "threshold a" vs]
  by (auto simp: valid_args_def)

lemma metrics_step_total: "valid_args a \<Longrightarrow> ok_res (metrics_step a files http)"
  by (simp add: metrics_step_def analyze_metrics_def Let_def valid_args_series split: option.split)

lemma log_step_total: "valid_args a \<Longrightarrow> ok_res (log_step a lf (rs, es))"
  by (cases lf; cases "read_tail (tail_lines a) (case lf of LogText body \<Rightarrow> body | _ \<Rightarrow> [])")
    (simp_all add: log_step_def analyze_log_def Let_def valid_args_series)

lemma conclude_code:
  "exit_code (conclude (rs, es)) =
     (if es \<noteq> [] \<or> (\<forall>r\<in>set rs. an_status (snd r) = Insufficient) then 1
      else if \<exists>r\<in>set rs. an_status (snd r) = Degraded then 2 else 0)"
  by (fastforce simp: conclude_def Let_def filter_empty_conv)

lemma conclude_fields:
  "analyses (conclude (rs, es)) = rs"
  "run_errors (conclude (rs, es)) = [] \<longleftrightarrow>
     es = [] \<and> \<not> (\<forall>r\<in>set rs. an_status (snd r) = Insufficient)"
  by (auto simp: conclude_def Let_def filter_empty_conv)

lemma status_cases:
  "an_status r \<noteq> Insufficient \<longleftrightarrow> an_status r = Degraded \<or> an_status r = Healthy"
  by (cases "an_status r") auto


end
