(* ===== verification/Drafter_Layout.thy ===== *)
theory Drafter_Layout
  imports Py_Prelude
begin

text \<open>
  The code that \<open>overlay/patch_glm5_drafter_group.py\<close> puts into the KV-cache layout: it
  partitions the drafter's sliding-window layers out, builds one extra group for them,
  validates that group, and charges it in the three places that compute sizes (bytes per
  block, the tensors, the maximal memory).  The page size of a spec is upstream code:
  \<open>page\<close> is its \<open>page_size_bytes\<close>.
\<close>

section \<open>Specs and partition\<close>

record swa_spec =
  sw_block :: int
  sw_padded :: "int option"
  sw_rest :: nat

datatype layer_kind = MambaK | KpoolTailK | SwaK swa_spec | MlaK | OtherK

type_synonym draft_group = "(string \<times> swa_spec) list"

fun draft_specs :: "(string \<times> layer_kind) list \<Rightarrow> draft_group" where
  "draft_specs [] = []"
| "draft_specs ((n, SwaK s) # ls) = (n, s) # draft_specs ls"
| "draft_specs (_ # ls) = draft_specs ls"

definition is_swa :: "layer_kind \<Rightarrow> bool" where
  "is_swa k = (case k of SwaK _ \<Rightarrow> True | _ \<Rightarrow> False)"

definition stock_partition :: "(string \<times> layer_kind) list \<Rightarrow> string list option" where
  "stock_partition ls =
     (let attn = filter (\<lambda>(_, k). k \<noteq> MambaK \<and> k \<noteq> KpoolTailK) ls in
      if (\<forall>(_, k)\<in>set ls. k \<noteq> MambaK) \<or> \<not> (\<forall>(_, k)\<in>set attn. k = MlaK) then None
      else Some (map fst attn))"

definition partition_specs ::
  "(string \<times> layer_kind) list \<Rightarrow> (draft_group \<times> string list) option" where
  "partition_specs ls =
     (let draft = draft_specs ls;
          attn = filter (\<lambda>(_, k). k \<noteq> MambaK \<and> k \<noteq> KpoolTailK \<and> \<not> is_swa k) ls in
      if (\<forall>(_, k)\<in>set ls. k \<noteq> MambaK) \<or> \<not> (\<forall>(_, k)\<in>set attn. k = MlaK) then None
      else Some (draft, map fst attn))"

text \<open>The round-robin distribution of the Mamba layers, and the final list of groups: the
  drafter's group comes last.\<close>

definition mamba_grouped_names :: "nat \<Rightarrow> string list \<Rightarrow> string list list" where
  "mamba_grouped_names groups names =
     map (\<lambda>g. map (\<lambda>k. names ! k) (filter (\<lambda>k. k mod groups = g) [0..<length names])) [0..<groups]"

definition all_groups ::
  "'g \<Rightarrow> 'g option \<Rightarrow> 'g list \<Rightarrow> 'g option \<Rightarrow> 'g list" where
  "all_groups attn tail mamba draft =
     [attn] @ (case tail of None \<Rightarrow> [] | Some t \<Rightarrow> [t]) @ mamba
       @ (case draft of None \<Rightarrow> [] | Some d \<Rightarrow> [d])"

section \<open>The drafter's group\<close>

definition fit_block :: "int \<Rightarrow> int \<Rightarrow> int" where
  "fit_block mla_page bytes_per_token =
     (if mla_page mod bytes_per_token = 0 then mla_page div bytes_per_token else 0)"

definition exact_fit :: "int \<Rightarrow> int \<Rightarrow> nat \<Rightarrow> nat \<Rightarrow> bool" where
  "exact_fit fit mla_block n_draft n_mla \<longleftrightarrow>
     fit \<noteq> 0 \<and> fit mod 64 = 0 \<and> (fit mod mla_block = 0 \<or> mla_block mod fit = 0) \<and> n_draft \<le> n_mla"

definition build_draft ::
  "(swa_spec \<Rightarrow> int) \<Rightarrow> (draft_group \<Rightarrow> bool) \<Rightarrow> int \<Rightarrow> int \<Rightarrow> nat \<Rightarrow> draft_group
   \<Rightarrow> py_exc + draft_group option" where
  "build_draft page uniform mla_page mla_block n_mla draft =
     (case draft of
        [] \<Rightarrow> Inr None
      | (_, any) # _ \<Rightarrow>
          (if \<exists>(_, s)\<in>set draft. s \<noteq> any then Inl AssertionError
           else if sw_block any = 0 then Inl ZeroDivisionError
           else
             (let bpt = page any div sw_block any in
              if bpt = 0 then Inl ZeroDivisionError
              else
                (let fit = fit_block mla_page bpt;
                     new = (if exact_fit fit mla_block (length draft) n_mla
                            then map (\<lambda>(n, s). (n, s\<lparr>sw_block := fit\<rparr>)) draft
                            else map (\<lambda>(n, s). (n, s\<lparr>sw_block := 64, sw_padded := Some mla_page\<rparr>)) draft) in
                 if uniform new then Inr (Some new) else Inl AssertionError))))"

text \<open>\<open>_glm5_next_tensor_layout\<close>: whether the drafter's group keeps the fast path.\<close>

definition layout_accepts :: "(swa_spec \<Rightarrow> int) \<Rightarrow> int \<Rightarrow> nat \<Rightarrow> draft_group option \<Rightarrow> bool" where
  "layout_accepts page mla_page n_mla dg = (case dg of
      None \<Rightarrow> True
    | Some g \<Rightarrow>
        (let pages = remdups (map (page \<circ> snd) g) in
         if length pages \<noteq> 1 then False
         else if (\<exists>(_, s)\<in>set g. sw_padded s \<noteq> None)
                 \<and> (\<exists>(_, s)\<in>set g. sw_block s \<noteq> 64 \<or> sw_padded s \<noteq> Some mla_page) then False
         else if hd pages = mla_page \<and> length g > n_mla then False
         else True))"

section \<open>The consumers\<close>

definition draft_page :: "(swa_spec \<Rightarrow> int) \<Rightarrow> draft_group option \<Rightarrow> int" where
  "draft_page page dg = (case dg of Some (d # _) \<Rightarrow> page (snd d) | _ \<Rightarrow> 0)"

definition pool_bytes_per_block ::
  "(swa_spec \<Rightarrow> int) \<Rightarrow> nat \<Rightarrow> nat \<Rightarrow> int \<Rightarrow> int \<Rightarrow> draft_group option \<Rightarrow> int" where
  "pool_bytes_per_block page n_mla n_idx mla_page idx_page dg =
     (let per_block = int n_mla * mla_page + int n_idx * idx_page in
      case dg of
        None \<Rightarrow> per_block
      | Some g \<Rightarrow> (if draft_page page dg \<noteq> mla_page then per_block + int (length g) * draft_page page dg
                 else per_block))"

record kv_tensor =
  tensor_size :: int
  shared_by :: "string list"

record kv_layout =
  mla_names :: "string list"
  idx_names :: "string list"
  mla_page :: int
  idx_page :: int
  mamba_layers :: "string list list"
  tail_names :: "string list"
  drafter :: "draft_group option"

definition config_per_block :: "(swa_spec \<Rightarrow> int) \<Rightarrow> kv_layout \<Rightarrow> int" where
  "config_per_block page l =
     (let per_block = int (length (mla_names l)) * mla_page l + int (length (idx_names l)) * idx_page l;
          names = (case drafter l of None \<Rightarrow> [] | Some g \<Rightarrow> map fst g);
          shared = (drafter l \<noteq> None \<and> draft_page page (drafter l) = mla_page l) in
      if names \<noteq> [] \<and> \<not> shared then per_block + int (length names) * draft_page page (drafter l)
      else per_block)"

definition kv_tensors :: "(swa_spec \<Rightarrow> int) \<Rightarrow> kv_layout \<Rightarrow> int \<Rightarrow> kv_tensor list" where
  "kv_tensors page l num_blocks =
     (let names = (case drafter l of None \<Rightarrow> [] | Some g \<Rightarrow> map fst g);
          shared = (drafter l \<noteq> None \<and> draft_page page (drafter l) = mla_page l) in
      map (\<lambda>i. \<lparr>tensor_size = mla_page l * num_blocks,
            shared_by = [mla_names l ! i]
              @ map (\<lambda>g. g ! i) (filter (\<lambda>g. i < length g) (mamba_layers l))
              @ (if shared \<and> i < length names then [names ! i] else [])\<rparr>)
        [0..<length (mla_names l)]
      @ map (\<lambda>i. \<lparr>tensor_size = idx_page l * num_blocks,
            shared_by = (if tail_names l \<noteq> [] then [idx_names l ! i, tail_names l ! i]
                         else [idx_names l ! i])\<rparr>)
          [0..<length (idx_names l)]
      @ map (\<lambda>n. \<lparr>tensor_size = draft_page page (drafter l) * num_blocks, shared_by = [n]\<rparr>)
          (if shared then [] else names))"

definition kv_cache_config ::
  "(swa_spec \<Rightarrow> int) \<Rightarrow> kv_layout \<Rightarrow> int \<Rightarrow> py_exc + int \<times> kv_tensor list" where
  "kv_cache_config page l available =
     (if config_per_block page l = 0 then Inl ZeroDivisionError
      else if tail_names l \<noteq> [] \<and> length (tail_names l) < length (idx_names l) then Inl IndexError
      else (let num_blocks = available div config_per_block page l in
            Inr (num_blocks, kv_tensors page l num_blocks)))"

text \<open>\<open>blocks\<close> is what attention and Mamba need, \<open>pages\<close> the window-bounded demand of the
  drafter's group (upstream code).\<close>

definition max_memory_bytes ::
  "(swa_spec \<Rightarrow> int) \<Rightarrow> (draft_group \<Rightarrow> int) \<Rightarrow> kv_layout \<Rightarrow> int \<Rightarrow> int" where
  "max_memory_bytes page pages l blocks =
     (let b1 = (if tail_names l \<noteq> [] then blocks + 1 else blocks);
          per_block = int (length (mla_names l)) * mla_page l + int (length (idx_names l)) * idx_page l in
      case drafter l of
        None \<Rightarrow> b1 * per_block
      | Some g \<Rightarrow>
          (b1 + pages g) * (if draft_page page (drafter l) \<noteq> mla_page l
             then per_block + int (length g) * draft_page page (drafter l) else per_block))"

section \<open>Lemmas\<close>

text \<open>Without drafter layers the partition is the stock one.\<close>

lemma draft_specs_iff: "(n, s) \<in> set (draft_specs ls) \<longleftrightarrow> (n, SwaK s) \<in> set ls"
  by (induction ls rule: draft_specs.induct) auto

lemma partition_no_drafter:
  assumes "\<forall>(_, k)\<in>set ls. \<not> is_swa k"
  shows "partition_specs ls = map_option (Pair []) (stock_partition ls)"
proof -
  have "draft_specs ls = []"
    using assms by (induction ls rule: draft_specs.induct) (auto simp: is_swa_def)
  moreover have "filter (\<lambda>(_, k). k \<noteq> MambaK \<and> k \<noteq> KpoolTailK \<and> \<not> is_swa k) ls
      = filter (\<lambda>(_, k). k \<noteq> MambaK \<and> k \<noteq> KpoolTailK) ls"
    using assms by (auto intro!: filter_cong)
  ultimately show ?thesis by (simp add: partition_specs_def stock_partition_def Let_def)
qed

lemma stock_refuses_drafter:
  "(n, SwaK s) \<in> set ls \<Longrightarrow> stock_partition ls = None"
  by (force simp: stock_partition_def Let_def)

text \<open>The page sizes of upstream's \<open>SlidingWindowSpec\<close>: a padded spec has the padded size, any
  other one its block size times the bytes per token, which the block size does not
  change.\<close>

definition page_laws :: "(swa_spec \<Rightarrow> int) \<Rightarrow> (nat \<Rightarrow> int) \<Rightarrow> bool" where
  "page_laws page tok \<longleftrightarrow>
     (\<forall>s p. sw_padded s = Some p \<longrightarrow> page s = p)
     \<and> (\<forall>s. sw_padded s = None \<longrightarrow> page s = sw_block s * tok (sw_rest s))"

lemma build_draft_page:
  assumes "build_draft page U mp mb n draft = Inr (Some g)" "page_laws page tok"
    and "\<forall>(_, s)\<in>set draft. sw_padded s = None"
  shows "\<forall>(_, s)\<in>set g. page s = mp" "length g = length draft" "g \<noteq> []"
    "map fst g = map fst draft"
    "(\<forall>(_, s)\<in>set g. sw_padded s = None) \<or> (\<forall>(_, s)\<in>set g. sw_block s = 64 \<and> sw_padded s = Some mp)"
proof -
  obtain nm any rest where d: "draft = (nm, any) # rest"
    using assms(1) by (auto simp: build_draft_def split: list.splits)
  have same: "\<forall>(_, s)\<in>set draft. s = any" and blk: "sw_block any \<noteq> 0"
    using assms(1) d by (auto simp: build_draft_def split: if_splits)
  define bpt where "bpt = page any div sw_block any"
  define fit where "fit = fit_block mp bpt"
  have pad: "sw_padded any = None" using assms(3) d by auto
  have bpt: "bpt = tok (sw_rest any)"
    using assms(2) pad blk unfolding page_laws_def bpt_def by simp
  have nz: "bpt \<noteq> 0" using assms(1) d same blk by (auto simp: build_draft_def bpt_def Let_def split: if_splits)
  have g: "g = (if exact_fit fit mb (length draft) n
      then map (\<lambda>(n, s). (n, s\<lparr>sw_block := fit\<rparr>)) draft
      else map (\<lambda>(n, s). (n, s\<lparr>sw_block := 64, sw_padded := Some mp\<rparr>)) draft)"
    using assms(1) d same blk nz
    by (auto simp: build_draft_def bpt_def fit_def Let_def split: if_splits)
  have fitp: "page (any\<lparr>sw_block := fit\<rparr>) = mp" if "exact_fit fit mb (length draft) n"
  proof -
    have "fit \<noteq> 0" using that by (simp add: exact_fit_def)
    then have "mp mod bpt = 0" "fit = mp div bpt" by (auto simp: fit_def fit_block_def split: if_splits)
    then have "fit * bpt = mp" by auto
    then show ?thesis using assms(2) pad bpt unfolding page_laws_def by simp
  qed
  have padp: "page (any\<lparr>sw_block := 64, sw_padded := Some mp\<rparr>) = mp"
    using assms(2) unfolding page_laws_def by simp
  show "\<forall>(_, s)\<in>set g. page s = mp" using same fitp padp unfolding g by auto
  show "length g = length draft" unfolding g by simp
  show "g \<noteq> []" unfolding g d by simp
  show "map fst g = map fst draft" unfolding g by auto
  show "(\<forall>(_, s)\<in>set g. sw_padded s = None) \<or> (\<forall>(_, s)\<in>set g. sw_block s = 64 \<and> sw_padded s = Some mp)"
    using assms(3) unfolding g by auto
qed

lemma remdups_const: "xs \<noteq> [] \<Longrightarrow> \<forall>x\<in>set xs. x = c \<Longrightarrow> remdups xs = [c]"
proof (induction xs)
  case (Cons x xs)
  then show ?case by (cases xs) auto
qed simp

lemma layout_accepts_built:
  assumes "build_draft page U mp mb n draft = Inr (Some g)" "page_laws page tok"
    and "\<forall>(_, s)\<in>set draft. sw_padded s = None"
  shows "layout_accepts page mp n (Some g) \<longleftrightarrow> length draft \<le> n"
proof -
  note b = build_draft_page [OF assms]
  have "remdups (map (page \<circ> snd) g) = [mp]"
    using b(1,3) by (intro remdups_const) auto
  then show ?thesis using b(2,5) by (auto simp: layout_accepts_def)
qed

lemma draft_page_built:
  assumes "build_draft page U mp mb n draft = Inr (Some g)" "page_laws page tok"
    and "\<forall>(_, s)\<in>set draft. sw_padded s = None"
  shows "draft_page page (Some g) = mp"
  using build_draft_page [OF assms] by (cases g) (auto simp: draft_page_def)

text \<open>C25: the drafter rides for free or not at all.  With at most as many drafter layers as MLA
  tensors the layout is accepted, the bytes per block, the number of blocks and the sizes
  of all tensors are those of the model without the drafter, and drafter layer \<open>i\<close> shares
  the \<open>i\<close>-th MLA tensor.  With more drafter layers than MLA tensors the layout is refused:
  the standalone tensors, which the code announces as its last resort, are never used.\<close>

theorem drafter_rides_or_refused:
  assumes "build_draft page U (mla_page l) mb (length (mla_names l)) ds = Inr (Some g)"
    and "page_laws page tok" "\<forall>(_, s)\<in>set ds. sw_padded s = None" "drafter l = Some g"
  shows "(layout_accepts page (mla_page l) (length (mla_names l)) (Some g)
      \<longleftrightarrow> length ds \<le> length (mla_names l))
    \<and> config_per_block page l = config_per_block page (l\<lparr>drafter := None\<rparr>)
    \<and> map tensor_size (kv_tensors page l nb) = map tensor_size (kv_tensors page (l\<lparr>drafter := None\<rparr>) nb)
    \<and> (\<forall>i < length ds. i < length (mla_names l)
        \<longrightarrow> fst (ds ! i) \<in> set (shared_by (kv_tensors page l nb ! i)))"
proof -
  note b = build_draft_page [OF assms(1-3)]
  note p = draft_page_built [OF assms(1-3)]
  have "fst (ds ! i) \<in> set (shared_by (kv_tensors page l nb ! i))"
    if "i < length ds" "i < length (mla_names l)" for i
  proof -
    have "fst (ds ! i) = map fst g ! i" using that(1) b(4) by simp
    then show ?thesis
      using that b(2) assms(4) p by (simp add: kv_tensors_def Let_def nth_append)
  qed
  then show ?thesis
    using assms(4) p layout_accepts_built [OF assms(1-3)]
    by (simp add: config_per_block_def kv_tensors_def Let_def)
qed

text \<open>A concrete geometry: five drafter layers of 4096 bytes per token beside twelve MLA
  tensors whose page (656 bytes times 3584) no drafter block can fill exactly.\<close>

definition demo_tok :: "nat \<Rightarrow> int" where "demo_tok r = 4096"

definition demo_page :: "swa_spec \<Rightarrow> int" where
  "demo_page s = (case sw_padded s of Some p \<Rightarrow> p | None \<Rightarrow> sw_block s * demo_tok (sw_rest s))"

definition demo_drafts :: draft_group where
  "demo_drafts = map (\<lambda>n. (n, \<lparr>sw_block = 1152, sw_padded = None, sw_rest = 0\<rparr>)) [''d0'', ''d1'', ''d2'']"

definition demo_layout :: kv_layout where
  "demo_layout = \<lparr>mla_names = [''m0'', ''m1'', ''m2'', ''m3''], idx_names = [''i0''], mla_page = 2351104,
     idx_page = 118272, mamba_layers = [[''s0'', ''s1'']], tail_names = [''t0''],
     drafter = Some (map (\<lambda>(n, s). (n, s\<lparr>sw_block := 64, sw_padded := Some 2351104\<rparr>)) demo_drafts)\<rparr>"

lemma drafter_rides_or_refused_witness:
  "config_per_block demo_page demo_layout = config_per_block demo_page (demo_layout\<lparr>drafter := None\<rparr>)
   \<and> ''d2'' \<in> set (shared_by (kv_tensors demo_page demo_layout 1000 ! 2))"
proof -
  have b: "build_draft demo_page (\<lambda>_. True) (mla_page demo_layout) 3584 (length (mla_names demo_layout)) demo_drafts
      = Inr (Some (map (\<lambda>(n, s). (n, s\<lparr>sw_block := 64, sw_padded := Some 2351104\<rparr>)) demo_drafts))"
    by (simp add: build_draft_def demo_page_def demo_tok_def demo_drafts_def demo_layout_def fit_block_def
        exact_fit_def)
  have l: "page_laws demo_page demo_tok" by (simp add: page_laws_def demo_page_def)
  from drafter_rides_or_refused [OF b l, of 1000] have
    "config_per_block demo_page demo_layout = config_per_block demo_page (demo_layout\<lparr>drafter := None\<rparr>)"
    "\<forall>i < length demo_drafts. i < length (mla_names demo_layout)
        \<longrightarrow> fst (demo_drafts ! i) \<in> set (shared_by (kv_tensors demo_page demo_layout 1000 ! i))"
    by (auto simp: demo_drafts_def demo_layout_def)
  from this(1) spec [OF this(2), of 2] show ?thesis
    by (simp add: demo_drafts_def demo_layout_def)
qed

lemma per_block_agree:
  "drafter l \<noteq> Some [] \<Longrightarrow> config_per_block page l
     = pool_bytes_per_block page (length (mla_names l)) (length (idx_names l)) (mla_page l) (idx_page l) (drafter l)"
  by (auto simp: config_per_block_def pool_bytes_per_block_def Let_def split: option.split)

lemma sum_const_map: "sum_list (map (\<lambda>x. c) xs) = int (length xs) * (c::int)"
  by (simp add: sum_list_triv)

lemma kv_tensors_bytes:
  "drafter l \<noteq> Some [] \<Longrightarrow>
     sum_list (map tensor_size (kv_tensors page l nb)) = nb * config_per_block page l"
  by (auto simp: kv_tensors_def config_per_block_def Let_def comp_def sum_const_map algebra_simps
      split: option.split)

text \<open>C8: the three accounts of memory agree.  The tensors of a configuration take exactly the
  number of blocks times the bytes per block that the block pool is charged with, they
  fit into the available memory, no further block would fit, and the admission check
  charges a multiple of the same bytes per block.\<close>

theorem memory_accounts_agree:
  assumes "kv_cache_config page l available = Inr (num_blocks, ts)" "0 < config_per_block page l"
    and "drafter l \<noteq> Some []"
  shows "config_per_block page l = pool_bytes_per_block page (length (mla_names l))
      (length (idx_names l)) (mla_page l) (idx_page l) (drafter l)
    \<and> sum_list (map tensor_size ts) = num_blocks * config_per_block page l
    \<and> sum_list (map tensor_size ts) \<le> available
    \<and> available < sum_list (map tensor_size ts) + config_per_block page l
    \<and> max_memory_bytes page pages l blocks = (blocks + (if tail_names l \<noteq> [] then 1 else 0)
        + (case drafter l of None \<Rightarrow> 0 | Some g \<Rightarrow> pages g)) * config_per_block page l"
proof -
  have n: "num_blocks = available div config_per_block page l" "ts = kv_tensors page l num_blocks"
    using assms(1) by (auto simp: kv_cache_config_def Let_def split: if_splits)
  have sum: "sum_list (map tensor_size ts) = num_blocks * config_per_block page l"
    unfolding n(2) by (rule kv_tensors_bytes [OF assms(3)])
  have "available = num_blocks * config_per_block page l + available mod config_per_block page l"
    unfolding n(1) by (simp only: div_mult_mod_eq)
  moreover note pos_mod_bound [OF assms(2), of available] pos_mod_sign [OF assms(2), of available]
  moreover have "max_memory_bytes page pages l blocks = (blocks + (if tail_names l \<noteq> [] then 1 else 0)
      + (case drafter l of None \<Rightarrow> 0 | Some g \<Rightarrow> pages g)) * config_per_block page l"
    unfolding per_block_agree [OF assms(3)]
    by (auto simp: max_memory_bytes_def pool_bytes_per_block_def Let_def split: option.split)
  ultimately show ?thesis
    using sum per_block_agree [OF assms(3), of page] by (intro conjI) (assumption | linarith)+
qed

lemma memory_accounts_agree_witness:
  "\<exists>ts. kv_cache_config demo_page demo_layout 96000000000 = Inr (10081, ts)
     \<and> sum_list (map tensor_size ts) = 10081 * 9522688"
proof -
  have p: "config_per_block demo_page demo_layout = 9522688"
    by (simp add: config_per_block_def draft_page_def demo_page_def demo_layout_def demo_drafts_def)
  have c: "kv_cache_config demo_page demo_layout 96000000000
      = Inr (96000000000 div 9522688, kv_tensors demo_page demo_layout (96000000000 div 9522688))"
    unfolding kv_cache_config_def p by (simp add: demo_layout_def)
  have d: "96000000000 div 9522688 = (10081 :: int)" by simp
  have "drafter demo_layout \<noteq> Some []" by (simp add: demo_layout_def demo_drafts_def)
  from memory_accounts_agree [OF c [unfolded d] _ this] c [unfolded d] show ?thesis
    unfolding p by auto
qed

end
