(* ===== verification/Patch_Drafter.thy ===== *)
theory Patch_Drafter
  imports Patch_Engine
begin

text \<open>
  The installer of \<open>overlay/patch_glm5_drafter_group.py\<close>: fourteen anchored edits of a
  fresh file, and the upgrades of files that earlier versions of the script patched.  The
  replacements contain the code that theory \<open>Drafter_Layout\<close> models.
\<close>

section \<open>Edits\<close>

definition dg_mark :: string where
  \<open>dg_mark = ''DFLASH2-DRAFTER-GROUP''\<close>

definition dg_part_old :: string where
  \<open>dg_part_old = text_lines [
     ''    attn_specs = {'',
     ''        k: v'',
     ''        for k, v in kv_cache_spec.items()'',
     ''        if not isinstance(v, (MambaSpec, KpoolTailSpec))'',
     ''    }'',
     ''    if not mamba_specs or not all('',
     ''        type(s) is MLAAttentionSpec for s in attn_specs.values()'',
     ''    ):'',
     ''        return None'']\<close>

definition dg_part_new :: string where
  \<open>dg_part_new = text_lines [
     ''    # DFLASH2-DRAFTER-GROUP: a spec-decode drafter (DFlash2) adds plain'',
     ''    # SlidingWindowSpec layers on top of the GLM-5-Next hybrid. Partition them'',
     ''    # out (exact type: KpoolTailSpec subclasses SlidingWindowSpec) so they do'',
     ''    # not disqualify the model from this fast path; they are appended as one'',
     ''    # extra group below.'',
     ''    draft_specs = {'',
     ''        k: v for k, v in kv_cache_spec.items() if type(v) is SlidingWindowSpec'',
     ''    }'',
     ''    attn_specs = {'',
     ''        k: v'',
     ''        for k, v in kv_cache_spec.items()'',
     ''        if not isinstance(v, (MambaSpec, KpoolTailSpec))'',
     ''        and type(v) is not SlidingWindowSpec'',
     ''    }'',
     ''    if not mamba_specs or not all('',
     ''        type(s) is MLAAttentionSpec for s in attn_specs.values()'',
     ''    ):'',
     ''        return None'']\<close>

definition dg_groups_old :: string where
  \<open>dg_groups_old = text_lines [
     ''    mamba_grouped_names: list[list[str]] = [[] for _ in range(num_groups)]'',
     ''    for k, name in enumerate(mamba_specs):'',
     ''        mamba_grouped_names[k % num_groups].append(name)'',
     ''    return ('',
     ''        [KVCacheGroupSpec(list(attn_specs), uniform_spec)]'',
     ''        + ([tail_group] if tail_group is not None else [])'',
     ''        + create_kv_cache_group_specs(padded_specs, mamba_grouped_names)'',
     ''    )'']\<close>

definition dg_groups_new :: string where
  \<open>dg_groups_new = text_lines [
     ''    mamba_grouped_names: list[list[str]] = [[] for _ in range(num_groups)]'',
     ''    for k, name in enumerate(mamba_specs):'',
     ''        mamba_grouped_names[k % num_groups].append(name)'',
     [],
     ''    # Drafter group (DFLASH2-DRAFTER-GROUP): one extra group for the spec-'',
     ''    # decode drafter's SlidingWindowSpec layers, appended LAST so existing'',
     ''    # group ids stay stable. NEVER page_size_padded: a padded spec routes the'',
     ''    # runner into the strided-view reshape, which is invalid when the backend'',
     ''    # virtually splits the manager block into smaller kernel blocks (boot 8:'',
     ''    # FlashInfer picked kernel block 64 for a 2304-token manager block and'',
     ''    # the per-KERNEL-block page stride blew past the tensor). Both modes'',
     ''    # below use the ordinary contiguous reshape, valid under any split.'',
     ''    draft_group = None'',
     ''    if draft_specs:'',
     ''        any_draft = next(iter(draft_specs.values()))'',
     ''        assert all(spec == any_draft for spec in draft_specs.values()), ('',
     ''            "drafter SlidingWindowSpec layers must share one spec"'',
     ''        )'',
     ''        draft_bytes_per_token = any_draft.page_size_bytes // any_draft.block_size'',
     ''        mla_block = mla_specs[mla_names[0]].block_size'',
     ''        fit_block = ('',
     ''            mla_page // draft_bytes_per_token'',
     ''            if mla_page % draft_bytes_per_token == 0'',
     ''            else 0'',
     ''        )'',
     ''        if ('',
     ''            fit_block'',
     ''            # A 64-divisible manager block is divisible by every int kernel'',
     ''            # block size the SWA backends register (16/32/64), so'',
     ''            # select_common_block_size always finds a clean split.'',
     ''            and fit_block % 64 == 0'',
     ''            # Keep resolve_kv_cache_block_sizes' scheduler LCM at'',
     ''            # max(mla_block, fit_block) instead of exploding.'',
     ''            and (fit_block % mla_block == 0 or mla_block % fit_block == 0)'',
     ''            and len(draft_specs) <= len(mla_names)'',
     ''        ):'',
     ''            # EXACT FIT: the drafter's real page equals the MLA page, so'',
     ''            # drafter layer i co-owns MLA tensor i at disjoint block ids'',
     ''            # (like mamba) with a contiguous view: kernel block j of manager'',
     ''            # block b lands at b * mla_page + j * kernel_page, inside block'',
     ''            # b's own page. Per-block pool cost unchanged.'',
     ''            logger.info('',
     ''                "DFlash2 drafter KV: exact-fit block=%d mla_page=%d",'',
     ''                fit_block,'',
     ''                mla_page,'',
     ''            )'',
     ''            new_draft_specs: dict[str, KVCacheSpec] = {'',
     ''                name: replace(s, block_size=fit_block)'',
     ''                for name, s in draft_specs.items()'',
     ''            }'',
     ''        else:'',
     ''            # PADDED SLOT-SHARE: 656 vs 4096 cannot exact-fill on this MLA'',
     ''            # block. Manager 64 matches the SWA kernel, so padding the page'',
     ''            # to mla_page is a safe strided view (boot 8 OOB was kernel 64'',
     ''            # inside a 2304-token manager). Layer i co-owns MLA tensor i.'',
     ''            compact_block = 64'',
     ''            logger.info('',
     ''                "DFlash2 drafter KV: padded slot-share block=%d "'',
     ''                "mla_page=%d (was block=%d); exact-fit page mismatch "'',
     ''                "draft_bytes/token=%d",'',
     ''                compact_block,'',
     ''                mla_page,'',
     ''                any_draft.block_size,'',
     ''                draft_bytes_per_token,'',
     ''            )'',
     ''            new_draft_specs = {'',
     ''                name: replace('',
     ''                    s,'',
     ''                    block_size=compact_block,'',
     ''                    page_size_padded=mla_page,'',
     ''                )'',
     ''                for name, s in draft_specs.items()'',
     ''            }'',
     ''        draft_uniform = UniformTypeKVCacheSpecs.from_specs(new_draft_specs)'',
     ''        assert draft_uniform is not None'',
     ''        draft_group = KVCacheGroupSpec(list(new_draft_specs), draft_uniform)'',
     [],
     ''    return ('',
     ''        [KVCacheGroupSpec(list(attn_specs), uniform_spec)]'',
     ''        + ([tail_group] if tail_group is not None else [])'',
     ''        + create_kv_cache_group_specs(padded_specs, mamba_grouped_names)'',
     ''        + ([draft_group] if draft_group is not None else [])'',
     ''    )'']\<close>

definition dg_annot_old :: string where
  \<open>dg_annot_old = text_lines [
     ''        list[str],'',
     ''        int,'',
     ''    ]'',
     ''    | None'',
     ''):'']\<close>

definition dg_annot_new :: string where
  \<open>dg_annot_new = text_lines [
     ''        list[str],'',
     ''        int,'',
     ''        KVCacheGroupSpec | None,'',
     ''    ]'',
     ''    | None'',
     ''):'']\<close>

definition dg_doc_old :: string where
  \<open>dg_doc_old = text_lines [
     ''      - (attn_group, mamba_groups, mla_names, idx_names, mla_page, idx_page,'',
     ''         tail_names, tail_page)'']\<close>

definition dg_doc_new :: string where
  \<open>dg_doc_new = text_lines [
     ''      - (attn_group, mamba_groups, mla_names, idx_names, mla_page, idx_page,'',
     ''         tail_names, tail_page, draft_group)'']\<close>

definition dg_detect_old :: string where
  \<open>dg_detect_old = text_lines [
     ''    attn_group: KVCacheGroupSpec | None = None'',
     ''    tail_group: KVCacheGroupSpec | None = None'',
     ''    for g in uniform_groups:'',
     ''        group_inner = cast(UniformTypeKVCacheSpecs, g.kv_cache_spec).kv_cache_specs'',
     ''        if all(type(s) is MLAAttentionSpec for s in group_inner.values()):'',
     ''            attn_group = g'',
     ''        elif all(isinstance(s, KpoolTailSpec) for s in group_inner.values()):'',
     ''            tail_group = g'']\<close>

definition dg_detect_new :: string where
  \<open>dg_detect_new = text_lines [
     ''    attn_group: KVCacheGroupSpec | None = None'',
     ''    tail_group: KVCacheGroupSpec | None = None'',
     ''    draft_group: KVCacheGroupSpec | None = None'',
     ''    for g in uniform_groups:'',
     ''        group_inner = cast(UniformTypeKVCacheSpecs, g.kv_cache_spec).kv_cache_specs'',
     ''        if all(type(s) is MLAAttentionSpec for s in group_inner.values()):'',
     ''            attn_group = g'',
     ''        elif all(isinstance(s, KpoolTailSpec) for s in group_inner.values()):'',
     ''            tail_group = g'',
     ''        elif group_inner and all('',
     ''            type(s) is SlidingWindowSpec for s in group_inner.values()'',
     ''        ):'',
     ''            # DFLASH2-DRAFTER-GROUP: the spec-decode drafter's SWA group'',
     ''            # (validated below once mla_page is known).'',
     ''            draft_group = g'']\<close>

definition dg_valid_old :: string where
  \<open>dg_valid_old = text_lines [
     ''    if any(g.kv_cache_spec.page_size_bytes != mla_page for g in mamba_groups):'',
     ''        return None'',
     ''    tail_names: list[str] = []'']\<close>

definition dg_valid_new :: string where
  \<open>dg_valid_new = text_lines [
     ''    if any(g.kv_cache_spec.page_size_bytes != mla_page for g in mamba_groups):'',
     ''        return None'',
     ''    if draft_group is not None:'',
     ''        # DFLASH2-DRAFTER-GROUP: one uniform page across drafter layers.'',
     ''        # Padded slot-share (page_size_padded=mla_page, block=64) is valid'',
     ''        # because manager==kernel so the strided view does not split a page.'',
     ''        # page == mla_page means slot-sharing of the MLA tensors'',
     ''        # (needs one tensor per drafter layer); any other page means'',
     ''        # standalone drafter tensors.'',
     ''        draft_inner = cast('',
     ''            UniformTypeKVCacheSpecs, draft_group.kv_cache_spec'',
     ''        ).kv_cache_specs'',
     ''        draft_pages = {s.page_size_bytes for s in draft_inner.values()}'',
     ''        if len(draft_pages) != 1:'',
     ''            return None'',
     ''        if any(s.page_size_padded is not None for s in draft_inner.values()):'',
     ''            if any('',
     ''                s.block_size != 64 or s.page_size_padded != mla_page'',
     ''                for s in draft_inner.values()'',
     ''            ):'',
     ''                return None'',
     ''        if ('',
     ''            draft_pages.pop() == mla_page'',
     ''            and len(draft_group.layer_names) > len(mla_names)'',
     ''        ):'',
     ''            return None'',
     ''    tail_names: list[str] = []'']\<close>

definition dg_ret_old :: string where
  \<open>dg_ret_old = text_lines [
     ''    return ('',
     ''        attn_group,'',
     ''        mamba_groups,'',
     ''        mla_names,'',
     ''        idx_names,'',
     ''        mla_page,'',
     ''        idx_pages.pop(),'',
     ''        tail_names,'',
     ''        tail_page,'',
     ''    )'']\<close>

definition dg_ret_new :: string where
  \<open>dg_ret_new = text_lines [
     ''    return ('',
     ''        attn_group,'',
     ''        mamba_groups,'',
     ''        mla_names,'',
     ''        idx_names,'',
     ''        mla_page,'',
     ''        idx_pages.pop(),'',
     ''        tail_names,'',
     ''        tail_page,'',
     ''        draft_group,'',
     ''    )'']\<close>

definition dg_pool_old :: string where
  \<open>dg_pool_old = text_lines [
     ''        _, _, mla_names, idx_names, mla_page, idx_page, _, _ = glm5'',
     ''        return len(mla_names) * mla_page + len(idx_names) * idx_page'']\<close>

definition dg_pool_new :: string where
  \<open>dg_pool_new = text_lines [
     ''        # DFLASH2-DRAFTER-GROUP: an exact-fit drafter (page == mla_page)'',
     ''        # slot-shares the MLA tensors and adds no bytes; a standalone drafter'',
     ''        # adds one page per drafter layer.'',
     ''        _, _, mla_names, idx_names, mla_page, idx_page, _, _, draft_group = glm5'',
     ''        per_block = len(mla_names) * mla_page + len(idx_names) * idx_page'',
     ''        if draft_group is not None:'',
     ''            draft_page = next('',
     ''                iter('',
     ''                    cast('',
     ''                        UniformTypeKVCacheSpecs, draft_group.kv_cache_spec'',
     ''                    ).kv_cache_specs.values()'',
     ''                )'',
     ''            ).page_size_bytes'',
     ''            if draft_page != mla_page:'',
     ''                per_block += len(draft_group.layer_names) * draft_page'',
     ''        return per_block'']\<close>

definition dg_cfgd_old :: string where
  \<open>dg_cfgd_old = text_lines [
     ''        ('',
     ''            _,'',
     ''            mamba_groups,'',
     ''            mla_names,'',
     ''            idx_names,'',
     ''            mla_page,'',
     ''            idx_page,'',
     ''            tail_names,'',
     ''            _tail_page,'',
     ''        ) = glm5n'']\<close>

definition dg_cfgd_new :: string where
  \<open>dg_cfgd_new = text_lines [
     ''        ('',
     ''            _,'',
     ''            mamba_groups,'',
     ''            mla_names,'',
     ''            idx_names,'',
     ''            mla_page,'',
     ''            idx_page,'',
     ''            tail_names,'',
     ''            _tail_page,'',
     ''            draft_group,'',
     ''        ) = glm5n'',
     ''        draft_names: list[str] = []'',
     ''        draft_page = 0'',
     ''        draft_shared = False'',
     ''        if draft_group is not None:'',
     ''            draft_names = list(draft_group.layer_names)'',
     ''            draft_page = next('',
     ''                iter('',
     ''                    cast('',
     ''                        UniformTypeKVCacheSpecs, draft_group.kv_cache_spec'',
     ''                    ).kv_cache_specs.values()'',
     ''                )'',
     ''            ).page_size_bytes'',
     ''            # Exact fit: the drafter's real page equals the MLA page, so it'',
     ''            # rides the MLA tensors; otherwise it gets standalone tensors.'',
     ''            draft_shared = draft_page == mla_page'']\<close>

definition dg_cfgp_old :: string where
  \<open>dg_cfgp_old = text_lines [
     ''        per_block = len(mla_names) * mla_page + len(idx_names) * idx_page'',
     ''        num_blocks = available_memory // per_block'']\<close>

definition dg_cfgp_new :: string where
  \<open>dg_cfgp_new = text_lines [
     ''        per_block = len(mla_names) * mla_page + len(idx_names) * idx_page'',
     ''        if draft_names and not draft_shared:'',
     ''            # DFLASH2-DRAFTER-GROUP (standalone): drafter tensors are part of'',
     ''            # every block's byte cost.'',
     ''            per_block += len(draft_names) * draft_page'',
     ''        num_blocks = available_memory // per_block'']\<close>

definition dg_cfgs_old :: string where
  \<open>dg_cfgs_old = text_lines [
     ''                shared_by=[mla_name]'',
     ''                + [g.layer_names[i] for g in mamba_groups if i < len(g.layer_names)],'',
     ''            )'',
     ''            for i, mla_name in enumerate(mla_names)'']\<close>

definition dg_cfgs_new :: string where
  \<open>dg_cfgs_new = text_lines [
     ''                shared_by=[mla_name]'',
     ''                + [g.layer_names[i] for g in mamba_groups if i < len(g.layer_names)]'',
     ''                # DFLASH2-DRAFTER-GROUP (exact fit): drafter layer i rides MLA'',
     ''                # tensor i (contiguous view, disjoint block ids), like mamba.'',
     ''                + ([draft_names[i]] if draft_shared and i < len(draft_names) else []),'',
     ''            )'',
     ''            for i, mla_name in enumerate(mla_names)'']\<close>

definition dg_cfgt_old :: string where
  \<open>dg_cfgt_old = text_lines [
     ''            KVCacheTensor('',
     ''                size=idx_page * num_blocks,'',
     ''                shared_by=('',
     ''                    [idx_names[i], tail_names[i]] if tail_names else [idx_names[i]]'',
     ''                ),'',
     ''            )'',
     ''            for i in range(len(idx_names))'',
     ''        ]'']\<close>

definition dg_cfgt_new :: string where
  \<open>dg_cfgt_new = text_lines [
     ''            KVCacheTensor('',
     ''                size=idx_page * num_blocks,'',
     ''                shared_by=('',
     ''                    [idx_names[i], tail_names[i]] if tail_names else [idx_names[i]]'',
     ''                ),'',
     ''            )'',
     ''            for i in range(len(idx_names))'',
     ''        ] + ['',
     ''            # DFLASH2-DRAFTER-GROUP (standalone): compact per-layer drafter'',
     ''            # tensors; contiguous reshape, safe under kernel block splitting.'',
     ''            KVCacheTensor(size=draft_page * num_blocks, shared_by=[name])'',
     ''            for name in ([] if draft_shared else draft_names)'',
     ''        ]'']\<close>

definition dg_memd_old :: string where
  \<open>dg_memd_old = text_lines [
     ''        ('',
     ''            attn_group,'',
     ''            mamba_groups,'',
     ''            mla_names,'',
     ''            idx_names,'',
     ''            mla_page,'',
     ''            idx_page,'',
     ''            tail_names,'',
     ''            _tail_page,'',
     ''        ) = glm5n'']\<close>

definition dg_memd_new :: string where
  \<open>dg_memd_new = text_lines [
     ''        ('',
     ''            attn_group,'',
     ''            mamba_groups,'',
     ''            mla_names,'',
     ''            idx_names,'',
     ''            mla_page,'',
     ''            idx_page,'',
     ''            tail_names,'',
     ''            _tail_page,'',
     ''            draft_group,'',
     ''        ) = glm5n'']\<close>

definition dg_memb_old :: string where
  \<open>dg_memb_old = text_lines [
     ''        if tail_names:'',
     ''            # Tail: 1 block/req (KpoolTailSpec.max_admission_blocks_per_request'',
     ''            # == 1), drawn from the shared pool.'',
     ''            blocks_needed += 1'',
     ''        return blocks_needed * (len(mla_names) * mla_page + len(idx_names) * idx_page)'']\<close>

definition dg_memb_new :: string where
  \<open>dg_memb_new = text_lines [
     ''        if tail_names:'',
     ''            # Tail: 1 block/req (KpoolTailSpec.max_admission_blocks_per_request'',
     ''            # == 1), drawn from the shared pool.'',
     ''            blocks_needed += 1'',
     ''        per_block = len(mla_names) * mla_page + len(idx_names) * idx_page'',
     ''        if draft_group is not None:'',
     ''            # DFLASH2-DRAFTER-GROUP: charge the drafter's window-bounded'',
     ''            # block-id demand; a standalone drafter also adds its pages to'',
     ''            # every block's byte cost (an exact-fit one rides the MLA'',
     ''            # tensors and adds none).'',
     ''            draft_uniform = draft_group.kv_cache_spec'',
     ''            assert isinstance(draft_uniform, UniformTypeKVCacheSpecs)'',
     ''            blocks_needed += draft_uniform.max_memory_usage_pages(vllm_config)'',
     ''            draft_page = next('',
     ''                iter(draft_uniform.kv_cache_specs.values())'',
     ''            ).page_size_bytes'',
     ''            if draft_page != mla_page:'',
     ''                per_block += len(draft_group.layer_names) * draft_page'',
     ''        return blocks_needed * per_block'']\<close>

definition dg_v4_old :: string where
  \<open>dg_v4_old = text_lines [
     ''        if any(s.page_size_padded is not None for s in draft_inner.values()):'',
     ''            return None'']\<close>

definition dg_v4_new :: string where
  \<open>dg_v4_new = text_lines [
     ''        if any(s.page_size_padded is not None for s in draft_inner.values()):'',
     ''            # Padded slot-share: manager block 64 so the kernel does not'',
     ''            # split the page (boot 8 OOB was kernel 64 in a 2304 manager).'',
     ''            if any('',
     ''                s.block_size != 64 or s.page_size_padded != mla_page'',
     ''                for s in draft_inner.values()'',
     ''            ):'',
     ''                return None'']\<close>

definition dg_v3_mark :: string where
  \<open>dg_v3_mark = ''padded slot-share block=%d''\<close>

definition dg_padded :: string where
  \<open>dg_padded = text_lines [
     ''            # PADDED SLOT-SHARE: 656 vs 4096 cannot exact-fill on this MLA'',
     ''            # block. Manager 64 matches the SWA kernel, so padding the page'',
     ''            # to mla_page is a safe strided view (boot 8 OOB was kernel 64'',
     ''            # inside a 2304-token manager). Layer i co-owns MLA tensor i.'',
     ''            compact_block = 64'',
     ''            logger.info('',
     ''                "DFlash2 drafter KV: padded slot-share block=%d "'',
     ''                "mla_page=%d (was block=%d); exact-fit page mismatch "'',
     ''                "draft_bytes/token=%d",'',
     ''                compact_block,'',
     ''                mla_page,'',
     ''                any_draft.block_size,'',
     ''                draft_bytes_per_token,'',
     ''            )'',
     ''            new_draft_specs = {'',
     ''                name: replace('',
     ''                    s,'',
     ''                    block_size=compact_block,'',
     ''                    page_size_padded=mla_page,'',
     ''                )'',
     ''                for name, s in draft_specs.items()'',
     ''            }'']\<close>

definition dg_v2_compact :: string where
  \<open>dg_v2_compact = text_lines [
     ''            compact_block = 64'',
     ''            if any_draft.block_size > compact_block:'']\<close>

definition dg_standalone :: string where
  \<open>dg_standalone = text_lines [
     ''            # STANDALONE: the drafter's geometry cannot exactly fill the MLA'',
     ''            # page; keep its spec as-is and give its layers compact tensors'',
     ''            # of their own (emitted in get_kv_cache_config_from_groups and'',
     ''            # charged in the per-block cost).'',
     ''            new_draft_specs = dict(draft_specs)'']\<close>

definition dg_edits :: "edit list" where
  "dg_edits = [(''partition'', dg_part_old, dg_part_new), (''groups'', dg_groups_old, dg_groups_new),
     (''annotation'', dg_annot_old, dg_annot_new), (''docstring'', dg_doc_old, dg_doc_new),
     (''detect'', dg_detect_old, dg_detect_new), (''validate'', dg_valid_old, dg_valid_new),
     (''return'', dg_ret_old, dg_ret_new), (''pool bytes'', dg_pool_old, dg_pool_new),
     (''config destructure'', dg_cfgd_old, dg_cfgd_new), (''config per-block'', dg_cfgp_old, dg_cfgp_new),
     (''config shared-by'', dg_cfgs_old, dg_cfgs_new), (''config tensors'', dg_cfgt_old, dg_cfgt_new),
     (''max-mem destructure'', dg_memd_old, dg_memd_new), (''max-mem blocks'', dg_memb_old, dg_memb_new)]"

definition dg_required :: "string list" where
  "dg_required = [''def _get_kv_cache_groups_glm5_next'', ''def _glm5_next_tensor_layout'',
     ''def _pool_bytes_per_block'', ''SlidingWindowSpec'', ''UniformTypeKVCacheSpecs'']"

section \<open>Installing\<close>

text \<open>The texts between which the compact standalone block of version 2 stands.\<close>

definition dg_v2_start :: string where
  "dg_v2_start = ''            # STANDALONE: compact per-layer tensors.''"

definition dg_v2_end :: string where
  "dg_v2_end = ''        draft_uniform = UniformTypeKVCacheSpecs.from_specs(new_draft_specs)''"

definition parsed :: "(string \<Rightarrow> bool) \<Rightarrow> string \<Rightarrow> fault + string" where
  "parsed parses u = (if parses u then Inr u else Inl Unparsable)"

text \<open>Upgrading the grouping of a marked text that lacks the padded slot-share.\<close>

definition dg_upgrade :: "(string \<Rightarrow> bool) \<Rightarrow> string \<Rightarrow> fault + string" where
  "dg_upgrade parses s =
     (if contains dg_v2_compact s then
        (case (find_text dg_v2_start s, find_text dg_v2_end s) of
           (Some a, Some b) \<Rightarrow>
             (if b \<le> a then Inl (Refused ''standalone block'')
              else parsed parses (take a s @ dg_padded @ drop b s))
         | _ \<Rightarrow> Inl (Refused ''standalone block''))
      else if \<not> contains dg_standalone s then Inl (Refused ''no known block'')
      else parsed parses (replace_first dg_standalone dg_padded s))"

definition dg_patch :: "(string \<Rightarrow> bool) \<Rightarrow> string \<Rightarrow> fault + string" where
  "dg_patch parses s =
     (if contains dg_mark s then
        (if contains dg_v4_old s then
           and_then (parsed parses (replace_first dg_v4_old dg_v4_new s)) (\<lambda>u.
             if contains dg_v3_mark u then Inr u else dg_upgrade parses u)
         else if contains dg_v3_mark s then Inr s
         else dg_upgrade parses s)
      else if \<exists>r\<in>set dg_required. \<not> contains r s then Inl (Refused ''anchor precheck'')
      else and_then (apply_edits dg_edits s) (parsed parses))"

section \<open>Lemmas\<close>

text \<open>The last edit leaves the marker, the second one the text of the padded slot-share, and no
  later edit removes it.\<close>

lemma dg_mark_in_last: "contains dg_mark dg_memb_new"
  unfolding dg_memb_new_def dg_mark_def by (rule contains_lines) code_simp

lemma dg_v3_in_groups: "contains dg_v3_mark dg_groups_new"
  unfolding dg_groups_new_def dg_v3_mark_def by (rule contains_lines) code_simp

lemma dg_later_keep:
  "apart dg_annot_old dg_v3_mark" "apart dg_doc_old dg_v3_mark" "apart dg_detect_old dg_v3_mark"
  "apart dg_valid_old dg_v3_mark" "apart dg_ret_old dg_v3_mark" "apart dg_pool_old dg_v3_mark"
  "apart dg_cfgd_old dg_v3_mark" "apart dg_cfgp_old dg_v3_mark" "apart dg_cfgs_old dg_v3_mark"
  "apart dg_cfgt_old dg_v3_mark" "apart dg_memd_old dg_v3_mark" "apart dg_memb_old dg_v3_mark"
  unfolding dg_annot_old_def dg_doc_old_def dg_detect_old_def dg_valid_old_def dg_ret_old_def
    dg_pool_old_def dg_cfgd_old_def dg_cfgp_old_def dg_cfgs_old_def dg_cfgt_old_def
    dg_memd_old_def dg_memb_old_def dg_v3_mark_def
  by (rule lines_apart, code_simp)+

text \<open>No edit creates the block that the version 4 upgrade looks for.\<close>

lemma dg_no_v4:
  "apart dg_part_new dg_v4_old" "apart dg_groups_new dg_v4_old" "apart dg_annot_new dg_v4_old"
  "apart dg_doc_new dg_v4_old" "apart dg_detect_new dg_v4_old"
  "apart dg_ret_new dg_v4_old" "apart dg_pool_new dg_v4_old" "apart dg_cfgd_new dg_v4_old"
  "apart dg_cfgp_new dg_v4_old" "apart dg_cfgs_new dg_v4_old" "apart dg_cfgt_new dg_v4_old"
  "apart dg_memd_new dg_v4_old" "apart dg_memb_new dg_v4_old"
  unfolding dg_part_new_def dg_groups_new_def dg_annot_new_def dg_doc_new_def dg_detect_new_def
    dg_ret_new_def dg_pool_new_def dg_cfgd_new_def dg_cfgp_new_def dg_cfgs_new_def dg_cfgt_new_def
    dg_memd_new_def dg_memb_new_def dg_v4_old_def
  by (rule anchors_apart, code_simp)+

text \<open>The replacement of the validation shares a line with that block, but not the next one.\<close>

lemma compat_take: "compat (a @ b) (c @ d) \<Longrightarrow> compat a c"
  by (induction a c rule: compat.induct) auto

lemma compat_line:
  "newline \<notin> set x \<Longrightarrow> newline \<notin> set m \<Longrightarrow> compat (x @ newline # r) (m @ newline # q)
     \<Longrightarrow> x = m \<and> compat r q"
proof (induction x arbitrary: m)
  case Nil
  then show ?case by (cases m) auto
next
  case (Cons c x)
  then show ?case by (cases m) auto
qed

definition heads_compat :: "string list \<Rightarrow> string list \<Rightarrow> bool" where
  "heads_compat ls ms \<longleftrightarrow> (case (ls, ms) of (l # _, k # _) \<Rightarrow> compat l k | _ \<Rightarrow> True)"

fun line_touch :: "string list \<Rightarrow> string \<Rightarrow> string list \<Rightarrow> bool" where
  "line_touch [] m ms = False"
| "line_touch (l # ls) m ms = ((ends_with m l \<and> heads_compat ls ms) \<or> line_touch ls m ms)"

lemma touch_line_touch:
  assumes "newline \<notin> set m" "m \<noteq> []"
  shows "\<forall>l\<in>set ls. newline \<notin> set l \<Longrightarrow> touch (text_lines ls) (text_lines (m # ms)) \<Longrightarrow> line_touch ls m ms"
proof (induction ls)
  case (Cons l ls)
  have "(ends_with m (y @ x) \<and> heads_compat ls ms) \<or> touch (text_lines ls) (text_lines (m # ms))"
    if "newline \<notin> set x" "touch (x @ newline # text_lines ls) (text_lines (m # ms))" for x y
    using that
  proof (induction x arbitrary: y)
    case Nil
    then show ?case using assms by (cases m) auto
  next
    case (Cons c x)
    show ?case
    proof (cases "compat ((c # x) @ newline # text_lines ls) (m @ newline # text_lines ms)")
      case True
      from compat_line [OF Cons.prems(1) assms(1) this]
      have "c # x = m" "compat (text_lines ls) (text_lines ms)" by simp_all
      moreover from this(2) have "heads_compat ls ms"
        by (cases ls; cases ms) (auto simp: heads_compat_def dest: compat_take)
      ultimately show ?thesis by (auto simp: ends_with_iff)
    next
      case False
      then show ?thesis using Cons.IH [of "y @ [c]"] Cons.prems by simp
    qed
  qed
  from this [of l "[]"] show ?case using Cons by auto
qed simp

lemma not_touch_lines:
  "newline \<notin> set m \<and> m \<noteq> [] \<and> (\<forall>l\<in>set ls. newline \<notin> set l) \<and> \<not> line_touch ls m ms
     \<Longrightarrow> \<not> touch (text_lines ls) (text_lines (m # ms))"
  using touch_line_touch by blast

lemma not_touch_head:
  "newline \<notin> set l \<and> l \<noteq> [] \<and> (\<forall>m\<in>set ms. \<not> touch (m @ [newline]) l)
     \<Longrightarrow> \<not> touch (text_lines ms) (text_lines (l # ls))"
  using touch_lines [of l ms] touch_prefix [of "text_lines ms" l] by auto

lemma dg_no_v4_valid: "apart dg_valid_new dg_v4_old"
proof -
  have "\<not> touch dg_valid_new dg_v4_old"
    unfolding dg_valid_new_def dg_v4_old_def by (rule not_touch_lines) code_simp
  moreover have "\<not> touch dg_v4_old dg_valid_new"
    unfolding dg_valid_new_def dg_v4_old_def by (rule not_touch_head) code_simp
  ultimately show ?thesis by (simp add: apart_def)
qed

lemma dg_v4_nonempty: "dg_v4_old \<noteq> []"
  by (simp add: dg_v4_old_def)

lemma apart_Nil: "w \<noteq> [] \<Longrightarrow> \<not> apart [] w"
  by (cases w) (auto simp: apart_def)

text \<open>What a fresh installation leaves.\<close>

lemma apply_fresh:
  assumes "apply_edits dg_edits s = Inr u" "\<not> contains dg_v4_old s"
  shows "contains dg_mark u \<and> contains dg_v3_mark u \<and> \<not> contains dg_v4_old u"
proof (intro conjI)
  have "\<exists>es. dg_edits = es @ [(''max-mem blocks'', dg_memb_old, dg_memb_new)]"
    by (simp add: dg_edits_def)
  then have "contains dg_memb_new u" using assms(1) apply_edits_last by metis
  with dg_mark_in_last show "contains dg_mark u" by (meson contains_trans)
  define es where "es = take 2 dg_edits"
  have es: "es = [(''partition'', dg_part_old, dg_part_new)] @ [(''groups'', dg_groups_old, dg_groups_new)]"
    by (simp add: es_def dg_edits_def)
  have "apply_edits (es @ drop 2 dg_edits) s = Inr u" using assms(1) by (simp add: es_def)
  then obtain v where v: "apply_edits es s = Inr v" "apply_edits (drop 2 dg_edits) v = Inr u"
    by (auto simp: apply_edits_append split: sum.splits)
  have "contains dg_v3_mark v"
    using apply_edits_last [OF v(1) [unfolded es]] dg_v3_in_groups contains_trans by blast
  moreover have "\<forall>(l, old, new)\<in>set (drop 2 dg_edits). apart old dg_v3_mark"
    by (simp add: dg_edits_def dg_later_keep)
  ultimately show "contains dg_v3_mark u" using apply_edits_keep [OF v(2)] by blast
  have "new \<noteq> []" if "(l, old, new) \<in> set dg_edits" for l old new
  proof
    assume "new = []"
    with that dg_no_v4 dg_no_v4_valid have "apart [] dg_v4_old" by (auto simp: dg_edits_def)
    then show False using dg_v4_nonempty apart_Nil by blast
  qed
  moreover have "\<forall>(l, old, new)\<in>set dg_edits. apart new dg_v4_old"
    by (simp add: dg_edits_def dg_no_v4 dg_no_v4_valid)
  ultimately have "\<forall>(l, old, new)\<in>set dg_edits. apart new dg_v4_old \<and> new \<noteq> []" by blast
  then show "\<not> contains dg_v4_old u" using apply_edits_new [OF assms(1)] assms(2) by blast
qed

text \<open>After a fresh installation every later run accepts the file as it is.\<close>

lemma dg_install_once:
  assumes "dg_patch P s = Inr u" "\<not> contains dg_mark s" "\<not> contains dg_v4_old s"
  shows "P u \<and> dg_patch P u = Inr u"
proof -
  have a: "apply_edits dg_edits s = Inr u" and p: "P u"
    using assms(1,2) by (auto simp: dg_patch_def parsed_def split: if_splits)
  from apply_fresh [OF a assms(3)] p show ?thesis by (simp add: dg_patch_def)
qed

text \<open>A text with the current marker and the padded slot-share is a fixpoint.\<close>

lemma dg_fixpoint:
  "contains dg_mark s \<Longrightarrow> contains dg_v3_mark s \<Longrightarrow> \<not> contains dg_v4_old s \<Longrightarrow> dg_patch P s = Inr s"
  by (simp add: dg_patch_def)

text \<open>An unknown text is refused.\<close>

lemma dg_unknown_refused:
  "\<not> contains ''SlidingWindowSpec'' s \<Longrightarrow> \<not> contains dg_mark s
     \<Longrightarrow> dg_patch P s = Inl (Refused ''anchor precheck'')"
  by (simp add: dg_patch_def dg_required_def)

end
