(* ===== verification/Bench_Env.thy ===== *)
theory Bench_Env
  imports Py_Lines
begin

text \<open>
  The A/B harness \<open>bench-ab.py\<close>, first part: arm specifications and their environments, the
  redaction of secrets, server addresses, artifact names and the record of a child process.
  Environments are dictionaries in insertion order.  The messages of \<open>ArmSpecError\<close> are its
  constructors here.
\<close>

section \<open>Arm specifications\<close>

record arm =
  arm_name :: string
  arm_env :: "(string \<times> string) list"
  arm_spec :: string

datatype spec_error =
    EmptySpec | MissingName | BadName | EmptyOverrides | EmptySegment
  | MissingEquals | BadKey | DuplicateKey | NewlineInValue | DuplicateArm

definition is_alnum_c :: "char \<Rightarrow> bool" where
  "is_alnum_c c \<longleftrightarrow> is_alpha_c c \<or> is_digit_c c"

text \<open>\<open>_ARM_NAME_RE\<close> and \<open>_ENV_KEY_RE\<close> on stripped text, where \<open>$\<close> cannot match before a
  final line feed.\<close>

definition valid_name :: "string \<Rightarrow> bool" where
  "valid_name s \<longleftrightarrow> s \<noteq> [] \<and> is_alnum_c (hd s)
     \<and> (\<forall>c\<in>set s. is_alnum_c c \<or> c \<in> {CHR ''.'', CHR ''_'', CHR ''-''})"

definition valid_key :: "string \<Rightarrow> bool" where
  "valid_key s \<longleftrightarrow> s \<noteq> [] \<and> (is_alpha_c (hd s) \<or> hd s = CHR ''_'')
     \<and> (\<forall>c\<in>set s. is_alnum_c c \<or> c = CHR ''_'')"

definition parse_override :: "(string \<times> string) list \<Rightarrow> string \<Rightarrow> spec_error + (string \<times> string) list" where
  "parse_override env item =
     (let piece = strip item in
      if piece = [] then Inl EmptySegment
      else
        (case partition_on (CHR ''='') piece of
           (k, equals, v) \<Rightarrow>
             (let key = strip k in
              if \<not> equals then Inl MissingEquals
              else if \<not> valid_key key then Inl BadKey
              else if key \<in> set (map fst env) then Inl DuplicateKey
              else if CHR 0x0A \<in> set v \<or> CHR 0x0D \<in> set v then Inl NewlineInValue
              else Inr (dict_set env key v))))"

fun parse_overrides :: "(string \<times> string) list \<Rightarrow> string list \<Rightarrow> spec_error + (string \<times> string) list" where
  "parse_overrides env [] = Inr env"
| "parse_overrides env (item # items) =
     (case parse_override env item of Inl e \<Rightarrow> Inl e | Inr env' \<Rightarrow> parse_overrides env' items)"

definition parse_arm :: "string \<Rightarrow> spec_error + arm" where
  "parse_arm spec =
     (let raw = strip spec in
      if raw = [] then Inl EmptySpec
      else
        (case partition_on (CHR '':'') raw of
           (n, separator, env_text) \<Rightarrow>
             (let name = strip n in
              if name = [] then Inl MissingName
              else if \<not> valid_name name then Inl BadName
              else if separator \<and> strip env_text = [] then Inl EmptyOverrides
              else if separator then
                (case parse_overrides [] (split_on (CHR '','') env_text) of
                   Inl e \<Rightarrow> Inl e
                 | Inr env \<Rightarrow> Inr \<lparr>arm_name = name, arm_env = env, arm_spec = raw\<rparr>)
              else Inr \<lparr>arm_name = name, arm_env = [], arm_spec = raw\<rparr>)))"

fun arm_names_distinct :: "string list \<Rightarrow> arm list \<Rightarrow> spec_error + unit" where
  "arm_names_distinct seen [] = Inr ()"
| "arm_names_distinct seen (a # as) =
     (if arm_name a \<in> set seen then Inl DuplicateArm else arm_names_distinct (arm_name a # seen) as)"

definition parse_arms :: "string list \<Rightarrow> spec_error + arm list" where
  "parse_arms specs =
     (case map_res parse_arm (if specs = [] then [''baseline''] else specs) of
        Inl e \<Rightarrow> Inl e
      | Inr arms \<Rightarrow> (case arm_names_distinct [] arms of Inl e \<Rightarrow> Inl e | Inr _ \<Rightarrow> Inr arms))"

section \<open>Environments and secrets\<close>

definition merge_env ::
  "(string \<times> string) list \<Rightarrow> (string \<times> string) list \<Rightarrow> (string \<times> string) list" where
  "merge_env base overrides = foldl (\<lambda>d (k, v). dict_set d k v) base overrides"

definition sensitive_words :: "string list" where
  "sensitive_words =
     [''api_key'', ''token'', ''secret'', ''password'', ''passwd'', ''credential'', ''auth'']"

definition is_sensitive_key :: "string \<Rightarrow> bool" where
  "is_sensitive_key key \<longleftrightarrow> (\<exists>w\<in>set sensitive_words. contains w (lower key))"

definition redacted :: string where
  "redacted = ''<redacted>''"

definition redact_env :: "(string \<times> string) list \<Rightarrow> (string \<times> string) list" where
  "redact_env env = map (\<lambda>(k, v). (k, if is_sensitive_key k then redacted else v)) env"

definition relevant_prefixes :: "string list" where
  "relevant_prefixes =
     [''GLM53_'', ''VLLM_'', ''EXL3_'', ''MTP_'', ''MAX_'', ''SERVED_'', ''SPEC_'', ''ENFORCE_'',
      ''GPU_'', ''MODEL'', ''IMAGE'', ''HEAD_IP'', ''WORKER_IP'', ''PORT'', ''READY_'',
      ''EXTRA_ARGS'', ''ABLIT'']"

definition filter_effective_env :: "(string \<times> string) list \<Rightarrow> (string \<times> string) list" where
  "filter_effective_env env =
     redact_env (filter (\<lambda>(k, v). k \<in> {''MODEL'', ''IMAGE''}
                           \<or> (\<exists>p\<in>set relevant_prefixes. starts_with p k)) env)"

text \<open>The set of secret values iterates in hash order in Python; insertion order stands for
  it here, and the facts on redaction hold for the secrets in any order.\<close>

definition secret_values :: "(string \<times> string) list \<Rightarrow> string \<Rightarrow> string list" where
  "secret_values env api_key =
     sort_key (\<lambda>v. - int (length v))
       (remdups (map snd (filter (\<lambda>(k, v). is_sensitive_key k \<and> 4 \<le> length v) env)
                 @ (if 4 \<le> length api_key then [api_key] else [])))"

text \<open>\<open>text.replace(old, new)\<close> for a non-empty \<open>old\<close>.\<close>

function replace_all :: "string \<Rightarrow> string \<Rightarrow> string \<Rightarrow> string" where
  "replace_all old new s =
     (if old = [] \<or> s = [] then s
      else if starts_with old s then new @ replace_all old new (drop (length old) s)
      else hd s # replace_all old new (tl s))"
  by pat_completeness auto
termination
  by (relation "measure (\<lambda>(old, new, s). length s)") auto

declare replace_all.simps [simp del]

fun redact_text :: "string \<Rightarrow> string list \<Rightarrow> string" where
  "redact_text text [] = text"
| "redact_text text (x # xs) =
     redact_text (if x \<noteq> [] then replace_all x redacted text else text) xs"

section \<open>Addresses and names\<close>

definition api_root :: "string \<Rightarrow> string" where
  "api_root base_url =
     (let root = rstrip_by (\<lambda>c. c = CHR ''/'') base_url in
      if ends_with ''/v1'' root then take (length root - 3) root else root)"

definition chat_url :: "string \<Rightarrow> string" where
  "chat_url base_url =
     (let root = rstrip_by (\<lambda>c. c = CHR ''/'') base_url in
      if ends_with ''/v1'' root then root @ ''/chat/completions''
      else root @ ''/v1/chat/completions'')"

definition slug_c :: "char \<Rightarrow> bool" where
  "slug_c c \<longleftrightarrow> is_alnum_c c \<or> c \<in> {CHR ''.'', CHR ''_'', CHR ''-''}"

text \<open>\<open>re.sub("[^A-Za-z0-9._-]+", "_", name)\<close>: every maximal run of other characters
  becomes one underscore.\<close>

fun sub_runs :: "string \<Rightarrow> string" where
  "sub_runs [] = []"
| "sub_runs [c] = (if slug_c c then [c] else ''_'')"
| "sub_runs (c # d # cs) =
     (if slug_c c then c # sub_runs (d # cs)
      else if slug_c d then CHR ''_'' # sub_runs (d # cs)
      else sub_runs (d # cs))"

definition slug_edge :: "char \<Rightarrow> bool" where
  "slug_edge c \<longleftrightarrow> c \<in> {CHR ''.'', CHR ''_'', CHR ''-''}"

definition slug :: "string \<Rightarrow> string" where
  "slug name = (let s = strip_by slug_edge (sub_runs name) in if s = [] then ''arm'' else s)"

definition artifact_name :: "arm \<Rightarrow> string \<Rightarrow> string" where
  "artifact_name a bench = slug (arm_name a) @ ''__'' @ bench @ ''.json''"

section \<open>Child processes\<close>

text \<open>What \<open>subprocess.run\<close> reports: an exit code with the output, or a timeout with what had
  been captured as text.\<close>

datatype child = Exited int string string | TimedOut "string option" "string option"

record process_record =
  proc_exit :: int
  proc_log :: string
  stdout_tail :: string
  stderr_tail :: string

definition child_exit :: "child \<Rightarrow> int" where
  "child_exit c = (case c of Exited n _ _ \<Rightarrow> n | TimedOut _ _ \<Rightarrow> 124)"

definition child_out :: "child \<Rightarrow> string" where
  "child_out c = (case c of Exited _ out _ \<Rightarrow> out | TimedOut out _ \<Rightarrow> (case out of Some s \<Rightarrow> s | None \<Rightarrow> []))"

definition child_err :: "string \<Rightarrow> child \<Rightarrow> string" where
  "child_err notice c =
     (case c of Exited _ _ err \<Rightarrow> err
      | TimedOut _ err \<Rightarrow> (case err of Some s \<Rightarrow> s | None \<Rightarrow> []) @ notice)"

text \<open>\<open>header\<close> is the quoted command with the exit code and the duration.\<close>

definition log_text :: "string \<Rightarrow> string \<Rightarrow> string \<Rightarrow> string" where
  "log_text header out err =
     header @ [CHR 0x0A, CHR 0x0A] @ ''--- stdout ---'' @ [CHR 0x0A] @ out @ [CHR 0x0A]
       @ ''--- stderr ---'' @ [CHR 0x0A] @ err @ [CHR 0x0A]"

definition run_process :: "string \<Rightarrow> string \<Rightarrow> child \<Rightarrow> string list \<Rightarrow> process_record" where
  "run_process header notice c secrets =
     (let out = child_out c; err = child_err notice c in
      \<lparr>proc_exit = child_exit c,
       proc_log = redact_text (log_text header out err) secrets,
       stdout_tail = redact_text (last_n 2000 out) secrets,
       stderr_tail = redact_text (last_n 4000 err) secrets\<rparr>)"

section \<open>Characters of names\<close>

lemma alnum_not_space: "is_alnum_c c \<Longrightarrow> \<not> is_space_c c"
  by (auto simp: is_alnum_c_def is_alpha_c_def is_digit_c_def is_space_c_def)

lemma not_alnum [simp]:
  "\<not> is_alnum_c (CHR '':'')" "\<not> is_alnum_c (CHR ''='')" "\<not> is_alnum_c (CHR '','')"
  "\<not> is_alnum_c (CHR ''.'')" "\<not> is_alnum_c (CHR ''_'')" "\<not> is_alnum_c (CHR ''-'')"
  "\<not> is_space_c (CHR ''_'')" "\<not> is_space_c (CHR ''.'')" "\<not> is_space_c (CHR ''-'')"
  by code_simp+

lemma valid_name_chars:
  "valid_name s \<Longrightarrow> c \<in> set s \<Longrightarrow> c \<noteq> CHR '':'' \<and> \<not> is_space_c c"
  by (auto simp: valid_name_def dest: alnum_not_space)

lemma valid_key_chars:
  "valid_key s \<Longrightarrow> c \<in> set s \<Longrightarrow> c \<noteq> CHR ''='' \<and> c \<noteq> CHR '','' \<and> \<not> is_space_c c"
  by (auto simp: valid_key_def dest: alnum_not_space)

lemma strip_spaceless: "\<forall>c\<in>set s. \<not> is_space_c c \<Longrightarrow> strip s = s"
  by (rule strip_by_id) auto

lemma strip_by_last:
  assumes "s \<noteq> []" and "\<not> p (last s)"
  shows "strip_by p s \<noteq> []"
proof -
  have "last s \<in> set (dropWhile p s)"
    using assms by (induction s) (auto split: if_splits)
  with assms(2) show ?thesis
    by (force simp: strip_by_def rstrip_by_def lstrip_by_def dropWhile_eq_Nil_conv)
qed

lemma last_strip: "strip_by p s \<noteq> [] \<Longrightarrow> \<not> p (last (strip_by p s))"
  by (simp add: strip_by_def rstrip_by_def last_rev hd_dropWhile)

lemma set_strip: "set (strip_by p s) \<subseteq> set s"
  by (auto simp: strip_by_def rstrip_by_def lstrip_by_def dest!: set_dropWhileD)

section \<open>Printing an arm\<close>

definition show_override :: "string \<times> string \<Rightarrow> string" where
  "show_override kv = fst kv @ CHR ''='' # snd kv"

definition show_arm :: "arm \<Rightarrow> string" where
  "show_arm a = arm_name a @
     (if arm_env a = [] then [] else CHR '':'' # join_with '','' (map show_override (arm_env a)))"

definition valid_value :: "string \<Rightarrow> bool" where
  "valid_value v \<longleftrightarrow> (\<forall>c\<in>set v. c \<noteq> CHR '','' \<and> c \<noteq> CHR 0x0A \<and> c \<noteq> CHR 0x0D)
     \<and> (v = [] \<or> \<not> is_space_c (last v))"

definition wf_env :: "(string \<times> string) list \<Rightarrow> bool" where
  "wf_env env \<longleftrightarrow> distinct (map fst env) \<and> (\<forall>(k, v)\<in>set env. valid_key k \<and> valid_value v)"

definition wf_arm :: "arm \<Rightarrow> bool" where
  "wf_arm a \<longleftrightarrow> valid_name (arm_name a) \<and> wf_env (arm_env a)"

lemma valid_keyD: "valid_key k \<Longrightarrow> k \<noteq> []"
  by (simp add: valid_key_def)

lemma dict_set_new: "k \<notin> set (map fst d) \<Longrightarrow> dict_set d k v = d @ [(k, v)]"
  by (induction d k v rule: dict_set.induct) auto

lemma show_override_facts:
  assumes "valid_key k" and "valid_value v"
  shows "strip (show_override (k, v)) = show_override (k, v)"
    and "show_override (k, v) \<noteq> []"
    and "CHR '','' \<notin> set (show_override (k, v))"
    and "\<not> is_space_c (last (show_override (k, v)))"
    and "partition_on (CHR ''='') (show_override (k, v)) = (k, True, v)"
    and "strip k = k"
proof -
  have k: "k \<noteq> []" "\<not> is_space_c (hd k)" "CHR ''='' \<notin> set k" "CHR '','' \<notin> set k"
    using assms(1) valid_key_chars [OF assms(1)] valid_keyD [OF assms(1)] by auto
  have eq: "\<not> is_space_c (CHR ''='')" by code_simp
  show last: "\<not> is_space_c (last (show_override (k, v)))"
    using assms(2) eq by (auto simp: show_override_def valid_value_def)
  show "show_override (k, v) \<noteq> []" by (simp add: show_override_def)
  show "strip (show_override (k, v)) = show_override (k, v)"
    by (rule strip_by_id) (use k last in \<open>auto simp: show_override_def hd_append\<close>)
  show "CHR '','' \<notin> set (show_override (k, v))"
    using k assms(2) by (auto simp: show_override_def valid_value_def)
  show "partition_on (CHR ''='') (show_override (k, v)) = (k, True, v)"
    using k by (simp add: show_override_def partition_on_sep)
  show "strip k = k"
    by (rule strip_spaceless) (use valid_key_chars [OF assms(1)] in auto)
qed

lemma parse_override_show:
  assumes "valid_key k" and "valid_value v" and "k \<notin> set (map fst env)"
  shows "parse_override env (show_override (k, v)) = Inr (env @ [(k, v)])"
  using assms show_override_facts [OF assms(1,2)] dict_set_new [OF assms(3)]
  by (auto simp: parse_override_def Let_def valid_value_def)

lemma parse_overrides_show:
  "wf_env (d @ env) \<Longrightarrow> parse_overrides d (map show_override env) = Inr (d @ env)"
proof (induction env arbitrary: d)
  case (Cons kv env)
  obtain k v where kv: "kv = (k, v)" by (cases kv)
  have "parse_override d (show_override (k, v)) = Inr (d @ [(k, v)])"
    by (rule parse_override_show) (use Cons.prems kv in \<open>auto simp: wf_env_def\<close>)
  with Cons.IH [of "d @ [(k, v)]"] Cons.prems kv show ?case by simp
qed simp

lemma wf_env_show:
  assumes "wf_env env" and "env \<noteq> []"
  shows "split_on (CHR '','') (join_with '','' (map show_override env)) = map show_override env"
    and "strip (join_with '','' (map show_override env)) \<noteq> []"
    and "\<not> is_space_c (last (join_with '','' (map show_override env)))"
proof -
  have f: "CHR '','' \<notin> set (show_override kv) \<and> show_override kv \<noteq> []
      \<and> \<not> is_space_c (last (show_override kv))"
    if "kv \<in> set env" for kv
    using assms(1) that show_override_facts(2-4) by (cases kv) (auto simp: wf_env_def)
  show "split_on (CHR '','') (join_with '','' (map show_override env)) = map show_override env"
    by (rule split_join) (use assms(2) f in auto)
  have ne: "join_with '','' ws \<noteq> [] \<and> \<not> is_space_c (last (join_with '','' ws))"
    if "ws \<noteq> []" "\<forall>w\<in>set ws. w \<noteq> [] \<and> \<not> is_space_c (last w)" for ws
    using that by (induction "'',''::string" ws rule: join_with.induct) auto
  from ne [of "map show_override env"] f assms(2)
  have n: "join_with '','' (map show_override env) \<noteq> []"
    and l: "\<not> is_space_c (last (join_with '','' (map show_override env)))" by auto
  show "\<not> is_space_c (last (join_with '','' (map show_override env)))" by (fact l)
  show "strip (join_with '','' (map show_override env)) \<noteq> []"
    by (rule strip_by_last) (fact n l)+
qed


section \<open>Accepted arms\<close>

lemma parse_override_wf:
  assumes "parse_override env item = Inr env'" and "wf_env env" and "CHR '','' \<notin> set item"
  shows "wf_env env'"
proof -
  obtain k b v where p: "partition_on (CHR ''='') (strip item) = (k, b, v)" by (cases "partition_on (CHR ''='') (strip item)")
  from assms(1) p have ne: "strip item \<noteq> []" and b: "b" and k: "valid_key (strip k)"
    and new: "strip k \<notin> set (map fst env)" and nl: "CHR 0x0A \<notin> set v" "CHR 0x0D \<notin> set v"
    and env': "env' = dict_set env (strip k) v"
    by (auto simp: parse_override_def Let_def split: if_splits)
  have item: "strip item = k @ CHR ''='' # v"
    using partition_on_spec [of "CHR ''=''" "strip item"] p b by auto
  have "CHR '','' \<notin> set v" using assms(3) set_strip [of is_space_c item] item by auto
  moreover have "v = [] \<or> \<not> is_space_c (last v)" using last_strip [OF ne] item by auto
  ultimately have "valid_value v" using nl by (auto simp: valid_value_def)
  with k new assms(2) show ?thesis by (auto simp: env' dict_set_new wf_env_def)
qed

lemma parse_overrides_wf:
  "parse_overrides env items = Inr env' \<Longrightarrow> wf_env env \<Longrightarrow> \<forall>i\<in>set items. CHR '','' \<notin> set i \<Longrightarrow> wf_env env'"
  by (induction env items rule: parse_overrides.induct)
    (auto split: sum.splits dest: parse_override_wf)

lemma split_on_fields: "w \<in> set (split_on c s) \<Longrightarrow> c \<notin> set w"
  by (induction s arbitrary: w) (auto split: if_splits list.splits)

lemma wf_env_Nil [simp]: "wf_env []"
  by (simp add: wf_env_def)

lemma parse_overrides_split:
  "parse_overrides [] (split_on (CHR '','') t) = Inr env \<Longrightarrow> wf_env env"
  by (rule parse_overrides_wf) (auto dest: split_on_fields)

lemma parse_arm_wf: "parse_arm spec = Inr a \<Longrightarrow> wf_arm a"
  by (auto simp: parse_arm_def wf_arm_def Let_def split: if_splits prod.splits sum.splits
      dest: parse_overrides_split)

lemma wf_arm_spec [simp]: "wf_arm (a\<lparr>arm_spec := s\<rparr>) = wf_arm a"
  by (simp add: wf_arm_def)

lemma parse_arm_show:
  assumes "wf_arm a"
  shows "parse_arm (show_arm a) = Inr (a\<lparr>arm_spec := show_arm a\<rparr>)"
proof -
  let ?n = "arm_name a" and ?e = "arm_env a"
  have n: "valid_name ?n" and e: "wf_env ?e" using assms by (auto simp: wf_arm_def)
  have nc: "\<forall>c\<in>set ?n. c \<noteq> CHR '':'' \<and> \<not> is_space_c c" using valid_name_chars [OF n] by blast
  have ne: "?n \<noteq> []" and sn: "strip ?n = ?n" and col: "CHR '':'' \<notin> set ?n"
    using n nc strip_spaceless by (auto simp: valid_name_def)
  show ?thesis
  proof (cases "?e = []")
    case True
    then have s: "show_arm a = ?n" by (simp add: show_arm_def)
    show ?thesis
      unfolding s by (cases a) (use True n ne sn col in \<open>auto simp: parse_arm_def partition_on_noSep Let_def\<close>)
  next
    case False
    define j where "j = join_with '','' (map show_override ?e)"
    have s: "show_arm a = ?n @ CHR '':'' # j" using False by (simp add: show_arm_def j_def)
    have jl: "\<not> is_space_c (last j)" and js: "strip j \<noteq> []"
      and jp: "split_on (CHR '','') j = map show_override ?e"
      using wf_env_show [OF e False] by (simp_all add: j_def)
    then have jne: "j \<noteq> []" by (auto simp: strip_by_def rstrip_by_def lstrip_by_def)
    have raw: "strip (show_arm a) = show_arm a"
      by (rule strip_by_id) (use nc ne jl jne in \<open>auto simp: s hd_append\<close>)
    have po: "parse_overrides [] (map show_override ?e) = Inr ?e"
      using parse_overrides_show [of "[]" ?e] e by simp
    have pt: "partition_on (CHR '':'') (show_arm a) = (?n, True, j)"
      using col by (simp add: s partition_on_sep)
    have "show_arm a \<noteq> []" by (simp add: s)
    with raw pt po js jp n ne sn show ?thesis
      by (cases a) (auto simp: parse_arm_def Let_def)
  qed
qed

text \<open>Parsing an arm specification has two possible outcomes: one of the specification
  errors, or an arm that is well typed.  Its name and every key have the documented form, no
  key occurs twice, and no value contains a comma or a line break or ends in white space.
  Every well-typed arm can be written as a specification that parses back to the same name
  and the same overrides, so the accepted arms are exactly the well-typed ones.\<close>

theorem parse_arm_typed:
  assumes "parse_arm spec = Inr a"
  shows "wf_arm a \<and> parse_arm (show_arm a) = Inr (a\<lparr>arm_spec := show_arm a\<rparr>)
    \<and> (wf_arm b \<longleftrightarrow> parse_arm (show_arm b) = Inr (b\<lparr>arm_spec := show_arm b\<rparr>))"
proof (intro conjI)
  show "wf_arm a" using parse_arm_wf [OF assms] .
  then show "parse_arm (show_arm a) = Inr (a\<lparr>arm_spec := show_arm a\<rparr>)" by (rule parse_arm_show)
  show "wf_arm b \<longleftrightarrow> parse_arm (show_arm b) = Inr (b\<lparr>arm_spec := show_arm b\<rparr>)"
    by (metis parse_arm_show parse_arm_wf wf_arm_spec)
qed

theorem parse_arm_typed_witness:
  "wf_arm \<lparr>arm_name = ''cand'', arm_env = [(''MAX'', ''6''), (''X'', [])], arm_spec = ''cand: MAX =6,X=''\<rparr>"
  by (rule parse_arm_typed [of "'' cand: MAX =6,X=''", THEN conjunct1]) code_simp

section \<open>Redaction\<close>

lemma contains_Cons: "contains s (c # w) \<longleftrightarrow> starts_with s (c # w) \<or> contains s w"
  by simp

lemma contains_sep:
  assumes "c \<notin> set s" and "s \<noteq> []"
  shows "contains s (a @ c # b) \<longleftrightarrow> contains s a \<or> contains s b"
proof (induction a)
  case Nil
  have "\<not> starts_with s (c # b)" using assms by (cases s) (auto simp: starts_with_def)
  with assms(2) show ?case by (auto simp: starts_with_def)
next
  case (Cons x a)
  have "starts_with s (x # a @ c # b) \<longleftrightarrow> starts_with s (x # a)"
    using assms(1) by (auto simp: starts_with_iff append_eq_append_conv2 append_eq_Cons_conv Cons_eq_append_conv)
  with Cons show ?case by simp
qed

definition clean :: "string \<Rightarrow> bool" where
  "clean s \<longleftrightarrow> CHR ''<'' \<notin> set s \<and> CHR ''>'' \<notin> set s"

lemma replace_all_Nil [simp]: "replace_all x new [] = []"
  by (simp add: replace_all.simps)

lemma replace_all_empty [simp]: "replace_all [] new t = t"
  by (simp add: replace_all.simps)

lemma replace_all_hit: "x \<noteq> [] \<Longrightarrow> replace_all x new (x @ r) = new @ replace_all x new r"
  by (subst replace_all.simps) simp

lemma replace_all_miss:
  "\<not> starts_with x (c # r) \<Longrightarrow> replace_all x new (c # r) = c # replace_all x new r"
  by (subst replace_all.simps) auto

lemma replace_scan [consumes 1, case_names Nil hit miss]:
  assumes "x \<noteq> []" and "P []" and "\<And>r. P r \<Longrightarrow> P (x @ r)"
    and "\<And>c r. \<not> starts_with x (c # r) \<Longrightarrow> P r \<Longrightarrow> P (c # r)"
  shows "P t"
proof (induction t rule: length_induct)
  case (1 t)
  show ?case
  proof (cases "starts_with x t")
    case True
    then obtain r where "t = x @ r" by (auto simp: starts_with_iff)
    with 1 assms(1,3) show ?thesis by simp
  qed (use 1 assms(2,4) in \<open>cases t; simp\<close>)
qed

lemma replace_all_absent: "\<not> contains x t \<Longrightarrow> replace_all x new t = t"
  by (induction t) (auto simp: replace_all_miss)

lemma starts_with_Cons: "starts_with (c # cs) (d # ds) \<longleftrightarrow> c = d \<and> starts_with cs ds"
  by (auto simp: starts_with_iff)

text \<open>Before the first marker the text is unchanged.\<close>

lemma replace_all_prefix:
  assumes "x \<noteq> []"
  shows "clean s \<Longrightarrow> starts_with s (replace_all x redacted t) \<Longrightarrow> starts_with s t"
  using assms
proof (induction t arbitrary: s rule: replace_scan)
  case (hit r)
  then show ?case
    by (cases s) (auto simp: replace_all_hit assms redacted_def clean_def starts_with_iff)
next
  case (miss c r)
  then show ?case by (cases s) (auto simp: replace_all_miss starts_with_Cons clean_def)
qed simp

lemma contains_redacted:
  assumes "clean s" and "s \<noteq> []"
  shows "contains s (redacted @ w) \<longleftrightarrow> contains s ''redacted'' \<or> contains s w"
proof -
  have w: "redacted @ w = [] @ CHR ''<'' # (''redacted'' @ CHR ''>'' # w)" by (simp add: redacted_def)
  have n: "\<not> contains s []" using assms(2) by (auto simp: starts_with_def)
  have s: "CHR ''<'' \<notin> set s" "CHR ''>'' \<notin> set s" using assms(1) by (auto simp: clean_def)
  show ?thesis
    unfolding w contains_sep [OF s(1) assms(2)] contains_sep [OF s(2) assms(2)] using n by blast
qed

text \<open>Replacing one secret brings no other back.\<close>

lemma replace_all_contains:
  assumes "clean s" and "s \<noteq> []" and "\<not> contains s ''redacted''" and "x \<noteq> []"
  shows "contains s (replace_all x redacted t) \<Longrightarrow> contains s t"
  using assms(4)
proof (induction t rule: replace_scan)
  case (hit r)
  then show ?case
    using contains_redacted [OF assms(1,2)] assms(3,4)
    by (auto simp: replace_all_hit contains_appendI2)
next
  case (miss c r)
  from miss.prems miss.hyps have "starts_with s (replace_all x redacted (c # r)) \<or> contains s (replace_all x redacted r)"
    by (simp add: replace_all_miss)
  then show ?case
    using replace_all_prefix [OF assms(4,1)] miss.IH by auto
qed simp

lemma replace_all_removes:
  assumes "clean s" and "s \<noteq> []" and "\<not> contains s ''redacted''"
  shows "\<not> contains s (replace_all s redacted t)"
  using assms(2)
proof (induction t rule: replace_scan)
  case Nil
  then show ?case using assms(2) by (auto simp: starts_with_def)
next
  case (hit r)
  then show ?case
    using contains_redacted [OF assms(1,2)] assms(3) by (simp add: replace_all_hit assms(2))
next
  case (miss c r)
  then show ?case
    using replace_all_prefix [OF assms(2,1), of "c # r"] by (auto simp: replace_all_miss)
qed

lemma redact_text_contains:
  "clean s \<Longrightarrow> s \<noteq> [] \<Longrightarrow> \<not> contains s ''redacted'' \<Longrightarrow> contains s (redact_text t xs) \<Longrightarrow> contains s t"
  by (induction t xs rule: redact_text.induct) (auto split: if_splits dest: replace_all_contains)

lemma redact_text_removes:
  assumes "clean s" and "s \<noteq> []" and "\<not> contains s ''redacted''"
  shows "s \<in> set xs \<Longrightarrow> \<not> contains s (redact_text t xs)"
proof (induction t xs rule: redact_text.induct)
  case (2 t x xs)
  then show ?case
    using replace_all_removes [OF assms] redact_text_contains [OF assms] assms(2)
    by (cases "s \<in> set xs") auto
qed simp

lemma secret_values_complete:
  "(k, v) \<in> set env \<Longrightarrow> is_sensitive_key k \<Longrightarrow> 4 \<le> length v \<Longrightarrow> v \<in> set (secret_values env api_key)"
  by (force simp: secret_values_def)

text \<open>C14: The value of an environment variable whose name marks it as a secret does not reach
  the record of a child process: neither the log nor either output tail contains it, whatever
  the child prints and whatever other secrets are replaced before or after it.  The effective
  environment shows the marker in its place.  This holds for values of at least four
  characters without angle brackets that are not a piece of the marker itself.\<close>

theorem no_secret_recorded:
  assumes "(k, v) \<in> set env" and "is_sensitive_key k" and "4 \<le> length v"
    and "clean v" and "\<not> contains v ''redacted''"
    and "r = run_process header notice c (secret_values env api_key)"
  shows "\<not> contains v (proc_log r) \<and> \<not> contains v (stdout_tail r) \<and> \<not> contains v (stderr_tail r)
    \<and> (\<forall>w. (k, w) \<in> set (filter_effective_env env) \<longrightarrow> w = redacted)"
proof -
  have v: "v \<in> set (secret_values env api_key)" and ne: "v \<noteq> []"
    using secret_values_complete [OF assms(1,2,3)] assms(3) by auto
  note gone = redact_text_removes [OF assms(4) ne assms(5) v]
  have "\<forall>w. (k, w) \<in> set (filter_effective_env env) \<longrightarrow> w = redacted"
    using assms(2) by (auto simp: filter_effective_env_def redact_env_def)
  with gone show ?thesis by (simp add: assms(6) run_process_def Let_def)
qed

theorem no_secret_recorded_witness:
  "\<not> contains ''k3y!'' (proc_log (run_process ''cmd'' [] (Exited 0 ''k3y!'' [])
      (secret_values [(''API_KEY'', ''k3y!'')] [])))"
proof -
  have "is_sensitive_key ''API_KEY''" "clean ''k3y!''" "\<not> contains ''k3y!'' ''redacted''"
    by code_simp+
  then show ?thesis
    using no_secret_recorded [of "''API_KEY''" "''k3y!''" "[(''API_KEY'', ''k3y!'')]" _ "''cmd''" "[]"
        "Exited 0 ''k3y!'' []" "[]"]
    by simp
qed

text \<open>The tails are cut before they are redacted.  When the cut falls inside a secret, only
  its first character is lost: the tail shows the rest of the secret unredacted.\<close>

theorem cut_secret_survives:
  assumes "2 \<le> length v" and "length v \<le> 2000" and "CHR ''.'' \<notin> set v"
  shows "stdout_tail (run_process header notice
           (Exited code (v @ replicate (2001 - length v) (CHR ''.'')) err) [v])
         = tl v @ replicate (2001 - length v) (CHR ''.'')"
proof -
  define d where "d = replicate (2001 - length v) (CHR ''.'')"
  have d: "d = CHR ''.'' # replicate (2000 - length v) (CHR ''.'')"
    using assms(2) by (simp add: d_def Suc_diff_le flip: replicate_Suc)
  have v: "v \<noteq> []" using assms(1) by auto
  have dots: "\<not> contains v (replicate n (CHR ''.''))" for n
  proof
    assume "contains v (replicate n (CHR ''.''))"
    then obtain a b where "replicate n (CHR ''.'') = a @ v @ b" by (auto simp: contains_iff)
    then have "set v \<subseteq> set (replicate n (CHR ''.''))" by (metis Un_iff set_append subsetI)
    with assms(3) v show False by (cases v) (auto split: if_splits)
  qed
  have short: "\<not> contains v (tl v)"
    using assms(1) by (auto simp: contains_iff dest!: arg_cong [where f = length])
  have no: "\<not> contains v (tl v @ d)"
    unfolding d contains_sep [OF assms(3) v] using dots short by blast
  have cut: "last_n 2000 (v @ d) = tl v @ d"
    using assms(1,2) v by (cases v) (auto simp: last_n_def d_def Suc_diff_le)
  show ?thesis
    using no v by (simp add: run_process_def child_out_def cut replace_all_absent Let_def flip: d_def)
qed

theorem cut_secret_survives_witness:
  "stdout_tail (run_process ''cmd'' [] (Exited 0 (''hunter2!'' @ replicate 1993 (CHR ''.'')) []) [''hunter2!''])
   = ''unter2!'' @ replicate 1993 (CHR ''.'')"
  using cut_secret_survives [of "''hunter2!''" "''cmd''" "[]" 0 "[]"] by simp

section \<open>Artifact names\<close>

lemma sub_runs_id: "\<forall>c\<in>set s. slug_c c \<Longrightarrow> sub_runs s = s"
  by (induction s rule: sub_runs.induct) auto

lemma slug_valid_name:
  assumes "valid_name n"
  shows "slug n = rstrip_by slug_edge n"
proof -
  have h: "n \<noteq> []" "\<not> slug_edge (hd n)" using assms by (auto simp: valid_name_def slug_edge_def)
  then have l: "lstrip_by slug_edge n = n" by (cases n) (auto simp: lstrip_by_def)
  have "sub_runs n = n" by (rule sub_runs_id) (use assms in \<open>auto simp: valid_name_def slug_c_def\<close>)
  moreover have "rstrip_by slug_edge n \<noteq> []"
    using h by (cases n) (auto simp: rstrip_by_def dropWhile_eq_Nil_conv)
  ultimately show ?thesis by (simp add: slug_def strip_by_def l Let_def)
qed

text \<open>The artifact of a benchmark has the same name for two accepted arms exactly when
  their names agree up to final dots, underscores and hyphens.  Distinct arms of one run can
  therefore write the same file: \<open>fast\<close> and \<open>fast-\<close> are accepted together and share
  every artifact.\<close>

theorem artifact_names_collide:
  "parse_arm s = Inr a \<Longrightarrow> parse_arm t = Inr b
   \<Longrightarrow> artifact_name a bench = artifact_name b bench
     \<longleftrightarrow> rstrip_by slug_edge (arm_name a) = rstrip_by slug_edge (arm_name b)"
  using parse_arm_wf [of s a] parse_arm_wf [of t b]
  by (simp add: artifact_name_def slug_valid_name wf_arm_def)

theorem artifact_names_collide_witness:
  "case parse_arms [''fast'', ''fast-''] of
     Inr [a, b] \<Rightarrow> arm_name a \<noteq> arm_name b \<and> artifact_name a ''prefix_cache'' = artifact_name b ''prefix_cache''
   | _ \<Rightarrow> False"
proof -
  let ?a = "\<lparr>arm_name = ''fast'', arm_env = [], arm_spec = ''fast''\<rparr>"
  let ?b = "\<lparr>arm_name = ''fast-'', arm_env = [], arm_spec = ''fast-''\<rparr>"
  have p: "parse_arm ''fast'' = Inr ?a" "parse_arm ''fast-'' = Inr ?b" by code_simp+
  have "rstrip_by slug_edge ''fast'' = rstrip_by slug_edge ''fast-''" by code_simp
  with artifact_names_collide [OF p, of "''prefix_cache''"] show ?thesis
    by (simp add: parse_arms_def p)
qed

end
