(* ===== verification/Py_Json.thy ===== *)
theory Py_Json
  imports Py_Text
begin

text \<open>
  JSON values as \<open>json.loads\<close> returns them, and the ways the tools read them: \<open>get\<close>, indexing,
  truth values and \<open>int\<close>.  The parser itself is a parameter wherever a text is read.
\<close>

section \<open>JSON values\<close>

datatype json =
    JNull | JBool bool | JInt int | JFloat real | JNonFinite | JStr string
  | JList "json list" | JObj "(string \<times> json) list"

type_synonym dict = "(string \<times> json) list"

text \<open>\<open>d.get(k)\<close>, the truth value, and the numbers of \<open>_number\<close>.\<close>

definition jget :: "dict \<Rightarrow> string \<Rightarrow> json" where
  "jget d k = (case map_of d k of Some v \<Rightarrow> v | None \<Rightarrow> JNull)"

fun json_truthy :: "json \<Rightarrow> bool" where
  "json_truthy JNull = False"
| "json_truthy (JBool b) = b"
| "json_truthy (JInt i) = (i \<noteq> 0)"
| "json_truthy (JFloat x) = (x \<noteq> 0)"
| "json_truthy JNonFinite = True"
| "json_truthy (JStr s) = (s \<noteq> [])"
| "json_truthy (JList xs) = (xs \<noteq> [])"
| "json_truthy (JObj d) = (d \<noteq> [])"

fun number :: "json \<Rightarrow> real option" where
  "number (JInt i) = Some (of_int i)"
| "number (JFloat x) = Some x"
| "number _ = None"

fun as_obj :: "json \<Rightarrow> dict option" where
  "as_obj (JObj d) = Some d"
| "as_obj _ = None"

text \<open>All floats in a value are from a set.\<close>

fun floats_in :: "(real \<Rightarrow> bool) \<Rightarrow> json \<Rightarrow> bool" where
  "floats_in F (JFloat x) = F x"
| "floats_in F (JList xs) = list_all (floats_in F) xs"
| "floats_in F (JObj d) = list_all (floats_in F) (map snd d)"
| "floats_in F _ = True"

end
