(* ===== verification/Bench_Artifacts.thy ===== *)
theory Bench_Artifacts
  imports Bench_Env Py_Stats Py_Json
begin

text \<open>
  The A/B harness, second part: benchmark artifacts.  Artifacts are JSON values; each
  registered benchmark has a command or a direct run, and an extractor that turns its
  artifact into named samples.  Floats are reals; \<open>JNonFinite\<close> stands for the NaN and
  infinities that \<open>json.loads\<close> also accepts.  \<open>str\<close> of a float is a parameter.
\<close>

section \<open>Reading JSON values\<close>

definition objs :: "json list \<Rightarrow> dict list" where
  "objs xs = List.map_filter as_obj xs"

definition numbers :: "json list \<Rightarrow> string \<Rightarrow> real list" where
  "numbers records key = List.map_filter (\<lambda>d. number (jget d key)) (objs records)"

definition opt_num :: "real option \<Rightarrow> json" where
  "opt_num v = (case v of None \<Rightarrow> JNull | Some x \<Rightarrow> JFloat x)"

section \<open>Metrics\<close>

datatype bench_note = Note string | StrOf json

record bench_metrics =
  samples :: "(string \<times> real list) list"
  summary :: dict
  metric_notes :: "bench_note list"

text \<open>What a benchmark can fail with: the errors of the harness, of the operating system and
  of Python.\<close>

datatype bench_failure = Artifact string | Harness string | System | Raised py_exc

definition require_list :: "dict \<Rightarrow> string \<Rightarrow> bench_failure + json list" where
  "require_list artifact key =
     (case jget artifact key of
        JList xs \<Rightarrow> (if xs = [] then Inl (Artifact ''no non-empty list'') else Inr xs)
      | _ \<Rightarrow> Inl (Artifact ''no non-empty list''))"

definition extract_decode :: "dict \<Rightarrow> bench_failure + bench_metrics" where
  "extract_decode artifact =
     (case require_list artifact ''runs'' of
        Inl e \<Rightarrow> Inl e
      | Inr runs \<Rightarrow>
          (let tok_s = numbers runs ''tok_s'' in
           if tok_s = [] then Inl (Artifact ''no numeric tok_s samples'')
           else
             (let ttft = numbers runs ''ttft_s''; completion = numbers runs ''completion_tokens'' in
              Inr \<lparr>samples = [(''decode_tok_s'', tok_s), (''ttft_s'', ttft)],
                   summary = [(''decode_tok_s_median'', opt_num (median_opt tok_s)),
                     (''decode_tok_s_min'', JFloat (Min (set tok_s))),
                     (''decode_tok_s_max'', JFloat (Max (set tok_s))),
                     (''ttft_median_s'', opt_num (median_opt ttft)),
                     (''completion_tokens_median'', opt_num (median_opt completion)),
                     (''any_nan'', JBool (json_truthy (jget artifact ''any_nan''))),
                     (''runs'', JInt (int (length runs)))],
                   metric_notes = (if \<exists>run\<in>set (objs runs). json_truthy (jget run ''nan'')
                            then [Note ''decode artifact reports NaN/locklock text''] else [])\<rparr>)))"

definition remove_suffix :: "string \<Rightarrow> string \<Rightarrow> string" where
  "remove_suffix x s = (if x \<noteq> [] \<and> ends_with x s then take (length s - length x) s else s)"

definition pair_metric :: "dict \<Rightarrow> string \<Rightarrow> real option" where
  "pair_metric pair key =
     (case number (jget pair key) of
        Some v \<Rightarrow> Some v
      | None \<Rightarrow>
          (case jget pair (remove_suffix ''_ttft_s'' key) of
             JObj nested \<Rightarrow> number (jget nested ''wall_s'')
           | _ \<Rightarrow> None))"

definition extract_prefix :: "dict \<Rightarrow> bench_failure + bench_metrics" where
  "extract_prefix artifact =
     (case require_list artifact ''pairs'' of
        Inl e \<Rightarrow> Inl e
      | Inr pairs \<Rightarrow>
          (let dict_pairs = objs pairs in
           if dict_pairs = [] then Inl (Artifact ''pairs are not objects'')
           else
             (let cold = List.map_filter (\<lambda>p. pair_metric p ''cold_ttft_s'') dict_pairs;
                  warm = List.map_filter (\<lambda>p. pair_metric p ''warm_ttft_s'') dict_pairs;
                  ratios = List.map_filter (\<lambda>p. number (jget p ''prefix_hit_ratio'')) dict_pairs;
                  efficiency = numbers (map JObj dict_pairs) ''hit_efficiency'';
                  speedup = numbers (map JObj dict_pairs) ''speedup'' in
              if cold = [] \<and> warm = [] \<and> ratios = []
              then Inl (Artifact ''no numeric timing or hit-ratio samples'')
              else
                Inr \<lparr>samples = [(''cold_ttft_s'', cold), (''warm_ttft_s'', warm),
                       (''prefix_hit_ratio'', ratios), (''hit_efficiency'', efficiency),
                       (''speedup'', speedup)],
                     summary = [(''pairs'', JInt (int (length dict_pairs))),
                       (''cold_ttft_median_s'', opt_num (median_opt cold)),
                       (''warm_ttft_median_s'', opt_num (median_opt warm)),
                       (''prefix_hit_ratio_median'', opt_num (median_opt ratios)),
                       (''hit_efficiency_median'', opt_num (median_opt efficiency))],
                     metric_notes = (if ratios = []
                       then [Note ''prefix_hit_ratio unavailable (server did not expose cache metrics)'']
                       else [])\<rparr>)))"

record round_acc =
  warm_hits :: "real list"
  cold_hits :: "real list"
  warm_ttft :: "real list"
  warm_decode :: "real list"
  warm_wall :: "real list"

definition opt_list :: "'a option \<Rightarrow> 'a list" where
  "opt_list v = (case v of None \<Rightarrow> [] | Some x \<Rightarrow> [x])"

text \<open>\<open>int(number)\<close> drops the fraction.\<close>

definition trunc :: "real \<Rightarrow> int" where
  "trunc x = (if 0 \<le> x then \<lfloor>x\<rfloor> else \<lceil>x\<rceil>)"

definition round_step :: "nat \<Rightarrow> round_acc \<Rightarrow> json \<Rightarrow> bench_failure + round_acc" where
  "round_step position acc rec =
     (case rec of
        JObj r \<Rightarrow>
          (let round_number = (case number (jget r ''round'') of
                                 Some x \<Rightarrow> trunc x | None \<Rightarrow> int position + 1);
               hit = opt_list (number (jget r ''hit_fraction'')) in
           if round_number = 1 then Inr (acc\<lparr>cold_hits := cold_hits acc @ hit\<rparr>)
           else
             (case jget r ''sessions'' of
                JList sessions \<Rightarrow>
                  Inr \<lparr>warm_hits = warm_hits acc @ hit, cold_hits = cold_hits acc,
                       warm_ttft = warm_ttft acc @ numbers sessions ''ttft_s'',
                       warm_decode = warm_decode acc @ numbers sessions ''decode_tok_s'',
                       warm_wall = warm_wall acc @ opt_list (number (jget r ''wall_s''))\<rparr>
              | _ \<Rightarrow> Inl (Artifact ''round has no sessions list'')))
      | _ \<Rightarrow> Inl (Artifact ''round entry is not an object''))"

fun round_loop :: "nat \<Rightarrow> round_acc \<Rightarrow> json list \<Rightarrow> bench_failure + round_acc" where
  "round_loop position acc [] = Inr acc"
| "round_loop position acc (r # rs) =
     (case round_step position acc r of
        Inl e \<Rightarrow> Inl e | Inr acc' \<Rightarrow> round_loop (Suc position) acc' rs)"

text \<open>\<open>for w in (artifact.get("warnings") or [])\<close>, keeping the warnings whose text is not
  blank; only a string can be blank.\<close>

definition note_of :: "json \<Rightarrow> bench_note list" where
  "note_of w = (case w of JStr s \<Rightarrow> (if strip s = [] then [] else [Note s]) | _ \<Rightarrow> [StrOf w])"

definition warning_notes :: "json \<Rightarrow> bench_failure + bench_note list" where
  "warning_notes w =
     (if \<not> json_truthy w then Inr []
      else (case w of
              JList ws \<Rightarrow> Inr (concat (map note_of ws))
            | JStr s \<Rightarrow> Inr (concat (map (\<lambda>c. note_of (JStr [c])) s))
            | JObj d \<Rightarrow> Inr (concat (map (\<lambda>(k, _). note_of (JStr k)) d))
            | _ \<Rightarrow> Inl (Raised TypeError)))"

definition extract_cache_sessions :: "dict \<Rightarrow> bench_failure + bench_metrics" where
  "extract_cache_sessions artifact =
     (case require_list artifact ''rounds'' of
        Inl e \<Rightarrow> Inl e
      | Inr rounds \<Rightarrow>
     (case round_loop 0 \<lparr>warm_hits = [], cold_hits = [], warm_ttft = [], warm_decode = [],
                          warm_wall = []\<rparr> rounds of
        Inl e \<Rightarrow> Inl e
      | Inr a \<Rightarrow>
          if cold_hits a = [] \<and> warm_hits a = [] \<and> warm_ttft a = [] \<and> warm_decode a = []
          then Inl (Artifact ''no numeric round metrics'')
          else
            (let sm = (case jget artifact ''summary'' of JObj d \<Rightarrow> d | _ \<Rightarrow> []) in
             case warning_notes (jget artifact ''warnings'') of
               Inl e \<Rightarrow> Inl e
             | Inr ns \<Rightarrow>
                 Inr \<lparr>samples = [(''cold_hit_fraction'', cold_hits a),
                        (''warm_hit_fraction'', warm_hits a), (''warm_ttft_s'', warm_ttft a),
                        (''warm_decode_tok_s'', warm_decode a), (''warm_wall_s'', warm_wall a)],
                      summary = [(''verdict'', if json_truthy (jget sm ''verdict'') then jget sm ''verdict''
                                               else jget artifact ''verdict''),
                        (''cold_hit_fraction_median'', opt_num (median_opt (cold_hits a))),
                        (''warm_hit_fraction_median'', jget sm ''warm_hit_fraction_median''),
                        (''warm_ttft_median_s'', jget sm ''warm_ttft_median_s''),
                        (''warm_decode_tok_s_median'', jget sm ''warm_decode_tok_s_median''),
                        (''http_ok'', jget sm ''http_ok'')],
                      metric_notes = ns @ (if warm_hits a = []
                        then [Note ''no warm cached_tokens; hit-based verdict is unknown''] else [])\<rparr>)))"

definition extract_short_chat :: "dict \<Rightarrow> bench_failure + bench_metrics" where
  "extract_short_chat artifact =
     (case require_list artifact ''requests'' of
        Inl e \<Rightarrow> Inl e
      | Inr requests \<Rightarrow>
          (let ttft = numbers requests ''ttft_s''; decode = numbers requests ''decode_tok_s'' in
           if ttft = [] \<and> decode = [] then Inl (Artifact ''no numeric TTFT/decode samples'')
           else
             Inr \<lparr>samples = [(''ttft_s'', ttft), (''decode_tok_s'', decode)],
                  summary = [(''ttft_median_s'', opt_num (median_opt ttft)),
                    (''decode_tok_s_median'', opt_num (median_opt decode)),
                    (''requests'', JInt (int (length requests)))],
                  metric_notes = (if ttft = [] then [Note ''server returned non-SSE bodies; no first-token TTFT'']
                           else [])\<rparr>))"

section \<open>Commands\<close>

text \<open>\<open>sys.executable\<close> and \<open>str\<close> of a float belong to the host.\<close>

record host =
  python_exe :: string
  show_float :: "real \<Rightarrow> string"

record bench_context =
  base_url :: string
  ctx_model :: string
  ctx_runs :: int
  ctx_timeout :: real
  artifact_path :: string
  tests_dir :: string
  ctx_sessions :: int
  ctx_tokens :: int
  cache_mode :: string

definition default_base_url :: string where
  "default_base_url = ''http://127.0.0.1:8888''"

definition decode_build :: "bool \<Rightarrow> host \<Rightarrow> bench_context \<Rightarrow> bench_failure + string list" where
  "decode_build structured h ctx =
     (if api_root (base_url ctx) \<noteq> api_root default_base_url
      then Inl (Harness ''tests/bench_decode.py hardcodes http://127.0.0.1:8888'')
      else Inr ([python_exe h, tests_dir ctx @ ''/bench_decode.py'', ''--phase'',
                 if structured then ''structured'' else ''prose'', ''--runs'', show_int (ctx_runs ctx),
                 ''--max-tokens'', ''400'', ''--skip-coherence'', ''--out'', artifact_path ctx]
                @ (if structured then [''--structured''] else [])))"

definition v1_base :: "string \<Rightarrow> string" where
  "v1_base url = api_root url @ ''/v1''"

definition prefix_build :: "host \<Rightarrow> bench_context \<Rightarrow> bench_failure + string list" where
  "prefix_build h ctx =
     Inr [python_exe h, tests_dir ctx @ ''/bench_prefix_cache.py'', ''--base-url'', v1_base (base_url ctx),
          ''--model'', ctx_model ctx, ''--runs'', show_int (ctx_runs ctx), ''--timeout'',
          show_float h (ctx_timeout ctx), ''--output'', artifact_path ctx]"

definition mode_flags :: "(string \<times> string list) list" where
  "mode_flags = [(''sessions'', []), (''shared-prefix'', [''--shared-prefix'']), (''sub-page'', [''--sub-page''])]"

definition cache_sessions_build :: "host \<Rightarrow> bench_context \<Rightarrow> bench_failure + string list" where
  "cache_sessions_build h ctx =
     (case map_of mode_flags (cache_mode ctx) of
        None \<Rightarrow> Inl (Harness ''unknown cache-sessions mode'')
      | Some flags \<Rightarrow>
          Inr ([python_exe h, tests_dir ctx @ ''/bench_cache_sessions.py'', ''--base-url'', base_url ctx,
                ''--model'', ctx_model ctx, ''--sessions'', show_int (ctx_sessions ctx),
                ''--ctx-tokens'', show_int (ctx_tokens ctx), ''--rounds'', show_int (ctx_runs ctx),
                ''--timeout'', show_float h (ctx_timeout ctx), ''--out'', artifact_path ctx] @ flags))"

text \<open>The direct benchmark sends each prompt through the client module, which is \<open>None\<close> when
  its file is missing; a reply is its \<open>ok\<close> flag and its dictionary.\<close>

type_synonym chat_client = "(string \<Rightarrow> bool \<times> dict) option"

definition short_chat_prompts :: "string list" where
  "short_chat_prompts =
     [''Reply with exactly: OK'', ''What is 2 + 2? Answer with one digit.'',
      ''Name the capital of France in one word.'']"

definition chat_record :: "(string \<Rightarrow> bool \<times> dict) \<Rightarrow> string \<Rightarrow> bench_failure + json" where
  "chat_record chat prompt =
     (case chat prompt of
        (ok, d) \<Rightarrow> (if ok then Inr (JObj (dict_set d ''prompt'' (JStr prompt)))
                   else Inl (Harness ''short_chat prompt failed'')))"

definition short_chat_run :: "string \<Rightarrow> chat_client \<Rightarrow> bench_context \<Rightarrow> bench_failure + dict" where
  "short_chat_run now client ctx =
     (case client of
        None \<Rightarrow> Inl (Harness ''missing benchmark client'')
      | Some chat \<Rightarrow>
     (case map_res (chat_record chat) short_chat_prompts of
        Inl e \<Rightarrow> Inl e
      | Inr requests \<Rightarrow>
          (let ttft = numbers requests ''ttft_s''; decode = numbers requests ''decode_tok_s'' in
           if ttft = [] \<and> decode = [] then Inl (Harness ''no TTFT or decode samples'')
           else Inr [(''schema'', JStr ''glm53-exl3-short-chat/1''), (''created_at'', JStr now),
                     (''base_url'', JStr (base_url ctx)), (''model'', JStr (ctx_model ctx)),
                     (''requests'', JList requests), (''ttft_median_s'', opt_num (median_opt ttft)),
                     (''decode_tok_s_median'', opt_num (median_opt decode))])))"

section \<open>The registry\<close>

datatype direction = Higher | Lower | Neutral

datatype bench_body =
    Command "host \<Rightarrow> bench_context \<Rightarrow> bench_failure + string list"
  | Direct "string \<Rightarrow> chat_client \<Rightarrow> bench_context \<Rightarrow> bench_failure + dict"

record bench_spec =
  spec_name :: string
  spec_body :: bench_body
  spec_extract :: "dict \<Rightarrow> bench_failure + bench_metrics"
  spec_direction :: "(string \<times> direction) list"
  spec_requires :: "string list"

definition benchmarks :: "bench_spec list" where
  "benchmarks =
     [\<lparr>spec_name = ''decode_structured'', spec_body = Command (decode_build True),
       spec_extract = extract_decode,
       spec_direction = [(''decode_tok_s'', Higher), (''ttft_s'', Lower)],
       spec_requires = [''bench_decode.py'']\<rparr>,
      \<lparr>spec_name = ''decode_prose'', spec_body = Command (decode_build False),
       spec_extract = extract_decode,
       spec_direction = [(''decode_tok_s'', Higher), (''ttft_s'', Lower)],
       spec_requires = [''bench_decode.py'']\<rparr>,
      \<lparr>spec_name = ''prefix_cache'', spec_body = Command prefix_build,
       spec_extract = extract_prefix,
       spec_direction = [(''cold_ttft_s'', Lower), (''warm_ttft_s'', Lower),
         (''prefix_hit_ratio'', Higher), (''hit_efficiency'', Higher), (''speedup'', Higher)],
       spec_requires = [''bench_prefix_cache.py'']\<rparr>,
      \<lparr>spec_name = ''cache_sessions'', spec_body = Command cache_sessions_build,
       spec_extract = extract_cache_sessions,
       spec_direction = [(''cold_hit_fraction'', Neutral), (''warm_hit_fraction'', Higher),
         (''warm_ttft_s'', Lower), (''warm_decode_tok_s'', Higher), (''warm_wall_s'', Lower)],
       spec_requires = [''bench_cache_sessions.py'']\<rparr>,
      \<lparr>spec_name = ''short_chat'', spec_body = Direct short_chat_run,
       spec_extract = extract_short_chat,
       spec_direction = [(''ttft_s'', Lower), (''decode_tok_s'', Higher)],
       spec_requires = [''bench_cache_sessions.py'']\<rparr>]"

definition find_bench :: "string \<Rightarrow> bench_spec option" where
  "find_bench name = map_of (map (\<lambda>b. (spec_name b, b)) benchmarks) name"

fun select_benches :: "string list \<Rightarrow> string list \<Rightarrow> bench_failure + string list" where
  "select_benches selected [] = Inr selected"
| "select_benches selected (n # ns) =
     (if find_bench n = None then Inl (Harness ''unknown benchmark'')
      else select_benches (if n \<in> set selected then selected else selected @ [n]) ns)"

definition parse_bench_selection :: "string list \<Rightarrow> bench_failure + string list" where
  "parse_bench_selection names =
     (if names = [] then Inr (map spec_name benchmarks) else select_benches [] names)"

text \<open>Reading an artifact: the file, then \<open>json.loads\<close> (a parameter, \<open>None\<close> when it raises).\<close>

datatype artifact_file = Missing | Unreadable | Contents string

definition load_artifact :: "(string \<Rightarrow> json option) \<Rightarrow> artifact_file \<Rightarrow> bench_failure + dict" where
  "load_artifact json_loads f =
     (case f of
        Missing \<Rightarrow> Inl (Artifact ''missing'')
      | Unreadable \<Rightarrow> Inl (Artifact ''cannot read'')
      | Contents text \<Rightarrow>
          (case json_loads text of
             None \<Rightarrow> Inl (Artifact ''malformed JSON'')
           | Some (JObj d) \<Rightarrow> Inr d
           | Some _ \<Rightarrow> Inl (Artifact ''not a JSON object'')))"

section \<open>An extractor that succeeds has a sample\<close>

definition has_sample :: "bench_metrics \<Rightarrow> bool" where
  "has_sample m \<longleftrightarrow> (\<exists>(n, vs)\<in>set (samples m). vs \<noteq> [])"

lemma extract_decode_sample: "extract_decode a = Inr m \<Longrightarrow> has_sample m"
  by (auto simp: extract_decode_def has_sample_def Let_def split: sum.splits if_splits)

lemma extract_prefix_sample: "extract_prefix a = Inr m \<Longrightarrow> has_sample m"
  by (auto simp: extract_prefix_def has_sample_def Let_def split: sum.splits if_splits)

lemma extract_cache_sessions_sample: "extract_cache_sessions a = Inr m \<Longrightarrow> has_sample m"
  by (auto simp: extract_cache_sessions_def has_sample_def Let_def split: sum.splits if_splits)

lemma extract_short_chat_sample: "extract_short_chat a = Inr m \<Longrightarrow> has_sample m"
  by (auto simp: extract_short_chat_def has_sample_def Let_def split: sum.splits if_splits)

lemma registered_extractors:
  "find_bench n = Some b \<Longrightarrow>
     spec_extract b \<in> set [extract_decode, extract_prefix, extract_cache_sessions, extract_short_chat]"
  unfolding find_bench_def
  by (drule map_of_SomeD) (auto simp: benchmarks_def)

lemma registered_sample:
  assumes "find_bench n = Some b" and "spec_extract b a = Inr m"
  shows "has_sample m"
proof -
  consider "spec_extract b = extract_decode" | "spec_extract b = extract_prefix"
    | "spec_extract b = extract_cache_sessions" | "spec_extract b = extract_short_chat"
    using registered_extractors [OF assms(1)] by (simp only: list.set) blast
  then show ?thesis
  proof cases
    case 1
    with assms(2) show ?thesis by (intro extract_decode_sample [of a]) simp
  next
    case 2
    with assms(2) show ?thesis by (intro extract_prefix_sample [of a]) simp
  next
    case 3
    with assms(2) show ?thesis by (intro extract_cache_sessions_sample [of a]) simp
  next
    case 4
    with assms(2) show ?thesis by (intro extract_short_chat_sample [of a]) simp
  qed
qed

lemma select_benches_set:
  "select_benches sel ns = Inr bs \<Longrightarrow> set bs = set sel \<union> set ns"
proof (induction ns arbitrary: sel)
  case (Cons n ns)
  then have "select_benches (if n \<in> set sel then sel else sel @ [n]) ns = Inr bs"
    by (simp split: if_splits)
  from Cons.IH [OF this] show ?case by (cases "n \<in> set sel") auto
qed simp

lemma select_benches_distinct:
  "select_benches sel ns = Inr bs \<Longrightarrow> distinct sel \<Longrightarrow> distinct bs"
proof (induction ns arbitrary: sel)
  case (Cons n ns)
  then have "select_benches (if n \<in> set sel then sel else sel @ [n]) ns = Inr bs"
    by (simp split: if_splits)
  from Cons.IH [OF this] Cons.prems(2) show ?case by simp
qed simp

lemma select_benches_known:
  "select_benches sel ns = Inr bs \<Longrightarrow> \<forall>n\<in>set ns. find_bench n \<noteq> None"
proof (induction ns arbitrary: sel)
  case (Cons n ns)
  then have "find_bench n \<noteq> None"
    and "select_benches (if n \<in> set sel then sel else sel @ [n]) ns = Inr bs"
    by (simp_all split: if_splits)
  with Cons.IH show ?case by auto
qed simp

lemma registered_known: "\<forall>n\<in>set (map spec_name benchmarks). find_bench n \<noteq> None"
  unfolding find_bench_def map_of_eq_None_iff by (simp add: comp_def image_image)

lemma parse_bench_selection_facts:
  assumes "parse_bench_selection names = Inr bs"
  shows "distinct bs" and "bs \<noteq> []" and "\<forall>n\<in>set bs. find_bench n \<noteq> None"
proof -
  have "distinct bs \<and> bs \<noteq> [] \<and> (\<forall>n\<in>set bs. find_bench n \<noteq> None)"
  proof (cases "names = []")
    case True
    with assms have bs: "bs = map spec_name benchmarks" by (simp add: parse_bench_selection_def)
    have "distinct (map spec_name benchmarks)" "map spec_name benchmarks \<noteq> []"
      by (simp_all add: benchmarks_def)
    with registered_known show ?thesis unfolding bs by blast
  next
    case False
    with assms have sel: "select_benches [] names = Inr bs" by (simp add: parse_bench_selection_def)
    from select_benches_set [OF sel] select_benches_known [OF sel] select_benches_distinct [OF sel] False
    show ?thesis by auto
  qed
  then show "distinct bs" and "bs \<noteq> []" and "\<forall>n\<in>set bs. find_bench n \<noteq> None" by auto
qed

end
