(* ===== verification/Bench_Run.thy ===== *)
theory Bench_Run
  imports Bench_Artifacts Watchdog
begin

text \<open>
  The A/B harness, third part: one arm, from the restart to the last benchmark.  What the
  server, the child processes and the file system answer is a \<open>world\<close>, one for each arm;
  the model computes every decision, record and warning from it.  Times are relative to the
  start of a wait, and a clock never runs backwards: negative durations count as zero.
\<close>

section \<open>HTTP\<close>

text \<open>What \<open>urlopen\<close> does: an answer, an HTTP error with its body (\<open>None\<close> when reading it
  fails), or a connection error.\<close>

datatype transport = Answer int string | HttpError int "string option" | NoConnection string

record http_response =
  code :: int
  body :: string
  http_error :: string

definition http_request :: "transport \<Rightarrow> http_response" where
  "http_request t =
     (case t of
        Answer c b \<Rightarrow> \<lparr>code = c, body = b, http_error = []\<rparr>
      | HttpError c b \<Rightarrow> \<lparr>code = c, body = (case b of Some s \<Rightarrow> s | None \<Rightarrow> []), http_error = []\<rparr>
      | NoConnection e \<Rightarrow> \<lparr>code = 0, body = [], http_error = ''connection error: '' @ e\<rparr>)"

record health =
  h_ok :: bool
  h_code :: int
  h_attempts :: nat
  h_seconds :: real
  h_error :: string

text \<open>The polling loop.  Poll \<open>n\<close> takes some time and the sleep after it may last longer
  than asked for.\<close>

type_synonym polls = "nat \<Rightarrow> transport \<times> real \<times> real"

partial_function (option) health_loop ::
  "real \<Rightarrow> real \<Rightarrow> polls \<Rightarrow> nat \<Rightarrow> real \<Rightarrow> health option" where
  "health_loop limit pause polls n t =
     (let p = polls n; r = http_request (fst p); t1 = t + max 0 (fst (snd p)); remaining = limit - t1 in
      if code r = 200 then
        Some \<lparr>h_ok = True, h_code = 200, h_attempts = Suc n, h_seconds = py_round 3 t1, h_error = []\<rparr>
      else if remaining \<le> 0 then
        Some \<lparr>h_ok = False, h_code = code r, h_attempts = Suc n, h_seconds = py_round 3 t1,
          h_error = (if http_error r \<noteq> [] then http_error r
                     else ''last HTTP status '' @ show_int (code r))\<rparr>
      else health_loop limit pause polls (Suc n) (t1 + min pause remaining + max 0 (snd (snd p))))"

definition wait_for_health :: "real \<Rightarrow> real \<Rightarrow> polls \<Rightarrow> (bench_failure + health) option" where
  "wait_for_health limit pause polls =
     (if limit \<le> 0 then Some (Inl (Harness ''health timeout must be > 0''))
      else if pause \<le> 0 then Some (Inl (Harness ''health interval must be > 0''))
      else map_option Inr (health_loop limit pause polls 0 0))"

datatype reset_status = ResetOk | ResetAbsent | ResetError | ResetSkipped

definition reset_prefix_cache :: "transport \<Rightarrow> reset_status \<times> int" where
  "reset_prefix_cache t =
     (let r = http_request t in
      if code r \<in> {200, 204} then (ResetOk, code r)
      else if code r = 404 then (ResetAbsent, 404)
      else (ResetError, code r))"

record warmup =
  w_ok :: bool
  w_http :: int
  w_error :: string
  w_prompt_tokens :: json
  w_completion_tokens :: json

definition warmup_failed :: "int \<Rightarrow> string \<Rightarrow> warmup" where
  "warmup_failed http e =
     \<lparr>w_ok = False, w_http = http, w_error = e, w_prompt_tokens = JNull, w_completion_tokens = JNull\<rparr>"

definition warmup_request :: "(string \<Rightarrow> json option) \<Rightarrow> transport \<Rightarrow> warmup" where
  "warmup_request json_loads t =
     (let r = http_request t in
      if code r \<noteq> 200 then
        warmup_failed (code r) (if http_error r \<noteq> [] then http_error r else take 300 (body r))
      else
        (case json_loads (body r) of
           None \<Rightarrow> warmup_failed (code r) ''malformed JSON response''
         | Some b \<Rightarrow>
             (let d = (case b of JObj d \<Rightarrow> d | _ \<Rightarrow> []) in
              case jget d ''choices'' of
                JList (c # cs) \<Rightarrow>
                  (let usage = (case jget d ''usage'' of JObj u \<Rightarrow> u | _ \<Rightarrow> []) in
                   \<lparr>w_ok = True, w_http = 200, w_error = [],
                    w_prompt_tokens = jget usage ''prompt_tokens'',
                    w_completion_tokens = jget usage ''completion_tokens''\<rparr>)
              | _ \<Rightarrow> warmup_failed (code r) ''warmup response has no choices'')))"

section \<open>Boot identity\<close>

datatype boot_source = MetricsLabel | MetricsProcessStart | HostBoot | Unavailable

record boot_identity =
  boot_id :: "string option"
  boot_source :: boot_source
  boot_error :: string

text \<open>The scan keeps the first label and the first start time; the expressions are those of
  the prefill watchdog.\<close>

definition boot_step :: "string option \<times> real option \<Rightarrow> string \<Rightarrow> string option \<times> real option" where
  "boot_step acc raw =
     (let line = strip raw in
      if line = [] \<or> starts_with ''#'' line then acc
      else
        (case acc of (label, start) \<Rightarrow>
           ((if label = None then search boot_label_at line else label),
            (case metric_line line of
               Some (name, v) \<Rightarrow> (if start_metric name \<and> start = None then Some v else start)
             | None \<Rightarrow> start))))"

definition nonempty :: "string option \<Rightarrow> string option" where
  "nonempty s = (if s = Some [] then None else s)"

definition probe_boot_id :: "transport \<Rightarrow> string option \<Rightarrow> boot_identity" where
  "probe_boot_id t host_boot_id =
     (let r = http_request t;
          scan = (if code r = 200 then foldl boot_step (None, None) (splitlines (body r)) else (None, None));
          e = (if code r = 200 \<or> http_error r \<noteq> [] then http_error r else ''HTTP '' @ show_int (code r)) in
      case nonempty (fst scan) of
        Some l \<Rightarrow> \<lparr>boot_id = Some (''metrics-boot:'' @ l), boot_source = MetricsLabel, boot_error = []\<rparr>
      | None \<Rightarrow>
     (case snd scan of
        Some v \<Rightarrow> \<lparr>boot_id = Some (''process-start:'' @ show_int (trunc v)),
                   boot_source = MetricsProcessStart, boot_error = []\<rparr>
      | None \<Rightarrow>
     (case nonempty host_boot_id of
        Some hid \<Rightarrow> \<lparr>boot_id = Some (''host-boot:'' @ hid), boot_source = HostBoot, boot_error = e\<rparr>
      | None \<Rightarrow> \<lparr>boot_id = None, boot_source = Unavailable,
                 boot_error = (if e \<noteq> [] then e
                   else ''no process_start_time_seconds and no host boot id'')\<rparr>)))"

section \<open>The records of an arm\<close>

record bench_record =
  rec_name :: string
  rec_artifact :: string
  rec_exit :: "int option"
  rec_process :: "process_record option"
  rec_metrics :: "bench_metrics option"
  rec_error :: "bench_failure option"
  rec_ok :: bool

datatype arm_error =
    NoArtifactDir | NoStartScript | RestartFailed int | Unhealthy int | CacheResetFailed int
  | WarmupFailed | Unexpected

datatype arm_warning =
    OverridesNotApplied | BootUnavailable | BootHostOnly | ResetEndpointAbsent
  | BootChanged | BootSourceChanged

datatype restart_record = NotAttempted | Restarted int string

record arm_result =
  res_name :: string
  res_baseline :: bool
  res_env :: "(string \<times> string) list"
  res_effective_env :: "(string \<times> string) list"
  res_restart :: restart_record
  res_health :: "health option"
  res_boot :: "boot_identity option"
  res_boot_end :: "boot_identity option"
  res_reset :: "reset_status option"
  res_warmup :: "warmup option"
  res_benches :: "bench_record list"
  res_warnings :: "arm_warning list"
  res_error :: "arm_error option"
  res_boot_changed :: bool
  res_ok :: bool

text \<open>The options of the command line that an arm uses.\<close>

record ab_args =
  no_restart :: bool
  health_timeout :: real
  health_interval :: real
  timeout :: real
  restart_timeout :: real
  runs :: int
  sessions :: int
  arg_ctx_tokens :: int
  arg_cache_mode :: string
  settle :: real
  arg_base_url :: string
  arg_model :: string

text \<open>The answers of the outside during one arm.  \<open>None\<close> for a child process means that
  \<open>subprocess.run\<close> raised an \<open>OSError\<close>.\<close>

record world =
  dir_ok :: bool
  start_script :: bool
  restart_child :: "child option"
  health_polls :: polls
  metrics_start :: transport
  metrics_end :: transport
  host_id_start :: "string option"
  host_id_end :: "string option"
  reset_reply :: transport
  warmup_reply :: transport
  bench_child :: "string \<Rightarrow> child option"
  bench_file :: "string \<Rightarrow> artifact_file"
  client :: chat_client
  write_ok :: bool
  json_loads :: "string \<Rightarrow> json option"
  now :: string
  header :: "string list \<Rightarrow> int \<Rightarrow> string"
  notice :: string

section \<open>One benchmark\<close>

definition bench_context_of :: "ab_args \<Rightarrow> string \<Rightarrow> string \<Rightarrow> bench_context" where
  "bench_context_of args tests path =
     \<lparr>base_url = arg_base_url args, ctx_model = arg_model args, ctx_runs = runs args,
      ctx_timeout = timeout args, artifact_path = path, tests_dir = tests,
      ctx_sessions = sessions args, ctx_tokens = arg_ctx_tokens args, cache_mode = arg_cache_mode args\<rparr>"

text \<open>The steps up to the artifact: the exit code and the process record so far, and the
  artifact or the exception.\<close>

definition bench_artifact ::
  "world \<Rightarrow> host \<Rightarrow> string list \<Rightarrow> bench_spec \<Rightarrow> bench_context
   \<Rightarrow> int option \<times> process_record option \<times> (bench_failure + dict)" where
  "bench_artifact w h secrets spec ctx =
     (case spec_body spec of
        Command build \<Rightarrow>
          (case build h ctx of
             Inl e \<Rightarrow> (None, None, Inl e)
           | Inr argv \<Rightarrow>
               (case bench_child w (spec_name spec) of
                  None \<Rightarrow> (None, None, Inl System)
                | Some c \<Rightarrow>
                    (let p = run_process (header w argv (child_exit c)) (notice w) c secrets in
                     (Some (proc_exit p), Some p,
                      if proc_exit p \<noteq> 0 then Inl (Artifact ''exited non-zero'')
                      else load_artifact (json_loads w) (bench_file w (spec_name spec))))))
      | Direct run \<Rightarrow>
          (case run (now w) (client w) ctx of
             Inl e \<Rightarrow> (None, None, Inl e)
           | Inr d \<Rightarrow> (if write_ok w then (Some 0, None, Inr d)
                       else (None, None, Inl (Artifact ''cannot write benchmark artifact'')))))"

definition run_bench ::
  "world \<Rightarrow> host \<Rightarrow> string list \<Rightarrow> bench_spec \<Rightarrow> bench_context \<Rightarrow> bench_record" where
  "run_bench w h secrets spec ctx =
     (case bench_artifact w h secrets spec ctx of
        (ex, p, res) \<Rightarrow>
          (let r = \<lparr>rec_name = spec_name spec, rec_artifact = artifact_path ctx, rec_exit = ex,
                    rec_process = p, rec_metrics = None, rec_error = None, rec_ok = False\<rparr> in
           case res of
             Inl e \<Rightarrow> r\<lparr>rec_error := Some e\<rparr>
           | Inr d \<Rightarrow>
               (case spec_extract spec d of
                  Inl e \<Rightarrow> r\<lparr>rec_error := Some e\<rparr>
                | Inr m \<Rightarrow> r\<lparr>rec_metrics := Some m, rec_ok := True\<rparr>)))"

section \<open>The stages of an arm\<close>

text \<open>A stage continues with the record, or raises with the record as it is.\<close>

type_synonym stage_result = "(arm_result \<times> arm_error) + arm_result"

definition stage_then :: "stage_result \<Rightarrow> (arm_result \<Rightarrow> stage_result) \<Rightarrow> stage_result" where
  "stage_then r f = (case r of Inl e \<Rightarrow> Inl e | Inr x \<Rightarrow> f x)"

definition warn :: "arm_result \<Rightarrow> arm_warning \<Rightarrow> arm_result" where
  "warn r x = r\<lparr>res_warnings := res_warnings r @ [x]\<rparr>"

definition restart_stage :: "world \<Rightarrow> ab_args \<Rightarrow> arm \<Rightarrow> string list \<Rightarrow> arm_result \<Rightarrow> stage_result" where
  "restart_stage w args a secrets r =
     (if no_restart args then Inr (if arm_env a \<noteq> [] then warn r OverridesNotApplied else r)
      else if \<not> start_script w then Inl (r, NoStartScript)
      else
        (case restart_child w of
           None \<Rightarrow> Inl (r, Unexpected)
         | Some c \<Rightarrow>
             (let p = run_process (header w [''./start.sh'', ''restart''] (child_exit c)) (notice w) c secrets;
                  r1 = r\<lparr>res_restart := Restarted (proc_exit p) (proc_log p)\<rparr> in
              if proc_exit p \<noteq> 0 then Inl (r1, RestartFailed (proc_exit p)) else Inr r1)))"

definition health_stage :: "bench_failure + health \<Rightarrow> arm_result \<Rightarrow> stage_result" where
  "health_stage h r =
     (case h of
        Inl _ \<Rightarrow> Inl (r, Unexpected)
      | Inr h \<Rightarrow>
          (let r1 = r\<lparr>res_health := Some h\<rparr> in
           if h_ok h then Inr r1 else Inl (r1, Unhealthy (h_code h))))"

definition boot_stage :: "world \<Rightarrow> arm_result \<Rightarrow> stage_result" where
  "boot_stage w r =
     (let b = probe_boot_id (metrics_start w) (host_id_start w); r1 = r\<lparr>res_boot := Some b\<rparr> in
      Inr (if boot_id b = None then warn r1 BootUnavailable
           else if boot_source b = HostBoot then warn r1 BootHostOnly
           else r1))"

definition reset_stage :: "world \<Rightarrow> (string \<times> string) list \<Rightarrow> arm_result \<Rightarrow> stage_result" where
  "reset_stage w merged r =
     (if map_of merged ''GLM53_EXPOSE_CACHE_RESET'' = Some ''1'' then
        (let x = reset_prefix_cache (reset_reply w); r1 = r\<lparr>res_reset := Some (fst x)\<rparr> in
         case fst x of
           ResetAbsent \<Rightarrow> Inr (warn r1 ResetEndpointAbsent)
         | ResetOk \<Rightarrow> Inr r1
         | _ \<Rightarrow> Inl (r1, CacheResetFailed (snd x)))
      else Inr (r\<lparr>res_reset := Some ResetSkipped\<rparr>))"

definition warmup_stage :: "world \<Rightarrow> arm_result \<Rightarrow> stage_result" where
  "warmup_stage w r =
     (let x = warmup_request (json_loads w) (warmup_reply w); r1 = r\<lparr>res_warmup := Some x\<rparr> in
      if w_ok x then Inr r1 else Inl (r1, WarmupFailed))"

text \<open>\<open>BENCHMARKS[name]\<close> cannot fail for a selected name.\<close>

definition bench_stage ::
  "world \<Rightarrow> host \<Rightarrow> ab_args \<Rightarrow> arm \<Rightarrow> string list \<Rightarrow> string \<Rightarrow> string \<Rightarrow> string list \<Rightarrow> arm_result \<Rightarrow> stage_result"
where
  "bench_stage w h args a secrets tests out_dir benches r =
     (case map_res (\<lambda>n. case find_bench n of
                None \<Rightarrow> Inl ()
              | Some spec \<Rightarrow>
                  Inr (run_bench w h secrets spec
                        (bench_context_of args tests (out_dir @ ''/'' @ artifact_name a n)))) benches of
        Inl _ \<Rightarrow> Inl (r, Unexpected)
      | Inr recs \<Rightarrow> Inr (r\<lparr>res_benches := recs\<rparr>))"

definition end_stage :: "world \<Rightarrow> arm_result \<Rightarrow> stage_result" where
  "end_stage w r =
     (let e = probe_boot_id (metrics_end w) (host_id_end w);
          r1 = r\<lparr>res_boot_end := Some e\<rparr> in
      case res_boot r of
        None \<Rightarrow> Inr r1
      | Some s \<Rightarrow>
          (if boot_id s \<noteq> None \<and> boot_id e \<noteq> None \<and> boot_id s \<noteq> boot_id e then
             (if boot_source s = boot_source e
              then Inr ((warn r1 BootChanged)\<lparr>res_boot_changed := True\<rparr>)
              else Inr (warn r1 BootSourceChanged))
           else Inr r1))"

definition finish_arm :: "stage_result \<Rightarrow> arm_result" where
  "finish_arm s =
     (let r = (case s of Inl (r, e) \<Rightarrow> r\<lparr>res_error := Some e\<rparr> | Inr r \<Rightarrow> r) in
      r\<lparr>res_ok := (res_error r = None \<and> \<not> res_boot_changed r \<and> res_benches r \<noteq> []
                  \<and> (\<forall>b\<in>set (res_benches r). rec_ok b))\<rparr>)"

definition arm_environment ::
  "(string \<times> string) list \<Rightarrow> arm \<Rightarrow> string \<Rightarrow> (string \<times> string) list" where
  "arm_environment environ a api_key =
     (let merged = merge_env environ (arm_env a) in
      if api_key \<noteq> [] then dict_set (dict_set merged ''VLLM_API_KEY'' api_key) ''API_KEY'' api_key
      else merged)"

definition fresh_result :: "nat \<Rightarrow> arm \<Rightarrow> (string \<times> string) list \<Rightarrow> arm_result" where
  "fresh_result index a merged =
     \<lparr>res_name = arm_name a, res_baseline = (index = 0), res_env = redact_env (arm_env a),
      res_effective_env = filter_effective_env merged, res_restart = NotAttempted,
      res_health = None, res_boot = None, res_boot_end = None, res_reset = None,
      res_warmup = None, res_benches = [], res_warnings = [], res_error = None,
      res_boot_changed = False, res_ok = False\<rparr>"

text \<open>\<open>run_arm\<close>: \<open>None\<close> would mean that it does not return.\<close>

definition run_arm ::
  "world \<Rightarrow> host \<Rightarrow> nat \<Rightarrow> arm \<Rightarrow> ab_args \<Rightarrow> string list \<Rightarrow> string \<Rightarrow> string
   \<Rightarrow> (string \<times> string) list \<Rightarrow> string \<Rightarrow> arm_result option" where
  "run_arm w h index a args benches tests out_dir environ api_key =
     (let merged = arm_environment environ a api_key;
          secrets = secret_values merged api_key;
          r = fresh_result index a merged in
      if \<not> dir_ok w then Some (r\<lparr>res_error := Some NoArtifactDir\<rparr>)
      else
        (case restart_stage w args a secrets r of
           Inl e \<Rightarrow> Some (finish_arm (Inl e))
         | Inr r \<Rightarrow>
             (case wait_for_health (health_timeout args) (health_interval args) (health_polls w) of
                None \<Rightarrow> None
              | Some health \<Rightarrow>
                  Some (finish_arm
                    (stage_then (health_stage health r) (\<lambda>r.
                     stage_then (boot_stage w r) (\<lambda>r.
                     stage_then (reset_stage w merged r) (\<lambda>r.
                     stage_then (warmup_stage w r) (\<lambda>r.
                     stage_then (bench_stage w h args a secrets tests out_dir benches r)
                       (end_stage w))))))))))"

section \<open>Waiting for health\<close>

definition attempts_bound :: "real \<Rightarrow> real \<Rightarrow> real \<Rightarrow> nat" where
  "attempts_bound limit pause t = nat \<lceil>(limit - t) / pause\<rceil> + 1"

text \<open>A failed poll that does not end the wait brings the bound down by one.\<close>

lemma nat_step: "1 \<le> a \<Longrightarrow> b \<le> a - 1 \<Longrightarrow> Suc (nat b + 1) \<le> nat a + 1" for a b :: int
  by linarith

lemma attempts_bound_step:
  assumes "0 < pause" and "t \<le> t1" and "t1 < limit" and "t1 + min pause (limit - t1) \<le> t2"
  shows "Suc (attempts_bound limit pause t2) \<le> attempts_bound limit pause t"
proof -
  have "0 < (limit - t) / pause" using assms by simp
  then have pos: "1 \<le> \<lceil>(limit - t) / pause\<rceil>" by simp
  show ?thesis
  proof (cases "pause \<le> limit - t1")
    case True
    with assms have "(limit - t2) / pause \<le> (limit - t - pause) / pause"
      by (intro divide_right_mono) auto
    then have "(limit - t2) / pause \<le> (limit - t) / pause - 1"
      using assms(1) by (simp add: diff_divide_distrib)
    then have "\<lceil>(limit - t2) / pause\<rceil> \<le> \<lceil>(limit - t) / pause\<rceil> - 1"
      by (metis ceiling_diff_one ceiling_mono)
    with pos show ?thesis unfolding attempts_bound_def by (rule nat_step)
  next
    case False
    with assms have "limit \<le> t2" by simp
    with assms(1) have "(limit - t2) / pause \<le> 0" by (simp add: divide_nonpos_pos)
    then have "\<lceil>(limit - t2) / pause\<rceil> \<le> 0" by simp
    then have "\<lceil>(limit - t2) / pause\<rceil> \<le> \<lceil>(limit - t) / pause\<rceil> - 1" using pos by linarith
    with pos show ?thesis unfolding attempts_bound_def by (rule nat_step)
  qed
qed

lemma health_loop_returns:
  assumes "0 < pause"
  shows "\<exists>r. health_loop limit pause polls n t = Some r
     \<and> n < h_attempts r \<and> h_attempts r \<le> n + attempts_bound limit pause t
     \<and> (h_ok r \<longleftrightarrow> code (http_request (fst (polls (h_attempts r - 1)))) = 200)
     \<and> (\<forall>i. n \<le> i \<and> Suc i < h_attempts r \<longrightarrow> code (http_request (fst (polls i))) \<noteq> 200)"
proof (induction "attempts_bound limit pause t" arbitrary: n t rule: less_induct)
  case less
  define c where "c = code (http_request (fst (polls n)))"
  define t1 where "t1 = t + max 0 (fst (snd (polls n)))"
  define t2 where "t2 = t1 + min pause (limit - t1) + max 0 (snd (snd (polls n)))"
  have unfold: "health_loop limit pause polls n t =
     (if c = 200 then
        Some \<lparr>h_ok = True, h_code = 200, h_attempts = Suc n, h_seconds = py_round 3 t1, h_error = []\<rparr>
      else if limit - t1 \<le> 0 then
        Some \<lparr>h_ok = False, h_code = c, h_attempts = Suc n, h_seconds = py_round 3 t1,
          h_error = (if http_error (http_request (fst (polls n))) \<noteq> []
                     then http_error (http_request (fst (polls n)))
                     else ''last HTTP status '' @ show_int c)\<rparr>
      else health_loop limit pause polls (Suc n) t2)"
    by (subst health_loop.simps) (simp add: c_def t1_def t2_def Let_def)
  show ?case
  proof (cases "c = 200 \<or> limit - t1 \<le> 0")
    case True
    then show ?thesis
      unfolding unfold by (auto simp: attempts_bound_def c_def less_Suc_eq)
  next
    case False
    have step: "Suc (attempts_bound limit pause t2) \<le> attempts_bound limit pause t"
      by (rule attempts_bound_step [OF assms, of t t1]) (use False in \<open>auto simp: t1_def t2_def\<close>)
    then obtain r where r: "health_loop limit pause polls (Suc n) t2 = Some r" "Suc n < h_attempts r"
      "h_attempts r \<le> Suc n + attempts_bound limit pause t2"
      "h_ok r \<longleftrightarrow> code (http_request (fst (polls (h_attempts r - 1)))) = 200"
      "\<forall>i. Suc n \<le> i \<and> Suc i < h_attempts r \<longrightarrow> code (http_request (fst (polls i))) \<noteq> 200"
      using less.hyps [of t2 "Suc n"] by auto
    have "\<forall>i. n \<le> i \<and> Suc i < h_attempts r \<longrightarrow> code (http_request (fst (polls i))) \<noteq> 200"
    proof (intro allI impI)
      fix i assume i: "n \<le> i \<and> Suc i < h_attempts r"
      show "code (http_request (fst (polls i))) \<noteq> 200"
        using r(5) False i by (cases "i = n") (auto simp: c_def)
    qed
    with r step False show ?thesis unfolding unfold by (intro exI [of _ r]) auto
  qed
qed

text \<open>Waiting for the server always ends.  With a positive timeout and a positive interval
  it stops after at most one attempt more than the number of intervals in the timeout, however
  long the requests and the sleeps take and whatever the server answers.  It reports success
  exactly when its last attempt was answered with 200, and it never continues after a 200.\<close>

theorem wait_for_health_ends:
  assumes "0 < limit" and "0 < pause"
  shows "\<exists>r. wait_for_health limit pause polls = Some (Inr r)
     \<and> 1 \<le> h_attempts r \<and> h_attempts r \<le> nat \<lceil>limit / pause\<rceil> + 1
     \<and> (h_ok r \<longleftrightarrow> code (http_request (fst (polls (h_attempts r - 1)))) = 200)
     \<and> (\<forall>i. Suc i < h_attempts r \<longrightarrow> code (http_request (fst (polls i))) \<noteq> 200)"
  using health_loop_returns [OF assms(2), of limit polls 0 0] assms
  by (auto simp: wait_for_health_def attempts_bound_def)

theorem wait_for_health_ends_witness:
  "\<exists>r. wait_for_health 30 5 (\<lambda>_. (NoConnection ''refused'', 1 / 2, 0)) = Some (Inr r)
     \<and> \<not> h_ok r \<and> h_attempts r \<le> 7"
proof -
  obtain r where r: "wait_for_health 30 5 (\<lambda>_. (NoConnection ''refused'', 1 / 2, 0)) = Some (Inr r)"
    "h_attempts r \<le> nat \<lceil>30 / 5 :: real\<rceil> + 1"
    "h_ok r \<longleftrightarrow> code (http_request (NoConnection ''refused'')) = 200"
    using wait_for_health_ends [of 30 5 "\<lambda>_. (NoConnection ''refused'', 1 / 2, 0)"] by auto
  moreover have "nat \<lceil>30 / 5 :: real\<rceil> = 6" by simp
  ultimately show ?thesis by (intro exI [of _ r]) (simp add: http_request_def)
qed

section \<open>What the stages leave\<close>

lemma warn_eq: "warn r x = r\<lparr>res_warnings := res_warnings r @ [x]\<rparr>"
  by (simp add: warn_def)

lemma restart_stageD:
  "restart_stage w args a secrets r = Inr r' \<Longrightarrow>
     \<exists>x ws. r' = r\<lparr>res_restart := x, res_warnings := ws\<rparr>
       \<and> (if no_restart args then x = res_restart r else \<exists>l. x = Restarted 0 l)"
  by (cases r) (auto simp: restart_stage_def warn_def Let_def split: if_splits option.splits)

lemma health_stageD:
  "health_stage h r = Inr r' \<Longrightarrow> \<exists>x. h = Inr x \<and> r' = r\<lparr>res_health := Some x\<rparr> \<and> h_ok x"
  by (auto simp: health_stage_def Let_def split: sum.splits if_splits)

lemma boot_stageD:
  "boot_stage w r = Inr r' \<Longrightarrow>
     \<exists>ws. r' = r\<lparr>res_boot := Some (probe_boot_id (metrics_start w) (host_id_start w)), res_warnings := ws\<rparr>"
  by (cases r) (auto simp: boot_stage_def warn_def Let_def split: if_splits)

lemma reset_stageD:
  "reset_stage w merged r = Inr r' \<Longrightarrow>
     \<exists>x ws. r' = r\<lparr>res_reset := Some x, res_warnings := ws\<rparr>
       \<and> x \<in> (if map_of merged ''GLM53_EXPOSE_CACHE_RESET'' = Some ''1''
              then {ResetOk, ResetAbsent} else {ResetSkipped})"
  by (cases r) (auto simp: reset_stage_def warn_def Let_def split: if_splits reset_status.splits)

lemma warmup_stageD:
  "warmup_stage w r = Inr r' \<Longrightarrow> \<exists>x. r' = r\<lparr>res_warmup := Some x\<rparr> \<and> w_ok x"
  by (auto simp: warmup_stage_def Let_def split: if_splits)

lemma run_bench_facts:
  "rec_name (run_bench w h secrets spec ctx) = spec_name spec"
  "rec_ok (run_bench w h secrets spec ctx) \<longleftrightarrow> rec_error (run_bench w h secrets spec ctx) = None"
  "rec_ok (run_bench w h secrets spec ctx) \<Longrightarrow>
     \<exists>d m. snd (snd (bench_artifact w h secrets spec ctx)) = Inr d \<and> spec_extract spec d = Inr m
       \<and> rec_metrics (run_bench w h secrets spec ctx) = Some m"
  by (auto simp: run_bench_def Let_def split: prod.splits sum.splits)

text \<open>A record that says \<open>ok\<close> carries metrics with at least one sample.\<close>

definition sound_record :: "bench_record \<Rightarrow> bool" where
  "sound_record b \<longleftrightarrow> (rec_ok b \<longleftrightarrow> rec_error b = None)
     \<and> (rec_ok b \<longrightarrow> (\<exists>m. rec_metrics b = Some m \<and> has_sample m))"

lemma find_bench_name: "find_bench n = Some spec \<Longrightarrow> spec_name spec = n"
  unfolding find_bench_def by (drule map_of_SomeD) auto

lemma bench_stageD:
  assumes "bench_stage w h args a secrets tests out_dir benches r = Inr r'"
  shows "\<exists>recs. r' = r\<lparr>res_benches := recs\<rparr> \<and> map rec_name recs = benches \<and> (\<forall>b\<in>set recs. sound_record b)"
proof -
  define f where "f n = (case find_bench n of
                None \<Rightarrow> Inl ()
              | Some spec \<Rightarrow>
                  Inr (run_bench w h secrets spec
                        (bench_context_of args tests (out_dir @ ''/'' @ artifact_name a n))))" for n
  have sound: "rec_name b = n \<and> sound_record b" if "f n = Inr b" for n b
  proof -
    from that obtain spec ctx where spec: "find_bench n = Some spec"
      and b: "b = run_bench w h secrets spec ctx"
      by (auto simp: f_def split: option.splits)
    then show ?thesis
      using run_bench_facts(3) [of w h secrets spec ctx]
      by (auto simp: sound_record_def run_bench_facts(1,2) find_bench_name
          dest!: registered_sample [OF spec])
  qed
  from assms obtain recs where recs: "map_res f benches = Inr recs" and r': "r' = r\<lparr>res_benches := recs\<rparr>"
    unfolding bench_stage_def f_def by (auto split: sum.splits)
  have "map rec_name recs = benches \<and> (\<forall>b\<in>set recs. sound_record b)"
    using recs
  proof (induction benches arbitrary: recs)
    case (Cons n ns)
    then show ?case using sound [of n] by (auto split: sum.splits)
  qed simp
  with r' show ?thesis by blast
qed

definition boots_differ :: "arm_result \<Rightarrow> bool" where
  "boots_differ r \<longleftrightarrow>
     (\<exists>s e i j. res_boot r = Some s \<and> res_boot_end r = Some e \<and> boot_id s = Some i
        \<and> boot_id e = Some j \<and> i \<noteq> j \<and> boot_source s = boot_source e)"

lemma end_stageD:
  assumes "end_stage w r = Inr r'" and "\<not> res_boot_changed r"
  shows "\<exists>ws e c. r' = r\<lparr>res_boot_end := Some e, res_warnings := ws, res_boot_changed := c\<rparr>"
    and "res_boot_changed r' \<longleftrightarrow> boots_differ r'"
  using assms
  by (cases r; auto simp: end_stage_def boots_differ_def warn_def Let_def
      split: option.splits if_splits)+

lemma end_stage_total: "\<exists>r'. end_stage w r = Inr r'"
  by (auto simp: end_stage_def Let_def split: option.splits)

section \<open>One arm\<close>

lemma stage_then_Inr: "stage_then s f = Inr y \<longleftrightarrow> (\<exists>x. s = Inr x \<and> f x = Inr y)"
  by (auto simp: stage_then_def split: sum.splits)

lemma stage_then_Inl: "stage_then s f = Inl e \<longleftrightarrow> s = Inl e \<or> (\<exists>x. s = Inr x \<and> f x = Inl e)"
  by (auto simp: stage_then_def split: sum.splits)

text \<open>No stage before the benchmarks records one.\<close>

definition bare :: "stage_result \<Rightarrow> bool" where
  "bare s = (case s of Inl (r, e) \<Rightarrow> res_benches r = [] | Inr r \<Rightarrow> res_benches r = [])"

lemma bare_simps [simp]:
  "bare (Inl (r, e)) \<longleftrightarrow> res_benches r = []" "bare (Inr r) \<longleftrightarrow> res_benches r = []"
  by (simp_all add: bare_def)

lemma bare_stages:
  assumes "res_benches r = []"
  shows "bare (restart_stage w args a secrets r)" "bare (health_stage h r)" "bare (boot_stage w r)"
    "bare (reset_stage w merged r)" "bare (warmup_stage w r)"
  using assms
  by (auto simp: restart_stage_def health_stage_def boot_stage_def reset_stage_def
      warmup_stage_def warn_def Let_def split: option.splits sum.splits reset_status.splits)

lemma bare_bench_failure:
  "res_benches r = [] \<Longrightarrow> bench_stage w h args a secrets tests out_dir benches r = Inl (r', e)
   \<Longrightarrow> res_benches r' = []"
  by (auto simp: bench_stage_def split: sum.splits)

definition protocol_passed :: "ab_args \<Rightarrow> (string \<times> string) list \<Rightarrow> arm_result \<Rightarrow> bool" where
  "protocol_passed args merged r \<longleftrightarrow>
     (if no_restart args then res_restart r = NotAttempted else \<exists>l. res_restart r = Restarted 0 l)
     \<and> (\<exists>h. res_health r = Some h \<and> h_ok h)
     \<and> (\<exists>x. res_reset r = Some x
          \<and> x \<in> (if map_of merged ''GLM53_EXPOSE_CACHE_RESET'' = Some ''1''
                 then {ResetOk, ResetAbsent} else {ResetSkipped}))
     \<and> (\<exists>x. res_warmup r = Some x \<and> w_ok x)"

definition complete_arm ::
  "ab_args \<Rightarrow> (string \<times> string) list \<Rightarrow> string list \<Rightarrow> arm_result \<Rightarrow> bool" where
  "complete_arm args merged benches r \<longleftrightarrow>
     res_error r = None \<and> protocol_passed args merged r \<and> map rec_name (res_benches r) = benches
     \<and> (\<forall>b\<in>set (res_benches r). sound_record b)
     \<and> (res_ok r \<longleftrightarrow> \<not> boots_differ r \<and> benches \<noteq> [] \<and> (\<forall>b\<in>set (res_benches r). rec_ok b))"

definition failed_arm :: "arm_result \<Rightarrow> bool" where
  "failed_arm r \<longleftrightarrow> res_error r \<noteq> None \<and> \<not> res_ok r \<and> res_benches r = []"

definition staged_arm where
  "staged_arm w h args a secrets merged tests out_dir benches health r =
     stage_then (health_stage health r) (\<lambda>r.
     stage_then (boot_stage w r) (\<lambda>r.
     stage_then (reset_stage w merged r) (\<lambda>r.
     stage_then (warmup_stage w r) (\<lambda>r.
     stage_then (bench_stage w h args a secrets tests out_dir benches r)
       (end_stage w)))))"

lemma staged_arm_failure:
  assumes "staged_arm w h args a secrets merged tests out_dir benches health r = Inl (r', e)"
    and "res_benches r = []"
  shows "failed_arm (finish_arm (Inl (r', e)))"
proof -
  have "res_benches r' = []"
    using assms end_stage_total [of w]
    by (auto simp: staged_arm_def stage_then_Inl dest: bare_bench_failure)
       (metis bare_simps bare_stages bare_bench_failure sum.distinct(1))+
  then show ?thesis by (simp add: failed_arm_def finish_arm_def)
qed

lemma staged_arm_success:
  assumes "staged_arm w h args a secrets merged tests out_dir benches health r = Inr r'"
    and "if no_restart args then res_restart r = NotAttempted else \<exists>l. res_restart r = Restarted 0 l"
    and "\<not> res_boot_changed r" and "res_error r = None"
  shows "complete_arm args merged benches (finish_arm (Inr r'))"
proof -
  from assms(1) obtain r1 r2 r3 r4 r5 where st:
    "health_stage health r = Inr r1" "boot_stage w r1 = Inr r2" "reset_stage w merged r2 = Inr r3"
    "warmup_stage w r3 = Inr r4" "bench_stage w h args a secrets tests out_dir benches r4 = Inr r5"
    "end_stage w r5 = Inr r'"
    by (auto simp: staged_arm_def stage_then_Inr)
  from health_stageD [OF st(1)] obtain x1 where r1: "r1 = r\<lparr>res_health := Some x1\<rparr>" "h_ok x1" by blast
  from boot_stageD [OF st(2)] obtain b w2 where r2: "r2 = r1\<lparr>res_boot := Some b, res_warnings := w2\<rparr>" by blast
  from reset_stageD [OF st(3)] obtain x3 w3 where r3: "r3 = r2\<lparr>res_reset := Some x3, res_warnings := w3\<rparr>"
    "x3 \<in> (if map_of merged ''GLM53_EXPOSE_CACHE_RESET'' = Some ''1''
           then {ResetOk, ResetAbsent} else {ResetSkipped})" by blast
  from warmup_stageD [OF st(4)] obtain x4 where r4: "r4 = r3\<lparr>res_warmup := Some x4\<rparr>" "w_ok x4" by blast
  from bench_stageD [OF st(5)] obtain recs where r5: "r5 = r4\<lparr>res_benches := recs\<rparr>"
    "map rec_name recs = benches" "\<forall>b\<in>set recs. sound_record b" by blast
  have "\<not> res_boot_changed r5" by (simp add: r5(1) r4(1) r3(1) r2 r1(1) assms(3))
  from end_stageD [OF st(6) this] obtain w6 e6 c6 where
    r6: "r' = r5\<lparr>res_boot_end := Some e6, res_warnings := w6, res_boot_changed := c6\<rparr>"
    and c6: "c6 \<longleftrightarrow> boots_differ r'" by auto
  define f where "f = finish_arm (Inr r')"
  have f: "res_error f = None" "res_benches f = recs" "protocol_passed args merged f"
    "boots_differ f = boots_differ r'"
    "res_ok f \<longleftrightarrow> \<not> c6 \<and> recs \<noteq> [] \<and> (\<forall>b\<in>set recs. rec_ok b)"
    using assms(2,4) r1(2) r3(2) r4(2)
    by (auto simp: f_def finish_arm_def protocol_passed_def boots_differ_def Let_def
        r6 r5(1) r4(1) r3(1) r2 r1(1))
  show ?thesis
    using f c6 r5(2,3) by (auto simp: complete_arm_def simp flip: f_def)
qed

lemma run_arm_unfold:
  assumes "merged = arm_environment environ a api_key" and "secrets = secret_values merged api_key"
    and "run_arm w h index a args benches tests out_dir environ api_key = Some r"
  shows "failed_arm r \<or> complete_arm args merged benches r"
proof (cases "dir_ok w")
  case False
  with assms(3) show ?thesis
    by (auto simp: run_arm_def Let_def failed_arm_def fresh_result_def)
next
  case True
  let ?r0 = "fresh_result index a merged"
  have r0: "res_benches ?r0 = []" "res_restart ?r0 = NotAttempted" "\<not> res_boot_changed ?r0" "res_error ?r0 = None"
    by (simp_all add: fresh_result_def)
  note run = assms(3) [unfolded run_arm_def Let_def, folded assms(1), folded assms(2)]
  show ?thesis
  proof (cases "restart_stage w args a secrets ?r0")
    case (Inl x)
    obtain r1 e where x: "x = (r1, e)" by (cases x)
    with bare_stages(1) [OF r0(1), of w args a secrets] Inl have "res_benches r1 = []" by simp
    with run True Inl x show ?thesis by (auto simp: failed_arm_def finish_arm_def Let_def)
  next
    case (Inr r1)
    from bare_stages(1) [OF r0(1), of w args a secrets] Inr have b1: "res_benches r1 = []" by simp
    from restart_stageD [OF Inr] r0 have
      r1: "if no_restart args then res_restart r1 = NotAttempted else \<exists>l. res_restart r1 = Restarted 0 l"
      "\<not> res_boot_changed r1" "res_error r1 = None" by (auto split: if_splits)
    from run True Inr obtain health where r:
      "r = finish_arm (staged_arm w h args a secrets merged tests out_dir benches health r1)"
      by (auto simp: staged_arm_def split: option.splits)
    show ?thesis
    proof (cases "staged_arm w h args a secrets merged tests out_dir benches health r1")
      case (Inl y)
      then show ?thesis using staged_arm_failure [OF _ b1] r by (cases y) auto
    next
      case (Inr r2)
      from staged_arm_success [OF this r1] r Inr show ?thesis by simp
    qed
  qed
qed

lemma run_arm_returns:
  assumes "0 < health_timeout args" and "0 < health_interval args"
  shows "\<exists>r. run_arm w h index a args benches tests out_dir environ api_key = Some r"
  using health_loop_returns [OF assms(2), of "health_timeout args" "health_polls w" 0 0] assms
  by (auto simp: run_arm_def wait_for_health_def Let_def split: sum.splits)

text \<open>No stage renames the arm.\<close>

definition staged_name :: "stage_result \<Rightarrow> string" where
  "staged_name s = (case s of Inl (r, e) \<Rightarrow> res_name r | Inr r \<Rightarrow> res_name r)"

lemma staged_name_then:
  "staged_name s = n \<Longrightarrow> (\<And>x. res_name x = n \<Longrightarrow> staged_name (f x) = n)
   \<Longrightarrow> staged_name (stage_then s f) = n"
  by (cases s) (simp_all add: staged_name_def stage_then_def)

lemma staged_name_stages [simp]:
  "staged_name (restart_stage w args a secrets r) = res_name r"
  "staged_name (health_stage h r) = res_name r"
  "staged_name (boot_stage w r) = res_name r"
  "staged_name (reset_stage w merged r) = res_name r"
  "staged_name (warmup_stage w r) = res_name r"
  "staged_name (bench_stage w host args a secrets tests out_dir benches r) = res_name r"
  "staged_name (end_stage w r) = res_name r"
  by (auto simp: staged_name_def restart_stage_def health_stage_def boot_stage_def reset_stage_def
      warmup_stage_def bench_stage_def end_stage_def warn_def Let_def
      split: option.splits sum.splits reset_status.splits)

lemma staged_name_arm: "staged_name (staged_arm w h args a secrets merged tests out_dir benches health r) = res_name r"
  unfolding staged_arm_def by (intro staged_name_then) simp_all

lemma name_finish: "res_name (finish_arm s) = staged_name s"
  by (auto simp: finish_arm_def staged_name_def Let_def split: sum.splits)

lemma run_arm_name:
  assumes "run_arm w h index a args benches tests out_dir environ api_key = Some r"
  shows "res_name r = arm_name a"
proof -
  let ?m = "arm_environment environ a api_key"
  let ?s = "secret_values ?m api_key"
  have n: "res_name (fresh_result index a ?m) = arm_name a" by (simp add: fresh_result_def)
  show ?thesis
  proof (cases "restart_stage w args a ?s (fresh_result index a ?m)")
    case (Inl e)
    with staged_name_stages(1) [of w args a ?s "fresh_result index a ?m"] assms n show ?thesis
      by (auto simp: run_arm_def Let_def name_finish split: if_splits)
  next
    case (Inr r1)
    with staged_name_stages(1) [of w args a ?s "fresh_result index a ?m"] n have "res_name r1 = arm_name a"
      by (simp add: staged_name_def)
    with assms n Inr show ?thesis
      by (auto simp: run_arm_def Let_def name_finish staged_name_arm simp flip: staged_arm_def
          split: if_splits option.splits)
  qed
qed

end
