(* ===== verification/Bench_Report.thy ===== *)
theory Bench_Report
  imports Bench_Run "HOL-Library.Char_ord" "HOL-Library.List_Lexorder"
begin

text \<open>
  The A/B harness, last part: the statistics of a sample, the comparison of the arms, the
  warnings and \<open>main\<close>.  Printing, the Markdown table and the fields of the report that only
  describe the run (stamps, git and host) are not modelled, except that a dirty tree adds a
  warning.
\<close>

section \<open>Statistics\<close>

definition percentile :: "real list \<Rightarrow> real \<Rightarrow> py_exc + real option" where
  "percentile vs q =
     (if vs = [] then Inr None
      else if \<not> (0 < q \<and> q \<le> 100) then Inl ValueError
      else
        (let rank = max 1 \<lceil>q / 100 * real (length vs)\<rceil> in
         Inr (Some (sort vs ! nat (min rank (int (length vs)) - 1)))))"

record stats =
  s_n :: nat
  s_median :: "real option"
  s_p99 :: "real option"
  s_min :: "real option"
  s_max :: "real option"
  s_mean :: "real option"

definition numeric_stats :: "real list \<Rightarrow> stats" where
  "numeric_stats vs =
     (if vs = [] then \<lparr>s_n = 0, s_median = None, s_p99 = None, s_min = None, s_max = None, s_mean = None\<rparr>
      else \<lparr>s_n = length vs, s_median = Some (median vs),
             s_p99 = (case percentile vs 99 of Inr p \<Rightarrow> p | Inl _ \<Rightarrow> None),
             s_min = Some (Min (set vs)), s_max = Some (Max (set vs)),
             s_mean = Some (mean vs)\<rparr>)"

definition delta_pct :: "real option \<Rightarrow> real option \<Rightarrow> direction \<Rightarrow> real option" where
  "delta_pct baseline candidate d =
     (case (baseline, candidate) of
        (Some b, Some c) \<Rightarrow>
          (if b = 0 then None
           else if d = Lower then Some ((b - c) / \<bar>b\<bar> * 100)
           else Some ((c - b) / \<bar>b\<bar> * 100))
      | _ \<Rightarrow> None)"

section \<open>Comparison\<close>

text \<open>The samples that count: of successful benchmarks of successful arms, and not empty.
  The checks of the source on the shape of the dictionaries hold for the records of
  \<open>run_arm\<close>.\<close>

record measurement =
  m_key :: string
  m_arm :: string
  m_direction :: direction
  m_values :: "real list"

definition bench_measurements :: "string \<Rightarrow> bench_record \<Rightarrow> measurement list" where
  "bench_measurements who b =
     (if \<not> rec_ok b then []
      else
        (case (find_bench (rec_name b), rec_metrics b) of
           (Some spec, Some m) \<Rightarrow>
             map (\<lambda>(n, vs). \<lparr>m_key = rec_name b @ ''.'' @ n, m_arm = who,
                    m_direction = (case map_of (spec_direction spec) n of Some d \<Rightarrow> d | None \<Rightarrow> Neutral),
                    m_values = vs\<rparr>)
               (filter (\<lambda>(n, vs). vs \<noteq> []) (bench_metrics.samples m))
         | _ \<Rightarrow> []))"

definition arm_measurements :: "arm_result \<Rightarrow> measurement list" where
  "arm_measurements a =
     (if \<not> res_ok a then [] else concat (map (bench_measurements (res_name a)) (res_benches a)))"

type_synonym per_metric = "(string \<times> (string \<times> stats) list) list"

definition lookup :: "('k \<times> 'v list) list \<Rightarrow> 'k \<Rightarrow> 'v list" where
  "lookup d k = (case map_of d k of Some v \<Rightarrow> v | None \<Rightarrow> [])"

text \<open>\<open>directions.setdefault(...)\<close> and \<open>per_metric.setdefault(key, {})[arm] = ...\<close>.\<close>

definition add_measurement ::
  "per_metric \<times> (string \<times> direction) list \<Rightarrow> measurement \<Rightarrow> per_metric \<times> (string \<times> direction) list" where
  "add_measurement acc m =
     (case acc of (per, dirs) \<Rightarrow>
        (dict_set per (m_key m) (dict_set (lookup per (m_key m)) (m_arm m) (numeric_stats (m_values m))),
         (case map_of dirs (m_key m) of
            None \<Rightarrow> dict_set dirs (m_key m) (m_direction m) | Some _ \<Rightarrow> dirs)))"

record row =
  row_metric :: string
  row_direction :: direction
  row_baseline :: "stats option"
  row_arms :: "(string \<times> stats) list"
  row_deltas :: "(string \<times> real option) list"

record comparison =
  cmp_baseline :: "string option"
  cmp_baseline_ok :: bool
  cmp_metrics :: per_metric
  cmp_rows :: "row list"

definition add_delta ::
  "string \<Rightarrow> bool \<Rightarrow> stats option \<Rightarrow> (string \<times> stats) list \<Rightarrow> direction
   \<Rightarrow> (string \<times> real option) list \<Rightarrow> arm_result \<Rightarrow> (string \<times> real option) list" where
  "add_delta baseline ok base arm_stats d deltas a =
     (case (base, map_of arm_stats (res_name a)) of
        (Some b, Some c) \<Rightarrow>
          (if ok \<and> res_name a \<noteq> baseline
           then dict_set deltas (res_name a) (delta_pct (s_median b) (s_median c) d)
           else deltas)
      | _ \<Rightarrow> deltas)"

definition build_comparison :: "arm_result list \<Rightarrow> comparison" where
  "build_comparison arms =
     (let baseline = (case arms of [] \<Rightarrow> None | a # _ \<Rightarrow> Some (res_name a));
          ok = (case arms of [] \<Rightarrow> False | a # _ \<Rightarrow> res_ok a);
          acc = foldl add_measurement ([], []) (concat (map arm_measurements arms));
          per = fst acc;
          make_row = (\<lambda>key.
            let arm_stats = lookup per key;
                d = (case map_of (snd acc) key of Some d \<Rightarrow> d | None \<Rightarrow> Neutral);
                base = (case baseline of None \<Rightarrow> None | Some b \<Rightarrow> map_of arm_stats b) in
            \<lparr>row_metric = key, row_direction = d, row_baseline = base, row_arms = arm_stats,
             row_deltas = (case baseline of None \<Rightarrow> []
               | Some b \<Rightarrow> foldl (add_delta b ok base arm_stats d) [] arms)\<rparr>) in
      \<lparr>cmp_baseline = baseline, cmp_baseline_ok = ok, cmp_metrics = per,
       cmp_rows = map make_row (sorted_set (map fst per))\<rparr>)"

section \<open>Warnings\<close>

datatype warning =
    NoBootId "string list" | HostBootOnly "string list" | SameBoot string
  | NoRestartMode | BootChangedOutside | DirtyTree | DecodeWithoutAuth | DecodeModelFixed
  | FailedBenches string "string list" | FailedArm string | ArmSays string arm_warning
  | BaselineFailed

definition arm_boot :: "arm_result \<Rightarrow> string \<times> string option \<times> boot_source option" where
  "arm_boot a = (res_name a, Option.bind (res_boot a) boot_id, map_option boot_source (res_boot a))"

definition boot_warnings :: "arm_result list \<Rightarrow> bool \<Rightarrow> warning list" where
  "boot_warnings arms restart_required =
     (let boots = map arm_boot arms;
          known = List.map_filter (\<lambda>(n, i, s). i) boots in
      if restart_required then
        (let missing = map fst (filter (\<lambda>(n, i, s). i = None) boots);
             host_only = map fst (filter (\<lambda>(n, i, s). i \<noteq> None \<and> s = Some HostBoot) boots) in
         (if missing \<noteq> [] then [NoBootId missing] else [])
         @ (if host_only \<noteq> [] then [HostBootOnly host_only] else [])
         @ (if 2 \<le> length known \<and> length (remdups known) = 1 then [SameBoot (hd known)] else []))
      else NoRestartMode # (if 1 < length (remdups known) then [BootChangedOutside] else []))"

definition default_model :: string where
  "default_model = ''GLM-5.3-Flash-EXL3''"

definition arm_warnings :: "arm_result \<Rightarrow> warning list" where
  "arm_warnings a =
     (if res_ok a then []
      else
        (let failed = map rec_name (filter (\<lambda>b. \<not> rec_ok b) (res_benches a)) in
         if failed \<noteq> [] then [FailedBenches (res_name a) failed] else [FailedArm (res_name a)]))
     @ map (ArmSays (res_name a)) (res_warnings a)"

fun dedupe_from :: "'a list \<Rightarrow> 'a list \<Rightarrow> 'a list" where
  "dedupe_from seen [] = []"
| "dedupe_from seen (x # xs) =
     (if x \<in> set seen then dedupe_from seen xs else x # dedupe_from (x # seen) xs)"

definition report_warnings ::
  "ab_args \<Rightarrow> string \<Rightarrow> string list \<Rightarrow> bool \<Rightarrow> arm_result list \<Rightarrow> warning list" where
  "report_warnings args api_key benches dirty arms =
     (let decode = (\<exists>n\<in>set benches. starts_with ''decode_'' n) in
      dedupe_from []
        (boot_warnings arms (\<not> no_restart args)
         @ (if dirty then [DirtyTree] else [])
         @ (if api_key \<noteq> [] \<and> decode then [DecodeWithoutAuth] else [])
         @ (if arg_model args \<noteq> default_model \<and> decode then [DecodeModelFixed] else [])
         @ concat (map arm_warnings arms)
         @ (if cmp_baseline_ok (build_comparison arms) then [] else [BaselineFailed])))"

section \<open>Main\<close>

definition validate_inputs :: "ab_args \<Rightarrow> string list \<Rightarrow> (string \<Rightarrow> bool) \<Rightarrow> bool" where
  "validate_inputs args benches has_file \<longleftrightarrow>
     1 \<le> runs args \<and> 1 \<le> sessions args \<and> 128 \<le> arg_ctx_tokens args
     \<and> 0 < timeout args \<and> 0 < health_timeout args \<and> 0 < restart_timeout args
     \<and> 0 < health_interval args \<and> 0 \<le> settle args
     \<and> \<not> ((\<exists>n\<in>set benches. starts_with ''decode_'' n)
          \<and> api_root (arg_base_url args) \<noteq> api_root default_base_url)
     \<and> (\<forall>n\<in>set benches. case find_bench n of
          None \<Rightarrow> False | Some b \<Rightarrow> \<forall>f\<in>set (spec_requires b). has_file f)"

definition dry_run :: "host \<Rightarrow> ab_args \<Rightarrow> string \<Rightarrow> string \<Rightarrow> arm list \<Rightarrow> string list \<Rightarrow> bench_failure + string list list"
where
  "dry_run h args tests out_dir arms benches =
     map_res (\<lambda>(a, n). case find_bench n of
         None \<Rightarrow> Inl (Raised KeyError)
       | Some spec \<Rightarrow>
           (case spec_body spec of
              Direct _ \<Rightarrow> Inr []
            | Command build \<Rightarrow>
                build h (bench_context_of args tests (out_dir @ ''/'' @ artifact_name a n))))
       (List.product arms benches)"

record command_line =
  list_benches :: bool
  arm_specs :: "string list"
  bench_names :: "string list"
  dry :: bool
  arg_api_key :: "string option"
  options :: ab_args

record report =
  rep_arms :: "arm_result list"
  rep_warnings :: "warning list"
  rep_comparison :: comparison

text \<open>The API key: the option, or the first non-empty of two variables.\<close>

definition effective_api_key :: "string option \<Rightarrow> (string \<times> string) list \<Rightarrow> string" where
  "effective_api_key k environ =
     (case k of
        Some s \<Rightarrow> s
      | None \<Rightarrow>
          (case nonempty (map_of environ ''VLLM_API_KEY'') of
             Some s \<Rightarrow> s
           | None \<Rightarrow> (case map_of environ ''API_KEY'' of Some s \<Rightarrow> s | None \<Rightarrow> [])))"

fun run_arms ::
  "(nat \<Rightarrow> world) \<Rightarrow> host \<Rightarrow> nat \<Rightarrow> arm list \<Rightarrow> ab_args \<Rightarrow> string list \<Rightarrow> string \<Rightarrow> string
   \<Rightarrow> (string \<times> string) list \<Rightarrow> string \<Rightarrow> arm_result list option" where
  "run_arms worlds h i [] args benches tests out_dir environ api_key = Some []"
| "run_arms worlds h i (a # as) args benches tests out_dir environ api_key =
     (case run_arm (worlds i) h i a args benches tests out_dir environ api_key of
        None \<Rightarrow> None
      | Some r \<Rightarrow>
          (case run_arms worlds h (Suc i) as args benches tests out_dir environ api_key of
             None \<Rightarrow> None | Some rs \<Rightarrow> Some (r # rs)))"

text \<open>\<open>main\<close> returns an exit code and, when it got that far, the report.  The facts about the
  file system that it asks for itself are \<open>has_file\<close> (the clients under \<open>tests\<close>),
  \<open>start_present\<close> and \<open>can_write\<close>.\<close>

definition ab_main ::
  "(nat \<Rightarrow> world) \<Rightarrow> host \<Rightarrow> (string \<times> string) list \<Rightarrow> (string \<Rightarrow> bool) \<Rightarrow> bool \<Rightarrow> bool \<Rightarrow> bool
   \<Rightarrow> string \<Rightarrow> string \<Rightarrow> command_line \<Rightarrow> (int \<times> report option) option" where
  "ab_main worlds h environ has_file start_present dirty can_write tests out_dir cl =
     (let args = options cl; api_key = effective_api_key (arg_api_key cl) environ in
      if list_benches cl then Some (0, None)
      else
        (case (parse_arms (arm_specs cl), parse_bench_selection (bench_names cl)) of
           (Inr arms, Inr benches) \<Rightarrow>
             (if \<not> validate_inputs args benches has_file then Some (2, None)
              else if dry cl then
                (case dry_run h args tests out_dir arms benches of
                   Inl _ \<Rightarrow> Some (2, None) | Inr _ \<Rightarrow> Some (0, None))
              else if \<not> no_restart args \<and> \<not> start_present then Some (2, None)
              else
                (case run_arms worlds h 0 arms args benches tests out_dir environ api_key of
                   None \<Rightarrow> None
                 | Some rs \<Rightarrow>
                     (let cmp = build_comparison rs;
                          rep = \<lparr>rep_arms = rs, rep_warnings = report_warnings args api_key benches dirty rs,
                                 rep_comparison = cmp\<rparr> in
                      if \<not> can_write then Some (1, Some rep)
                      else if rs \<noteq> [] \<and> (\<forall>r\<in>set rs. res_ok r) \<and> cmp_baseline_ok cmp
                      then Some (0, Some rep) else Some (1, Some rep))))
         | _ \<Rightarrow> Some (2, None)))"

section \<open>Where a delta comes from\<close>

lemma lookup_dict_set [simp]: "lookup (dict_set d k v) key = (if key = k then v else lookup d key)"
  by (simp add: lookup_def)

lemma numeric_stats_median: "vs \<noteq> [] \<Longrightarrow> s_median (numeric_stats vs) = Some (median vs)"
  by (simp add: numeric_stats_def)

lemma add_measurement_lookup:
  "lookup (fst (add_measurement acc m)) key =
     (if key = m_key m then dict_set (lookup (fst acc) key) (m_arm m) (numeric_stats (m_values m))
      else lookup (fst acc) key)"
  by (cases acc) (simp add: add_measurement_def)

lemma measured:
  "map_of (lookup (fst (foldl add_measurement ([], []) ms)) key) who = Some st \<Longrightarrow>
     \<exists>m\<in>set ms. m_key m = key \<and> m_arm m = who \<and> st = numeric_stats (m_values m)"
proof (induction ms rule: rev_induct)
  case (snoc m ms)
  then show ?case
    by (auto simp: add_measurement_lookup split: if_splits)
qed (simp add: lookup_def)

lemma bench_measurementsD:
  "m \<in> set (bench_measurements who b) \<Longrightarrow> rec_ok b \<and> m_arm m = who \<and> m_values m \<noteq> []
     \<and> (\<exists>x n. rec_metrics b = Some x \<and> m_key m = rec_name b @ ''.'' @ n
          \<and> (n, m_values m) \<in> set (bench_metrics.samples x))"
  by (cases "find_bench (rec_name b)"; cases "rec_metrics b")
    (auto simp: bench_measurements_def split: if_splits)

lemma arm_measurementsD:
  assumes "m \<in> set (arm_measurements a)"
  shows "res_ok a" and "m_arm m = res_name a" and "m_values m \<noteq> []"
    and "\<exists>b\<in>set (res_benches a). rec_ok b \<and> (\<exists>x n. rec_metrics b = Some x
           \<and> m_key m = rec_name b @ ''.'' @ n \<and> (n, m_values m) \<in> set (bench_metrics.samples x))"
  using assms
  by (auto simp: arm_measurements_def split: if_splits dest!: bench_measurementsD)

lemma deltas_from:
  "(n, x) \<in> set (foldl (add_delta b ok base arm_stats d) acc arms) \<Longrightarrow> (n, x) \<in> set acc
     \<or> (ok \<and> n \<noteq> b \<and> (\<exists>a\<in>set arms. res_name a = n)
        \<and> (\<exists>s t. base = Some s \<and> map_of arm_stats n = Some t
             \<and> x = delta_pct (s_median s) (s_median t) d))"
proof (induction arms rule: rev_induct)
  case (snoc a arms)
  then show ?case
    by (auto simp: add_delta_def split: option.splits if_splits dest!: set_dict_set)
qed simp

lemma delta_pct_Some:
  assumes "delta_pct (Some b) (Some c) d = Some x"
  shows "b \<noteq> 0" and "x = (if d = Lower then b - c else c - b) / \<bar>b\<bar> * 100"
    and "0 < x \<longleftrightarrow> (if d = Lower then c < b else b < c)"
proof -
  show b: "b \<noteq> 0" and x: "x = (if d = Lower then b - c else c - b) / \<bar>b\<bar> * 100"
    using assms by (auto simp: delta_pct_def split: if_splits)
  show "0 < x \<longleftrightarrow> (if d = Lower then c < b else b < c)"
    unfolding x using b by (auto simp: zero_less_divide_iff)
qed


definition demo_arm :: "string \<Rightarrow> bool \<Rightarrow> real list \<Rightarrow> arm_result" where
  "demo_arm name ok ttft =
     \<lparr>res_name = name, res_baseline = False, res_env = [], res_effective_env = [],
      res_restart = NotAttempted, res_health = None, res_boot = None, res_boot_end = None,
      res_reset = None, res_warmup = None,
      res_benches = [\<lparr>rec_name = ''short_chat'', rec_artifact = [], rec_exit = None, rec_process = None,
        rec_metrics = Some \<lparr>bench_metrics.samples = [(''ttft_s'', ttft)], summary = [], metric_notes = []\<rparr>,
        rec_error = None, rec_ok = True\<rparr>],
      res_warnings = [], res_error = None, res_boot_changed = False, res_ok = ok\<rparr>"


section \<open>The exit code\<close>

text \<open>An arm that counts: it went through the whole protocol, ran every selected benchmark, each
  with a sample, and stayed on one boot.\<close>

definition qualified_arm ::
  "ab_args \<Rightarrow> (string \<times> string) list \<Rightarrow> string list \<Rightarrow> arm_result \<Rightarrow> bool" where
  "qualified_arm args merged benches r \<longleftrightarrow>
     res_error r = None \<and> protocol_passed args merged r \<and> map rec_name (res_benches r) = benches
     \<and> (\<forall>b\<in>set (res_benches r). rec_error b = None \<and> (\<exists>m. rec_metrics b = Some m \<and> has_sample m))
     \<and> \<not> boots_differ r"

lemma run_arm_ok_iff:
  assumes "run_arm w h index a args benches tests out_dir environ api_key = Some r"
    and "benches \<noteq> []"
  shows "res_ok r \<longleftrightarrow> qualified_arm args (arm_environment environ a api_key) benches r"
  using run_arm_unfold [OF refl refl assms(1)] assms(2)
  by (auto simp: complete_arm_def failed_arm_def qualified_arm_def sound_record_def)

lemma run_arms_returns:
  assumes "0 < health_timeout args" and "0 < health_interval args"
  shows "\<exists>rs. run_arms worlds h i xs args benches tests out_dir environ api_key = Some rs"
proof (induction xs arbitrary: i)
  case (Cons a xs)
  from run_arm_returns [OF assms] obtain r where
    "run_arm (worlds i) h i a args benches tests out_dir environ api_key = Some r" by blast
  with Cons [of "Suc i"] show ?case by auto
qed simp

lemma run_arms_results:
  "run_arms worlds h i xs args benches tests out_dir environ api_key = Some rs \<Longrightarrow> benches \<noteq> [] \<Longrightarrow>
     list_all2 (\<lambda>a r. res_name r = arm_name a
       \<and> (res_ok r \<longleftrightarrow> qualified_arm args (arm_environment environ a api_key) benches r)) xs rs"
proof (induction xs arbitrary: i rs)
  case (Cons a xs)
  then show ?case
    by (auto split: option.splits dest: run_arm_name run_arm_ok_iff)
qed simp

lemma parse_arms_nonempty: "parse_arms specs = Inr arms \<Longrightarrow> arms \<noteq> []"
  by (auto simp: parse_arms_def split: sum.splits if_splits dest: map_res_length)

lemma baseline_ok_first: "cmp_baseline_ok (build_comparison (r # rs)) = res_ok r"
  by (simp add: build_comparison_def Let_def)


definition demo_world :: world where
  "demo_world =
     \<lparr>dir_ok = False, start_script = True, restart_child = None,
      health_polls = (\<lambda>_. (NoConnection ''refused'', 1, 0)), metrics_start = NoConnection [],
      metrics_end = NoConnection [], host_id_start = None, host_id_end = None,
      reset_reply = NoConnection [], warmup_reply = NoConnection [], bench_child = (\<lambda>_. None),
      bench_file = (\<lambda>_. Missing), client = None, write_ok = True, json_loads = (\<lambda>_. None),
      now = [], header = (\<lambda>_ _. []), notice = []\<rparr>"

definition demo_line :: command_line where
  "demo_line =
     \<lparr>list_benches = False, arm_specs = [''a''], bench_names = [''short_chat''], dry = False,
      arg_api_key = None,
      options = \<lparr>no_restart = False, health_timeout = 30, health_interval = 5, timeout = 10,
        restart_timeout = 60, runs = 1, sessions = 1, arg_ctx_tokens = 128,
        arg_cache_mode = ''sessions'', settle = 0, arg_base_url = default_base_url,
        arg_model = default_model\<rparr>\<rparr>"


end
