(* ===== verification/Power_Energy.thy ===== *)
theory Power_Energy
  imports Bench_Env Py_Stats
begin

text \<open>
  The power sampler \<open>bench-power.py\<close>, first part: what it computes from the recorded samples.
  A reading is a number or missing; a field that a collector never reports is missing in
  every record.
\<close>

section \<open>Small helpers\<close>

definition sanitize_label :: "string \<Rightarrow> string" where
  "sanitize_label label =
     (let cleaned = take 64 (strip_by slug_edge (sub_runs label)) in
      if cleaned = [] then ''run'' else cleaned)"

definition pw_percentile :: "real list \<Rightarrow> real \<Rightarrow> real option" where
  "pw_percentile vs fraction =
     (if vs = [] then None
      else
        (let n = int (length vs) in
         Some (sort vs ! nat (min (n - 1) (max 0 (\<lceil>fraction * of_int n\<rceil> - 1))))))"

record series =
  ser_samples :: nat
  mean_w :: real
  median_w :: real
  min_w :: real
  max_w :: real
  p95_w :: real

text \<open>\<open>{"samples": 0}\<close> is \<open>None\<close>.\<close>

definition series_stats :: "real list \<Rightarrow> series option" where
  "series_stats vs =
     (if vs = [] then None
      else Some \<lparr>ser_samples = length vs, mean_w = py_round 3 (mean vs),
        median_w = py_round 3 (median vs), min_w = py_round 3 (Min (set vs)),
        max_w = py_round 3 (Max (set vs)),
        p95_w = py_round 3 (case pw_percentile vs (95 / 100) of Some p \<Rightarrow> p | None \<Rightarrow> 0)\<rparr>)"

section \<open>Energy\<close>

text \<open>One segment of the trapezoid sum, on the energy, the excluded seconds and the number of
  excluded segments so far.\<close>

definition trapezoid_step ::
  "real \<Rightarrow> real \<times> real \<times> nat \<Rightarrow> real \<times> real \<Rightarrow> real \<times> real \<Rightarrow> real \<times> real \<times> nat" where
  "trapezoid_step max_gap acc p q =
     (case acc of (energy, excluded, segments) \<Rightarrow>
        (let dt = fst q - fst p in
         if dt \<le> 0 then acc
         else if dt > max_gap then (energy, excluded + dt, Suc segments)
         else (energy + (snd p + snd q) / 2 * dt, excluded, segments)))"

fun trapezoid_loop ::
  "real \<Rightarrow> real \<times> real \<times> nat \<Rightarrow> (real \<times> real) list \<Rightarrow> real \<times> real \<times> nat" where
  "trapezoid_loop max_gap acc (p # q # ps) =
     trapezoid_loop max_gap (trapezoid_step max_gap acc p q) (q # ps)"
| "trapezoid_loop max_gap acc _ = acc"

definition trapezoid_energy :: "(real \<times> real) list \<Rightarrow> real \<Rightarrow> real \<times> real \<times> nat" where
  "trapezoid_energy points max_gap = trapezoid_loop max_gap (0, 0, 0) points"

text \<open>A counter that went backwards is refused.\<close>

definition counter_energy :: "(real \<times> real option) list \<Rightarrow> real option" where
  "counter_energy points =
     (let usable = List.map_filter snd points in
      if length usable < 2 then None
      else (let delta = last usable - hd usable in
            if delta < 0 then None else Some (delta / 1000)))"

section \<open>One phase\<close>

datatype dev_group = Gpu | System

record device =
  dev_key :: string
  dev_group :: dev_group
  w :: "real option"
  mj :: "real option"
  util :: "real option"
  temp :: "real option"
  sm_mhz :: "real option"
  mem_mib :: "real option"

record sample =
  smp_t :: real
  smp_phase :: string
  devices :: "device list"

datatype energy_method = Counter | Trapezoid | NoEnergy

record entry =
  e_group :: dev_group
  e_stats :: "series option"
  e_method :: energy_method
  e_energy :: "real option"
  e_trapezoid :: "real option"
  e_wh :: "real option"
  e_excluded :: real
  e_gaps :: nat
  e_util :: "real option"
  e_temp_mean :: "real option"
  e_temp_max :: "real option"
  e_clock :: "real option"
  e_mem :: "real option"

text \<open>The readings of one device in sampling order, and the device keys in order of first
  appearance.\<close>

definition readings :: "sample list \<Rightarrow> string \<Rightarrow> (real \<times> device) list" where
  "readings samples key =
     concat (map (\<lambda>s. map (\<lambda>d. (smp_t s, d)) (filter (\<lambda>d. dev_key d = key) (devices s))) samples)"

fun first_seen :: "'a list \<Rightarrow> 'a list" where
  "first_seen [] = []"
| "first_seen (x # xs) = x # filter (\<lambda>y. y \<noteq> x) (first_seen xs)"

definition device_keys :: "sample list \<Rightarrow> string list" where
  "device_keys samples = first_seen (map dev_key (concat (map devices samples)))"

definition column :: "(device \<Rightarrow> real option) \<Rightarrow> (real \<times> device) list \<Rightarrow> real list" where
  "column f rs = List.map_filter (\<lambda>(t, d). f d) rs"

definition rounded_with :: "nat \<Rightarrow> (real list \<Rightarrow> real) \<Rightarrow> real list \<Rightarrow> real option" where
  "rounded_with n f vs = (if vs = [] then None else Some (py_round n (f vs)))"

definition device_entry :: "real \<Rightarrow> (real \<times> device) list \<Rightarrow> entry" where
  "device_entry max_gap rs =
     (let watts = column w rs;
          watt_points = map (\<lambda>(t, d). (t, w d)) rs;
          (traj, excluded, gaps) =
            trapezoid_energy (List.map_filter (\<lambda>(t, x). map_option (Pair t) x) watt_points) max_gap;
          counted = counter_energy (map (\<lambda>(t, d). (t, mj d)) rs);
          energy = (case counted of Some j \<Rightarrow> Some (py_round 1 j)
                    | None \<Rightarrow> (if watt_points \<noteq> [] then Some (py_round 1 traj) else None)) in
      \<lparr>e_group = dev_group (snd (hd rs)), e_stats = series_stats watts,
       e_method = (case counted of Some _ \<Rightarrow> Counter
                   | None \<Rightarrow> (if watt_points \<noteq> [] then Trapezoid else NoEnergy)),
       e_energy = energy,
       e_trapezoid = (case counted of Some _ \<Rightarrow> Some (py_round 1 traj) | None \<Rightarrow> None),
       e_wh = map_option (\<lambda>j. py_round 4 (j / 3600)) energy,
       e_excluded = py_round 3 excluded, e_gaps = gaps,
       e_util = rounded_with 2 mean (column util rs),
       e_temp_mean = rounded_with 1 mean (column temp rs),
       e_temp_max = rounded_with 1 (\<lambda>vs. Max (set vs)) (column temp rs),
       e_clock = rounded_with 1 mean (column sm_mhz rs),
       e_mem = rounded_with 1 mean (column mem_mib rs)\<rparr>)"

record phase_summary =
  start_t :: real
  end_t :: real
  duration_s :: real
  max_gap_s :: real
  gpus :: "(string \<times> entry) list"
  total :: "series option"
  total_energy :: "real option"
  total_wh :: "real option"
  system_entries :: "(string \<times> entry) list"

definition gpu_watts :: "sample \<Rightarrow> real list" where
  "gpu_watts s = List.map_filter (\<lambda>d. if dev_group d = Gpu then w d else None) (devices s)"

definition max_gap_seen :: "real list \<Rightarrow> real" where
  "max_gap_seen ts =
     (let gaps = map (\<lambda>(a, b). b - a) (zip ts (tl ts)) in if gaps = [] then 0 else Max (set gaps))"

definition summarize_phase :: "real \<Rightarrow> sample list \<Rightarrow> phase_summary option" where
  "summarize_phase max_gap samples =
     (if length samples < 2 then None
      else
        (let entries = map (\<lambda>k. (k, device_entry max_gap (readings samples k))) (device_keys samples);
             known = (\<forall>(k, e)\<in>set entries. e_energy e \<noteq> None);
             gpu = filter (\<lambda>(k, e). e_group e = Gpu) entries;
             total_j = sum_list (List.map_filter (\<lambda>(k, e). e_energy e) gpu);
             totals = map sum_list (filter (\<lambda>ws. ws \<noteq> []) (map gpu_watts samples));
             shown = (series_stats totals \<noteq> None \<and> known) in
         Some \<lparr>start_t = py_round 3 (smp_t (hd samples)), end_t = py_round 3 (smp_t (last samples)),
           duration_s = py_round 3 (smp_t (last samples) - smp_t (hd samples)),
           max_gap_s = py_round 3 (max_gap_seen (map smp_t samples)),
           gpus = gpu, total = series_stats totals,
           total_energy = (if shown then Some (py_round 1 total_j) else None),
           total_wh = (if shown then Some (py_round 4 (total_j / 3600)) else None),
           system_entries = filter (\<lambda>(k, e). e_group e = System) entries\<rparr>))"

section \<open>Idle baseline\<close>

record baseline =
  source_phases :: "string list"
  mean_w_total :: real
  load_mean :: "real option"
  excess_mean :: "real option"
  excess_energy :: "real option"

definition idle_baseline :: "(string \<times> phase_summary option) list \<Rightarrow> baseline option" where
  "idle_baseline phases =
     (let idle = List.map_filter (\<lambda>(n, p). if starts_with ''idle'' n then map_option (Pair n) p else None) phases;
          weight_sum = sum_list (map (\<lambda>(n, p). duration_s p) idle);
          points = List.map_filter (\<lambda>(n, p). case total p of None \<Rightarrow> None
                     | Some s \<Rightarrow> (if duration_s p > 0 then Some (mean_w s, duration_s p) else None)) idle in
      if idle = [] \<or> points = [] \<or> weight_sum = 0 then None
      else
        (let base = sum_list (map (\<lambda>(m, d). m * d) points) / sum_list (map snd points);
             load = (case map_of phases ''load'' of Some (Some p) \<Rightarrow> Some p | _ \<Rightarrow> None);
             lm = (case load of Some p \<Rightarrow> map_option mean_w (total p) | None \<Rightarrow> None) in
         Some \<lparr>source_phases = map fst idle, mean_w_total = py_round 3 base, load_mean = lm,
           excess_mean = map_option (\<lambda>m. py_round 3 (m - base)) lm,
           excess_energy = (case (load, lm) of
             (Some p, Some m) \<Rightarrow> (if duration_s p \<noteq> 0 then Some (py_round 1 ((m - base) * duration_s p)) else None)
           | _ \<Rightarrow> None)\<rparr>))"

section \<open>The trapezoid sum\<close>

fun covered :: "real \<Rightarrow> real list \<Rightarrow> real" where
  "covered max_gap (t # u # ts) =
     (if 0 < u - t \<and> u - t \<le> max_gap then u - t else 0) + covered max_gap (u # ts)"
| "covered max_gap _ = 0"

lemma trapezoid_between:
  assumes "\<forall>(t, x)\<in>set ps. lo \<le> x \<and> x \<le> hi"
  shows "lo * covered g (map fst ps) \<le> fst (trapezoid_loop g (e, x, n) ps) - e
    \<and> fst (trapezoid_loop g (e, x, n) ps) - e \<le> hi * covered g (map fst ps)"
  using assms
proof (induction g "(e, x, n)" ps arbitrary: e x n rule: trapezoid_loop.induct)
  case (1 g p q ps)
  obtain e1 x1 n1 where step: "trapezoid_step g (e, x, n) p q = (e1, x1, n1)"
    by (cases "trapezoid_step g (e, x, n) p q")
  let ?d = "fst q - fst p"
  let ?c = "if 0 < ?d \<and> ?d \<le> g then ?d else 0"
  have "lo \<le> (snd p + snd q) / 2 \<and> (snd p + snd q) / 2 \<le> hi"
    using "1.prems" by (cases p; cases q) auto
  then have "lo * ?c \<le> e1 - e \<and> e1 - e \<le> hi * ?c"
    using step by (auto simp: trapezoid_step_def Let_def mult_right_mono split: if_splits)
  moreover have "lo * covered g (map fst (q # ps)) \<le> fst (trapezoid_loop g (e1, x1, n1) (q # ps)) - e1
      \<and> fst (trapezoid_loop g (e1, x1, n1) (q # ps)) - e1 \<le> hi * covered g (map fst (q # ps))"
    using "1.hyps" [OF step] "1.prems" by simp
  ultimately show ?case
    by (auto simp: step distrib_left)
qed auto

lemma trapezoid_excluded:
  assumes "sorted (map fst ps)" and "ps \<noteq> []" and "0 \<le> g"
  shows "covered g (map fst ps) + fst (snd (trapezoid_loop g (e, x, n) ps)) - x = fst (last ps) - fst (hd ps)"
  using assms(1,2)
proof (induction g "(e, x, n)" ps arbitrary: e x n rule: trapezoid_loop.induct)
  case (1 g p q ps)
  obtain e1 x1 n1 where step: "trapezoid_step g (e, x, n) p q = (e1, x1, n1)"
    by (cases "trapezoid_step g (e, x, n) p q")
  have le: "fst p \<le> fst q" using "1.prems"(1) by simp
  from "1.hyps" [OF step] "1.prems"(1)
  have "covered g (map fst (q # ps)) + fst (snd (trapezoid_loop g (e1, x1, n1) (q # ps))) - x1
      = fst (last (q # ps)) - fst q" by simp
  moreover have "(if 0 < fst q - fst p \<and> fst q - fst p \<le> g then fst q - fst p else 0) + (x1 - x) = fst q - fst p"
    using step le by (auto simp: trapezoid_step_def Let_def split: if_splits)
  ultimately show ?case by (simp add: step)
qed auto

text \<open>C33: The energy is the power times the time it was seen for.  For readings between \<open>lo\<close>
  and \<open>hi\<close> watts at times that do not decrease, the trapezoid energy lies between \<open>lo\<close> and
  \<open>hi\<close> times the length of the recording less the seconds that it reports as excluded:
  every second is either integrated or reported as excluded.\<close>

theorem energy_accounted:
  assumes "trapezoid_energy points max_gap = (energy, excluded, segments)"
    and "points \<noteq> []" and "sorted (map fst points)" and "0 \<le> max_gap"
    and "\<forall>(t, x)\<in>set points. lo \<le> x \<and> x \<le> hi"
  shows "lo * (fst (last points) - fst (hd points) - excluded) \<le> energy
    \<and> energy \<le> hi * (fst (last points) - fst (hd points) - excluded)"
proof -
  have "covered max_gap (map fst points) = fst (last points) - fst (hd points) - excluded"
    using trapezoid_excluded [OF assms(3,2,4), of 0 0 0] assms(1) by (simp add: trapezoid_energy_def)
  with trapezoid_between [OF assms(5), of max_gap 0 0 0] assms(1) show ?thesis
    by (simp add: trapezoid_energy_def)
qed

theorem energy_accounted_witness:
  "10 * (12 - 10 :: real) \<le> 25 \<and> 25 \<le> 15 * (12 - 10 :: real)"
  using energy_accounted [of "[(0, 10), (2, 15), (12, 15)]" 5 25 10 1 10 15]
  by (simp add: trapezoid_energy_def trapezoid_step_def)

section \<open>Devices without readings\<close>

lemma set_first_seen [simp]: "set (first_seen xs) = set xs"
  by (induction xs) auto

lemma readings_nonempty: "k \<in> set (device_keys samples) \<Longrightarrow> readings samples k \<noteq> []"
  by (auto simp: device_keys_def readings_def filter_empty_conv)

lemma device_entry_group: "e_group (device_entry g rs) = dev_group (snd (hd rs))"
  by (simp add: device_entry_def Let_def split: prod.splits)

lemma device_entry_energy:
  "rs \<noteq> [] \<Longrightarrow> e_energy (device_entry g rs) \<noteq> None"
  by (auto simp: device_entry_def Let_def split: prod.splits option.splits)

lemma py_round_0 [simp]: "py_round n 0 = 0"
  by (simp add: py_round_def round_half_even_def)

lemma device_entry_unmeasured:
  assumes "rs \<noteq> []" and "\<forall>(t, d)\<in>set rs. w d = None \<and> mj d = None"
  shows "e_method (device_entry g rs) = Trapezoid \<and> e_energy (device_entry g rs) = Some 0
    \<and> e_stats (device_entry g rs) = None"
proof -
  have n: "List.map_filter (\<lambda>(t, x). map_option (Pair t) x) (map (\<lambda>(t, d). (t, w d)) rs) = []"
    "column w rs = []" "List.map_filter snd (map (\<lambda>(t, d). (t, mj d)) rs) = []"
    using assms(2) by (induction rs) (auto simp: column_def map_filter_simps)
  with assms(1) show ?thesis
    by (simp add: device_entry_def counter_energy_def trapezoid_energy_def series_stats_def)
qed

text \<open>A device that was never read is reported with an energy of zero.  In every summary
  each GPU has a known energy and so has the total, whatever was measured; a GPU without a
  single power or counter reading gets zero joules by the trapezoid method.  The case that
  the code reserves for it (no method, no energy, no total) cannot happen.\<close>

theorem unmeasured_energy_is_zero:
  assumes "summarize_phase max_gap samples = Some p" and "(k, e) \<in> set (gpus p)"
  shows "e_energy e \<noteq> None \<and> e_method e \<noteq> NoEnergy
    \<and> (total p \<noteq> None \<longrightarrow> total_energy p \<noteq> None)
    \<and> ((\<forall>(t, d)\<in>set (readings samples k). w d = None \<and> mj d = None) \<longrightarrow>
         e_method e = Trapezoid \<and> e_energy e = Some 0)"
proof -
  have all: "e_energy (device_entry max_gap (readings samples k)) \<noteq> None"
    if "k \<in> set (device_keys samples)" for k
    by (rule device_entry_energy [OF readings_nonempty [OF that]])
  from assms have k: "k \<in> set (device_keys samples)" and e: "e = device_entry max_gap (readings samples k)"
    by (auto simp: summarize_phase_def Let_def split: if_splits)
  have "total p \<noteq> None \<longrightarrow> total_energy p \<noteq> None"
    using assms(1) all by (auto simp: summarize_phase_def Let_def split: if_splits)
  moreover have "e_method e \<noteq> NoEnergy"
    using readings_nonempty [OF k] by (auto simp: e device_entry_def Let_def split: prod.splits option.splits)
  ultimately show ?thesis
    using all [OF k] device_entry_unmeasured [OF readings_nonempty [OF k]] by (auto simp: e)
qed

definition mute_gpu :: device where
  "mute_gpu = \<lparr>dev_key = ''gpu0'', dev_group = Gpu, w = None, mj = None, util = None, temp = None,
     sm_mhz = None, mem_mib = None\<rparr>"

theorem unmeasured_energy_is_zero_witness:
  "\<exists>p e. summarize_phase 5 [\<lparr>smp_t = 0, smp_phase = ''load'', devices = [mute_gpu]\<rparr>,
        \<lparr>smp_t = 1, smp_phase = ''load'', devices = [mute_gpu]\<rparr>] = Some p
     \<and> (''gpu0'', e) \<in> set (gpus p) \<and> e_energy e = Some 0"
proof -
  let ?ss = "[\<lparr>smp_t = 0, smp_phase = ''load'', devices = [mute_gpu]\<rparr>,
        \<lparr>smp_t = 1, smp_phase = ''load'', devices = [mute_gpu]\<rparr>]"
  have keys: "device_keys ?ss = [''gpu0'']" by (simp add: device_keys_def mute_gpu_def)
  have r: "readings ?ss ''gpu0'' = [(0, mute_gpu), (1, mute_gpu)]" by (simp add: readings_def mute_gpu_def)
  have g: "e_group (device_entry 5 (readings ?ss ''gpu0'')) = Gpu"
    unfolding r device_entry_group by (simp add: mute_gpu_def)
  obtain p where p: "summarize_phase 5 ?ss = Some p" by (simp add: summarize_phase_def Let_def)
  then have m: "(''gpu0'', device_entry 5 (readings ?ss ''gpu0'')) \<in> set (gpus p)"
    using keys g by (auto simp: summarize_phase_def Let_def)
  from unmeasured_energy_is_zero [OF p m] r have "e_energy (device_entry 5 (readings ?ss ''gpu0'')) = Some 0"
    by (simp add: mute_gpu_def)
  with p m show ?thesis by blast
qed

end
