(* ===== verification/Power_Sampler.thy ===== *)
theory Power_Sampler
  imports Power_Energy
begin

text \<open>
  The power sampler, second part: the nvidia-smi and RAPL collectors, the marker file, the
  sampling loop, and the run around a command with its exit code.  Files are bytes that
  decode to themselves.  What a tick of the loop finds (the readings, whether the phase is
  over, a pending signal, the clock) is a parameter.
\<close>

section \<open>The nvidia-smi collector\<close>

definition na_values :: "string list" where
  "na_values = [[], ''n/a'', ''[n/a]'', ''[not supported]'', ''not supported'', ''n/a ]'']"

text \<open>\<open>_num\<close>; a text that reads as an infinity or NaN is outside the model.\<close>

definition smi_num :: "string \<Rightarrow> py_exc + real option" where
  "smi_num text =
     (let v = lower (strip text) in
      if v \<in> set na_values then Inr None
      else (case parse_float v of
              None \<Rightarrow> Inr None
            | Some (Fin x) \<Rightarrow> Inr (Some x)
            | Some _ \<Rightarrow> Inl NonFinite))"

definition int_of_real :: "real \<Rightarrow> int" where
  "int_of_real x = (if 0 \<le> x then \<lfloor>x\<rfloor> else \<lceil>x\<rceil>)"

definition smi_row :: "(int \<times> string list) list \<Rightarrow> string \<Rightarrow> py_exc + (int \<times> string list) list" where
  "smi_row rows line =
     (let cells = map strip (split_on (CHR '','') line) in
      if cells = [] \<or> hd cells = [] then Inr rows
      else (case smi_num (hd cells) of
              Inl e \<Rightarrow> Inl e
            | Inr None \<Rightarrow> Inr rows
            | Inr (Some i) \<Rightarrow> Inr (dict_set rows (int_of_real i) cells)))"

fun smi_rows :: "(int \<times> string list) list \<Rightarrow> string list \<Rightarrow> py_exc + (int \<times> string list) list" where
  "smi_rows rows [] = Inr rows"
| "smi_rows rows (l # ls) =
     (case smi_row rows l of Inl e \<Rightarrow> Inl e | Inr rows' \<Rightarrow> smi_rows rows' ls)"

definition cell :: "string list \<Rightarrow> nat \<Rightarrow> py_exc + real option" where
  "cell cells i = (if i < length cells then smi_num (cells ! i) else Inl IndexError)"

definition smi_device :: "(int \<times> string list) list \<Rightarrow> int \<Rightarrow> py_exc + device" where
  "smi_device rows index =
     (let d = \<lparr>dev_key = ''gpu'' @ show_int index, dev_group = Gpu, w = None, mj = None, util = None,
               temp = None, sm_mhz = None, mem_mib = None\<rparr> in
      case map_of rows index of
        None \<Rightarrow> Inr d
      | Some cells \<Rightarrow>
          (case map_res (cell cells) [1, 2, 3, 4, 5, 6] of
             Inl e \<Rightarrow> Inl e
           | Inr vs \<Rightarrow> Inr (d\<lparr>w := vs ! 0, util := vs ! 1, mem_mib := vs ! 2, temp := vs ! 3,
                              sm_mhz := vs ! 4\<rparr>)))"

text \<open>\<open>None\<close> for the output: the command failed.\<close>

definition smi_sample :: "string option \<Rightarrow> int list \<Rightarrow> py_exc + device list option" where
  "smi_sample out indices =
     (case out of
        None \<Rightarrow> Inr None
      | Some text \<Rightarrow>
          (case smi_rows [] (splitlines text) of
             Inl e \<Rightarrow> Inl e
           | Inr rows \<Rightarrow>
               (if rows = [] then Inr None
                else (case map_res (smi_device rows) indices of
                        Inl e \<Rightarrow> Inl e | Inr ds \<Rightarrow> Inr (Some ds)))))"

section \<open>The RAPL collector\<close>

record domain =
  dom_key :: string
  max_range_uj :: real

definition rapl_watts :: "domain \<Rightarrow> (real \<times> real) option \<Rightarrow> real \<Rightarrow> real \<Rightarrow> real option" where
  "rapl_watts zone previous t uj =
     (case previous of
        None \<Rightarrow> None
      | Some (t0, uj0) \<Rightarrow>
          (let raw = uj - uj0; delta = (if raw < 0 then raw + max_range_uj zone else raw); dt = t - t0 in
           if dt > 0 then Some (delta / dt / 1000000) else None))"

text \<open>The loop over the domains; a counter that cannot be read ends it, and what was noted
  before stays noted.\<close>

fun rapl_loop ::
  "(string \<times> real \<times> real) list \<Rightarrow> real \<Rightarrow> (domain \<times> real option) list \<Rightarrow> device list
   \<Rightarrow> device list option \<times> (string \<times> real \<times> real) list" where
  "rapl_loop previous t [] acc = (Some acc, previous)"
| "rapl_loop previous t ((zone, r) # rs) acc =
     (case r of
        None \<Rightarrow> (None, previous)
      | Some uj \<Rightarrow>
          rapl_loop (dict_set previous (dom_key zone) (t, uj)) t rs
            (acc @ [\<lparr>dev_key = dom_key zone, dev_group = System,
                     w = rapl_watts zone (map_of previous (dom_key zone)) t uj,
                     mj = Some (uj / 1000), util = None, temp = None, sm_mhz = None, mem_mib = None\<rparr>]))"

definition rapl_sample ::
  "(string \<times> real \<times> real) list \<Rightarrow> real \<Rightarrow> (domain \<times> real option) list
   \<Rightarrow> device list option \<times> (string \<times> real \<times> real) list" where
  "rapl_sample previous t rs = (if rs = [] then (None, previous) else rapl_loop previous t rs [])"

section \<open>Markers\<close>

definition lf :: char where "lf = CHR 0x0A"

text \<open>\<open>bytes.splitlines\<close> breaks at carriage returns and line feeds only.\<close>

fun byte_lines :: "string \<Rightarrow> string list" where
  "byte_lines [] = []"
| "byte_lines [c] = (if c \<in> {CHR 0x0A, CHR 0x0D} then [[]] else [[c]])"
| "byte_lines (c # d # cs) =
     (if c = CHR 0x0D \<and> d = CHR 0x0A then [] # byte_lines cs
      else if c \<in> {CHR 0x0A, CHR 0x0D} then [] # byte_lines (d # cs)
      else cons_line c (byte_lines (d # cs)))"

definition marker_label :: "string \<Rightarrow> string list" where
  "marker_label raw = (let l = strip raw in if l = [] then [] else [take 200 l])"

definition marker_labels :: "string \<Rightarrow> string list" where
  "marker_labels text = concat (map marker_label (byte_lines text))"

text \<open>\<open>chunk.rfind(b"\n")\<close>: the text after the last line feed, and the text up to it.\<close>

definition after_lf :: "string \<Rightarrow> string" where
  "after_lf s = rev (takeWhile (\<lambda>c. c \<noteq> lf) (rev s))"

definition upto_lf :: "string \<Rightarrow> string" where
  "upto_lf s = rev (dropWhile (\<lambda>c. c \<noteq> lf) (rev s))"

definition read_marker_lines :: "string option \<Rightarrow> nat \<Rightarrow> string list \<times> nat" where
  "read_marker_lines contents start =
     (case contents of
        None \<Rightarrow> ([], start)
      | Some body \<Rightarrow>
          (let off = (if length body < start then 0 else start) in
           if length body = off then ([], off)
           else
             (let chunk = drop off body in
              if ends_with [lf] chunk then (marker_labels chunk, length body)
              else if lf \<notin> set chunk then ([], off)
              else (marker_labels (after_lf chunk @ upto_lf chunk), off + length (upto_lf chunk)))))"

section \<open>The sampling loop\<close>

datatype signal = SIGINT | SIGTERM

record 'r tick =
  batches :: "device list option list"
  tick_t :: real
  labels :: "string list"
  finished :: "'r option"
  stop :: "signal option"
  clock :: real

record 'r sampler_run =
  result :: "'r option"
  run_samples :: "sample list"
  run_markers :: "(real \<times> string) list"
  drops :: nat
  late_ticks :: nat
  run_stop :: "signal option"

definition one_sample :: "string \<Rightarrow> 'r tick \<Rightarrow> 'r sampler_run \<Rightarrow> 'r sampler_run" where
  "one_sample phase tk r =
     r\<lparr>run_samples := run_samples r @ [\<lparr>smp_t = py_round 3 (tick_t tk), smp_phase = phase,
         devices = concat (List.map_filter id (batches tk))\<rparr>],
       run_markers := run_markers r @ map (Pair (py_round 3 (tick_t tk))) (labels tk),
       drops := drops r + length (filter (\<lambda>b. b = None) (batches tk))\<rparr>"

partial_function (option) run_until ::
  "string \<Rightarrow> real \<Rightarrow> (nat \<Rightarrow> 'r tick) \<Rightarrow> nat \<Rightarrow> real \<Rightarrow> 'r sampler_run \<Rightarrow> 'r sampler_run option" where
  "run_until phase interval ticks n deadline r =
     (let tk = ticks n; due = deadline + interval; r1 = one_sample phase tk r in
      if finished tk \<noteq> None \<or> stop tk \<noteq> None
      then Some (r1\<lparr>result := finished tk, run_stop := stop tk\<rparr>)
      else if due - clock tk < 0
      then run_until phase interval ticks (Suc n) (clock tk) (r1\<lparr>late_ticks := Suc (late_ticks r1)\<rparr>)
      else run_until phase interval ticks (Suc n) due r1)"

section \<open>A run around a command\<close>

datatype load_end = ChildExit int | Timeout

text \<open>The outside of a run: the ticks of the three phases, a signal that arrives between a
  phase and the check after it, whether the command can be started, its state after the load
  phase and its return code once it is gone.\<close>

record wrap_world =
  idle_ticks :: "nat \<Rightarrow> load_end tick"
  load_ticks :: "nat \<Rightarrow> load_end tick"
  after_ticks :: "nat \<Rightarrow> load_end tick"
  signal_idle :: "signal option"
  signal_load :: "signal option"
  spawn_ok :: bool
  poll :: "int option"
  final_rc :: int
  t_start :: "nat \<Rightarrow> real"

record wrap_result =
  wr_exit :: int
  wr_child :: "int option"
  wr_timed_out :: bool
  wr_run :: "load_end sampler_run"

definition fresh_run :: "'r sampler_run" where
  "fresh_run = \<lparr>result = None, run_samples = [], run_markers = [], drops = 0, late_ticks = 0, run_stop = None\<rparr>"

definition later :: "signal option \<Rightarrow> signal option \<Rightarrow> signal option" where
  "later a b = (case a of Some s \<Rightarrow> Some s | None \<Rightarrow> b)"

definition signal_exit :: "signal \<Rightarrow> int" where
  "signal_exit s = (case s of SIGINT \<Rightarrow> 130 | SIGTERM \<Rightarrow> 143)"

definition child_code :: "int \<Rightarrow> int" where
  "child_code rc = (if rc \<ge> 0 then rc else 128 + \<bar>rc\<bar>)"

text \<open>The state of the child after the load phase: its return code as recorded.\<close>

definition child_returncode :: "wrap_world \<Rightarrow> signal option \<Rightarrow> load_end option \<Rightarrow> int option" where
  "child_returncode wd stopped res =
     (let rc1 = (case res of None \<Rightarrow> None | Some (ChildExit rc) \<Rightarrow> Some rc | Some Timeout \<Rightarrow> Some (final_rc wd));
          gone = (res \<noteq> None \<or> poll wd \<noteq> None);
          rc2 = (if stopped \<noteq> None \<and> \<not> gone then Some (final_rc wd) else rc1) in
      case rc2 of Some rc \<Rightarrow> Some rc | None \<Rightarrow> poll wd)"

definition load_exit :: "wrap_world \<Rightarrow> load_end sampler_run \<Rightarrow> int" where
  "load_exit wd r =
     (let stopped = later (run_stop r) (signal_load wd) in
      if result r = Some Timeout then 124
      else case stopped of
        Some s \<Rightarrow> signal_exit s
      | None \<Rightarrow> (case child_returncode wd stopped (result r) of Some c \<Rightarrow> child_code c | None \<Rightarrow> 0))"

definition wrap_done :: "wrap_world \<Rightarrow> load_end sampler_run \<Rightarrow> load_end sampler_run \<Rightarrow> wrap_result" where
  "wrap_done wd loaded r =
     \<lparr>wr_exit = load_exit wd loaded,
      wr_child = child_returncode wd (later (run_stop loaded) (signal_load wd)) (result loaded),
      wr_timed_out = (result loaded = Some Timeout), wr_run = r\<rparr>"

definition run_wrap :: "wrap_world \<Rightarrow> real \<Rightarrow> real \<Rightarrow> wrap_result option" where
  "run_wrap wd interval idle_window =
     (case (if idle_window > 0 then run_until ''idle_before'' interval (idle_ticks wd) 0 (t_start wd 0) fresh_run
            else Some fresh_run) of
        None \<Rightarrow> None
      | Some r1 \<Rightarrow>
     (case later (run_stop r1) (signal_idle wd) of
        Some s \<Rightarrow> Some \<lparr>wr_exit = signal_exit s, wr_child = None, wr_timed_out = False, wr_run = r1\<rparr>
      | None \<Rightarrow>
     (if \<not> spawn_ok wd then Some \<lparr>wr_exit = 2, wr_child = None, wr_timed_out = False, wr_run = r1\<rparr>
      else
        (case run_until ''load'' interval (load_ticks wd) 0 (t_start wd 1) r1 of
           None \<Rightarrow> None
         | Some r2 \<Rightarrow>
             (if idle_window > 0 \<and> later (run_stop r2) (signal_load wd) = None then
                (case run_until ''idle_after'' interval (after_ticks wd) 0 (t_start wd 2) r2 of
                   None \<Rightarrow> None | Some r3 \<Rightarrow> Some (wrap_done wd r2 r3))
              else Some (wrap_done wd r2 r2))))))"

section \<open>The summary\<close>

definition phase_buckets :: "sample list \<Rightarrow> (string \<times> sample list) list" where
  "phase_buckets samples =
     map (\<lambda>p. (p, filter (\<lambda>s. smp_phase s = p) samples)) (first_seen (map smp_phase samples))"

record summary_part =
  sum_phases :: "(string \<times> phase_summary) list"
  sum_idle :: "baseline option"
  sum_duration :: real
  sum_samples :: nat

definition summarize_run :: "real \<Rightarrow> 'r sampler_run \<Rightarrow> summary_part" where
  "summarize_run max_gap r =
     (let samples = run_samples r;
          summarized = map (\<lambda>(p, b). (p, summarize_phase max_gap b)) (phase_buckets samples) in
      \<lparr>sum_phases = List.map_filter (\<lambda>(p, s). map_option (Pair p) s) summarized,
       sum_idle = idle_baseline summarized,
       sum_duration = (if 2 \<le> length samples then py_round 3 (smp_t (last samples) - smp_t (hd samples)) else 0),
       sum_samples = length samples\<rparr>)"

section \<open>Reading markers\<close>

lemma byte_lines_LF: "lf \<notin> set x \<Longrightarrow> CHR 0x0D \<notin> set x \<Longrightarrow> byte_lines (x @ lf # r) = x # byte_lines r"
proof (induction x rule: byte_lines.induct)
  case 1
  then show ?case by (cases r) (auto simp: lf_def)
next
  case (2 c)
  then show ?case by (cases r) (auto simp: lf_def)
next
  case (3 c d cs)
  then show ?case by (auto simp: lf_def)
qed

lemma marker_labels_line:
  "lf \<notin> set x \<Longrightarrow> CHR 0x0D \<notin> set x \<Longrightarrow> marker_labels (x @ lf # r) = marker_label x @ marker_labels r"
  by (simp add: marker_labels_def byte_lines_LF)

lemma last_line_split:
  assumes "lf \<notin> set tl'" and "whole = [] \<or> last whole = lf"
  shows "after_lf (whole @ tl') = tl'" and "upto_lf (whole @ tl') = whole"
proof -
  have all: "\<forall>c\<in>set (rev tl'). c \<noteq> lf" using assms(1) by auto
  have t: "takeWhile (\<lambda>c. c \<noteq> lf) (rev tl' @ ys) = rev tl' @ takeWhile (\<lambda>c. c \<noteq> lf) ys" for ys
    using all by (intro takeWhile_append2) blast
  have d: "dropWhile (\<lambda>c. c \<noteq> lf) (rev tl' @ ys) = dropWhile (\<lambda>c. c \<noteq> lf) ys" for ys
    using all by (intro dropWhile_append2) blast
  have w: "takeWhile (\<lambda>c. c \<noteq> lf) (rev whole) = []" "dropWhile (\<lambda>c. c \<noteq> lf) (rev whole) = rev whole"
    using assms(2) by (cases "rev whole"; force simp: last_rev hd_rev)+
  show "after_lf (whole @ tl') = tl'" and "upto_lf (whole @ tl') = whole"
    unfolding after_lf_def upto_lf_def rev_append t d w by simp_all
qed

text \<open>One poll of the marker file.  When complete lines have been appended since the last
  poll and nothing after them, the poll reports exactly their labels and moves to the end of
  the file.  When the writer has also begun a next line, the unfinished text is put
  \<^emph>\<open>in front of\<close> the first complete line, whose label is therefore wrong, and since the
  position stays before the unfinished text it is reported again later.\<close>

theorem marker_poll:
  assumes "lf \<notin> set l" and "CHR 0x0D \<notin> set l" and "lf \<notin> set part" and "CHR 0x0D \<notin> set part"
    and "rest = [] \<or> last rest = lf"
  shows "read_marker_lines (Some (before @ (l @ lf # rest) @ part)) (length before)
    = (marker_label (part @ l) @ marker_labels rest, length (before @ l @ lf # rest))"
proof -
  let ?whole = "l @ lf # rest"
  have last: "last ?whole = lf" using assms(5) by auto
  show ?thesis
  proof (cases "part = []")
    case True
    have "ends_with [lf] ?whole"
      unfolding ends_with_iff using last append_butlast_last_id [of ?whole] by (metis list.distinct(1) append_is_Nil_conv)
    with True show ?thesis
      using marker_labels_line [OF assms(1,2), of rest] by (simp add: read_marker_lines_def Let_def)
  next
    case False
    then have "\<not> ends_with [lf] (?whole @ part)"
      using assms(3) by (cases part rule: rev_cases) (auto simp: ends_with_iff)
    moreover have "after_lf (?whole @ part) = part" "upto_lf (?whole @ part) = ?whole"
      using last_line_split [OF assms(3), of ?whole] last by auto
    moreover have "marker_labels (part @ ?whole) = marker_label (part @ l) @ marker_labels rest"
      using marker_labels_line [of "part @ l" rest] assms(1-4) by simp
    ultimately show ?thesis by (simp add: read_marker_lines_def Let_def)
  qed
qed

theorem marker_poll_witness:
  "fst (read_marker_lines (Some (''prompt 1'' @ [lf] @ ''prom'')) 0) = [''promprompt 1'']"
  using marker_poll [of "''prompt 1''" "''prom''" "[]" "[]"]
  by (simp add: lf_def marker_label_def marker_labels_def strip_by_id is_space_c_def ord_c_def)

section \<open>The energy counter\<close>

text \<open>The power that RAPL reports is the true one across a wrap of the counter: for a true
  energy that grows by less than the range between two samples, whatever part of it the
  counter shows.\<close>

definition shown_counter :: "real \<Rightarrow> real \<Rightarrow> real" where
  "shown_counter mx e = e - mx * of_int \<lfloor>e / mx\<rfloor>"

lemma rapl_true_power:
  assumes "0 < max_range_uj zone" and "e0 \<le> e1" and "e1 - e0 < max_range_uj zone" and "t0 < t1"
  shows "rapl_watts zone (Some (t0, shown_counter (max_range_uj zone) e0)) t1
      (shown_counter (max_range_uj zone) e1) = Some ((e1 - e0) / (t1 - t0) / 1000000)"
proof -
  define R where "R = max_range_uj zone"
  define k0 k1 where "k0 = \<lfloor>e0 / R\<rfloor>" and "k1 = \<lfloor>e1 / R\<rfloor>"
  have R: "0 < R" using assms(1) by (simp add: R_def)
  have k0: "of_int k0 * R \<le> e0" "e0 < (of_int k0 + 1) * R"
    and k1: "of_int k1 * R \<le> e1" "e1 < (of_int k1 + 1) * R"
    unfolding k0_def k1_def
    by (rule floor_divide_lower [OF R] floor_divide_upper [OF R])+
  have "k0 \<le> k1" using assms(2) R by (simp add: k0_def k1_def floor_mono divide_right_mono)
  moreover have "k1 \<le> k0 + 1"
  proof -
    have "e1 / R \<le> e0 / R + 1" using assms(3) R by (simp add: R_def field_simps)
    then show ?thesis unfolding k0_def k1_def by linarith
  qed
  ultimately consider "k1 = k0" | "k1 = k0 + 1" by linarith
  then show ?thesis
    by cases (use assms k0 k1 in \<open>auto simp: rapl_watts_def shown_counter_def Let_def algebra_simps
        simp flip: R_def k0_def k1_def\<close>)
qed

section \<open>The loop ends\<close>

definition over :: "'r tick \<Rightarrow> bool" where
  "over tk \<longleftrightarrow> finished tk \<noteq> None \<or> stop tk \<noteq> None"

lemma run_until_returns:
  "over (ticks (n + k)) \<Longrightarrow> \<exists>r'. run_until phase interval ticks n deadline r = Some r'"
proof (induction k arbitrary: n deadline r)
  case 0
  then show ?case by (subst run_until.simps) (auto simp: Let_def over_def)
next
  case (Suc k)
  then have "over (ticks (Suc n + k))" by simp
  from Suc.IH [OF this] show ?case by (subst run_until.simps) (auto simp: Let_def)
qed

definition ended :: "(nat \<Rightarrow> 'r tick) \<Rightarrow> nat \<Rightarrow> 'r sampler_run \<Rightarrow> 'r sampler_run \<Rightarrow> bool" where
  "ended ticks n r r' \<longleftrightarrow>
     (\<exists>m\<ge>n. over (ticks m) \<and> (\<forall>i. n \<le> i \<and> i < m \<longrightarrow> \<not> over (ticks i))
       \<and> result r' = finished (ticks m) \<and> run_stop r' = stop (ticks m)
       \<and> length (run_samples r') = length (run_samples r) + (Suc m - n))"

lemma ended_now:
  "over (ticks n) \<Longrightarrow> ended ticks n r ((one_sample ph (ticks n) r)\<lparr>result := finished (ticks n), run_stop := stop (ticks n)\<rparr>)"
  unfolding ended_def by (rule exI [of _ n]) (auto simp: one_sample_def)

lemma ended_later:
  assumes "\<not> over (ticks n)" and "ended ticks (Suc n) r2 r'"
    and "length (run_samples r2) = Suc (length (run_samples r))"
  shows "ended ticks n r r'"
proof -
  from assms(2) obtain m where m: "m \<ge> Suc n" "over (ticks m)" "\<forall>i. Suc n \<le> i \<and> i < m \<longrightarrow> \<not> over (ticks i)"
    "result r' = finished (ticks m)" "run_stop r' = stop (ticks m)"
    "length (run_samples r') = length (run_samples r2) + (Suc m - Suc n)" unfolding ended_def by blast
  have "\<forall>i. n \<le> i \<and> i < m \<longrightarrow> \<not> over (ticks i)"
    using m(3) assms(1) by (metis le_eq_less_or_eq Suc_le_eq)
  with m assms(3) show ?thesis unfolding ended_def by (intro exI [of _ m]) auto
qed

lemma run_until_ended:
  assumes "run_until phase interval ticks n deadline r = Some r'"
  shows "ended ticks n r r'"
proof (rule run_until.raw_induct [where P = "\<lambda>ph iv tk n dl r r'. ended tk n r r'", OF _ assms])
  fix run_u ph iv and tk :: "nat \<Rightarrow> 'a tick" and n dl and r r' :: "'a sampler_run"
  assume IH: "\<And>ph iv tk n dl r r'. run_u ph iv tk n dl r = Some r' \<Longrightarrow> ended tk n r r'"
    and body: "(let t = tk n; due = dl + iv; r1 = one_sample ph t r in
      if finished t \<noteq> None \<or> stop t \<noteq> None then Some (r1\<lparr>result := finished t, run_stop := stop t\<rparr>)
      else if due - clock t < 0
      then run_u ph iv tk (Suc n) (clock t) (r1\<lparr>late_ticks := Suc (late_ticks r1)\<rparr>)
      else run_u ph iv tk (Suc n) due r1) = Some r'"
  show "ended tk n r r'"
  proof (cases "over (tk n)")
    case True
    with body ended_now [of tk n r ph] show ?thesis by (auto simp: over_def Let_def split: if_splits)
  next
    case False
    with body obtain dl2 r2 where "run_u ph iv tk (Suc n) dl2 r2 = Some r'"
      "length (run_samples r2) = Suc (length (run_samples r))"
      by (auto simp: over_def one_sample_def Let_def split: if_splits)
    with ended_later [of tk n, OF False] IH show ?thesis by blast
  qed
qed

section \<open>The exit code\<close>

lemma run_until_outcome:
  "run_until phase interval ticks n deadline r = Some r' \<Longrightarrow> result r' \<noteq> None \<or> run_stop r' \<noteq> None"
  by (drule run_until_ended) (auto simp: ended_def over_def)

lemma later_None: "later a b = None \<longleftrightarrow> a = None \<and> b = None"
  by (auto simp: later_def split: option.splits)

lemma child_returncode_known:
  "res \<noteq> None \<or> stopped \<noteq> None \<Longrightarrow> child_returncode wd stopped res \<noteq> None"
  by (auto simp: child_returncode_def Let_def split: option.splits load_end.splits)

lemma child_code_0: "child_code c = 0 \<longleftrightarrow> c = 0"
  by (auto simp: child_code_def)

definition honest_exit :: "wrap_result \<Rightarrow> bool" where
  "honest_exit r \<longleftrightarrow>
     (if wr_timed_out r then wr_exit r = 124
      else case wr_child r of
        None \<Rightarrow> wr_exit r \<in> {2, 130, 143}
      | Some c \<Rightarrow> wr_exit r \<in> {child_code c, 130, 143})"

lemma honest_zero:
  assumes "honest_exit r" and "wr_exit r = 0"
  shows "wr_child r = Some 0 \<and> \<not> wr_timed_out r"
proof (cases "wr_child r")
  case (Some c)
  with assms have "\<not> wr_timed_out r" "child_code c = 0" by (auto simp: honest_exit_def split: if_splits)
  with Some show ?thesis by (simp add: child_code_0)
qed (use assms in \<open>auto simp: honest_exit_def split: if_splits\<close>)

lemma honest_load:
  assumes "run_until ''load'' interval ticks 0 t r1 = Some r2"
  shows "honest_exit (wrap_done wd r2 r)"
proof -
  let ?stopped = "later (run_stop r2) (signal_load wd)"
  have "result r2 \<noteq> None \<or> ?stopped \<noteq> None"
    using run_until_outcome [OF assms] by (auto simp: later_None)
  from child_returncode_known [OF this, of wd] obtain c where
    "child_returncode wd ?stopped (result r2) = Some c" by auto
  then show ?thesis
    by (auto simp: honest_exit_def wrap_done_def load_exit_def signal_exit_def Let_def
        split: option.splits signal.splits)
qed

text \<open>What the exit code of a wrapped run means.  If every phase is over at some tick, the
  run returns.  A timeout gives 124.  Otherwise, when the command was started, the code is the
  command's own (128 plus the signal number when a signal killed it) or the code of the
  signal that stopped the sampler, and when it was not, 2 or the code of a signal.  So 0 is
  reported only when the command ran and exited with 0 in time.\<close>

theorem wrap_exit_code:
  assumes "\<exists>n. over (idle_ticks wd n)" and "\<exists>n. over (load_ticks wd n)" and "\<exists>n. over (after_ticks wd n)"
  shows "\<exists>r. run_wrap wd interval idle_window = Some r \<and> honest_exit r
     \<and> (wr_exit r = 0 \<longrightarrow> wr_child r = Some 0 \<and> \<not> wr_timed_out r)"
proof -
  have ret: "\<exists>r'. run_until ph interval tk 0 t r = Some r'" if "\<exists>n. over (tk n)"
    for ph t and tk :: "nat \<Rightarrow> load_end tick" and r
    using that run_until_returns [of tk 0] by auto
  obtain r1 where r1: "(if idle_window > 0
      then run_until ''idle_before'' interval (idle_ticks wd) 0 (t_start wd 0) fresh_run
      else Some fresh_run) = Some r1"
    using ret [OF assms(1), of "''idle_before''" "t_start wd 0" fresh_run] by (cases "idle_window > 0") auto
  obtain r2 where r2: "run_until ''load'' interval (load_ticks wd) 0 (t_start wd 1) r1 = Some r2"
    using ret [OF assms(2)] by blast
  obtain r3 where r3: "run_until ''idle_after'' interval (after_ticks wd) 0 (t_start wd 2) r2 = Some r3"
    using ret [OF assms(3)] by blast
  have "\<exists>r. run_wrap wd interval idle_window = Some r \<and> honest_exit r"
  proof (cases "later (run_stop r1) (signal_idle wd)")
    case (Some s)
    with r1 show ?thesis
      by (cases s) (auto simp: run_wrap_def honest_exit_def signal_exit_def)
  next
    case None
    show ?thesis
    proof (cases "spawn_ok wd")
      case False
      with None r1 show ?thesis by (auto simp: run_wrap_def honest_exit_def)
    next
      case True
      have "run_wrap wd interval idle_window =
        Some (wrap_done wd r2 (if idle_window > 0 \<and> later (run_stop r2) (signal_load wd) = None then r3 else r2))"
        unfolding run_wrap_def r1 option.case None r2 r3 using True by simp
      with honest_load [OF r2, of wd] show ?thesis by blast
    qed
  qed
  then show ?thesis using honest_zero by blast
qed

definition quick_tick :: "load_end option \<Rightarrow> load_end tick" where
  "quick_tick f = \<lparr>batches = [None], tick_t = 0, labels = [], finished = f, stop = None, clock = 0\<rparr>"

definition demo_wrap :: wrap_world where
  "demo_wrap = \<lparr>idle_ticks = (\<lambda>n. quick_tick (if n < 3 then None else Some Timeout)),
     load_ticks = (\<lambda>n. quick_tick (if n < 5 then None else Some (ChildExit (- 9)))),
     after_ticks = (\<lambda>_. quick_tick (Some Timeout)), signal_idle = None, signal_load = None,
     spawn_ok = True, poll = None, final_rc = 0, t_start = (\<lambda>_. 0)\<rparr>"

theorem wrap_exit_code_witness:
  "\<exists>r. run_wrap demo_wrap (1 / 2) 10 = Some r \<and> honest_exit r
     \<and> (wr_exit r = 0 \<longrightarrow> wr_child r = Some 0 \<and> \<not> wr_timed_out r)"
proof (rule wrap_exit_code)
  show "\<exists>n. over (idle_ticks demo_wrap n)"
    by (rule exI [of _ 3]) (simp add: demo_wrap_def quick_tick_def over_def)
  show "\<exists>n. over (load_ticks demo_wrap n)"
    by (rule exI [of _ 5]) (simp add: demo_wrap_def quick_tick_def over_def)
  show "\<exists>n. over (after_ticks demo_wrap n)"
    by (rule exI [of _ 0]) (simp add: demo_wrap_def quick_tick_def over_def)
qed

end
