(* ===== verification/Power_Collect.thy ===== *)
theory Power_Collect
  imports Power_Sampler
begin

text \<open>
  The power sampler, third part: opening and probing the sensors (NVML, nvidia-smi, RAPL), a
  tick of all collectors, the escalation from SIGTERM to SIGKILL, the watch mode and the
  command line.  The libraries and programs behind the sensors are parameters: what they
  answer is a field of a record, and an exception is a kind.
\<close>

datatype collector_exc = Collector_Error | Other_Exception

section \<open>NVML\<close>

text \<open>The library at start: whether it can be imported and initialised, the number of GPUs,
  which handles it gives, and whether it has the energy function.\<close>

record nvml =
  nvml_up :: bool
  device_count :: int
  handle_ok :: "int \<Rightarrow> bool"
  has_energy :: bool

record nvml_collector =
  nv_indices :: "int list"
  nv_energy_fn :: bool
  energy_supported :: "(int \<times> bool) list"

definition nvml_open :: "nvml \<Rightarrow> int list option \<Rightarrow> collector_exc + nvml_collector" where
  "nvml_open lib wanted =
     (if \<not> nvml_up lib then Inl Other_Exception
      else if device_count lib < 1 then Inl Collector_Error
      else
        (let indices = (case wanted of
               Some (i # js) \<Rightarrow> sorted_set (i # js) | _ \<Rightarrow> [0..device_count lib - 1]) in
         if list_ex (\<lambda>i. device_count lib \<le> i) indices then Inl Collector_Error
         else if \<not> list_all (handle_ok lib) indices then Inl Other_Exception
         else Inr \<lparr>nv_indices = indices, nv_energy_fn = has_energy lib,
                   energy_supported = map (\<lambda>i. (i, has_energy lib)) indices\<rparr>))"

text \<open>What \<open>probe\<close> finds for a GPU: a missing name or identifier is an exception that it
  does not catch; a missing limit is left out of the entry.  Limits are in milliwatts.\<close>

record gpu_static =
  st_name :: "string option"
  st_uuid :: "string option"
  st_limit :: "real option"
  st_default :: "real option"
  st_energy :: bool

record gpu_entry =
  en_key :: string
  en_index :: int
  en_name :: "string option"
  en_uuid :: "string option"
  en_limit :: "real option"
  en_default :: "real option"
  en_counter :: "bool option"

definition gpu_key :: "int \<Rightarrow> string" where
  "gpu_key index = ''gpu'' @ show_int index"

fun nvml_probe_gpus ::
  "(int \<Rightarrow> gpu_static) \<Rightarrow> int list \<Rightarrow> nvml_collector \<Rightarrow> collector_exc + (gpu_entry list \<times> nvml_collector)" where
  "nvml_probe_gpus s [] c = Inr ([], c)"
| "nvml_probe_gpus s (i # js) c =
     (let g = s i;
          c1 = (if nv_energy_fn c \<and> \<not> st_energy g
                then c\<lparr>energy_supported := dict_set (energy_supported c) i False\<rparr> else c) in
      if st_name g = None \<or> st_uuid g = None then Inl Other_Exception
      else res_bind (nvml_probe_gpus s js c1) (\<lambda>(es, c2).
        Inr (\<lparr>en_key = gpu_key i, en_index = i, en_name = st_name g, en_uuid = st_uuid g,
              en_limit = map_option (\<lambda>x. x / 1000) (st_limit g),
              en_default = map_option (\<lambda>x. x / 1000) (st_default g),
              en_counter = (if nv_energy_fn c then Some (st_energy g) else None)\<rparr> # es, c2)))"

definition nvml_probe ::
  "(int \<Rightarrow> gpu_static) \<Rightarrow> string option \<Rightarrow> nvml_collector
   \<Rightarrow> collector_exc + (string \<times> gpu_entry list \<times> nvml_collector)" where
  "nvml_probe s driver c =
     res_bind (nvml_probe_gpus s (nv_indices c) c) (\<lambda>(es, c').
       case driver of None \<Rightarrow> Inl Other_Exception | Some d \<Rightarrow> Inr (d, es, c'))"

text \<open>One reading of a GPU; the power in milliwatts, the memory in bytes.  The memory clock is left
  out: it is recorded, but nothing reads it.  The code takes the
  exception for an unsupported counter from the library by name; where the library has no
  class of that name, every NVML error counts as unsupported (\<open>named\<close> is then false).\<close>

datatype energy_read = Energy real | Energy_Not_Supported | Energy_Fails

record gpu_read =
  rd_power :: "real option"
  rd_util :: "real option"
  rd_temp :: "real option"
  rd_memory :: "real option"
  rd_clock :: "real option"
  rd_energy :: energy_read

definition energy_gone :: "bool \<Rightarrow> energy_read \<Rightarrow> bool" where
  "energy_gone named e =
     (case e of Energy _ \<Rightarrow> False | Energy_Not_Supported \<Rightarrow> True | Energy_Fails \<Rightarrow> \<not> named)"

definition nvml_device :: "bool \<Rightarrow> gpu_read \<Rightarrow> int \<Rightarrow> nvml_collector \<Rightarrow> device \<times> nvml_collector" where
  "nvml_device named r i c =
     (let asked = (nv_energy_fn c \<and> map_of (energy_supported c) i = Some True) in
      (\<lparr>dev_key = gpu_key i, dev_group = Gpu, w = map_option (\<lambda>x. x / 1000) (rd_power r),
        mj = (case rd_energy r of Energy e \<Rightarrow> (if asked then Some e else None) | _ \<Rightarrow> None),
        util = rd_util r, temp = rd_temp r, sm_mhz = rd_clock r,
        mem_mib = map_option (\<lambda>b. b / 2 ^ 20) (rd_memory r)\<rparr>,
       if asked \<and> energy_gone named (rd_energy r)
       then c\<lparr>energy_supported := dict_set (energy_supported c) i False\<rparr> else c))"

fun nvml_devices ::
  "bool \<Rightarrow> (int \<Rightarrow> gpu_read) \<Rightarrow> int list \<Rightarrow> nvml_collector \<Rightarrow> device list \<times> nvml_collector" where
  "nvml_devices named reads [] c = ([], c)"
| "nvml_devices named reads (i # js) c =
     (case nvml_device named (reads i) i c of
        (d, c1) \<Rightarrow> (case nvml_devices named reads js c1 of (ds, c2) \<Rightarrow> (d # ds, c2)))"

text \<open>The sample is dropped when no GPU yields its power.\<close>

definition nvml_sample ::
  "bool \<Rightarrow> (int \<Rightarrow> gpu_read) \<Rightarrow> nvml_collector \<Rightarrow> device list option \<times> nvml_collector" where
  "nvml_sample named reads c =
     (case nvml_devices named reads (nv_indices c) c of
        (ds, c') \<Rightarrow>
          (if length (filter (\<lambda>d. w d = None) ds) = length (nv_indices c) then None else Some ds, c'))"

section \<open>nvidia-smi\<close>

datatype smi_reply = Smi_Out string | Smi_Exit | Smi_Raises   \<comment> \<open>output, non-zero exit, timeout or OSError\<close>

record smi =
  on_path :: bool
  ask :: "string \<Rightarrow> smi_reply"          \<comment> \<open>by the fields of the query\<close>

definition static_fields :: "string list" where
  "static_fields = [''index,name,uuid,power.limit,power.default_limit,driver_version'',
     ''index,name,uuid,power.limit,driver_version'', ''index,name,uuid'']"

definition power_fields :: "string list" where
  "power_fields = [''power.draw.average'', ''power.draw'']"

fun probe_power_field :: "(string \<Rightarrow> smi_reply) \<Rightarrow> string list \<Rightarrow> collector_exc + string" where
  "probe_power_field query [] = Inl Collector_Error"
| "probe_power_field query (f # fs) =
     (case query f of
        Smi_Raises \<Rightarrow> Inl Other_Exception
      | Smi_Exit \<Rightarrow> probe_power_field query fs
      | Smi_Out out \<Rightarrow>
          (case map_res smi_num (concat (map (split_on (CHR '','')) (splitlines out))) of
             Inl e \<Rightarrow> Inl Other_Exception
           | Inr vs \<Rightarrow> (if list_ex (\<lambda>v. v \<noteq> None) vs then Inr f else probe_power_field query fs)))"

definition static_rows :: "string \<Rightarrow> string \<Rightarrow> (string \<times> string) list list" where
  "static_rows columns out =
     map (\<lambda>line. zip (split_on (CHR '','') columns) (map strip (split_on (CHR '','') line)))
       (filter (\<lambda>line. strip line \<noteq> []) (splitlines out))"

fun run_static :: "(string \<Rightarrow> smi_reply) \<Rightarrow> string list \<Rightarrow> collector_exc + (string \<times> string) list list" where
  "run_static query [] = Inl Collector_Error"
| "run_static query (f # fs) =
     (case query f of
        Smi_Raises \<Rightarrow> Inl Other_Exception
      | Smi_Exit \<Rightarrow> run_static query fs
      | Smi_Out out \<Rightarrow> Inr (static_rows f out))"

fun index_rows ::
  "(string \<times> string) list list \<Rightarrow> (int \<times> (string \<times> string) list) list
   \<Rightarrow> collector_exc + (int \<times> (string \<times> string) list) list" where
  "index_rows [] acc = Inr acc"
| "index_rows (row # rows) acc =
     (case map_of row ''index'' of
        None \<Rightarrow> index_rows rows acc
      | Some s \<Rightarrow> (case parse_int s of
                    None \<Rightarrow> Inl Other_Exception
                  | Some i \<Rightarrow> index_rows rows (dict_set acc i row)))"

record smi_collector =
  power_field :: string
  by_index :: "(int \<times> (string \<times> string) list) list"
  smi_indices :: "int list"

definition smi_query :: "smi_collector \<Rightarrow> string" where
  "smi_query c = ''index,'' @ power_field c @ '',utilization.gpu,memory.used,temperature.gpu,clocks.sm,clocks.mem''"

definition smi_open :: "smi \<Rightarrow> int list option \<Rightarrow> collector_exc + smi_collector" where
  "smi_open tool wanted =
     (if \<not> on_path tool then Inl Collector_Error
      else res_bind (probe_power_field (ask tool) power_fields) (\<lambda>field.
           res_bind (run_static (ask tool) static_fields) (\<lambda>rows.
           res_bind (index_rows rows []) (\<lambda>known.
             if known = [] then Inl Collector_Error
             else
               (let indices = (case wanted of
                      Some (i # js) \<Rightarrow> sorted_set (i # js) | _ \<Rightarrow> sort (map fst known)) in
                if list_ex (\<lambda>i. map_of known i = None) indices then Inl Collector_Error
                else Inr \<lparr>power_field = field, by_index = known, smi_indices = indices\<rparr>)))))"

text \<open>The entry of an index; the default limit only where the query had it.\<close>

definition smi_entry :: "smi_collector \<Rightarrow> int \<Rightarrow> py_exc + gpu_entry" where
  "smi_entry c i =
     (case map_of (by_index c) i of
        None \<Rightarrow> Inl KeyError
      | Some row \<Rightarrow>
          (let field = (\<lambda>f. case map_of row f of None \<Rightarrow> [] | Some s \<Rightarrow> s) in
           res_bind (smi_num (field ''power.limit'')) (\<lambda>limit.
           res_bind (smi_num (field ''power.default_limit'')) (\<lambda>default.
             Inr \<lparr>en_key = gpu_key i, en_index = i, en_name = map_of row ''name'', en_uuid = map_of row ''uuid'',
               en_limit = limit, en_default = default, en_counter = Some False\<rparr>))))"

definition smi_probe :: "smi_collector \<Rightarrow> py_exc + (string option \<times> string \<times> gpu_entry list)" where
  "smi_probe c =
     res_bind (map_res (smi_entry c) (smi_indices c)) (\<lambda>es.
       Inr (case by_index c of [] \<Rightarrow> None | (_, row) # _ \<Rightarrow> map_of row ''driver_version'', power_field c, es))"

section \<open>RAPL\<close>

text \<open>A directory of the power cap interface; an unreadable name or range is missing.\<close>

record powercap =
  pc_base :: string
  pc_energy :: bool
  pc_name :: "string option"
  pc_range :: "real option"

definition domain_name :: "powercap \<Rightarrow> string" where
  "domain_name p =
     (case pc_name p of None \<Rightarrow> pc_base p | Some s \<Rightarrow> (if strip s = [] then pc_base p else strip s))"

definition rapl_domain :: "powercap \<Rightarrow> domain" where
  "rapl_domain p =
     \<lparr>dom_key = ''sys-'' @ lower (sanitize_label (domain_name p)),
      max_range_uj = (case pc_range p of None \<Rightarrow> 2 ^ 44 | Some r \<Rightarrow> r)\<rparr>"

definition rapl_open :: "powercap list \<Rightarrow> domain list" where
  "rapl_open entries = map rapl_domain (filter pc_energy entries)"

section \<open>All collectors\<close>

datatype gpu_collector = Nvml nvml_collector | Smi smi_collector

record collectors =
  gpu_side :: gpu_collector
  rapl_domains :: "domain list"
  rapl_previous :: "(string \<times> real \<times> real) list"

text \<open>Without domains there is no system collector.\<close>

definition default_collector_factory ::
  "nvml \<Rightarrow> smi \<Rightarrow> powercap list \<Rightarrow> int list option \<Rightarrow> collector_exc + collectors" where
  "default_collector_factory lib tool entries wanted =
     res_bind (case nvml_open lib wanted of
         Inr c \<Rightarrow> Inr (Nvml c)
       | Inl _ \<Rightarrow> (case smi_open tool wanted of Inr c \<Rightarrow> Inr (Smi c) | Inl _ \<Rightarrow> Inl Collector_Error))
       (\<lambda>g. Inr \<lparr>gpu_side = g, rapl_domains = rapl_open entries, rapl_previous = []\<rparr>)"

text \<open>What the sensors yield during one tick.\<close>

record outside =
  nvml_reads :: "int \<Rightarrow> gpu_read"
  smi_output :: "string option"
  rapl_now :: real
  rapl_reads :: "nat \<Rightarrow> real option"

definition collect_gpu :: "bool \<Rightarrow> outside \<Rightarrow> gpu_collector \<Rightarrow> device list option \<times> gpu_collector" where
  "collect_gpu named x g =
     (case g of
        Nvml c \<Rightarrow> (case nvml_sample named (nvml_reads x) c of (b, c') \<Rightarrow> (b, Nvml c'))
      | Smi c \<Rightarrow> (case smi_sample (smi_output x) (smi_indices c) of Inl _ \<Rightarrow> None | Inr b \<Rightarrow> b, g))"

definition collect_tick :: "bool \<Rightarrow> outside \<Rightarrow> collectors \<Rightarrow> device list option list \<times> collectors" where
  "collect_tick named x cs =
     (case collect_gpu named x (gpu_side cs) of (b, g) \<Rightarrow>
        (if rapl_domains cs = [] then ([b], cs\<lparr>gpu_side := g\<rparr>)
         else (case rapl_sample (rapl_previous cs) (rapl_now x)
                  (zip (rapl_domains cs) (map (rapl_reads x) [0..<length (rapl_domains cs)])) of
                 (b', prev) \<Rightarrow> ([b, b'], cs\<lparr>gpu_side := g, rapl_previous := prev\<rparr>))))"

fun collect_all :: "bool \<Rightarrow> outside list \<Rightarrow> collectors \<Rightarrow> device list option list list \<times> collectors" where
  "collect_all named [] cs = ([], cs)"
| "collect_all named (x # xs) cs =
     (case collect_tick named x cs of (bs, cs1) \<Rightarrow> (case collect_all named xs cs1 of (r, cs2) \<Rightarrow> (bs # r, cs2)))"

section \<open>Stopping a child\<close>

datatype kill_signal = Send_Term | Send_Kill

definition kill_grace :: real where "kill_grace = 5"

text \<open>The wait after SIGTERM: the n-th turn reads the clock and asks whether the child is gone.\<close>

partial_function (option) grace_wait :: "real \<Rightarrow> (nat \<Rightarrow> real) \<Rightarrow> (nat \<Rightarrow> bool) \<Rightarrow> nat \<Rightarrow> nat option" where
  "grace_wait deadline now gone n =
     (if now n < deadline \<and> \<not> gone n then grace_wait deadline now gone (Suc n) else Some n)"

definition terminate_group :: "real \<Rightarrow> (nat \<Rightarrow> real) \<Rightarrow> (nat \<Rightarrow> bool) \<Rightarrow> kill_signal list option" where
  "terminate_group t now gone =
     map_option (\<lambda>n. Send_Term # (if gone (Suc n) then [] else [Send_Kill])) (grace_wait (t + kill_grace) now gone 0)"

section \<open>Watching, and the command line\<close>

definition run_watch :: "real \<Rightarrow> (nat \<Rightarrow> unit tick) \<Rightarrow> real \<Rightarrow> (int \<times> unit sampler_run) option" where
  "run_watch interval ticks t = map_option (Pair 0) (run_until ''watch'' interval ticks 0 t fresh_run)"

definition parse_gpu_set :: "string \<Rightarrow> py_exc + int list" where
  "parse_gpu_set spec =
     map_res (\<lambda>item. case parse_int item of None \<Rightarrow> Inl ValueError | Some i \<Rightarrow> Inr i)
       (filter (\<lambda>item. strip item \<noteq> []) (split_on (CHR '','') spec))"

definition split_command :: "string list \<Rightarrow> string list \<times> string list option" where
  "split_command raw =
     (let before = takeWhile (\<lambda>x. x \<noteq> ''--'') raw in
      (before, if length before < length raw then Some (drop (Suc (length before)) raw) else None))"

record pw_args =
  pw_watch :: bool
  pw_interval :: real
  pw_idle :: real
  pw_timeout :: real
  pw_duration :: real
  pw_gpu :: "string option"
  pw_markers_ok :: bool
  pw_rechart :: bool
  pw_list :: bool

datatype pw_mode = Usage_Error | Rechart | List_Gpus | Wrap "string list" | Watch

definition min_interval :: real where "min_interval = 5 / 100"
definition max_interval :: real where "max_interval = 30"

text \<open>The mode that is run, with the set of GPUs; a usage error exits with 2.\<close>

definition pw_main :: "pw_args \<Rightarrow> string list option \<Rightarrow> pw_mode \<times> int list option" where
  "pw_main a command =
     (let gpus = (case pw_gpu a of None \<Rightarrow> Inr None | Some s \<Rightarrow>
            (case parse_gpu_set s of Inl e \<Rightarrow> Inl e | Inr is \<Rightarrow> if is = [] then Inl ValueError else Inr (Some is)));
          usage = (pw_interval a < min_interval \<or> max_interval < pw_interval a \<or> pw_idle a < 0 \<or> 600 < pw_idle a
            \<or> pw_timeout a < 0 \<or> pw_duration a < 0) in
      if usage then (Usage_Error, None)
      else (case gpus of
              Inl _ \<Rightarrow> (Usage_Error, None)
            | Inr g \<Rightarrow>
                ((if \<not> pw_markers_ok a then Usage_Error
                  else if pw_rechart a then Rechart
                  else if pw_list a then List_Gpus
                  else (case command of
                          Some c \<Rightarrow> (if pw_watch a \<or> c = [] then Usage_Error else Wrap c)
                        | None \<Rightarrow> (if pw_watch a then Watch else Usage_Error))), g)))"

section \<open>Thinning a curve\<close>

definition mean_point :: "(real \<times> real) list \<Rightarrow> real \<times> real" where
  "mean_point chunk = (sum_list (map fst chunk) / of_nat (length chunk), sum_list (map snd chunk) / of_nat (length chunk))"

definition decimate :: "nat \<Rightarrow> (real \<times> real) list \<Rightarrow> (real \<times> real) list" where
  "decimate limit points =
     (let n = length points; bucket = (n + limit - 1) div limit in
      if n \<le> limit then points
      else map (\<lambda>i. mean_point (take bucket (drop (i * bucket) points))) [0..<(n + bucket - 1) div bucket])"

lemma ceil_div_le_iff: "0 < b \<Longrightarrow> (n + b - 1) div b \<le> (k :: nat) \<longleftrightarrow> n \<le> k * b"
  by (cases n) (simp_all add: Suc_le_eq div_less_iff_less_mult)

lemma decimate_bounded:
  assumes "0 < limit"
  shows "length (decimate limit points) \<le> limit"
proof -
  let ?n = "length points" let ?b = "(?n + limit - 1) div limit"
  have n: "?n \<le> ?b * limit" using ceil_div_le_iff [OF assms, of ?n ?b] by simp
  then have "?n > limit \<Longrightarrow> 0 < ?b" by (cases "?b = 0") auto
  then show ?thesis using n ceil_div_le_iff [of ?b ?n limit]
    by (auto simp: decimate_def Let_def mult.commute)
qed

section \<open>The wait for a child ends\<close>

lemma grace_wait_ends:
  "deadline \<le> now (n + k) \<or> gone (n + k) \<Longrightarrow> \<exists>m\<ge>n. grace_wait deadline now gone n = Some m"
proof (induction k arbitrary: n)
  case 0
  then show ?case by (subst grace_wait.simps) auto
next
  case (Suc k)
  then have "deadline \<le> now (Suc n + k) \<or> gone (Suc n + k)" by simp
  from Suc.IH [OF this] obtain m where "m \<ge> Suc n" "grace_wait deadline now gone (Suc n) = Some m" by blast
  then show ?case by (subst grace_wait.simps) (auto intro: exI [of _ m])
qed

lemma grace_wait_stop: "grace_wait deadline now gone n = Some m \<Longrightarrow> deadline \<le> now m \<or> gone m"
proof (rule grace_wait.raw_induct [where P = "\<lambda>dl nw g n m. dl \<le> nw m \<or> g m"])
  fix grace and dl :: real and nw :: "nat \<Rightarrow> real" and g :: "nat \<Rightarrow> bool" and n m :: nat
  assume "\<And>dl nw g n m. grace dl nw g n = Some m \<Longrightarrow> dl \<le> nw m \<or> g m"
    and "(if nw n < dl \<and> \<not> g n then grace dl nw g (Suc n) else Some n) = Some m"
  then show "dl \<le> nw m \<or> g m" by (auto simp: not_less split: if_splits)
qed

text \<open>SIGKILL is sent only after the grace period, to a child that is still there.\<close>

lemma kill_after_grace:
  assumes "\<exists>n. t + kill_grace \<le> now n \<or> gone n" and "\<And>n. gone n \<Longrightarrow> gone (Suc n)"
  shows "\<exists>sigs. terminate_group t now gone = Some sigs
    \<and> (Send_Kill \<in> set sigs \<longrightarrow> (\<exists>n. t + kill_grace \<le> now n \<and> \<not> gone (Suc n)))"
proof -
  obtain m where m: "grace_wait (t + kill_grace) now gone 0 = Some m"
    using assms(1) grace_wait_ends [of "t + kill_grace" now 0 _ gone] by force
  with grace_wait_stop [OF m] assms(2) show ?thesis by (auto simp: terminate_group_def)
qed

section \<open>Two counters of one name\<close>

text \<open>Two domains with the same name have the same key, and the second one finds the
  reading of the first: it never has a power.\<close>

lemma same_name_no_power:
  assumes "dom_key d = dom_key e"
  shows "\<exists>x y. fst (rapl_sample previous t [(d, Some a), (e, Some b)]) = Some [x, y] \<and> w y = None"
  using assms by (simp add: rapl_sample_def rapl_watts_def)

text \<open>Without a class for the unsupported counter, one failing read switches the counter off.\<close>

lemma transient_error_disables:
  assumes "rd_energy r = Energy_Fails"
  shows "map_of (energy_supported (snd (nvml_device False r i c))) i \<noteq> Some True \<or> \<not> nv_energy_fn c"
  using assms by (auto simp: nvml_device_def energy_gone_def Let_def)

section \<open>The devices of a run\<close>

definition gpu_indices :: "gpu_collector \<Rightarrow> int list" where
  "gpu_indices g = (case g of Nvml c \<Rightarrow> nv_indices c | Smi c \<Rightarrow> smi_indices c)"

definition counter_on :: "gpu_collector \<Rightarrow> int \<Rightarrow> bool" where
  "counter_on g i = (case g of Nvml c \<Rightarrow> nv_energy_fn c \<and> map_of (energy_supported c) i = Some True | Smi _ \<Rightarrow> False)"

definition device_lists :: "collectors \<Rightarrow> string list list" where
  "device_lists cs = map gpu_key (gpu_indices (gpu_side cs))
     # (if rapl_domains cs = [] then [] else [map dom_key (rapl_domains cs)])"

text \<open>A batch is dropped or lists exactly these devices.\<close>

definition lists_devices :: "string list \<Rightarrow> device list option \<Rightarrow> bool" where
  "lists_devices keys b = (case b of None \<Rightarrow> True | Some ds \<Rightarrow> map dev_key ds = keys)"

lemma nvml_devices_kept:
  "nvml_devices named reads is c = (ds, c') \<Longrightarrow> map dev_key ds = map gpu_key is
    \<and> nv_indices c' = nv_indices c \<and> nv_energy_fn c' = nv_energy_fn c
    \<and> (\<forall>i. map_of (energy_supported c') i = Some True \<longrightarrow> map_of (energy_supported c) i = Some True)"
proof (induction "is" arbitrary: ds c c')
  case (Cons i js)
  obtain d c1 where d: "nvml_device named (reads i) i c = (d, c1)" by fastforce
  obtain ds2 where r: "nvml_devices named reads js c1 = (ds2, c')" "ds = d # ds2"
    using Cons.prems d by (auto split: prod.splits)
  have c1: "dev_key d = gpu_key i \<and> nv_indices c1 = nv_indices c \<and> nv_energy_fn c1 = nv_energy_fn c
      \<and> (\<forall>j. map_of (energy_supported c1) j = Some True \<longrightarrow> map_of (energy_supported c) j = Some True)"
    using d by (auto simp: nvml_device_def Let_def split: if_splits)
  then show ?case using Cons.IH [OF r(1)] r(2) by auto
qed auto

lemma collect_gpu_kept:
  assumes "collect_gpu named x g = (b, g')"
  shows "lists_devices (map gpu_key (gpu_indices g)) b \<and> gpu_indices g' = gpu_indices g
    \<and> (counter_on g' i \<longrightarrow> counter_on g i)"
proof (cases g)
  case (Nvml c)
  obtain ds c' where "nvml_devices named (nvml_reads x) (nv_indices c) c = (ds, c')" by fastforce
  with nvml_devices_kept [OF this] assms Nvml show ?thesis
    by (auto simp: collect_gpu_def nvml_sample_def lists_devices_def gpu_indices_def counter_on_def split: if_splits)
next
  case (Smi c)
  have *: "dev_key d = gpu_key i" if "smi_device rows i = Inr d" for rows i d
    using that by (auto simp: smi_device_def gpu_key_def Let_def split: option.splits sum.splits)
  have **: "map dev_key ds = map gpu_key is" if "map_res (smi_device rows) is = Inr ds" for rows "is" ds
    using map_res_length [OF that] map_res_nth [OF that] *
    by - (rule nth_equalityI, simp_all, blast)
  have "lists_devices (map gpu_key (smi_indices c)) b" if "smi_sample out (smi_indices c) = Inr b" for out b
    using that by (auto simp: smi_sample_def lists_devices_def dest: ** split: option.splits sum.splits if_splits)
  moreover have "lists_devices keys None" for keys by (simp add: lists_devices_def)
  ultimately show ?thesis using assms Smi
    by (auto simp: collect_gpu_def gpu_indices_def counter_on_def split: sum.splits)
qed

lemma rapl_loop_keys:
  "rapl_loop previous t rs acc = (Some ds, p) \<Longrightarrow> map dev_key ds = map dev_key acc @ map (dom_key \<circ> fst) rs"
  by (induction previous t rs acc rule: rapl_loop.induct) (auto split: option.splits)

lemma collect_tick_kept:
  assumes "collect_tick named x cs = (bs, cs')"
  shows "list_all2 lists_devices (device_lists cs) bs \<and> device_lists cs' = device_lists cs
    \<and> (counter_on (gpu_side cs') i \<longrightarrow> counter_on (gpu_side cs) i)"
proof -
  obtain b g where g: "collect_gpu named x (gpu_side cs) = (b, g)" by fastforce
  let ?rs = "zip (rapl_domains cs) (map (rapl_reads x) [0..<length (rapl_domains cs)])"
  have "map (dom_key \<circ> fst) ?rs = map dom_key (rapl_domains cs)" by (simp flip: map_map)
  then have "lists_devices (map dom_key (rapl_domains cs)) (fst (rapl_sample (rapl_previous cs) (rapl_now x) ?rs))"
    using rapl_loop_keys [of "rapl_previous cs" "rapl_now x" ?rs "[]"]
    by (cases "rapl_loop (rapl_previous cs) (rapl_now x) ?rs []")
       (auto simp: rapl_sample_def lists_devices_def split: option.splits)
  then show ?thesis using assms g collect_gpu_kept [OF g, of i]
    by (auto simp: collect_tick_def device_lists_def split: prod.splits if_splits)
qed

lemma collect_all_kept:
  "collect_all named xs cs = (r, cs') \<Longrightarrow> list_all (list_all2 lists_devices (device_lists cs)) r
    \<and> length r = length xs \<and> device_lists cs' = device_lists cs
    \<and> (counter_on (gpu_side cs') i \<longrightarrow> counter_on (gpu_side cs) i)"
proof (induction xs arbitrary: cs r)
  case (Cons x xs)
  obtain bs cs1 where c: "collect_tick named x cs = (bs, cs1)" by fastforce
  obtain r2 where r: "collect_all named xs cs1 = (r2, cs')" "r = bs # r2"
    using Cons.prems c by (auto split: prod.splits)
  show ?case using collect_tick_kept [OF c, of i] Cons.IH [OF r(1)] r(2) by auto
qed simp

lemma opened_indices:
  assumes "default_collector_factory lib tool entries wanted = Inr cs"
  shows "sorted (gpu_indices (gpu_side cs)) \<and> distinct (gpu_indices (gpu_side cs))
    \<and> gpu_indices (gpu_side cs) \<noteq> [] \<and> (wanted \<noteq> None \<and> the wanted \<noteq> [] \<longrightarrow> set (gpu_indices (gpu_side cs)) = set (the wanted))"
proof -
  have rows: "distinct (map fst acc) \<Longrightarrow> index_rows rs acc = Inr known \<Longrightarrow> distinct (map fst known)" for rs acc known
    by (induction rs acc rule: index_rows.induct) (auto split: option.splits)
  have srt: "sort ys = [] \<longleftrightarrow> ys = []" for ys :: "int list" by (metis set_sort set_empty)
  consider c where "nvml_open lib wanted = Inr c" "gpu_side cs = Nvml c"
    | c where "smi_open tool wanted = Inr c" "gpu_side cs = Smi c"
    using assms by (auto simp: default_collector_factory_def res_bind_Inr split: sum.splits)
  then show ?thesis
  proof cases
    case 1
    then show ?thesis
      by (auto simp: nvml_open_def gpu_indices_def Let_def split: if_splits option.splits list.splits)
  next
    case 2
    then show ?thesis using rows [of "[]"]
      by (auto simp: smi_open_def gpu_indices_def Let_def res_bind_Inr srt simp del: distinct_map
          split: if_splits option.splits list.splits)
  qed
qed

section \<open>Two GPUs for two ticks\<close>

definition two_gpus :: nvml where
  "two_gpus = \<lparr>nvml_up = True, device_count = 2, handle_ok = (\<lambda>_. True), has_energy = True\<rparr>"

definition package :: powercap where
  "package = \<lparr>pc_base = ''intel-rapl:0'', pc_energy = True, pc_name = Some ''package-0'', pc_range = None\<rparr>"

definition no_smi :: smi where
  "no_smi = \<lparr>on_path = False, ask = (\<lambda>_. Smi_Raises)\<rparr>"

definition second_fails :: outside where
  "second_fails =
     \<lparr>nvml_reads = (\<lambda>i. \<lparr>rd_power = (if i = 0 then Some 60000 else None), rd_util = Some 90, rd_temp = None,
        rd_memory = None, rd_clock = None, rd_energy = (if i = 0 then Energy 5 else Energy_Fails)\<rparr>),
      smi_output = None, rapl_now = 1, rapl_reads = (\<lambda>_. Some 100)\<rparr>"

definition opened :: collectors where
  "opened = (case default_collector_factory two_gpus no_smi [package] (Some [1, 0]) of Inr cs \<Rightarrow> cs)"

lemma opens: "default_collector_factory two_gpus no_smi [package] (Some [1, 0]) = Inr opened"
  by code_simp


lemma second_counter_off: "counter_on (gpu_side (snd (collect_tick False second_fails opened))) 1 = False"
  by code_simp

end
