(* ===== verification/Exl3_Moe.thy ===== *)
theory Exl3_Moe
  imports Py_Text "HOL-Library.Multiset"
begin

text \<open>
  The execution of the routed experts (\<open>src/vllm-exl3/overlay/exl3.py\<close>): from the router's
  choice of experts per token to the weighted sum of the experts' outputs.

  A tensor is a list of rows of reals.  What lies outside the repository is a field of the
  record \<open>backend\<close>: the rounding to half precision, the activation functions, the sort of the
  routing (torch), the packed linear layer and the CUDA kernels of \<open>exllamav3_ext\<close>, with
  \<open>None\<close> for a symbol that the image lacks.  Streams, devices and strides are left out, and
  so are log lines.  The module's global dictionaries are the record \<open>exl3\<close>; a function that
  mutates them returns the new state with its result, an exception included.

  \<open>apply_exl3_experts\<close> runs either a plain loop over the experts or one fused launch, whose
  kernel skips the experts with more rows than its scratch holds; those are run by row tiles
  or by one of four fallback tiers, which the environment selects.
\<close>

section \<open>Environment\<close>

type_synonym environ = "(string \<times> string) list"

definition env_get :: "environ \<Rightarrow> string \<Rightarrow> string \<Rightarrow> string" where
  "env_get env k d = (case map_of env k of Some v \<Rightarrow> v | None \<Rightarrow> d)"

definition fused_moe_row_tile_enabled :: "environ \<Rightarrow> bool" where
  "fused_moe_row_tile_enabled env = (env_get env ''EXL3_MOE_ROW_TILE'' ''0'' \<noteq> ''0'')"

datatype moe_error =
    No_Experts | No_Tables | No_Fused_State | Map_Not_Pinned | No_Moe_Symbol | Bad_Int
  | No_Pipe | No_Gemm | No_Scatter | Assert_Failed | No_Key

definition temp_rows_default :: nat where "temp_rows_default = 128"

definition temp_rows_fused :: "environ \<Rightarrow> moe_error + nat" where
  "temp_rows_fused env =
     (let raw = strip (env_get env ''EXL3_TEMP_ROWS_FUSED'' []) in
      if raw = [] then Inr temp_rows_default
      else (case parse_int raw of None \<Rightarrow> Inl Bad_Int | Some n \<Rightarrow> Inr (nat (max 1 n))))"

definition sorted_fat_fallback_enabled :: "environ \<Rightarrow> bool" where
  "sorted_fat_fallback_enabled env = (env_get env ''EXL3_FAT_SORTED'' ''0'' \<noteq> ''0'')"

definition batched_fat_fallback_enabled :: "environ \<Rightarrow> bool" where
  "batched_fat_fallback_enabled env = (env_get env ''EXL3_FAT_BATCHED'' ''0'' \<noteq> ''0'')"

definition fat_kernel_enabled :: "environ \<Rightarrow> bool" where
  "fat_kernel_enabled env = (env_get env ''EXL3_FAT_KERNEL'' ''0'' \<noteq> ''0'')"

definition fat_pipeline_enabled :: "environ \<Rightarrow> bool" where
  "fat_pipeline_enabled env = (env_get env ''EXL3_FAT_PIPELINE'' ''0'' \<noteq> ''0'')"

definition fat_expert_log_enabled :: "environ \<Rightarrow> bool" where
  "fat_expert_log_enabled env = (env_get env ''EXL3_FAT_EXPERT_LOG'' ''1'' \<noteq> ''0'')"

definition fused_moe_enabled :: "environ \<Rightarrow> bool" where
  "fused_moe_enabled env = (env_get env ''EXL3_FUSED_MOE'' ''1'' \<noteq> ''0'')"

section \<open>Tensors, packed layers and the backend\<close>

type_synonym vec = "real list"
type_synonym mat = "vec list"
type_synonym tiles = "int list list list"

record lin =
  trellis :: tiles
  suh :: vec
  svh :: vec
  lin_k :: nat

record pack =
  gate :: lin
  up :: lin
  down :: lin

text \<open>The kernel behind the fused launch: the experts, the clamp, the rows of its scratch, the
  number of active experts when the binding takes it, the input, the output so far, the rows
  per expert, and the sorted tokens and weights.\<close>

type_synonym moe_kernel =
  "pack list \<Rightarrow> real \<Rightarrow> nat \<Rightarrow> int option \<Rightarrow> mat \<Rightarrow> mat \<Rightarrow> nat list \<Rightarrow> nat list \<Rightarrow> vec \<Rightarrow> mat"

record backend =
  half :: "real \<Rightarrow> real"
  silu :: "real \<Rightarrow> real"
  sigmoid :: "real \<Rightarrow> real"
  cast :: "real \<Rightarrow> real"
  forward :: "lin \<Rightarrow> mat \<Rightarrow> mat"
  argsort :: "nat list \<Rightarrow> nat list"
  exl3_moe :: "moe_kernel option"
  num_active :: bool
  had_r_128 :: "mat \<Rightarrow> vec option \<Rightarrow> vec option \<Rightarrow> mat"
  reconstruct :: "tiles \<Rightarrow> nat \<Rightarrow> mat"
  hgemm :: "mat \<Rightarrow> mat \<Rightarrow> mat"
  fat_gemm :: "(mat \<Rightarrow> tiles \<Rightarrow> vec \<Rightarrow> nat \<Rightarrow> mat) option"
  fat_gemm_scatter :: "(mat \<Rightarrow> lin \<Rightarrow> mat \<Rightarrow> nat list \<Rightarrow> vec \<Rightarrow> mat) option"
  fat_gemm_pipe :: "(mat \<Rightarrow> tiles \<Rightarrow> vec \<Rightarrow> nat \<Rightarrow> mat) option"
  fat_gemm_pipe_scatter :: "(mat \<Rightarrow> lin \<Rightarrow> mat \<Rightarrow> nat list \<Rightarrow> vec \<Rightarrow> mat) option"

definition half_mat :: "backend \<Rightarrow> mat \<Rightarrow> mat" where
  "half_mat be m = map (map (half be)) m"

definition mat_width :: "mat \<Rightarrow> nat" where
  "mat_width m = (case m of [] \<Rightarrow> 0 | r # _ \<Rightarrow> length r)"

definition zeros :: "nat \<Rightarrow> nat \<Rightarrow> mat" where
  "zeros n k = replicate n (replicate k 0)"

definition slice :: "nat \<Rightarrow> nat \<Rightarrow> 'a list \<Rightarrow> 'a list" where
  "slice start n xs = take n (drop start xs)"

definition index_select :: "'a list \<Rightarrow> nat list \<Rightarrow> 'a list" where
  "index_select xs idx = map ((!) xs) idx"

definition scale_rows :: "mat \<Rightarrow> vec \<Rightarrow> mat" where
  "scale_rows rows ws = map2 (\<lambda>r w. map (\<lambda>v. v * w) r) rows ws"

text \<open>\<open>out.index_add_(0, idx, rows)\<close>.\<close>

definition add_row :: "mat \<Rightarrow> nat \<times> vec \<Rightarrow> mat" where
  "add_row out tr = (case tr of (t, r) \<Rightarrow> out[t := map2 (+) (out ! t) r])"

definition index_add :: "mat \<Rightarrow> nat list \<Rightarrow> mat \<Rightarrow> mat" where
  "index_add out idx rows = foldl add_row out (zip idx rows)"

section \<open>Routing\<close>

text \<open>The expert map: whether it has been moved to the device, and the local expert of every
  global one.\<close>

type_synonym emap = "bool \<times> int list"

definition pin_exl3_expert_map :: "emap option \<Rightarrow> emap option" where
  "pin_exl3_expert_map em = map_option (\<lambda>(pinned, table). (True, table)) em"

definition local_id :: "nat \<Rightarrow> int list option \<Rightarrow> int \<Rightarrow> nat" where
  "local_id n_local table i =
     (case table of
        None \<Rightarrow> (if i < 0 \<or> int n_local \<le> i then n_local else nat i)
      | Some m \<Rightarrow>
          (let n_global = length m;
               safe = min (max i 0) (max (int n_global - 1) 0);
               mapped = (if n_global \<noteq> 0 then m ! nat safe else int n_local) in
           if i < 0 \<or> int n_global \<le> i \<or> mapped < 0 \<or> int n_local \<le> mapped then n_local
           else nat mapped))"

definition map_topk_to_local :: "int list list \<Rightarrow> nat \<Rightarrow> emap option \<Rightarrow> moe_error + nat list" where
  "map_topk_to_local ids n_local em =
     (case em of
        None \<Rightarrow> Inr (map (local_id n_local None) (concat ids))
      | Some (pinned, table) \<Rightarrow>
          (if \<not> pinned then Inl Map_Not_Pinned
           else Inr (map (local_id n_local (Some table)) (concat ids))))"

definition topk_of :: "int list list \<Rightarrow> nat" where
  "topk_of ids = (case ids of [] \<Rightarrow> 0 | r # _ \<Rightarrow> length r)"

definition flat_token :: "nat \<Rightarrow> nat \<Rightarrow> nat list" where
  "flat_token tokens topk = concat (map (\<lambda>t. replicate topk t) [0..<tokens])"

definition expert_count :: "nat \<Rightarrow> nat list \<Rightarrow> nat list" where
  "expert_count n_exp local = foldl (\<lambda>c l. c[l := c ! l + 1]) (replicate (n_exp + 1) 0) local"

section \<open>The loop over experts\<close>

definition clamp_limit :: "real \<Rightarrow> real \<Rightarrow> real" where
  "clamp_limit limit v = min (max v (- limit)) limit"

definition swiglu :: "backend \<Rightarrow> real \<Rightarrow> mat \<Rightarrow> mat \<Rightarrow> mat" where
  "swiglu be limit g u =
     map2 (map2 (\<lambda>a b. silu be (min a limit) * clamp_limit limit b)) g u"

definition loop_mlp :: "backend \<Rightarrow> real \<Rightarrow> pack \<Rightarrow> mat \<Rightarrow> mat" where
  "loop_mlp be limit p h =
     (let g = forward be (gate p) (half_mat be h);
          u = forward be (up p) (half_mat be h);
          act = swiglu be limit g u in
      forward be (down p) (half_mat be act))"

definition loop_target :: "nat \<Rightarrow> emap option \<Rightarrow> int \<Rightarrow> nat option" where
  "loop_target n_exp em e_raw =
     (if e_raw < 0 then None
      else
        (let mapped = (case em of None \<Rightarrow> e_raw
               | Some (pinned, m) \<Rightarrow> (if e_raw < int (length m) then m ! nat e_raw else e_raw)) in
         if mapped < 0 then None
         else if int n_exp \<le> mapped then None
         else Some (nat mapped)))"

text \<open>\<open>(ids == raw).nonzero(as_tuple=True)\<close>.\<close>

definition id_hits :: "int list list \<Rightarrow> int \<Rightarrow> (nat \<times> nat) list" where
  "id_hits ids raw =
     concat (map (\<lambda>t. map (Pair t) (filter (\<lambda>k. ids ! t ! k = raw) [0..<length (ids ! t)])) [0..<length ids])"

definition loop_expert ::
  "backend \<Rightarrow> mat \<Rightarrow> int list list \<Rightarrow> mat \<Rightarrow> pack list \<Rightarrow> emap option \<Rightarrow> real \<Rightarrow> nat set option
   \<Rightarrow> mat \<Rightarrow> int \<Rightarrow> mat" where
  "loop_expert be x ids weights inners em limit only_experts out raw =
     (case loop_target (length inners) em raw of
        None \<Rightarrow> out
      | Some e \<Rightarrow>
          (if (case only_experts of None \<Rightarrow> False | Some s \<Rightarrow> e \<notin> s) then out
           else
             (let token_idx = map fst (id_hits ids raw);
                  h = index_select x token_idx;
                  rows = loop_mlp be limit (inners ! e) h;
                  scale = map (\<lambda>(t, k). weights ! t ! k) (id_hits ids raw) in
              index_add out token_idx (scale_rows rows scale))))"

definition apply_exl3_python_loop ::
  "backend \<Rightarrow> mat \<Rightarrow> int list list \<Rightarrow> mat \<Rightarrow> pack list \<Rightarrow> emap option \<Rightarrow> real \<Rightarrow> nat set option
   \<Rightarrow> mat option \<Rightarrow> mat" where
  "apply_exl3_python_loop be x ids weights inners em limit only_experts out =
     foldl (loop_expert be x ids weights inners em limit only_experts)
       (case out of Some m \<Rightarrow> m | None \<Rightarrow> zeros (length x) (mat_width x))
       (sorted_set (concat ids))"

end
