(* ===== verification/Exl3_Fused.thy ===== *)
theory Exl3_Fused
  imports Exl3_Moe
begin

text \<open>
  The fused launch and what runs the experts it skips (\<open>src/vllm-exl3/overlay/exl3.py\<close>): the
  sorted buffers, the row tiles, the sorted and the batched tier, the scratch cache, the
  diagnostics, and the choice between all of them in \<open>apply_exl3_fused_moe\<close>.
\<close>

section \<open>Module state\<close>

record fat_stats =
  s_layers :: nat
  s_fat_layers :: nat
  s_fat_experts :: nat
  s_max_rows :: nat
  s_sum_max_rows :: nat
  s_hist :: "nat list"

definition fat_bucket_edges :: "nat list" where
  "fat_bucket_edges = [16, 32, 64, 128, 256, 512, 1024, 2048]"

definition fat_tiers :: "string list" where
  "fat_tiers = [''kernel'', ''batched'', ''sorted'', ''legacy'']"

text \<open>The run-time half of \<open>_EXL3_FAT_DIAG\<close>.\<close>

record counters =
  fused_temps_allocs :: nat
  fused_temps_bytes :: nat
  fat_scratch_allocs :: nat
  fat_scratch_bytes :: nat
  fat_scratch_peak_bytes :: nat
  prefill_layer_calls :: nat
  thin_calls :: nat
  row_tile_calls :: nat
  fallback_calls :: "(string \<times> nat) list"
  fallback_reasons :: "(string \<times> nat) list"
  fat_expert_runs :: nat
  direct_calls :: nat
  scatter_calls :: nat

type_synonym scratch_key = "nat \<times> nat \<times> nat \<times> nat"

text \<open>The buffers of a scratch entry: name, dimensions and bytes per element.\<close>

type_synonym scratch = "(string \<times> nat list \<times> nat) list"

record exl3 =
  counts_of :: counters
  stats :: fat_stats
  scratch_cache :: "(scratch_key \<times> scratch) list"
  scratch_bytes :: "(scratch_key \<times> nat) list"
  temp_cache :: "(nat \<times> nat \<times> nat \<times> nat) list"

definition zero_stats :: fat_stats where
  "zero_stats = \<lparr>s_layers = 0, s_fat_layers = 0, s_fat_experts = 0, s_max_rows = 0,
     s_sum_max_rows = 0, s_hist = replicate (length fat_bucket_edges + 1) 0\<rparr>"

definition boot_counters :: counters where
  "boot_counters = \<lparr>fused_temps_allocs = 0, fused_temps_bytes = 0, fat_scratch_allocs = 0,
     fat_scratch_bytes = 0, fat_scratch_peak_bytes = 0, prefill_layer_calls = 0, thin_calls = 0,
     row_tile_calls = 0, fallback_calls = map (\<lambda>t. (t, 0)) fat_tiers, fallback_reasons = [],
     fat_expert_runs = 0, direct_calls = 0, scatter_calls = 0\<rparr>"

definition boot_exl3 :: exl3 where
  "boot_exl3 = \<lparr>counts_of = boot_counters, stats = zero_stats, scratch_cache = [],
     scratch_bytes = [], temp_cache = []\<rparr>"

definition reset_exl3_fat_diag_counters :: "exl3 \<Rightarrow> exl3" where
  "reset_exl3_fat_diag_counters st =
     (let c = counts_of st;
          resident = sum_list (map snd (scratch_bytes st)) in
      st\<lparr>counts_of := c\<lparr>prefill_layer_calls := 0, thin_calls := 0, row_tile_calls := 0,
        fat_expert_runs := 0, direct_calls := 0, scatter_calls := 0, fat_scratch_allocs := 0,
        fallback_calls := map (\<lambda>t. (t, 0)) fat_tiers, fallback_reasons := [],
        fat_scratch_bytes := resident, fat_scratch_peak_bytes := resident\<rparr>\<rparr>)"

definition reset_exl3_fat_expert_stats :: "exl3 \<Rightarrow> exl3" where
  "reset_exl3_fat_expert_stats st = st\<lparr>stats := zero_stats\<rparr>"

definition bump :: "(string \<times> nat) list \<Rightarrow> string \<Rightarrow> (string \<times> nat) list" where
  "bump d k = dict_set d k ((case map_of d k of Some n \<Rightarrow> n | None \<Rightarrow> 0) + 1)"

definition record_reason :: "string \<Rightarrow> exl3 \<Rightarrow> exl3" where
  "record_reason reason st =
     st\<lparr>counts_of := (counts_of st)\<lparr>fallback_reasons := bump (fallback_reasons (counts_of st)) reason\<rparr>\<rparr>"

fun bucket_from :: "nat \<Rightarrow> nat list \<Rightarrow> nat \<Rightarrow> nat" where
  "bucket_from i [] n = i"
| "bucket_from i (edge # es) n = (if n \<le> edge then i else bucket_from (i + 1) es n)"

definition fat_bucket :: "nat \<Rightarrow> nat" where
  "fat_bucket n = bucket_from 0 fat_bucket_edges n"

definition add_layer_stats :: "nat \<Rightarrow> nat \<Rightarrow> fat_stats \<Rightarrow> fat_stats" where
  "add_layer_stats n_fat max_rows s =
     (let b = fat_bucket max_rows;
          s1 = s\<lparr>s_layers := s_layers s + 1, s_sum_max_rows := s_sum_max_rows s + max_rows,
                 s_hist := (s_hist s)[b := s_hist s ! b + 1],
                 s_max_rows := max (s_max_rows s) max_rows\<rparr> in
      if n_fat \<noteq> 0 then s1\<lparr>s_fat_layers := s_fat_layers s1 + 1, s_fat_experts := s_fat_experts s1 + n_fat\<rparr>
      else s1)"

definition record_exl3_fat_expert_stats :: "environ \<Rightarrow> nat list \<Rightarrow> nat \<Rightarrow> exl3 \<Rightarrow> moe_error + exl3" where
  "record_exl3_fat_expert_stats env counts max_rows st =
     (case temp_rows_fused env of
        Inl e \<Rightarrow> Inl e
      | Inr cap \<Rightarrow> Inr (st\<lparr>stats := add_layer_stats (length (filter (\<lambda>n. n > cap) counts)) max_rows (stats st)\<rparr>))"

section \<open>The layer\<close>

record layer =
  inners :: "pack list"
  ptrs :: bool
  fused_temps :: "nat option"
  layer_emap :: "emap option"
  shared_w13_suh :: bool
  last_fat_fallback :: string
  last_fat_reason :: string
  last_apply :: string

definition record_exl3_fat_tier :: "string \<Rightarrow> string \<Rightarrow> layer \<Rightarrow> exl3 \<Rightarrow> layer \<times> exl3" where
  "record_exl3_fat_tier tier reason lay st =
     (let c = counts_of st in
      (lay\<lparr>last_fat_fallback := tier, last_fat_reason := reason\<rparr>,
       record_reason reason (st\<lparr>counts_of := c\<lparr>fallback_calls := bump (fallback_calls c) tier\<rparr>\<rparr>)))"

section \<open>The sorted tier\<close>

definition sorted_mlp :: "backend \<Rightarrow> real \<Rightarrow> pack \<Rightarrow> mat \<Rightarrow> mat" where
  "sorted_mlp be limit p h =
     (let g = forward be (gate p) h;
          u = forward be (up p) h;
          act = swiglu be limit g u in
      forward be (down p) (half_mat be act))"

definition count_run :: "exl3 \<Rightarrow> exl3" where
  "count_run st = st\<lparr>counts_of := (counts_of st)\<lparr>fat_expert_runs := fat_expert_runs (counts_of st) + 1\<rparr>\<rparr>"

fun sorted_fat_from ::
  "backend \<Rightarrow> mat \<Rightarrow> nat list \<Rightarrow> vec \<Rightarrow> pack list \<Rightarrow> real \<Rightarrow> nat \<Rightarrow> nat \<Rightarrow> nat \<Rightarrow> nat list
   \<Rightarrow> mat \<times> exl3 \<Rightarrow> mat \<times> exl3" where
  "sorted_fat_from be xh ts ws packs limit cap e start [] acc = acc"
| "sorted_fat_from be xh ts ws packs limit cap e start (n_rows # ns) acc =
     sorted_fat_from be xh ts ws packs limit cap (e + 1) (start + n_rows) ns
       (if n_rows \<le> cap then acc
        else
          (let token_idx = slice start n_rows ts;
               h = index_select xh token_idx;
               rows = sorted_mlp be limit (packs ! e) h in
           (index_add (fst acc) token_idx (scale_rows rows (slice start n_rows ws)),
            count_run (snd acc))))"

definition apply_exl3_sorted_fat ::
  "backend \<Rightarrow> mat \<Rightarrow> nat list \<Rightarrow> vec \<Rightarrow> nat list \<Rightarrow> pack list \<Rightarrow> real \<Rightarrow> nat \<Rightarrow> mat \<Rightarrow> exl3
   \<Rightarrow> mat \<times> exl3" where
  "apply_exl3_sorted_fat be xh ts ws counts packs limit cap out st =
     sorted_fat_from be xh ts ws packs limit cap 0 0 counts (out, st)"

section \<open>Scratch of the batched tier\<close>

fun bit_length :: "nat \<Rightarrow> nat" where
  "bit_length n = (if n = 0 then 0 else bit_length (n div 2) + 1)"

declare bit_length.simps [simp del]

definition dim0 :: "tiles \<Rightarrow> nat" where "dim0 t = length t"
definition dim1 :: "tiles \<Rightarrow> nat" where "dim1 t = (case t of [] \<Rightarrow> 0 | r # _ \<Rightarrow> length r)"
definition dim2 :: "tiles \<Rightarrow> nat" where
  "dim2 t = (case t of [] \<Rightarrow> 0 | r # _ \<Rightarrow> (case r of [] \<Rightarrow> 0 | w # _ \<Rightarrow> length w))"

definition in_features :: "lin \<Rightarrow> nat" where "in_features l = length (suh l)"
definition out_features :: "lin \<Rightarrow> nat" where "out_features l = length (svh l)"

text \<open>The buffers, for a gate layer and a number of rows.\<close>

definition scratch_buffers :: "lin \<Rightarrow> nat \<Rightarrow> scratch" where
  "scratch_buffers g capacity =
     (let hidden = in_features g;
          inner = out_features g;
          in_tiles = dim0 (trellis g);
          out_tiles = dim1 (trellis g);
          k_words = dim2 (trellis g) in
      [(''packed13'', [in_tiles, 2 * out_tiles, k_words], 2), (''svh13'', [2 * inner], 2),
       (''w13'', [hidden, 2 * inner], 2), (''w2'', [inner, hidden], 2),
       (''h'', [capacity, hidden], 2), (''h13'', [capacity, hidden], 2),
       (''gate_up'', [capacity, 2 * inner], 4), (''act'', [capacity, inner], 4),
       (''act_h'', [capacity, inner], 2), (''h2'', [capacity, inner], 2),
       (''down'', [capacity, hidden], 4)])"

definition buffer_rows :: "scratch \<Rightarrow> string \<Rightarrow> nat" where
  "buffer_rows s name = (case map_of s name of Some (d # _, b) \<Rightarrow> d | _ \<Rightarrow> 0)"

definition buffer_bytes :: "scratch \<Rightarrow> nat" where
  "buffer_bytes s = sum_list (map (\<lambda>(name, dims, b). prod_list dims * b) s)"

definition scratch_key_of :: "lin \<Rightarrow> scratch_key" where
  "scratch_key_of g = (in_features g, out_features g, lin_k g, dim2 (trellis g))"

definition configured_rows :: "environ \<Rightarrow> moe_error + int" where
  "configured_rows env =
     (let raw = env_get env ''EXL3_FAT_SCRATCH_ROWS'' (env_get env ''MAX_NUM_BATCHED_TOKENS'' ''0'') in
      if raw = [] then Inr 0
      else (case parse_int raw of None \<Rightarrow> Inl Bad_Int | Some n \<Rightarrow> Inr n))"

definition scratch_capacity :: "nat \<Rightarrow> int \<Rightarrow> nat" where
  "scratch_capacity rows configured =
     (let needed = nat (max (max 256 (int rows)) configured) in 2 ^ bit_length (needed - 1))"

definition fat_scratch :: "environ \<Rightarrow> nat \<Rightarrow> lin \<Rightarrow> exl3 \<Rightarrow> exl3 \<times> (moe_error + scratch)" where
  "fat_scratch env rows g st =
     (case configured_rows env of
        Inl e \<Rightarrow> (st, Inl e)
      | Inr configured \<Rightarrow>
          (let key = scratch_key_of g;
               fresh = scratch_buffers g (scratch_capacity rows configured);
               bytes = dict_set (scratch_bytes st) key (buffer_bytes fresh);
               total = sum_list (map snd bytes);
               c = counts_of st;
               grown = st\<lparr>scratch_cache := dict_set (scratch_cache st) key fresh, scratch_bytes := bytes,
                 counts_of := c\<lparr>fat_scratch_allocs := fat_scratch_allocs c + 1,
                   fat_scratch_bytes := total,
                   fat_scratch_peak_bytes := max (fat_scratch_peak_bytes c) total\<rparr>\<rparr> in
           case map_of (scratch_cache st) key of
             Some s \<Rightarrow> (if rows \<le> buffer_rows s ''h'' then (st, Inr s) else (grown, Inr fresh))
           | None \<Rightarrow> (grown, Inr fresh)))"

section \<open>The batched tier\<close>

text \<open>Gate and up are one product: their tiles side by side, one input transform.\<close>

definition pack_gate_up :: "pack \<Rightarrow> tiles" where
  "pack_gate_up p = map2 (@) (trellis (gate p)) (trellis (up p))"

definition gated_act :: "backend \<Rightarrow> real \<Rightarrow> nat \<Rightarrow> mat \<Rightarrow> mat" where
  "gated_act be limit inner gate_up =
     (let gate_out = map (\<lambda>r. map (\<lambda>v. min v limit) (take inner r)) gate_up;
          up_out = map (\<lambda>r. map (clamp_limit limit) (drop inner r)) gate_up in
      map2 (map2 (\<lambda>g u. sigmoid be g * g * u)) gate_out up_out)"

definition count_direct :: "exl3 \<Rightarrow> exl3" where
  "count_direct st = st\<lparr>counts_of := (counts_of st)\<lparr>direct_calls := direct_calls (counts_of st) + 1\<rparr>\<rparr>"

definition count_scatter :: "exl3 \<Rightarrow> exl3" where
  "count_scatter st = st\<lparr>counts_of := (counts_of st)\<lparr>scatter_calls := scatter_calls (counts_of st) + 1\<rparr>\<rparr>"

type_synonym gemm = "mat \<Rightarrow> tiles \<Rightarrow> vec \<Rightarrow> nat \<Rightarrow> mat"
type_synonym gemm_scatter = "mat \<Rightarrow> lin \<Rightarrow> mat \<Rightarrow> nat list \<Rightarrow> vec \<Rightarrow> mat"

definition first_gemm ::
  "backend \<Rightarrow> bool \<Rightarrow> gemm option \<Rightarrow> pack \<Rightarrow> mat \<Rightarrow> exl3 \<Rightarrow> exl3 \<times> (moe_error + mat)" where
  "first_gemm be use_kernel gm p h13 st =
     (let svh13 = svh (gate p) @ svh (up p);
          packed13 = pack_gate_up p in
      if use_kernel then
        (case gm of
           None \<Rightarrow> (st, Inl No_Gemm)
         | Some f \<Rightarrow> (count_direct st, Inr (f h13 packed13 svh13 (lin_k (gate p)))))
      else
        (st, Inr (had_r_128 be (hgemm be h13 (reconstruct be packed13 (lin_k (gate p)))) None (Some svh13))))"

definition second_gemm ::
  "backend \<Rightarrow> bool \<Rightarrow> gemm_scatter option \<Rightarrow> pack \<Rightarrow> mat \<Rightarrow> mat \<Rightarrow> nat list \<Rightarrow> vec \<Rightarrow> exl3
   \<Rightarrow> exl3 \<times> (moe_error + mat)" where
  "second_gemm be use_kernel sc p h2 out token_idx w st =
     (if use_kernel then
        (case sc of
           None \<Rightarrow> (st, Inl No_Scatter)
         | Some f \<Rightarrow> (count_scatter st, Inr (f h2 (down p) out token_idx w)))
      else
        (let w2 = reconstruct be (trellis (down p)) (lin_k (down p));
             down_out = had_r_128 be (hgemm be h2 w2) None (Some (svh (down p))) in
         (st, Inr (index_add out token_idx (scale_rows down_out w)))))"

definition batched_expert ::
  "environ \<Rightarrow> backend \<Rightarrow> bool \<Rightarrow> gemm option \<Rightarrow> gemm_scatter option \<Rightarrow> real \<Rightarrow> mat \<Rightarrow> pack
   \<Rightarrow> nat list \<Rightarrow> vec \<Rightarrow> mat \<Rightarrow> exl3 \<Rightarrow> exl3 \<times> (moe_error + mat)" where
  "batched_expert env be use_kernel gm sc limit xh p token_idx w out st =
     (case fat_scratch env (length token_idx) (gate p) (count_run st) of
        (st1, Inl e) \<Rightarrow> (st1, Inl e)
      | (st1, Inr _) \<Rightarrow>
          (let h = index_select xh token_idx;
               h13 = had_r_128 be h (Some (suh (gate p))) None in
           case first_gemm be use_kernel gm p h13 st1 of
             (st2, Inl e) \<Rightarrow> (st2, Inl e)
           | (st2, Inr gate_up) \<Rightarrow>
               (let act_h = half_mat be (gated_act be limit (out_features (gate p)) gate_up);
                    h2 = had_r_128 be act_h (Some (suh (down p))) None in
                second_gemm be use_kernel sc p h2 out token_idx w st2)))"

fun batched_from ::
  "environ \<Rightarrow> backend \<Rightarrow> bool \<Rightarrow> gemm option \<Rightarrow> gemm_scatter option \<Rightarrow> real \<Rightarrow> mat \<Rightarrow> nat list \<Rightarrow> vec
   \<Rightarrow> pack list \<Rightarrow> nat \<Rightarrow> nat \<Rightarrow> nat \<Rightarrow> nat list \<Rightarrow> mat \<Rightarrow> exl3 \<Rightarrow> exl3 \<times> (moe_error + mat)" where
  "batched_from env be use_kernel gm sc limit xh ts ws packs cap e start [] out st = (st, Inr out)"
| "batched_from env be use_kernel gm sc limit xh ts ws packs cap e start (n_rows # ns) out st =
     (if n_rows \<le> cap then
        batched_from env be use_kernel gm sc limit xh ts ws packs cap (e + 1) (start + n_rows) ns out st
      else
        (case batched_expert env be use_kernel gm sc limit xh (packs ! e)
                (slice start n_rows ts) (slice start n_rows ws) out st of
           (st1, Inl err) \<Rightarrow> (st1, Inl err)
         | (st1, Inr out1) \<Rightarrow>
             batched_from env be use_kernel gm sc limit xh ts ws packs cap (e + 1) (start + n_rows) ns out1 st1))"

definition apply_exl3_batched_fat ::
  "environ \<Rightarrow> backend \<Rightarrow> mat \<Rightarrow> nat list \<Rightarrow> vec \<Rightarrow> nat list \<Rightarrow> pack list \<Rightarrow> real \<Rightarrow> nat \<Rightarrow> bool \<Rightarrow> mat
   \<Rightarrow> exl3 \<Rightarrow> exl3 \<times> (moe_error + mat)" where
  "apply_exl3_batched_fat env be xh ts ws counts packs limit cap use_kernel out st =
     (let use_pipe = (use_kernel \<and> fat_pipeline_enabled env) in
      if use_pipe \<and> (fat_gemm_pipe be = None \<or> fat_gemm_pipe_scatter be = None) then (st, Inl No_Pipe)
      else
        (let gm = (if use_pipe then fat_gemm_pipe be else fat_gemm be);
             sc = (if use_pipe then fat_gemm_pipe_scatter be else fat_gemm_scatter be) in
         batched_from env be use_kernel gm sc limit xh ts ws packs cap 0 0 counts out st))"

section \<open>The fused launch and its row tiles\<close>

definition exl3_moe_launch ::
  "moe_kernel \<Rightarrow> mat \<Rightarrow> mat \<Rightarrow> nat list \<Rightarrow> nat list \<Rightarrow> vec \<Rightarrow> nat \<Rightarrow> pack list \<Rightarrow> real \<Rightarrow> int option \<Rightarrow> mat" where
  "exl3_moe_launch fn xh out ec ts ws rows packs limit active =
     fn packs limit rows active xh out ec ts ws"

definition cumsum :: "nat list \<Rightarrow> nat list" where
  "cumsum xs = map (\<lambda>i. sum_list (take (i + 1) xs)) [0..<length xs]"

text \<open>\<open>torch.searchsorted(cum, v, right=True)\<close> on a sorted list.\<close>

definition searchsorted_right :: "nat list \<Rightarrow> nat \<Rightarrow> nat" where
  "searchsorted_right cum v = length (takeWhile (\<lambda>c. c \<le> v) cum)"

definition tile_sources :: "nat list \<Rightarrow> nat \<Rightarrow> nat list \<Rightarrow> nat list" where
  "tile_sources starts row0 tile_counts =
     (let cum = cumsum tile_counts in
      map (\<lambda>idx.
             let expert_id = searchsorted_right cum idx;
                 local_row = idx - (cum ! expert_id - tile_counts ! expert_id) in
             starts ! expert_id + row0 + local_row)
        [0..<sum_list tile_counts])"

definition row_tile ::
  "moe_kernel \<Rightarrow> mat \<Rightarrow> nat list \<Rightarrow> nat list \<Rightarrow> nat list \<Rightarrow> vec \<Rightarrow> nat \<Rightarrow> pack list \<Rightarrow> real \<Rightarrow> int option
   \<Rightarrow> mat \<Rightarrow> nat \<Rightarrow> mat" where
  "row_tile fn xh counts starts ts ws tile packs limit active out t =
     (let row0 = t * tile;
          tile_counts = map (\<lambda>c. min (c - row0) tile) counts in
      if sum_list tile_counts = 0 then out
      else
        (let src = tile_sources starts row0 tile_counts in
         exl3_moe_launch fn xh out (tile_counts @ [0]) (index_select ts src) (index_select ws src)
           tile packs limit active))"

definition exl3_moe_row_tiles ::
  "moe_kernel \<Rightarrow> mat \<Rightarrow> mat \<Rightarrow> nat list \<Rightarrow> nat list \<Rightarrow> vec \<Rightarrow> nat \<Rightarrow> pack list \<Rightarrow> real \<Rightarrow> int option \<Rightarrow> nat
   \<Rightarrow> mat" where
  "exl3_moe_row_tiles fn xh out counts ts ws tile packs limit active max_rows =
     (let starts = 0 # cumsum (butlast counts);
          n_tiles = (max_rows + tile - 1) div tile in
      foldl (row_tile fn xh counts starts ts ws tile packs limit active) out [0..<n_tiles])"

section \<open>The choice of a path\<close>

text \<open>The sorted buffers of a call.\<close>

record buffers =
  b_xh :: mat
  b_counts :: "nat list"
  b_ec :: "nat list"
  b_tokens :: "nat list"
  b_weights :: vec

definition sort_routes :: "backend \<Rightarrow> mat \<Rightarrow> int list list \<Rightarrow> mat \<Rightarrow> nat \<Rightarrow> nat list \<Rightarrow> buffers" where
  "sort_routes be x ids weights n_exp local =
     (let order = argsort be local;
          ec = expert_count n_exp local in
      \<lparr>b_xh = half_mat be x, b_counts = take n_exp ec, b_ec = ec,
       b_tokens = index_select (flat_token (length x) (topk_of ids)) order,
       b_weights = index_select (map (half be) (concat weights)) order\<rparr>)"

definition list_max :: "nat list \<Rightarrow> nat" where
  "list_max xs = fold max xs 0"

definition count_prefill :: "exl3 \<Rightarrow> exl3" where
  "count_prefill st = st\<lparr>counts_of := (counts_of st)\<lparr>prefill_layer_calls := prefill_layer_calls (counts_of st) + 1\<rparr>\<rparr>"

definition count_thin :: "exl3 \<Rightarrow> exl3" where
  "count_thin st = st\<lparr>counts_of := (counts_of st)\<lparr>thin_calls := thin_calls (counts_of st) + 1\<rparr>\<rparr>"

definition count_row_tile :: "exl3 \<Rightarrow> exl3" where
  "count_row_tile st = st\<lparr>counts_of := (counts_of st)\<lparr>row_tile_calls := row_tile_calls (counts_of st) + 1\<rparr>\<rparr>"

definition add_runs :: "nat \<Rightarrow> exl3 \<Rightarrow> exl3" where
  "add_runs n st = st\<lparr>counts_of := (counts_of st)\<lparr>fat_expert_runs := fat_expert_runs (counts_of st) + n\<rparr>\<rparr>"

record moe_call =
  c_x :: mat
  c_ids :: "int list list"
  c_weights :: mat
  c_emap :: "emap option"
  c_limit :: real

type_synonym moe_out = "layer \<times> exl3 \<times> (moe_error + mat)"

text \<open>The fallback tiers, after the thin experts have been launched into \<open>out\<close>.\<close>

definition fat_stage ::
  "environ \<Rightarrow> backend \<Rightarrow> moe_call \<Rightarrow> buffers \<Rightarrow> nat \<Rightarrow> bool \<Rightarrow> mat \<Rightarrow> layer \<Rightarrow> exl3 \<Rightarrow> moe_out" where
  "fat_stage env be call b cap host out lay st =
     (let packs = inners lay;
          want_kernel = fat_kernel_enabled env;
          want_batched = (batched_fat_fallback_enabled env \<or> want_kernel);
          use_sorted = (sorted_fat_fallback_enabled env \<or> want_batched);
          use_batched = (want_batched \<and> shared_w13_suh lay);
          use_kernel = (use_batched \<and> want_kernel) in
      if use_batched then
        (case (if use_kernel then record_exl3_fat_tier ''kernel'' ''kernel_ok'' lay st
               else record_exl3_fat_tier ''batched'' ''batched_ok'' lay st) of
           (lay1, st1) \<Rightarrow>
             if \<not> host then (lay1, st1, Inl Assert_Failed)
             else (lay1, apply_exl3_batched_fat env be (b_xh b) (b_tokens b) (b_weights b) (b_counts b)
                     packs (c_limit call) cap use_kernel out st1))
      else if use_sorted then
        (case record_exl3_fat_tier ''sorted''
                (if want_batched then ''degraded_shared_suh'' else ''sorted_ok'') lay st of
           (lay1, st1) \<Rightarrow>
             if \<not> host then (lay1, st1, Inl Assert_Failed)
             else
               (case apply_exl3_sorted_fat be (b_xh b) (b_tokens b) (b_weights b) (b_counts b)
                       packs (c_limit call) cap out st1 of
                  (out1, st2) \<Rightarrow> (lay1, st2, Inr out1)))
      else
        (case record_exl3_fat_tier ''legacy'' ''legacy_default'' lay st of
           (lay1, st1) \<Rightarrow>
             (let fat = filter (\<lambda>e. b_counts b ! e > cap) [0..<length (b_counts b)] in
              if fat \<noteq> [] then
                (lay1, add_runs (length fat) st1,
                 Inr (apply_exl3_python_loop be (c_x call) (c_ids call) (c_weights call) packs
                        (c_emap call) (c_limit call) (Some (set fat)) (Some out)))
              else (lay1, st1, Inr out))))"

definition prefill_stage ::
  "environ \<Rightarrow> backend \<Rightarrow> moe_kernel \<Rightarrow> moe_call \<Rightarrow> buffers \<Rightarrow> nat \<Rightarrow> mat \<Rightarrow> layer \<Rightarrow> exl3 \<Rightarrow> moe_out" where
  "prefill_stage env be fn call b cap out lay st =
     (let packs = inners lay;
          active = (if num_active be then Some (-1) else None);
          want_batched = (batched_fat_fallback_enabled env \<or> fat_kernel_enabled env);
          use_sorted = (sorted_fat_fallback_enabled env \<or> want_batched);
          use_batched = (want_batched \<and> shared_w13_suh lay);
          use_tiles = fused_moe_row_tile_enabled env;
          launch = (\<lambda>o1. exl3_moe_launch fn (b_xh b) o1 (b_ec b) (b_tokens b) (b_weights b) cap packs
                      (c_limit call) active);
          launched = (use_batched \<and> \<not> use_tiles);
          out1 = (if launched then launch out else out);
          host = (launched \<or> use_sorted);
          max_rows = list_max (b_counts b);
          st1 = count_prefill st in
      case (if fat_expert_log_enabled env
            then record_exl3_fat_expert_stats env (b_counts b) max_rows st1 else Inr st1) of
        Inl e \<Rightarrow> (lay, st1, Inl e)
      | Inr st2 \<Rightarrow>
          (if max_rows \<le> cap then
             (lay, record_reason ''thin_only'' (count_thin st2), Inr (if launched then out1 else launch out1))
           else if use_tiles then
             (lay\<lparr>last_fat_fallback := ''row_tile'', last_fat_reason := ''row_tile_preempts_fat''\<rparr>,
              record_reason ''row_tile_preempts_fat'' (count_row_tile st2),
              Inr (exl3_moe_row_tiles fn (b_xh b) out1 (b_counts b) (b_tokens b) (b_weights b) cap packs
                     (c_limit call) active max_rows))
           else fat_stage env be call b cap host (if launched then out1 else launch out1) lay st2))"

definition apply_exl3_fused_moe :: "environ \<Rightarrow> backend \<Rightarrow> moe_call \<Rightarrow> layer \<Rightarrow> exl3 \<Rightarrow> moe_out" where
  "apply_exl3_fused_moe env be call lay st =
     (let tokens = length (c_x call);
          n_exp = length (inners lay) in
      if \<not> ptrs lay then (lay, st, Inl No_Fused_State)
      else
        (case fused_temps lay of
           None \<Rightarrow> (lay, st, Inl No_Fused_State)
         | Some cap \<Rightarrow>
             (case map_topk_to_local (c_ids call) n_exp (c_emap call) of
                Inl e \<Rightarrow> (lay, st, Inl e)
              | Inr local \<Rightarrow>
                  (let b = sort_routes be (c_x call) (c_ids call) (c_weights call) n_exp local;
                       out = zeros tokens (mat_width (c_x call));
                       active = (if num_active be then Some (-1) else None) in
                   case exl3_moe be of
                     None \<Rightarrow> (lay, st, Inl No_Moe_Symbol)
                   | Some fn \<Rightarrow>
                       (let lay1 = lay\<lparr>last_fat_fallback := ''none'', last_fat_reason := ''no_fat_experts''\<rparr> in
                        if tokens \<le> cap then
                          (lay1, st, Inr (exl3_moe_launch fn (b_xh b) out (b_ec b) (b_tokens b) (b_weights b)
                             cap (inners lay) (c_limit call) active))
                        else prefill_stage env be fn call b cap out lay1 st)))))"

definition apply_exl3_experts ::
  "environ \<Rightarrow> backend \<Rightarrow> bool option \<Rightarrow> mat \<Rightarrow> int list list \<Rightarrow> mat \<Rightarrow> real \<Rightarrow> layer \<Rightarrow> exl3 \<Rightarrow> moe_out" where
  "apply_exl3_experts env be fused x ids weights limit lay st =
     (if inners lay = [] then (lay, st, Inl No_Experts)
      else
        (let em = pin_exl3_expert_map (layer_emap lay);
             lay1 = lay\<lparr>layer_emap := em\<rparr>;
             call = \<lparr>c_x = x, c_ids = ids, c_weights = weights, c_emap = em, c_limit = limit\<rparr> in
         if fused = Some True \<and> \<not> ptrs lay1 then (lay1, st, Inl No_Tables)
         else if (case fused of None \<Rightarrow> fused_moe_enabled env | Some f \<Rightarrow> f) \<and> ptrs lay1
                 \<and> exl3_moe be \<noteq> None then
           (case apply_exl3_fused_moe env be call lay1 st of
              (lay2, st2, Inl e) \<Rightarrow> (lay2, st2, Inl e)
            | (lay2, st2, Inr out) \<Rightarrow>
                (lay2\<lparr>last_apply := ''fused''\<rparr>, st2, Inr (map (map (cast be)) out)))
         else
           (lay1\<lparr>last_apply := ''loop''\<rparr>, st,
            Inr (map (map (cast be))
              (apply_exl3_python_loop be x ids weights (inners lay1) em limit None None)))))"

end
