(* ===== verification/Exl3_Routes.thy ===== *)
theory Exl3_Routes
  imports Exl3_Fused
begin

text \<open>
  All paths of the routed experts compute the same sum.  A route is an expert, a token and a
  weight; every path adds the weighted row of each route to its token, in an order of its own,
  and the order does not matter.  So two paths agree when they visit the same multiset of
  routes.  The laws of the backend that this needs are predicates on it.
\<close>

section \<open>What the backend promises\<close>

text \<open>A packed layer works on each row alone; the sort returns a permutation of the positions
  that puts the keys in order.\<close>

definition rowwise :: "backend \<Rightarrow> bool" where
  "rowwise be \<longleftrightarrow> (\<forall>l xs. forward be l xs = map (\<lambda>r. hd (forward be l [r])) xs)"

definition argsort_ok :: "backend \<Rightarrow> bool" where
  "argsort_ok be \<longleftrightarrow>
     (\<forall>xs. mset (argsort be xs) = mset [0..<length xs] \<and> sorted (map ((!) xs) (argsort be xs)))"

text \<open>The fused kernel runs the experts with at most as many rows as its scratch has, each on
  its segment of the sorted buffers, and skips the others.\<close>

definition segment_add ::
  "backend \<Rightarrow> pack list \<Rightarrow> real \<Rightarrow> mat \<Rightarrow> nat list \<Rightarrow> nat list \<Rightarrow> vec \<Rightarrow> mat \<Rightarrow> nat \<Rightarrow> mat" where
  "segment_add be packs limit xh ec ts ws out e =
     (let start = sum_list (take e ec);
          token_idx = slice start (ec ! e) ts in
      index_add out token_idx
        (scale_rows (sorted_mlp be limit (packs ! e) (index_select xh token_idx)) (slice start (ec ! e) ws)))"

definition launch_spec :: "backend \<Rightarrow> moe_kernel" where
  "launch_spec be packs limit rows active xh out ec ts ws =
     foldl (segment_add be packs limit xh ec ts ws) out (filter (\<lambda>e. ec ! e \<le> rows) [0..<length packs])"

definition kernel_ok :: "backend \<Rightarrow> bool" where
  "kernel_ok be \<longleftrightarrow> (\<forall>fn. exl3_moe be = Some fn \<longrightarrow> fn = launch_spec be)"

section \<open>Routes\<close>

type_synonym route = "nat \<times> nat \<times> real"

definition fw :: "backend \<Rightarrow> lin \<Rightarrow> vec \<Rightarrow> vec" where
  "fw be l r = hd (forward be l [r])"

definition expert_row :: "backend \<Rightarrow> real \<Rightarrow> pack \<Rightarrow> vec \<Rightarrow> vec" where
  "expert_row be limit p r =
     fw be (down p) (map (half be)
       (map2 (\<lambda>a b. silu be (min a limit) * clamp_limit limit b) (fw be (gate p) r) (fw be (up p) r)))"

definition add_route :: "backend \<Rightarrow> pack list \<Rightarrow> real \<Rightarrow> mat \<Rightarrow> mat \<Rightarrow> route \<Rightarrow> mat" where
  "add_route be packs limit xh out rt =
     (case rt of (e, t, w) \<Rightarrow> add_row out (t, map (\<lambda>v. v * w) (expert_row be limit (packs ! e) (xh ! t))))"

lemma map2_same: "map2 f (map a xs) (map b xs) = map (\<lambda>x. f (a x) (b x)) xs"
  by (induction xs) auto

lemma forward_rows: "rowwise be \<Longrightarrow> forward be l xs = map (fw be l) xs"
  unfolding rowwise_def fw_def by blast

lemma sorted_mlp_rows:
  assumes "rowwise be"
  shows "sorted_mlp be limit p h = map (expert_row be limit p) h"
  unfolding sorted_mlp_def Let_def forward_rows [OF assms] swiglu_def map2_same half_mat_def
  by (simp add: expert_row_def o_def)

lemma loop_mlp_half: "loop_mlp be limit p h = sorted_mlp be limit p (half_mat be h)"
  by (simp add: loop_mlp_def sorted_mlp_def)

lemma index_add_routes:
  "length idx = length ws \<Longrightarrow>
   index_add out idx (scale_rows (map (expert_row be limit (packs ! e)) (index_select xh idx)) ws)
   = foldl (add_route be packs limit xh) out (map2 (\<lambda>t w. (e, t, w)) idx ws)"
  by (induction idx ws arbitrary: out rule: list_induct2)
    (auto simp: index_add_def scale_rows_def index_select_def add_route_def)

section \<open>The order of the routes does not matter\<close>

lemma map2_plus_commute:
  "map2 (+) (map2 (+) a r) q = map2 (+) (map2 (+) a q) (r :: vec)"
proof (induction a arbitrary: r q)
  case (Cons v a)
  then show ?case by (cases r; cases q) auto
qed simp

lemma add_row_commute: "add_row (add_row out p) q = add_row (add_row out q) p"
proof -
  obtain t r s u where [simp]: "p = (t, r)" "q = (s, u)" by (cases p, cases q)
  consider "t \<noteq> s" | "t = s" "t < length out" | "t = s" "length out \<le> t" by linarith
  then show ?thesis
  proof cases
    case 1
    then show ?thesis by (simp add: add_row_def list_update_swap)
  next
    case 2
    then show ?thesis by (simp add: add_row_def map2_plus_commute [of "out ! s"])
  next
    case 3
    then show ?thesis by (simp add: add_row_def list_update_beyond)
  qed
qed

text \<open>What an accumulator promises: two items may be added in either order.  Then any two lists
  of the same items give the same result.\<close>

locale commuting =
  fixes step :: "'s \<Rightarrow> 'a \<Rightarrow> 's"
  assumes swap: "step (step s a) b = step (step s b) a"
begin

lemma any_order:
  assumes "mset xs = mset ys"
  shows "foldl step s xs = foldl step s ys"
proof -
  let ?f = "\<lambda>a s. step s a"
  have "fold ?f xs = fold ?f ys"
    by (intro fold_multiset_equiv assms) (simp_all add: fun_eq_iff swap)
  then show ?thesis by (simp add: foldl_conv_fold)
qed

lemma by_parts:
  "foldl step (foldl step s (concat (filter P xss))) (concat (filter (\<lambda>x. \<not> P x) xss)) = foldl step s (concat xss)"
proof -
  have "mset (concat (filter P xss) @ concat (filter (\<lambda>x. \<not> P x) xss)) = mset (concat xss)"
    by (induction xss) auto
  from any_order [OF this, of s] show ?thesis by simp
qed

end

interpretation routes: commuting "add_route be packs limit xh" for be packs limit xh
  by unfold_locales (simp add: add_route_def add_row_commute split: prod.splits)

lemmas routes_order = routes.any_order

lemma foldl_segments: "foldl (\<lambda>s xs. foldl f s xs) a xss = foldl f a (concat xss)"
  by (induction xss arbitrary: a) auto

section \<open>Segments of the sorted buffers\<close>

lemma slice_concat:
  "e < length segs \<Longrightarrow>
   slice (sum_list (map length (take e segs))) (length (segs ! e)) (concat segs @ rest) = segs ! e"
proof (induction segs arbitrary: e)
  case (Cons s segs)
  then show ?case by (cases e) (auto simp: slice_def)
qed simp

lemma slice_map: "slice a n (map f xs) = map f (slice a n xs)"
  by (simp add: slice_def take_map drop_map)

text \<open>A list of segments, the e-th holding routes of the e-th expert only.\<close>

definition segmented :: "route list list \<Rightarrow> bool" where
  "segmented segs \<longleftrightarrow> (\<forall>e < length segs. \<forall>rt\<in>set (segs ! e). fst rt = e)"

abbreviation tok :: "route \<Rightarrow> nat" where "tok rt \<equiv> fst (snd rt)"
abbreviation wt :: "route \<Rightarrow> real" where "wt rt \<equiv> snd (snd rt)"

lemma rebuild_routes:
  "(\<And>rt. rt \<in> set s \<Longrightarrow> fst rt = e) \<Longrightarrow> map2 (\<lambda>t w. (e, t, w)) (map tok s) (map wt s) = s"
proof (induction s)
  case (Cons rt s)
  then show ?case by (cases rt) (auto, metis)
qed simp

lemma expert_add:
  assumes "rowwise be" and "\<And>rt. rt \<in> set s \<Longrightarrow> fst rt = e"
  shows "index_add out (map tok s) (scale_rows (sorted_mlp be limit (packs ! e) (index_select xh (map tok s))) (map wt s))
    = foldl (add_route be packs limit xh) out s"
proof -
  have "map2 (\<lambda>t w. (e, t, w)) (map tok s) (map wt s) = s"
    by (rule rebuild_routes) (rule assms(2))
  then show ?thesis
    unfolding sorted_mlp_rows [OF assms(1)] using index_add_routes [of "map tok s" "map wt s" out be limit packs e xh]
    by (simp only: length_map)
qed

lemma launch_segments:
  assumes "rowwise be" and "segmented segs" and "length segs = length packs"
    and "ec = map length segs @ extra" and "R = concat segs @ rest"
  shows "launch_spec be packs limit rows active xh out ec (map tok R) (map wt R)
    = foldl (add_route be packs limit xh) out (concat (filter (\<lambda>s. length s \<le> rows) segs))"
proof -
  have seg: "segment_add be packs limit xh ec (map tok R) (map wt R) o1 e
      = foldl (add_route be packs limit xh) o1 (segs ! e)" if "e < length packs" for e o1
  proof -
    have e: "e < length segs" using that assms(3) by simp
    have "sum_list (take e ec) = sum_list (map length (take e segs))" "ec ! e = length (segs ! e)"
      using e assms(4) by (simp_all add: take_map nth_append)
    then have sl: "slice (sum_list (take e ec)) (ec ! e) R = segs ! e"
      using slice_concat [OF e] assms(5) by simp
    have "\<And>rt. rt \<in> set (segs ! e) \<Longrightarrow> fst rt = e"
      using assms(2) e by (auto simp: segmented_def)
    then show ?thesis
      unfolding segment_add_def Let_def slice_map sl by (rule expert_add [OF assms(1)])
  qed
  let ?es = "filter (\<lambda>e. ec ! e \<le> rows) [0..<length packs]"
  have folds: "foldl (segment_add be packs limit xh ec (map tok R) (map wt R)) out es
      = foldl (\<lambda>s xs. foldl (add_route be packs limit xh) s xs) out (map ((!) segs) es)"
    if "set es \<subseteq> {..<length packs}" for es
    using that by (induction es arbitrary: out) (auto simp: seg)
  have "launch_spec be packs limit rows active xh out ec (map tok R) (map wt R)
      = foldl (add_route be packs limit xh) out (concat (map ((!) segs) ?es))"
    unfolding launch_spec_def by (subst folds) (auto simp: foldl_segments)
  also have "map ((!) segs) ?es = filter (\<lambda>s. length s \<le> rows) (map ((!) segs) [0..<length segs])"
    unfolding filter_map using assms(3,4)
    by (intro arg_cong [where f = "map ((!) segs)"] filter_cong) (auto simp: nth_append)
  finally show ?thesis by (simp add: map_nth)
qed

section \<open>The sorted routes\<close>

definition segs_of :: "nat \<Rightarrow> route list \<Rightarrow> route list list" where
  "segs_of n R = map (\<lambda>e. filter (\<lambda>r. fst r = e) R) [0..<n]"

lemma segmented_segs_of: "segmented (segs_of n R)"
  by (simp add: segmented_def segs_of_def)

lemma length_segs_of [simp]: "length (segs_of n R) = n"
  by (simp add: segs_of_def)

lemma sorted_filter_Suc:
  "sorted (map fst R) \<Longrightarrow>
   filter (\<lambda>r. fst r < Suc n) R = filter (\<lambda>r. fst r < n) R @ filter (\<lambda>r. fst r = n) (R :: route list)"
proof (induction R)
  case (Cons r R)
  show ?case
  proof (cases "fst r < n")
    case False
    then have "filter (\<lambda>r. fst r < n) R = []"
      using Cons.prems by (fastforce simp: filter_empty_conv)
    then show ?thesis using Cons False by auto
  qed (use Cons in auto)
qed simp

lemma concat_segs_of:
  "sorted (map fst R) \<Longrightarrow> concat (segs_of n R) = filter (\<lambda>r. fst r < n) R"
  by (induction n) (simp_all add: segs_of_def sorted_filter_Suc)

lemma sorted_filter_split:
  "sorted (map fst R) \<Longrightarrow> filter (\<lambda>r. fst r < n) R @ filter (\<lambda>r. n \<le> fst r) R = (R :: route list)"
proof (induction R)
  case (Cons r R)
  show ?case
  proof (cases "fst r < n")
    case False
    then have "filter (\<lambda>r. fst r < n) R = []"
      using Cons.prems by (fastforce simp: filter_empty_conv)
    then show ?thesis using Cons False by auto
  qed (use Cons in auto)
qed simp

lemma sorted_as_segments:
  "sorted (map fst R) \<Longrightarrow> R = concat (segs_of n R) @ filter (\<lambda>r. n \<le> fst r) R"
  by (simp add: concat_segs_of sorted_filter_split)

lemma scatter_counts:
  "foldl (\<lambda>c l. c[l := c ! l + 1]) c ls = map (\<lambda>e. c ! e + count_list ls e) [0..<length c]"
proof (induction ls arbitrary: c)
  case Nil
  show ?case by (simp add: map_nth)
next
  case (Cons l ls)
  have "map (\<lambda>e. c[l := c ! l + 1] ! e + count_list ls e) [0..<length c]
      = map (\<lambda>e. c ! e + count_list (l # ls) e) [0..<length c]"
    by (rule map_cong [OF refl]) (auto simp: nth_list_update)
  then show ?case using Cons [of "c[l := c ! l + 1]"] by (simp only: foldl_Cons length_list_update)
qed

lemma expert_count_eq: "expert_count n local = map (count_list local) [0..<n + 1]"
  unfolding expert_count_def scatter_counts by (rule map_cong) (auto simp del: replicate_Suc)

definition positions :: "'a list list \<Rightarrow> (nat \<times> nat) list" where
  "positions xss = concat (map (\<lambda>t. map (Pair t) [0..<length (xss ! t)]) [0..<length xss])"

lemma positions_less: "(t, k) \<in> set (positions xss) \<Longrightarrow> t < length xss \<and> k < length (xss ! t)"
  by (auto simp: positions_def)

lemma concat_positions: "concat xss = map (\<lambda>(t, k). xss ! t ! k) (positions xss)"
  by (simp add: positions_def map_concat o_def map_nth)

lemma positions_cong:
  "length xss = length yss \<Longrightarrow> (\<And>t. t < length xss \<Longrightarrow> length (xss ! t) = length (yss ! t)) \<Longrightarrow>
   positions xss = positions yss"
  unfolding positions_def by (intro arg_cong [where f = concat] map_cong) auto

lemma id_hits_positions: "id_hits ids raw = filter (\<lambda>p. ids ! fst p ! snd p = raw) (positions ids)"
  by (simp add: id_hits_def positions_def filter_concat filter_map o_def)

definition rectangular :: "int list list \<Rightarrow> mat \<Rightarrow> mat \<Rightarrow> bool" where
  "rectangular ids weights x \<longleftrightarrow>
     length ids = length x \<and> length weights = length x
     \<and> (\<forall>r\<in>set ids. length r = topk_of ids) \<and> (\<forall>r\<in>set weights. length r = topk_of ids)"

lemma flat_token_positions:
  assumes "rectangular ids weights x"
  shows "flat_token (length x) (topk_of ids) = map fst (positions ids)"
proof -
  have len: "length ids = length x" and row: "length (ids ! t) = topk_of ids" if "t < length x" for t
    using assms that by (auto simp: rectangular_def)
  have rep: "map (\<lambda>_. t) [0..<k] = replicate k t" for t k :: nat
    by (simp add: map_replicate_const)
  have "length ids = length x" using assms by (simp add: rectangular_def)
  then show ?thesis
    unfolding flat_token_def positions_def map_concat map_map o_def fst_conv rep
    by (intro arg_cong [where f = concat] map_cong) (auto simp: row)
qed

definition route_at :: "(int \<Rightarrow> nat) \<Rightarrow> (real \<Rightarrow> real) \<Rightarrow> int list list \<Rightarrow> mat \<Rightarrow> nat \<times> nat \<Rightarrow> route" where
  "route_at loc h ids weights p = (loc (ids ! fst p ! snd p), fst p, h (weights ! fst p ! snd p))"

definition all_routes :: "(int \<Rightarrow> nat) \<Rightarrow> (real \<Rightarrow> real) \<Rightarrow> int list list \<Rightarrow> mat \<Rightarrow> route list" where
  "all_routes loc h ids weights = map (route_at loc h ids weights) (positions ids)"

lemma sort_routes_segments:
  assumes "argsort_ok be" and rect: "rectangular ids weights x"
    and "loc = map lid (concat ids)"
  obtains R where "mset R = mset (all_routes lid (half be) ids weights)" and "sorted (map fst R)"
    and "sort_routes be x ids weights n loc =
      \<lparr>b_xh = half_mat be x, b_counts = map length (segs_of n R),
       b_ec = map length (segs_of n R) @ [length (filter (\<lambda>r. fst r = n) R)],
       b_tokens = map tok R, b_weights = map wt R\<rparr>"
proof
  let ?F = "all_routes lid (half be) ids weights"
  let ?order = "argsort be loc"
  let ?R = "map ((!) ?F) ?order"
  have keys: "loc = map fst ?F"
    by (simp add: assms(3) all_routes_def route_at_def concat_positions [of ids] o_def case_prod_beta)
  then have len: "length loc = length ?F" by simp
  from assms(1) have perm: "mset ?order = mset [0..<length ?F]" and sorted: "sorted (map ((!) loc) ?order)"
    using len by (auto simp: argsort_ok_def)
  have set: "set ?order = {0..<length ?F}" using perm mset_eq_setD by fastforce
  show mset: "mset ?R = mset ?F"
    using perm by (metis map_nth mset_map)
  have "map ((!) loc) ?order = map fst ?R"
    using set by (auto simp: keys)
  with sorted show "sorted (map fst ?R)" by simp
  have wlen: "length weights = length ids" "\<And>t. t < length ids \<Longrightarrow> length (weights ! t) = length (ids ! t)"
    using rect by (auto simp: rectangular_def)
  have "map (half be) (concat weights) = map wt ?F"
    unfolding concat_positions [of weights] positions_cong [of weights ids, OF wlen(1) wlen(2)]
    using positions_cong [of weights ids] wlen by (simp add: all_routes_def route_at_def o_def case_prod_beta)
  then have ws: "index_select (map (half be) (concat weights)) ?order = map wt ?R"
    using set by (auto simp: index_select_def)
  have "flat_token (length x) (topk_of ids) = map tok ?F"
    unfolding flat_token_positions [OF rect] by (simp add: all_routes_def route_at_def o_def)
  then have ts: "index_select (flat_token (length x) (topk_of ids)) ?order = map tok ?R"
    using set by (auto simp: index_select_def)
  have cnt: "count_list loc e = length (filter (\<lambda>r. fst r = e) ?R)" for e
  proof -
    have "count_list loc e = size {#r \<in># mset ?F. fst r = e#}"
      by (simp add: keys count_list_eq_length_filter filter_map o_def eq_commute [of e] flip: mset_filter)
    then show ?thesis unfolding mset [symmetric] by (metis mset_filter size_mset)
  qed
  have ec: "expert_count n loc = map length (segs_of n ?R) @ [length (filter (\<lambda>r. fst r = n) ?R)]"
    by (simp add: expert_count_eq segs_of_def cnt)
  show "sort_routes be x ids weights n loc =
      \<lparr>b_xh = half_mat be x, b_counts = map length (segs_of n ?R),
       b_ec = map length (segs_of n ?R) @ [length (filter (\<lambda>r. fst r = n) ?R)],
       b_tokens = map tok ?R, b_weights = map wt ?R\<rparr>"
    unfolding sort_routes_def Let_def ec ts ws by simp
qed

end
