(* ===== verification/Exl3_Tiers.thy ===== *)
theory Exl3_Tiers
  imports Exl3_Routes
begin

text \<open>
  Each path of the routed experts, as an addition of routes: the loop, the sorted tier, the row
  tiles and the batched tier with its laws of the kernels.
\<close>

section \<open>The loop\<close>

lemma mset_by_key:
  "distinct S \<Longrightarrow> (\<And>p. p \<in> set P \<Longrightarrow> g p \<in> set S) \<Longrightarrow>
   mset (concat (map (\<lambda>v. filter (\<lambda>p. g p = v) P) S)) = mset P"
proof (induction S arbitrary: P)
  case Nil
  then have "P = []" using Nil.prems(2) [of "hd P"] by (cases P) simp_all
  then show ?case by simp
next
  case (Cons v S)
  let ?Q = "filter (\<lambda>p. g p \<noteq> v) P"
  have eq: "map (\<lambda>v. filter (\<lambda>p. g p = v) P) S = map (\<lambda>v. filter (\<lambda>p. g p = v) ?Q) S"
    using Cons.prems(1) by (auto intro!: filter_cong)
  have "mset (concat (map (\<lambda>v. filter (\<lambda>p. g p = v) ?Q) S)) = mset ?Q"
    by (rule Cons.IH) (use Cons.prems in auto)
  then have "mset (concat (map (\<lambda>v. filter (\<lambda>p. g p = v) P) S)) = mset ?Q"
    by (simp only: eq)
  moreover have "mset (filter (\<lambda>p. g p = v) P) + mset ?Q = mset P"
    by (metis mset_filter multiset_partition)
  ultimately show ?case by simp
qed

definition in_map :: "emap option \<Rightarrow> int list list \<Rightarrow> bool" where
  "in_map em ids \<longleftrightarrow>
     (case em of None \<Rightarrow> True | Some (pinned, m) \<Rightarrow> \<forall>i\<in>set (concat ids). i < int (length m))"

abbreviation lid_of :: "nat \<Rightarrow> emap option \<Rightarrow> int \<Rightarrow> nat" where
  "lid_of n em \<equiv> local_id n (map_option snd em)"

lemma loop_target_local:
  assumes "case em of None \<Rightarrow> True | Some (pinned, m) \<Rightarrow> i < int (length m)"
  shows "loop_target n em i = (if lid_of n em i < n then Some (lid_of n em i) else None)"
proof (cases em)
  case None
  then show ?thesis by (auto simp: loop_target_def local_id_def)
next
  case (Some pm)
  obtain pinned m where [simp]: "pm = (pinned, m)" by (cases pm)
  show ?thesis
  proof (cases "i < 0")
    case False
    then have "min (max i 0) (max (int (length m) - 1) 0) = i" "length m \<noteq> 0"
      using assms Some by auto
    then show ?thesis
      using assms Some False by (auto simp: loop_target_def local_id_def Let_def nat_less_iff)
  qed (simp add: Some loop_target_def local_id_def Let_def)
qed

definition wanted :: "nat \<Rightarrow> nat set option \<Rightarrow> route \<Rightarrow> bool" where
  "wanted n only_experts r \<longleftrightarrow> fst r < n \<and> (case only_experts of None \<Rightarrow> True | Some s \<Rightarrow> fst r \<in> s)"

definition raw_routes ::
  "nat \<Rightarrow> emap option \<Rightarrow> nat set option \<Rightarrow> int list list \<Rightarrow> mat \<Rightarrow> int \<Rightarrow> route list" where
  "raw_routes n em only_experts ids weights raw =
     filter (wanted n only_experts) (map (route_at (lid_of n em) id ids weights) (id_hits ids raw))"

lemma loop_expert_routes:
  assumes rw: "rowwise be" and len: "length ids = length x" and raw: "raw \<in> set (concat ids)"
    and im: "in_map em ids"
  shows "loop_expert be x ids weights packs em limit only_experts out raw
    = foldl (add_route be packs limit (half_mat be x)) out (raw_routes (length packs) em only_experts ids weights raw)"
proof -
  let ?n = "length packs" and ?e = "lid_of (length packs) em raw"
  have tgt: "loop_target ?n em raw = (if ?e < ?n then Some ?e else None)"
    using im raw by (intro loop_target_local) (auto simp: in_map_def split: option.splits)
  let ?rs = "map (route_at (lid_of ?n em) id ids weights) (id_hits ids raw)"
  have key: "fst r = ?e" if "r \<in> set ?rs" for r
    using that by (auto simp: route_at_def id_hits_positions)
  show ?thesis
  proof (cases "?e < ?n \<and> (case only_experts of None \<Rightarrow> True | Some s \<Rightarrow> ?e \<in> s)")
    case True
    then have all: "raw_routes ?n em only_experts ids weights raw = ?rs"
      unfolding raw_routes_def using True by (intro filter_True ballI) (simp only: wanted_def key)
    have ts: "map fst (id_hits ids raw) = map tok ?rs" and ws: "map (\<lambda>(t, k). weights ! t ! k) (id_hits ids raw) = map wt ?rs"
      by (simp_all add: route_at_def o_def case_prod_beta)
    have "\<forall>t\<in>set (map tok ?rs). t < length x"
      using len by (auto simp: route_at_def id_hits_positions dest: positions_less)
    then have h: "half_mat be (index_select x (map tok ?rs)) = index_select (half_mat be x) (map tok ?rs)"
      by (simp add: half_mat_def index_select_def)
    have "loop_expert be x ids weights packs em limit only_experts out raw
        = index_add out (map tok ?rs)
            (scale_rows (loop_mlp be limit (packs ! ?e) (index_select x (map tok ?rs))) (map wt ?rs))"
      using True unfolding loop_expert_def tgt Let_def ts ws by (auto split: option.splits)
    also have "\<dots> = foldl (add_route be packs limit (half_mat be x)) out ?rs"
      unfolding loop_mlp_half h by (rule expert_add [OF rw key])
    finally show ?thesis unfolding all .
  next
    case False
    then have "raw_routes ?n em only_experts ids weights raw = []"
      unfolding raw_routes_def using False by (intro filter_False ballI) (simp only: wanted_def key)
    then show ?thesis
      using False by (auto simp: loop_expert_def tgt split: option.splits)
  qed
qed

definition start_out :: "mat \<Rightarrow> mat option \<Rightarrow> mat" where
  "start_out x out = (case out of Some m \<Rightarrow> m | None \<Rightarrow> zeros (length x) (mat_width x))"

lemma loop_adds_routes:
  assumes rw: "rowwise be" and len: "length ids = length x" and im: "in_map em ids"
  shows "apply_exl3_python_loop be x ids weights packs em limit only_experts out
    = foldl (add_route be packs limit (half_mat be x)) (start_out x out)
        (filter (wanted (length packs) only_experts) (all_routes (lid_of (length packs) em) id ids weights))"
proof -
  let ?n = "length packs" and ?S = "sorted_set (concat ids)"
  let ?add = "add_route be packs limit (half_mat be x)"
  have step: "foldl (loop_expert be x ids weights packs em limit only_experts) o1 S
      = foldl ?add o1 (concat (map (raw_routes ?n em only_experts ids weights) S))"
    if "set S \<subseteq> set (concat ids)" for o1 S
    using that by (induction S arbitrary: o1) (simp_all add: loop_expert_routes [OF rw len _ im])
  have "apply_exl3_python_loop be x ids weights packs em limit only_experts out
      = foldl ?add (start_out x out) (concat (map (raw_routes ?n em only_experts ids weights) ?S))"
    unfolding apply_exl3_python_loop_def start_out_def by (rule step) simp
  also have "concat (map (raw_routes ?n em only_experts ids weights) ?S)
      = filter (wanted ?n only_experts) (map (route_at (lid_of ?n em) id ids weights)
          (concat (map (\<lambda>v. filter (\<lambda>p. ids ! fst p ! snd p = v) (positions ids)) ?S)))"
    by (simp add: raw_routes_def [abs_def] id_hits_positions filter_concat map_concat o_def case_prod_beta)
  also have "foldl ?add (start_out x out) \<dots> = foldl ?add (start_out x out)
      (filter (wanted ?n only_experts) (map (route_at (lid_of ?n em) id ids weights) (positions ids)))"
  proof (rule routes_order)
    have "mset (concat (map (\<lambda>v. filter (\<lambda>p. ids ! fst p ! snd p = v) (positions ids)) ?S)) = mset (positions ids)"
      by (rule mset_by_key) (auto simp: concat_positions [of ids] case_prod_beta)
    then show "mset (filter (wanted ?n only_experts) (map (route_at (lid_of ?n em) id ids weights)
          (concat (map (\<lambda>v. filter (\<lambda>p. ids ! fst p ! snd p = v) (positions ids)) ?S))))
      = mset (filter (wanted ?n only_experts) (map (route_at (lid_of ?n em) id ids weights) (positions ids)))"
      by (simp only: mset_filter mset_map)
  qed
  finally show ?thesis by (simp add: all_routes_def)
qed

section \<open>The sorted tier\<close>

lemma drop_sum_length:
  "drop start R = concat (s # segs) @ rest \<Longrightarrow> drop (start + length s) R = concat segs @ rest"
  by (metis (no_types, lifting) append.assoc append_eq_conv_conj concat.simps(2) drop_drop add.commute)

lemma slice_head: "drop start R = concat (s # segs) @ rest \<Longrightarrow> slice start (length s) R = s"
  by (simp add: slice_def)

lemma sorted_fat_segments:
  assumes rw: "rowwise be" and "drop start R = concat segs @ rest"
    and "\<And>i rt. i < length segs \<Longrightarrow> rt \<in> set (segs ! i) \<Longrightarrow> fst rt = e + i"
  shows "fst (sorted_fat_from be xh (map tok R) (map wt R) packs limit cap e start (map length segs) (out, st))
    = foldl (add_route be packs limit xh) out (concat (filter (\<lambda>s. cap < length s) segs))"
  using assms(2,3)
proof (induction segs arbitrary: e start out st)
  case (Cons s segs)
  have sl: "slice start (length s) R = s" by (rule slice_head [OF Cons.prems(1)])
  have key: "fst rt = e" if "rt \<in> set s" for rt using Cons.prems(2) [of 0 rt] that by simp
  have nxt: "drop (start + length s) R = concat segs @ rest"
    by (rule drop_sum_length [OF Cons.prems(1)])
  have keys: "fst rt = e + 1 + i" if "i < length segs" "rt \<in> set (segs ! i)" for i rt
    using Cons.prems(2) [of "Suc i" rt] that by simp
  show ?case
  proof (cases "length s \<le> cap")
    case True
    then show ?thesis using Cons.IH [OF nxt keys] by simp
  next
    case False
    then show ?thesis
      using Cons.IH [OF nxt keys]
      by (simp add: slice_map sl expert_add [OF rw key] Let_def)
  qed
qed simp

lemma sorted_fat_adds:
  assumes "rowwise be" and "sorted (map fst R)"
  shows "fst (apply_exl3_sorted_fat be xh (map tok R) (map wt R) (map length (segs_of n R)) packs limit cap out st)
    = foldl (add_route be packs limit xh) out (concat (filter (\<lambda>s. cap < length s) (segs_of n R)))"
  unfolding apply_exl3_sorted_fat_def
proof (rule sorted_fat_segments [OF assms(1)])
  show "drop 0 R = concat (segs_of n R) @ filter (\<lambda>r. n \<le> fst r) R"
    using sorted_as_segments [OF assms(2), of n] by simp
qed (auto simp: segs_of_def)

section \<open>Row tiles\<close>

lemma cumsum_snoc: "cumsum (xs @ [c]) = cumsum xs @ [sum_list xs + c]"
  by (auto simp: cumsum_def)

lemma length_cumsum [simp]: "length (cumsum xs) = length xs"
  by (simp add: cumsum_def)

lemma nth_cumsum: "i < length xs \<Longrightarrow> cumsum xs ! i = sum_list (take (i + 1) xs)"
  by (simp add: cumsum_def del: upt_Suc)

lemma cumsum_le: "c \<in> set (cumsum xs) \<Longrightarrow> c \<le> sum_list xs"
  unfolding cumsum_def by (auto simp: elem_le_sum_list) (metis append_take_drop_id le_add1 sum_list_append)

lemma searchsorted_snoc:
  "searchsorted_right (cumsum (xs @ [c])) v =
     (if v < sum_list xs then searchsorted_right (cumsum xs) v
      else if v < sum_list xs + c then length xs else length xs + 1)"
proof (cases "v < sum_list xs")
  case True
  then have "xs \<noteq> []" by auto
  then have "cumsum xs ! (length xs - 1) = sum_list xs" by (simp add: nth_cumsum)
  then have "sum_list xs \<in> set (cumsum xs)"
    using \<open>xs \<noteq> []\<close> by (metis diff_less length_cumsum length_greater_0_conv nth_mem zero_less_one)
  then show ?thesis
    using True by (simp add: searchsorted_right_def cumsum_snoc takeWhile_append1)
next
  case False
  then have "\<And>c. c \<in> set (cumsum xs) \<Longrightarrow> c \<le> v" using cumsum_le by fastforce
  then show ?thesis
    using False by (simp add: searchsorted_right_def cumsum_snoc takeWhile_append2)
qed

lemma searchsorted_less: "v < sum_list xs \<Longrightarrow> searchsorted_right (cumsum xs) v < length xs"
  by (induction xs rule: rev_induct) (auto simp: searchsorted_snoc)

text \<open>Numbering the rows of all experts is going through the experts and numbering each one's.\<close>

lemma enumerate_rows:
  "map (\<lambda>v. let e = searchsorted_right (cumsum tc) v in f e (v - sum_list (take e tc))) [0..<sum_list tc]
   = concat (map (\<lambda>e. map (f e) [0..<tc ! e]) [0..<length tc])"
proof (induction tc rule: rev_induct)
  case (snoc c tc)
  let ?g = "\<lambda>v. let e = searchsorted_right (cumsum (tc @ [c])) v in f e (v - sum_list (take e (tc @ [c])))"
  have "map ?g [0..<sum_list tc]
      = map (\<lambda>v. let e = searchsorted_right (cumsum tc) v in f e (v - sum_list (take e tc))) [0..<sum_list tc]"
    by (rule map_cong) (auto simp: searchsorted_snoc Let_def dest: searchsorted_less)
  moreover have "map ?g [sum_list tc..<sum_list tc + c] = map (f (length tc)) [0..<c]"
    by (rule nth_equalityI) (auto simp: searchsorted_snoc Let_def)
  moreover have "concat (map (\<lambda>e. map (f e) [0..<(tc @ [c]) ! e]) [0..<length tc])
      = concat (map (\<lambda>e. map (f e) [0..<tc ! e]) [0..<length tc])"
    by (intro arg_cong [where f = concat] map_cong) (auto simp: nth_append)
  ultimately show ?case
    using snoc by (simp add: upt_add_eq_append [of 0 "sum_list tc"])
qed simp

lemma tile_sources_rows:
  "tile_sources starts row0 tc = concat (map (\<lambda>e. map (\<lambda>j. starts ! e + row0 + j) [0..<tc ! e]) [0..<length tc])"
proof -
  have before: "cumsum tc ! searchsorted_right (cumsum tc) v - tc ! searchsorted_right (cumsum tc) v
      = sum_list (take (searchsorted_right (cumsum tc) v) tc)" if "v < sum_list tc" for v
    using searchsorted_less [OF that] by (simp add: nth_cumsum take_Suc_conv_app_nth)
  show ?thesis
    unfolding enumerate_rows [symmetric] tile_sources_def Let_def
    by (rule map_cong) (simp_all add: before)
qed

lemma starts_nth:
  assumes "e < length counts"
  shows "(0 # cumsum (butlast counts)) ! e = sum_list (take e counts)"
  using assms by (cases e) (simp_all add: nth_cumsum take_butlast)

lemma nth_concat_segs:
  assumes "e < length segs" and "k < length (segs ! e)"
  shows "(concat segs @ rest) ! (sum_list (take e (map length segs)) + k) = segs ! e ! k"
  using slice_concat [OF assms(1), of rest] assms(2)
  by (metis add_leE less_imp_le_nat linorder_le_less_linear nth_drop nth_take slice_def take_map drop_all length_0_conv
      take_Nil not_less_zero)

lemma select_rows:
  assumes "R = concat segs @ rest"
    and "tc = map (\<lambda>s. min (length s - row0) tile) segs"
  shows "index_select R (tile_sources (0 # cumsum (butlast (map length segs))) row0 tc)
    = concat (map (slice row0 tile) segs)"
proof -
  have row: "map (\<lambda>j. R ! ((0 # cumsum (butlast (map length segs))) ! e + row0 + j)) [0..<tc ! e]
      = slice row0 tile (segs ! e)" if "e < length segs" for e
  proof (rule nth_equalityI)
    fix j assume "j < length (map (\<lambda>j. R ! ((0 # cumsum (butlast (map length segs))) ! e + row0 + j)) [0..<tc ! e])"
    then have j: "j < min (length (segs ! e) - row0) tile" using assms(2) that by simp
    have "R ! (sum_list (take e (map length segs)) + (row0 + j)) = segs ! e ! (row0 + j)"
      unfolding assms(1) by (rule nth_concat_segs [OF that]) (use j in \<open>simp add: less_diff_conv add.commute\<close>)
    moreover have "row0 \<le> length (segs ! e)" using j by (auto simp: less_diff_conv)
    ultimately show "map (\<lambda>j. R ! ((0 # cumsum (butlast (map length segs))) ! e + row0 + j)) [0..<tc ! e] ! j
        = slice row0 tile (segs ! e) ! j"
      using j that assms(2) starts_nth [of e "map length segs"] by (simp add: slice_def add.assoc)
  qed (use assms(2) that in \<open>simp add: slice_def\<close>)
  have "length tc = length segs" by (simp add: assms(2))
  then have "map (\<lambda>e. map (\<lambda>j. R ! ((0 # cumsum (butlast (map length segs))) ! e + row0 + j)) [0..<tc ! e]) [0..<length tc]
      = map (\<lambda>e. slice row0 tile (segs ! e)) [0..<length segs]"
    by (intro map_cong) (simp_all add: row del: nth_Cons)
  also have "\<dots> = map (slice row0 tile) segs"
    using map_map [of "slice row0 tile" "(!) segs" "[0..<length segs]"] by (simp add: map_nth o_def)
  finally show ?thesis
    unfolding index_select_def tile_sources_rows map_concat map_map o_def by (rule arg_cong)
qed

lemma row_tile_adds:
  assumes rw: "rowwise be" and seg: "segmented segs" "length segs = length packs" and R: "R = concat segs @ rest"
  shows "row_tile (launch_spec be) xh (map length segs) (0 # cumsum (butlast (map length segs)))
      (map tok R) (map wt R) tile packs limit active out t
    = foldl (add_route be packs limit xh) out (concat (map (slice (t * tile) tile) segs))"
proof -
  let ?row0 = "t * tile"
  let ?tc = "map (\<lambda>s. min (length s - ?row0) tile) segs"
  let ?segs = "map (slice ?row0 tile) segs"
  let ?src = "tile_sources (0 # cumsum (butlast (map length segs))) ?row0 ?tc"
  have len: "?tc = map length ?segs" by (simp add: slice_def)
  have tc: "map (\<lambda>c. min (c - ?row0) tile) (map length segs) = ?tc" by simp
  show ?thesis
  proof (cases "sum_list ?tc = 0")
    case True
    then have "concat ?segs = []" unfolding len by (simp add: sum_list_eq_0_iff)
    then show ?thesis using True by (simp add: row_tile_def o_def del: concat_eq_Nil_conv)
  next
    case False
    have inb: "\<forall>i\<in>set ?src. i < length R"
    proof
      fix i assume "i \<in> set ?src"
      then obtain e j where ej: "e < length segs" "j < min (length (segs ! e) - ?row0) tile"
        and i: "i = sum_list (take e (map length segs)) + (?row0 + j)"
        unfolding tile_sources_rows using starts_nth [of _ "map length segs"] by (auto simp: add.assoc)
      have "sum_list (take e (map length segs)) + length (segs ! e) = sum_list (take (Suc e) (map length segs))"
        using ej(1) by (simp add: take_Suc_conv_app_nth)
      also have "\<dots> \<le> sum_list (map length segs)"
        by (metis append_take_drop_id le_add1 sum_list_append)
      finally have "sum_list (take e (map length segs)) + length (segs ! e) \<le> length R"
        by (simp add: R length_concat)
      moreover have "?row0 + j < length (segs ! e)"
        using ej(2) by (simp add: less_diff_conv add.commute)
      ultimately show "i < length R" using i by linarith
    qed
    have pick: "index_select R ?src = concat ?segs @ []"
      using select_rows [OF R refl] by simp
    have ts: "index_select (map tok R) ?src = map tok (index_select R ?src)"
      and ws: "index_select (map wt R) ?src = map wt (index_select R ?src)"
      using inb by (simp_all add: index_select_def)
    have "segmented ?segs"
      using seg(1) by (auto simp: segmented_def slice_def dest: in_set_takeD in_set_dropD)
    then have "launch_spec be packs limit tile active xh out (map length ?segs @ [0]) (map tok (index_select R ?src))
        (map wt (index_select R ?src))
      = foldl (add_route be packs limit xh) out (concat (filter (\<lambda>s. length s \<le> tile) ?segs))"
      using seg(2) by (intro launch_segments [OF rw _ _ refl pick]) simp_all
    also have "filter (\<lambda>s. length s \<le> tile) ?segs = ?segs" by (simp add: slice_def)
    finally show ?thesis
      using False by (simp only: row_tile_def Let_def tc ts [unfolded len] ws [unfolded len] exl3_moe_launch_def len if_False)
  qed
qed

lemma mset_concat_swap:
  "mset (concat (map (\<lambda>t. concat (map (g t) E)) T)) = mset (concat (map (\<lambda>e. concat (map (\<lambda>t. g t e) T)) E))"
proof (induction T)
  case Nil
  show ?case by (induction E) simp_all
next
  case (Cons t T)
  have "mset (concat (map (\<lambda>e. g t e @ h e) E)) = mset (concat (map (g t) E)) + mset (concat (map h E))" for h
    by (induction E) (simp_all add: ac_simps)
  with Cons show ?case by simp
qed

lemma concat_slices: "concat (map (\<lambda>t. slice (t * tile) tile s) [0..<m]) = take (m * tile) s"
  by (induction m) (auto simp: slice_def take_add [symmetric] add.commute)

lemma row_tiles_add:
  assumes rw: "rowwise be" and seg: "segmented segs" "length segs = length packs" and R: "R = concat segs @ rest"
    and "0 < tile" and bound: "\<And>s. s \<in> set segs \<Longrightarrow> length s \<le> max_rows"
  shows "exl3_moe_row_tiles (launch_spec be) xh out (map length segs) (map tok R) (map wt R) tile packs limit active max_rows
    = foldl (add_route be packs limit xh) out (concat segs)"
proof -
  let ?m = "(max_rows + tile - 1) div tile"
  have "foldl (row_tile (launch_spec be) xh (map length segs) (0 # cumsum (butlast (map length segs)))
          (map tok R) (map wt R) tile packs limit active) out T
      = foldl (add_route be packs limit xh) out (concat (map (\<lambda>t. concat (map (slice (t * tile) tile) segs)) T))" for T
    by (induction T arbitrary: out) (simp_all add: row_tile_adds [OF rw seg R])
  then have "exl3_moe_row_tiles (launch_spec be) xh out (map length segs) (map tok R) (map wt R) tile packs limit active max_rows
      = foldl (add_route be packs limit xh) out (concat (map (\<lambda>t. concat (map (slice (t * tile) tile) segs)) [0..<?m]))"
    by (simp add: exl3_moe_row_tiles_def)
  also have "\<dots> = foldl (add_route be packs limit xh) out (concat segs)"
  proof (rule routes_order)
    have "max_rows \<le> ?m * tile"
    proof -
      have "max_rows + tile - 1 < ?m * tile + tile"
        using \<open>0 < tile\<close> by (metis add.commute dividend_less_times_div mult.commute)
      then show ?thesis using \<open>0 < tile\<close> by simp
    qed
    then have "map (\<lambda>s. take (?m * tile) s) segs = map id segs"
      using bound by (intro map_cong) (auto intro: order_trans)
    then show "mset (concat (map (\<lambda>t. concat (map (slice (t * tile) tile) segs)) [0..<?m])) = mset (concat segs)"
      unfolding mset_concat_swap concat_slices by simp
  qed
  finally show ?thesis .
qed

end
