(* ===== verification/Exl3_Agree.thy ===== *)
theory Exl3_Agree
  imports Exl3_Tiers
begin

text \<open>
  The batched tier, and the agreement of all paths: whatever the environment selects, the fused
  execution of the routed experts returns what the plain loop returns.
\<close>

section \<open>The batched tier\<close>

text \<open>The laws of the kernels.  A packed layer is an input transform, a product with the
  reconstructed tiles and an output transform; two layers side by side give the rows of both
  side by side, at multiples of the transform's width; the direct kernels fuse the product and
  the output transform, and their scattering form adds the weighted rows to the output.\<close>

definition gemm_law :: "backend \<Rightarrow> gemm \<Rightarrow> bool" where
  "gemm_law be g \<longleftrightarrow>
     (\<forall>h t s k. g h t s k = had_r_128 be (hgemm be h (reconstruct be t k)) None (Some s))"

definition scatter_law :: "backend \<Rightarrow> gemm_scatter \<Rightarrow> bool" where
  "scatter_law be g \<longleftrightarrow>
     (\<forall>h l out idx w. g h l out idx w = index_add out idx (scale_rows
        (had_r_128 be (hgemm be h (reconstruct be (trellis l) (lin_k l))) None (Some (svh l))) w))"

definition ext_ok :: "backend \<Rightarrow> bool" where
  "ext_ok be \<longleftrightarrow>
     (\<forall>l xs. forward be l xs = had_r_128 be (hgemm be (had_r_128 be xs (Some (suh l)) None)
               (reconstruct be (trellis l) (lin_k l))) None (Some (svh l)))
     \<and> (\<forall>l xs. \<forall>r\<in>set (forward be l xs). length r = out_features l)
     \<and> (\<forall>h t1 t2 s1 s2 k. length t1 = length t2 \<longrightarrow> 128 dvd length s1 \<longrightarrow>
          had_r_128 be (hgemm be h (reconstruct be (map2 (@) t1 t2) k)) None (Some (s1 @ s2))
          = map2 (@) (had_r_128 be (hgemm be h (reconstruct be t1 k)) None (Some s1))
                     (had_r_128 be (hgemm be h (reconstruct be t2 k)) None (Some s2)))
     \<and> (\<forall>v. silu be v = sigmoid be v * v)
     \<and> (\<forall>g. Some g \<in> {fat_gemm be, fat_gemm_pipe be} \<longrightarrow> gemm_law be g)
     \<and> (\<forall>g. Some g \<in> {fat_gemm_scatter be, fat_gemm_pipe_scatter be} \<longrightarrow> scatter_law be g)"

lemma ext_ok_forward:
  "ext_ok be \<Longrightarrow> had_r_128 be (hgemm be (had_r_128 be xs (Some (suh l)) None)
     (reconstruct be (trellis l) (lin_k l))) None (Some (svh l)) = forward be l xs"
  unfolding ext_ok_def by (elim conjE) (rule sym, blast)

lemma ext_ok_width: "ext_ok be \<Longrightarrow> \<forall>r\<in>set (forward be l xs). length r = out_features l"
  unfolding ext_ok_def by (elim conjE) blast

lemma ext_ok_silu: "ext_ok be \<Longrightarrow> \<forall>v. silu be v = sigmoid be v * v"
  unfolding ext_ok_def by (elim conjE) assumption

lemma ext_ok_stack:
  "ext_ok be \<Longrightarrow> length t1 = length t2 \<Longrightarrow> 128 dvd length s1 \<Longrightarrow>
   had_r_128 be (hgemm be h (reconstruct be (map2 (@) t1 t2) k)) None (Some (s1 @ s2))
   = map2 (@) (had_r_128 be (hgemm be h (reconstruct be t1 k)) None (Some s1))
              (had_r_128 be (hgemm be h (reconstruct be t2 k)) None (Some s2))"
  unfolding ext_ok_def by (elim conjE) blast

lemma ext_ok_gemm: "ext_ok be \<Longrightarrow> Some g \<in> {fat_gemm be, fat_gemm_pipe be} \<Longrightarrow> gemm_law be g"
  unfolding ext_ok_def by (elim conjE) blast

lemma ext_ok_scatter:
  "ext_ok be \<Longrightarrow> Some g \<in> {fat_gemm_scatter be, fat_gemm_pipe_scatter be} \<Longrightarrow> scatter_law be g"
  unfolding ext_ok_def by (elim conjE) blast

text \<open>What the stacked product needs of a checkpoint's expert.\<close>

definition stackable :: "pack \<Rightarrow> bool" where
  "stackable p \<longleftrightarrow> suh (gate p) = suh (up p) \<and> lin_k (gate p) = lin_k (up p)
     \<and> length (trellis (gate p)) = length (trellis (up p)) \<and> 128 dvd out_features (gate p)"

lemma gated_act_swiglu:
  assumes "\<forall>v. silu be v = sigmoid be v * v" and "\<forall>r\<in>set g. length r = n" and "length g = length u"
  shows "gated_act be limit n (map2 (@) g u) = swiglu be limit g u"
  using assms(3,2) unfolding gated_act_def swiglu_def Let_def
proof (induction g u rule: list_induct2)
  case (Cons a g b u)
  have "map2 (\<lambda>g u. sigmoid be g * g * u) (map (\<lambda>v. min v limit) a) (map (clamp_limit limit) b)
      = map2 (\<lambda>a b. silu be (min a limit) * clamp_limit limit b) a b"
    using assms(1) by (simp add: zip_map_map o_def case_prod_beta)
  with Cons show ?case by simp
qed simp

lemma stacked_first:
  assumes ok: "ext_ok be" and p: "stackable p"
  shows "had_r_128 be (hgemm be (had_r_128 be h (Some (suh (gate p))) None)
      (reconstruct be (pack_gate_up p) (lin_k (gate p)))) None (Some (svh (gate p) @ svh (up p)))
    = map2 (@) (forward be (gate p) h) (forward be (up p) h)"
proof -
  have "length (trellis (gate p)) = length (trellis (up p))" and "128 dvd length (svh (gate p))"
    and same: "suh (gate p) = suh (up p)" "lin_k (gate p) = lin_k (up p)"
    using p by (simp_all add: stackable_def out_features_def)
  from ext_ok_stack [OF ok this(1,2)] show ?thesis
    unfolding pack_gate_up_def ext_ok_forward [OF ok, symmetric] by (simp only: same)
qed

definition sources_ok :: "environ \<Rightarrow> backend \<Rightarrow> bool \<Rightarrow> bool" where
  "sources_ok env be use_kernel \<longleftrightarrow>
     (use_kernel \<longrightarrow> (if fat_pipeline_enabled env
        then fat_gemm_pipe be \<noteq> None \<and> fat_gemm_pipe_scatter be \<noteq> None
        else fat_gemm be \<noteq> None \<and> fat_gemm_scatter be \<noteq> None))"

definition gemm_ok :: "backend \<Rightarrow> bool \<Rightarrow> gemm option \<Rightarrow> gemm_scatter option \<Rightarrow> bool" where
  "gemm_ok be use_kernel gm sc \<longleftrightarrow>
     (use_kernel \<longrightarrow> gm \<noteq> None \<and> sc \<noteq> None \<and> gm \<in> {fat_gemm be, fat_gemm_pipe be}
        \<and> sc \<in> {fat_gemm_scatter be, fat_gemm_pipe_scatter be})"

lemma first_gemm_stacked:
  assumes "ext_ok be" and "stackable p" and "gemm_ok be use_kernel gm sc"
  obtains st1 where "first_gemm be use_kernel gm p (had_r_128 be h (Some (suh (gate p))) None) st
    = (st1, Inr (map2 (@) (forward be (gate p) h) (forward be (up p) h)))"
proof (cases use_kernel)
  case True
  then obtain g where g: "gm = Some g" "Some g \<in> {fat_gemm be, fat_gemm_pipe be}"
    using assms(3) by (auto simp: gemm_ok_def)
  then have "g h' t s k = had_r_128 be (hgemm be h' (reconstruct be t k)) None (Some s)" for h' t s k
    using ext_ok_gemm [OF assms(1)] by (simp add: gemm_law_def)
  then show ?thesis
    using that [of "count_direct st"] True g(1) stacked_first [OF assms(1,2)]
    by (simp add: first_gemm_def)
next
  case False
  then show ?thesis
    using that [of st] stacked_first [OF assms(1,2)] by (simp add: first_gemm_def)
qed

lemma second_gemm_adds:
  assumes "ext_ok be" and "gemm_ok be use_kernel gm sc"
  obtains st1 where "second_gemm be use_kernel sc p (had_r_128 be act (Some (suh (down p))) None) out idx w st
    = (st1, Inr (index_add out idx (scale_rows (forward be (down p) act) w)))"
proof -
  have fwd: "had_r_128 be (hgemm be (had_r_128 be act (Some (suh (down p))) None)
      (reconstruct be (trellis (down p)) (lin_k (down p)))) None (Some (svh (down p))) = forward be (down p) act"
    by (rule ext_ok_forward [OF assms(1)])
  show ?thesis
  proof (cases use_kernel)
    case True
    then obtain g where g: "sc = Some g" "Some g \<in> {fat_gemm_scatter be, fat_gemm_pipe_scatter be}"
      using assms(2) by (auto simp: gemm_ok_def)
    then have "g h l o1 i v = index_add o1 i (scale_rows
        (had_r_128 be (hgemm be h (reconstruct be (trellis l) (lin_k l))) None (Some (svh l))) v)" for h l o1 i v
      using ext_ok_scatter [OF assms(1)] by (simp add: scatter_law_def)
    then show ?thesis
      using that [of "count_scatter st"] True g(1) fwd by (simp add: second_gemm_def)
  next
    case False
    then show ?thesis using that [of st] fwd by (simp add: second_gemm_def)
  qed
qed

lemma batched_expert_adds:
  assumes rw: "rowwise be" and ok: "ext_ok be" and p: "stackable p" and gs: "gemm_ok be use_kernel gm sc"
    and cfg: "configured_rows env = Inr c"
  obtains st1 where "batched_expert env be use_kernel gm sc limit xh p idx w out st
    = (st1, Inr (index_add out idx (scale_rows (sorted_mlp be limit p (index_select xh idx)) w)))"
proof -
  let ?h = "index_select xh idx"
  obtain st2 s where scr: "fat_scratch env (length idx) (gate p) (count_run st) = (st2, Inr s)"
    using cfg by (fastforce simp: fat_scratch_def Let_def split: option.splits if_splits)
  obtain st3 where first: "first_gemm be use_kernel gm p (had_r_128 be ?h (Some (suh (gate p))) None) st2
      = (st3, Inr (map2 (@) (forward be (gate p) ?h) (forward be (up p) ?h)))"
    by (rule first_gemm_stacked [OF ok p gs])
  have "length (forward be (gate p) ?h) = length (forward be (up p) ?h)"
    by (simp add: forward_rows [OF rw])
  then have act: "gated_act be limit (out_features (gate p)) (map2 (@) (forward be (gate p) ?h) (forward be (up p) ?h))
      = swiglu be limit (forward be (gate p) ?h) (forward be (up p) ?h)"
    by (rule gated_act_swiglu [OF ext_ok_silu [OF ok] ext_ok_width [OF ok]])
  obtain st4 where "second_gemm be use_kernel sc p
      (had_r_128 be (half_mat be (swiglu be limit (forward be (gate p) ?h) (forward be (up p) ?h))) (Some (suh (down p))) None)
      out idx w st3
    = (st4, Inr (index_add out idx (scale_rows (forward be (down p)
        (half_mat be (swiglu be limit (forward be (gate p) ?h) (forward be (up p) ?h)))) w)))"
    by (rule second_gemm_adds [OF ok gs])
  then show ?thesis
    using that [of st4] by (simp add: batched_expert_def scr first act sorted_mlp_def Let_def)
qed

lemma batched_segments:
  assumes rw: "rowwise be" and ok: "ext_ok be" and gs: "gemm_ok be use_kernel gm sc"
    and cfg: "configured_rows env = Inr c" and "drop start R = concat segs @ rest"
    and "\<And>i rt. i < length segs \<Longrightarrow> rt \<in> set (segs ! i) \<Longrightarrow> fst rt = e + i"
    and "\<And>i. i < length segs \<Longrightarrow> stackable (packs ! (e + i))"
  shows "\<exists>st1. batched_from env be use_kernel gm sc limit xh (map tok R) (map wt R) packs cap e start (map length segs) out st
    = (st1, Inr (foldl (add_route be packs limit xh) out (concat (filter (\<lambda>s. cap < length s) segs))))"
  using assms(5-7)
proof (induction segs arbitrary: e start out st)
  case (Cons s segs)
  have sl: "slice start (length s) R = s" by (rule slice_head [OF Cons.prems(1)])
  have key: "fst rt = e" if "rt \<in> set s" for rt using Cons.prems(2) [of 0 rt] that by simp
  have nxt: "drop (start + length s) R = concat segs @ rest"
    by (rule drop_sum_length [OF Cons.prems(1)])
  have keys: "fst rt = e + 1 + i" if "i < length segs" "rt \<in> set (segs ! i)" for i rt
    using Cons.prems(2) [of "Suc i" rt] that by simp
  have packs: "stackable (packs ! (e + 1 + i))" if "i < length segs" for i
    using Cons.prems(3) [of "Suc i"] that by simp
  note IH = Cons.IH [OF nxt keys packs]
  show ?case
  proof (cases "length s \<le> cap")
    case True
    then show ?thesis using IH [of out st] by simp
  next
    case False
    have p: "stackable (packs ! e)" using Cons.prems(3) [of 0] by simp
    obtain st1 where "batched_expert env be use_kernel gm sc limit xh (packs ! e) (map tok s) (map wt s) out st
        = (st1, Inr (index_add out (map tok s)
            (scale_rows (sorted_mlp be limit (packs ! e) (index_select xh (map tok s))) (map wt s))))"
      by (rule batched_expert_adds [OF rw ok p gs cfg])
    then have "batched_expert env be use_kernel gm sc limit xh (packs ! e) (map tok s) (map wt s) out st
        = (st1, Inr (foldl (add_route be packs limit xh) out s))"
      by (simp add: expert_add [OF rw key])
    then show ?thesis
      using False IH [of "foldl (add_route be packs limit xh) out s" st1] by (simp add: slice_map sl)
  qed
qed simp

lemma batched_fat_adds:
  assumes "rowwise be" and "ext_ok be" and src: "sources_ok env be use_kernel" and "configured_rows env = Inr c"
    and "sorted (map fst R)" and "\<And>i. i < n \<Longrightarrow> stackable (packs ! i)"
  shows "\<exists>st1. apply_exl3_batched_fat env be xh (map tok R) (map wt R) (map length (segs_of n R)) packs limit cap use_kernel out st
    = (st1, Inr (foldl (add_route be packs limit xh) out (concat (filter (\<lambda>s. cap < length s) (segs_of n R)))))"
proof -
  let ?pipe = "use_kernel \<and> fat_pipeline_enabled env"
  let ?gm = "if ?pipe then fat_gemm_pipe be else fat_gemm be"
  let ?sc = "if ?pipe then fat_gemm_pipe_scatter be else fat_gemm_scatter be"
  have gs: "gemm_ok be use_kernel ?gm ?sc"
    using src by (auto simp: gemm_ok_def sources_ok_def)
  have start: "drop 0 R = concat (segs_of n R) @ filter (\<lambda>r. n \<le> fst r) R"
    using sorted_as_segments [OF assms(5), of n] by simp
  have "\<exists>st1. batched_from env be use_kernel ?gm ?sc limit xh (map tok R) (map wt R) packs cap 0 0 (map length (segs_of n R)) out st
    = (st1, Inr (foldl (add_route be packs limit xh) out (concat (filter (\<lambda>s. cap < length s) (segs_of n R)))))"
    by (rule batched_segments [OF assms(1,2) gs assms(4) start]) (use assms(6) in \<open>auto simp: segs_of_def\<close>)
  moreover have "(?pipe \<and> (fat_gemm_pipe be = None \<or> fat_gemm_pipe_scatter be = None)) = False"
    using src by (auto simp: sources_ok_def)
  ultimately show ?thesis
    unfolding apply_exl3_batched_fat_def Let_def by (simp only: if_False)
qed

section \<open>Agreement\<close>

text \<open>The experts of the fallback and those of the launch are all experts.\<close>

lemma all_segments:
  assumes "sorted (map fst R)" and "mset R = mset F"
  shows "foldl (add_route be packs limit xh) out (concat (segs_of n R))
    = foldl (add_route be packs limit xh) out (filter (\<lambda>r. fst r < n) F)"
  by (rule routes_order) (simp add: concat_segs_of assms)

lemma thin_then_fat:
  assumes "sorted (map fst R)" and "mset R = mset F"
  shows "foldl (add_route be packs limit xh) (foldl (add_route be packs limit xh) out
      (concat (filter (\<lambda>s. length s \<le> cap) (segs_of n R)))) (concat (filter (\<lambda>s. cap < length s) (segs_of n R)))
    = foldl (add_route be packs limit xh) out (filter (\<lambda>r. fst r < n) F)"
  using routes.by_parts [where P = "\<lambda>s. length s \<le> cap"] all_segments [OF assms] by (simp add: not_le)

lemma filter_key_in:
  "v \<in> S \<Longrightarrow> filter (\<lambda>r. fst r = v) (filter (\<lambda>r. fst r \<in> S) R) = filter (\<lambda>r. fst r = v) R"
  by (induction R) auto

lemma mset_fat_segments:
  "mset (concat (filter (\<lambda>s. cap < length s) (segs_of n R)))
   = mset (filter (wanted n (Some {e. e < n \<and> cap < length (segs_of n R ! e)})) R)"
proof -
  let ?S = "filter (\<lambda>e. cap < length (filter (\<lambda>r. fst r = e) R)) [0..<n]"
  let ?P = "filter (\<lambda>r. fst r \<in> set ?S) R"
  have "filter (\<lambda>s. cap < length s) (segs_of n R) = map (\<lambda>v. filter (\<lambda>r. fst r = v) R) ?S"
    by (simp add: segs_of_def filter_map o_def)
  also have "\<dots> = map (\<lambda>v. filter (\<lambda>r. fst r = v) ?P) ?S"
    by (rule map_cong [OF refl]) (rule filter_key_in [symmetric])
  finally have segs: "filter (\<lambda>s. cap < length s) (segs_of n R) = map (\<lambda>v. filter (\<lambda>r. fst r = v) ?P) ?S" .
  have "mset (concat (filter (\<lambda>s. cap < length s) (segs_of n R))) = mset ?P"
    unfolding segs by (rule mset_by_key) auto
  moreover have "?P = filter (wanted n (Some {e. e < n \<and> cap < length (segs_of n R ! e)})) R"
    by (rule filter_cong [OF refl]) (auto simp: wanted_def segs_of_def)
  ultimately show ?thesis by (simp only:)
qed

text \<open>A call whose tensors have matching shapes, whose ids the expert map knows, where no token
  names an expert twice, and whose weights are half-precision numbers.\<close>

definition call_ok :: "backend \<Rightarrow> nat \<Rightarrow> emap option \<Rightarrow> mat \<Rightarrow> int list list \<Rightarrow> mat \<Rightarrow> bool" where
  "call_ok be n em x ids weights \<longleftrightarrow>
     rectangular ids weights x \<and> in_map em ids
     \<and> (\<forall>row\<in>set ids. distinct (filter (\<lambda>l. l < n) (map (lid_of n em) row)))
     \<and> (\<forall>row\<in>set weights. \<forall>w\<in>set row. half be w = w)"

definition backend_ok :: "backend \<Rightarrow> bool" where
  "backend_ok be \<longleftrightarrow> rowwise be \<and> argsort_ok be \<and> kernel_ok be \<and> ext_ok be"

definition layer_ok :: "layer \<Rightarrow> bool" where
  "layer_ok lay \<longleftrightarrow> inners lay \<noteq> [] \<and> (\<forall>cap. fused_temps lay = Some cap \<longrightarrow> 0 < cap)
     \<and> (ptrs lay \<longrightarrow> fused_temps lay \<noteq> None)
     \<and> (shared_w13_suh lay \<longrightarrow> (\<forall>p\<in>set (inners lay). stackable p))"

text \<open>Settings that parse, and the symbols of the tier they ask for.\<close>

definition env_ok :: "environ \<Rightarrow> backend \<Rightarrow> bool" where
  "env_ok env be \<longleftrightarrow> ok_res (temp_rows_fused env) \<and> ok_res (configured_rows env)
     \<and> sources_ok env be (fat_kernel_enabled env)"

lemma all_routes_half:
  assumes "call_ok be n em x ids weights"
  shows "all_routes loc (half be) ids weights = all_routes loc id ids weights"
  unfolding all_routes_def
proof (rule map_cong [OF refl])
  fix p assume "p \<in> set (positions ids)"
  then have "fst p < length weights" "snd p < length (weights ! fst p)"
    using assms positions_less [of "fst p" "snd p" ids] by (auto simp: call_ok_def rectangular_def)
  then have "weights ! fst p \<in> set weights" "weights ! fst p ! snd p \<in> set (weights ! fst p)"
    by simp_all
  then have "half be (weights ! fst p ! snd p) = weights ! fst p ! snd p"
    using assms unfolding call_ok_def by blast
  then show "route_at loc (half be) ids weights p = route_at loc id ids weights p"
    by (simp add: route_at_def)
qed

text \<open>Hence no expert has more rows than there are tokens, and a batch that fits the scratch is
  run by the launch alone.\<close>

lemma segment_bound:
  assumes ok: "call_ok be n em x ids weights" and R: "mset R = mset (all_routes (lid_of n em) h ids weights)"
    and e: "e < n"
  shows "length (filter (\<lambda>r. fst r = e) R) \<le> length x"
proof -
  let ?loc = "lid_of n em"
  have row: "length (filter (\<lambda>k. ?loc (ids ! t ! k) = e) [0..<length (ids ! t)]) \<le> 1" if "t < length ids" for t
  proof -
    let ?ls = "filter (\<lambda>l. l < n) (map ?loc (ids ! t))"
    have "distinct ?ls" using ok that by (simp add: call_ok_def)
    then have "distinct (filter (\<lambda>l. l = e) ?ls)" by (rule distinct_filter)
    moreover have "set (filter (\<lambda>l. l = e) ?ls) \<subseteq> {e}" by auto
    ultimately have "length (filter (\<lambda>l. l = e) ?ls) \<le> 1"
      by (metis card_mono card.empty card_insert_if distinct_card empty_iff finite.emptyI finite.insertI One_nat_def)
    moreover have "filter (\<lambda>l. l = e) ?ls = filter (\<lambda>l. l = e) (map (\<lambda>k. ?loc (ids ! t ! k)) [0..<length (ids ! t)])"
      using e by (subst map_nth [of "ids ! t", symmetric]) (auto simp del: map_nth simp: o_def conj_commute intro!: filter_cong)
    ultimately have "length (filter (\<lambda>l. l = e) (map (\<lambda>k. ?loc (ids ! t ! k)) [0..<length (ids ! t)])) \<le> 1"
      by (simp only:)
    then show ?thesis by (simp add: filter_map o_def)
  qed
  have "length (filter (\<lambda>r. fst r = e) R) = length (filter (\<lambda>r. fst r = e) (all_routes ?loc h ids weights))"
    using R by (metis mset_filter size_mset)
  also have "\<dots> = sum_list (map (\<lambda>t. length (filter (\<lambda>k. ?loc (ids ! t ! k) = e) [0..<length (ids ! t)])) [0..<length ids])"
    by (simp add: all_routes_def positions_def filter_map filter_concat length_concat route_at_def o_def)
  also have "\<dots> \<le> length [0..<length ids] * 1"
    by (rule sum_list_map_le) (rule row, simp)
  finally show ?thesis using ok by (simp add: call_ok_def rectangular_def)
qed

end
