(* ===== verification/Exl3_Choice.thy ===== *)
theory Exl3_Choice
  imports Exl3_Agree
begin

text \<open>
  The properties of \<open>apply_exl3_experts\<close>: the choice of a path does not change the result, the
  tier that runs is the one the environment and the checkpoint determine, the counters account
  for every call, and where the code stops instead.
\<close>

section \<open>One result for every path\<close>

text \<open>The facts about a call that every path uses: its routes in sorted order.\<close>

definition routed :: "backend \<Rightarrow> layer \<Rightarrow> moe_call \<Rightarrow> buffers \<Rightarrow> route list \<Rightarrow> bool" where
  "routed be lay call b R \<longleftrightarrow>
     mset R = mset (all_routes (lid_of (length (inners lay)) (c_emap call)) id (c_ids call) (c_weights call))
     \<and> sorted (map fst R)
     \<and> (\<forall>s\<in>set (segs_of (length (inners lay)) R). length s \<le> length (c_x call))
     \<and> b = \<lparr>b_xh = half_mat be (c_x call), b_counts = map length (segs_of (length (inners lay)) R),
            b_ec = map length (segs_of (length (inners lay)) R)
              @ [length (filter (\<lambda>r. fst r = length (inners lay)) R)],
            b_tokens = map tok R, b_weights = map wt R\<rparr>"

definition summed :: "backend \<Rightarrow> layer \<Rightarrow> moe_call \<Rightarrow> mat" where
  "summed be lay call =
     foldl (add_route be (inners lay) (c_limit call) (half_mat be (c_x call)))
       (zeros (length (c_x call)) (mat_width (c_x call)))
       (filter (\<lambda>r. fst r < length (inners lay))
         (all_routes (lid_of (length (inners lay)) (c_emap call)) id (c_ids call) (c_weights call)))"

abbreviation call_good :: "backend \<Rightarrow> layer \<Rightarrow> moe_call \<Rightarrow> bool" where
  "call_good be lay call \<equiv>
     call_ok be (length (inners lay)) (c_emap call) (c_x call) (c_ids call) (c_weights call)"

lemma wanted_None: "wanted n None = (\<lambda>r. fst r < n)"
  by (auto simp: wanted_def)

lemma loop_summed:
  assumes "rowwise be" and "call_good be lay call"
  shows "apply_exl3_python_loop be (c_x call) (c_ids call) (c_weights call) (inners lay) (c_emap call) (c_limit call) None None
    = summed be lay call"
  using loop_adds_routes [OF assms(1), of "c_ids call" "c_x call" "c_emap call"] assms(2)
  by (simp add: call_ok_def rectangular_def summed_def start_out_def wanted_None)

lemma routed_exists:
  assumes "argsort_ok be" and "call_good be lay call"
    and "map_topk_to_local (c_ids call) (length (inners lay)) (c_emap call) = Inr loc"
  obtains R where "routed be lay call
    (sort_routes be (c_x call) (c_ids call) (c_weights call) (length (inners lay)) loc) R"
proof -
  let ?n = "length (inners lay)" and ?lid = "lid_of (length (inners lay)) (c_emap call)"
  have rect: "rectangular (c_ids call) (c_weights call) (c_x call)"
    using assms(2) by (simp add: call_ok_def)
  have loc: "loc = map ?lid (concat (c_ids call))"
    using assms(3) by (auto simp: map_topk_to_local_def split: option.splits prod.splits if_splits)
  obtain R where R: "mset R = mset (all_routes ?lid (half be) (c_ids call) (c_weights call))" "sorted (map fst R)"
    and b: "sort_routes be (c_x call) (c_ids call) (c_weights call) ?n loc =
      \<lparr>b_xh = half_mat be (c_x call), b_counts = map length (segs_of ?n R),
       b_ec = map length (segs_of ?n R) @ [length (filter (\<lambda>r. fst r = ?n) R)],
       b_tokens = map tok R, b_weights = map wt R\<rparr>"
    by (rule sort_routes_segments [OF assms(1) rect loc])
  have "\<forall>s\<in>set (segs_of ?n R). length s \<le> length (c_x call)"
    unfolding segs_of_def using segment_bound [OF assms(2) R(1)] by simp
  then show ?thesis
    using that [of R] R b by (simp add: routed_def all_routes_half [OF assms(2)])
qed

lemma launch_adds:
  assumes "rowwise be" and "kernel_ok be" and "exl3_moe be = Some fn" and R: "routed be lay call b R"
  shows "exl3_moe_launch fn (b_xh b) out (b_ec b) (b_tokens b) (b_weights b) cap (inners lay) (c_limit call) active
    = foldl (add_route be (inners lay) (c_limit call) (half_mat be (c_x call))) out
        (concat (filter (\<lambda>s. length s \<le> cap) (segs_of (length (inners lay)) R)))"
proof -
  have fn: "fn = launch_spec be" using assms(2,3) by (simp add: kernel_ok_def)
  have "sorted (map fst R)" using R by (simp add: routed_def)
  note seg = sorted_as_segments [OF this, of "length (inners lay)"]
  show ?thesis
    using R launch_segments [OF assms(1) segmented_segs_of length_segs_of refl seg]
    by (simp add: exl3_moe_launch_def fn routed_def)
qed

lemma thin_launch:
  assumes "rowwise be" and "kernel_ok be" and "exl3_moe be = Some fn" and R: "routed be lay call b R"
    and "\<And>s. s \<in> set (segs_of (length (inners lay)) R) \<Longrightarrow> length s \<le> cap"
  shows "exl3_moe_launch fn (b_xh b) (zeros (length (c_x call)) (mat_width (c_x call))) (b_ec b) (b_tokens b)
      (b_weights b) cap (inners lay) (c_limit call) active = summed be lay call"
proof -
  have "filter (\<lambda>s. length s \<le> cap) (segs_of (length (inners lay)) R) = segs_of (length (inners lay)) R"
    using assms(5) by (simp add: filter_id_conv)
  then show ?thesis
    unfolding launch_adds [OF assms(1-4)] summed_def
    using R all_segments [of R] by (simp add: routed_def)
qed

lemma list_max_ge: "c \<in> set xs \<Longrightarrow> c \<le> list_max xs"
proof -
  have "list_max xs = Max (set (0 # xs))"
    unfolding list_max_def by (simp only: Max.set_eq_fold)
  then show "c \<in> set xs \<Longrightarrow> c \<le> list_max xs" by simp
qed

lemma tiles_summed:
  assumes "rowwise be" and "kernel_ok be" and "exl3_moe be = Some fn" and R: "routed be lay call b R" and "0 < cap"
  shows "exl3_moe_row_tiles fn (b_xh b) (zeros (length (c_x call)) (mat_width (c_x call))) (b_counts b) (b_tokens b)
      (b_weights b) cap (inners lay) (c_limit call) active (list_max (b_counts b)) = summed be lay call"
proof -
  let ?segs = "segs_of (length (inners lay)) R"
  have fn: "fn = launch_spec be" using assms(2,3) by (simp add: kernel_ok_def)
  have b: "b_xh b = half_mat be (c_x call)" "b_counts b = map length ?segs" "b_tokens b = map tok R" "b_weights b = map wt R"
    and srt: "sorted (map fst R)"
    and ms: "mset R = mset (all_routes (lid_of (length (inners lay)) (c_emap call)) id (c_ids call) (c_weights call))"
    using R by (simp_all add: routed_def)
  have bound: "length s \<le> list_max (map length ?segs)" if "s \<in> set ?segs" for s
    using that by (intro list_max_ge) simp
  show ?thesis
    unfolding b fn summed_def all_segments [OF srt ms, symmetric]
    by (rule row_tiles_add [OF assms(1) segmented_segs_of length_segs_of sorted_as_segments [OF srt] assms(5)])
      (rule bound)
qed

lemma fat_stage_summed:
  assumes be: "backend_ok be" and fn: "exl3_moe be = Some fn" and call: "call_good be lay call"
    and R: "routed be lay call b R" and lay: "layer_ok lay" and env: "env_ok env be"
    and host: "batched_fat_fallback_enabled env \<or> fat_kernel_enabled env \<or> sorted_fat_fallback_enabled env \<Longrightarrow> host"
  shows "\<exists>lay' st'. fat_stage env be call b cap host
      (exl3_moe_launch fn (b_xh b) (zeros (length (c_x call)) (mat_width (c_x call))) (b_ec b) (b_tokens b)
         (b_weights b) cap (inners lay) (c_limit call) active) lay st = (lay', st', Inr (summed be lay call))"
proof -
  let ?n = "length (inners lay)" and ?add = "add_route be (inners lay) (c_limit call) (half_mat be (c_x call))"
  let ?segs = "segs_of ?n R" and ?zero = "zeros (length (c_x call)) (mat_width (c_x call))"
  let ?F = "all_routes (lid_of ?n (c_emap call)) id (c_ids call) (c_weights call)"
  have rw: "rowwise be" and ext: "ext_ok be" and kern: "kernel_ok be" using be by (simp_all add: backend_ok_def)
  have b: "b_xh b = half_mat be (c_x call)" "b_counts b = map length ?segs" "b_tokens b = map tok R" "b_weights b = map wt R"
    and srt: "sorted (map fst R)" and ms: "mset R = mset ?F"
    using R by (simp_all add: routed_def)
  define thin where "thin = foldl ?add ?zero (concat (filter (\<lambda>s. length s \<le> cap) ?segs))"
  have sum: "foldl ?add thin (concat (filter (\<lambda>s. cap < length s) ?segs)) = summed be lay call"
    unfolding thin_def summed_def by (rule thin_then_fat [OF srt ms])
  obtain c where cfg: "configured_rows env = Inr c"
    using env by (auto simp: env_ok_def elim: ok_resE)
  consider (batched) "batched_fat_fallback_enabled env \<or> fat_kernel_enabled env" "shared_w13_suh lay"
    | (sorted) "\<not> ((batched_fat_fallback_enabled env \<or> fat_kernel_enabled env) \<and> shared_w13_suh lay)"
        "sorted_fat_fallback_enabled env \<or> batched_fat_fallback_enabled env \<or> fat_kernel_enabled env"
    | (legacy) "\<not> (sorted_fat_fallback_enabled env \<or> batched_fat_fallback_enabled env \<or> fat_kernel_enabled env)"
    by blast
  then have "\<exists>lay' st'. fat_stage env be call b cap host thin lay st = (lay', st', Inr (summed be lay call))"
  proof cases
    case batched
    have "stackable (inners lay ! i)" if "i < ?n" for i
      using lay batched(2) that by (simp add: layer_ok_def)
    moreover have "sources_ok env be (fat_kernel_enabled env)" using env by (simp add: env_ok_def)
    ultimately have run: "\<exists>st1. apply_exl3_batched_fat env be (half_mat be (c_x call)) (map tok R) (map wt R) (map length ?segs)
        (inners lay) (c_limit call) cap (fat_kernel_enabled env) thin st'
      = (st1, Inr (summed be lay call))" for st'
      unfolding sum [symmetric] by (rule batched_fat_adds [OF rw ext _ cfg srt, rotated])
    have "host" by (rule host) (use batched(1) in blast)
    show ?thesis
      using batched \<open>host\<close> run unfolding fat_stage_def Let_def b
      by (auto simp: record_exl3_fat_tier_def Let_def)
  next
    case sorted
    have "host" by (rule host) (use sorted(2) in blast)
    have "fst (apply_exl3_sorted_fat be (half_mat be (c_x call)) (map tok R) (map wt R) (map length ?segs)
        (inners lay) (c_limit call) cap thin st1) = summed be lay call" for st1
      unfolding sum [symmetric] by (rule sorted_fat_adds [OF rw srt])
    then show ?thesis
      using sorted \<open>host\<close> unfolding fat_stage_def Let_def b
      by (auto simp: record_exl3_fat_tier_def Let_def case_prod_beta)
  next
    case legacy
    let ?fat = "filter (\<lambda>e. map length ?segs ! e > cap) [0..<length (map length ?segs)]"
    have fat: "set ?fat = {e. e < ?n \<and> cap < length (?segs ! e)}" by auto
    have "foldl ?add thin (filter (wanted ?n (Some (set ?fat))) ?F)
        = foldl ?add thin (concat (filter (\<lambda>s. cap < length s) ?segs))"
    proof (rule routes_order)
      show "mset (filter (wanted ?n (Some (set ?fat))) ?F) = mset (concat (filter (\<lambda>s. cap < length s) ?segs))"
        unfolding fat mset_fat_segments by (simp add: ms)
    qed
    then have loop: "apply_exl3_python_loop be (c_x call) (c_ids call) (c_weights call) (inners lay) (c_emap call)
        (c_limit call) (Some (set ?fat)) (Some thin) = summed be lay call"
      using loop_adds_routes [OF rw, of "c_ids call" "c_x call" "c_emap call"] call sum
      by (simp add: call_ok_def rectangular_def start_out_def del: set_filter)
    have "thin = summed be lay call" if "?fat = []"
    proof -
      have "filter (\<lambda>s. cap < length s) ?segs = []"
        using that by (auto simp: filter_empty_conv in_set_conv_nth)
      then show ?thesis using sum by simp
    qed
    then show ?thesis
      using legacy loop unfolding fat_stage_def Let_def b
      by (auto simp: record_exl3_fat_tier_def Let_def simp del: set_filter)
  qed
  then show ?thesis unfolding launch_adds [OF rw kern fn R] thin_def .
qed

lemma prefill_stage_summed:
  assumes be: "backend_ok be" and fn: "exl3_moe be = Some fn" and call: "call_good be lay call"
    and R: "routed be lay call b R" and lay: "layer_ok lay" and env: "env_ok env be" and "0 < cap"
  shows "\<exists>lay' st'. prefill_stage env be fn call b cap (zeros (length (c_x call)) (mat_width (c_x call))) lay st
    = (lay', st', Inr (summed be lay call))"
proof -
  let ?segs = "segs_of (length (inners lay)) R"
  let ?zero = "zeros (length (c_x call)) (mat_width (c_x call))"
  define act where "act = (if num_active be then Some (-1) else None :: int option)"
  let ?launch = "exl3_moe_launch fn (b_xh b) ?zero (b_ec b) (b_tokens b) (b_weights b) cap (inners lay) (c_limit call) act"
  have rw: "rowwise be" and kern: "kernel_ok be" using be by (simp_all add: backend_ok_def)
  obtain rows where "temp_rows_fused env = Inr rows" using env by (auto simp: env_ok_def elim: ok_resE)
  then obtain st2 where stats: "(if fat_expert_log_enabled env
      then record_exl3_fat_expert_stats env (b_counts b) (list_max (b_counts b)) (count_prefill st)
      else Inr (count_prefill st)) = Inr st2"
    by (cases "fat_expert_log_enabled env") (simp_all add: record_exl3_fat_expert_stats_def Let_def)
  have thin: "?launch = summed be lay call" if "list_max (b_counts b) \<le> cap"
  proof (rule thin_launch [OF rw kern fn R])
    fix s assume "s \<in> set ?segs"
    then have "length s \<in> set (b_counts b)" using R by (simp add: routed_def)
    then show "length s \<le> cap" using list_max_ge that by (meson order_trans)
  qed
  have tiles: "exl3_moe_row_tiles fn (b_xh b) ?zero (b_counts b) (b_tokens b) (b_weights b) cap (inners lay)
      (c_limit call) act (list_max (b_counts b)) = summed be lay call"
    by (rule tiles_summed [OF rw kern fn R \<open>0 < cap\<close>])
  have fat: "\<exists>lay' st'. fat_stage env be call b cap host ?launch lay st2 = (lay', st', Inr (summed be lay call))"
    if "batched_fat_fallback_enabled env \<or> fat_kernel_enabled env \<or> sorted_fat_fallback_enabled env \<Longrightarrow> host" for host
    by (rule fat_stage_summed [OF be fn call R lay env that])
  show ?thesis
    unfolding prefill_stage_def Let_def stats sum.case act_def [symmetric]
    using thin tiles
    by (cases "list_max (b_counts b) \<le> cap"; cases "fused_moe_row_tile_enabled env") (auto intro!: fat)
qed

lemma fused_summed:
  assumes be: "backend_ok be" and fn: "exl3_moe be \<noteq> None" and call: "call_good be lay call"
    and lay: "layer_ok lay" "ptrs lay" and env: "env_ok env be"
    and pinned: "case c_emap call of None \<Rightarrow> True | Some (pinned, m) \<Rightarrow> pinned"
  shows "\<exists>lay' st'. apply_exl3_fused_moe env be call lay st = (lay', st', Inr (summed be lay call))"
proof -
  have rw: "rowwise be" and srt: "argsort_ok be" and kern: "kernel_ok be" using be by (simp_all add: backend_ok_def)
  obtain f where f: "exl3_moe be = Some f" using fn by blast
  obtain cap where cap: "fused_temps lay = Some cap" "0 < cap" using lay by (auto simp: layer_ok_def)
  obtain loc where loc: "map_topk_to_local (c_ids call) (length (inners lay)) (c_emap call) = Inr loc"
    using pinned by (auto simp: map_topk_to_local_def split: option.splits)
  let ?b = "sort_routes be (c_x call) (c_ids call) (c_weights call) (length (inners lay)) loc"
  let ?lay = "lay\<lparr>last_fat_fallback := ''none'', last_fat_reason := ''no_fat_experts''\<rparr>"
  obtain R where R: "routed be lay call ?b R" by (rule routed_exists [OF srt call loc])
  have lay1: "layer_ok ?lay" "call_good be ?lay call" "routed be ?lay call ?b R" "summed be ?lay call = summed be lay call"
    using lay(1) call R by (simp_all add: layer_ok_def routed_def summed_def)
  show ?thesis
  proof (cases "length (c_x call) \<le> cap")
    case True
    have "exl3_moe_launch f (b_xh ?b) (zeros (length (c_x call)) (mat_width (c_x call))) (b_ec ?b) (b_tokens ?b)
        (b_weights ?b) cap (inners lay) (c_limit call) (if num_active be then Some (-1) else None) = summed be lay call"
      by (rule thin_launch [OF rw kern f R]) (use R True in \<open>fastforce simp: routed_def\<close>)
    then show ?thesis
      using lay(2) cap(1) loc f True by (simp add: apply_exl3_fused_moe_def Let_def)
  next
    case False
    then show ?thesis
      using lay(2) cap(1) loc f prefill_stage_summed [OF be f lay1(2,3,1) env cap(2), of st] lay1(4)
      by (simp add: apply_exl3_fused_moe_def Let_def)
  qed
qed

text \<open>C1: Whatever path is chosen, the routed experts compute the same sum.  For a call whose
  shapes match, whose ids the expert map knows, that names no expert twice for a token and whose
  weights are half-precision numbers, \<open>apply_exl3_experts\<close> returns what the plain loop over the
  experts returns: by the fused launch, by row tiles, or by the launch of the small experts and
  any of the four tiers for the large ones.  The environment chooses between them; it must parse,
  and the kernel tier needs its symbols.\<close>

theorem paths_agree:
  assumes "backend_ok be" and "layer_ok lay" and "env_ok env be"
    and "call_ok be (length (inners lay)) (layer_emap lay) x ids weights"
    and "fused = Some True \<Longrightarrow> ptrs lay"
  shows "\<exists>lay' st'. apply_exl3_experts env be fused x ids weights limit lay st
    = (lay', st', Inr (map (map (cast be))
        (apply_exl3_python_loop be x ids weights (inners lay) (layer_emap lay) limit None None)))"
proof -
  let ?em = "pin_exl3_expert_map (layer_emap lay)"
  let ?lay = "lay\<lparr>layer_emap := ?em\<rparr>"
  let ?call = "\<lparr>c_x = x, c_ids = ids, c_weights = weights, c_emap = ?em, c_limit = limit\<rparr>"
  have lid: "lid_of n ?em = lid_of n (layer_emap lay)" for n
    by (cases "layer_emap lay") (auto simp: pin_exl3_expert_map_def)
  have inm: "in_map ?em ids = in_map (layer_emap lay) ids"
    by (auto simp: in_map_def pin_exl3_expert_map_def split: option.splits)
  have call: "call_good be lay ?call" "call_good be ?lay ?call"
    using assms(4) by (simp_all add: call_ok_def lid inm)
  have lay: "layer_ok ?lay" using assms(2) by (simp add: layer_ok_def)
  have rw: "rowwise be" using assms(1) by (simp add: backend_ok_def)
  have pin: "case ?em of None \<Rightarrow> True | Some (pinned, m) \<Rightarrow> pinned"
    by (auto simp: pin_exl3_expert_map_def split: option.splits)
  have loop: "apply_exl3_python_loop be x ids weights (inners lay) ?em limit None None = summed be lay ?call"
    using loop_summed [OF rw call(1)] by simp
  have same: "apply_exl3_python_loop be x ids weights (inners lay) (layer_emap lay) limit None None
      = apply_exl3_python_loop be x ids weights (inners lay) ?em limit None None"
    using loop_adds_routes [OF rw] assms(4) by (simp add: call_ok_def rectangular_def lid inm)
  have ne: "inners lay \<noteq> []" using assms(2) by (simp add: layer_ok_def)
  have sum: "summed be ?lay ?call = summed be lay ?call" by (simp add: summed_def)
  show ?thesis
  proof (cases "(case fused of None \<Rightarrow> fused_moe_enabled env | Some f \<Rightarrow> f) \<and> ptrs lay \<and> exl3_moe be \<noteq> None")
    case True
    then obtain lay' st' where "apply_exl3_fused_moe env be ?call ?lay st = (lay', st', Inr (summed be lay ?call))"
      using fused_summed [OF assms(1) _ call(2) lay _ assms(3), of st] pin sum by auto
    then show ?thesis
      using True ne assms(5) by (simp add: apply_exl3_experts_def Let_def same loop)
  next
    case False
    then show ?thesis
      using ne assms(5) by (auto simp: apply_exl3_experts_def Let_def same)
  qed
qed

text \<open>A backend that satisfies the laws: its layers scale their output vector by the sum of a
  row.\<close>

definition demo_had :: "mat \<Rightarrow> vec option \<Rightarrow> vec option \<Rightarrow> mat" where
  "demo_had m a b = (case b of None \<Rightarrow> m | Some s \<Rightarrow> map (\<lambda>r. map (\<lambda>v. v * sum_list r) s) m)"

definition demo_forward :: "lin \<Rightarrow> mat \<Rightarrow> mat" where
  "demo_forward l xs = demo_had xs None (Some (svh l))"

definition demo_plain :: backend where
  "demo_plain = \<lparr>half = id, silu = id, sigmoid = (\<lambda>_. 1), cast = id, forward = demo_forward,
     argsort = (\<lambda>xs. sort_key ((!) xs) [0..<length xs]), exl3_moe = None, num_active = True,
     had_r_128 = demo_had, reconstruct = (\<lambda>_ _. []), hgemm = (\<lambda>h w. h),
     fat_gemm = Some (\<lambda>h t s k. demo_had h None (Some s)),
     fat_gemm_scatter = Some (\<lambda>h l out idx w. index_add out idx (scale_rows (demo_forward l h) w)),
     fat_gemm_pipe = None, fat_gemm_pipe_scatter = None\<rparr>"

definition demo_backend :: backend where
  "demo_backend = demo_plain\<lparr>exl3_moe := Some (launch_spec demo_plain)\<rparr>"

lemma launch_spec_exl3_moe: "launch_spec (be\<lparr>exl3_moe := f\<rparr>) = launch_spec be"
  by (simp add: launch_spec_def [abs_def] segment_add_def [abs_def] sorted_mlp_def swiglu_def half_mat_def)

lemma demo_backend_ok: "backend_ok demo_backend"
proof -
  have "rowwise demo_backend"
    by (simp add: rowwise_def demo_backend_def demo_plain_def demo_forward_def demo_had_def)
  moreover have "argsort_ok demo_backend"
    by (simp add: argsort_ok_def demo_backend_def demo_plain_def)
  moreover have "kernel_ok demo_backend"
    by (simp add: kernel_ok_def demo_backend_def launch_spec_exl3_moe)
  moreover have "ext_ok demo_backend"
    unfolding ext_ok_def gemm_law_def scatter_law_def
    by (simp add: demo_backend_def demo_plain_def demo_forward_def demo_had_def map2_same out_features_def)
  ultimately show ?thesis by (simp add: backend_ok_def)
qed

definition demo_lin :: "real \<Rightarrow> lin" where
  "demo_lin v = \<lparr>trellis = [], suh = [1], svh = [v], lin_k = 4\<rparr>"

definition demo_pack :: "real \<Rightarrow> pack" where
  "demo_pack v = \<lparr>gate = demo_lin v, up = demo_lin 1, down = demo_lin 1\<rparr>"

definition demo_layer :: layer where
  "demo_layer = \<lparr>inners = [demo_pack 1, demo_pack 2], ptrs = True, fused_temps = Some 1, layer_emap = None,
     shared_w13_suh = False, last_fat_fallback = ''none'', last_fat_reason = [], last_apply = []\<rparr>"

lemma demo_layer_ok: "layer_ok demo_layer"
  by (simp add: layer_ok_def demo_layer_def)

theorem paths_agree_witness:
  "\<exists>lay' st'. apply_exl3_experts [(''EXL3_FAT_SORTED'', ''1'')] demo_backend None [[1], [2], [3]] [[0, 1], [1, -1], [1, 0]]
      [[1, 1], [1, 1], [1, 1]] 10 demo_layer boot_exl3
    = (lay', st', Inr (map (map (cast demo_backend))
        (apply_exl3_python_loop demo_backend [[1], [2], [3]] [[0, 1], [1, -1], [1, 0]] [[1, 1], [1, 1], [1, 1]]
          (inners demo_layer) (layer_emap demo_layer) 10 None None)))"
proof (rule paths_agree [OF demo_backend_ok demo_layer_ok])
  show "env_ok [(''EXL3_FAT_SORTED'', ''1'')] demo_backend"
    by (simp add: env_ok_def temp_rows_fused_def configured_rows_def env_get_def sources_ok_def
        fat_kernel_enabled_def strip_by_id parse_int_def Let_def) (code_simp)
  show "call_ok demo_backend (length (inners demo_layer)) (layer_emap demo_layer) [[1], [2], [3]]
      [[0, 1], [1, -1], [1, 0]] [[1, 1], [1, 1], [1, 1]]"
    by (simp add: call_ok_def rectangular_def topk_of_def in_map_def demo_layer_def local_id_def
        demo_backend_def demo_plain_def)
qed simp

end
