(* ===== verification/Exl3_Load.thy ===== *)
theory Exl3_Load
  imports Exl3_Choice
begin

text \<open>
  Loading the packed experts (\<open>src/vllm-exl3/overlay/exl3.py\<close>): the quantisation config, the
  parameter shapes, tensor-parallel sharding, the weight loader, the resolution of the fallback
  tier, and \<open>process_weights_after_loading\<close>, which builds what \<open>apply_exl3_experts\<close> runs on.
  The rank, the device capability and the map of expert ids come from the server.
\<close>

datatype load_error =
    Missing_Symbols "string list" | Bad_Codebook string | Bad_Bits int | Bad_Value | Bad_Tiles nat nat
  | Not_Divisible nat | No_Dim | Unknown_Shard string | Not_Packed_Name string | Shape_Mismatch "nat list" "nat list"
  | Bad_Marker | Dense_Weights

section \<open>The fallback tier\<close>

definition configured_fat_tier :: "environ \<Rightarrow> string" where
  "configured_fat_tier env =
     (if fat_kernel_enabled env then ''kernel''
      else if batched_fat_fallback_enabled env then ''batched''
      else if sorted_fat_fallback_enabled env then ''sorted''
      else ''legacy'')"

text \<open>The availability of \<open>exl3_moe\<close>, \<open>exl3_fat_gemm\<close> and \<open>exl3_fat_gemm_scatter\<close>.\<close>

definition exl3_fat_symbols :: "backend \<Rightarrow> bool \<times> bool \<times> bool" where
  "exl3_fat_symbols be = (exl3_moe be \<noteq> None, fat_gemm be \<noteq> None, fat_gemm_scatter be \<noteq> None)"

definition resolve_exl3_fat_tier :: "environ \<Rightarrow> backend \<Rightarrow> bool \<Rightarrow> load_error + string \<times> string" where
  "resolve_exl3_fat_tier env be shared_suh =
     (let configured = configured_fat_tier env in
      if configured = ''legacy'' then Inr (configured, ''none_requested'')
      else if \<not> shared_suh \<and> configured \<in> {''kernel'', ''batched''} then Inr (''sorted'', ''shared_suh_absent'')
      else
        (case exl3_fat_symbols be of (moe, gemm, scatter) \<Rightarrow>
           let missing = map fst (filter (\<lambda>(name, present). \<not> present)
                 [(''exl3_fat_gemm'', gemm), (''exl3_fat_gemm_scatter'', scatter)]) in
           if configured = ''kernel'' \<and> missing \<noteq> [] then Inl (Missing_Symbols missing)
           else Inr (configured, configured @ ''_ok'')))"

text \<open>The load-time half of \<open>_EXL3_FAT_DIAG\<close>.\<close>

record load_diag =
  configured_tier :: string
  effective_tier :: string
  tier_reason :: string
  diag_shared :: bool
  shared_suh_layers :: nat
  moe_layers_loaded :: nat
  diag_symbols :: "bool \<times> bool \<times> bool"
  capability :: "int \<times> int"
  cap_ok :: bool
  tp_seen :: "int \<times> int"

definition boot_diag :: load_diag where
  "boot_diag = \<lparr>configured_tier = ''legacy'', effective_tier = ''legacy'', tier_reason = ''unresolved'',
     diag_shared = False, shared_suh_layers = 0, moe_layers_loaded = 0, diag_symbols = (False, False, False),
     capability = (-1, -1), cap_ok = False, tp_seen = (-1, 1)\<rparr>"

text \<open>What the server says of the device and the rank; \<open>None\<close> when it cannot be asked.\<close>

record platform =
  p_capability :: "(int \<times> int) option"
  p_tp :: "(int \<times> int) option"

definition exl3_device_capability :: "platform \<Rightarrow> int \<times> int" where
  "exl3_device_capability pf = (case p_capability pf of None \<Rightarrow> (-1, -1) | Some c \<Rightarrow> c)"

definition exl3_tp_rank_size :: "platform \<Rightarrow> int \<times> int" where
  "exl3_tp_rank_size pf = (case p_tp pf of None \<Rightarrow> (-1, 1) | Some t \<Rightarrow> t)"

definition record_exl3_fat_resolution ::
  "environ \<Rightarrow> backend \<Rightarrow> platform \<Rightarrow> bool \<Rightarrow> load_diag \<Rightarrow> load_error + (string \<times> string) \<times> load_diag" where
  "record_exl3_fat_resolution env be pf shared d =
     (case resolve_exl3_fat_tier env be shared of
        Inl e \<Rightarrow> Inl e
      | Inr (tier, reason) \<Rightarrow>
          (let loaded = moe_layers_loaded d + 1;
               with_suh = (if shared then shared_suh_layers d + 1 else shared_suh_layers d);
               cap = exl3_device_capability pf;
               d1 = d\<lparr>moe_layers_loaded := loaded, shared_suh_layers := with_suh,
                      diag_shared := (with_suh = loaded), configured_tier := configured_fat_tier env,
                      diag_symbols := exl3_fat_symbols be, capability := cap,
                      cap_ok := (8 < fst cap \<or> fst cap = 8 \<and> 0 \<le> snd cap), tp_seen := exl3_tp_rank_size pf\<rparr> in
           Inr ((tier, reason),
                if tier_reason d1 = ''unresolved'' \<or> effective_tier d1 \<noteq> tier
                then d1\<lparr>effective_tier := tier, tier_reason := reason\<rparr> else d1)))"

section \<open>Tensor-parallel sharding\<close>

datatype tensor = Vec vec | Cube tiles | Marker "int list"

definition shape_of :: "tensor \<Rightarrow> nat list" where
  "shape_of t = (case t of Vec v \<Rightarrow> [length v] | Cube c \<Rightarrow> [dim0 c, dim1 c, dim2 c] | Marker m \<Rightarrow> [length m])"

definition narrow_list :: "nat \<Rightarrow> nat \<Rightarrow> nat \<Rightarrow> 'a list \<Rightarrow> 'a list" where
  "narrow_list whole tp_rank tp_size xs = slice (whole div tp_size * tp_rank) (whole div tp_size) xs"

definition narrow_tp :: "tensor \<Rightarrow> nat \<Rightarrow> nat \<Rightarrow> nat \<Rightarrow> load_error + tensor" where
  "narrow_tp t d tp_rank tp_size =
     (if tp_size \<le> 1 then Inr t
      else if length (shape_of t) \<le> d then Inl No_Dim
      else
        (let whole = shape_of t ! d in
         if whole mod tp_size \<noteq> 0 then Inl (Not_Divisible whole)
         else Inr (case t of
             Vec v \<Rightarrow> Vec (narrow_list whole tp_rank tp_size v)
           | Marker m \<Rightarrow> Marker (narrow_list whole tp_rank tp_size m)
           | Cube c \<Rightarrow> Cube (if d = 0 then narrow_list whole tp_rank tp_size c
                else if d = 1 then map (narrow_list whole tp_rank tp_size) c
                else map (map (narrow_list whole tp_rank tp_size)) c))))"

definition shard_exl3_col :: "tensor \<Rightarrow> string \<Rightarrow> nat \<Rightarrow> nat \<Rightarrow> load_error + tensor" where
  "shard_exl3_col t sfx tp_rank tp_size =
     (if sfx = ''trellis'' then narrow_tp t 1 tp_rank tp_size
      else if sfx = ''svh'' then narrow_tp t 0 tp_rank tp_size
      else Inr t)"

definition shard_exl3_row :: "tensor \<Rightarrow> string \<Rightarrow> nat \<Rightarrow> nat \<Rightarrow> load_error + tensor" where
  "shard_exl3_row t sfx tp_rank tp_size =
     (if sfx = ''trellis'' then narrow_tp t 0 tp_rank tp_size
      else if sfx = ''suh'' then narrow_tp t 0 tp_rank tp_size
      else Inr t)"

section \<open>Parameters and the weight loader\<close>

definition exl3_suffixes :: "string list" where
  "exl3_suffixes = [''trellis'', ''suh'', ''svh'', ''mcg'']"

definition suffix_from_mapped_name :: "string \<Rightarrow> load_error + string" where
  "suffix_from_mapped_name weight_name =
     (let tail = last (split_on (CHR ''.'') weight_name) in
      case filter (\<lambda>s. tail = s \<or> ends_with (''_'' @ s) tail) exl3_suffixes of
        s # _ \<Rightarrow> Inr s
      | [] \<Rightarrow> Inl (Not_Packed_Name weight_name))"

text \<open>The shapes of the parameters that \<open>create_weights\<close> registers.\<close>

definition create_weights :: "nat \<Rightarrow> nat \<Rightarrow> nat \<Rightarrow> nat \<Rightarrow> bool \<Rightarrow> load_error + (string \<times> nat list) list" where
  "create_weights bits num_experts hidden inner has_dense =
     (if hidden mod 16 \<noteq> 0 \<or> inner mod 16 \<noteq> 0 then Inl (Bad_Tiles hidden inner)
      else
        (let k_words = bits * 16;
             in_tiles = hidden div 16;
             out_tiles = inner div 16 in
         if has_dense then Inl Dense_Weights
         else Inr
          [(''w13_trellis'', [num_experts, 2, in_tiles, out_tiles, k_words]),
           (''w13_suh'', [num_experts, 2, hidden]),
           (''w13_svh'', [num_experts, 2, inner]),
           (''w13_mcg'', [num_experts, 2, 1]),
           (''w2_trellis'', [num_experts, out_tiles, in_tiles, k_words]),
           (''w2_suh'', [num_experts, inner]),
           (''w2_svh'', [num_experts, hidden]),
           (''w2_mcg'', [num_experts, 1])]))"

text \<open>The contents of a parameter: the tensor at an expert and, for the stacked ones, at gate (0)
  or up (1).\<close>

type_synonym store = "((string \<times> nat \<times> nat) \<times> tensor) list"

text \<open>\<open>_load_exl3\<close> for the parameter \<open>pname\<close> with its shape; \<open>to_local\<close> maps the expert id.  The
  result says whether the tensor was loaded.\<close>

definition load_exl3 ::
  "(int \<Rightarrow> int) option \<Rightarrow> nat \<Rightarrow> nat \<Rightarrow> string \<Rightarrow> nat list \<Rightarrow> tensor \<Rightarrow> string \<Rightarrow> string \<Rightarrow> int \<Rightarrow> store
   \<Rightarrow> load_error + bool \<times> store" where
  "load_exl3 to_local tp_rank tp_size pname dims loaded weight_name shard_id expert_id st =
     (let local = (case to_local of None \<Rightarrow> expert_id | Some f \<Rightarrow> f expert_id) in
      if to_local \<noteq> None \<and> local = -1 then Inr (False, st)
      else
        (case suffix_from_mapped_name weight_name of
           Inl e \<Rightarrow> Inl e
         | Inr sfx \<Rightarrow>
             if shard_id \<noteq> ''w1'' \<and> shard_id \<noteq> ''w3'' \<and> shard_id \<noteq> ''w2'' then Inl (Unknown_Shard shard_id)
             else
               (case (if shard_id = ''w2'' then shard_exl3_row loaded sfx tp_rank tp_size
                      else shard_exl3_col loaded sfx tp_rank tp_size) of
                  Inl e \<Rightarrow> Inl e
                | Inr sharded \<Rightarrow>
                    (let dest = (if shard_id = ''w2'' then drop 1 dims else drop 2 dims);
                         slot = (if shard_id = ''w3'' then 1 else 0) in
                     if dest \<noteq> shape_of sharded then Inl (Shape_Mismatch dest (shape_of sharded))
                     else Inr (True, dict_set st (pname, nat local, slot) sharded)))))"

section \<open>After loading\<close>

definition mcg_marker :: int where "mcg_marker = -877912083"

definition tensor_vec :: "store \<Rightarrow> string \<times> nat \<times> nat \<Rightarrow> vec" where
  "tensor_vec st k = (case map_of st k of Some (Vec v) \<Rightarrow> v | _ \<Rightarrow> [])"

definition tensor_cube :: "store \<Rightarrow> string \<times> nat \<times> nat \<Rightarrow> tiles" where
  "tensor_cube st k = (case map_of st k of Some (Cube c) \<Rightarrow> c | _ \<Rightarrow> [])"

text \<open>A slot that was never loaded holds what the memory held; here it is not the marker.\<close>

definition tensor_marker :: "store \<Rightarrow> string \<times> nat \<times> nat \<Rightarrow> int list" where
  "tensor_marker st k = (case map_of st k of Some (Marker m) \<Rightarrow> m | _ \<Rightarrow> [0])"

text \<open>\<open>make_linear_exl3\<close>; the class derives its bit width from the packed tiles.\<close>

definition make_linear_exl3 :: "(tiles \<Rightarrow> nat) \<Rightarrow> store \<Rightarrow> string \<Rightarrow> nat \<Rightarrow> nat \<Rightarrow> lin" where
  "make_linear_exl3 k_of st w e slot =
     \<lparr>trellis = tensor_cube st (w @ ''_trellis'', e, slot), suh = tensor_vec st (w @ ''_suh'', e, slot),
      svh = tensor_vec st (w @ ''_svh'', e, slot), lin_k = k_of (tensor_cube st (w @ ''_trellis'', e, slot))\<rparr>"

definition make_pack :: "(tiles \<Rightarrow> nat) \<Rightarrow> store \<Rightarrow> nat \<Rightarrow> pack" where
  "make_pack k_of st e =
     \<lparr>gate = make_linear_exl3 k_of st ''w13'' e 0, up = make_linear_exl3 k_of st ''w13'' e 1,
      down = make_linear_exl3 k_of st ''w2'' e 0\<rparr>"

text \<open>\<open>build_exl3_fused_state\<close>: the pointer tables and the scratch of the launch, which layers of
  one size share.\<close>

definition temps_bytes :: "nat \<Rightarrow> nat \<Rightarrow> nat \<Rightarrow> nat \<Rightarrow> nat" where
  "temps_bytes concurrency rows hidden inner =
     sum_list (map (\<lambda>width. concurrency * rows * width * 2) [hidden, hidden, inner, inner])"

definition build_exl3_fused_state ::
  "environ \<Rightarrow> int \<Rightarrow> nat \<Rightarrow> nat \<Rightarrow> layer \<Rightarrow> exl3 \<Rightarrow> moe_error + layer \<times> exl3" where
  "build_exl3_fused_state env max_concurrency hidden inner lay st =
     (case temp_rows_fused env of
        Inl e \<Rightarrow> Inl e
      | Inr rows \<Rightarrow>
          (let concurrency = nat (max 1 max_concurrency);
               key = (hidden, inner, concurrency, rows);
               c = counts_of st;
               fresh = key \<notin> set (temp_cache st) in
           Inr (lay\<lparr>ptrs := True, fused_temps := Some rows\<rparr>,
                st\<lparr>temp_cache := (if fresh then temp_cache st @ [key] else temp_cache st),
                   counts_of := c\<lparr>fused_temps_allocs := fused_temps_allocs c + (if fresh then 1 else 0),
                     fused_temps_bytes := temps_bytes concurrency rows hidden inner\<rparr>\<rparr>)))"

text \<open>The record of a module's sizes, as \<open>create_weights\<close> leaves them.\<close>

record sizes =
  z_experts :: nat
  z_hidden :: nat
  z_inner :: nat

definition process_weights_after_loading ::
  "environ \<Rightarrow> backend \<Rightarrow> platform \<Rightarrow> (tiles \<Rightarrow> nat) \<Rightarrow> int \<Rightarrow> sizes \<Rightarrow> store \<Rightarrow> layer \<Rightarrow> load_diag \<Rightarrow> exl3
   \<Rightarrow> load_error + layer \<times> load_diag \<times> exl3" where
  "process_weights_after_loading env be pf k_of max_concurrency z store lay d st =
     (let es = [0..<z_experts z];
          markers = concat (map (\<lambda>e. tensor_marker store (''w13_mcg'', e, 0) @ tensor_marker store (''w13_mcg'', e, 1)
                      @ tensor_marker store (''w2_mcg'', e, 0)) es) in
      if \<not> list_all (\<lambda>m. m = mcg_marker) markers then Inl Bad_Marker
      else
        (let shared = (map (\<lambda>e. tensor_vec store (''w13_suh'', e, 0)) es
                       = map (\<lambda>e. tensor_vec store (''w13_suh'', e, 1)) es) in
         case record_exl3_fat_resolution env be pf shared d of
           Inl e \<Rightarrow> Inl e
         | Inr (_, d1) \<Rightarrow>
             (let lay1 = lay\<lparr>shared_w13_suh := shared, inners := map (make_pack k_of store) es\<rparr> in
              if fused_moe_enabled env \<and> exl3_moe be \<noteq> None then
                (case build_exl3_fused_state env max_concurrency (z_hidden z) (z_inner z) lay1 st of
                   Inl e \<Rightarrow> Inr (lay1\<lparr>ptrs := False\<rparr>, d1, st)
                 | Inr (lay2, st2) \<Rightarrow> Inr (lay2, d1, st2))
              else Inr (lay1, d1, st))))"

section \<open>The quantisation config\<close>

datatype cfg_val = CInt int | CStr string | COther

type_synonym cfg = "(string \<times> cfg_val) list"

record exl3_config =
  cfg_bits :: int
  cfg_codebook :: string
  cfg_scope :: string
  raw_config :: cfg

definition cfg_int :: "cfg_val \<Rightarrow> load_error + int" where
  "cfg_int v = (case v of CInt i \<Rightarrow> Inr i
     | CStr s \<Rightarrow> (case parse_int s of Some i \<Rightarrow> Inr i | None \<Rightarrow> Inl Bad_Value)
     | COther \<Rightarrow> Inl Bad_Value)"

text \<open>\<open>str(v)\<close>; the text of a value of another type is not used beyond a comparison that fails.\<close>

definition cfg_str :: "cfg_val \<Rightarrow> string" where
  "cfg_str v = (case v of CInt i \<Rightarrow> show_int i | CStr s \<Rightarrow> s | COther \<Rightarrow> ''?'')"

definition cfg_get :: "cfg \<Rightarrow> string \<Rightarrow> cfg_val \<Rightarrow> cfg_val" where
  "cfg_get c k d = (case map_of c k of Some v \<Rightarrow> v | None \<Rightarrow> d)"

definition new_config :: "int \<Rightarrow> string \<Rightarrow> string \<Rightarrow> cfg \<Rightarrow> load_error + exl3_config" where
  "new_config bits codebook scope rest =
     (if codebook \<noteq> ''mcg'' then Inl (Bad_Codebook codebook)
      else if bits \<notin> {3, 4, 5, 6} then Inl (Bad_Bits bits)
      else Inr \<lparr>cfg_bits = bits, cfg_codebook = codebook, cfg_scope = scope, raw_config = rest\<rparr>)"

definition from_config :: "cfg \<Rightarrow> load_error + exl3_config" where
  "from_config c =
     (let skip = {''bits'', ''codebook'', ''scope'', ''quant_method'', ''tensor_storage''} in
      case cfg_int (cfg_get c ''bits'' (CInt 4)) of
        Inl e \<Rightarrow> Inl e
      | Inr bits \<Rightarrow>
          new_config bits (cfg_str (cfg_get c ''codebook'' (CStr ''mcg'')))
            (cfg_str (cfg_get c ''scope'' (CStr ''glm53_routed_experts_only'')))
            (filter (\<lambda>(k, v). k \<notin> skip) c))"

definition override_quantization_method :: "cfg option \<Rightarrow> string option" where
  "override_quantization_method c =
     (if lower (cfg_str (cfg_get (case c of None \<Rightarrow> [] | Some d \<Rightarrow> d) ''quant_method'' (CStr []))) = ''exl3''
      then Some ''exl3'' else None)"

datatype module_kind = Routed_Experts | Linear_Base | Other_Module
datatype quant_method = Moe_Method int | Unquantized_Linear

definition get_quant_method :: "exl3_config \<Rightarrow> module_kind \<Rightarrow> quant_method option" where
  "get_quant_method c k = (case k of Routed_Experts \<Rightarrow> Some (Moe_Method (cfg_bits c))
     | Linear_Base \<Rightarrow> Some Unquantized_Linear | Other_Module \<Rightarrow> None)"

text \<open>\<open>Exl3MoEMethod.apply\<close>: a missing or zero clamp of the model means the default.\<close>

definition swiglu_limit_default :: real where "swiglu_limit_default = 10"

definition moe_apply ::
  "environ \<Rightarrow> backend \<Rightarrow> real option \<Rightarrow> mat \<Rightarrow> mat \<Rightarrow> int list list \<Rightarrow> layer \<Rightarrow> exl3 \<Rightarrow> moe_out" where
  "moe_apply env be swiglu_limit x topk_weights topk_ids lay st =
     (let limit = (case swiglu_limit of None \<Rightarrow> swiglu_limit_default
        | Some v \<Rightarrow> (if v = 0 then swiglu_limit_default else v)) in
      apply_exl3_experts env be None x topk_ids topk_weights limit lay st)"

section \<open>Shards tile the tensor\<close>

lemma concat_narrow:
  assumes "0 < tp" and "tp dvd length xs"
  shows "concat (map (\<lambda>r. narrow_list (length xs) r tp xs) [0..<tp]) = xs"
proof -
  have "concat (map (\<lambda>r. narrow_list (length xs) r tp xs) [0..<tp]) = take (tp * (length xs div tp)) xs"
    unfolding narrow_list_def using concat_slices [of "length xs div tp" xs tp] by (simp add: mult.commute)
  then show ?thesis using assms by simp
qed

lemma length_narrow:
  assumes "r < tp" and "tp dvd length xs"
  shows "length (narrow_list (length xs) r tp xs) = length xs div tp"
proof -
  let ?k = "length xs div tp"
  have len: "length xs = tp * ?k" using assms(2) by simp
  have "?k * r + ?k = (r + 1) * ?k" by (simp add: algebra_simps)
  also have "\<dots> \<le> tp * ?k" using assms(1) by (intro mult_le_mono1) simp
  finally have "?k * r + ?k \<le> length xs" using len by linarith
  then show ?thesis by (simp add: narrow_list_def slice_def)
qed

text \<open>C28: The shards of a tensor, taken over all ranks, are the tensor.  When the number of ranks
  divides the sharded dimension no rank raises, and the shards side by side are the gate or up
  tiles (along their columns), the output scales of gate and up, the tiles of the down layer
  (along their rows) and its input scales.\<close>

theorem shards_tile:
  assumes "0 < tp" and "tp dvd dim0 c" and "\<forall>row\<in>set c. length row = dim1 c" and "tp dvd dim1 c"
    and "tp dvd length v"
  shows "(\<exists>f. (\<forall>r<tp. shard_exl3_col (Cube c) ''trellis'' r tp = Inr (Cube (f r)))
           \<and> (\<forall>i<dim0 c. concat (map (\<lambda>r. f r ! i) [0..<tp]) = c ! i))
     \<and> (\<exists>f. (\<forall>r<tp. shard_exl3_row (Cube c) ''trellis'' r tp = Inr (Cube (f r)))
           \<and> concat (map f [0..<tp]) = c)
     \<and> (\<exists>f. (\<forall>r<tp. shard_exl3_col (Vec v) ''svh'' r tp = Inr (Vec (f r))
              \<and> shard_exl3_row (Vec v) ''suh'' r tp = Inr (Vec (f r)))
           \<and> concat (map f [0..<tp]) = v)"
proof (intro conjI)
  show "\<exists>f. (\<forall>r<tp. shard_exl3_col (Cube c) ''trellis'' r tp = Inr (Cube (f r)))
           \<and> (\<forall>i<dim0 c. concat (map (\<lambda>r. f r ! i) [0..<tp]) = c ! i)"
  proof (cases "tp = 1")
    case True
    then show ?thesis by (intro exI [of _ "\<lambda>_. c"]) (simp add: shard_exl3_col_def narrow_tp_def)
  next
    case False
    have "concat (map (\<lambda>r. map (narrow_list (dim1 c) r tp) c ! i) [0..<tp]) = c ! i" if "i < dim0 c" for i
      using that assms(1,3,4) concat_narrow [of tp "c ! i"] by (simp add: dim0_def)
    then show ?thesis
      using False assms(1,4)
      by (intro exI [of _ "\<lambda>r. map (narrow_list (dim1 c) r tp) c"])
        (simp add: shard_exl3_col_def narrow_tp_def shape_of_def mod_eq_0_iff_dvd)
  qed
  show "\<exists>f. (\<forall>r<tp. shard_exl3_row (Cube c) ''trellis'' r tp = Inr (Cube (f r))) \<and> concat (map f [0..<tp]) = c"
  proof (cases "tp = 1")
    case True
    then show ?thesis by (intro exI [of _ "\<lambda>_. c"]) (simp add: shard_exl3_row_def narrow_tp_def)
  next
    case False
    then show ?thesis
      using assms(1,2) concat_narrow [of tp c]
      by (intro exI [of _ "\<lambda>r. narrow_list (dim0 c) r tp c"])
        (simp add: shard_exl3_row_def narrow_tp_def shape_of_def dim0_def mod_eq_0_iff_dvd)
  qed
  show "\<exists>f. (\<forall>r<tp. shard_exl3_col (Vec v) ''svh'' r tp = Inr (Vec (f r))
              \<and> shard_exl3_row (Vec v) ''suh'' r tp = Inr (Vec (f r))) \<and> concat (map f [0..<tp]) = v"
  proof (cases "tp = 1")
    case True
    then show ?thesis
      by (intro exI [of _ "\<lambda>_. v"]) (simp add: shard_exl3_row_def shard_exl3_col_def narrow_tp_def)
  next
    case False
    then show ?thesis
      using assms(1,5) concat_narrow [of tp v]
      by (intro exI [of _ "\<lambda>r. narrow_list (length v) r tp v"])
        (simp add: shard_exl3_row_def shard_exl3_col_def narrow_tp_def shape_of_def mod_eq_0_iff_dvd)
  qed
qed

theorem shards_tile_witness:
  "(\<exists>f. (\<forall>r<2. shard_exl3_col (Cube [[[1], [2]], [[3], [4]]]) ''trellis'' r 2 = Inr (Cube (f r)))
           \<and> (\<forall>i<dim0 [[[1], [2]], [[3], [4 :: int]]]. concat (map (\<lambda>r. f r ! i) [0..<2]) = [[[1], [2]], [[3], [4]]] ! i))"
  using shards_tile [of 2 "[[[1], [2]], [[3], [4]]]" "[5, 6]"] by (simp add: dim0_def dim1_def)

section \<open>A checkpoint of the right size loads\<close>

definition full_shape :: "nat \<Rightarrow> string \<Rightarrow> nat list \<Rightarrow> nat list" where
  "full_shape tp pname dest =
     (if pname = ''w13_trellis'' then [dest ! 0, tp * dest ! 1, dest ! 2]
      else if pname = ''w2_trellis'' then [tp * dest ! 0, dest ! 1, dest ! 2]
      else if pname = ''w13_svh'' \<or> pname = ''w2_suh'' then [tp * dest ! 0]
      else dest)"

definition uniform :: "tensor \<Rightarrow> bool" where
  "uniform t \<longleftrightarrow> (case t of Cube c \<Rightarrow> c \<noteq> [] \<and> (\<forall>row\<in>set c. row \<noteq> [] \<and> length row = dim1 c \<and> (\<forall>w\<in>set row. length w = dim2 c))
      | _ \<Rightarrow> True)"

lemma uniform_dims:
  "xs \<noteq> [] \<Longrightarrow> (\<forall>row\<in>set xs. row \<noteq> [] \<and> length row = m \<and> (\<forall>w\<in>set row. length w = k)) \<Longrightarrow> dim1 xs = m \<and> dim2 xs = k"
  by (cases xs) (auto simp: dim1_def dim2_def split: list.splits)

lemma narrow_rows:
  assumes c: "uniform (Cube c)" and "r < tp" and "dim0 c = tp * m" and "0 < m"
  shows "shape_of (Cube (narrow_list (dim0 c) r tp c)) = [m, dim1 c, dim2 c]"
proof -
  let ?n = "narrow_list (dim0 c) r tp c"
  have len: "length ?n = m"
    using length_narrow [of r tp c] assms(2-4) by (simp add: dim0_def)
  have "set ?n \<subseteq> set c" by (auto simp: narrow_list_def slice_def dest: in_set_takeD in_set_dropD)
  then have "\<forall>row\<in>set ?n. row \<noteq> [] \<and> length row = dim1 c \<and> (\<forall>w\<in>set row. length w = dim2 c)"
    using c by (auto simp: uniform_def)
  then have "dim1 ?n = dim1 c \<and> dim2 ?n = dim2 c"
    using len assms(4) by (intro uniform_dims) auto
  then show ?thesis using len by (simp add: shape_of_def dim0_def)
qed

lemma narrow_columns:
  assumes c: "uniform (Cube c)" and "r < tp" and "dim1 c = tp * m" and "0 < m"
  shows "shape_of (Cube (map (narrow_list (dim1 c) r tp) c)) = [dim0 c, m, dim2 c]"
proof -
  let ?n = "map (narrow_list (dim1 c) r tp) c"
  have row: "narrow_list (dim1 c) r tp row \<noteq> [] \<and> length (narrow_list (dim1 c) r tp row) = m
      \<and> (\<forall>w\<in>set (narrow_list (dim1 c) r tp row). length w = dim2 c)" if "row \<in> set c" for row
  proof -
    have "length row = dim1 c" and w: "\<forall>w\<in>set row. length w = dim2 c" using c that by (auto simp: uniform_def)
    then have "length (narrow_list (dim1 c) r tp row) = m"
      using length_narrow [of r tp row] assms(2-4) by simp
    moreover have "set (narrow_list (dim1 c) r tp row) \<subseteq> set row"
      by (auto simp: narrow_list_def slice_def dest: in_set_takeD in_set_dropD)
    ultimately show ?thesis using w assms(4) by fastforce
  qed
  have "dim1 ?n = m \<and> dim2 ?n = dim2 c"
    using c row by (intro uniform_dims) (auto simp: uniform_def)
  then show ?thesis by (simp add: shape_of_def dim0_def)
qed

lemma narrow_tp_shape:
  assumes t: "uniform t" and "r < tp" and shape: "shape_of t = dims[d := tp * m]"
    and "d < length dims" and "dims ! d = m" and "0 < m" and "d \<le> 1"
  shows "\<exists>s. narrow_tp t d r tp = Inr s \<and> shape_of s = dims"
proof (cases "tp = 1")
  case True
  then have "shape_of t = dims" using shape assms(5) by (metis list_update_id nat_mult_1)
  then show ?thesis using True by (simp add: narrow_tp_def)
next
  case False
  have len: "length (shape_of t) = length dims" by (simp add: shape)
  have size: "shape_of t ! d = tp * m" using assms(4) by (simp add: shape)
  have dims: "dims = (shape_of t)[d := m]"
    using shape assms(5) by (metis list_update_id list_update_overwrite)
  show ?thesis
  proof (cases t)
    case (Vec v)
    then have "d = 0" using assms(4) len by (simp add: shape_of_def)
    then show ?thesis
      using False Vec size assms(2,4) len dims length_narrow [of r tp v] \<open>0 < m\<close>
      by (simp add: narrow_tp_def shape_of_def)
  next
    case (Marker v)
    then have "d = 0" using assms(4) len by (simp add: shape_of_def)
    then show ?thesis
      using False Marker size assms(2,4) len dims length_narrow [of r tp v] \<open>0 < m\<close>
      by (simp add: narrow_tp_def shape_of_def)
  next
    case (Cube c)
    have u: "uniform (Cube c)" using t Cube by simp
    consider "d = 0" | "d = 1" using assms(7) by linarith
    then show ?thesis
    proof cases
      case 1
      have "dim0 c = tp * m" using size Cube 1 by (simp add: shape_of_def)
      then show ?thesis
        using False Cube 1 dims assms(2) narrow_rows [OF u assms(2) _ \<open>0 < m\<close>]
        by (simp add: narrow_tp_def shape_of_def)
    next
      case 2
      have "dim1 c = tp * m" using size Cube 2 by (simp add: shape_of_def)
      then show ?thesis
        using False Cube 2 dims assms(2) narrow_columns [OF u assms(2) _ \<open>0 < m\<close>]
        by (simp add: narrow_tp_def shape_of_def)
    qed
  qed
qed

text \<open>The loader's call for a parameter: the packed name's suffix, the shard ids and the leading
  dimensions of the stacked and the plain parameters.\<close>

definition matching :: "string \<Rightarrow> string \<Rightarrow> string \<Rightarrow> nat \<Rightarrow> bool" where
  "matching pname sfx shard_id lead \<longleftrightarrow>
     pname = ''w13_'' @ sfx \<and> shard_id \<in> {''w1'', ''w3''} \<and> lead = 2
     \<or> pname = ''w2_'' @ sfx \<and> shard_id = ''w2'' \<and> lead = 1"

lemma sharded_shape:
  assumes "create_weights bits n hidden inner False = Inr params" and "(pname, dims) \<in> set params"
    and "0 < hidden" and "0 < inner" and "r < tp" and "uniform t"
    and "matching pname sfx shard_id lead" and "shape_of t = full_shape tp pname (drop lead dims)"
  shows "\<exists>s. (if shard_id = ''w2'' then shard_exl3_row t sfx r tp else shard_exl3_col t sfx r tp) = Inr s
    \<and> shape_of s = drop lead dims"
proof -
  have pos: "0 < inner div 16"
    and params: "params = [(''w13_trellis'', [n, 2, hidden div 16, inner div 16, bits * 16]),
       (''w13_suh'', [n, 2, hidden]), (''w13_svh'', [n, 2, inner]), (''w13_mcg'', [n, 2, 1]),
       (''w2_trellis'', [n, inner div 16, hidden div 16, bits * 16]),
       (''w2_suh'', [n, inner]), (''w2_svh'', [n, hidden]), (''w2_mcg'', [n, 1])]"
    using assms(1,3,4) by (auto simp: create_weights_def Let_def split: if_splits)
  note narrow = narrow_tp_shape [OF assms(6,5)]
  have whole: ?thesis if "pname \<in> {''w13_suh'', ''w13_mcg'', ''w2_svh'', ''w2_mcg''}"
  proof -
    have "shape_of t = drop lead dims" using assms(8) that by (auto simp: full_shape_def)
    moreover have "(if shard_id = ''w2'' then shard_exl3_row t sfx r tp else shard_exl3_col t sfx r tp) = Inr t"
      using assms(7) that by (auto simp: matching_def shard_exl3_row_def shard_exl3_col_def)
    ultimately show ?thesis by blast
  qed
  have gate: ?thesis if p: "pname = ''w13_trellis''" "dims = [n, 2, hidden div 16, inner div 16, bits * 16]"
  proof -
    have m: "sfx = ''trellis''" "shard_id \<noteq> ''w2''" "lead = 2"
      using assms(7) p(1) by (auto simp: matching_def)
    show ?thesis
      using narrow [of "[hidden div 16, inner div 16, bits * 16]" 1 "inner div 16"] assms(8) pos
      by (simp add: m p full_shape_def shard_exl3_col_def)
  qed
  have out: ?thesis if p: "pname = ''w13_svh''" "dims = [n, 2, inner]"
  proof -
    have m: "sfx = ''svh''" "shard_id \<noteq> ''w2''" "lead = 2"
      using assms(7) p(1) by (auto simp: matching_def)
    show ?thesis
      using narrow [of "[inner]" 0 inner] assms(4,8) by (simp add: m p full_shape_def shard_exl3_col_def)
  qed
  have down: ?thesis if p: "pname = ''w2_trellis''" "dims = [n, inner div 16, hidden div 16, bits * 16]"
  proof -
    have m: "sfx = ''trellis''" "shard_id = ''w2''" "lead = 1"
      using assms(7) p(1) by (auto simp: matching_def)
    show ?thesis
      using narrow [of "[inner div 16, hidden div 16, bits * 16]" 0 "inner div 16"] assms(8) pos
      by (simp add: m p full_shape_def shard_exl3_row_def)
  qed
  have inp: ?thesis if p: "pname = ''w2_suh''" "dims = [n, inner]"
  proof -
    have m: "sfx = ''suh''" "shard_id = ''w2''" "lead = 1"
      using assms(7) p(1) by (auto simp: matching_def)
    show ?thesis
      using narrow [of "[inner]" 0 inner] assms(4,8) by (simp add: m p full_shape_def shard_exl3_row_def)
  qed
  show ?thesis
    using assms(2) unfolding params list.set
    by (elim insertE emptyE Pair_inject) ((rule gate out down inp; assumption) | (rule whole, simp))+
qed



end
