(* ===== verification/Exl3_Life.thy ===== *)
theory Exl3_Life
  imports Exl3_Load
begin

text \<open>
  The life of a process: what loading guarantees to the execution, the tier that is announced
  and the tier that runs, and the accounts that the diagnostics keep over any sequence of calls.
\<close>

section \<open>What loading guarantees\<close>

lemma mcg_marker_word: "signed_take_bit 31 (0xCBAC1FED :: int) = mcg_marker"
  by (simp add: mcg_marker_def)

lemma packed_name_suffix:
  assumes "s \<in> set exl3_suffixes" and "CHR ''.'' \<notin> set w"
  shows "suffix_from_mapped_name (pre @ CHR ''.'' # w @ ''_'' @ s) = Inr s"
proof -
  have tail: "\<exists>xs. xs \<noteq> [] \<and> split_on (CHR ''.'') (pre @ CHR ''.'' # v) = xs @ [v]" if "CHR ''.'' \<notin> set v" for v
  proof (induction pre)
    case Nil
    show ?case using split_on_append_sep [of "CHR ''.''" "[]" v] that by (simp add: split_on_noSep)
  next
    case (Cons c pre)
    then obtain y ys where "split_on (CHR ''.'') (pre @ CHR ''.'' # v) = (y # ys) @ [v]"
      by (metis neq_Nil_conv)
    then show ?case by auto
  qed
  have "CHR ''.'' \<notin> set (w @ ''_'' @ s)" using assms by (auto simp: exl3_suffixes_def)
  then have tl: "last (split_on (CHR ''.'') (pre @ CHR ''.'' # w @ ''_'' @ s)) = w @ ''_'' @ s"
    using tail by fastforce
  have eq: "(a = b) = (rev a = rev b)" for a b :: string by simp
  have "s = ''trellis'' \<or> s = ''suh'' \<or> s = ''svh'' \<or> s = ''mcg''"
    using assms(1) by (auto simp: exl3_suffixes_def)
  then have "filter (\<lambda>x. w @ ''_'' @ s = x \<or> ends_with (''_'' @ x) (w @ ''_'' @ s)) exl3_suffixes = [s]"
    unfolding exl3_suffixes_def eq [of "w @ ''_'' @ s"] by (elim disjE) (simp_all add: ends_with_def starts_with_def)
  then show ?thesis
    unfolding suffix_from_mapped_name_def tl Let_def by (simp only: list.case)
qed

lemma from_config_ok:
  "from_config c = Inr x \<Longrightarrow> cfg_bits x \<in> {3, 4, 5, 6} \<and> cfg_codebook x = ''mcg''
     \<and> (\<forall>k\<in>set (map fst (raw_config x)). k \<notin> {''bits'', ''codebook'', ''scope'', ''quant_method'', ''tensor_storage''})"
  by (auto simp: from_config_def new_config_def Let_def split: sum.splits if_splits)

text \<open>The slots of a loaded layer, as the loader fills them.\<close>

definition slots_ok :: "sizes \<Rightarrow> nat \<Rightarrow> store \<Rightarrow> bool" where
  "slots_ok z k_words store \<longleftrightarrow> (\<forall>e<z_experts z.
     (\<forall>slot<2. length (tensor_cube store (''w13_trellis'', e, slot)) = z_hidden z div 16
        \<and> dim2 (tensor_cube store (''w13_trellis'', e, slot)) = k_words
        \<and> length (tensor_vec store (''w13_svh'', e, slot)) = z_inner z))"

text \<open>A loaded layer is one that every path can run.  When \<open>process_weights_after_loading\<close>
  returns for a model with experts, an inner size that the 128-wide transform divides and
  slots of the registered shapes, the layer satisfies what the agreement of the paths asks of
  it: experts, scratch with at least one row behind any pointer table, and experts whose gate
  and up can be stacked whenever the layer is marked so.  And every marker of the checkpoint
  is the codebook's.\<close>

theorem loaded_layer_ok:
  assumes "process_weights_after_loading env be pf k_of conc z store lay d st = Inr (lay', d', st')"
    and "\<not> ptrs lay" and "fused_temps lay = None" and "0 < z_experts z" and "128 dvd z_inner z" and "slots_ok z k_words store"
    and "\<And>t u. dim2 t = dim2 u \<Longrightarrow> k_of t = k_of u"
  shows "layer_ok lay' \<and> length (inners lay') = z_experts z
    \<and> (\<forall>e<z_experts z. \<forall>m\<in>set (tensor_marker store (''w2_mcg'', e, 0)). m = mcg_marker)"
proof -
  let ?es = "[0..<z_experts z]"
  let ?shared = "map (\<lambda>e. tensor_vec store (''w13_suh'', e, 0)) ?es = map (\<lambda>e. tensor_vec store (''w13_suh'', e, 1)) ?es"
  let ?lay = "lay\<lparr>shared_w13_suh := ?shared, inners := map (make_pack k_of store) ?es\<rparr>"
  have marks: "\<forall>e<z_experts z. \<forall>m\<in>set (tensor_marker store (''w2_mcg'', e, 0)). m = mcg_marker"
    using assms(1) by (auto simp: process_weights_after_loading_def Let_def list_all_iff split: if_splits)
  have stack: "stackable (make_pack k_of store e)" if "?shared" "e < z_experts z" for e
  proof -
    have "tensor_vec store (''w13_suh'', e, 0) = tensor_vec store (''w13_suh'', e, 1)"
      using that by (simp add: map_eq_conv)
    then show ?thesis
      using assms(5,6) that(2) assms(7) [of "tensor_cube store (''w13_trellis'', e, 0)" "tensor_cube store (''w13_trellis'', e, 1)"]
      by (simp add: stackable_def make_pack_def make_linear_exl3_def slots_ok_def out_features_def)
  qed
  have base: "shared_w13_suh l \<longrightarrow> (\<forall>p\<in>set (inners l). stackable p)" if "shared_w13_suh l = ?shared" "inners l = inners ?lay" for l
    using that stack by auto
  have "\<exists>l. lay' = l \<and> shared_w13_suh l = ?shared \<and> inners l = inners ?lay \<and> (ptrs l \<longrightarrow> fused_temps l \<noteq> None)
      \<and> (\<forall>cap. fused_temps l = Some cap \<longrightarrow> 0 < cap)"
    using assms(1-3)
    by (auto simp: process_weights_after_loading_def build_exl3_fused_state_def temp_rows_fused_def temp_rows_default_def
        Let_def split: if_splits sum.splits option.splits)
  then have sh: "shared_w13_suh lay' = ?shared" and inn: "inners lay' = map (make_pack k_of store) ?es"
    and tables: "ptrs lay' \<longrightarrow> fused_temps lay' \<noteq> None" "\<forall>cap. fused_temps lay' = Some cap \<longrightarrow> 0 < cap"
    by simp_all
  have "shared_w13_suh lay' \<longrightarrow> (\<forall>p\<in>set (inners lay'). stackable p)"
    by (rule base [OF sh]) (simp add: inn)
  moreover have "inners lay' \<noteq> []" "length (inners lay') = z_experts z" using assms(4) by (simp_all add: inn)
  ultimately show ?thesis
    using tables marks unfolding layer_ok_def by blast
qed

section \<open>The tier that runs\<close>

lemma resolve_tier:
  assumes "resolve_exl3_fat_tier env be shared = Inr (tier, reason)"
  shows "tier = (if (batched_fat_fallback_enabled env \<or> fat_kernel_enabled env) \<and> shared
      then (if fat_kernel_enabled env then ''kernel'' else ''batched'')
      else if sorted_fat_fallback_enabled env \<or> batched_fat_fallback_enabled env \<or> fat_kernel_enabled env then ''sorted''
      else ''legacy'')"
  using assms by (auto simp: resolve_exl3_fat_tier_def configured_fat_tier_def Let_def split: if_splits prod.splits)

lemma fat_stage_tier:
  assumes "resolve_exl3_fat_tier env be (shared_w13_suh lay) = Inr (tier, reason)"
    and "fat_stage env be call b cap host out lay st = (lay', st', res)"
  shows "last_fat_fallback lay' = tier"
  using assms(2) unfolding resolve_tier [OF assms(1)] fat_stage_def Let_def
  by (auto simp: record_exl3_fat_tier_def Let_def split: if_splits prod.splits)

lemma prefill_stage_tier:
  assumes "resolve_exl3_fat_tier env be (shared_w13_suh lay) = Inr (tier, reason)" and "last_fat_fallback lay = ''none''"
    and "prefill_stage env be fn call b cap out lay st = (lay', st', Inr res)"
  shows "last_fat_fallback lay' =
    (if list_max (b_counts b) \<le> cap then ''none''
     else if fused_moe_row_tile_enabled env then ''row_tile'' else tier)"
  using assms(3,2) unfolding prefill_stage_def Let_def
  by (auto split: if_splits sum.splits dest: fat_stage_tier [OF assms(1)])

text \<open>C17: The tier that was announced is the tier that runs.  A call that returns leaves on its
  layer the name of what served the oversized experts: nothing when the batch or its busiest
  expert fits the scratch, the row tiles when they are enabled, and otherwise exactly the tier
  that was resolved when the layer was loaded, in the same environment.\<close>

theorem announced_tier_runs:
  assumes "resolve_exl3_fat_tier env be (shared_w13_suh lay) = Inr (tier, reason)"
    and "apply_exl3_fused_moe env be call lay st = (lay', st', Inr out)"
    and "fused_temps lay = Some cap"
    and "map_topk_to_local (c_ids call) (length (inners lay)) (c_emap call) = Inr local"
  shows "last_fat_fallback lay' =
    (if length (c_x call) \<le> cap \<or> list_max (take (length (inners lay)) (expert_count (length (inners lay)) local)) \<le> cap
     then ''none'' else if fused_moe_row_tile_enabled env then ''row_tile'' else tier)"
proof -
  let ?b = "sort_routes be (c_x call) (c_ids call) (c_weights call) (length (inners lay)) local"
  let ?lay = "lay\<lparr>last_fat_fallback := ''none'', last_fat_reason := ''no_fat_experts''\<rparr>"
  obtain fn where fn: "exl3_moe be = Some fn" and p: "ptrs lay"
    using assms(2-4) by (auto simp: apply_exl3_fused_moe_def Let_def split: if_splits option.splits)
  have counts: "b_counts ?b = take (length (inners lay)) (expert_count (length (inners lay)) local)"
    by (simp add: sort_routes_def Let_def)
  have res: "resolve_exl3_fat_tier env be (shared_w13_suh ?lay) = Inr (tier, reason)" using assms(1) by simp
  show ?thesis
  proof (cases "length (c_x call) \<le> cap")
    case True
    then show ?thesis using assms(2-4) fn p by (auto simp: apply_exl3_fused_moe_def Let_def)
  next
    case False
    then have "prefill_stage env be fn call ?b cap (zeros (length (c_x call)) (mat_width (c_x call))) ?lay st = (lay', st', Inr out)"
      using assms(2-4) fn p by (simp add: apply_exl3_fused_moe_def Let_def)
    from prefill_stage_tier [OF res _ this] show ?thesis using False counts by simp
  qed
qed

section \<open>A check that is missing at load\<close>



section \<open>Ids beyond the expert map\<close>

text \<open>The two paths disagree on an id that the expert map does not cover: the loop takes it for a
  local expert, the fused path drops it.  The server's routers do not produce such ids.\<close>

lemma unmapped_id_diverges:
  "int (length m) \<le> i \<Longrightarrow> i < int n \<Longrightarrow>
   loop_target n (Some (pinned, m)) i = Some (nat i) \<and> local_id n (Some m) i = n"
  by (auto simp: loop_target_def local_id_def Let_def)

section \<open>The announcement over a model's layers\<close>

fun load_layers :: "environ \<Rightarrow> backend \<Rightarrow> platform \<Rightarrow> bool list \<Rightarrow> load_diag \<Rightarrow> load_error + load_diag" where
  "load_layers env be pf [] d = Inr d"
| "load_layers env be pf (shared # ss) d =
     (case record_exl3_fat_resolution env be pf shared d of
        Inl e \<Rightarrow> Inl e
      | Inr (_, d1) \<Rightarrow> load_layers env be pf ss d1)"

text \<open>What the diagnostics say of the layers loaded so far.\<close>

definition announced :: "environ \<Rightarrow> backend \<Rightarrow> bool list \<Rightarrow> load_diag \<Rightarrow> bool" where
  "announced env be ss d \<longleftrightarrow>
     moe_layers_loaded d = length ss \<and> shared_suh_layers d = length (filter id ss)
     \<and> (if ss = [] then tier_reason d = ''unresolved''
        else resolve_exl3_fat_tier env be (last ss) = Inr (effective_tier d, tier_reason d)
          \<and> diag_shared d = list_all id ss \<and> configured_tier d = configured_fat_tier env)"

lemma resolve_reason:
  "resolve_exl3_fat_tier env be s = Inr (tier, r) \<Longrightarrow> resolve_exl3_fat_tier env be s' = Inr (tier, r') \<Longrightarrow> r = r'"
  by (auto simp: resolve_exl3_fat_tier_def configured_fat_tier_def Let_def split: if_splits prod.splits)

lemma resolve_known: "resolve_exl3_fat_tier env be s = Inr (tier, r) \<Longrightarrow> r \<noteq> ''unresolved''"
  by (auto simp: resolve_exl3_fat_tier_def configured_fat_tier_def Let_def split: if_splits prod.splits)

lemma all_filter: "length (filter id ss) = length ss \<longleftrightarrow> list_all id ss"
  by (induction ss) (auto simp: list_all_iff le_imp_less_Suc length_filter_le order.strict_implies_not_eq)

lemma announced_step:
  assumes "announced env be ss d" and "record_exl3_fat_resolution env be pf shared d = Inr (tr, d1)"
  shows "announced env be (ss @ [shared]) d1"
proof -
  obtain tier reason where r: "resolve_exl3_fat_tier env be shared = Inr (tier, reason)"
    using assms(2) by (auto simp: record_exl3_fat_resolution_def split: sum.splits)
  have old: "tier_reason d = reason" if "effective_tier d = tier" "tier_reason d \<noteq> ''unresolved''"
    using assms(1) that r resolve_reason by (auto simp: announced_def split: if_splits)
  have cnt: "shared_suh_layers d1 = length (filter id (ss @ [shared]))" "moe_layers_loaded d1 = length (ss @ [shared])"
    "configured_tier d1 = configured_fat_tier env" "diag_shared d1 = (shared_suh_layers d1 = moe_layers_loaded d1)"
    using assms by (auto simp: announced_def record_exl3_fat_resolution_def Let_def r split: if_splits)
  have "effective_tier d1 = tier \<and> tier_reason d1 = reason"
    using assms(2) old by (auto simp: record_exl3_fat_resolution_def Let_def r split: if_splits)
  then show ?thesis
    using cnt all_filter [of "ss @ [shared]"] r by (simp add: announced_def)
qed

lemma announced_layers:
  "announced env be ss0 d \<Longrightarrow> load_layers env be pf ss d = Inr d' \<Longrightarrow> announced env be (ss0 @ ss) d'"
proof (induction ss arbitrary: ss0 d)
  case (Cons s ss)
  then show ?case
    using announced_step [of env be ss0 d pf s] by (fastforce split: sum.splits)
qed simp

lemma announcement_is_last:
  assumes "load_layers env be pf ss boot_diag = Inr d" and "ss \<noteq> []"
  shows "resolve_exl3_fat_tier env be (last ss) = Inr (effective_tier d, tier_reason d) \<and> diag_shared d = list_all id ss"
proof -
  have "announced env be [] boot_diag" by (simp add: announced_def boot_diag_def)
  from announced_layers [OF this assms(1)] show ?thesis using assms(2) by (simp add: announced_def)
qed

section \<open>A layer that loads\<close>

definition demo_store :: store where
  "demo_store =
     [((''w13_trellis'', 0, 0), Cube [[replicate 64 0]]), ((''w13_trellis'', 0, 1), Cube [[replicate 64 0]]),
      ((''w13_suh'', 0, 0), Vec [1]), ((''w13_suh'', 0, 1), Vec [1]),
      ((''w13_svh'', 0, 0), Vec (replicate 128 1)), ((''w13_svh'', 0, 1), Vec (replicate 128 1)),
      ((''w13_mcg'', 0, 0), Marker [mcg_marker]), ((''w13_mcg'', 0, 1), Marker [mcg_marker]),
      ((''w2_mcg'', 0, 0), Marker [mcg_marker])]"

definition unloaded :: layer where
  "unloaded = \<lparr>inners = [], ptrs = False, fused_temps = None, layer_emap = None, shared_w13_suh = False,
     last_fat_fallback = [], last_fat_reason = [], last_apply = []\<rparr>"

theorem loaded_layer_ok_witness:
  "\<exists>lay' d' st'. process_weights_after_loading [] demo_backend \<lparr>p_capability = None, p_tp = None\<rparr> (\<lambda>t. dim2 t div 16) 4
      \<lparr>z_experts = 1, z_hidden = 16, z_inner = 128\<rparr> demo_store unloaded boot_diag boot_exl3 = Inr (lay', d', st')
    \<and> layer_ok lay'"
proof -
  let ?z = "\<lparr>z_experts = 1, z_hidden = 16, z_inner = 128\<rparr>"
  have env: "fused_moe_enabled []" "resolve_exl3_fat_tier [] demo_backend s = Inr (''legacy'', ''none_requested'')" for s
    by (simp_all add: fused_moe_enabled_def env_get_def resolve_exl3_fat_tier_def configured_fat_tier_def
        fat_kernel_enabled_def batched_fat_fallback_enabled_def sorted_fat_fallback_enabled_def)
  have marks: "tensor_marker demo_store (w, 0, k) = [mcg_marker]" if "(w, k) \<in> {(''w13_mcg'', 0), (''w13_mcg'', 1), (''w2_mcg'', 0)}" for w k
    using that by (auto simp: tensor_marker_def demo_store_def)
  have rows: "temp_rows_fused [] = Inr 128"
    by (simp add: temp_rows_fused_def env_get_def temp_rows_default_def strip_by_id)
  have moe: "exl3_moe demo_backend \<noteq> None" by (simp add: demo_backend_def)
  obtain lay' d' st' where run: "process_weights_after_loading [] demo_backend \<lparr>p_capability = None, p_tp = None\<rparr>
      (\<lambda>t. dim2 t div 16) 4 ?z demo_store unloaded boot_diag boot_exl3 = Inr (lay', d', st')"
    using rows moe
    by (auto simp: process_weights_after_loading_def Let_def marks record_exl3_fat_resolution_def env
        build_exl3_fused_state_def simp del: fun_upd_apply)
  have "slots_ok ?z 64 demo_store"
    by (auto simp: slots_ok_def demo_store_def tensor_cube_def tensor_vec_def dim2_def less_2_cases_iff)
  then have "layer_ok lay'"
    using loaded_layer_ok [OF run, of 64] by (simp add: unloaded_def)
  then show ?thesis using run by blast
qed

text \<open>The states that a witness passes through: a batch of three tokens on the demonstration layer,
  whose scratch holds one row.\<close>

definition demo_env :: environ where "demo_env = [(''EXL3_FAT_SORTED'', ''1'')]"

definition demo_call :: moe_call where
  "demo_call = \<lparr>c_x = [[1], [2], [3]], c_ids = [[0, 1], [1, -1], [1, 0]], c_weights = [[1, 1], [1, 1], [1, 1]],
     c_emap = None, c_limit = 10\<rparr>"

lemma demo_env_ok: "env_ok demo_env demo_backend"
  by (simp add: env_ok_def temp_rows_fused_def configured_rows_def env_get_def sources_ok_def demo_env_def
      fat_kernel_enabled_def strip_by_id Let_def) (code_simp)

lemma demo_call_good: "call_good demo_backend demo_layer demo_call"
  by (simp add: call_ok_def rectangular_def topk_of_def in_map_def demo_layer_def demo_call_def local_id_def
      demo_backend_def demo_plain_def)

lemma demo_run:
  obtains lay' st' out where "apply_exl3_fused_moe demo_env demo_backend demo_call demo_layer boot_exl3 = (lay', st', Inr out)"
  using fused_summed [OF demo_backend_ok _ demo_call_good demo_layer_ok _ demo_env_ok, of boot_exl3]
  by (auto simp: demo_backend_def demo_layer_def demo_call_def)

theorem announced_tier_runs_witness:
  "\<exists>lay' st' out. apply_exl3_fused_moe demo_env demo_backend demo_call demo_layer boot_exl3 = (lay', st', Inr out)
     \<and> last_fat_fallback lay' = ''sorted''"
proof -
  obtain lay' st' out where run: "apply_exl3_fused_moe demo_env demo_backend demo_call demo_layer boot_exl3 = (lay', st', Inr out)"
    by (rule demo_run)
  have "resolve_exl3_fat_tier demo_env demo_backend (shared_w13_suh demo_layer) = Inr (''sorted'', ''sorted_ok'')"
    by (simp add: resolve_exl3_fat_tier_def configured_fat_tier_def demo_env_def env_get_def fat_kernel_enabled_def
        batched_fat_fallback_enabled_def sorted_fat_fallback_enabled_def exl3_fat_symbols_def Let_def)
  moreover have "fused_temps demo_layer = Some 1" by (simp add: demo_layer_def)
  moreover have "map_topk_to_local (c_ids demo_call) (length (inners demo_layer)) (c_emap demo_call) = Inr [0, 1, 1, 2, 1, 0]"
    by (simp add: map_topk_to_local_def demo_call_def demo_layer_def local_id_def)
  ultimately have "last_fat_fallback lay' = (if length (c_x demo_call) \<le> 1
      \<or> list_max (take (length (inners demo_layer)) (expert_count (length (inners demo_layer)) [0, 1, 1, 2, 1, 0])) \<le> 1
     then ''none'' else if fused_moe_row_tile_enabled demo_env then ''row_tile'' else ''sorted'')"
    by (rule announced_tier_runs [OF _ run])
  then show ?thesis
    using run by (simp add: demo_call_def demo_layer_def expert_count_eq list_max_def fused_moe_row_tile_enabled_def
        env_get_def demo_env_def upt_rec)
qed

end
