(* ===== verification/Exl3_Accounts.thy ===== *)
theory Exl3_Accounts
  imports Exl3_Life
begin

text \<open>
  The diagnostics as a state machine: the states of the module that calls, loads and resets can
  reach, and the accounts that hold in all of them.
\<close>

section \<open>Sums over dictionaries\<close>

definition total_of :: "('k \<times> nat) list \<Rightarrow> nat" where
  "total_of d = sum_list (map snd d)"

lemma total_dict_set:
  "distinct (map fst d) \<Longrightarrow>
   total_of (dict_set d k v) + (case map_of d k of Some w \<Rightarrow> w | None \<Rightarrow> 0) = total_of d + v"
proof (induction d)
  case (Cons a d)
  obtain k' w where [simp]: "a = (k', w)" by (cases a)
  show ?case
  proof (cases "k' = k")
    case False
    then show ?thesis using Cons by (simp add: total_of_def)
  qed (simp add: total_of_def)
qed (simp add: total_of_def)

lemma total_bump: "distinct (map fst d) \<Longrightarrow> total_of (bump d k) = total_of d + 1"
  using total_dict_set [of d k "(case map_of d k of Some w \<Rightarrow> w | None \<Rightarrow> 0) + 1"] by (simp add: bump_def)

lemma distinct_bump: "distinct (map fst d) \<Longrightarrow> distinct (map fst (bump d k))"
  by (simp add: bump_def)

lemma keys_bump: "k \<in> set (map fst d) \<Longrightarrow> map fst (bump d k) = map fst d"
  by (simp add: bump_def keys_dict_set del: set_map)

section \<open>The accounts\<close>

text \<open>Every prefill call is thin, tiled or given to one tier, and each has one reason.\<close>

definition calls_ok :: "counters \<Rightarrow> bool" where
  "calls_ok c \<longleftrightarrow>
     prefill_layer_calls c = thin_calls c + row_tile_calls c + total_of (fallback_calls c)
     \<and> total_of (fallback_reasons c) = prefill_layer_calls c
     \<and> map fst (fallback_calls c) = fat_tiers \<and> distinct (map fst (fallback_reasons c))"

definition runs_ok :: "counters \<Rightarrow> bool" where
  "runs_ok c \<longleftrightarrow> scatter_calls c \<le> direct_calls c \<and> direct_calls c \<le> fat_expert_runs c"

definition stats_ok :: "fat_stats \<Rightarrow> bool" where
  "stats_ok s \<longleftrightarrow> length (s_hist s) = length fat_bucket_edges + 1 \<and> sum_list (s_hist s) = s_layers s
     \<and> s_fat_layers s \<le> s_layers s \<and> s_fat_layers s \<le> s_fat_experts s \<and> s_max_rows s \<le> s_sum_max_rows s"

definition scratch_ok :: "exl3 \<Rightarrow> bool" where
  "scratch_ok st \<longleftrightarrow>
     scratch_bytes st = map (\<lambda>(k, s). (k, buffer_bytes s)) (scratch_cache st)
     \<and> (\<forall>(k, s)\<in>set (scratch_cache st). \<exists>g m. k = scratch_key_of g \<and> s = scratch_buffers g (2 ^ m))
     \<and> fat_scratch_bytes (counts_of st) = total_of (scratch_bytes st)
     \<and> fat_scratch_bytes (counts_of st) \<le> fat_scratch_peak_bytes (counts_of st)"

definition accounts_ok :: "exl3 \<Rightarrow> bool" where
  "accounts_ok st \<longleftrightarrow> calls_ok (counts_of st) \<and> runs_ok (counts_of st) \<and> stats_ok (stats st) \<and> scratch_ok st"

lemmas account_defs = accounts_ok_def calls_ok_def runs_ok_def stats_ok_def scratch_ok_def

section \<open>Operations\<close>

lemma boot_accounts: "accounts_ok boot_exl3"
  by (simp add: account_defs boot_exl3_def boot_counters_def zero_stats_def fat_tiers_def total_of_def
      sum_list_replicate o_def)

lemma reset_accounts: "accounts_ok st \<Longrightarrow> accounts_ok (reset_exl3_fat_diag_counters st)"
  by (simp add: account_defs reset_exl3_fat_diag_counters_def Let_def total_of_def fat_tiers_def o_def)

lemma reset_stats_accounts: "accounts_ok st \<Longrightarrow> accounts_ok (reset_exl3_fat_expert_stats st)"
  unfolding account_defs reset_exl3_fat_expert_stats_def zero_stats_def
  by (elim conjE, intro conjI; simp add: sum_list_replicate)

lemma build_accounts:
  "accounts_ok st \<Longrightarrow> build_exl3_fused_state env conc hidden inner lay st = Inr (lay', st') \<Longrightarrow> accounts_ok st'"
proof -
  assume ok: "accounts_ok st" and "build_exl3_fused_state env conc hidden inner lay st = Inr (lay', st')"
  then obtain a b keys where "st' = st\<lparr>temp_cache := keys, counts_of := (counts_of st)\<lparr>fused_temps_allocs := a, fused_temps_bytes := b\<rparr>\<rparr>"
    by (auto simp: build_exl3_fused_state_def Let_def split: sum.splits)
  with ok show "accounts_ok st'" unfolding account_defs by (elim conjE, intro conjI; simp)
qed

lemma fat_bucket_less: "fat_bucket n < length fat_bucket_edges + 1"
proof -
  have "bucket_from i es n \<le> i + length es" for i es
    by (induction i es n rule: bucket_from.induct) auto
  from this [of 0 fat_bucket_edges] show ?thesis by (simp add: fat_bucket_def)
qed

lemma sum_list_bump: "i < length xs \<Longrightarrow> sum_list (xs[i := xs ! i + 1]) = sum_list xs + (1 :: nat)"
  by (induction xs arbitrary: i) (auto split: nat.splits)

lemma add_stats_ok:
  assumes "stats_ok s"
  shows "stats_ok (add_layer_stats k mx s)"
proof -
  have "fat_bucket mx < length (s_hist s)" using assms fat_bucket_less by (simp add: stats_ok_def)
  from sum_list_bump [OF this] show ?thesis
    using assms by (auto simp: stats_ok_def add_layer_stats_def Let_def)
qed

lemma stats_recorded:
  "record_exl3_fat_expert_stats env counts mx st = Inr st' \<Longrightarrow> \<exists>k. st' = st\<lparr>stats := add_layer_stats k mx (stats st)\<rparr>"
  by (auto simp: record_exl3_fat_expert_stats_def split: sum.splits)

text \<open>A state between the count of a prefill call and the record of its branch.\<close>

definition pending :: "exl3 \<Rightarrow> bool" where
  "pending st \<longleftrightarrow> (\<exists>st0. accounts_ok st0 \<and> counts_of st = (counts_of st0)\<lparr>prefill_layer_calls := prefill_layer_calls (counts_of st0) + 1\<rparr>
     \<and> stats_ok (stats st) \<and> scratch_cache st = scratch_cache st0 \<and> scratch_bytes st = scratch_bytes st0)"

lemma pending_thin: "pending st \<Longrightarrow> accounts_ok (record_reason r (count_thin st))"
  by (auto simp: pending_def record_reason_def count_thin_def account_defs total_bump distinct_bump)

lemma pending_tile: "pending st \<Longrightarrow> accounts_ok (record_reason r (count_row_tile st))"
  by (auto simp: pending_def record_reason_def count_row_tile_def account_defs total_bump distinct_bump)

lemma pending_tier:
  assumes "pending st" and "tier \<in> set fat_tiers"
  shows "accounts_ok (snd (record_exl3_fat_tier tier reason lay st))"
proof -
  have "distinct fat_tiers" by (simp add: fat_tiers_def)
  then show ?thesis
    using assms by (auto simp: pending_def record_exl3_fat_tier_def record_reason_def Let_def account_defs
        total_bump distinct_bump keys_bump)
qed

lemma pending_count: "accounts_ok st \<Longrightarrow> pending (count_prefill st)"
  unfolding pending_def by (rule exI [of _ st]) (simp add: count_prefill_def accounts_ok_def)

lemma pending_stats:
  assumes "pending st" and "record_exl3_fat_expert_stats env counts mx st = Inr st'"
  shows "pending st'"
  using assms(1) stats_recorded [OF assms(2)] by (auto simp: pending_def add_stats_ok)

lemma add_runs_accounts: "accounts_ok st \<Longrightarrow> accounts_ok (add_runs n st)"
  unfolding accounts_ok_def calls_ok_def runs_ok_def scratch_ok_def add_runs_def
  by (elim conjE, intro conjI; simp)

lemma count_run_accounts:
  "accounts_ok st \<Longrightarrow> accounts_ok (count_run st) \<and> direct_calls (counts_of (count_run st)) < fat_expert_runs (counts_of (count_run st))"
  unfolding accounts_ok_def calls_ok_def runs_ok_def scratch_ok_def count_run_def
  by (elim conjE, intro conjI; simp)

lemma count_direct_accounts:
  "accounts_ok st \<Longrightarrow> direct_calls (counts_of st) < fat_expert_runs (counts_of st) \<Longrightarrow>
   accounts_ok (count_direct st) \<and> scatter_calls (counts_of (count_direct st)) < direct_calls (counts_of (count_direct st))"
  unfolding accounts_ok_def calls_ok_def runs_ok_def scratch_ok_def count_direct_def
  by (elim conjE, intro conjI; simp)

lemma count_scatter_accounts:
  "accounts_ok st \<Longrightarrow> scatter_calls (counts_of st) < direct_calls (counts_of st) \<Longrightarrow> accounts_ok (count_scatter st)"
  unfolding accounts_ok_def calls_ok_def runs_ok_def scratch_ok_def count_scatter_def
  by (elim conjE, intro conjI; simp)

lemma sorted_from_accounts:
  "accounts_ok (snd acc) \<Longrightarrow> accounts_ok (snd (sorted_fat_from be xh ts ws packs limit cap e start ns acc))"
proof (induction ns arbitrary: e start acc)
  case (Cons n ns)
  then show ?case by (simp add: Let_def count_run_accounts)
qed simp

lemma map_dict_set:
  "map (\<lambda>(k, s). (k, f s)) (dict_set d k s) = dict_set (map (\<lambda>(k, s). (k, f s)) d) k (f s)"
  by (induction d) auto

lemma set_dict_set_subset: "set (dict_set d k v) \<subseteq> insert (k, v) (set d)"
proof (induction d)
  case (Cons a d)
  then show ?case by (cases a) auto
qed simp

lemma scratch_capacity_pow: "\<exists>m. scratch_capacity rows configured = 2 ^ m"
  by (auto simp: scratch_capacity_def Let_def)

lemma fat_scratch_cases:
  "\<exists>key fresh cap. fresh = scratch_buffers g cap \<and> (\<exists>m. cap = 2 ^ m) \<and> key = scratch_key_of g \<and>
    (fst (fat_scratch env rows g st) = st
     \<or> fst (fat_scratch env rows g st) = st\<lparr>scratch_cache := dict_set (scratch_cache st) key fresh,
          scratch_bytes := dict_set (scratch_bytes st) key (buffer_bytes fresh),
          counts_of := (counts_of st)\<lparr>fat_scratch_allocs := fat_scratch_allocs (counts_of st) + 1,
            fat_scratch_bytes := total_of (dict_set (scratch_bytes st) key (buffer_bytes fresh)),
            fat_scratch_peak_bytes := max (fat_scratch_peak_bytes (counts_of st))
              (total_of (dict_set (scratch_bytes st) key (buffer_bytes fresh)))\<rparr>\<rparr>)"
proof (cases "configured_rows env")
  case (Inl e)
  then show ?thesis
    by (intro exI [of _ "scratch_key_of g"] exI [of _ "scratch_buffers g 1"] exI [of _ 1])
      (auto simp: fat_scratch_def intro: exI [of _ 0])
next
  case (Inr c)
  show ?thesis
    using scratch_capacity_pow [of rows c]
    by (intro exI [of _ "scratch_key_of g"] exI [of _ "scratch_buffers g (scratch_capacity rows c)"]
        exI [of _ "scratch_capacity rows c"])
      (auto simp: fat_scratch_def Inr Let_def total_of_def split: option.splits)
qed

lemma fat_scratch_accounts:
  assumes "accounts_ok st"
  shows "accounts_ok (fst (fat_scratch env rows g st))
    \<and> direct_calls (counts_of (fst (fat_scratch env rows g st))) = direct_calls (counts_of st)
    \<and> fat_expert_runs (counts_of (fst (fat_scratch env rows g st))) = fat_expert_runs (counts_of st)"
proof -
  obtain key fresh m where fresh: "fresh = scratch_buffers g (2 ^ m)" "key = scratch_key_of g"
    and cases: "fst (fat_scratch env rows g st) = st
     \<or> fst (fat_scratch env rows g st) = st\<lparr>scratch_cache := dict_set (scratch_cache st) key fresh,
          scratch_bytes := dict_set (scratch_bytes st) key (buffer_bytes fresh),
          counts_of := (counts_of st)\<lparr>fat_scratch_allocs := fat_scratch_allocs (counts_of st) + 1,
            fat_scratch_bytes := total_of (dict_set (scratch_bytes st) key (buffer_bytes fresh)),
            fat_scratch_peak_bytes := max (fat_scratch_peak_bytes (counts_of st))
              (total_of (dict_set (scratch_bytes st) key (buffer_bytes fresh)))\<rparr>\<rparr>"
    using fat_scratch_cases [of g env rows st] by blast
  let ?new = "dict_set (scratch_cache st) key fresh"
  have "\<forall>(k, s)\<in>set ?new. \<exists>g m. k = scratch_key_of g \<and> s = scratch_buffers g (2 ^ m)"
    using set_dict_set_subset [of "scratch_cache st" key fresh] assms fresh
    by (fastforce simp: accounts_ok_def scratch_ok_def)
  moreover have "dict_set (scratch_bytes st) key (buffer_bytes fresh) = map (\<lambda>(k, s). (k, buffer_bytes s)) ?new"
    using assms by (simp add: accounts_ok_def scratch_ok_def map_dict_set)
  ultimately show ?thesis
    using cases assms by (auto simp: accounts_ok_def calls_ok_def runs_ok_def scratch_ok_def)
qed

lemma batched_expert_accounts:
  assumes "accounts_ok st"
  shows "accounts_ok (fst (batched_expert env be use_kernel gm sc limit xh p idx w out st))"
proof -
  obtain st1 r1 where s1: "fat_scratch env (length idx) (gate p) (count_run st) = (st1, r1)" by fastforce
  have a1: "accounts_ok st1" "direct_calls (counts_of st1) < fat_expert_runs (counts_of st1)"
    using fat_scratch_accounts [of "count_run st" env "length idx" "gate p"] count_run_accounts [OF assms] s1 by auto
  obtain st2 r2 where s2: "first_gemm be use_kernel gm p (had_r_128 be (index_select xh idx) (Some (suh (gate p))) None) st1 = (st2, r2)"
    by fastforce
  have a2: "accounts_ok st2" "use_kernel \<Longrightarrow> ok_res r2 \<Longrightarrow> scatter_calls (counts_of st2) < direct_calls (counts_of st2)"
    using s2 a1 count_direct_accounts by (auto simp: first_gemm_def Let_def split: if_splits option.splits)
  have a3: "accounts_ok (fst (second_gemm be use_kernel sc p h2 out idx w st2))" if "ok_res r2" for h2
    using a2 that count_scatter_accounts by (auto simp: second_gemm_def Let_def split: option.splits)
  show ?thesis
    using a1 a2 a3 by (auto simp: batched_expert_def s1 s2 Let_def split: sum.splits)
qed

lemma batched_from_accounts:
  "accounts_ok st \<Longrightarrow> accounts_ok (fst (batched_from env be use_kernel gm sc limit xh ts ws packs cap e start ns out st))"
proof (induction ns arbitrary: e start out st)
  case (Cons n ns)
  have "accounts_ok (fst (batched_expert env be use_kernel gm sc limit xh (packs ! e) (slice start n ts) (slice start n ws) out st))"
    by (rule batched_expert_accounts [OF Cons.prems])
  then show ?case using Cons by (auto split: prod.splits sum.splits)
qed simp

lemma fat_stage_accounts:
  assumes "pending st" and "fat_stage env be call b cap host out lay st = (lay', st', res)"
  shows "accounts_ok st'"
proof -
  note tier = pending_tier [OF assms(1)]
  have k: "accounts_ok (snd (record_exl3_fat_tier ''kernel'' r lay st))"
    and ba: "accounts_ok (snd (record_exl3_fat_tier ''batched'' r lay st))"
    and so: "accounts_ok (snd (record_exl3_fat_tier ''sorted'' r lay st))"
    and le: "accounts_ok (snd (record_exl3_fat_tier ''legacy'' r lay st))" for r
    by (rule tier, simp add: fat_tiers_def)+
  have batch: "accounts_ok (fst (apply_exl3_batched_fat env be xh ts ws counts packs limit cap uk out st1))"
    if "accounts_ok st1" for xh ts ws counts packs limit uk st1
    using that batched_from_accounts by (simp add: apply_exl3_batched_fat_def Let_def)
  have sort: "accounts_ok (snd (apply_exl3_sorted_fat be xh ts ws counts packs limit cap out st1))"
    if "accounts_ok st1" for xh ts ws counts packs limit st1
    using that sorted_from_accounts [of "(out, st1)"] by (simp add: apply_exl3_sorted_fat_def)
  let ?want = "batched_fat_fallback_enabled env \<or> fat_kernel_enabled env"
  consider (batched) "?want" "shared_w13_suh lay"
    | (sorted) "\<not> (?want \<and> shared_w13_suh lay)" "sorted_fat_fallback_enabled env \<or> ?want"
    | (legacy) "\<not> ?want" "\<not> sorted_fat_fallback_enabled env"
    by blast
  then show ?thesis
  proof cases
    case batched
    show ?thesis
      using assms(2) batched k ba batch [OF k] batch [OF ba] unfolding fat_stage_def Let_def
      by (auto simp: case_prod_beta split: if_splits) (metis fst_conv)+
  next
    case sorted
    show ?thesis
      using assms(2) sorted so sort [OF so] unfolding fat_stage_def Let_def
      by (auto simp: case_prod_beta split: if_splits)
  next
    case legacy
    show ?thesis
      using assms(2) legacy le add_runs_accounts [OF le] unfolding fat_stage_def Let_def
      by (auto simp: case_prod_beta split: if_splits)
  qed
qed

lemma prefill_stage_accounts:
  assumes "accounts_ok st" and "ok_res (temp_rows_fused env)"
    and "prefill_stage env be fn call b cap out lay st = (lay', st', res)"
  shows "accounts_ok st'"
proof -
  define st2 where "st2 = (if fat_expert_log_enabled env
      then record_exl3_fat_expert_stats env (b_counts b) (list_max (b_counts b)) (count_prefill st)
      else Inr (count_prefill st))"
  obtain rows where "temp_rows_fused env = Inr rows" using assms(2) by (rule ok_resE)
  then obtain st3 where st3: "st2 = Inr st3"
    by (cases "fat_expert_log_enabled env") (simp_all add: st2_def record_exl3_fat_expert_stats_def)
  have pend: "pending st3"
    using st3 pending_count [OF assms(1)] pending_stats [OF pending_count [OF assms(1)]]
    by (auto simp: st2_def split: if_splits)
  show ?thesis
    using assms(3) pending_thin [OF pend] pending_tile [OF pend] fat_stage_accounts [OF pend]
    unfolding prefill_stage_def Let_def st2_def [symmetric] st3 sum.case
    by (auto split: if_splits)
qed

lemma fused_accounts:
  assumes "accounts_ok st" and "ok_res (temp_rows_fused env)"
    and "apply_exl3_fused_moe env be call lay st = (lay', st', res)"
  shows "accounts_ok st'"
  using assms(1,3) unfolding apply_exl3_fused_moe_def Let_def
  by (auto split: if_splits option.splits sum.splits dest: prefill_stage_accounts [OF assms(1,2)])

lemma experts_accounts:
  assumes "accounts_ok st" and "ok_res (temp_rows_fused env)"
    and "apply_exl3_experts env be fused x ids weights limit lay st = (lay', st', res)"
  shows "accounts_ok st'"
  using assms(1,3) unfolding apply_exl3_experts_def Let_def
  by (auto split: if_splits prod.splits sum.splits dest: fused_accounts [OF assms(1,2)])

section \<open>Reachable states\<close>

text \<open>A process starts from the module's state; calls with any environment whose scratch size
  parses (at load a size that does not parse leaves the layer without tables), layers that are
  built, and the two resets follow in any order.\<close>

inductive exl3_reach :: "exl3 \<Rightarrow> bool" where
  reach_boot: "exl3_reach boot_exl3"
| reach_call: "exl3_reach st \<Longrightarrow> ok_res (temp_rows_fused env) \<Longrightarrow>
    apply_exl3_experts env be fused x ids weights limit lay st = (lay', st', res) \<Longrightarrow> exl3_reach st'"
| reach_build: "exl3_reach st \<Longrightarrow> build_exl3_fused_state env conc hidden inner lay st = Inr (lay', st') \<Longrightarrow> exl3_reach st'"
| reach_reset: "exl3_reach st \<Longrightarrow> exl3_reach (reset_exl3_fat_diag_counters st)"
| reach_reset_stats: "exl3_reach st \<Longrightarrow> exl3_reach (reset_exl3_fat_expert_stats st)"

lemma reach_accounts: "exl3_reach st \<Longrightarrow> accounts_ok st"
proof (induction rule: exl3_reach.induct)
  case reach_boot
  show ?case by (rule boot_accounts)
next
  case (reach_call st env be fused x ids weights limit lay lay' st' res)
  then show ?case using experts_accounts by blast
next
  case (reach_build st env conc hidden inner lay lay' st')
  then show ?case using build_accounts by blast
qed (auto intro: reset_accounts reset_stats_accounts)

text \<open>C16: The diagnostics add up.  In every state a process can reach, the prefill calls are the
  thin ones, the tiled ones and those of the four tiers, failed calls included; the recorded
  reasons are as many; every direct product is the run of a large expert, and every scattering
  product followed a direct one; the bytes are those of the resident scratch and not above the
  peak; and the histogram counts every recorded layer once.\<close>

theorem diagnostics_add_up:
  assumes "exl3_reach st" and "c = counts_of st"
  shows "prefill_layer_calls c = thin_calls c + row_tile_calls c + total_of (fallback_calls c)
    \<and> total_of (fallback_reasons c) = prefill_layer_calls c
    \<and> scatter_calls c \<le> direct_calls c \<and> direct_calls c \<le> fat_expert_runs c
    \<and> fat_scratch_bytes c = sum_list (map (buffer_bytes \<circ> snd) (scratch_cache st))
    \<and> fat_scratch_bytes c \<le> fat_scratch_peak_bytes c
    \<and> sum_list (s_hist (stats st)) = s_layers (stats st) \<and> s_fat_layers (stats st) \<le> s_layers (stats st)"
proof -
  have "accounts_ok st" by (rule reach_accounts [OF assms(1)])
  moreover have "map snd (map (\<lambda>(k, s). (k, buffer_bytes s)) (scratch_cache st)) = map (buffer_bytes \<circ> snd) (scratch_cache st)"
    by (auto simp: case_prod_beta)
  ultimately show ?thesis
    unfolding assms(2) account_defs total_of_def by (metis (no_types, lifting))
qed

text \<open>Scratch that is handed out has room for the rows, in every state that can be reached.\<close>

lemma bit_length_bound: "n < 2 ^ bit_length n"
proof (induction n rule: bit_length.induct)
  case (1 n)
  show ?case
  proof (cases "n = 0")
    case False
    then have "n div 2 < 2 ^ bit_length (n div 2)" using 1 by simp
    then have "n < 2 * 2 ^ bit_length (n div 2)" by linarith
    then show ?thesis using False by (simp add: bit_length.simps [of n])
  qed (simp add: bit_length.simps)
qed

lemma scratch_capacity_rows: "rows \<le> scratch_capacity rows configured"
proof -
  let ?n = "nat (max (max 256 (int rows)) configured)"
  have "rows \<le> ?n" "0 < ?n" by auto
  then have "rows \<le> 2 ^ bit_length (?n - 1)"
    using bit_length_bound [of "?n - 1"] by linarith
  then show ?thesis by (simp add: scratch_capacity_def Let_def)
qed

text \<open>C34: Scratch fits.  In every state a process can reach, the buffers that the batched tier
  receives for a number of rows have at least that many rows, each of the seven row buffers the
  same power of two; an entry that is too small is replaced by one that is not.\<close>

theorem scratch_fits:
  assumes "exl3_reach st" and "fat_scratch env rows g st = (st', Inr s)"
  shows "\<exists>m. rows \<le> 2 ^ m \<and> (\<forall>name\<in>{''h'', ''h13'', ''gate_up'', ''act'', ''act_h'', ''h2'', ''down''}. buffer_rows s name = 2 ^ m)"
proof -
  have rows: "buffer_rows (scratch_buffers g' cap) name = cap"
    if "name \<in> {''h'', ''h13'', ''gate_up'', ''act'', ''act_h'', ''h2'', ''down''}" for name g' cap
    using that by (auto simp: buffer_rows_def scratch_buffers_def Let_def)
  have "scratch_ok st" using reach_accounts [OF assms(1)] by (simp add: accounts_ok_def)
  then have old: "\<exists>g' m. s = scratch_buffers g' (2 ^ m)" if "map_of (scratch_cache st) (scratch_key_of g) = Some s" for s
    using map_of_SomeD [OF that] by (fastforce simp: scratch_ok_def)
  obtain c where c: "configured_rows env = Inr c"
    using assms(2) by (auto simp: fat_scratch_def split: sum.splits)
  obtain m where m: "scratch_capacity rows c = 2 ^ m" using scratch_capacity_pow by blast
  consider (kept) "map_of (scratch_cache st) (scratch_key_of g) = Some s" "rows \<le> buffer_rows s ''h''"
    | (fresh) "s = scratch_buffers g (scratch_capacity rows c)"
    using assms(2) by (auto simp: fat_scratch_def c Let_def split: option.splits if_splits)
  then show ?thesis
  proof cases
    case kept
    then obtain g' k where "s = scratch_buffers g' (2 ^ k)" using old by blast
    then show ?thesis using kept(2) rows by (intro exI [of _ k]) auto
  next
    case fresh
    then show ?thesis using scratch_capacity_rows [of rows c] rows m by (intro exI [of _ m]) auto
  qed
qed

theorem scratch_fits_witness:
  "\<exists>m. (300 :: nat) \<le> 2 ^ m \<and> (\<forall>name\<in>{''h'', ''h13'', ''gate_up'', ''act'', ''act_h'', ''h2'', ''down''}.
     buffer_rows (scratch_buffers (demo_lin 1) (scratch_capacity 300 0)) name = 2 ^ m)"
proof (rule scratch_fits [OF reach_boot])
  show "fat_scratch [(''EXL3_FAT_SCRATCH_ROWS'', [])] 300 (demo_lin 1) boot_exl3
      = (fst (fat_scratch [(''EXL3_FAT_SCRATCH_ROWS'', [])] 300 (demo_lin 1) boot_exl3),
         Inr (scratch_buffers (demo_lin 1) (scratch_capacity 300 0)))"
    by (simp add: fat_scratch_def configured_rows_def env_get_def boot_exl3_def Let_def)
qed

theorem diagnostics_add_up_witness:
  "\<exists>st. exl3_reach st \<and> prefill_layer_calls (counts_of st)
     = thin_calls (counts_of st) + row_tile_calls (counts_of st) + total_of (fallback_calls (counts_of st))"
proof (rule exI [of _ "reset_exl3_fat_expert_stats boot_exl3"], rule conjI)
  show r: "exl3_reach (reset_exl3_fat_expert_stats boot_exl3)" by (intro reach_reset_stats reach_boot)
  show "prefill_layer_calls (counts_of (reset_exl3_fat_expert_stats boot_exl3))
     = thin_calls (counts_of (reset_exl3_fat_expert_stats boot_exl3)) + row_tile_calls (counts_of (reset_exl3_fat_expert_stats boot_exl3))
       + total_of (fallback_calls (counts_of (reset_exl3_fat_expert_stats boot_exl3)))"
    using diagnostics_add_up [OF r refl] by blast
qed

end
