(* ===== verification/Ablit_Layers.thy ===== *)
theory Ablit_Layers
  imports Py_Text
begin

text \<open>
  The layer specification \<open>ABLIT_LAYERS\<close> ("15-43,45"), which two programs read on their own:
  \<open>parse_layers\<close> of \<open>overlay/ablit_runtime.py\<close>, at load time, and \<open>parse_layers\<close> of
  \<open>ablit/fetch_transplant.py\<close>, which downloads the tensors of those layers.  The second
  claims the grammar of the first; \<open>fetch_layers_iff\<close> says how far that is true.
\<close>

section \<open>The two parsers\<close>

datatype layer_error = Bad_Range string | Bad_Index string | Inverted string | No_Layers

text \<open>One entry of the specification, as the runtime reads it.\<close>

definition layer_part :: "string \<Rightarrow> layer_error + int list" where
  "layer_part part =
     (if CHR ''-'' \<in> set part then
        (case partition_on CHR ''-'' part of (lo_s, _, hi_s) \<Rightarrow>
          (case (parse_int lo_s, parse_int hi_s) of
             (Some lo, Some hi) \<Rightarrow>
               (if hi < lo then Inl (Inverted part) else Inr (py_range lo (hi + 1)))
           | _ \<Rightarrow> Inl (Bad_Range part)))
      else (case parse_int part of None \<Rightarrow> Inl (Bad_Index part) | Some n \<Rightarrow> Inr [n]))"

text \<open>And as the download reads it: an empty upper end stands for the lower one.\<close>

definition fetch_part :: "string \<Rightarrow> layer_error + int list" where
  "fetch_part part =
     (case partition_on CHR ''-'' part of (lo, _, hi) \<Rightarrow>
       (case (parse_int lo, parse_int (if hi = [] then lo else hi)) of
          (Some a, Some b) \<Rightarrow>
            (if b < a then Inl (Inverted part) else Inr (py_range a (b + 1)))
        | _ \<Rightarrow> Inl (Bad_Index part)))"

text \<open>The loop over the entries: empty ones are skipped, the first bad one ends it.\<close>

fun layer_parts :: "(string \<Rightarrow> layer_error + int list) \<Rightarrow> string list \<Rightarrow> layer_error + int list" where
  "layer_parts read_part [] = Inr []"
| "layer_parts read_part (p # ps) =
     (if strip p = [] then layer_parts read_part ps
      else res_bind (read_part (strip p)) (\<lambda>xs.
           res_bind (layer_parts read_part ps) (\<lambda>ys. Inr (xs @ ys))))"

definition layers_of :: "(string \<Rightarrow> layer_error + int list) \<Rightarrow> string \<Rightarrow> layer_error + int list" where
  "layers_of read_part spec =
     res_bind (layer_parts read_part (split_on CHR '','' spec)) (\<lambda>layers.
       if layers = [] then Inl No_Layers else Inr (sorted_set layers))"

definition parse_layers :: "string \<Rightarrow> layer_error + int list" where
  "parse_layers spec = layers_of layer_part spec"

definition fetch_layers :: "string \<Rightarrow> layer_error + int list" where
  "fetch_layers spec = layers_of fetch_part spec"

section \<open>What a parsed specification is\<close>

lemma parse_int_nonneg:
  assumes "parse_int s = Some n" "CHR ''-'' \<notin> set s"
  shows "0 \<le> n"
proof -
  have "CHR ''-'' \<notin> set (strip s)"
    using assms(2) by (auto simp: strip_by_def rstrip_by_def lstrip_by_def dest!: set_dropWhileD)
  then have "fst (read_sign (strip s)) = 1"
    by (auto simp: read_sign_def split: list.splits if_splits char.splits bool.splits)
  then show ?thesis
    using assms(1) by (auto simp: parse_int_def split: prod.splits option.splits list.splits)
qed

lemma layer_part_nonneg: "layer_part p = Inr xs \<Longrightarrow> \<forall>x\<in>set xs. 0 \<le> x"
  using partition_on_spec [of "CHR ''-''" p]
  by (fastforce simp: layer_part_def split: if_splits prod.splits option.splits
        dest: parse_int_nonneg)

lemma layer_part_nonempty: "layer_part p = Inr xs \<Longrightarrow> xs \<noteq> []"
  by (auto simp: layer_part_def split: if_splits prod.splits option.splits)

lemma layer_parts_all:
  "layer_parts rd ps = Inr xs \<Longrightarrow> (\<And>p ys. rd p = Inr ys \<Longrightarrow> \<forall>y\<in>set ys. P y) \<Longrightarrow> \<forall>x\<in>set xs. P x"
  by (induction ps arbitrary: xs) (auto split: if_splits)

lemma layers_of_spec:
  "layers_of rd spec = Inr ls \<longleftrightarrow>
     (\<exists>xs. layer_parts rd (split_on CHR '','' spec) = Inr xs \<and> xs \<noteq> [] \<and> ls = sorted_set xs)"
  by (auto simp: layers_of_def split: if_splits)

lemma parse_layers_shape:
  assumes "parse_layers spec = Inr ls"
  shows "ls \<noteq> []" "sorted ls" "distinct ls" "\<forall>l\<in>set ls. 0 \<le> l"
proof -
  obtain xs where xs: "layer_parts layer_part (split_on CHR '','' spec) = Inr xs"
    "xs \<noteq> []" "ls = sorted_set xs"
    using assms by (auto simp: parse_layers_def layers_of_spec)
  from layer_parts_all [OF xs(1), of "\<lambda>x. 0 \<le> x"] layer_part_nonneg
  show "\<forall>l\<in>set ls. 0 \<le> l" by (auto simp: xs(3))
qed (use assms in \<open>auto simp: parse_layers_def layers_of_spec\<close>)

section \<open>How the two parsers differ\<close>

text \<open>An open range such as "15-" is the only thing the download reads and the runtime does
  not.\<close>

definition open_range :: "string \<Rightarrow> bool" where
  "open_range part \<longleftrightarrow> CHR ''-'' \<in> set part \<and> snd (snd (partition_on CHR ''-'' part)) = []"

lemma parse_int_Nil [simp]: "parse_int [] = None"
  by (simp add: parse_int_def read_sign_def strip_by_def rstrip_by_def lstrip_by_def)

lemma layer_part_iff:
  "layer_part p = Inr xs \<longleftrightarrow> fetch_part p = Inr xs \<and> \<not> open_range p"
proof (cases "CHR ''-'' \<in> set p")
  case True
  then show ?thesis
    by (auto simp: layer_part_def fetch_part_def open_range_def split: prod.splits option.splits)
next
  case False
  then show ?thesis
    by (auto simp: layer_part_def fetch_part_def open_range_def partition_on_noSep
          split: option.splits)
qed

lemma layer_parts_iff:
  "layer_parts layer_part ps = Inr xs \<longleftrightarrow>
     layer_parts fetch_part ps = Inr xs \<and> (\<forall>p\<in>set ps. \<not> open_range (strip p))"
proof (induction ps arbitrary: xs)
  case (Cons p ps)
  have "\<not> open_range []" by (simp add: open_range_def)
  then show ?case using Cons.IH by (auto simp: layer_part_iff)
qed simp

text \<open>the runtime reads a layer specification exactly when the download reads it as the same
  layers and no entry is an open range; what it reads is a non-empty, strictly increasing
  list of layers from 0 on.\<close>

theorem layer_parsers_agree:
  "(parse_layers spec = Inr ls \<longleftrightarrow>
      fetch_layers spec = Inr ls \<and> (\<forall>p\<in>set (split_on CHR '','' spec). \<not> open_range (strip p)))
   \<and> (parse_layers spec = Inr ls \<longrightarrow> ls \<noteq> [] \<and> sorted ls \<and> distinct ls \<and> (\<forall>l\<in>set ls. 0 \<le> l))"
  using parse_layers_shape [of spec ls]
  by (auto simp: parse_layers_def fetch_layers_def layers_of_spec layer_parts_iff)

lemma layer_parsers_agree_witness:
  "parse_layers ''3-5, 4,,9'' = Inr [3, 4, 5, 9] \<and> fetch_layers ''3-5, 4,,9'' = Inr [3, 4, 5, 9]"
proof -
  have p: "parse_layers ''3-5, 4,,9'' = Inr [3, 4, 5, 9]" by code_simp
  then show ?thesis using layer_parsers_agree [of "''3-5, 4,,9''" "[3, 4, 5, 9]"] by blast
qed

lemma open_range_diverges:
  "fetch_layers ''15-'' = Inr [15]" "parse_layers ''15-'' = Inl (Bad_Range ''15-'')"
  by code_simp+

end
