(* ===== verification/Ablit_Apply.thy ===== *)
theory Ablit_Apply
  imports Ablit_Layers Py_Json
begin

text \<open>
  The load-time edit of the attention output projections (\<open>overlay/ablit_runtime.py\<close>): which
  modules of the model are edited, the two edits, and the entry point \<open>maybe_apply\<close>.

  A module is a number, the identity of the object; a weight is a matrix of reals, \<open>None\<close> for a
  module without a two-dimensional one, and the weights of the model are a function that every
  edit updates.  Rounding to the type of the weight (\<open>tensor.to\<close>, \<open>copy_\<close>) is the parameter
  \<open>store\<close>; reading, hashing and decoding of the donor files, \<open>torch.load\<close> and the parallel
  world and rank are parameters too.  Log lines are left out, and with them what is computed
  only for them.
\<close>

section \<open>Environment\<close>

datatype ablit_error = Ablit string | Py_Raise py_exc | Bad_Layers layer_error

type_synonym env = "(string \<times> string) list"

definition env_flag :: "env \<Rightarrow> string \<Rightarrow> bool \<Rightarrow> bool" where
  "env_flag env name d =
     (case map_of env name of
        None \<Rightarrow> d
      | Some v \<Rightarrow> (if v = [] then d
                   else lower (strip v) \<in> {''1'', ''true'', ''yes'', ''on''}))"

text \<open>\<open>os.environ.get(k) or d\<close>\<close>

definition env_or :: "env \<Rightarrow> string \<Rightarrow> string \<Rightarrow> string" where
  "env_or env k d = (case map_of env k of None \<Rightarrow> d | Some v \<Rightarrow> (if v = [] then d else v))"

definition path_join :: "string \<Rightarrow> string \<Rightarrow> string" where
  "path_join a b = a @ CHR ''/'' # b"

definition default_ablit_dir :: string where
  "default_ablit_dir = ''/opt/glm53/ablit''"

definition transplant_subdir :: string where
  "transplant_subdir = ''transplant''"

definition default_layers :: string where
  "default_layers = ''15-43,45''"

section \<open>The direction\<close>

definition direction_files :: "(string \<times> string) list" where
  "direction_files =
     [(''dealign'', ''refusal_direction_glm53_dealign_late.pt''),
      (''bf_oproj'', ''refusal_direction_glm53_bf_oproj.pt'')]"

definition resolve_direction_path :: "string \<Rightarrow> string \<Rightarrow> ablit_error + string" where
  "resolve_direction_path ablit_dir name =
     (if CHR ''/'' \<in> set name then Inr name
      else (case map_of direction_files name of
              None \<Rightarrow> Inl (Ablit ''direction not known'')
            | Some fname \<Rightarrow> Inr (path_join ablit_dir fname)))"

text \<open>What \<open>torch.load\<close> returns: a dictionary with a tensor (its shape and elements) or another
  value under \<open>directions\<close>, a dictionary without it, or something else.\<close>

datatype directions = Tensor "nat list" "py_num list" | Not_A_Tensor

datatype loaded = Directions directions | No_Directions | Not_A_Dict

fun finite_reals :: "py_num list \<Rightarrow> real list option" where
  "finite_reals [] = Some []"
| "finite_reals (Fin x # xs) = map_option ((#) x) (finite_reals xs)"
| "finite_reals (_ # xs) = None"

definition dot :: "real list \<Rightarrow> real list \<Rightarrow> real" where
  "dot a b = sum_list (map2 (*) a b)"

text \<open>The squared norm stands for the norm: both are finite and positive together.\<close>

definition load_direction :: "(string \<Rightarrow> loaded option) \<Rightarrow> string \<Rightarrow> ablit_error + real list" where
  "load_direction torch_load path =
     (case torch_load path of
        Some (Directions (Tensor shape xs)) \<Rightarrow>
          (let shape' = (if length shape = 2 \<and> hd shape = 1 then tl shape else shape) in
           if length shape' \<noteq> 1 then Inl (Ablit ''directions must be 1-D'')
           else (case finite_reals xs of
                   None \<Rightarrow> Inl (Ablit ''invalid norm'')
                 | Some r \<Rightarrow> (if dot r r \<le> 0 then Inl (Ablit ''invalid norm'') else Inr r)))
      | Some (Directions Not_A_Tensor) \<Rightarrow> Inl (Ablit ''directions must be a tensor'')
      | Some _ \<Rightarrow> Inl (Ablit ''expected a dict with directions'')
      | None \<Rightarrow> Inl (Ablit ''cannot load direction''))"

section \<open>The modules of the model\<close>

text \<open>The names and identities that \<open>named_modules\<close> yields.\<close>

type_synonym modules = "(string \<times> nat) list"

type_synonym matrix = "real list list"

type_synonym weights = "nat \<Rightarrow> matrix option"

definition n_cols :: "matrix \<Rightarrow> nat" where
  "n_cols w = (case w of [] \<Rightarrow> 0 | r # _ \<Rightarrow> length r)"

text \<open>The two regular expressions on module names: the last dot-separated components, after
  \<open>layers\<close> and a decimal index.\<close>

definition layer_index :: "string \<Rightarrow> nat option" where
  "layer_index d = (if d \<noteq> [] \<and> list_all is_digit_c d then Some (digits_val (map digit_val d)) else None)"

definition layer_o_proj :: "string \<Rightarrow> nat option" where
  "layer_o_proj name = (case rev (split_on CHR ''.'' name) of
       o_proj # attn # d # l # _ \<Rightarrow>
         (if o_proj = ''o_proj'' \<and> attn = ''self_attn'' \<and> l = ''layers'' then layer_index d else None)
     | _ \<Rightarrow> None)"

definition mtp_o_proj :: "string \<Rightarrow> nat option" where
  "mtp_o_proj name = (case rev (split_on CHR ''.'' name) of
       o_proj # attn # block # d # l # _ \<Rightarrow>
         (if o_proj = ''o_proj'' \<and> attn = ''self_attn'' \<and> block = ''mtp_block'' \<and> l = ''layers''
          then layer_index d else None)
     | _ \<Rightarrow> None)"

fun walk_from :: "nat list \<Rightarrow> modules \<Rightarrow> (string \<times> int \<times> nat) list" where
  "walk_from seen [] = []"
| "walk_from seen ((name, m) # rest) =
     (if m \<in> set seen then walk_from seen rest
      else (case layer_o_proj name of
              Some i \<Rightarrow> (name, int i, m) # walk_from (m # seen) rest
            | None \<Rightarrow>
                (case mtp_o_proj name of
                   Some i \<Rightarrow> (name, int i, m) # walk_from (m # seen) rest
                 | None \<Rightarrow> walk_from seen rest)))"

definition walk_o_proj :: "modules \<Rightarrow> (string \<times> int \<times> nat) list" where
  "walk_o_proj ms = walk_from [] ms"

text \<open>The object that was hooked: its own modules, and its language model with the text model
  inside, where it has them.\<close>

record hooked =
  own_modules :: modules
  language_model :: "(modules \<times> modules option) option"

definition unwrap_text_model :: "hooked \<Rightarrow> modules" where
  "unwrap_text_model m =
     (case language_model m of
        None \<Rightarrow> own_modules m
      | Some (lm, None) \<Rightarrow> lm
      | Some (lm, Some inner) \<Rightarrow> inner)"

section \<open>Reports\<close>

record edit_report =
  edited_layers :: "int list"
  skipped :: "(string \<times> string) list"
  mtp_edited :: bool
  deltas :: "(int \<times> real \<times> real) list"

definition empty_report :: edit_report where
  "empty_report = \<lparr>edited_layers = [], skipped = [], mtp_edited = False, deltas = []\<rparr>"

definition skip :: "string \<Rightarrow> string \<Rightarrow> edit_report \<Rightarrow> edit_report" where
  "skip name reason rep = rep\<lparr>skipped := skipped rep @ [(name, reason)]\<rparr>"

definition sort_edited :: "edit_report \<Rightarrow> edit_report" where
  "sort_edited rep = rep\<lparr>edited_layers := sort (edited_layers rep)\<rparr>"

section \<open>Orthogonalization\<close>

text \<open>\<open>r @ w\<close>, and \<open>w - alpha * outer(r, r @ w) / (r @ r)\<close>.\<close>

definition row_times :: "real list \<Rightarrow> matrix \<Rightarrow> real list" where
  "row_times r w = map (\<lambda>j. sum_list (map2 (\<lambda>x row. x * row ! j) r w)) [0..<n_cols w]"

definition orthogonalize :: "real list \<Rightarrow> real \<Rightarrow> matrix \<Rightarrow> matrix" where
  "orthogonalize r alpha w =
     (let rw = row_times r w in
      map2 (\<lambda>x row. map2 (\<lambda>v y. v - alpha * (x * y) / dot r r) row rw) r w)"

definition round_to :: "(real \<Rightarrow> real) \<Rightarrow> matrix \<Rightarrow> matrix" where
  "round_to store w = map (map store) w"

definition apply_to_o_proj ::
  "(real \<Rightarrow> real) \<Rightarrow> real list \<Rightarrow> real \<Rightarrow> nat \<Rightarrow> weights \<Rightarrow> weights \<times> string option" where
  "apply_to_o_proj store r alpha m ws =
     (case ws m of
        None \<Rightarrow> (ws, Some ''no 2-D .weight'')
      | Some w \<Rightarrow>
          (if length w \<noteq> length r then (ws, Some ''out_features != direction dim'')
           else (ws(m \<mapsto> round_to store (orthogonalize r alpha w)), None)))"

fun ablit_loop ::
  "(real \<Rightarrow> real) \<Rightarrow> real list \<Rightarrow> int list \<Rightarrow> real \<Rightarrow> bool \<Rightarrow> nat list \<Rightarrow> (string \<times> int \<times> nat) list
     \<Rightarrow> weights \<Rightarrow> edit_report \<Rightarrow> weights \<times> edit_report" where
  "ablit_loop store r want alpha include_mtp seen [] ws rep = (ws, rep)"
| "ablit_loop store r want alpha include_mtp seen ((name, idx, m) # cs) ws rep =
     (if m \<in> set seen then ablit_loop store r want alpha include_mtp seen cs ws rep
      else (let go = ablit_loop store r want alpha include_mtp (m # seen) cs;
                is_mtp = (mtp_o_proj name \<noteq> None) in
       if is_mtp \<and> \<not> include_mtp then go ws (skip name ''include_mtp=0'' rep)
       else if is_mtp \<and> idx \<notin> set want then go ws (skip name ''layer not in ABLIT_LAYERS'' rep)
       else if idx \<notin> set want then go ws rep
       else (case apply_to_o_proj store r alpha m ws of
               (ws', None) \<Rightarrow>
                 go ws' (if is_mtp then rep\<lparr>mtp_edited := True\<rparr>
                         else rep\<lparr>edited_layers := edited_layers rep @ [idx]\<rparr>)
             | (ws', Some reason) \<Rightarrow> go ws' (skip name reason rep))))"

definition apply_ablit ::
  "(real \<Rightarrow> real) \<Rightarrow> hooked \<Rightarrow> real list \<Rightarrow> int list \<Rightarrow> real \<Rightarrow> bool \<Rightarrow> weights \<Rightarrow> weights \<times> edit_report" where
  "apply_ablit store model r layers alpha include_mtp ws =
     (case ablit_loop store r layers alpha include_mtp [] (walk_o_proj (unwrap_text_model model))
             ws empty_report of
        (ws', rep) \<Rightarrow> (ws', sort_edited rep))"

section \<open>Transplant\<close>

text \<open>The sums of \<open>_delta_stats\<close> over blocks of rows.\<close>

definition sum_entries :: "(real \<Rightarrow> real) \<Rightarrow> matrix \<Rightarrow> real" where
  "sum_entries f w = sum_list (map f (concat w))"

definition diff_rows :: "matrix \<Rightarrow> matrix \<Rightarrow> matrix" where
  "diff_rows d w = map2 (map2 (-)) d w"

function delta_sums ::
  "nat \<Rightarrow> matrix \<Rightarrow> matrix \<Rightarrow> real \<times> real \<times> real \<times> real \<Rightarrow> real \<times> real \<times> real \<times> real" where
  "delta_sums rows w s (sq_d, sq_w, abs_d, abs_w) =
     (if w = [] \<or> rows = 0 then (sq_d, sq_w, abs_d, abs_w)
      else (let wb = take rows w; d = diff_rows (take rows s) wb in
            delta_sums rows (drop rows w) (drop rows s)
              (sq_d + sum_entries (\<lambda>x. x * x) d, sq_w + sum_entries (\<lambda>x. x * x) wb,
               abs_d + sum_entries abs d, abs_w + sum_entries abs wb)))"
  by pat_completeness auto

termination
  by (relation "measure (\<lambda>(rows, w, _). length w)") auto

definition delta_stats :: "matrix \<Rightarrow> matrix \<Rightarrow> real \<times> real" where
  "delta_stats w s =
     (case delta_sums 256 w s (0, 0, 0, 0) of (sq_d, sq_w, abs_d, abs_w) \<Rightarrow>
        (sqrt sq_d / max (sqrt sq_w) (1 / 10 ^ 9), abs_d / max abs_w (1 / 10 ^ 9)))"

text \<open>The shard of a donor: the columns of this rank.\<close>

definition shard_cols :: "nat \<Rightarrow> nat \<Rightarrow> matrix \<Rightarrow> matrix" where
  "shard_cols rank local_in donor = map (\<lambda>row. take local_in (drop (rank * local_in) row)) donor"

type_synonym donors = "(int \<times> (ablit_error + matrix)) list"

text \<open>One module that is to be edited, up to the write.\<close>

definition transplant_one ::
  "nat \<Rightarrow> nat \<Rightarrow> donors \<Rightarrow> int \<Rightarrow> nat \<Rightarrow> weights \<Rightarrow> ablit_error + matrix \<times> matrix" where
  "transplant_one world rank donors idx m ws =
     (case map_of donors idx of
        None \<Rightarrow> Inl (Ablit ''no donor tensor'')
      | Some read \<Rightarrow> res_bind read (\<lambda>donor.
          (case ws m of
             None \<Rightarrow> Inl (Ablit ''no 2-D .weight'')
           | Some w \<Rightarrow>
               (if length donor \<noteq> length w \<or> n_cols donor \<noteq> n_cols w * world
                then Inl (Ablit ''shape does not match donor'')
                else Inr (w, if world = 1 then donor else shard_cols rank (n_cols w) donor)))))"

fun transplant_loop ::
  "(real \<Rightarrow> real) \<Rightarrow> nat \<Rightarrow> nat \<Rightarrow> donors \<Rightarrow> int list \<Rightarrow> bool \<Rightarrow> nat list \<Rightarrow> (string \<times> int \<times> nat) list
     \<Rightarrow> weights \<Rightarrow> edit_report \<Rightarrow> weights \<times> (ablit_error + edit_report)" where
  "transplant_loop store world rank donors want include_mtp seen [] ws rep = (ws, Inr rep)"
| "transplant_loop store world rank donors want include_mtp seen ((name, idx, m) # cs) ws rep =
     (if m \<in> set seen then transplant_loop store world rank donors want include_mtp seen cs ws rep
      else (let go = transplant_loop store world rank donors want include_mtp (m # seen) cs;
                is_mtp = (mtp_o_proj name \<noteq> None) in
       if is_mtp \<and> \<not> include_mtp then go ws (skip name ''include_mtp=0'' rep)
       else if idx \<notin> set want then go ws rep
       else (case transplant_one world rank donors idx m ws of
               Inl e \<Rightarrow> (ws, Inl e)
             | Inr (w, shard) \<Rightarrow>
                 go (ws(m \<mapsto> round_to store shard))
                    (rep\<lparr>edited_layers := edited_layers rep @ [idx],
                         deltas := dict_set (deltas rep) idx (delta_stats w shard),
                         mtp_edited := (mtp_edited rep \<or> is_mtp)\<rparr>))))"

definition apply_transplant ::
  "(real \<Rightarrow> real) \<Rightarrow> nat \<Rightarrow> nat \<Rightarrow> hooked \<Rightarrow> donors \<Rightarrow> int list \<Rightarrow> bool \<Rightarrow> weights
     \<Rightarrow> weights \<times> (ablit_error + edit_report)" where
  "apply_transplant store world rank model donors layers include_mtp ws =
     (case transplant_loop store world rank donors layers include_mtp []
             (walk_o_proj (unwrap_text_model model)) ws empty_report of
        (ws', res) \<Rightarrow> (ws', res_bind res (\<lambda>rep. Inr (sort_edited rep))))"

end
