(* ===== verification/Ablit_Edit.thy ===== *)
theory Ablit_Edit
  imports Ablit_Apply
begin

text \<open>
  What the two edits of \<open>Ablit_Apply\<close> do to the weights: the modules that are selected, the
  algebra of the orthogonalization, the shards of the transplant, and the sums over blocks.
\<close>

section \<open>Row blocks\<close>

lemma sum_entries_append: "sum_entries f (a @ b) = sum_entries f a + sum_entries f b"
  by (simp add: sum_entries_def)

lemma sum_entries_split: "sum_entries f (take n w) + sum_entries f (drop n w) = sum_entries f w"
  by (metis append_take_drop_id sum_entries_append)

lemma diff_rows_split:
  "sum_entries f (diff_rows (take n s) (take n w)) + sum_entries f (diff_rows (drop n s) (drop n w))
     = sum_entries f (diff_rows s w)"
proof -
  have "diff_rows s w = diff_rows (take n s) (take n w) @ diff_rows (drop n s) (drop n w)"
    by (simp add: diff_rows_def flip: take_zip drop_zip map_append)
  then show ?thesis by (simp add: sum_entries_append)
qed

text \<open>The block size does not matter.\<close>

lemma delta_sums_whole:
  "0 < rows \<Longrightarrow> delta_sums rows w s (a, b, c, d) =
     (a + sum_entries (\<lambda>x. x * x) (diff_rows s w), b + sum_entries (\<lambda>x. x * x) w,
      c + sum_entries abs (diff_rows s w), d + sum_entries abs w)"
proof (induction rows w s "(a, b, c, d)" arbitrary: a b c d rule: delta_sums.induct)
  case (1 rows w s)
  show ?case
  proof (cases "w = []")
    case True
    then show ?thesis by (simp add: diff_rows_def sum_entries_def)
  next
    case False
    note IH = 1(1) [OF _ refl refl 1(2)]
    show ?thesis
      using False 1(2) IH diff_rows_split [of _ rows s w] sum_entries_split [of _ rows w]
      by (subst delta_sums.simps) (simp add: Let_def algebra_simps)
  qed
qed

declare delta_sums.simps [simp del]

section \<open>The modules that are edited\<close>

definition selected :: "bool \<Rightarrow> int list \<Rightarrow> (string \<times> int \<times> nat) list \<Rightarrow> (string \<times> int \<times> nat) list" where
  "selected include_mtp want cs =
     [(name, idx, m) \<leftarrow> cs. (mtp_o_proj name = None \<or> include_mtp) \<and> idx \<in> set want]"

abbreviation ids :: "(string \<times> int \<times> nat) list \<Rightarrow> nat list" where
  "ids cs \<equiv> map (\<lambda>(name, idx, m). m) cs"

abbreviation indices :: "(string \<times> int \<times> nat) list \<Rightarrow> int list" where
  "indices cs \<equiv> map (\<lambda>(name, idx, m). idx) cs"

lemma walk_from_ids:
  "distinct (ids (walk_from seen ms)) \<and> set (ids (walk_from seen ms)) \<inter> set seen = {}"
proof (induction seen ms rule: walk_from.induct)
  case (2 seen name m rest)
  then show ?case by (auto split: option.splits)
qed simp

lemma walk_distinct [simp]: "distinct (ids (walk_o_proj ms))"
  using walk_from_ids [of "[]" ms] by (simp add: walk_o_proj_def)

lemma walk_from_matched:
  "(name, idx, m) \<in> set (walk_from seen ms) \<Longrightarrow>
     (name, m) \<in> set ms \<and> (layer_o_proj name = Some (nat idx) \<or> mtp_o_proj name = Some (nat idx)) \<and> 0 \<le> idx"
  by (induction seen ms rule: walk_from.induct) (auto split: if_splits option.splits)

lemma walk_matched:
  "(name, idx, m) \<in> set (walk_o_proj ms) \<Longrightarrow>
     (name, m) \<in> set ms \<and> (layer_o_proj name = Some (nat idx) \<or> mtp_o_proj name = Some (nat idx)) \<and> 0 \<le> idx"
  unfolding walk_o_proj_def by (rule walk_from_matched)

lemma selected_Nil [simp]: "selected inc want [] = []"
  by (simp add: selected_def)

lemma selected_Cons:
  "selected inc want ((name, idx, m) # cs) =
     (if (mtp_o_proj name = None \<or> inc) \<and> idx \<in> set want then (name, idx, m) # selected inc want cs
      else selected inc want cs)"
  by (simp add: selected_def)

lemma selected_sub: "c \<in> set (selected inc want cs) \<Longrightarrow> c \<in> set cs"
  by (auto simp: selected_def)

lemma selected_ids_sub: "m \<in> set (ids (selected inc want cs)) \<Longrightarrow> m \<in> set (ids cs)"
  by (force simp: selected_def)

section \<open>The transplant loop\<close>

text \<open>The contents that a successful transplant leaves in a selected module.\<close>

definition transplanted ::
  "(real \<Rightarrow> real) \<Rightarrow> nat \<Rightarrow> nat \<Rightarrow> donors \<Rightarrow> int \<Rightarrow> matrix option \<Rightarrow> matrix option \<Rightarrow> bool" where
  "transplanted store world rank donors idx old new \<longleftrightarrow>
     (\<exists>donor w. map_of donors idx = Some (Inr donor) \<and> old = Some w
        \<and> length donor = length w \<and> n_cols donor = n_cols w * world
        \<and> new = Some (round_to store (if world = 1 then donor else shard_cols rank (n_cols w) donor)))"

lemma transplant_one_Inr:
  assumes "transplant_one world rank donors idx m ws = Inr (w, s)"
  shows "transplanted store world rank donors idx (ws m) (Some (round_to store s))"
proof -
  obtain rd where rd: "map_of donors idx = Some rd"
    using assms by (auto simp: transplant_one_def split: option.splits)
  then obtain donor where d: "rd = Inr donor" using assms by (cases rd) (auto simp: transplant_one_def)
  obtain w0 where "ws m = Some w0" using assms rd d by (auto simp: transplant_one_def split: option.splits)
  then show ?thesis
    using assms rd d by (auto simp: transplant_one_def transplanted_def split: if_splits)
qed

lemma transplant_frame:
  "transplant_loop store world rank donors want inc seen cs ws rep = (ws', res) \<Longrightarrow>
     m \<notin> set (ids (selected inc want cs)) \<Longrightarrow> ws' m = ws m"
proof (induction cs arbitrary: seen ws rep)
  case (Cons c cs)
  obtain name idx k where c: "c = (name, idx, k)" by (cases c) auto
  show ?case
  proof (cases "k \<in> set seen \<or> \<not> ((mtp_o_proj name = None \<or> inc) \<and> idx \<in> set want)")
    case True
    have "m \<notin> set (ids (selected inc want cs))"
      using Cons.prems(2) by (auto simp: c selected_Cons split: if_splits)
    with True Cons.prems(1) Cons.IH [of _ ws] show ?thesis
      by (auto simp: c Let_def split: if_splits)
  next
    case False
    then have m: "m \<noteq> k" "m \<notin> set (ids (selected inc want cs))"
      using Cons.prems(2) by (auto simp: c selected_Cons)
    show ?thesis
    proof (cases "transplant_one world rank donors idx k ws")
      case (Inl e)
      then show ?thesis using False Cons.prems(1) by (auto simp: c Let_def split: if_splits)
    next
      case (Inr r)
      then show ?thesis
        using False Cons.prems(1) Cons.IH [OF _ m(2)] m(1)
        by (cases r) (fastforce simp: c Let_def split: if_splits)
    qed
  qed
qed simp

text \<open>One step of the loop, when nothing has been seen twice.\<close>

lemma transplant_step:
  assumes "transplant_loop store world rank donors want inc seen ((name, idx, k) # cs) ws rep = (ws', Inr rep')"
    and "k \<notin> set seen" and "(mtp_o_proj name = None \<or> inc) \<and> idx \<in> set want"
  obtains w s where "transplant_one world rank donors idx k ws = Inr (w, s)"
    and "transplant_loop store world rank donors want inc (k # seen) cs (ws(k \<mapsto> round_to store s))
       (rep\<lparr>edited_layers := edited_layers rep @ [idx],
            deltas := dict_set (deltas rep) idx (delta_stats w s),
            mtp_edited := (mtp_edited rep \<or> mtp_o_proj name \<noteq> None)\<rparr>) = (ws', Inr rep')"
proof -
  obtain w s where one: "transplant_one world rank donors idx k ws = Inr (w, s)"
    using assms by (cases "transplant_one world rank donors idx k ws") (auto simp: Let_def split: if_splits)
  show ?thesis
    by (rule that [OF one]) (use assms one in \<open>auto simp: Let_def split: if_splits\<close>)
qed

lemma transplant_written:
  "transplant_loop store world rank donors want inc seen cs ws rep = (ws', Inr rep') \<Longrightarrow>
     distinct (ids cs) \<Longrightarrow> set (ids cs) \<inter> set seen = {} \<Longrightarrow>
     (name, idx, m) \<in> set (selected inc want cs) \<Longrightarrow>
     transplanted store world rank donors idx (ws m) (ws' m)"
proof (induction cs arbitrary: seen ws rep)
  case (Cons c cs)
  obtain name' idx' k where c: "c = (name', idx', k)" by (cases c) auto
  have k: "k \<notin> set seen" "distinct (ids cs)" "set (ids cs) \<inter> set (k # seen) = {}"
    using Cons.prems(2,3) by (auto simp: c)
  show ?case
  proof (cases "(mtp_o_proj name' = None \<or> inc) \<and> idx' \<in> set want")
    case False
    have "(name, idx, m) \<in> set (selected inc want cs)"
      using Cons.prems(4) False by (auto simp: c selected_Cons split: if_splits)
    then show ?thesis
      using Cons.prems(1) k False Cons.IH [OF _ k(2,3)] by (auto simp: c Let_def split: if_splits)
  next
    case True
    obtain w s rep1 where one: "transplant_one world rank donors idx' k ws = Inr (w, s)"
      and go: "transplant_loop store world rank donors want inc (k # seen) cs (ws(k \<mapsto> round_to store s)) rep1 = (ws', Inr rep')"
      using transplant_step [OF Cons.prems(1) [unfolded c] k(1) True] by blast
    show ?thesis
    proof (cases "(name, idx, m) = (name', idx', k)")
      case here: True
      have "k \<notin> set (ids (selected inc want cs))" using Cons.prems(2) selected_ids_sub by (fastforce simp: c)
      from transplant_frame [OF go this] transplant_one_Inr [OF one, of store] here show ?thesis by simp
    next
      case False
      then have mem: "(name, idx, m) \<in> set (selected inc want cs)"
        using Cons.prems(4) True by (auto simp: c selected_Cons)
      then have "m \<noteq> k" using Cons.prems(2) selected_sub by (force simp: c)
      with Cons.IH [OF go k(2,3) mem] show ?thesis by simp
    qed
  qed
qed simp

text \<open>What the report of a successful run says.\<close>

lemma transplant_report:
  "transplant_loop store world rank donors want inc seen cs ws rep = (ws', Inr rep') \<Longrightarrow>
     distinct (ids cs) \<Longrightarrow> set (ids cs) \<inter> set seen = {} \<Longrightarrow>
     edited_layers rep' = edited_layers rep @ indices (selected inc want cs)
     \<and> mtp_edited rep' = (mtp_edited rep \<or> (\<exists>(name, idx, m)\<in>set (selected inc want cs). mtp_o_proj name \<noteq> None))"
proof (induction cs arbitrary: seen ws rep)
  case (Cons c cs)
  obtain name idx k where c: "c = (name, idx, k)" by (cases c) auto
  have k: "k \<notin> set seen" "distinct (ids cs)" "set (ids cs) \<inter> set (k # seen) = {}"
    using Cons.prems(2,3) by (auto simp: c)
  show ?case
  proof (cases "(mtp_o_proj name = None \<or> inc) \<and> idx \<in> set want")
    case False
    then show ?thesis
      using Cons.prems(1) k Cons.IH [OF _ k(2,3)]
      by (auto simp: c Let_def selected_Cons skip_def split: if_splits)
  next
    case True
    obtain w s where
      go: "transplant_loop store world rank donors want inc (k # seen) cs (ws(k \<mapsto> round_to store s))
       (rep\<lparr>edited_layers := edited_layers rep @ [idx],
            deltas := dict_set (deltas rep) idx (delta_stats w s),
            mtp_edited := (mtp_edited rep \<or> mtp_o_proj name \<noteq> None)\<rparr>) = (ws', Inr rep')"
      using transplant_step [OF Cons.prems(1) [unfolded c] k(1) True] by blast
    from Cons.IH [OF go k(2,3)] True show ?thesis by (auto simp: c selected_Cons)
  qed
qed simp

section \<open>Columns over the ranks\<close>

definition has_cols :: "nat \<Rightarrow> matrix \<Rightarrow> bool" where
  "has_cols n w \<longleftrightarrow> list_all (\<lambda>row. length row = n) w"

lemma has_cols_nth: "has_cols n w \<Longrightarrow> i < length w \<Longrightarrow> length (w ! i) = n"
  by (simp add: has_cols_def list_all_length)

lemma n_cols_eq: "has_cols n w \<Longrightarrow> w \<noteq> [] \<Longrightarrow> n_cols w = n"
  by (cases w) (auto simp: has_cols_def n_cols_def)

lemma concat_columns: "concat (map (\<lambda>k. take l (drop (k * l) row)) [0..<n]) = take (n * l) row"
proof (induction n)
  case (Suc n)
  have "take (Suc n * l) row = take (n * l + l) row" by (simp add: add.commute)
  with Suc show ?case by (simp add: take_add)
qed simp

lemma length_shard_cols [simp]: "length (shard_cols k l w) = length w"
  by (simp add: shard_cols_def)

lemma shard_cols_nth: "i < length w \<Longrightarrow> shard_cols k l w ! i = take l (drop (k * l) (w ! i))"
  by (simp add: shard_cols_def)

lemma shard_has_cols: "has_cols n w \<Longrightarrow> k * l + l \<le> n \<Longrightarrow> has_cols l (shard_cols k l w)"
  by (auto simp: has_cols_def shard_cols_def list_all_iff)

lemma round_to_nth: "i < length w \<Longrightarrow> round_to store w ! i = map store (w ! i)"
  by (simp add: round_to_def)

section \<open>The algebra of the orthogonalization\<close>

lemma dot_sum: "length a = length b \<Longrightarrow> dot a b = (\<Sum>i<length a. a ! i * b ! i)"
  by (simp add: dot_def sum_list_sum_nth atLeast0LessThan)

lemma length_row_times [simp]: "length (row_times r w) = n_cols w"
  by (simp add: row_times_def)

lemma row_times_nth:
  "length r = length w \<Longrightarrow> j < n_cols w \<Longrightarrow> row_times r w ! j = (\<Sum>i<length w. r ! i * w ! i ! j)"
  by (simp add: row_times_def sum_list_sum_nth atLeast0LessThan)

lemma length_orthogonalize [simp]: "length r = length w \<Longrightarrow> length (orthogonalize r alpha w) = length w"
  by (simp add: orthogonalize_def Let_def)

lemma orthogonalize_nth:
  "length r = length w \<Longrightarrow> i < length w \<Longrightarrow>
     orthogonalize r alpha w ! i = map2 (\<lambda>v y. v - alpha * (r ! i * y) / dot r r) (w ! i) (row_times r w)"
  by (simp add: orthogonalize_def Let_def)

lemma orthogonalize_has_cols:
  "has_cols n w \<Longrightarrow> w \<noteq> [] \<Longrightarrow> length r = length w \<Longrightarrow> has_cols n (orthogonalize r alpha w)"
  using n_cols_eq [of n w] by (simp add: has_cols_def list_all_length orthogonalize_nth)

lemma orthogonalize_entry:
  "has_cols n w \<Longrightarrow> length r = length w \<Longrightarrow> i < length w \<Longrightarrow> j < n \<Longrightarrow>
     orthogonalize r alpha w ! i ! j = w ! i ! j - alpha * (r ! i * row_times r w ! j) / dot r r"
  using n_cols_eq [of n w] has_cols_nth [of n w i] by (cases w) (auto simp: orthogonalize_nth)

text \<open>Every component along a vector \<open>v\<close> moves by its overlap with the direction.\<close>

lemma row_times_orthogonalize:
  assumes "has_cols n w" "length r = length w" "length v = length w" "j < n" "w \<noteq> []"
  shows "row_times v (orthogonalize r alpha w) ! j =
     row_times v w ! j - alpha * dot v r / dot r r * row_times r w ! j"
proof -
  have c: "n_cols w = n" "n_cols (orthogonalize r alpha w) = n"
    using assms n_cols_eq orthogonalize_has_cols
    by (metis length_0_conv length_orthogonalize)+
  have "row_times v (orthogonalize r alpha w) ! j =
      (\<Sum>i<length w. v ! i * (w ! i ! j - alpha * (r ! i * row_times r w ! j) / dot r r))"
    using assms c by (simp add: row_times_nth orthogonalize_entry)
  also have "\<dots> = (\<Sum>i<length w. v ! i * w ! i ! j)
      - alpha / dot r r * row_times r w ! j * (\<Sum>i<length w. v ! i * r ! i)"
    by (simp add: sum_distrib_left algebra_simps flip: sum_subtractf)
  finally show ?thesis using assms c by (simp add: row_times_nth dot_sum algebra_simps)
qed

lemma row_times_shard:
  assumes "has_cols n w" "length r = length w" "k * l + l \<le> n" "w \<noteq> []"
  shows "row_times r (shard_cols k l w) = take l (drop (k * l) (row_times r w))"
proof (rule nth_equalityI)
  have c: "n_cols (shard_cols k l w) = l" "n_cols w = n"
    using assms n_cols_eq shard_has_cols [OF assms(1,3)]
    by (metis length_0_conv length_shard_cols)+
  then show "length (row_times r (shard_cols k l w)) = length (take l (drop (k * l) (row_times r w)))"
    using assms(3) by simp
  fix j assume "j < length (row_times r (shard_cols k l w))"
  then have "j < l" using c by simp
  then show "row_times r (shard_cols k l w) ! j = take l (drop (k * l) (row_times r w)) ! j"
    using assms c by (simp add: row_times_nth shard_cols_nth has_cols_nth)
qed

lemma shard_orthogonalize:
  assumes "has_cols n w" "length r = length w" "k * l + l \<le> n" "w \<noteq> []"
  shows "shard_cols k l (orthogonalize r alpha w) = orthogonalize r alpha (shard_cols k l w)"
proof (rule nth_equalityI)
  fix i assume "i < length (shard_cols k l (orthogonalize r alpha w))"
  then have i: "i < length w" using assms by simp
  have "take l (drop (k * l) (orthogonalize r alpha w ! i)) =
      map2 (\<lambda>v y. v - alpha * (r ! i * y) / dot r r) (take l (drop (k * l) (w ! i)))
        (take l (drop (k * l) (row_times r w)))"
    using assms i by (simp add: orthogonalize_nth take_map drop_map take_zip drop_zip)
  then show "shard_cols k l (orthogonalize r alpha w) ! i = orthogonalize r alpha (shard_cols k l w) ! i"
    using assms i by (simp add: shard_cols_nth orthogonalize_nth row_times_shard)
qed (use assms in simp)

section \<open>The two edits\<close>

text \<open>without rounding, the projection scales the component of the weight along the direction by
  \<open>1 - alpha\<close>, keeps every component orthogonal to it exactly, touches no other module, and
  commutes with the sharding of the columns, so that the ranks need no communication.\<close>

theorem projection_scales_direction:
  assumes "ws m = Some w" and "has_cols n w" and "length r = length w" and "0 < dot r r"
    and "k * l + l \<le> n"
  shows "\<exists>w'. apply_to_o_proj id r alpha m ws = (ws(m \<mapsto> w'), None)
    \<and> row_times r w' = map ((*) (1 - alpha)) (row_times r w)
    \<and> (\<forall>v. length v = length w \<longrightarrow> dot v r = 0 \<longrightarrow> row_times v w' = row_times v w)
    \<and> shard_cols k l w' = orthogonalize r alpha (shard_cols k l w)"
proof (intro exI conjI allI impI)
  let ?w' = "orthogonalize r alpha w"
  have ne: "w \<noteq> []" using assms(3,4) by (auto simp: dot_def)
  have c: "n_cols w = n" "n_cols ?w' = n"
    using ne assms n_cols_eq orthogonalize_has_cols by (metis length_0_conv length_orthogonalize)+
  show "apply_to_o_proj id r alpha m ws = (ws(m \<mapsto> ?w'), None)"
    using assms(1,3) by (simp add: apply_to_o_proj_def round_to_def)
  note move = row_times_orthogonalize [OF assms(2,3) _ _ ne]
  show "row_times r ?w' = map ((*) (1 - alpha)) (row_times r w)"
    using assms(3,4) c by (intro nth_equalityI) (auto simp: move algebra_simps)
  show "row_times v ?w' = row_times v w" if "length v = length w" "dot v r = 0" for v
    using that c by (intro nth_equalityI) (auto simp: move)
  show "shard_cols k l ?w' = orthogonalize r alpha (shard_cols k l w)"
    by (rule shard_orthogonalize [OF assms(2,3,5) ne])
qed

lemma projection_scales_direction_witness:
  "\<exists>w'. apply_to_o_proj id [1, 2] 3 7 [7 \<mapsto> [[1, 0], [1, 5]]] = ([7 \<mapsto> w'], None)
    \<and> row_times [1, 2] w' = [- 6, - 20] \<and> row_times [2, - 1] w' = [1, - 5]"
proof -
  have m: "map_of [(7::nat, [[1, 0], [1, 5::real]])] 7 = Some [[1, 0], [1, 5]]" by simp
  have r: "row_times [1, 2] [[1, 0], [1, 5]] = [3, 10]" "row_times [2, - 1] [[1, 0], [1, 5]] = [1, - 5]"
    by (simp_all add: row_times_def n_cols_def upt_rec)
  obtain w' where "apply_to_o_proj id [1, 2] 3 7 [7 \<mapsto> [[1, 0], [1, 5]]] = ([7 \<mapsto> w'], None)"
    "row_times [1, 2] w' = map ((*) (1 - 3)) [3, 10]"
    "\<forall>v. length v = 2 \<longrightarrow> dot v [1, 2] = 0 \<longrightarrow> row_times v w' = row_times v [[1, 0], [1, 5]]"
    using projection_scales_direction [of "[7 \<mapsto> [[1, 0], [1, 5]]]" 7 "[[1, 0], [1, 5]]" 2 "[1, 2]" 0 1 3] r
    by (auto simp: has_cols_def dot_def)
  moreover from this(3) have "row_times [2, - 1] w' = [1, - 5]" using r by (simp add: dot_def)
  ultimately show ?thesis by auto
qed

text \<open>C6: when the transplant succeeds on every rank of a parallel group, then each selected module
  holds, over the ranks in their order, exactly the columns of the donor of its layer in the
  precision of the weight; every module that is not selected keeps its weight, and the report
  lists the layers of the selected modules.\<close>

theorem ranks_hold_donor:
  assumes "\<And>k. k < world \<Longrightarrow>
      apply_transplant store world k model donors layers include_mtp (ws k) = (ws' k, Inr (rep k))"
    and "\<And>k. k < world \<Longrightarrow> ws k m = Some (w k)" and "\<And>k. k < world \<Longrightarrow> n_cols (w k) = local_in"
    and "map_of donors idx = Some (Inr donor)" and "has_cols (n_cols donor) donor"
    and "sel = selected include_mtp layers (walk_o_proj (unwrap_text_model model))"
    and "(name, idx, m) \<in> set sel" and "0 < world" and "i < length donor"
  shows "concat (map (\<lambda>k. the (ws' k m) ! i) [0..<world]) = map store (donor ! i)
    \<and> (\<forall>k<world. edited_layers (rep k) = sort (indices sel)
         \<and> (\<forall>m'. m' \<notin> set (ids sel) \<longrightarrow> ws' k m' = ws k m'))"
proof -
  have run: "\<exists>rep'. transplant_loop store world k donors layers include_mtp []
      (walk_o_proj (unwrap_text_model model)) (ws k) empty_report = (ws' k, Inr rep')
      \<and> rep k = sort_edited rep'" if "k < world" for k
    using assms(1) [OF that] by (auto simp: apply_transplant_def split: prod.splits)
  have cols: "\<exists>s. ws' k m = Some (round_to store s) \<and> n_cols donor = local_in * world
      \<and> s ! i = take local_in (drop (k * local_in) (donor ! i)) \<and> i < length s" if "k < world" for k
  proof -
    have "transplanted store world k donors idx (ws k m) (ws' k m)"
      using run [OF that] transplant_written assms(6,7) by fastforce
    then have "n_cols donor = local_in * world" "ws' k m = Some (round_to store
        (if world = 1 then donor else shard_cols k local_in donor))"
      using assms(2,3) [OF that] assms(4) by (auto simp: transplanted_def)
    moreover have "length (donor ! i) = n_cols donor" using assms(5,9) by (rule has_cols_nth)
    ultimately show ?thesis using that assms(9) by (auto simp: shard_cols_nth)
  qed
  have "the (ws' k m) ! i = take local_in (drop (k * local_in) (map store (donor ! i)))" if "k < world" for k
    using cols [OF that] by (auto simp: round_to_nth take_map drop_map)
  then have "concat (map (\<lambda>k. the (ws' k m) ! i) [0..<world]) =
      concat (map (\<lambda>k. take local_in (drop (k * local_in) (map store (donor ! i)))) [0..<world])"
    by (intro arg_cong [of _ _ concat] map_cong) auto
  also have "\<dots> = map store (donor ! i)"
    using cols [of 0] assms(8) has_cols_nth [OF assms(5,9)] by (auto simp: concat_columns mult.commute)
  finally show ?thesis
    using run transplant_report transplant_frame assms(6)
    by (fastforce simp: sort_edited_def empty_report_def)
qed

text \<open>A model of one layer on two ranks.\<close>

definition demo_hooked :: hooked where
  "demo_hooked = \<lparr>own_modules = [(''model'', 0), (''model.layers.15.self_attn.o_proj'', 3)],
     language_model = None\<rparr>"

definition demo_donors :: donors where
  "demo_donors = [(15, Inr [[1, 2], [3, 4]])]"

definition demo_weights :: "nat \<Rightarrow> weights" where
  "demo_weights k = [3 \<mapsto> [[0], [real k]]]"

lemma demo_walk: "walk_o_proj (unwrap_text_model demo_hooked) = [(''model.layers.15.self_attn.o_proj'', 15, 3)]"
  by code_simp

lemma demo_transplant:
  "k < 2 \<Longrightarrow> \<exists>rep. apply_transplant id 2 k demo_hooked demo_donors [15] True (demo_weights k) =
     ([3 \<mapsto> shard_cols k 1 [[1, 2], [3, 4]]], Inr rep)"
proof -
  have "mtp_o_proj ''model.layers.15.self_attn.o_proj'' = None" by code_simp
  then show ?thesis
    by (simp add: apply_transplant_def demo_walk transplant_one_def demo_donors_def demo_weights_def
        n_cols_def round_to_def Let_def)
qed

lemma ranks_hold_donor_witness:
  "\<exists>ws' rep. (\<forall>k<2. apply_transplant id 2 k demo_hooked demo_donors [15] True (demo_weights k) = (ws' k, Inr (rep k)))
     \<and> the (ws' 0 3) ! 1 @ the (ws' 1 3) ! 1 = [3, 4] \<and> edited_layers (rep 0) = [15]"
proof -
  obtain rep where run: "\<And>k. k < 2 \<Longrightarrow> apply_transplant id 2 k demo_hooked demo_donors [15] True (demo_weights k) =
      ([3 \<mapsto> shard_cols k 1 [[1, 2], [3, 4]]], Inr (rep k))"
    using demo_transplant by metis
  have sel: "selected True [15] (walk_o_proj (unwrap_text_model demo_hooked)) =
      [(''model.layers.15.self_attn.o_proj'', 15, 3)]"
    by (simp add: demo_walk selected_def)
  define ws' :: "nat \<Rightarrow> weights" where "ws' k = [3 \<mapsto> shard_cols k 1 [[1, 2], [3, 4]]]" for k
  have runs: "apply_transplant id 2 k demo_hooked demo_donors [15] True (demo_weights k) = (ws' k, Inr (rep k))"
    if "k < 2" for k
    using run [OF that] by (simp add: ws'_def)
  have at: "demo_weights k 3 = Some [[0], [real k]]" for k by (simp add: demo_weights_def)
  have "concat (map (\<lambda>k. the (ws' k 3) ! 1) [0..<2]) = map id ([[1, 2], [3, 4]] ! 1)
      \<and> (\<forall>k<2. edited_layers (rep k) = sort (indices [(''model.layers.15.self_attn.o_proj'', 15, 3)])
         \<and> (\<forall>m'. m' \<notin> set (ids [(''model.layers.15.self_attn.o_proj'', 15, 3)]) \<longrightarrow>
              ws' k m' = demo_weights k m'))"
    by (rule ranks_hold_donor [where store = id and w = "\<lambda>k. [[0], [real k]]" and local_in = 1 and idx = 15
          and donors = demo_donors and include_mtp = True and layers = "[15]" and model = demo_hooked
          and name = "''model.layers.15.self_attn.o_proj''"])
       (auto simp: runs sel at demo_donors_def [THEN arg_cong [of _ _ map_of]] n_cols_def has_cols_def)
  with run show ?thesis
    by (intro exI [of _ ws'] exI [of _ rep]) (auto simp: ws'_def upt_rec)
qed

end
