(* ===== verification/Ablit_Runtime.thy ===== *)
theory Ablit_Runtime
  imports Ablit_Edit
begin

text \<open>
  The load-time hook (\<open>overlay/ablit_runtime.py\<close>): the manifest of the transplant directory, the
  donor files and the entry point \<open>maybe_apply\<close>.

  Files are bytes under their paths; \<open>json.loads\<close>, SHA-256, the decoding of bf16 and the sizes of
  the pieces that the operating system returns are parameters.
\<close>

section \<open>Files and JSON\<close>

type_synonym bytes = string

type_synonym disk = "string \<Rightarrow> bytes option"

definition transplant_dir :: "string \<Rightarrow> string" where
  "transplant_dir ablit_dir = path_join ablit_dir transplant_subdir"

definition manifest_path :: "string \<Rightarrow> string" where
  "manifest_path tdir = path_join tdir ''MANIFEST.json''"

definition bin_path :: "string \<Rightarrow> int \<Rightarrow> string" where
  "bin_path tdir l = path_join tdir (CHR ''L'' # show_int l @ ''.bin'')"

text \<open>\<open>d[k]\<close>, \<open>d.get(k)\<close> and \<open>int(v)\<close> on JSON values; whatever Python raises for a value of the
  wrong type is \<open>TypeError\<close> here.\<close>

definition json_item :: "json \<Rightarrow> string \<Rightarrow> ablit_error + json" where
  "json_item v k = (case v of
       JObj d \<Rightarrow> opt_res (Py_Raise KeyError) (map_of d k)
     | _ \<Rightarrow> Inl (Py_Raise TypeError))"

definition json_get :: "json \<Rightarrow> string \<Rightarrow> ablit_error + json" where
  "json_get v k = (case v of JObj d \<Rightarrow> Inr (jget d k) | _ \<Rightarrow> Inl (Py_Raise TypeError))"

definition json_int :: "json \<Rightarrow> ablit_error + int" where
  "json_int v = (case v of
       JInt i \<Rightarrow> Inr i
     | JBool b \<Rightarrow> Inr (of_bool b)
     | JFloat x \<Rightarrow> Inr (if 0 \<le> x then \<lfloor>x\<rfloor> else \<lceil>x\<rceil>)
     | JStr s \<Rightarrow> opt_res (Py_Raise ValueError) (parse_int s)
     | JNonFinite \<Rightarrow> Inl (Py_Raise ValueError)
     | _ \<Rightarrow> Inl (Py_Raise TypeError))"

section \<open>The manifest\<close>

text \<open>\<open>{int(k): v for k, v in (manifest.get("layers") or manifest.get("tensors") or {}).items()}\<close>\<close>

fun int_keys :: "dict \<Rightarrow> (int \<times> json) list \<Rightarrow> ablit_error + (int \<times> json) list" where
  "int_keys [] d = Inr d"
| "int_keys ((k, v) # kvs) d =
     (case parse_int k of None \<Rightarrow> Inl (Py_Raise ValueError) | Some i \<Rightarrow> int_keys kvs (dict_set d i v))"

definition manifest_meta :: "json \<Rightarrow> ablit_error + (int \<times> json) list" where
  "manifest_meta manifest =
     res_bind (json_get manifest ''layers'') (\<lambda>a.
     res_bind (if json_truthy a then Inr a else json_get manifest ''tensors'') (\<lambda>b.
       (case (if json_truthy b then b else JObj []) of
          JObj kvs \<Rightarrow> int_keys kvs []
        | _ \<Rightarrow> Inl (Py_Raise TypeError))))"

text \<open>The checks on the entry of one layer.\<close>

definition check_entry :: "disk \<Rightarrow> string \<Rightarrow> int \<Rightarrow> json \<Rightarrow> ablit_error + json" where
  "check_entry fs tdir l info =
     (case fs (bin_path tdir l) of
        None \<Rightarrow> Inl (Ablit ''file is missing'')
      | Some data \<Rightarrow>
          res_bind (json_item info ''nbytes'') (\<lambda>nb. res_bind (json_int nb) (\<lambda>n.
            if int (length data) \<noteq> n then Inl (Ablit ''wrong size'')
            else res_bind (json_item info ''dtype'') (\<lambda>dt.
              if dt \<noteq> JStr ''BF16'' then Inl (Ablit ''unsupported dtype'')
              else res_bind (json_get info ''sha256'') (\<lambda>h.
                if \<not> json_truthy h then Inl (Ablit ''no sha256'') else Inr info)))))"

fun check_layers :: "disk \<Rightarrow> string \<Rightarrow> (int \<times> json) list \<Rightarrow> int list \<Rightarrow> ablit_error + (int \<times> json) list" where
  "check_layers fs tdir meta [] = Inr []"
| "check_layers fs tdir meta (l # ls) =
     (case map_of meta l of
        None \<Rightarrow> check_layers fs tdir meta ls
      | Some info \<Rightarrow>
          res_bind (check_entry fs tdir l info) (\<lambda>i.
          res_bind (check_layers fs tdir meta ls) (\<lambda>rest. Inr ((l, i) # rest))))"

definition transplant_meta ::
  "(bytes \<Rightarrow> json option) \<Rightarrow> disk \<Rightarrow> string \<Rightarrow> int list \<Rightarrow> ablit_error + (int \<times> json) list" where
  "transplant_meta json_loads fs ablit_dir layers =
     (let tdir = transplant_dir ablit_dir in
      (case fs (manifest_path tdir) of
         None \<Rightarrow> Inl (Ablit ''manifest is missing'')
       | Some text \<Rightarrow>
           res_bind (opt_res (Py_Raise ValueError) (json_loads text)) (\<lambda>manifest.
           res_bind (manifest_meta manifest) (\<lambda>meta.
           res_bind (check_layers fs tdir meta layers) (\<lambda>out.
             if out = [] then Inl (Ablit ''no transplant tensors'') else Inr out)))))"

section \<open>The donor files\<close>

text \<open>The loop of \<open>readinto\<close>: \<open>os got\<close> is what the operating system is ready to return at that
  offset; it returns no more than the buffer holds or the file has left, and an empty piece
  ends the loop.\<close>

function read_into :: "(nat \<Rightarrow> nat) \<Rightarrow> bytes \<Rightarrow> nat \<Rightarrow> bytes \<Rightarrow> bytes" where
  "read_into os data nbytes buf =
     (let got = length buf; piece = take (min (os got) (nbytes - got)) (drop got data) in
      if got < nbytes \<and> piece \<noteq> [] then read_into os data nbytes (buf @ piece) else buf)"
  by pat_completeness auto

termination
proof (relation "measure (\<lambda>(os, data, nbytes, buf). nbytes - length buf)")
  fix os :: "nat \<Rightarrow> nat" and data buf :: bytes and nbytes got piece
  assume "got = length buf" "piece = take (min (os got) (nbytes - got)) (drop got data)"
    "got < nbytes \<and> piece \<noteq> []"
  then show "((os, data, nbytes, buf @ piece), (os, data, nbytes, buf))
      \<in> measure (\<lambda>(os, data, nbytes, buf). nbytes - length buf)"
    by (auto simp: length_greater_0_conv simp del: length_greater_0_conv)
qed simp

declare read_into.simps [simp del]

text \<open>\<open>torch.frombuffer(buf, dtype=torch.bfloat16).reshape(shape)\<close>, for a shape of two numbers
  (a dimension of -1, which the fetcher never writes, is refused); the decoding of the elements is the parameter \<open>bf16\<close>.\<close>

fun rows_of :: "nat \<Rightarrow> nat \<Rightarrow> real list \<Rightarrow> matrix" where
  "rows_of 0 c xs = []"
| "rows_of (Suc r) c xs = take c xs # rows_of r c (drop c xs)"

definition reshape :: "json \<Rightarrow> real list \<Rightarrow> ablit_error + matrix" where
  "reshape shape xs = (case shape of
       JList [JInt r, JInt c] \<Rightarrow>
         (if 0 \<le> r \<and> 0 \<le> c \<and> r * c = int (length xs) then Inr (rows_of (nat r) (nat c) xs)
          else Inl (Py_Raise RuntimeError))
     | _ \<Rightarrow> Inl (Py_Raise TypeError))"

record readers =
  json_loads :: "bytes \<Rightarrow> json option"
  sha256 :: "bytes \<Rightarrow> string"
  bf16 :: "bytes \<Rightarrow> real list"
  os_read :: "nat \<Rightarrow> nat"

definition read_donor :: "readers \<Rightarrow> disk \<Rightarrow> string \<Rightarrow> int \<Rightarrow> json \<Rightarrow> ablit_error + matrix" where
  "read_donor rd fs tdir l info =
     res_bind (json_item info ''nbytes'') (\<lambda>nb. res_bind (json_int nb) (\<lambda>n.
       (case fs (bin_path tdir l) of
          None \<Rightarrow> Inl (Ablit ''file is missing'')
        | Some data \<Rightarrow>
            (if n < 0 then Inl (Py_Raise ValueError)
             else (let buf = read_into (os_read rd) data (nat n) [] in
               if length buf \<noteq> nat n then Inl (Ablit ''short read'')
               else res_bind (json_item info ''sha256'') (\<lambda>h.
                 if h \<noteq> JStr (sha256 rd buf) then Inl (Ablit ''sha256 mismatch'')
                 else res_bind (json_item info ''shape'') (\<lambda>shape. reshape shape (bf16 rd buf))))))))"

text \<open>\<open>_StreamedDonors\<close>: every tensor is read when it is asked for.\<close>

definition streamed_donors :: "readers \<Rightarrow> disk \<Rightarrow> string \<Rightarrow> (int \<times> json) list \<Rightarrow> donors" where
  "streamed_donors rd fs tdir meta = map (\<lambda>(l, info). (l, read_donor rd fs tdir l info)) meta"

definition load_transplant_tensors ::
  "readers \<Rightarrow> disk \<Rightarrow> string \<Rightarrow> int list \<Rightarrow> ablit_error + (int \<times> matrix) list" where
  "load_transplant_tensors rd fs ablit_dir layers =
     res_bind (transplant_meta (json_loads rd) fs ablit_dir layers) (\<lambda>meta.
       map_res (\<lambda>(l, info). res_bind (read_donor rd fs (transplant_dir ablit_dir) l info) (\<lambda>w. Inr (l, w))) meta)"

section \<open>The hook\<close>

text \<open>What the hook finds outside: the rounding of the weights' type, the parallel world and rank,
  and \<open>torch.load\<close>.\<close>

record host_env =
  store :: "real \<Rightarrow> real"
  tp_world :: nat
  tp_rank :: nat
  torch_load :: "string \<Rightarrow> loaded option"

definition nothing_edited :: "edit_report \<Rightarrow> bool" where
  "nothing_edited rep \<longleftrightarrow> edited_layers rep = [] \<and> \<not> mtp_edited rep"

definition transplant_mode ::
  "env \<Rightarrow> readers \<Rightarrow> host_env \<Rightarrow> disk \<Rightarrow> hooked \<Rightarrow> string \<Rightarrow> int list \<Rightarrow> bool \<Rightarrow> weights
     \<Rightarrow> weights \<times> (ablit_error + edit_report)" where
  "transplant_mode env rd h fs model ablit_dir layers include_mtp ws =
     (if fs (manifest_path (transplant_dir ablit_dir)) = None
      then (ws, Inl (Ablit ''ablit/transplant/ is missing or empty''))
      else (case transplant_meta (json_loads rd) fs ablit_dir layers of
              Inl e \<Rightarrow> (ws, Inl e)
            | Inr meta \<Rightarrow>
                (case apply_transplant (store h) (tp_world h) (tp_rank h) model
                        (streamed_donors rd fs (transplant_dir ablit_dir) meta) layers include_mtp ws of
                   (ws', Inl e) \<Rightarrow> (ws', Inl e)
                 | (ws', Inr rep) \<Rightarrow>
                     (ws', if nothing_edited rep then Inl (Ablit ''matched no o_proj'') else Inr rep))))"

definition proj_mode ::
  "env \<Rightarrow> host_env \<Rightarrow> disk \<Rightarrow> hooked \<Rightarrow> string \<Rightarrow> int list \<Rightarrow> bool \<Rightarrow> weights
     \<Rightarrow> weights \<times> (ablit_error + edit_report)" where
  "proj_mode env h fs model ablit_dir layers include_mtp ws =
     (let name = env_or env ''ABLIT_DIRECTION'' ''dealign'' in
      (case parse_float (env_or env ''ABLIT_ALPHA'' ''3.0'') of
         None \<Rightarrow> (ws, Inl (Ablit ''ABLIT_ALPHA is not a number''))
       | Some (Fin alpha) \<Rightarrow>
           (if alpha \<le> 0 then (ws, Inl (Ablit ''ABLIT_ALPHA must be positive''))
            else (case resolve_direction_path ablit_dir name of
                    Inl e \<Rightarrow> (ws, Inl e)
                  | Inr path \<Rightarrow>
                      (if fs path = None then (ws, Inl (Ablit ''direction file missing''))
                       else (case load_direction (torch_load h) path of
                               Inl e \<Rightarrow> (ws, Inl e)
                             | Inr r \<Rightarrow>
                                 (case apply_ablit (store h) model r layers alpha include_mtp ws of
                                    (ws', rep) \<Rightarrow>
                                      (ws', if nothing_edited rep then Inl (Ablit ''no o_proj was edited'')
                                            else Inr rep))))))
       | Some _ \<Rightarrow> (ws, Inl (Ablit ''ABLIT_ALPHA must be finite''))))"

definition maybe_apply ::
  "env \<Rightarrow> readers \<Rightarrow> host_env \<Rightarrow> disk \<Rightarrow> hooked \<Rightarrow> weights \<Rightarrow> weights \<times> (ablit_error + edit_report option)" where
  "maybe_apply env rd h fs model ws =
     (if \<not> env_flag env ''ABLIT'' False then (ws, Inr None)
      else (let ablit_dir = env_or env ''ABLIT_DIR'' default_ablit_dir;
                include_mtp = env_flag env ''ABLIT_INCLUDE_MTP'' True;
                mode = lower (strip (env_or env ''ABLIT_METHOD'' ''auto'')) in
       (case parse_layers (env_or env ''ABLIT_LAYERS'' default_layers) of
          Inl e \<Rightarrow> (ws, Inl (Bad_Layers e))
        | Inr layers \<Rightarrow>
            (case (if mode \<in> {''auto'', ''transplant''}
                   then transplant_mode env rd h fs model ablit_dir layers include_mtp ws
                   else if mode \<noteq> ''proj'' then (ws, Inl (Ablit ''ABLIT_METHOD not known''))
                   else proj_mode env h fs model ablit_dir layers include_mtp ws) of
               (ws', res) \<Rightarrow> (ws', res_bind res (\<lambda>rep. Inr (Some rep)))))))"

section \<open>What the checks promise\<close>

lemma read_into_take:
  "length buf \<le> nbytes \<Longrightarrow> buf = take (length buf) data \<Longrightarrow>
     \<exists>k\<le>nbytes. read_into os data nbytes buf = take k data"
proof (induction os data nbytes buf rule: read_into.induct)
  case (1 os data nbytes buf)
  define got where "got = length buf"
  define piece where "piece = take (min (os got) (nbytes - got)) (drop got data)"
  show ?case
  proof (cases "got < nbytes \<and> piece \<noteq> []")
    case True
    have len: "length (buf @ piece) \<le> nbytes" using "1.prems"(1) by (auto simp: piece_def got_def)
    have "buf @ piece = take (got + length piece) data"
      using "1.prems"(2) by (simp add: take_add got_def piece_def min_def)
    moreover have "take (length (take j data)) data = take j data" for j by (simp add: min_def)
    ultimately have "buf @ piece = take (length (buf @ piece)) data" by metis
    from "1.IH" [OF got_def piece_def True len this] True show ?thesis
      by (subst read_into.simps) (simp add: Let_def got_def piece_def)
  next
    case False
    then have "read_into os data nbytes buf = buf"
      by (subst read_into.simps) (auto simp: Let_def got_def piece_def)
    with "1.prems" show ?thesis by auto
  qed
qed

text \<open>A read of the expected length is the beginning of the file, in however many pieces.\<close>

lemma read_into_complete:
  assumes "length (read_into os data n []) = n"
  shows "read_into os data n [] = take n data"
proof -
  obtain k where "read_into os data n [] = take k data" using read_into_take [of "[]" n data os] by auto
  then show ?thesis using assms by (metis append_take_drop_id length_take min.absorb_iff2 take_all_iff nle_le)
qed

text \<open>As long as the operating system returns something before the end of the file, all of it is
  read.\<close>

lemma read_into_all:
  "(\<And>k. k < n \<Longrightarrow> 0 < os k) \<Longrightarrow> n \<le> length data \<Longrightarrow> length buf \<le> n \<Longrightarrow>
     length (read_into os data n buf) = n"
proof (induction os data n buf rule: read_into.induct)
  case (1 os data nbytes buf)
  define got where "got = length buf"
  define piece where "piece = take (min (os got) (nbytes - got)) (drop got data)"
  show ?case
  proof (cases "got < nbytes")
    case True
    then have p: "got < nbytes \<and> piece \<noteq> []"
      using "1.prems" by (auto simp: piece_def got_def)
    have "length (buf @ piece) \<le> nbytes" using "1.prems"(3) by (auto simp: piece_def got_def)
    from "1.IH" [OF got_def piece_def p "1.prems"(1,2) this] p show ?thesis
      by (subst read_into.simps) (simp add: Let_def got_def piece_def)
  next
    case False
    then show ?thesis using "1.prems"(3) by (subst read_into.simps) (simp add: got_def)
  qed
qed

lemma check_layers_entry:
  "check_layers fs tdir meta ls = Inr out \<Longrightarrow> map_of out l = Some info \<Longrightarrow>
     l \<in> set ls \<and> check_entry fs tdir l info = Inr info"
proof (induction ls arbitrary: out)
  case (Cons k ls)
  show ?case
  proof (cases "map_of meta k")
    case (Some i)
    then obtain i' rest where r: "check_entry fs tdir k i = Inr i'" "check_layers fs tdir meta ls = Inr rest"
      "out = (k, i') # rest"
      using Cons.prems(1) by auto
    have "i' = i" using r(1) by (auto simp: check_entry_def split: option.splits if_splits)
    with r Cons.IH [OF r(2)] Cons.prems(2) show ?thesis by (auto split: if_splits)
  qed (use Cons in auto)
qed simp

lemma check_layers_meta:
  "check_layers fs tdir meta ls = Inr out \<Longrightarrow> map_of out l = Some info \<Longrightarrow> map_of meta l = Some info"
proof (induction ls arbitrary: out)
  case (Cons k ls)
  show ?case
  proof (cases "map_of meta k")
    case (Some i)
    then obtain i' rest where r: "check_entry fs tdir k i = Inr i'" "check_layers fs tdir meta ls = Inr rest"
      "out = (k, i') # rest"
      using Cons.prems(1) by auto
    have "i' = i" using r(1) by (auto simp: check_entry_def split: option.splits if_splits)
    with r Some Cons.IH [OF r(2)] Cons.prems(2) show ?thesis by (auto split: if_splits)
  qed (use Cons in auto)
qed simp

lemma map_of_streamed:
  "map_of (map (\<lambda>(l, info). (l, f l info)) meta) l = Some d \<Longrightarrow> \<exists>info. map_of meta l = Some info \<and> d = f l info"
  by (induction meta) (auto split: if_splits)

text \<open>A donor that could be read is the content of its file, with the size and the digest that the
  manifest records.\<close>

definition verified_file :: "readers \<Rightarrow> disk \<Rightarrow> string \<Rightarrow> int \<Rightarrow> json \<Rightarrow> matrix \<Rightarrow> bool" where
  "verified_file rd fs tdir l info donor \<longleftrightarrow>
     (\<exists>data shape. fs (bin_path tdir l) = Some data
        \<and> json_item info ''sha256'' = Inr (JStr (sha256 rd data))
        \<and> res_bind (json_item info ''nbytes'') json_int = Inr (int (length data))
        \<and> json_item info ''shape'' = Inr shape \<and> reshape shape (bf16 rd data) = Inr donor)"

lemma read_donor_verified:
  assumes "check_entry fs tdir l info = Inr info" "read_donor rd fs tdir l info = Inr donor"
  shows "verified_file rd fs tdir l info donor"
proof -
  obtain data nb where f: "fs (bin_path tdir l) = Some data" "json_item info ''nbytes'' = Inr nb"
    "json_int nb = Inr (int (length data))"
    using assms(1) by (auto simp: check_entry_def split: option.splits if_splits)
  then have len: "length (read_into (os_read rd) data (length data) []) = length data"
    using assms(2) by (auto simp: read_donor_def Let_def split: if_splits)
  have "read_into (os_read rd) data (length data) [] = data" using read_into_complete [OF len] by simp
  then show ?thesis
    using assms(2) f by (auto simp: read_donor_def verified_file_def Let_def split: if_splits)
qed

section \<open>The frame of the hook\<close>

lemma ablit_frame:
  "ablit_loop st r want alpha inc seen cs ws rep = (ws', rep') \<Longrightarrow>
     m \<notin> set (ids (selected inc want cs)) \<Longrightarrow> ws' m = ws m"
proof (induction cs arbitrary: seen ws rep)
  case (Cons c cs)
  obtain name idx k where c: "c = (name, idx, k)" by (cases c) auto
  have m: "m \<notin> set (ids (selected inc want cs))"
    using Cons.prems(2) by (auto simp: c selected_Cons split: if_splits)
  show ?case
  proof (cases "k \<in> set seen \<or> \<not> ((mtp_o_proj name = None \<or> inc) \<and> idx \<in> set want)")
    case True
    with Cons.prems(1) Cons.IH [OF _ m, of _ ws] show ?thesis
      by (auto simp: c Let_def split: if_splits)
  next
    case False
    then have "m \<noteq> k" using Cons.prems(2) by (auto simp: c selected_Cons)
    then have "fst (apply_to_o_proj st r alpha k ws) m = ws m"
      by (auto simp: apply_to_o_proj_def split: option.splits)
    then show ?thesis
      using False Cons.prems(1) Cons.IH [OF _ m]
      by (cases "apply_to_o_proj st r alpha k ws")
         (fastforce simp: c Let_def split: if_splits option.splits)
  qed
qed simp

text \<open>The modules that the environment selects.\<close>

definition hook_layers :: "env \<Rightarrow> int list" where
  "hook_layers env = (case parse_layers (env_or env ''ABLIT_LAYERS'' default_layers) of
       Inl _ \<Rightarrow> [] | Inr layers \<Rightarrow> layers)"

definition hook_selection :: "env \<Rightarrow> hooked \<Rightarrow> (string \<times> int \<times> nat) list" where
  "hook_selection env model =
     selected (env_flag env ''ABLIT_INCLUDE_MTP'' True) (hook_layers env)
       (walk_o_proj (unwrap_text_model model))"

definition hook_mode :: "env \<Rightarrow> string" where
  "hook_mode env = lower (strip (env_or env ''ABLIT_METHOD'' ''auto''))"

definition hook_dir :: "env \<Rightarrow> string" where
  "hook_dir env = env_or env ''ABLIT_DIR'' default_ablit_dir"

lemma transplant_mode_frame:
  assumes "transplant_mode env rd h fs model d layers inc ws = (ws', res)"
    and "m \<notin> set (ids (selected inc layers (walk_o_proj (unwrap_text_model model))))"
  shows "ws' m = ws m"
proof -
  have "ws1 m = ws m"
    if "apply_transplant st wd rk model dn layers inc ws = (ws1, r)" for st wd rk dn ws1 r
    using that transplant_frame [OF _ assms(2)] by (fastforce simp: apply_transplant_def split: prod.splits)
  then show ?thesis
    using assms(1) by (auto simp: transplant_mode_def split: if_splits sum.splits prod.splits)
qed

lemma proj_mode_frame:
  assumes "proj_mode env h fs model d layers inc ws = (ws', res)"
    and "m \<notin> set (ids (selected inc layers (walk_o_proj (unwrap_text_model model))))"
  shows "ws' m = ws m"
proof -
  have "ws1 m = ws m"
    if "apply_ablit st model r layers alpha inc ws = (ws1, rep)" for st r alpha ws1 rep
    using that ablit_frame [OF _ assms(2)] by (fastforce simp: apply_ablit_def split: prod.splits)
  then show ?thesis
    using assms(1)
    by (auto simp: proj_mode_def Let_def split: if_splits sum.splits prod.splits option.splits py_num.splits)
qed

lemma modes_report:
  "transplant_mode env rd h fs model d layers inc ws = (ws', Inr rep) \<Longrightarrow> \<not> nothing_edited rep"
  "proj_mode env h fs model d layers inc ws = (ws', Inr rep) \<Longrightarrow> \<not> nothing_edited rep"
  by (auto simp: transplant_mode_def proj_mode_def Let_def
      split: if_splits sum.splits prod.splits option.splits py_num.splits)

text \<open>C22: the hook does nothing at all unless it is enabled; enabled, it either edits something or
  raises, it never falls back from the transplant to the projection when the manifest is
  missing, and whatever happens it writes only to output projections of the configured
  layers.\<close>

theorem hook_outcomes:
  assumes "maybe_apply env rd h fs model ws = (ws', res)"
  shows "(res = Inr None \<longleftrightarrow> \<not> env_flag env ''ABLIT'' False)
    \<and> (res = Inr None \<longrightarrow> ws' = ws)
    \<and> (\<forall>rep. res = Inr (Some rep) \<longrightarrow> edited_layers rep \<noteq> [] \<or> mtp_edited rep)
    \<and> (env_flag env ''ABLIT'' False \<and> hook_mode env \<in> {''auto'', ''transplant''}
         \<and> fs (manifest_path (transplant_dir (hook_dir env))) = None \<longrightarrow> ws' = ws \<and> \<not> ok_res res)
    \<and> (\<forall>m. m \<notin> set (ids (hook_selection env model)) \<longrightarrow> ws' m = ws m)"
proof (intro conjI allI impI)
  show off: "res = Inr None \<longleftrightarrow> \<not> env_flag env ''ABLIT'' False"
    using assms by (auto simp: maybe_apply_def Let_def split: if_splits sum.splits prod.splits)
  show "ws' = ws" if "res = Inr None" using assms that off by (simp add: maybe_apply_def)
  show "edited_layers rep \<noteq> [] \<or> mtp_edited rep" if "res = Inr (Some rep)" for rep
    using assms that modes_report
    by (auto simp: maybe_apply_def Let_def nothing_edited_def split: if_splits sum.splits prod.splits)
  assume missing: "env_flag env ''ABLIT'' False \<and> hook_mode env \<in> {''auto'', ''transplant''}
      \<and> fs (manifest_path (transplant_dir (hook_dir env))) = None"
  then show "ws' = ws" "\<not> ok_res res"
    using assms
    by (auto simp: maybe_apply_def transplant_mode_def hook_mode_def hook_dir_def Let_def
        split: if_splits sum.splits)
next
  show "ws' m = ws m" if "m \<notin> set (ids (hook_selection env model))" for m
  proof (cases "env_flag env ''ABLIT'' False")
    case True
    then show ?thesis
      using that assms transplant_mode_frame proj_mode_frame
      by (auto simp: maybe_apply_def hook_selection_def hook_layers_def Let_def
          split: if_splits sum.splits prod.splits; blast)
  qed (use assms in \<open>simp add: maybe_apply_def\<close>)
qed

lemma hook_outcomes_witness:
  "maybe_apply [(''ABLIT'', ''1'')] \<lparr>json_loads = \<lambda>_. None, sha256 = id, bf16 = \<lambda>_. [], os_read = Suc\<rparr>
      \<lparr>store = id, tp_world = 1, tp_rank = 0, torch_load = \<lambda>_. None\<rparr> (\<lambda>_. None) demo_hooked (demo_weights 0)
    = (demo_weights 0, Inl (Ablit ''ablit/transplant/ is missing or empty''))
   \<and> \<not> env_flag [] ''ABLIT'' False"
proof -
  let ?env = "[(''ABLIT'', ''1'')]"
  let ?rd = "\<lparr>json_loads = \<lambda>_. None, sha256 = id, bf16 = \<lambda>_. [], os_read = Suc\<rparr>"
  let ?h = "\<lparr>store = id, tp_world = 1, tp_rank = 0, torch_load = \<lambda>_. None\<rparr>"
  have on: "env_flag ?env ''ABLIT'' False" by code_simp
  have layers: "\<exists>ls. parse_layers (env_or ?env ''ABLIT_LAYERS'' default_layers) = Inr ls"
    by (rule exI [of _ "py_range 15 44 @ [45]"]) code_simp
  have mode: "lower (strip (env_or ?env ''ABLIT_METHOD'' ''auto'')) = ''auto''" by code_simp
  have run: "maybe_apply ?env ?rd ?h (\<lambda>_. None) demo_hooked (demo_weights 0)
      = (demo_weights 0, Inl (Ablit ''ablit/transplant/ is missing or empty''))"
    using on layers mode by (auto simp: maybe_apply_def transplant_mode_def Let_def)
  from hook_outcomes [OF this] on run show ?thesis by (auto simp: env_flag_def)
qed

text \<open>C10: every module that an enabled transplant edits holds a tensor whose file had, when it was
  read, the size and the SHA-256 that the manifest records for its layer, in however many pieces
  the operating system delivered it.\<close>

theorem transplant_is_verified:
  assumes "maybe_apply env rd h fs model ws = (ws', Inr (Some rep))"
    and "hook_mode env \<in> {''auto'', ''transplant''}" and "(name, idx, m) \<in> set (hook_selection env model)"
  shows "\<exists>raw manifest meta info donor w.
      fs (manifest_path (transplant_dir (hook_dir env))) = Some raw \<and> json_loads rd raw = Some manifest
    \<and> manifest_meta manifest = Inr meta \<and> map_of meta idx = Some info
    \<and> verified_file rd fs (transplant_dir (hook_dir env)) idx info donor
    \<and> ws m = Some w \<and> ws' m = Some (round_to (store h)
          (if tp_world h = 1 then donor else shard_cols (tp_rank h) (n_cols w) donor))"
proof -
  let ?d = "hook_dir env" and ?inc = "env_flag env ''ABLIT_INCLUDE_MTP'' True"
  have tm: "transplant_mode env rd h fs model ?d (hook_layers env) ?inc ws = (ws', Inr rep)"
    using assms(1,2)
    by (auto simp: maybe_apply_def hook_mode_def hook_dir_def hook_layers_def Let_def
        split: if_splits sum.splits prod.splits)
  then obtain out where out: "transplant_meta (json_loads rd) fs ?d (hook_layers env) = Inr out"
    and ap: "apply_transplant (store h) (tp_world h) (tp_rank h) model
        (streamed_donors rd fs (transplant_dir ?d) out) (hook_layers env) ?inc ws = (ws', Inr rep)"
    by (auto simp: transplant_mode_def split: if_splits sum.splits prod.splits)
  from out obtain raw manifest meta where m: "fs (manifest_path (transplant_dir ?d)) = Some raw"
    "json_loads rd raw = Some manifest" "manifest_meta manifest = Inr meta"
    "check_layers fs (transplant_dir ?d) meta (hook_layers env) = Inr out"
    by (auto simp: transplant_meta_def Let_def split: option.splits if_splits)
  have "transplanted (store h) (tp_world h) (tp_rank h) (streamed_donors rd fs (transplant_dir ?d) out) idx (ws m) (ws' m)"
    using ap assms(3) transplant_written
    by (fastforce simp: apply_transplant_def hook_selection_def split: prod.splits)
  then obtain donor w where t: "map_of (streamed_donors rd fs (transplant_dir ?d) out) idx = Some (Inr donor)"
    "ws m = Some w" "ws' m = Some (round_to (store h)
          (if tp_world h = 1 then donor else shard_cols (tp_rank h) (n_cols w) donor))"
    by (auto simp: transplanted_def)
  then obtain info where i: "map_of out idx = Some info" "read_donor rd fs (transplant_dir ?d) idx info = Inr donor"
    by (auto simp: streamed_donors_def dest!: map_of_streamed)
  from check_layers_entry [OF m(4) i(1)] check_layers_meta [OF m(4) i(1)] read_donor_verified i m t
  show ?thesis by blast
qed

text \<open>A directory with the tensor of layer 15, read one byte at a time.\<close>

definition demo_info :: json where
  "demo_info = JObj [(''dtype'', JStr ''BF16''), (''shape'', JList [JInt 2, JInt 2]), (''nbytes'', JInt 4),
     (''sha256'', JStr ''abcd'')]"

definition demo_readers :: readers where
  "demo_readers = \<lparr>json_loads = \<lambda>_. Some (JObj [(''layers'', JObj [(''15'', demo_info)])]),
     sha256 = id, bf16 = \<lambda>_. [1, 2, 3, 4], os_read = \<lambda>_. 1\<rparr>"

definition demo_host :: host_env where
  "demo_host = \<lparr>store = id, tp_world = 2, tp_rank = 1, torch_load = \<lambda>_. None\<rparr>"

definition demo_disk :: disk where
  "demo_disk = [manifest_path (transplant_dir default_ablit_dir) \<mapsto> ''{}'',
     bin_path (transplant_dir default_ablit_dir) 15 \<mapsto> ''abcd'']"

definition demo_env :: env where
  "demo_env = [(''ABLIT'', ''1''), (''ABLIT_LAYERS'', ''15'')]"

lemma demo_files:
  "demo_disk (bin_path (transplant_dir default_ablit_dir) 15) = Some ''abcd''"
  "demo_disk (manifest_path (transplant_dir default_ablit_dir)) = Some ''{}''"
proof -
  have "bin_path (transplant_dir default_ablit_dir) 15 \<noteq> manifest_path (transplant_dir default_ablit_dir)"
    by code_simp
  then show "demo_disk (bin_path (transplant_dir default_ablit_dir) 15) = Some ''abcd''"
    "demo_disk (manifest_path (transplant_dir default_ablit_dir)) = Some ''{}''"
    by (simp_all add: demo_disk_def)
qed

lemma demo_meta:
  "transplant_meta (json_loads demo_readers) demo_disk default_ablit_dir [15] = Inr [(15, demo_info)]"
proof -
  have "manifest_meta (JObj [(''layers'', JObj [(''15'', demo_info)])]) = Inr [(15, demo_info)]"
  proof -
    have "parse_int ''15'' = Some 15" by code_simp
    then show ?thesis by (simp add: manifest_meta_def json_get_def jget_def)
  qed
  then show ?thesis
    by (simp add: transplant_meta_def demo_files demo_readers_def opt_res_def check_entry_def demo_info_def
        json_item_def json_get_def json_int_def jget_def)
qed

lemma demo_donor:
  "read_donor demo_readers demo_disk (transplant_dir default_ablit_dir) 15 demo_info = Inr [[1, 2], [3, 4]]"
proof -
  have len: "length (read_into (\<lambda>_. 1) ''abcd'' 4 []) = 4" by (rule read_into_all) auto
  have "read_into (\<lambda>_. 1) ''abcd'' 4 [] = ''abcd''" using read_into_complete [OF len] by simp
  then show ?thesis
    by (simp add: read_donor_def demo_files demo_readers_def opt_res_def demo_info_def
        json_item_def json_int_def reshape_def numeral_2_eq_2)
qed

lemma demo_hook:
  "\<exists>rep. maybe_apply demo_env demo_readers demo_host demo_disk demo_hooked (demo_weights 1) =
     ([3 \<mapsto> shard_cols 1 1 [[1, 2], [3, 4]]], Inr (Some rep))"
proof -
  have on: "env_flag demo_env ''ABLIT'' False"
    "lower (strip (env_or demo_env ''ABLIT_METHOD'' ''auto'')) = ''auto''"
    "parse_layers (env_or demo_env ''ABLIT_LAYERS'' default_layers) = Inr [15]"
    "env_or demo_env ''ABLIT_DIR'' default_ablit_dir = default_ablit_dir"
    "env_flag demo_env ''ABLIT_INCLUDE_MTP'' True = True"
    by code_simp+
  have dn: "streamed_donors demo_readers demo_disk (transplant_dir default_ablit_dir) [(15, demo_info)] = demo_donors"
    by (simp add: streamed_donors_def demo_donor demo_donors_def)
  obtain rep where ap: "apply_transplant id 2 1 demo_hooked demo_donors [15] True (demo_weights 1) =
      ([3 \<mapsto> shard_cols 1 1 [[1, 2], [3, 4]]], Inr rep)" using demo_transplant [of 1] by auto
  then have "\<not> nothing_edited rep"
    using transplant_report [of id 2 1 demo_donors "[15]" True "[]" "walk_o_proj (unwrap_text_model demo_hooked)"
        "demo_weights 1" empty_report]
    by (auto simp: apply_transplant_def nothing_edited_def sort_edited_def demo_walk selected_def empty_report_def
        split: prod.splits)
  then have "transplant_mode demo_env demo_readers demo_host demo_disk demo_hooked default_ablit_dir [15] True
      (demo_weights 1) = ([3 \<mapsto> shard_cols 1 1 [[1, 2], [3, 4]]], Inr rep)"
    using ap by (simp add: transplant_mode_def demo_files demo_meta dn demo_host_def)
  then show ?thesis using on by (simp add: maybe_apply_def Let_def)
qed

lemma transplant_is_verified_witness:
  "\<exists>rep info donor. maybe_apply demo_env demo_readers demo_host demo_disk demo_hooked (demo_weights 1) =
      ([3 \<mapsto> [[2], [4]]], Inr (Some rep))
    \<and> verified_file demo_readers demo_disk (transplant_dir default_ablit_dir) 15 info donor
    \<and> shard_cols 1 1 donor = [[2], [4]]"
proof -
  obtain rep where run: "maybe_apply demo_env demo_readers demo_host demo_disk demo_hooked (demo_weights 1) =
     ([3 \<mapsto> shard_cols 1 1 [[1, 2], [3, 4]]], Inr (Some rep))" using demo_hook by blast
  have dir: "hook_dir demo_env = default_ablit_dir" "hook_mode demo_env = ''auto''"
    "hook_selection demo_env demo_hooked = [(''model.layers.15.self_attn.o_proj'', 15, 3)]"
    by code_simp+
  then have sel: "hook_mode demo_env \<in> {''auto'', ''transplant''}"
    "(''model.layers.15.self_attn.o_proj'', 15, 3) \<in> set (hook_selection demo_env demo_hooked)" by simp_all
  from transplant_is_verified [OF run sel] obtain info donor w
    where v: "verified_file demo_readers demo_disk (transplant_dir default_ablit_dir) 15 info donor"
      "demo_weights 1 3 = Some w"
      "Some (shard_cols 1 1 [[1, 2], [3, 4]]) = Some (round_to (store demo_host)
         (if tp_world demo_host = 1 then donor else shard_cols (tp_rank demo_host) (n_cols w) donor))"
    unfolding dir by auto
  have "n_cols w = 1" using v(2) by (auto simp: demo_weights_def n_cols_def)
  with v(3) have "shard_cols 1 1 donor = [[2], [4]]"
    by (simp add: demo_host_def round_to_def shard_cols_def)
  moreover have "shard_cols 1 1 [[1, 2], [3, 4]] = [[2], [4::real]]" by (simp add: shard_cols_def)
  ultimately show ?thesis using v(1) run by (intro exI conjI) simp_all
qed

end
