(* ===== verification/Ablit_Fetch.thy ===== *)
theory Ablit_Fetch
  imports Ablit_Runtime
begin

text \<open>
  The download of the donor tensors (\<open>ablit/fetch_transplant.py\<close>), and what it promises to the
  load-time hook of \<open>Ablit_Runtime\<close>, which reads the directory it writes.

  The network is a function from the number of the request, the address and the range to an
  answer; \<open>json.loads\<close>, \<open>json.dumps\<close> and SHA-256 are parameters.  Waiting and log lines are left
  out, and so is the comparison with the layer map, which is only printed.  The loop over one
  range runs for ever if a server keeps sending empty bodies; it is a partial function, and
  \<open>None\<close> is that case.
\<close>

section \<open>Fetching a range of bytes\<close>

text \<open>An answer: no connection, or a status with the pieces that \<open>read\<close> returns and whether the
  connection breaks after them.\<close>

datatype answer = Refuse | Answer nat "bytes list" bool

type_synonym net = "nat \<Rightarrow> string \<Rightarrow> int \<Rightarrow> int \<Rightarrow> answer"

definition delivered :: "bytes list \<Rightarrow> bytes" where
  "delivered pieces = concat (takeWhile (\<lambda>p. p \<noteq> []) pieces)"

definition breaks_off :: "bytes list \<Rightarrow> bool \<Rightarrow> bool" where
  "breaks_off pieces broken \<longleftrightarrow> broken \<and> list_all (\<lambda>p. p \<noteq> []) pieces"

text \<open>One attempt: the requests until the range is complete.  The result is the number of
  requests made so far, the count \<open>got\<close> that the next attempt starts from, and the bytes, or
  \<open>None\<close> when an exception ended the attempt.\<close>

partial_function (option) fetch_range ::
  "net \<Rightarrow> string \<Rightarrow> int \<Rightarrow> nat \<Rightarrow> nat \<Rightarrow> int \<Rightarrow> bytes \<Rightarrow> nat \<Rightarrow> (nat \<times> nat \<times> bytes option) option" where
  "fetch_range net url stop wanted n pos out got =
     (if pos \<le> stop then
        (case net n url pos stop of
           Refuse \<Rightarrow> Some (Suc n, got, None)
         | Answer status pieces broken \<Rightarrow>
             (if status \<noteq> 200 \<and> status \<noteq> 206 then Some (Suc n, got, None)
              else (let body = delivered pieces; out' = out @ body;
                        got' = (if body = [] then got else length out') in
                if breaks_off pieces broken then Some (Suc n, got', None)
                else if length out' = wanted then Some (Suc n, got', Some out')
                else fetch_range net url stop wanted (Suc n) (pos + int (length body)) out' got')))
      else Some (n, got, None))"

fun fetch_attempts ::
  "net \<Rightarrow> string \<Rightarrow> int \<Rightarrow> int \<Rightarrow> nat \<Rightarrow> nat \<Rightarrow> nat \<Rightarrow> (nat \<times> bytes option) option" where
  "fetch_attempts net url start stop 0 n got = Some (n, None)"
| "fetch_attempts net url start stop (Suc k) n got =
     (case fetch_range net url stop (nat (stop - start + 1)) n (start + int got) [] got of
        None \<Rightarrow> None
      | Some (n', got', Some out) \<Rightarrow> Some (n', Some out)
      | Some (n', got', None) \<Rightarrow> fetch_attempts net url start stop k n' got')"

definition retries :: nat where "retries = 4"

definition fetch_bytes :: "net \<Rightarrow> string \<Rightarrow> int \<Rightarrow> int \<Rightarrow> nat \<Rightarrow> (nat \<times> bytes option) option" where
  "fetch_bytes net url start stop n = fetch_attempts net url start stop retries n 0"

section \<open>The tensor of one layer\<close>

datatype fetch_error = Exit string | Exit_Layers layer_error | Crash py_exc

definition crash :: "ablit_error + 'a \<Rightarrow> fetch_error + 'a" where
  "crash r = (case r of Inr x \<Rightarrow> Inr x
     | Inl (Py_Raise e) \<Rightarrow> Inl (Crash e)
     | Inl _ \<Rightarrow> Inl (Crash RuntimeError))"

text \<open>\<open>int.from_bytes(b, "little")\<close>\<close>

definition le_int :: "bytes \<Rightarrow> int" where
  "le_int bs = foldr (\<lambda>c n. int (ord_c c) + 256 * n) bs 0"

fun offset_pair :: "json \<Rightarrow> fetch_error + int \<times> int" where
  "offset_pair (JList [JInt a, JInt b]) = Inr (a, b)"
| "offset_pair _ = Inl (Crash ValueError)"

definition span_of :: "json option \<Rightarrow> string \<Rightarrow> int \<Rightarrow> fetch_error + int \<times> int \<times> json" where
  "span_of header key n = (case header of
       Some (JObj d) \<Rightarrow>
         (case map_of d key of
            None \<Rightarrow> Inl (Exit ''key not in header'')
          | Some meta \<Rightarrow> res_bind (crash (json_item meta ''data_offsets'')) (\<lambda>offs.
              res_bind (offset_pair offs) (\<lambda>(a, b). Inr (8 + n + a, 8 + n + b - 1, meta))))
     | Some _ \<Rightarrow> Inl (Crash TypeError)
     | None \<Rightarrow> Inl (Crash ValueError))"

definition safetensors_span ::
  "readers \<Rightarrow> net \<Rightarrow> string \<Rightarrow> string \<Rightarrow> nat \<Rightarrow> (nat \<times> (fetch_error + int \<times> int \<times> json)) option" where
  "safetensors_span rd net url key n =
     (case net n url 0 7 of
        Refuse \<Rightarrow> Some (Suc n, Inl (Crash RuntimeError))
      | Answer status pieces broken \<Rightarrow>
          (if \<not> (200 \<le> status \<and> status < 300)
              \<or> (breaks_off pieces broken \<and> length (delivered pieces) < 8)
           then Some (Suc n, Inl (Crash RuntimeError))
           else (let len = le_int (take 8 (delivered pieces)) in
             (case fetch_bytes net url 8 (8 + len - 1) (Suc n) of
                None \<Rightarrow> None
              | Some (n', None) \<Rightarrow> Some (n', Inl (Exit ''FAILED''))
              | Some (n', Some hdr) \<Rightarrow> Some (n', span_of (json_loads rd hdr) key len)))))"

section \<open>The manifest\<close>

text \<open>What one run of the program works with: the donor, the address of its files, the output
  directory, the layer specification and the answers to the requests for the index.\<close>

record job =
  donor :: string
  revision :: string
  base :: string
  out_dir :: string
  layers_spec :: string
  index_answers :: "nat \<Rightarrow> (string \<times> string) list option"

definition load_manifest :: "readers \<Rightarrow> job \<Rightarrow> disk \<Rightarrow> fetch_error + dict option" where
  "load_manifest rd job fs =
     (case fs (manifest_path (out_dir job)) of
        None \<Rightarrow> Inr None
      | Some text \<Rightarrow>
          (case json_loads rd text of
             None \<Rightarrow> Inl (Crash ValueError)
           | Some (JObj old) \<Rightarrow>
               (if jget old ''donor'' \<noteq> JStr (donor job) \<or> jget old ''donor_revision'' \<noteq> JStr (revision job)
                then Inr None else Inr (Some old))
           | Some _ \<Rightarrow> Inl (Crash TypeError)))"

definition new_manifest :: "job \<Rightarrow> dict" where
  "new_manifest job =
     [(''donor'', JStr (donor job)), (''donor_revision'', JStr (revision job)),
      (''method'', JStr ''altered-dealign-oproj-transplant (byte-copy, o_proj)''), (''layers'', JObj [])]"

definition man_layers :: "dict \<Rightarrow> fetch_error + dict" where
  "man_layers man = (case map_of man ''layers'' of
       None \<Rightarrow> Inl (Crash KeyError)
     | Some (JObj ls) \<Rightarrow> Inr ls
     | Some _ \<Rightarrow> Inl (Crash TypeError))"

definition add_entry :: "dict \<Rightarrow> int \<Rightarrow> json \<Rightarrow> fetch_error + dict" where
  "add_entry man l e = res_bind (man_layers man) (\<lambda>ls.
     Inr (dict_set man ''layers'' (JObj (dict_set ls (show_int l) e))))"

text \<open>The offline check: the exit code, and the sizes only.\<close>

definition entry_missing :: "disk \<Rightarrow> string \<Rightarrow> dict \<Rightarrow> int \<Rightarrow> fetch_error + bool" where
  "entry_missing fs tdir have_layers l =
     (case map_of have_layers (show_int l) of
        None \<Rightarrow> Inr True
      | Some e \<Rightarrow>
          (case fs (bin_path tdir l) of
             None \<Rightarrow> Inr True
           | Some data \<Rightarrow> res_bind (crash (json_item e ''nbytes'')) (\<lambda>nb.
               Inr (number nb \<noteq> Some (real (length data))))))"

definition fetch_check :: "readers \<Rightarrow> job \<Rightarrow> disk \<Rightarrow> int list \<Rightarrow> fetch_error + int" where
  "fetch_check rd job fs layers =
     res_bind (load_manifest rd job fs) (\<lambda>m.
       (case m of
          None \<Rightarrow> Inr 1
        | Some man \<Rightarrow>
            (case (case map_of man ''layers'' of None \<Rightarrow> JObj [] | Some v \<Rightarrow> v) of
               JObj have_layers \<Rightarrow>
                 res_bind (map_res (entry_missing fs (out_dir job) have_layers) layers) (\<lambda>ms.
                   Inr (if list_ex id ms then 1 else 0))
             | _ \<Rightarrow> Inl (Crash TypeError))))"

section \<open>The run\<close>

definition tensor_key :: "int \<Rightarrow> string" where
  "tensor_key l = ''model.language_model.layers.'' @ show_int l @ ''.self_attn.o_proj.weight''"

definition tmp_path :: "string \<Rightarrow> int \<Rightarrow> string" where
  "tmp_path tdir l = path_join tdir (CHR ''L'' # show_int l @ ''.tmp'')"

definition already_fetched :: "readers \<Rightarrow> disk \<Rightarrow> string \<Rightarrow> dict \<Rightarrow> int \<Rightarrow> fetch_error + bool" where
  "already_fetched rd fs tdir man l =
     (case fs (bin_path tdir l) of
        None \<Rightarrow> Inr False
      | Some data \<Rightarrow> res_bind (man_layers man) (\<lambda>ls.
          (case map_of ls (show_int l) of
             None \<Rightarrow> Inr False
           | Some e \<Rightarrow> res_bind (crash (json_get e ''sha256'')) (\<lambda>h. Inr (h = JStr (sha256 rd data))))))"

definition new_entry :: "readers \<Rightarrow> string \<Rightarrow> int \<Rightarrow> json \<Rightarrow> json \<Rightarrow> int \<Rightarrow> bytes \<Rightarrow> json" where
  "new_entry rd shard l dt shape nbytes data =
     JObj [(''shard'', JStr shard), (''key'', JStr (tensor_key l)), (''dtype'', dt), (''shape'', shape),
           (''nbytes'', JInt nbytes), (''sha256'', JStr (sha256 rd data))]"

text \<open>The bytes of one layer: its range from the header, then the range itself.\<close>

definition download ::
  "readers \<Rightarrow> net \<Rightarrow> job \<Rightarrow> string \<Rightarrow> int \<Rightarrow> nat \<Rightarrow> (nat \<times> (fetch_error + bytes \<times> json)) option" where
  "download rd net job shard l n =
     (let url = path_join (base job) shard in
      (case safetensors_span rd net url (tensor_key l) n of
         None \<Rightarrow> None
       | Some (n1, Inl e) \<Rightarrow> Some (n1, Inl e)
       | Some (n1, Inr (start, stop, meta)) \<Rightarrow>
           (case res_bind (crash (json_item meta ''dtype'')) (\<lambda>dt.
                 res_bind (crash (json_item meta ''shape'')) (\<lambda>shape. Inr (dt, shape))) of
              Inl e \<Rightarrow> Some (n1, Inl e)
            | Inr (dt, shape) \<Rightarrow>
                (case fetch_bytes net url start stop n1 of
                   None \<Rightarrow> None
                 | Some (n2, None) \<Rightarrow> Some (n2, Inl (Exit ''FAILED''))
                 | Some (n2, Some data) \<Rightarrow>
                     Some (n2, Inr (data, new_entry rd shard l dt shape (stop - start + 1) data))))))"

definition fetch_layer ::
  "readers \<Rightarrow> (json \<Rightarrow> bytes) \<Rightarrow> net \<Rightarrow> job \<Rightarrow> (string \<times> string) list \<Rightarrow> int \<Rightarrow> disk \<Rightarrow> nat \<Rightarrow> dict
     \<Rightarrow> (disk \<times> nat \<times> (fetch_error + dict)) option" where
  "fetch_layer rd json_dumps net job idx l fs n man =
     (case map_of idx (tensor_key l) of
        None \<Rightarrow> Some (fs, n, Inl (Exit ''donor index has no key''))
      | Some shard \<Rightarrow>
          (case already_fetched rd fs (out_dir job) man l of
             Inl e \<Rightarrow> Some (fs, n, Inl e)
           | Inr True \<Rightarrow> Some (fs, n, Inr man)
           | Inr False \<Rightarrow>
               (case download rd net job shard l n of
                  None \<Rightarrow> None
                | Some (n', Inl e) \<Rightarrow> Some (fs, n', Inl e)
                | Some (n', Inr (data, e)) \<Rightarrow>
                    (let fs1 = fs(tmp_path (out_dir job) l := None, bin_path (out_dir job) l \<mapsto> data) in
                     (case add_entry man l e of
                        Inl err \<Rightarrow> Some (fs1, n', Inl err)
                      | Inr man' \<Rightarrow>
                          Some (fs1(manifest_path (out_dir job) \<mapsto> json_dumps (JObj man')), n', Inr man'))))))"

fun fetch_loop ::
  "readers \<Rightarrow> (json \<Rightarrow> bytes) \<Rightarrow> net \<Rightarrow> job \<Rightarrow> (string \<times> string) list \<Rightarrow> int list \<Rightarrow> disk \<Rightarrow> nat \<Rightarrow> dict
     \<Rightarrow> (disk \<times> nat \<times> (fetch_error + dict)) option" where
  "fetch_loop rd json_dumps net job idx [] fs n man = Some (fs, n, Inr man)"
| "fetch_loop rd json_dumps net job idx (l # ls) fs n man =
     (case fetch_layer rd json_dumps net job idx l fs n man of
        None \<Rightarrow> None
      | Some (fs', n', Inl e) \<Rightarrow> Some (fs', n', Inl e)
      | Some (fs', n', Inr man') \<Rightarrow> fetch_loop rd json_dumps net job idx ls fs' n' man')"

fun first_answer :: "(nat \<Rightarrow> 'a option) \<Rightarrow> nat \<Rightarrow> nat \<Rightarrow> 'a option" where
  "first_answer f i 0 = None"
| "first_answer f i (Suc k) = (case f i of Some x \<Rightarrow> Some x | None \<Rightarrow> first_answer f (Suc i) k)"

definition fetch_all ::
  "readers \<Rightarrow> (json \<Rightarrow> bytes) \<Rightarrow> net \<Rightarrow> job \<Rightarrow> int list \<Rightarrow> disk \<Rightarrow> (disk \<times> (fetch_error + int)) option" where
  "fetch_all rd json_dumps net job layers fs =
     (case first_answer (index_answers job) 0 retries of
        None \<Rightarrow> Some (fs, Inl (Exit ''cannot fetch index''))
      | Some idx \<Rightarrow>
          (case load_manifest rd job fs of
             Inl e \<Rightarrow> Some (fs, Inl e)
           | Inr m \<Rightarrow>
               (case fetch_loop rd json_dumps net job idx layers fs 0
                       (case m of None \<Rightarrow> new_manifest job | Some man \<Rightarrow> man) of
                  None \<Rightarrow> None
                | Some (fs', n, Inl e) \<Rightarrow> Some (fs', Inl e)
                | Some (fs', n, Inr man) \<Rightarrow>
                    Some (fs'(manifest_path (out_dir job) \<mapsto> json_dumps (JObj man)),
                      res_bind (man_layers man) (\<lambda>ls.
                        Inr (if list_all (\<lambda>l. map_of ls (show_int l) \<noteq> None) layers then 0 else 1))))))"

definition fetch_main ::
  "readers \<Rightarrow> (json \<Rightarrow> bytes) \<Rightarrow> net \<Rightarrow> job \<Rightarrow> bool \<Rightarrow> disk \<Rightarrow> (disk \<times> (fetch_error + int)) option" where
  "fetch_main rd json_dumps net job check_only fs =
     (case fetch_layers (layers_spec job) of
        Inl e \<Rightarrow> Some (fs, Inl (Exit_Layers e))
      | Inr layers \<Rightarrow>
          (if check_only then Some (fs, fetch_check rd job fs layers)
           else fetch_all rd json_dumps net job layers fs))"

section \<open>What a fetch returns\<close>

definition byte_range :: "bytes \<Rightarrow> int \<Rightarrow> int \<Rightarrow> bytes" where
  "byte_range data a b = take (nat (b - a + 1)) (drop (nat a) data)"

text \<open>A server that honours ranges: it refuses, answers with an error, or answers with the range
  asked for, of which a broken connection delivers a beginning.\<close>

definition honours_ranges :: "(string \<Rightarrow> bytes) \<Rightarrow> net \<Rightarrow> bool" where
  "honours_ranges files net \<longleftrightarrow> (\<forall>n url a b. 0 \<le> a \<longrightarrow> a \<le> b \<longrightarrow> b < int (length (files url)) \<longrightarrow>
     (case net n url a b of
        Refuse \<Rightarrow> True
      | Answer status pieces broken \<Rightarrow>
          (status = 206 \<and> list_all (\<lambda>p. p \<noteq> []) pieces
            \<and> (if broken then prefix (concat pieces) (byte_range (files url) a b)
               else concat pieces = byte_range (files url) a b))
          \<or> (status \<noteq> 200 \<and> status \<noteq> 206)))"

text \<open>The bytes that an answer carries, and whether it carries all of them.\<close>

definition carries :: "answer \<Rightarrow> bytes" where
  "carries r = (case r of Refuse \<Rightarrow> []
     | Answer status pieces broken \<Rightarrow>
         (if status \<noteq> 200 \<and> status \<noteq> 206 then [] else delivered pieces))"

definition complete :: "answer \<Rightarrow> bool" where
  "complete r = (case r of Refuse \<Rightarrow> False
     | Answer status pieces broken \<Rightarrow> (status = 200 \<or> status = 206) \<and> \<not> breaks_off pieces broken)"

lemma delivered_all: "list_all (\<lambda>p. p \<noteq> []) pieces \<Longrightarrow> delivered pieces = concat pieces"
  by (metis delivered_def list_all_iff takeWhile_eq_all_conv)

lemma length_byte_range:
  "0 \<le> a \<Longrightarrow> a \<le> b + 1 \<Longrightarrow> b < int (length data) \<Longrightarrow> length (byte_range data a b) = nat (b - a + 1)"
  by (simp add: byte_range_def)

lemma honest_answer:
  assumes "honours_ranges files net" "0 \<le> a" "a \<le> b" "b < int (length (files url))"
  shows "carries (net n url a b) = [] \<and> \<not> complete (net n url a b)
     \<or> (\<exists>pieces broken. net n url a b = Answer 206 pieces broken \<and> breaks_off pieces broken = broken
          \<and> delivered pieces = carries (net n url a b)
          \<and> (if broken then prefix (carries (net n url a b)) (byte_range (files url) a b)
             else carries (net n url a b) = byte_range (files url) a b))"
  using assms(1) [unfolded honours_ranges_def, rule_format, OF assms(2-4), of n]
  by (cases "net n url a b")
     (auto simp: carries_def complete_def breaks_off_def delivered_all split: if_splits)

text \<open>With such a server an attempt makes one request.  It returns the bytes only if the whole
  range was asked for and came.\<close>

lemma fetch_range_honest:
  assumes h: "honours_ranges files net" "0 \<le> pos" "pos \<le> stop" "stop < int (length (files url))"
    and r: "r = net n url pos stop" and t: "nat (stop - pos + 1) \<le> wanted" "0 < wanted"
  shows "fetch_range net url stop wanted n pos [] got =
     Some (Suc n, if carries r = [] then got else length (carries r),
           if complete r \<and> nat (stop - pos + 1) = wanted then Some (byte_range (files url) pos stop) else None)"
proof -
  have l: "length (byte_range (files url) pos stop) = nat (stop - pos + 1)"
    using h(2-4) by (intro length_byte_range) auto
  consider "carries r = []" "\<not> complete r"
    | pieces broken where "r = Answer 206 pieces broken" "breaks_off pieces broken = broken"
        "delivered pieces = carries r"
        "if broken then prefix (carries r) (byte_range (files url) pos stop)
         else carries r = byte_range (files url) pos stop"
    using honest_answer [OF h, of n] r by blast
  then show ?thesis
  proof cases
    case 1
    then show ?thesis
      using h(3) t by (subst fetch_range.simps)
        (auto simp: carries_def complete_def breaks_off_def r [symmetric] Let_def split: answer.splits if_splits)
  next
    case (2 pieces broken)
    show ?thesis
    proof (cases broken)
      case True
      then show ?thesis using 2 h(3)
        by (subst fetch_range.simps) (simp add: r [symmetric] Let_def complete_def)
    next
      case False
      then have c: "carries r = byte_range (files url) pos stop" using 2(4) by simp
      then have ne: "carries r \<noteq> []" using l h(3) by auto
      have past: "fetch_range net url stop wanted (Suc n) (pos + int (length (carries r))) (carries r) g =
          Some (Suc n, g, None)" for g
        using c l h(3) by (subst fetch_range.simps) auto
      show ?thesis
        using 2 False c ne l h(3) past
        by (subst fetch_range.simps) (simp add: r [symmetric] Let_def complete_def)
    qed
  qed
qed

text \<open>Once an attempt has counted some bytes, no later attempt can succeed: each of them starts
  behind those bytes with an empty buffer.\<close>

lemma attempts_after_bytes:
  assumes h: "honours_ranges files net" "0 \<le> start" "start \<le> stop" "stop < int (length (files url))"
  shows "0 < got \<Longrightarrow> \<exists>n'. fetch_attempts net url start stop k n got = Some (n', None)"
proof (induction k arbitrary: n got)
  case (Suc k)
  let ?wanted = "nat (stop - start + 1)"
  show ?case
  proof (cases "start + int got \<le> stop")
    case True
    have "fetch_range net url stop ?wanted n (start + int got) [] got =
        Some (Suc n, if carries (net n url (start + int got) stop) = [] then got
           else length (carries (net n url (start + int got) stop)), None)"
      using fetch_range_honest [OF h(1) _ True h(4) refl, of ?wanted n got] Suc.prems h by auto
    with Suc show ?thesis by auto
  next
    case False
    then have "fetch_range net url stop ?wanted n (start + int got) [] got = Some (n, got, None)"
      by (subst fetch_range.simps) simp
    with Suc show ?thesis by auto
  qed
qed simp

lemma attempts_from_start:
  assumes h: "honours_ranges files net" "0 \<le> start" "start \<le> stop" "stop < int (length (files url))"
  shows "\<exists>n'. fetch_attempts net url start stop k n 0 =
     Some (n', if \<exists>j<k. complete (net (n + j) url start stop) \<and> (\<forall>i<j. carries (net (n + i) url start stop) = [])
               then Some (byte_range (files url) start stop) else None)"
proof (induction k arbitrary: n)
  case (Suc k)
  let ?r = "\<lambda>i. net (n + i) url start stop"
  have step: "fetch_range net url stop (nat (stop - start + 1)) n start [] 0 =
      Some (Suc n, length (carries (?r 0)), if complete (?r 0) then Some (byte_range (files url) start stop) else None)"
    using fetch_range_honest [OF h(1,2,3,4) refl, of "nat (stop - start + 1)" n 0] h by auto
  have split: "(\<exists>j<Suc k. complete (?r j) \<and> (\<forall>i<j. carries (?r i) = [])) \<longleftrightarrow>
      complete (?r 0) \<or> (carries (?r 0) = [] \<and> (\<exists>j<k. complete (?r (Suc j)) \<and> (\<forall>i<j. carries (?r (Suc i)) = [])))"
    by (auto simp: Ex_less_Suc2 All_less_Suc2)
  consider "complete (?r 0)" | "\<not> complete (?r 0)" "carries (?r 0) = []"
    | "\<not> complete (?r 0)" "0 < length (carries (?r 0))" by auto
  then show ?case
  proof cases
    case 1
    then show ?thesis using step by (auto simp: split)
  next
    case 2
    then show ?thesis using step Suc.IH [of "Suc n"] unfolding split by simp
  next
    case 3
    from attempts_after_bytes [OF h 3(2), of k "Suc n"] 3 step show ?thesis unfolding split by auto
  qed
qed simp


text \<open>One broken connection, then a server without faults: the fetch is lost.  A refused
  connection is not.\<close>

definition flaky :: "bool \<Rightarrow> net" where
  "flaky breaks n url a b =
     (if n = 0 then (if breaks then Answer 206 [take 2 (byte_range ''abcdef'' a b)] True else Refuse)
      else Answer 206 [byte_range ''abcdef'' a b] False)"

lemma flaky_honest: "honours_ranges (\<lambda>_. ''abcdef'') (flaky breaks)"
proof -
  have "byte_range ''abcdef'' a b \<noteq> []" if "0 \<le> a" "a \<le> b" "b < 6" for a b
    using that length_byte_range [of a b "''abcdef''"] by auto
  then show ?thesis by (auto simp: honours_ranges_def flaky_def)
qed


end
