(* ===== verification/Json_Codec.thy ===== *)
theory Json_Codec
  imports Py_Json
begin

text \<open>
  A writer and a reader of JSON values without floats, with the law that the theorems ask of
  \<open>json.dumps\<close> and \<open>json.loads\<close>.  They are not the format of the library, which is a parameter
  everywhere; they show that the law can hold, for the theorems' concrete instances.
\<close>

section \<open>Writing\<close>

fun enc_str :: "string \<Rightarrow> string" where
  "enc_str [] = ''.''"
| "enc_str (c # s) = CHR '','' # c # enc_str s"

fun enc :: "json \<Rightarrow> string" where
  "enc JNull = ''n''"
| "enc (JBool b) = (if b then ''t'' else ''f'')"
| "enc (JInt i) = CHR ''i'' # enc_str (show_int i)"
| "enc (JFloat x) = []"
| "enc JNonFinite = ''x''"
| "enc (JStr s) = CHR ''s'' # enc_str s"
| "enc (JList xs) = CHR ''l'' # concat (map (\<lambda>x. CHR '','' # enc x) xs) @ ''.''"
| "enc (JObj d) = CHR ''o'' # concat (map (\<lambda>(k, v). CHR '','' # enc_str k @ enc v) d) @ ''.''"

section \<open>Reading\<close>

fun dec_str :: "string \<Rightarrow> (string \<times> string) option" where
  "dec_str [] = None"
| "dec_str (x # r) =
     (if x = CHR ''.'' then Some ([], r)
      else (case r of [] \<Rightarrow> None | c # r' \<Rightarrow> map_option (\<lambda>(s, t). (c # s, t)) (dec_str r')))"

text \<open>The first argument bounds the depth of the calls; the length of the text is enough.\<close>

fun dec :: "nat \<Rightarrow> string \<Rightarrow> (json \<times> string) option"
  and dec_list :: "nat \<Rightarrow> string \<Rightarrow> (json list \<times> string) option"
  and dec_obj :: "nat \<Rightarrow> string \<Rightarrow> (dict \<times> string) option" where
  "dec 0 s = None"
| "dec (Suc n) s = (case s of [] \<Rightarrow> None | c # r \<Rightarrow>
     (if c = CHR ''n'' then Some (JNull, r)
      else if c = CHR ''t'' then Some (JBool True, r)
      else if c = CHR ''f'' then Some (JBool False, r)
      else if c = CHR ''x'' then Some (JNonFinite, r)
      else if c = CHR ''s'' then map_option (\<lambda>(w, t). (JStr w, t)) (dec_str r)
      else if c = CHR ''i'' then
        (case dec_str r of None \<Rightarrow> None
         | Some (w, t) \<Rightarrow> map_option (\<lambda>i. (JInt i, t)) (parse_int w))
      else if c = CHR ''l'' then map_option (\<lambda>(xs, t). (JList xs, t)) (dec_list n r)
      else if c = CHR ''o'' then map_option (\<lambda>(d, t). (JObj d, t)) (dec_obj n r)
      else None))"
| "dec_list 0 s = None"
| "dec_list (Suc n) s = (case s of [] \<Rightarrow> None | c # r \<Rightarrow>
     (if c = CHR ''.'' then Some ([], r)
      else (case dec n r of None \<Rightarrow> None
            | Some (x, t) \<Rightarrow> map_option (\<lambda>(xs, u). (x # xs, u)) (dec_list n t))))"
| "dec_obj 0 s = None"
| "dec_obj (Suc n) s = (case s of [] \<Rightarrow> None | c # r \<Rightarrow>
     (if c = CHR ''.'' then Some ([], r)
      else (case dec_str r of None \<Rightarrow> None
            | Some (k, t) \<Rightarrow>
                (case dec n t of None \<Rightarrow> None
                 | Some (v, u) \<Rightarrow> map_option (\<lambda>(d, w). ((k, v) # d, w)) (dec_obj n u)))))"

definition loads :: "string \<Rightarrow> json option" where
  "loads s = (case dec (length s) s of Some (v, []) \<Rightarrow> Some v | _ \<Rightarrow> None)"

section \<open>The law\<close>

abbreviation no_floats :: "json \<Rightarrow> bool" where
  "no_floats \<equiv> floats_in (\<lambda>_. False)"

lemma dec_enc_str: "dec_str (enc_str s @ r) = Some (s, r)"
  by (induction s) auto

lemma dec_list_enc:
  "(\<And>x n r. x \<in> set xs \<Longrightarrow> length (enc x) \<le> n \<Longrightarrow> dec n (enc x @ r) = Some (x, r)) \<Longrightarrow>
     length (concat (map (\<lambda>x. CHR '','' # enc x) xs)) < n \<Longrightarrow>
     dec_list n (concat (map (\<lambda>x. CHR '','' # enc x) xs) @ CHR ''.'' # r) = Some (xs, r)"
proof (induction xs arbitrary: n)
  case Nil
  then show ?case by (cases n) auto
next
  case (Cons x xs)
  then obtain m where n: "n = Suc m" by (cases n) auto
  have "dec m (enc x @ t) = Some (x, t)" for t using Cons.prems n by (intro Cons.prems(1)) auto
  moreover have "dec_list m (concat (map (\<lambda>x. CHR '','' # enc x) xs) @ CHR ''.'' # r) = Some (xs, r)"
    using Cons.prems n by (intro Cons.IH) auto
  ultimately show ?case using n by simp
qed

lemma dec_obj_enc:
  "(\<And>k v n r. (k, v) \<in> set d \<Longrightarrow> length (enc v) \<le> n \<Longrightarrow> dec n (enc v @ r) = Some (v, r)) \<Longrightarrow>
     length (concat (map (\<lambda>(k, v). CHR '','' # enc_str k @ enc v) d)) < n \<Longrightarrow>
     dec_obj n (concat (map (\<lambda>(k, v). CHR '','' # enc_str k @ enc v) d) @ CHR ''.'' # r) = Some (d, r)"
proof (induction d arbitrary: n)
  case Nil
  then show ?case by (cases n) auto
next
  case (Cons kv d)
  obtain k v where kv: "kv = (k, v)" by (cases kv) auto
  from Cons obtain m where n: "n = Suc m" by (cases n) auto
  have "dec m (enc v @ t) = Some (v, t)" for t
    using Cons.prems n kv by (intro Cons.prems(1) [of k v]) auto
  moreover have "dec_obj m (concat (map (\<lambda>(k, v). CHR '','' # enc_str k @ enc v) d) @ CHR ''.'' # r) = Some (d, r)"
    using Cons.prems n kv by (intro Cons.IH) auto
  ultimately show ?case using n kv by (simp add: dec_enc_str)
qed

lemma dec_enc: "no_floats v \<Longrightarrow> length (enc v) \<le> n \<Longrightarrow> dec n (enc v @ r) = Some (v, r)"
proof (induction v arbitrary: n r)
  case (JList xs)
  then obtain m where n: "n = Suc m" by (cases n) auto
  have "dec_list m (concat (map (\<lambda>x. CHR '','' # enc x) xs) @ CHR ''.'' # r) = Some (xs, r)"
    using JList n by (intro dec_list_enc) (auto simp: list_all_iff)
  then show ?case using n by simp
next
  case (JObj d)
  then obtain m where n: "n = Suc m" by (cases n) auto
  have "dec_obj m (concat (map (\<lambda>(k, v). CHR '','' # enc_str k @ enc v) d) @ CHR ''.'' # r) = Some (d, r)"
    using JObj n by (intro dec_obj_enc) (fastforce simp: list_all_iff)+
  then show ?case using n by simp
qed (case_tac n; simp add: dec_enc_str split: if_splits)+

lemma loads_enc: "no_floats v \<Longrightarrow> loads (enc v) = Some v"
  using dec_enc [of v "length (enc v)" "[]"] by (simp add: loads_def)

lemma dec_no_floats:
  "dec n s = Some (v, t) \<Longrightarrow> no_floats v"
  "dec_list n s = Some (xs, t) \<Longrightarrow> list_all no_floats xs"
  "dec_obj n s = Some (d, t) \<Longrightarrow> list_all no_floats (map snd d)"
proof (induction n s and n s and n s arbitrary: v t and xs t and d t rule: dec_dec_list_dec_obj.induct)
qed (auto split: list.splits if_splits option.splits prod.splits)

lemma loads_no_floats: "loads s = Some v \<Longrightarrow> no_floats v"
  by (auto simp: loads_def split: option.splits prod.splits list.splits dest: dec_no_floats(1))

end
