(* ===== verification/Ablit_Complete.thy ===== *)
theory Ablit_Complete
  imports Ablit_Fetch Json_Codec
begin

text \<open>
  The download and the hook together: a directory that \<open>fetch_transplant.py\<close> reports as complete
  is one that \<open>ablit_runtime.py\<close> accepts for every layer, also after runs that failed half-way.
\<close>

section \<open>Lengths of what is fetched\<close>

lemma fetch_range_length:
  assumes "fetch_range net url stop wanted n pos out got = Some (n', got', Some bs)"
  shows "length bs = wanted"
proof -
  have "fetch_range net url stop wanted n pos out got = Some r \<Longrightarrow> snd (snd r) = Some bs \<Longrightarrow> length bs = wanted" for r
  proof (induction rule: fetch_range.raw_induct [rotated 1, consumes 1])
    case (1 f net url stop wanted n pos out got r)
    from 1(2) 1(3) show ?case
      by (auto simp: Let_def split: if_splits answer.splits dest!: 1(1))
  qed
  from this [OF assms] show ?thesis by simp
qed

lemma fetch_attempts_length:
  "fetch_attempts net url start stop k n got = Some (n', Some bs) \<Longrightarrow> length bs = nat (stop - start + 1)"
  by (induction net url start stop k n got rule: fetch_attempts.induct)
     (auto split: option.splits prod.splits dest: fetch_range_length)

lemma fetch_range_empty: "stop < pos \<Longrightarrow> fetch_range net url stop wanted n pos out got = Some (n, got, None)"
  by (subst fetch_range.simps) simp

lemma fetch_attempts_empty: "stop < start \<Longrightarrow> fetch_attempts net url start stop k n got = Some (n, None)"
  by (induction k arbitrary: n got) (simp_all add: fetch_range_empty)

lemma fetch_bytes_length:
  assumes "fetch_bytes net url start stop n = Some (n', Some bs)"
  shows "int (length bs) = stop - start + 1"
proof -
  have "start \<le> stop" using assms fetch_attempts_empty [of stop start] by (fastforce simp: fetch_bytes_def)
  then show ?thesis using assms by (auto simp: fetch_bytes_def dest: fetch_attempts_length)
qed

section \<open>Paths\<close>

lemma bin_path_inj [simp]: "bin_path tdir k = bin_path tdir l \<longleftrightarrow> k = l"
  by (simp add: bin_path_def path_join_def)

lemma bin_not_manifest [simp]: "bin_path tdir l \<noteq> manifest_path tdir" "manifest_path tdir \<noteq> bin_path tdir l"
  by (simp_all add: bin_path_def manifest_path_def path_join_def)

lemma tmp_not_manifest [simp]: "tmp_path tdir l \<noteq> manifest_path tdir" "manifest_path tdir \<noteq> tmp_path tdir l"
  by (simp_all add: tmp_path_def manifest_path_def path_join_def)

lemma bin_not_tmp [simp]: "bin_path tdir k \<noteq> tmp_path tdir l"
proof
  assume "bin_path tdir k = tmp_path tdir l"
  then have "last (bin_path tdir k) = last (tmp_path tdir l)" by simp
  then show False by (simp add: bin_path_def tmp_path_def path_join_def)
qed

section \<open>Manifests that the program writes\<close>

text \<open>The law of \<open>json.dumps\<close> and \<open>json.loads\<close>: for some set \<open>F\<close> of floats (the doubles), parsing
  yields only such floats, and an object with only such floats is read back as it was
  written.\<close>

definition round_trip :: "(real \<Rightarrow> bool) \<Rightarrow> readers \<Rightarrow> (json \<Rightarrow> bytes) \<Rightarrow> bool" where
  "round_trip F rd json_dumps \<longleftrightarrow> (\<forall>s v. json_loads rd s = Some v \<longrightarrow> floats_in F v)
     \<and> (\<forall>d. floats_in F (JObj d) \<longrightarrow> json_loads rd (json_dumps (JObj d)) = Some (JObj d))"

lemma floats_in_item: "json_item v k = Inr x \<Longrightarrow> floats_in F v \<Longrightarrow> floats_in F x"
  by (fastforce simp: json_item_def opt_res_def list_all_iff split: json.splits option.splits dest: map_of_SomeD)

text \<open>An entry that records some content, and a manifest of such entries under written layer
  numbers.\<close>

definition recorded :: "readers \<Rightarrow> json \<Rightarrow> bytes \<Rightarrow> bool" where
  "recorded rd e data \<longleftrightarrow> json_item e ''sha256'' = Inr (JStr (sha256 rd data))
     \<and> json_item e ''nbytes'' = Inr (JInt (int (length data)))"

definition sound_entries :: "readers \<Rightarrow> dict \<Rightarrow> bool" where
  "sound_entries rd ls \<longleftrightarrow> distinct (map fst ls)
     \<and> (\<forall>(k, e)\<in>set ls. (\<exists>l. k = show_int l) \<and> (\<exists>data. recorded rd e data))"

definition sound_man :: "(real \<Rightarrow> bool) \<Rightarrow> readers \<Rightarrow> dict \<Rightarrow> bool" where
  "sound_man F rd man \<longleftrightarrow> floats_in F (JObj man) \<and> (\<exists>ls. man_layers man = Inr ls \<and> sound_entries rd ls)"

definition digests_tell_length :: "readers \<Rightarrow> bool" where
  "digests_tell_length rd \<longleftrightarrow> (\<forall>a b. sha256 rd a = sha256 rd b \<longrightarrow> length a = length b)"

lemma man_layers_Inr: "man_layers man = Inr ls \<longleftrightarrow> map_of man ''layers'' = Some (JObj ls)"
  by (auto simp: man_layers_def split: option.splits json.splits)

lemma sound_new_manifest: "sound_man F rd (new_manifest job)"
  by (simp add: sound_man_def new_manifest_def man_layers_def sound_entries_def)

lemma recorded_new_entry:
  "n = int (length data) \<Longrightarrow> recorded rd (new_entry rd shard l dt shape n data) data"
  by (simp add: recorded_def new_entry_def json_item_def opt_res_def)

lemma floats_in_set:
  "floats_in F (JObj d) \<Longrightarrow> floats_in F v \<Longrightarrow> floats_in F (JObj (dict_set d k v))"
  by (induction d) auto

lemma floats_in_layers: "man_layers man = Inr ls \<Longrightarrow> floats_in F (JObj man) \<Longrightarrow> floats_in F (JObj ls)"
  by (fastforce simp: man_layers_Inr list_all_iff dest: map_of_SomeD)

lemma sound_entries_set:
  "sound_entries rd ls \<Longrightarrow> recorded rd e data \<Longrightarrow> sound_entries rd (dict_set ls (show_int l) e)"
  by (fastforce simp: sound_entries_def dest!: set_dict_set)

lemma recorded_get: "recorded rd e data \<Longrightarrow> json_get e ''sha256'' = Inr (JStr (sha256 rd data))"
  by (auto simp: recorded_def json_item_def json_get_def jget_def opt_res_def split: json.splits option.splits)

section \<open>A layer that is complete\<close>

definition complete_layer :: "readers \<Rightarrow> disk \<Rightarrow> string \<Rightarrow> dict \<Rightarrow> int \<Rightarrow> bool" where
  "complete_layer rd fs tdir man l \<longleftrightarrow>
     (\<exists>ls e data. man_layers man = Inr ls \<and> map_of ls (show_int l) = Some e
        \<and> fs (bin_path tdir l) = Some data \<and> recorded rd e data)"

lemma already_complete:
  assumes "already_fetched rd fs tdir man l = Inr True" "sound_man F rd man" "digests_tell_length rd"
  shows "complete_layer rd fs tdir man l"
proof -
  obtain data where data: "fs (bin_path tdir l) = Some data"
    using assms(1) by (cases "fs (bin_path tdir l)") (simp_all add: already_fetched_def)
  obtain ls where ls: "man_layers man = Inr ls" using assms(2) by (auto simp: sound_man_def)
  obtain e where e: "map_of ls (show_int l) = Some e"
    using assms(1) data ls by (cases "map_of ls (show_int l)") (simp_all add: already_fetched_def)
  then have "crash (json_get e ''sha256'') = Inr (JStr (sha256 rd data))"
    using assms(1) data ls by (cases "crash (json_get e ''sha256'')") (simp_all add: already_fetched_def)
  note f = data ls e this
  obtain data' where d: "recorded rd e data'"
    using assms(2) f(2) map_of_SomeD [OF f(3)] by (auto simp: sound_man_def sound_entries_def)
  then have same: "sha256 rd data = sha256 rd data'"
    using f(4) recorded_get [OF d] by (simp add: crash_def)
  then have "length data = length data'" using assms(3) unfolding digests_tell_length_def by blast
  with d same have "recorded rd e data" by (simp add: recorded_def)
  with f show ?thesis by (simp add: complete_layer_def)
qed

lemma complete_already: "complete_layer rd fs tdir man l \<Longrightarrow> already_fetched rd fs tdir man l = Inr True"
  by (auto simp: complete_layer_def already_fetched_def crash_def dest!: recorded_get)

lemma download_recorded:
  assumes "download rd net job shard l n = Some (n', Inr (data, e))"
  shows "recorded rd e data"
  using assms
  by (auto simp: download_def Let_def split: option.splits prod.splits sum.splits
      intro!: recorded_new_entry dest!: fetch_bytes_length)

lemma span_of_floats:
  assumes "span_of header key n = Inr (start, stop, meta)" "\<And>v. header = Some v \<Longrightarrow> floats_in F v"
  shows "floats_in F meta"
proof -
  obtain d where d: "header = Some (JObj d)"
    using assms(1) by (auto simp: span_of_def split: option.splits json.splits)
  obtain v where v: "map_of d key = Some v"
    using assms(1) d by (cases "map_of d key") (auto simp: span_of_def)
  then have "v = meta" using assms(1) d by (auto simp: span_of_def)
  then show ?thesis using assms(2) [OF d] map_of_SomeD [OF v] by (auto simp: list_all_iff)
qed

lemma span_floats:
  assumes "safetensors_span rd net url key n = Some (n', Inr (start, stop, meta))" "round_trip F rd json_dumps"
  shows "floats_in F meta"
proof -
  have "\<exists>hdr len. span_of (json_loads rd hdr) key len = Inr (start, stop, meta)"
    using assms(1)
    by (auto simp: safetensors_span_def Let_def split: answer.splits if_splits option.splits prod.splits)
  then show ?thesis using assms(2) span_of_floats by (fastforce simp: round_trip_def)
qed

lemma crash_Inr [simp]: "crash r = Inr x \<longleftrightarrow> r = Inr x"
  by (auto simp: crash_def split: sum.splits ablit_error.splits)

lemma download_floats:
  assumes "download rd net job shard l n = Some (n', Inr (data, e))" "round_trip F rd json_dumps"
  shows "floats_in F e"
proof -
  obtain n1 start stop meta where s: "safetensors_span rd net (path_join (base job) shard) (tensor_key l) n
      = Some (n1, Inr (start, stop, meta))"
    using assms(1) by (auto simp: download_def Let_def split: option.splits sum.splits prod.splits)
  note m = span_floats [OF s assms(2)]
  have "\<exists>dt shape k. json_item meta ''dtype'' = Inr dt \<and> json_item meta ''shape'' = Inr shape
      \<and> e = new_entry rd shard l dt shape k data"
    using assms(1) s by (auto simp: download_def Let_def split: option.splits sum.splits prod.splits)
  then show ?thesis using m floats_in_item by (fastforce simp: new_entry_def)
qed

lemma add_entry_sound:
  assumes "add_entry man l e = Inr man'" "sound_man F rd man" "recorded rd e data" "floats_in F e"
  shows "sound_man F rd man'" "\<And>k. k \<noteq> ''layers'' \<Longrightarrow> map_of man' k = map_of man k"
    "\<exists>ls. man_layers man = Inr ls \<and> man_layers man' = Inr (dict_set ls (show_int l) e)"
proof -
  obtain ls where ls: "man_layers man = Inr ls" "sound_entries rd ls"
    using assms(2) by (auto simp: sound_man_def)
  then have m: "man' = dict_set man ''layers'' (JObj (dict_set ls (show_int l) e))"
    using assms(1) by (simp add: add_entry_def)
  then have "man_layers man' = Inr (dict_set ls (show_int l) e)" by (simp add: man_layers_Inr)
  then show "sound_man F rd man'" "\<exists>ls. man_layers man = Inr ls \<and> man_layers man' = Inr (dict_set ls (show_int l) e)"
    using ls sound_entries_set assms(2-4) m floats_in_set floats_in_layers [OF ls(1)]
    by (auto simp: sound_man_def)
  show "map_of man' k = map_of man k" if "k \<noteq> ''layers''" for k using that m by simp
qed

section \<open>The loop over the layers\<close>

text \<open>What a step keeps: the manifest is sound, only its layers change, what was complete stays
  complete, and the manifest file holds a sound manifest or is the old one.\<close>

definition keeps ::
  "(real \<Rightarrow> bool) \<Rightarrow> readers \<Rightarrow> (json \<Rightarrow> bytes) \<Rightarrow> string \<Rightarrow> disk \<Rightarrow> dict \<Rightarrow> disk \<Rightarrow> dict \<Rightarrow> bool" where
  "keeps F rd json_dumps tdir fs man fs' man' \<longleftrightarrow> sound_man F rd man'
     \<and> (\<forall>k. k \<noteq> ''layers'' \<longrightarrow> map_of man' k = map_of man k)
     \<and> (\<forall>l. complete_layer rd fs tdir man l \<longrightarrow> complete_layer rd fs' tdir man' l)
     \<and> (fs' (manifest_path tdir) = fs (manifest_path tdir)
        \<or> (\<exists>m. sound_man F rd m \<and> fs' (manifest_path tdir) = Some (json_dumps (JObj m))))"

lemma keeps_refl: "sound_man F rd man \<Longrightarrow> keeps F rd json_dumps tdir fs man fs man"
  by (simp add: keeps_def)

lemma keeps_trans:
  "keeps F rd json_dumps tdir fs man fs1 man1 \<Longrightarrow> keeps F rd json_dumps tdir fs1 man1 fs2 man2 \<Longrightarrow>
     keeps F rd json_dumps tdir fs man fs2 man2"
  unfolding keeps_def by metis

text \<open>The writes of a downloaded layer.\<close>

lemma written_layer:
  assumes "add_entry man l e = Inr man'" "sound_man F rd man" "recorded rd e data" "floats_in F e"
    and "fs' = fs(tmp_path tdir l := None, bin_path tdir l \<mapsto> data, manifest_path tdir \<mapsto> json_dumps (JObj man'))"
  shows "keeps F rd json_dumps tdir fs man fs' man'" "complete_layer rd fs' tdir man' l"
proof -
  note a = add_entry_sound [OF assms(1-4)]
  obtain ls where ls: "man_layers man = Inr ls" "man_layers man' = Inr (dict_set ls (show_int l) e)"
    using a(3) by blast
  show here: "complete_layer rd fs' tdir man' l"
    using ls(2) assms(3,5) by (auto simp: complete_layer_def)
  have "complete_layer rd fs' tdir man' k" if "complete_layer rd fs tdir man k" for k
  proof (cases "k = l")
    case False
    have "fs' (bin_path tdir k) = fs (bin_path tdir k)" using assms(5) False by simp
    with that ls False show ?thesis by (auto simp: complete_layer_def)
  qed (use here in simp)
  moreover have "fs' (manifest_path tdir) = Some (json_dumps (JObj man'))" using assms(5) by simp
  ultimately show "keeps F rd json_dumps tdir fs man fs' man'"
    using a(1,2) by (auto simp: keeps_def)
qed

lemma fetch_layer_cases:
  assumes "fetch_layer rd json_dumps net job idx l fs n man = Some (fs', n', res)" "sound_man F rd man"
    and "digests_tell_length rd" "round_trip F rd json_dumps"
  shows "(\<exists>e. fs' = fs \<and> res = Inl e)
     \<or> (\<exists>man'. res = Inr man' \<and> keeps F rd json_dumps (out_dir job) fs man fs' man'
          \<and> complete_layer rd fs' (out_dir job) man' l \<and> map_of idx (tensor_key l) \<noteq> None)"
proof (cases "map_of idx (tensor_key l)")
  case None
  then show ?thesis using assms(1) by (auto simp: fetch_layer_def)
next
  case (Some shard)
  show ?thesis
  proof (cases "already_fetched rd fs (out_dir job) man l")
    case (Inl e)
    then show ?thesis using Some assms(1) by (auto simp: fetch_layer_def)
  next
    case got: (Inr b)
    show ?thesis
    proof (cases b)
      case True
      then show ?thesis
        using Some got assms already_complete [OF _ assms(2,3)] keeps_refl [OF assms(2)]
        by (auto simp: fetch_layer_def)
    next
      case False
      obtain n1 r where d: "download rd net job shard l n = Some (n1, r)"
        using Some got False assms(1) by (auto simp: fetch_layer_def split: option.splits)
      show ?thesis
      proof (cases r)
        case (Inl e)
        then show ?thesis using Some got False d assms(1) by (auto simp: fetch_layer_def)
      next
        case (Inr x)
        obtain data e where x: "x = (data, e)" by (cases x)
        have rec: "recorded rd e data" "floats_in F e"
          using download_recorded download_floats d Inr x assms(4) by blast+
        obtain man' where add: "add_entry man l e = Inr man'"
          using assms(2) by (auto simp: add_entry_def sound_man_def)
        have "fs' = fs(tmp_path (out_dir job) l := None, bin_path (out_dir job) l \<mapsto> data,
            manifest_path (out_dir job) \<mapsto> json_dumps (JObj man'))" "res = Inr man'"
          using Some got False d Inr x add assms(1) by (auto simp: fetch_layer_def Let_def)
        with written_layer [OF add assms(2) rec] Some show ?thesis by simp
      qed
    qed
  qed
qed

lemma fetch_loop_result:
  "fetch_loop rd json_dumps net job idx ls fs n man = Some (fs', n', res) \<Longrightarrow> sound_man F rd man \<Longrightarrow>
     digests_tell_length rd \<Longrightarrow> round_trip F rd json_dumps \<Longrightarrow>
     \<exists>man'. keeps F rd json_dumps (out_dir job) fs man fs' man' \<and> (ok_res res \<longrightarrow> res = Inr man'
       \<and> (\<forall>l\<in>set ls. complete_layer rd fs' (out_dir job) man' l \<and> map_of idx (tensor_key l) \<noteq> None))"
proof (induction ls arbitrary: fs n man)
  case Nil
  then show ?case using keeps_refl by auto
next
  case (Cons l ls)
  obtain fs1 n1 r1 where one: "fetch_layer rd json_dumps net job idx l fs n man = Some (fs1, n1, r1)"
    using Cons.prems(1) by (auto split: option.splits)
  from fetch_layer_cases [OF this Cons.prems(2-4)] show ?case
  proof (elim disjE exE conjE)
    fix e assume "fs1 = fs" "r1 = Inl e"
    then have "fs' = fs" "res = Inl e" using one Cons.prems(1) by auto
    then show ?case using keeps_refl [OF Cons.prems(2)] by auto
  next
    fix man1 assume r1: "r1 = Inr man1" and k: "keeps F rd json_dumps (out_dir job) fs man fs1 man1"
      and c: "complete_layer rd fs1 (out_dir job) man1 l" and i: "map_of idx (tensor_key l) \<noteq> None"
    have go: "fetch_loop rd json_dumps net job idx ls fs1 n1 man1 = Some (fs', n', res)"
      using Cons.prems(1) one r1 by simp
    have "sound_man F rd man1" using k by (simp add: keeps_def)
    then obtain man' where m: "keeps F rd json_dumps (out_dir job) fs1 man1 fs' man'"
      "ok_res res \<longrightarrow> res = Inr man' \<and> (\<forall>l\<in>set ls. complete_layer rd fs' (out_dir job) man' l
         \<and> map_of idx (tensor_key l) \<noteq> None)"
      using Cons.IH [OF go _ Cons.prems(3,4)] by blast
    have "complete_layer rd fs' (out_dir job) man' l" using m(1) c by (auto simp: keeps_def)
    then show ?case using keeps_trans [OF k m(1)] m(2) i by auto
  qed
qed

text \<open>A second pass over complete layers does nothing.\<close>

lemma fetch_loop_again:
  "(\<And>l. l \<in> set ls \<Longrightarrow> complete_layer rd fs (out_dir job) man l \<and> map_of idx (tensor_key l) \<noteq> None) \<Longrightarrow>
     fetch_loop rd json_dumps net job idx ls fs n man = Some (fs, n, Inr man)"
  by (induction ls) (fastforce simp: fetch_layer_def complete_already)+

section \<open>Directories that runs leave\<close>

definition sound_disk :: "(real \<Rightarrow> bool) \<Rightarrow> readers \<Rightarrow> string \<Rightarrow> disk \<Rightarrow> bool" where
  "sound_disk F rd tdir fs \<longleftrightarrow> (\<forall>raw. fs (manifest_path tdir) = Some raw \<longrightarrow>
     (\<exists>man. json_loads rd raw = Some (JObj man) \<and> sound_man F rd man))"

text \<open>The directory after any runs of the program: for any donor and layers, against any network,
  successful or not.\<close>

inductive left_by_runs :: "readers \<Rightarrow> (json \<Rightarrow> bytes) \<Rightarrow> string \<Rightarrow> disk \<Rightarrow> bool"
  for rd json_dumps tdir where
  no_manifest: "fs (manifest_path tdir) = None \<Longrightarrow> left_by_runs rd json_dumps tdir fs"
| run: "left_by_runs rd json_dumps tdir fs \<Longrightarrow> out_dir job = tdir \<Longrightarrow>
    fetch_main rd json_dumps net job check_only fs = Some (fs', res) \<Longrightarrow>
    left_by_runs rd json_dumps tdir fs'"

lemma round_trip_man: "round_trip F rd json_dumps \<Longrightarrow> sound_man F rd m \<Longrightarrow>
    json_loads rd (json_dumps (JObj m)) = Some (JObj m)"
  by (simp add: round_trip_def sound_man_def)

lemma keeps_sound_disk:
  "keeps F rd json_dumps tdir fs man fs' man' \<Longrightarrow> sound_disk F rd tdir fs \<Longrightarrow> round_trip F rd json_dumps \<Longrightarrow>
     sound_disk F rd tdir fs'"
  by (auto simp: keeps_def sound_disk_def round_trip_man)

lemma load_manifest_sound:
  "load_manifest rd job fs = Inr (Some man) \<Longrightarrow> sound_disk F rd (out_dir job) fs \<Longrightarrow>
     sound_man F rd man \<and> jget man ''donor'' = JStr (donor job) \<and> jget man ''donor_revision'' = JStr (revision job)"
  by (auto simp: load_manifest_def sound_disk_def split: option.splits json.splits if_splits)

text \<open>A run in its parts.\<close>

lemma fetch_all_cases:
  assumes "fetch_all rd json_dumps net job layers fs = Some (fs', res)" "sound_disk F rd (out_dir job) fs"
    and "digests_tell_length rd" "round_trip F rd json_dumps"
  obtains (early) e where "fs' = fs" "res = Inl e"
  | (aborted) man fs1 man1 where "keeps F rd json_dumps (out_dir job) fs man fs1 man1" "\<not> ok_res res" "fs' = fs1"
  | (finished) man fs1 man1 idx where "keeps F rd json_dumps (out_dir job) fs man fs1 man1"
      "jget man ''donor'' = JStr (donor job)" "jget man ''donor_revision'' = JStr (revision job)"
      "first_answer (index_answers job) 0 retries = Some idx"
      "\<forall>l\<in>set layers. complete_layer rd fs1 (out_dir job) man1 l \<and> map_of idx (tensor_key l) \<noteq> None"
      "fs' = fs1(manifest_path (out_dir job) \<mapsto> json_dumps (JObj man1))"
proof (cases "first_answer (index_answers job) 0 retries")
  case None
  then show ?thesis using assms(1) early by (auto simp: fetch_all_def)
next
  case (Some idx)
  show ?thesis
  proof (cases "load_manifest rd job fs")
    case (Inl e)
    then show ?thesis using Some assms(1) early by (auto simp: fetch_all_def)
  next
    case (Inr m)
    define man where "man = (case m of None \<Rightarrow> new_manifest job | Some man \<Rightarrow> man)"
    have man: "sound_man F rd man" "jget man ''donor'' = JStr (donor job)"
      "jget man ''donor_revision'' = JStr (revision job)"
    proof (atomize (full), cases m)
      case None
      then show "sound_man F rd man \<and> jget man ''donor'' = JStr (donor job)
          \<and> jget man ''donor_revision'' = JStr (revision job)"
        using sound_new_manifest [of F rd job] by (simp add: man_def) (simp add: new_manifest_def jget_def)
    next
      case (Some man0)
      then show "sound_man F rd man \<and> jget man ''donor'' = JStr (donor job)
          \<and> jget man ''donor_revision'' = JStr (revision job)"
        using load_manifest_sound [OF _ assms(2), of man0] Inr by (simp add: man_def)
    qed
    obtain fs1 n r where l: "fetch_loop rd json_dumps net job idx layers fs 0 man = Some (fs1, n, r)"
      using Some Inr assms(1) by (auto simp: fetch_all_def man_def split: option.splits)
    then obtain man1 where k: "keeps F rd json_dumps (out_dir job) fs man fs1 man1"
      "ok_res r \<longrightarrow> r = Inr man1 \<and> (\<forall>l\<in>set layers. complete_layer rd fs1 (out_dir job) man1 l
         \<and> map_of idx (tensor_key l) \<noteq> None)"
      using fetch_loop_result [OF l man(1) assms(3,4)] by blast
    show ?thesis
    proof (cases r)
      case (Inl e)
      then show ?thesis using Some Inr assms(1) l aborted [OF k(1)] by (auto simp: fetch_all_def man_def)
    next
      case r: (Inr man2)
      then have "fs' = fs1(manifest_path (out_dir job) \<mapsto> json_dumps (JObj man1))"
        using Some Inr assms(1) l k(2) by (auto simp: fetch_all_def man_def)
      then show ?thesis using finished [OF k(1) man(2,3) Some] k(2) r by simp
    qed
  qed
qed

lemma fetch_main_sound_disk:
  assumes "fetch_main rd json_dumps net job check_only fs = Some (fs', res)" "sound_disk F rd (out_dir job) fs"
    and "digests_tell_length rd" "round_trip F rd json_dumps"
  shows "sound_disk F rd (out_dir job) fs'"
proof (cases "fs' = fs")
  case False
  then obtain layers where "fetch_all rd json_dumps net job layers fs = Some (fs', res)"
    using assms(1) by (auto simp: fetch_main_def split: sum.splits if_splits)
  from this assms(2-4) show ?thesis
  proof (cases rule: fetch_all_cases)
    case (finished man fs1 man1 idx)
    then show ?thesis using assms(4) by (auto simp: sound_disk_def keeps_def round_trip_man)
  qed (use assms keeps_sound_disk in auto)
qed (use assms in simp)

lemma left_by_runs_sound:
  "left_by_runs rd json_dumps tdir fs \<Longrightarrow> digests_tell_length rd \<Longrightarrow> round_trip F rd json_dumps \<Longrightarrow>
     sound_disk F rd tdir fs"
proof (induction rule: left_by_runs.induct)
  case (run fs job net check_only fs' res)
  then show ?case using fetch_main_sound_disk by blast
qed (simp add: sound_disk_def)

section \<open>What the hook reads\<close>

lemma int_keys_entries:
  "\<forall>(k, e)\<in>set kvs. \<exists>l. k = show_int l \<Longrightarrow> distinct (map fst kvs) \<Longrightarrow>
     \<exists>m. int_keys kvs d = Inr m \<and>
       (\<forall>l. map_of m l = (case map_of kvs (show_int l) of None \<Rightarrow> map_of d l | Some e \<Rightarrow> Some e))"
proof (induction kvs d rule: int_keys.induct)
  case (2 k v kvs d)
  then obtain i where i: "k = show_int i" by auto
  then obtain m where m: "int_keys kvs (dict_set d i v) = Inr m"
    "\<And>l. map_of m l = (case map_of kvs (show_int l) of None \<Rightarrow> map_of (dict_set d i v) l | Some e \<Rightarrow> Some e)"
    using 2 by auto
  have "map_of kvs (show_int i) = None" using 2(3) i by (simp add: map_of_eq_None_iff)
  then show ?case using m i by (auto split: option.splits)
qed simp

lemma check_layers_all:
  "(\<And>l. l \<in> set ls \<Longrightarrow> \<exists>e. map_of meta l = Some e \<and> check_entry fs tdir l e = Inr e) \<Longrightarrow>
     \<exists>out. check_layers fs tdir meta ls = Inr out \<and> map fst out = ls"
proof (induction ls)
  case (Cons l ls)
  obtain e where e: "map_of meta l = Some e" "check_entry fs tdir l e = Inr e" using Cons.prems [of l] by auto
  obtain out where "check_layers fs tdir meta ls = Inr out" "map fst out = ls" using Cons by auto
  with e show ?case by auto
qed simp

lemma recorded_check:
  assumes "recorded rd e data" "fs (bin_path tdir l) = Some data"
    "json_item e ''dtype'' = Inr (JStr ''BF16'')" "sha256 rd data \<noteq> []"
  shows "check_entry fs tdir l e = Inr e"
  using assms recorded_get [OF assms(1)] by (simp add: check_entry_def recorded_def json_int_def)

text \<open>The entry of a layer in the manifest file.\<close>

definition manifest_entry :: "readers \<Rightarrow> disk \<Rightarrow> string \<Rightarrow> int \<Rightarrow> json option" where
  "manifest_entry rd fs tdir l =
     (case fs (manifest_path tdir) of
        None \<Rightarrow> None
      | Some raw \<Rightarrow>
          (case json_loads rd raw of
             Some (JObj man) \<Rightarrow> (case man_layers man of Inr ls \<Rightarrow> map_of ls (show_int l) | Inl _ \<Rightarrow> None)
           | _ \<Rightarrow> None))"

lemma manifest_entry_eq:
  "fs (manifest_path tdir) = Some raw \<Longrightarrow> json_loads rd raw = Some (JObj man) \<Longrightarrow> man_layers man = Inr ents \<Longrightarrow>
     manifest_entry rd fs tdir l = map_of ents (show_int l)"
  by (simp add: manifest_entry_def)

lemma hook_accepts:
  assumes raw: "fs (manifest_path (transplant_dir d)) = Some raw" "json_loads rd raw = Some (JObj man)"
    and man: "man_layers man = Inr ents" "sound_entries rd ents"
    and all: "\<forall>l\<in>set ls. \<exists>e data. map_of ents (show_int l) = Some e \<and> fs (bin_path (transplant_dir d) l) = Some data
        \<and> recorded rd e data \<and> json_item e ''dtype'' = Inr (JStr ''BF16'')"
    and ne: "ls \<noteq> []" "\<And>data. sha256 rd data \<noteq> []"
  shows "\<exists>out. transplant_meta (json_loads rd) fs d ls = Inr out \<and> map fst out = ls"
proof -
  have "ents \<noteq> []" using all ne(1) by (cases ls) auto
  then have mm: "manifest_meta (JObj man) = int_keys ents []"
    using man(1) by (simp add: manifest_meta_def json_get_def jget_def man_layers_Inr)
  have "\<forall>(k, e)\<in>set ents. \<exists>l. k = show_int l" "distinct (map fst ents)"
    using man(2) by (auto simp: sound_entries_def)
  from int_keys_entries [OF this, of "[]"] obtain meta where meta: "int_keys ents [] = Inr meta"
    "\<And>l. map_of meta l = (case map_of ents (show_int l) of None \<Rightarrow> map_of [] l | Some e \<Rightarrow> Some e)"
    by blast
  have "\<exists>e. map_of meta l = Some e \<and> check_entry fs (transplant_dir d) l e = Inr e" if "l \<in> set ls" for l
    using all that recorded_check ne(2) by (fastforce simp: meta(2))
  from check_layers_all [of ls meta fs "transplant_dir d", OF this] obtain out
    where "check_layers fs (transplant_dir d) meta ls = Inr out" "map fst out = ls" by blast
  moreover from this have "out \<noteq> []" using ne(1) by auto
  ultimately show ?thesis
    using raw mm meta(1) by (simp add: transplant_meta_def Let_def opt_res_def)
qed

lemma check_complete:
  assumes "load_manifest rd job fs = Inr (Some man)"
    and "\<forall>l\<in>set ls. complete_layer rd fs (out_dir job) man l" and "ls \<noteq> []"
  shows "fetch_check rd job fs ls = Inr 0"
proof -
  obtain ents where ents: "map_of man ''layers'' = Some (JObj ents)"
    using assms(2,3) by (cases ls) (auto simp: complete_layer_def man_layers_Inr)
  have "entry_missing fs (out_dir job) ents l = Inr False" if "l \<in> set ls" for l
    using assms(2) that ents
    by (fastforce simp: complete_layer_def man_layers_Inr entry_missing_def recorded_def crash_def)
  then have "map_res (entry_missing fs (out_dir job) ents) ls = Inr (map (\<lambda>_. False) ls)"
    by (intro map_res_pure) auto
  then show ?thesis using assms(1) ents by (simp add: fetch_check_def list_ex_iff)
qed

section \<open>A complete download\<close>

lemma parsed_by_both: "parse_layers spec = Inr ls \<Longrightarrow> fetch_layers spec = Inr ls"
  by (auto simp: parse_layers_def fetch_layers_def layers_of_spec layer_parts_iff)


section \<open>A download from the beginning\<close>

definition codec_readers :: readers where
  "codec_readers = \<lparr>json_loads = loads, sha256 = (#) CHR ''h'', bf16 = \<lambda>_. [1, 2, 3, 4], os_read = Suc\<rparr>"

lemma codec_laws: "round_trip (\<lambda>_. False) codec_readers enc" "digests_tell_length codec_readers"
  "sha256 codec_readers data \<noteq> []"
  unfolding round_trip_def digests_tell_length_def codec_readers_def
  using loads_enc loads_no_floats by (simp_all del: enc.simps floats_in.simps)

text \<open>A file of the donor with one tensor of four bytes.\<close>

definition demo_header :: json where
  "demo_header = JObj [(tensor_key 15, JObj [(''dtype'', JStr ''BF16''), (''shape'', JList [JInt 2, JInt 2]),
     (''data_offsets'', JList [JInt 0, JInt 4])])]"

definition demo_prefix :: bytes where
  "demo_prefix = map char_of [length (enc demo_header) mod 256, length (enc demo_header) div 256, 0, 0, 0, 0, 0, 0]"

definition demo_file :: bytes where
  "demo_file = demo_prefix @ enc demo_header @ ''abcd''"

definition demo_net :: net where
  "demo_net n url a b = Answer 206 [byte_range demo_file a b] False"

definition demo_job :: job where
  "demo_job = \<lparr>donor = ''donor'', revision = ''1'', base = ''https:'', out_dir = transplant_dir ''ablit'',
     layers_spec = ''15'', index_answers = \<lambda>_. Some [(tensor_key 15, ''shard'')]\<rparr>"

lemma length_enc_str: "length (enc_str w) = 2 * length w + 1"
  by (induction w) auto

lemma demo_len: "length (enc demo_header) < 65536" "0 < length (enc demo_header)"
proof -
  have n: "show_int 15 = ''15''" "show_int 2 = ''2''" "show_int 0 = ''0''" "show_int 4 = ''4''"
    by code_simp+
  show "length (enc demo_header) < 65536" "0 < length (enc demo_header)"
    by (simp_all add: demo_header_def tensor_key_def n)
qed

lemma length_prefix [simp]: "length demo_prefix = 8"
  by (simp add: demo_prefix_def)

lemma demo_size: "length demo_file = 12 + length (enc demo_header)"
  by (simp add: demo_file_def)

lemma demo_ranges:
  "byte_range demo_file 0 7 = demo_prefix"
  "byte_range demo_file 8 (8 + int (length (enc demo_header)) - 1) = enc demo_header"
  "byte_range demo_file (8 + int (length (enc demo_header))) (8 + int (length (enc demo_header)) + 4 - 1) = ''abcd''"
  by (simp_all add: byte_range_def demo_file_def nat_add_distrib)

lemma demo_prefix_int: "le_int demo_prefix = int (length (enc demo_header))"
proof -
  have "le_int demo_prefix = int (length (enc demo_header) mod 256) + 256 * int (length (enc demo_header) div 256)"
    using demo_len(1) by (simp add: le_int_def demo_prefix_def ord_c_def of_char_of)
  also have "\<dots> = int (length (enc demo_header) mod 256 + 256 * (length (enc demo_header) div 256))"
    by (simp only: of_nat_add of_nat_mult of_nat_numeral)
  finally show ?thesis by (simp only: mod_mult_div_eq)
qed

lemma demo_fetch:
  assumes "0 \<le> a" "a \<le> b" "b < int (length demo_file)"
  shows "fetch_bytes demo_net url a b n = Some (Suc n, Some (byte_range demo_file a b))"
proof -
  have ne: "byte_range demo_file x y \<noteq> []" if "0 \<le> x" "x \<le> y" "y < int (length demo_file)" for x y
    using that length_byte_range [of x y demo_file] by auto
  have h: "honours_ranges (\<lambda>_. demo_file) demo_net"
    using ne by (auto simp: honours_ranges_def demo_net_def)
  have "complete (demo_net n url a b)" by (simp add: complete_def demo_net_def breaks_off_def)
  with fetch_range_honest [OF h assms refl, where wanted = "nat (b - a + 1)" and n = n and got = 0 and url = url]
    assms show ?thesis
    by (simp add: fetch_bytes_def retries_def numeral_eq_Suc)
qed

lemma demo_span:
  "safetensors_span codec_readers demo_net url (tensor_key 15) n =
     Some (Suc (Suc n), Inr (8 + int (length (enc demo_header)), 8 + int (length (enc demo_header)) + 4 - 1,
       JObj [(''dtype'', JStr ''BF16''), (''shape'', JList [JInt 2, JInt 2]),
             (''data_offsets'', JList [JInt 0, JInt 4])]))"
proof -
  let ?l = "length (enc demo_header)"
  have "demo_prefix \<noteq> []" by (metis length_prefix list.size(3) zero_neq_numeral)
  then have len: "le_int (take 8 (byte_range demo_file 0 7)) = int ?l" "byte_range demo_file 0 7 \<noteq> []"
    by (simp_all add: demo_ranges demo_prefix_int)
  have "loads (enc demo_header) = Some demo_header"
    by (rule loads_enc) (simp add: demo_header_def)
  then have hdr: "fetch_bytes demo_net url 8 (8 + int ?l - 1) (Suc n) = Some (Suc (Suc n), Some (enc demo_header))"
    "loads (enc demo_header) = Some demo_header"
    using demo_fetch [of 8 "8 + int ?l - 1" url "Suc n"] demo_len(2) demo_ranges(2) by (simp_all add: demo_size)
  show ?thesis
    using len hdr
    by (simp add: safetensors_span_def demo_net_def [of n] breaks_off_def delivered_def Let_def codec_readers_def
        span_of_def demo_header_def json_item_def opt_res_def crash_def)
qed

lemma demo_download:
  "\<exists>n'. download codec_readers demo_net demo_job ''shard'' 15 n = Some (n', Inr (''abcd'',
     new_entry codec_readers ''shard'' 15 (JStr ''BF16'') (JList [JInt 2, JInt 2]) 4 ''abcd''))"
proof -
  let ?l = "length (enc demo_header)"
  have "fetch_bytes demo_net url (8 + int ?l) (8 + int ?l + 4 - 1) m = Some (Suc m, Some ''abcd'')" for url m
    using demo_fetch [of "8 + int ?l" "8 + int ?l + 4 - 1" url m] demo_ranges(3) by (simp add: demo_size)
  then show ?thesis
    by (simp add: download_def Let_def demo_span json_item_def opt_res_def crash_def)
qed

definition demo_entry :: json where
  "demo_entry = new_entry codec_readers ''shard'' 15 (JStr ''BF16'') (JList [JInt 2, JInt 2]) 4 ''abcd''"

lemma demo_main: "\<exists>fs'. fetch_main codec_readers enc demo_net demo_job False (\<lambda>_. None) = Some (fs', Inr 0)"
proof -
  have spec: "fetch_layers ''15'' = Inr [15]" by code_simp
  obtain n' where d: "download codec_readers demo_net demo_job ''shard'' 15 0 = Some (n', Inr (''abcd'', demo_entry))"
    using demo_download [of 0] by (auto simp: demo_entry_def)
  show ?thesis
    by (simp add: fetch_main_def fetch_all_def spec demo_job_def [THEN arg_cong [of _ _ layers_spec]]
        demo_job_def [THEN arg_cong [of _ _ index_answers]] retries_def numeral_eq_Suc load_manifest_def
        fetch_layer_def already_fetched_def d add_entry_def man_layers_def new_manifest_def Let_def)
qed


end
