(* ===== verification/Long_Context.thy ===== *)
theory Long_Context
  imports Py_Json Py_Lines Py_Stats
begin

text \<open>
  The cold long-context benchmark (\<open>sglang-nvfp4/bench-long-context.py\<close>): the checks before a
  prompt of a dangerous size, the search for a tokenizer and the wait for it, the prompt with
  its three needles and its calibration, the reading of the answer stream, and the exit code.

  What comes from outside is a value: the replies of the server, the output of docker, the pid
  file of the memory guard, the clock and the address of the server (\<open>urlparse\<close> and \<open>ipaddress\<close>
  are parameters).  Messages are their kinds; printed text is left out.
\<close>

section \<open>Errors and replies\<close>

text \<open>The errors the program catches somewhere, and the two kinds it never catches.\<close>

datatype uncaught = Attribute_Error | Type_Error

datatype lc_error =
    Bench_Err string | Probe_Err bool | Http_Err nat | Os_Err | Value_Err | Uncaught uncaught

text \<open>A reply: a JSON body, an HTTP error, no connection, or a body that is not JSON.\<close>

datatype reply = Body json | Http nat | No_Connection | Not_Json

definition retryable_http_codes :: "nat list" where
  "retryable_http_codes = [408, 425, 429, 500, 502, 503, 504]"

definition long_context_threshold :: int where "long_context_threshold = 131072"

definition max_prefill_chunk :: int where "max_prefill_chunk = 2048"

definition max_static_fraction :: real where "max_static_fraction = 88 / 100"

definition is_loopback_url ::
  "(string \<Rightarrow> string option) \<Rightarrow> (string \<Rightarrow> bool option) \<Rightarrow> string \<Rightarrow> bool" where
  "is_loopback_url hostname_of ip_loopback url =
     (case hostname_of url of
        None \<Rightarrow> False
      | Some h \<Rightarrow> (if lower h = ''localhost'' then True
                   else (case ip_loopback h of Some b \<Rightarrow> b | None \<Rightarrow> False)))"

section \<open>The running profile\<close>

text \<open>The two calls of docker: \<open>None\<close> when the call itself failed; the second gives its exit code
  and the parsed output, \<open>None\<close> for text that is not JSON.\<close>

record docker =
  ps_output :: "string option"
  inspect_output :: "(int \<times> json option) option"

fun env_items :: "json list \<Rightarrow> (string \<times> string) list \<Rightarrow> (string \<times> string) list" where
  "env_items [] d = d"
| "env_items (JStr s # xs) d =
     (case partition_on CHR ''='' s of
        (k, True, v) \<Rightarrow> env_items xs (dict_set d k v)
      | _ \<Rightarrow> env_items xs d)"
| "env_items (_ # xs) d = env_items xs d"

definition inspect_local_runtime :: "bool \<Rightarrow> docker \<Rightarrow> (string \<times> string) list option" where
  "inspect_local_runtime loopback dk =
     (if \<not> loopback then None
      else (case ps_output dk of
              None \<Rightarrow> None
            | Some out \<Rightarrow>
                (if words out = [] then None
                 else (case inspect_output dk of
                         Some (rc, Some (JList vs)) \<Rightarrow>
                           (if rc = 0 then Some (env_items vs []) else None)
                       | _ \<Rightarrow> None))))"

datatype issue =
    Unknown string | Headroom int | Several_Seqs int | Prefill_Chunk int | Graphs_On | Mtp_On int
  | Speculative string | Static_Fraction py_num

text \<open>The inner function \<open>integer\<close>: the value, or an issue.\<close>

definition lc_int :: "(string \<times> string) list \<Rightarrow> string \<Rightarrow> int option" where
  "lc_int runtime name = (case map_of runtime name of None \<Rightarrow> None | Some s \<Rightarrow> parse_int s)"

definition unknown_int :: "(string \<times> string) list \<Rightarrow> string \<Rightarrow> issue list" where
  "unknown_int runtime name = (if lc_int runtime name = None then [Unknown name] else [])"

definition int_issue :: "int option \<Rightarrow> (int \<Rightarrow> bool) \<Rightarrow> (int \<Rightarrow> issue) \<Rightarrow> issue list" where
  "int_issue v bad mk = (case v of None \<Rightarrow> [] | Some n \<Rightarrow> (if bad n then [mk n] else []))"

definition over_fraction :: "py_num \<Rightarrow> bool" where
  "over_fraction v = (case v of Fin x \<Rightarrow> max_static_fraction + 1 / 10 ^ 9 < x
     | PosInf \<Rightarrow> True | NegInf \<Rightarrow> False | NaN \<Rightarrow> False)"

definition long_context_safety_issues :: "(string \<times> string) list \<Rightarrow> int \<Rightarrow> issue list" where
  "long_context_safety_issues runtime target =
     (if target \<le> long_context_threshold then []
      else (let spec = map_of runtime ''SPECULATIVE_ALGORITHM'';
                fraction = (case map_of runtime ''MEM_FRACTION_STATIC'' of
                    None \<Rightarrow> None | Some s \<Rightarrow> parse_float s) in
        concat (map (unknown_int runtime)
          [''MAX_MODEL_LEN'', ''MAX_NUM_SEQS'', ''MAX_NUM_BATCHED_TOKENS'', ''DISABLE_CUDA_GRAPH'',
           ''MTP_NUM_TOKENS''])
        @ (if spec = None then [Unknown ''SPECULATIVE_ALGORITHM''] else [])
        @ (if fraction = None then [Unknown ''MEM_FRACTION_STATIC''] else [])
        @ int_issue (lc_int runtime ''MAX_MODEL_LEN'') (\<lambda>n. n < target + 512) Headroom
        @ int_issue (lc_int runtime ''MAX_NUM_SEQS'') (\<lambda>n. n \<noteq> 1) Several_Seqs
        @ int_issue (lc_int runtime ''MAX_NUM_BATCHED_TOKENS'') (\<lambda>n. max_prefill_chunk < n) Prefill_Chunk
        @ int_issue (lc_int runtime ''DISABLE_CUDA_GRAPH'') (\<lambda>n. n \<noteq> 1) (\<lambda>_. Graphs_On)
        @ int_issue (lc_int runtime ''MTP_NUM_TOKENS'') (\<lambda>n. n \<noteq> 0) Mtp_On
        @ (case spec of None \<Rightarrow> [] | Some s \<Rightarrow> (if s \<noteq> ''NONE'' then [Speculative s] else []))
        @ (case fraction of None \<Rightarrow> [] | Some v \<Rightarrow> (if over_fraction v then [Static_Fraction v] else []))))"

definition enforce_long_context_safety ::
  "(string \<times> string) list option \<Rightarrow> int \<Rightarrow> bool \<Rightarrow> lc_error + unit" where
  "enforce_long_context_safety runtime target allow_unsafe =
     (if target \<le> long_context_threshold then Inr ()
      else (case runtime of
              None \<Rightarrow> (if allow_unsafe then Inr () else Inl (Bench_Err ''profile not verified''))
            | Some r \<Rightarrow>
                (if long_context_safety_issues r target \<noteq> [] \<and> \<not> allow_unsafe
                 then Inl (Bench_Err ''refusing'') else Inr ())))"

section \<open>The memory guard\<close>

text \<open>The first line of the pid file, what \<open>kill(pid, 0)\<close> reports, and the command line.\<close>

datatype kill_result = Alive | No_Process | No_Permission

record guard =
  pid_file :: "string option"
  kill_zero :: "int \<Rightarrow> kill_result"
  cmdline :: "int \<Rightarrow> string option"

definition refuse_live_startup_guard :: "guard \<Rightarrow> lc_error + unit" where
  "refuse_live_startup_guard g =
     (case pid_file g of
        None \<Rightarrow> Inr ()
      | Some text \<Rightarrow>
          (case splitlines text of
             [] \<Rightarrow> Inr ()
           | l # _ \<Rightarrow>
               (case parse_int l of
                  None \<Rightarrow> Inr ()
                | Some pid \<Rightarrow>
                    (if kill_zero g pid = No_Process then Inr ()
                     else (let command = (case cmdline g pid of None \<Rightarrow> [] | Some c \<Rightarrow> c) in
                       if command = [] \<or> contains ''oom-guard-node.sh'' command
                       then Inl (Bench_Err ''startup memory guard is still active'')
                       else Inr ())))))"

section \<open>The tokenizer\<close>

definition request_json :: "reply \<Rightarrow> lc_error + dict" where
  "request_json r = (case r of
       Body (JObj d) \<Rightarrow> Inr d
     | Body _ \<Rightarrow> Inl (Bench_Err ''non-object JSON response'')
     | Http c \<Rightarrow> Inl (Http_Err c)
     | No_Connection \<Rightarrow> Inl Os_Err
     | Not_Json \<Rightarrow> Inl Value_Err)"

text \<open>\<open>isinstance(v, int)\<close>, which a boolean satisfies.\<close>

fun as_int :: "json \<Rightarrow> int option" where
  "as_int (JInt i) = Some i"
| "as_int (JBool b) = Some (of_bool b)"
| "as_int _ = None"

fun as_list :: "json \<Rightarrow> json list option" where
  "as_list (JList xs) = Some xs"
| "as_list _ = None"

definition count_list_payload :: "json list \<Rightarrow> lc_error + int" where
  "count_list_payload xs = (case xs of
       JList ys # rest \<Rightarrow>
         (if rest \<noteq> [] then Inl (Bench_Err ''unexpected batch'') else Inr (int (length ys)))
     | _ \<Rightarrow> Inr (int (length xs)))"

definition count_token_payload :: "dict \<Rightarrow> lc_error + int" where
  "count_token_payload d =
     (case as_int (jget d ''count'') of
        Some n \<Rightarrow> Inr n
      | None \<Rightarrow>
     (case as_int (jget d ''num_tokens'') of
        Some n \<Rightarrow> Inr n
      | None \<Rightarrow>
     (case as_list (jget d ''tokens'') of
        Some xs \<Rightarrow> count_list_payload xs
      | None \<Rightarrow>
     (case as_list (jget d ''input_ids'') of
        Some xs \<Rightarrow> count_list_payload xs
      | None \<Rightarrow> Inl (Bench_Err ''no token count'')))))"

definition lc_base :: "string \<Rightarrow> string" where
  "lc_base url = rstrip_by (\<lambda>c. c = CHR ''/'') url"

definition lc_root :: "string \<Rightarrow> string" where
  "lc_root url = (let b = lc_base url in if ends_with ''/v1'' b then take (length b - 3) b else b)"

text \<open>The four candidates: the address and the payload of a text.\<close>

definition tokenizer_candidates :: "string \<Rightarrow> string \<Rightarrow> (string \<times> (string \<Rightarrow> dict)) list" where
  "tokenizer_candidates url model =
     (let base = lc_base url @ ''/tokenize''; root = lc_root url @ ''/tokenize'' in
      [(base, \<lambda>text. [(''model'', JStr model), (''prompt'', JStr text)]),
       (base, \<lambda>text. [(''model'', JStr model), (''input'', JStr text)]),
       (root, \<lambda>text. [(''text'', JStr text)]),
       (root, \<lambda>text. [(''model'', JStr model), (''text'', JStr text)])])"

text \<open>The server as a function from the address and the payload to a reply.\<close>

type_synonym server = "string \<Rightarrow> dict \<Rightarrow> reply"

definition probe_text :: string where "probe_text = ''tokenizer probe''"

fun discover_from ::
  "server \<Rightarrow> (string \<times> (string \<Rightarrow> dict)) list \<Rightarrow> bool \<Rightarrow> lc_error + string \<times> (string \<Rightarrow> dict)" where
  "discover_from srv [] retryable = Inl (Probe_Err retryable)"
| "discover_from srv ((url, payload) # cs) retryable =
     (case res_bind (request_json (srv url (payload probe_text))) count_token_payload of
        Inr _ \<Rightarrow> Inr (url, payload)
      | Inl (Http_Err c) \<Rightarrow> discover_from srv cs (retryable \<or> c \<in> set retryable_http_codes)
      | Inl Os_Err \<Rightarrow> discover_from srv cs True
      | Inl _ \<Rightarrow> discover_from srv cs retryable)"

definition discover_tokenizer ::
  "server \<Rightarrow> string \<Rightarrow> string \<Rightarrow> lc_error + string \<times> (string \<Rightarrow> dict)" where
  "discover_tokenizer srv url model = discover_from srv (tokenizer_candidates url model) False"

definition model_api_status :: "reply \<Rightarrow> string option \<Rightarrow> int option \<Rightarrow> bool" where
  "model_api_status r model required =
     (case r of
        Body (JObj d) \<Rightarrow>
          (case jget d ''data'' of
             JList items \<Rightarrow>
               (case model of
                  None \<Rightarrow> True
                | Some m \<Rightarrow>
                    (let entries = List.map_filter as_obj items in
                     if JStr m \<notin> set (map (\<lambda>e. jget e ''id'') entries) then False
                     else (case required of
                             None \<Rightarrow> True
                           | Some need \<Rightarrow>
                               (case find (\<lambda>e. jget e ''id'' = JStr m) entries of
                                  None \<Rightarrow> True
                                | Some e \<Rightarrow>
                                    (case as_int (jget e ''max_model_len'') of
                                       None \<Rightarrow> True | Some n \<Rightarrow> need \<le> n)))))
           | _ \<Rightarrow> False)
      | _ \<Rightarrow> False)"

text \<open>Waiting: the server as each round finds it, and the time since the start when the round's
  check of the models is over.\<close>

partial_function (option) wait_loop ::
  "(nat \<Rightarrow> server \<times> real) \<Rightarrow> string \<Rightarrow> string \<Rightarrow> real \<Rightarrow> nat
     \<Rightarrow> (lc_error + string \<times> (string \<Rightarrow> dict)) option" where
  "wait_loop rounds url model timeout n =
     (case discover_tokenizer (fst (rounds n)) url model of
        Inr t \<Rightarrow> Some (Inr t)
      | Inl (Probe_Err retryable) \<Rightarrow>
          (if \<not> retryable \<or> timeout - snd (rounds n) \<le> 0
           then Some (Inl (Bench_Err (if retryable then ''did not become usable'' else ''no compatible tokenizer'')))
           else wait_loop rounds url model timeout (Suc n))
      | Inl e \<Rightarrow> Some (Inl e))"

definition wait_for_tokenizer ::
  "(nat \<Rightarrow> server \<times> real) \<Rightarrow> string \<Rightarrow> string \<Rightarrow> real \<Rightarrow> (lc_error + string \<times> (string \<Rightarrow> dict)) option" where
  "wait_for_tokenizer rounds url model timeout = wait_loop rounds url model timeout 0"

section \<open>The prompt\<close>

definition begin_needle :: "string \<times> string" where "begin_needle = (''BEGIN_NEEDLE'', ''ALPHA_7319'')"
definition middle_needle :: "string \<times> string" where "middle_needle = (''MIDDLE_NEEDLE'', ''MIDDLE_2846'')"
definition end_needle :: "string \<times> string" where "end_needle = (''END_NEEDLE'', ''OMEGA_9052'')"

definition expected :: string where
  "expected = join_with ''|'' [snd begin_needle, snd middle_needle, snd end_needle]"

definition filler :: string where
  "filler = ''Neutral archival padding sentence for context capacity verification.'' @ [CHR 0x0A]"

definition padding :: "int \<Rightarrow> string" where
  "padding n = concat (replicate (nat n) filler)"

definition needle_line :: "string \<times> string \<Rightarrow> string" where
  "needle_line nd = CHR 0x0A # fst nd @ '' stores '' @ snd nd @ ''.'' @ [CHR 0x0A]"

definition preamble :: string where
  "preamble = ''GLM53_LONG_CONTEXT_CAPABILITY_TEST'' @ [CHR 0x0A] @
     ''Read the full archival text. Three labelled retrieval codes occur once each.'' @ [CHR 0x0A]"

definition question :: string where
  "question = CHR 0x0A # ''Return the values stored by BEGIN_NEEDLE, MIDDLE_NEEDLE, and '' @
     ''END_NEEDLE, in that order, separated only by |. Do not add any other text.'' @ [CHR 0x0A]"

definition make_context :: "int \<Rightarrow> string" where
  "make_context repeats =
     (let a = repeats * 5 div 100; b = repeats * 45 div 100; c = repeats * 45 div 100;
          tail = repeats - (a + b + c) in
      preamble @ padding a @ needle_line begin_needle @ padding b @ needle_line middle_needle
        @ padding c @ needle_line end_needle @ padding tail @ question)"

type_synonym tokenizer = "string \<Rightarrow> lc_error + int"

text \<open>At most \<open>k\<close> rounds; the last argument is the context of the round before and its count.\<close>

fun calibrate_rounds ::
  "nat \<Rightarrow> tokenizer \<Rightarrow> int \<Rightarrow> int \<Rightarrow> int \<Rightarrow> string \<times> int \<Rightarrow> lc_error + string \<times> int \<times> int" where
  "calibrate_rounds 0 tokenize target unit_tokens repeats (text, actual) = Inr (text, actual, repeats)"
| "calibrate_rounds (Suc k) tokenize target unit_tokens repeats _ =
     (let text = make_context repeats in
      res_bind (tokenize text) (\<lambda>actual.
        (let delta = target - actual in
         if \<bar>delta\<bar> \<le> max 64 (target div 2000) then Inr (text, actual, repeats)
         else calibrate_rounds k tokenize target unit_tokens
           (max 1 (repeats + round_half_even (of_int delta / of_int unit_tokens))) (text, actual))))"

definition calibrate_context :: "int \<Rightarrow> tokenizer \<Rightarrow> lc_error + string \<times> int \<times> int" where
  "calibrate_context target tokenize =
     res_bind (tokenize filler) (\<lambda>unit_tokens.
       if unit_tokens < 1 then Inl (Bench_Err ''filler tokenized to zero tokens'')
       else res_bind (tokenize (make_context 0)) (\<lambda>overhead.
         calibrate_rounds 4 tokenize target unit_tokens (max 1 ((target - overhead) div unit_tokens)) ([], 0)))"

text \<open>The two addresses that may flush the cache; any answer that is not an error counts.\<close>

definition flush_cache :: "(string \<Rightarrow> reply) \<Rightarrow> string \<Rightarrow> lc_error + string" where
  "flush_cache post url =
     (let urls = [lc_root url @ ''/flush_cache'', lc_base url @ ''/flush_cache'']; 
          answered = (\<lambda>r. case r of Body _ \<Rightarrow> True | Not_Json \<Rightarrow> True | _ \<Rightarrow> False) in
      (case find (\<lambda>u. answered (post u)) urls of
         Some u \<Rightarrow> Inr u
       | None \<Rightarrow> Inl (Bench_Err ''cache flush failed'')))"

section \<open>The answer stream\<close>

record stream_state =
  first_token :: "real option"
  content_parts :: "json list"
  reasoning_parts :: "json list"
  usage :: json

definition json_or :: "json \<Rightarrow> json \<Rightarrow> json" where
  "json_or a b = (if json_truthy a then a else b)"

text \<open>An access to a value that is no object raises; so does the iteration over a number, and the
  iteration over a text or an object at its first element, which is a text.\<close>

definition obj_get :: "json \<Rightarrow> string \<Rightarrow> lc_error + json" where
  "obj_get v k = (case v of JObj d \<Rightarrow> Inr (jget d k) | _ \<Rightarrow> Inl (Uncaught Attribute_Error))"

definition stream_choice :: "real \<Rightarrow> json \<Rightarrow> stream_state \<Rightarrow> lc_error + stream_state" where
  "stream_choice now choice st =
     res_bind (obj_get choice ''delta'') (\<lambda>dl0.
     let dl = json_or dl0 (JObj []) in
     res_bind (obj_get dl ''content'') (\<lambda>c0. res_bind (obj_get dl ''reasoning_content'') (\<lambda>r0.
     res_bind (obj_get dl ''tool_calls'') (\<lambda>t0.
       Inr (st\<lparr>first_token := (if first_token st = None \<and> (json_truthy c0 \<or> json_truthy r0 \<or> json_truthy t0)
                              then Some now else first_token st),
               content_parts := content_parts st @ (if json_truthy c0 then [c0] else []),
               reasoning_parts := reasoning_parts st @ (if json_truthy r0 then [r0] else [])\<rparr>)))))"

fun stream_choices :: "real \<Rightarrow> json list \<Rightarrow> stream_state \<Rightarrow> lc_error + stream_state" where
  "stream_choices now [] st = Inr st"
| "stream_choices now (c # cs) st = res_bind (stream_choice now c st) (stream_choices now cs)"

definition stream_event :: "real \<Rightarrow> json \<Rightarrow> stream_state \<Rightarrow> lc_error + stream_state" where
  "stream_event now event st =
     res_bind (obj_get event ''usage'') (\<lambda>u.
     let st1 = (if json_truthy u then st\<lparr>usage := u\<rparr> else st) in
     res_bind (obj_get event ''choices'') (\<lambda>cs.
       (case json_or cs (JList []) of
          JList xs \<Rightarrow> stream_choices now xs st1
        | JStr _ \<Rightarrow> Inl (Uncaught Attribute_Error)
        | JObj _ \<Rightarrow> Inl (Uncaught Attribute_Error)
        | _ \<Rightarrow> Inl (Uncaught Type_Error))))"

text \<open>The lines of the stream with the time at which each is read.\<close>

fun stream_lines ::
  "(string \<Rightarrow> json option) \<Rightarrow> (real \<times> string) list \<Rightarrow> stream_state \<Rightarrow> lc_error + stream_state" where
  "stream_lines parse [] st = Inr st"
| "stream_lines parse ((now, raw) # ls) st =
     (let line = strip raw in
      if \<not> starts_with ''data:'' line then stream_lines parse ls st
      else (let data = strip (drop 5 line) in
        if data = ''[DONE]'' then Inr st
        else (case parse data of
                None \<Rightarrow> Inl Value_Err
              | Some event \<Rightarrow> res_bind (stream_event now event st) (stream_lines parse ls))))"

fun join_pieces :: "json list \<Rightarrow> lc_error + string" where
  "join_pieces [] = Inr []"
| "join_pieces (JStr s # xs) = res_bind (join_pieces xs) (\<lambda>t. Inr (s @ t))"
| "join_pieces (_ # xs) = Inl (Uncaught Type_Error)"

record chat_result =
  content :: string
  reasoning_chars :: nat
  prompt_tokens :: json
  completion_tokens :: json
  ttft :: real
  total_seconds :: real
  decode_rate :: "real option"
  prefill_rate :: "real option"

definition stream_start :: stream_state where
  "stream_start = \<lparr>first_token = None, content_parts = [], reasoning_parts = [], usage = JObj []\<rparr>"

definition chat_payload :: "string \<Rightarrow> string \<Rightarrow> dict" where
  "chat_payload model context =
     [(''model'', JStr model),
      (''messages'', JList [JObj [(''role'', JStr ''user''), (''content'', JStr context)]]),
      (''temperature'', JInt 0), (''max_tokens'', JInt 64), (''stream'', JBool True),
      (''stream_options'', JObj [(''include_usage'', JBool True)]),
      (''chat_template_kwargs'', JObj [(''reasoning_effort'', JStr ''low'')])]"

text \<open>The lines the server answers to the payload; a request that could not be sent or broke off
  is \<open>None\<close>.\<close>

definition stream_chat ::
  "(string \<Rightarrow> json option) \<Rightarrow> real \<Rightarrow> (dict \<Rightarrow> (real \<times> string) list option) \<Rightarrow> real
     \<Rightarrow> string \<Rightarrow> string \<Rightarrow> lc_error + chat_result" where
  "stream_chat parse started post finished model context =
     (case post (chat_payload model context) of
        None \<Rightarrow> Inl Os_Err
      | Some ls \<Rightarrow>
          res_bind (stream_lines parse ls stream_start) (\<lambda>st.
            (case first_token st of
               None \<Rightarrow> Inl (Bench_Err ''stream contained no delta'')
             | Some first \<Rightarrow>
                 res_bind (obj_get (usage st) ''completion_tokens'') (\<lambda>ct.
                 res_bind (obj_get (usage st) ''prompt_tokens'') (\<lambda>pt.
                 res_bind (join_pieces (content_parts st)) (\<lambda>text.
                 res_bind (join_pieces (reasoning_parts st)) (\<lambda>thought.
                   Inr \<lparr>content = text, reasoning_chars = length thought,
                     prompt_tokens = pt, completion_tokens = ct,
                     ttft = first - started, total_seconds = finished - started,
                     decode_rate = (case as_int ct of
                         Some n \<Rightarrow> (if 1 < n \<and> first < finished then Some (of_int (n - 1) / (finished - first)) else None)
                       | None \<Rightarrow> None),
                     prefill_rate = (case as_int pt of
                         Some n \<Rightarrow> (if started < first then Some (of_int n / (first - started)) else None)
                       | None \<Rightarrow> None)\<rparr>)))))))"

section \<open>The run\<close>

record lc_args =
  base_url :: string
  lc_model :: string
  target_tokens :: int
  request_timeout :: int
  readiness_timeout :: int
  cold :: bool
  allow_unsafe :: bool

definition bad_args :: "lc_args \<Rightarrow> bool" where
  "bad_args a \<longleftrightarrow> \<not> (1024 \<le> target_tokens a \<and> target_tokens a \<le> 1048000)
     \<or> request_timeout a < 30 \<or> readiness_timeout a < 0"

text \<open>The world of one run.\<close>

record lc_world =
  lc_guard :: guard
  loopback :: bool
  lc_docker :: docker
  lc_rounds :: "nat \<Rightarrow> server \<times> real"
  models_before :: reply
  lc_server :: server
  flush_reply :: "string \<Rightarrow> reply"
  parse_json :: "string \<Rightarrow> json option"
  lc_started :: real
  lc_post :: "dict \<Rightarrow> (real \<times> string) list option"
  lc_finished :: real
  models_after :: reply

record lc_artifact =
  raw_tokens :: int
  answer :: "chat_result option"
  retrieval_ok :: bool
  healthy_after :: bool
  artifact_ok :: bool
  failure :: "lc_error option"

definition tokenize_with :: "server \<Rightarrow> string \<times> (string \<Rightarrow> dict) \<Rightarrow> tokenizer" where
  "tokenize_with srv t text = res_bind (request_json (srv (fst t) (snd t text))) count_token_payload"

text \<open>\<open>re.sub(r"[`\s]", "", content)\<close>\<close>

definition normalized :: "string \<Rightarrow> string" where
  "normalized s = filter (\<lambda>c. c \<noteq> CHR 0x60 \<and> \<not> is_space_c c) s"

text \<open>Everything before the request: the context and its number of tokens.\<close>

definition prepare_prompt :: "lc_args \<Rightarrow> lc_world \<Rightarrow> (lc_error + string \<times> int) option" where
  "prepare_prompt a w =
     (case res_bind (refuse_live_startup_guard (lc_guard w)) (\<lambda>_.
           enforce_long_context_safety (inspect_local_runtime (loopback w) (lc_docker w)) (target_tokens a) (allow_unsafe a)) of
        Inl e \<Rightarrow> Some (Inl e)
      | Inr _ \<Rightarrow>
          (case wait_for_tokenizer (lc_rounds w) (base_url a) (lc_model a) (of_int (readiness_timeout a)) of
             None \<Rightarrow> None
           | Some (Inl e) \<Rightarrow> Some (Inl e)
           | Some (Inr t) \<Rightarrow> Some
               (if \<not> model_api_status (models_before w) (Some (lc_model a)) (Some (target_tokens a + 512))
                then Inl (Bench_Err ''server context preflight failed'')
                else res_bind (calibrate_context (target_tokens a) (tokenize_with (lc_server w) t)) (\<lambda>(text, n, _).
                     if cold a then res_bind (flush_cache (flush_reply w) (base_url a)) (\<lambda>_. Inr (text, n))
                     else Inr (text, n)))))"

text \<open>The request and its judgement.  Errors of the benchmark, the network and the parser are
  recorded; others leave the program.\<close>

definition judge_run :: "lc_world \<Rightarrow> string \<Rightarrow> string \<Rightarrow> int \<Rightarrow> lc_error + lc_artifact" where
  "judge_run w model context n =
     (let finish = (\<lambda>r f. let healthy = model_api_status (models_after w) None None;
             found = contains expected (normalized (case r of None \<Rightarrow> [] | Some c \<Rightarrow> content c)) in
           Inr \<lparr>raw_tokens = n, answer = r, retrieval_ok = found, healthy_after = healthy,
             artifact_ok = (f = None \<and> found \<and> healthy), failure = f\<rparr>) in
      (case stream_chat (parse_json w) (lc_started w) (lc_post w) (lc_finished w) model context of
         Inr c \<Rightarrow> finish (Some c) None
       | Inl (Uncaught e) \<Rightarrow> Inl (Uncaught e)
       | Inl e \<Rightarrow> finish None (Some e)))"

text \<open>The exit code, and the artifact that was written.\<close>

definition lc_main :: "lc_args \<Rightarrow> lc_world \<Rightarrow> (int \<times> lc_artifact option) option" where
  "lc_main a w =
     (if bad_args a then Some (2, None)
      else (case prepare_prompt a w of
              None \<Rightarrow> None
            | Some r \<Rightarrow>
                (case res_bind r (\<lambda>(text, n). judge_run w (lc_model a) text n) of
                   Inr art \<Rightarrow> Some (if artifact_ok art then 0 else 1, Some art)
                 | Inl (Uncaught e) \<Rightarrow> Some (1, None)
                 | Inl e \<Rightarrow> Some (2, None))))"

end
