(* ===== verification/Long_Prompt.thy ===== *)
theory Long_Prompt
  imports Long_Context Patch_Engine
begin

text \<open>
  What the long-context benchmark guarantees: a dangerous prompt is sent only to a server whose
  profile was read and is safe, the prompt holds every needle exactly once, its calibration hits
  the target for a tokenizer that is linear in the padding, and every run ends with the exit
  code that its result deserves.
\<close>

section \<open>The preflight\<close>

lemma int_issue_Nil: "int_issue v bad mk = [] \<longleftrightarrow> (\<forall>n. v = Some n \<longrightarrow> \<not> bad n)"
  by (auto simp: int_issue_def split: option.splits)

lemma no_issues:
  assumes "long_context_safety_issues runtime target = []" "long_context_threshold < target"
  shows "(\<exists>n. lc_int runtime ''MAX_MODEL_LEN'' = Some n \<and> target + 512 \<le> n)
    \<and> lc_int runtime ''MAX_NUM_SEQS'' = Some 1
    \<and> (\<exists>n. lc_int runtime ''MAX_NUM_BATCHED_TOKENS'' = Some n \<and> n \<le> max_prefill_chunk)
    \<and> lc_int runtime ''DISABLE_CUDA_GRAPH'' = Some 1 \<and> lc_int runtime ''MTP_NUM_TOKENS'' = Some 0
    \<and> map_of runtime ''SPECULATIVE_ALGORITHM'' = Some ''NONE''
    \<and> (\<exists>s v. map_of runtime ''MEM_FRACTION_STATIC'' = Some s \<and> parse_float s = Some v \<and> \<not> over_fraction v)"
  using assms
  by (auto simp: long_context_safety_issues_def Let_def int_issue_Nil unknown_int_def
      split: option.splits if_splits)

section \<open>The wait\<close>

lemma wait_loop_ends:
  "timeout \<le> snd (rounds (n + k)) \<Longrightarrow> \<exists>r. wait_loop rounds url model timeout n = Some r"
proof (induction k arbitrary: n)
  case 0
  then show ?case
    by (subst wait_loop.simps) (auto split: sum.splits lc_error.splits)
next
  case (Suc k)
  have "timeout \<le> snd (rounds (Suc n + k))" using Suc.prems by simp
  then obtain r where "wait_loop rounds url model timeout (Suc n) = Some r" using Suc.IH by blast
  then show ?case
    by (subst wait_loop.simps) (auto split: sum.splits lc_error.splits)
qed

section \<open>The prompt\<close>

lemma padding_Suc: "padding (1 + int n) = filler @ padding (int n)"
  by (simp add: padding_def nat_add_distrib)

lemma text_count_padding:
  assumes "p \<noteq> []" "\<not> touch filler p"
  shows "text_count p (padding n @ s) = text_count p s"
proof -
  have "text_count p (padding (int k) @ s) = text_count p s" for k
    by (induction k) (simp_all add: padding_Suc text_count_skip assms, simp add: padding_def)
  from this [of "nat n"] show ?thesis by (cases "0 \<le> n") (simp_all add: padding_def)
qed

lemma text_count_filler: "text_count filler (padding n @ s) = nat n + text_count filler s"
proof -
  have ne: "filler \<noteq> []" by (simp add: filler_def)
  have "text_count filler (padding (int k) @ s) = k + text_count filler s" for k
    by (induction k) (simp_all add: padding_Suc text_count_here [OF ne], simp add: padding_def)
  from this [of "nat n"] show ?thesis by (cases "0 \<le> n") (simp_all add: padding_def)
qed

text \<open>The parts that are not padding, as far as a searched text can start in them.\<close>

lemmas prompt_parts = preamble_def question_def needle_line_def begin_needle_def middle_needle_def
  end_needle_def filler_def

lemma needles_apart:
  "\<forall>v\<in>{''ALPHA_7319'', ''MIDDLE_2846'', ''OMEGA_9052''}.
     v \<noteq> [] \<and> \<not> touch filler v \<and> text_count v question = 0"
  by code_simp

lemma filler_counts:
  "text_count filler (preamble @ s) = text_count filler s"
  "text_count filler (needle_line begin_needle @ s) = text_count filler s"
  "text_count filler (needle_line middle_needle @ s) = text_count filler s"
  "text_count filler (needle_line end_needle @ s) = text_count filler s"
  "text_count filler question = 0"
  by (simp_all add: prompt_parts text_count_Cons starts_with_def)

lemma needle_counts:
  "text_count ''ALPHA_7319'' (needle_line begin_needle @ s) = Suc (text_count ''ALPHA_7319'' s)"
  "text_count ''ALPHA_7319'' (needle_line middle_needle @ s) = text_count ''ALPHA_7319'' s"
  "text_count ''ALPHA_7319'' (needle_line end_needle @ s) = text_count ''ALPHA_7319'' s"
  "text_count ''ALPHA_7319'' (preamble @ s) = text_count ''ALPHA_7319'' s"
  "text_count ''MIDDLE_2846'' (needle_line begin_needle @ s) = text_count ''MIDDLE_2846'' s"
  "text_count ''MIDDLE_2846'' (needle_line middle_needle @ s) = Suc (text_count ''MIDDLE_2846'' s)"
  "text_count ''MIDDLE_2846'' (needle_line end_needle @ s) = text_count ''MIDDLE_2846'' s"
  "text_count ''MIDDLE_2846'' (preamble @ s) = text_count ''MIDDLE_2846'' s"
  "text_count ''OMEGA_9052'' (needle_line begin_needle @ s) = text_count ''OMEGA_9052'' s"
  "text_count ''OMEGA_9052'' (needle_line middle_needle @ s) = text_count ''OMEGA_9052'' s"
  "text_count ''OMEGA_9052'' (needle_line end_needle @ s) = Suc (text_count ''OMEGA_9052'' s)"
  "text_count ''OMEGA_9052'' (preamble @ s) = text_count ''OMEGA_9052'' s"
  by (simp_all add: prompt_parts text_count_Cons starts_with_def)

text \<open>The three parts before a needle never exceed the whole, so the tail is a length.\<close>

lemma segments_fit:
  assumes "0 \<le> n"
  shows "nat (n div 20) + (nat (9 * n div 20) + (nat (9 * n div 20)
    + nat (n - (2 * (9 * n div 20) + n div 20)))) = nat n"
  using assms by linarith

text \<open>The prompt holds each of the three retrieval codes exactly once, whatever the number of
  padding records, and exactly that number of padding records.\<close>

theorem prompt_has_needles:
  "0 \<le> n \<Longrightarrow> text_count filler (make_context n) = nat n
     \<and> (\<forall>v\<in>set (map snd [begin_needle, middle_needle, end_needle]). text_count v (make_context n) = 1)"
  using needles_apart
  by (simp add: make_context_def Let_def text_count_filler filler_counts segments_fit,
      simp add: begin_needle_def middle_needle_def end_needle_def text_count_padding needle_counts
        [unfolded begin_needle_def middle_needle_def end_needle_def])

theorem prompt_has_needles_witness:
  "text_count filler (make_context 3) = 3
     \<and> (\<forall>v\<in>set (map snd [begin_needle, middle_needle, end_needle]). text_count v (make_context 3) = 1)"
  using prompt_has_needles [of 3] by simp

section \<open>The calibration\<close>

lemma calibrate_rounds_measured:
  assumes "calibrate_rounds k tokenize target u r c = Inr (text, n, r')" "0 < k"
  shows "\<exists>m. text = make_context m \<and> tokenize text = Inr n \<and> (1 \<le> r \<longrightarrow> 1 \<le> m)"
  using assms
proof (induction k arbitrary: r c)
  case (Suc k)
  obtain a where a: "tokenize (make_context r) = Inr a"
    using Suc.prems by (cases "tokenize (make_context r)") auto
  show ?case
  proof (cases "\<bar>target - a\<bar> \<le> max 64 (target div 2000) \<or> k = 0")
    case True
    then show ?thesis
      using Suc.prems(1) a by (intro exI [of _ r]) (auto simp: Let_def split: if_splits)
  next
    case False
    then show ?thesis
      using Suc.IH [of "max 1 (r + round_half_even (of_int (target - a) / of_int u))" "(make_context r, a)"]
        Suc.prems(1) a by (auto simp: Let_def)
  qed
qed simp

lemma calibrate_measured:
  assumes "calibrate_context target tokenize = Inr (text, n, r)"
  shows "\<exists>m\<ge>1. text = make_context m \<and> tokenize text = Inr n"
  using assms by (fastforce simp: calibrate_context_def res_bind_Inr split: if_splits
      dest: calibrate_rounds_measured)

text \<open>A difference below one unit: the next round takes the nearer of the two counts.\<close>

lemma round_small: "\<bar>x\<bar> \<le> 1 / 2 \<Longrightarrow> round_half_even x = 0"
proof -
  assume x: "\<bar>x\<bar> \<le> 1 / 2"
  show ?thesis
  proof (cases "0 \<le> x")
    case True
    then have "\<lfloor>x\<rfloor> = 0" using x by linarith
    then show ?thesis using x by (simp add: round_half_even_def)
  next
    case False
    then have "\<lfloor>x\<rfloor> = - 1" using x by linarith
    then show ?thesis using x False by (simp add: round_half_even_def Let_def)
  qed
qed

lemma round_large: "1 / 2 < x \<Longrightarrow> x < 1 \<Longrightarrow> round_half_even x = 1"
proof -
  assume x: "1 / 2 < x" "x < 1"
  then have "\<lfloor>x\<rfloor> = 0" by linarith
  then show ?thesis using x by (simp add: round_half_even_def)
qed

text \<open>For a tokenizer that is linear in the padding, one correction is enough: a difference
  of at most half a unit is never corrected again.\<close>

lemma rounds_stay:
  assumes "tokenize (make_context r) = Inr n" "2 * \<bar>target - n\<bar> \<le> u" "1 \<le> r" "0 < u"
  shows "calibrate_rounds (Suc k) tokenize target u r c = Inr (make_context r, n, r)"
proof -
  have "\<bar>of_int (target - n) / of_int u\<bar> \<le> (1 / 2 :: real)"
    using assms(2,4) of_int_le_iff [of "2 * \<bar>target - n\<bar>" u, where 'a = real]
    by (simp add: abs_divide divide_le_eq mult.commute)
  then have "round_half_even (of_int (target - n) / of_int u) = 0" by (rule round_small)
  then show ?thesis
    using assms(1,3) by (induction k arbitrary: c) (auto simp: Let_def)
qed

lemma rounds_hit:
  assumes "\<And>r. 1 \<le> r \<Longrightarrow> tokenize (make_context r) = Inr (overhead + u * r)"
    and "0 \<le> target - (overhead + u * r)" "target - (overhead + u * r) < u" "1 \<le> r"
  shows "\<exists>m\<ge>1. calibrate_rounds (Suc (Suc k)) tokenize target u r c
      = Inr (make_context m, overhead + u * m, m)
    \<and> (2 * \<bar>target - (overhead + u * m)\<bar> \<le> u \<or> \<bar>target - (overhead + u * m)\<bar> \<le> max 64 (target div 2000))"
proof -
  define d where "d = target - (overhead + u * r)"
  have u: "0 < u" using assms(2,3) by linarith
  consider "\<bar>d\<bar> \<le> max 64 (target div 2000)" | "2 * d \<le> u"
    | "\<not> \<bar>d\<bar> \<le> max 64 (target div 2000)" "u < 2 * d" by linarith
  then show ?thesis
  proof cases
    case 1
    then show ?thesis using assms(1) [OF assms(4)] assms(4) by (auto simp: d_def intro!: exI [of _ r])
  next
    case 2
    then show ?thesis using rounds_stay [of tokenize r "overhead + u * r" target u "Suc k" c] assms(1) [OF assms(4)] assms(2,4) u
      by (intro exI [of _ r]) (simp add: d_def)
  next
    case 3
    have "1 / 2 < of_int d / (of_int u :: real)" "of_int d / of_int u < (1 :: real)"
      using 3 u assms(3) [folded d_def] of_int_less_iff [of u "2 * d", where 'a = real]
      by (simp_all add: less_divide_eq divide_less_eq mult.commute)
    then have "round_half_even (of_int d / of_int u) = 1" by (rule round_large)
    then have "calibrate_rounds (Suc (Suc k)) tokenize target u r c
        = calibrate_rounds (Suc k) tokenize target u (r + 1) (make_context r, overhead + u * r)"
      using 3 assms(1) [OF assms(4)] assms(4) by (subst calibrate_rounds.simps) (simp add: d_def)
    also have "\<dots> = Inr (make_context (r + 1), overhead + u * (r + 1), r + 1)"
      using 3 assms(3,4) u by (intro rounds_stay assms(1)) (simp_all add: d_def algebra_simps)
    finally show ?thesis
      using 3 assms(3,4) by (intro exI [of _ "r + 1"]) (simp add: d_def algebra_simps)
  qed
qed


text \<open>A tokenizer that counts characters is linear.\<close>

lemma length_padding: "length (padding n) = nat n * length filler"
proof -
  have "length (concat (replicate k filler)) = k * length filler" for k by (induction k) simp_all
  then show ?thesis by (simp add: padding_def)
qed

lemma length_context:
  assumes "0 \<le> r"
  shows "int (length (make_context r)) = int (length (make_context 0)) + int (length filler) * r"
proof -
  have "length (make_context r) = length (make_context 0) + nat r * length filler"
    using segments_fit [OF assms]
    by (simp add: make_context_def Let_def length_padding flip: add_mult_distrib add.assoc)
  then show ?thesis using assms by simp
qed


section \<open>The run\<close>

lemma wait_ends:
  assumes "timeout \<le> snd (rounds n)"
  shows "\<exists>r. wait_for_tokenizer rounds url model timeout = Some r"
  using wait_loop_ends [of timeout rounds 0 n] assms by (simp add: wait_for_tokenizer_def)

lemma prepared:
  assumes "prepare_prompt a w = Some (Inr (text, n))"
  shows "(\<exists>m\<ge>1. \<exists>t. text = make_context m \<and> tokenize_with (lc_server w) t text = Inr n)
    \<and> refuse_live_startup_guard (lc_guard w) = Inr ()
    \<and> enforce_long_context_safety (inspect_local_runtime (loopback w) (lc_docker w)) (target_tokens a) (allow_unsafe a) = Inr ()"
  using assms
  by (fastforce simp: prepare_prompt_def res_bind_Inr dest: calibrate_measured
      split: sum.splits option.splits if_splits)

lemma judged:
  assumes "judge_run w model text n = Inr art"
  shows "raw_tokens art = n \<and> (artifact_ok art \<longrightarrow> (\<exists>c. stream_chat (parse_json w) (lc_started w) (lc_post w) (lc_finished w) model text = Inr c
      \<and> answer art = Some c \<and> contains expected (normalized (content c)) \<and> model_api_status (models_after w) None None))"
  using assms by (auto simp: judge_run_def Let_def split: sum.splits lc_error.splits)

lemma main_artifact:
  assumes "lc_main a w = Some (rc, Some art)"
  shows "\<exists>text n. prepare_prompt a w = Some (Inr (text, n)) \<and> judge_run w (lc_model a) text n = Inr art
    \<and> rc = (if artifact_ok art then 0 else 1)"
  using assms
  by (auto simp: lc_main_def res_bind_def split: if_splits option.splits sum.splits lc_error.splits)

lemma main_codes:
  assumes "lc_main a w = Some (rc, art)"
  shows "rc \<in> {0, 1, 2} \<and> (rc = 0 \<longleftrightarrow> (\<exists>x. art = Some x \<and> artifact_ok x))"
  using assms
  by (auto simp: lc_main_def split: if_splits option.splits sum.splits lc_error.splits)

lemma main_ends:
  assumes "of_int (readiness_timeout a) \<le> snd (lc_rounds w n)"
  shows "lc_main a w \<noteq> None"
  using wait_ends [of "of_int (readiness_timeout a)" "lc_rounds w" n "base_url a" "lc_model a"] assms
  by (auto simp: lc_main_def prepare_prompt_def split: option.splits sum.splits lc_error.splits)

text \<open>C11: A prompt above the proven size is sent only when it is safe.  A run that got as far as
  an artifact, for such a target and without the override, has found no live startup guard, has
  read the environment of the local container, and found in it enough context for the prompt and
  512 tokens more, one sequence, a small prefill chunk, no CUDA graphs, no speculation, and a
  memory fraction that is a number not known to exceed the limit.\<close>

theorem preflight_fails_closed:
  assumes "lc_main a w = Some (rc, Some art)" "long_context_threshold < target_tokens a" "\<not> allow_unsafe a"
  shows "refuse_live_startup_guard (lc_guard w) = Inr ()
    \<and> (\<exists>env. inspect_local_runtime (loopback w) (lc_docker w) = Some env
      \<and> (\<exists>n. lc_int env ''MAX_MODEL_LEN'' = Some n \<and> target_tokens a + 512 \<le> n)
      \<and> lc_int env ''MAX_NUM_SEQS'' = Some 1
      \<and> (\<exists>n. lc_int env ''MAX_NUM_BATCHED_TOKENS'' = Some n \<and> n \<le> max_prefill_chunk)
      \<and> lc_int env ''DISABLE_CUDA_GRAPH'' = Some 1 \<and> lc_int env ''MTP_NUM_TOKENS'' = Some 0
      \<and> map_of env ''SPECULATIVE_ALGORITHM'' = Some ''NONE''
      \<and> (\<exists>s v. map_of env ''MEM_FRACTION_STATIC'' = Some s \<and> parse_float s = Some v \<and> \<not> over_fraction v))"
proof -
  obtain prompt n where "prepare_prompt a w = Some (Inr (prompt, n))"
    using main_artifact [OF assms(1)] by blast
  note p = prepared [OF this]
  then obtain env where env: "inspect_local_runtime (loopback w) (lc_docker w) = Some env"
      "long_context_safety_issues env (target_tokens a) = []"
    using assms(2,3) by (auto simp: enforce_long_context_safety_def split: option.splits if_splits)
  show ?thesis using p env(1) no_issues [OF env(2) assms(2)] by simp
qed

text \<open>C20: The run always ends once the clock has passed the readiness deadline in some round, with
  an exit code of 0, 1 or 2.  The code is 0 exactly when the artifact says so, and then the prompt
  that was sent is one with all three needles and at least one padding record, its recorded size
  is what the tokenizer measured for that very prompt, the answer without blanks and backquotes
  holds the three codes in their order, and the server answered afterwards.\<close>

theorem long_run_verdict:
  assumes "of_int (readiness_timeout a) \<le> snd (lc_rounds w n)"
  shows "\<exists>rc art. lc_main a w = Some (rc, art) \<and> rc \<in> {0, 1, 2}
    \<and> (rc = 0 \<longleftrightarrow> (\<exists>x. art = Some x \<and> artifact_ok x))
    \<and> (rc = 0 \<longrightarrow> (\<exists>m\<ge>1. \<exists>x t c. art = Some x
        \<and> tokenize_with (lc_server w) t (make_context m) = Inr (raw_tokens x)
        \<and> stream_chat (parse_json w) (lc_started w) (lc_post w) (lc_finished w) (lc_model a) (make_context m) = Inr c
        \<and> answer x = Some c \<and> contains expected (normalized (content c))
        \<and> model_api_status (models_after w) None None))"
proof -
  obtain rc art where m: "lc_main a w = Some (rc, art)" using main_ends [OF assms] by fastforce
  show ?thesis
  proof (cases "rc = 0")
    case True
    then obtain x where x: "art = Some x" "artifact_ok x" using main_codes [OF m] by blast
    obtain prompt k where p: "prepare_prompt a w = Some (Inr (prompt, k))" "judge_run w (lc_model a) prompt k = Inr x"
      using main_artifact m x(1) by blast
    show ?thesis using m main_codes [OF m] prepared [OF p(1)] judged [OF p(2)] x by blast
  next
    case False
    then show ?thesis using m main_codes [OF m] by blast
  qed
qed

section \<open>A run of the protected profile\<close>

definition guarded_args :: lc_args where
  "guarded_args = \<lparr>base_url = ''http://127.0.0.1:8888/v1'', lc_model = ''glm'', target_tokens = 131073,
     request_timeout = 3600, readiness_timeout = 60, cold = True, allow_unsafe = False\<rparr>"

definition guarded_env :: "(string \<times> string) list" where
  "guarded_env = [(''MAX_MODEL_LEN'', ''262144''), (''MAX_NUM_SEQS'', ''1''), (''MAX_NUM_BATCHED_TOKENS'', ''2048''),
     (''DISABLE_CUDA_GRAPH'', ''1''), (''MTP_NUM_TOKENS'', ''0''), (''SPECULATIVE_ALGORITHM'', ''NONE''),
     (''MEM_FRACTION_STATIC'', ''0.85'')]"

definition guarded_models :: reply where
  "guarded_models = Body (JObj [(''data'', JList [JObj [(''id'', JStr ''glm'')]])])"

definition guarded_server :: server where
  "guarded_server = (\<lambda>_ _. Body (JObj [(''count'', JInt 131100)]))"

definition guarded_event :: json where
  "guarded_event = JObj [(''choices'', JList [JObj [(''delta'', JObj [(''content'', JStr expected)])]])]"

definition guarded_world :: lc_world where
  "guarded_world = \<lparr>lc_guard = \<lparr>pid_file = None, kill_zero = (\<lambda>_. No_Process), cmdline = (\<lambda>_. None)\<rparr>,
     loopback = True,
     lc_docker = \<lparr>ps_output = Some ''head'', inspect_output = Some (0, Some (JList (map (\<lambda>(k, v). JStr (k @ ''='' @ v)) guarded_env)))\<rparr>,
     lc_rounds = (\<lambda>n. (guarded_server, of_nat (60 * n))), models_before = guarded_models,
     lc_server = guarded_server, flush_reply = (\<lambda>_. Not_Json),
     parse_json = (\<lambda>s. if s = ''event'' then Some guarded_event else None), lc_started = 0,
     lc_post = (\<lambda>_. Some [(100, ''data: event''), (101, ''data: [DONE]'')]), lc_finished = 101,
     models_after = guarded_models\<rparr>"

definition guarded_answer :: chat_result where
  "guarded_answer = \<lparr>content = expected, reasoning_chars = 0, prompt_tokens = JNull, completion_tokens = JNull,
     ttft = 100, total_seconds = 101, decode_rate = None, prefill_rate = None\<rparr>"

definition guarded_artifact :: lc_artifact where
  "guarded_artifact = \<lparr>raw_tokens = 131100, answer = Some guarded_answer, retrieval_ok = True, healthy_after = True,
     artifact_ok = True, failure = None\<rparr>"

lemma guarded_read: "inspect_local_runtime (loopback guarded_world) (lc_docker guarded_world) = Some guarded_env"
  by code_simp

lemma guarded_digits:
  "digit_char 0 = CHR ''0''" "digit_char (Suc 0) = CHR ''1''" "digit_char 2 = CHR ''2''" "digit_char 4 = CHR ''4''"
  "digit_char 5 = CHR ''5''" "digit_char 6 = CHR ''6''" "digit_char 8 = CHR ''8''"
  by code_simp+

lemma guarded_fraction: "parse_float ''0.85'' = Some (Fin (85 / 100))"
  using parse_zero_point [of "[8, 5]"] by (simp add: digits_val_def guarded_digits)

lemma guarded_numbers: "parse_int ''262144'' = Some 262144" "parse_int ''2048'' = Some 2048"
  "parse_int ''1'' = Some 1" "parse_int ''0'' = Some 0"
  using parse_int_show_int [of 262144] parse_int_show_int [of 2048] parse_int_show_int [of 1] parse_int_show_int [of 0]
  by (simp_all add: show_int_def show_nat.simps guarded_digits)

lemma guarded_values:
  "lc_int guarded_env ''MAX_MODEL_LEN'' = Some 262144" "lc_int guarded_env ''MAX_NUM_SEQS'' = Some 1"
  "lc_int guarded_env ''MAX_NUM_BATCHED_TOKENS'' = Some 2048" "lc_int guarded_env ''DISABLE_CUDA_GRAPH'' = Some 1"
  "lc_int guarded_env ''MTP_NUM_TOKENS'' = Some 0"
  "map_of guarded_env ''SPECULATIVE_ALGORITHM'' = Some ''NONE''" "map_of guarded_env ''MEM_FRACTION_STATIC'' = Some ''0.85''"
  by (simp_all add: lc_int_def guarded_env_def guarded_numbers)

lemma guarded_safe: "long_context_safety_issues guarded_env 131073 = []"
  by (simp add: long_context_safety_issues_def Let_def unknown_int_def guarded_values int_issue_def
      guarded_fraction over_fraction_def max_static_fraction_def max_prefill_chunk_def)

lemma guarded_tokenizer:
  "\<exists>t. wait_for_tokenizer (lc_rounds guarded_world) url model limit = Some (Inr t)"
proof -
  have "\<exists>t. discover_tokenizer guarded_server url model = Inr t"
    by (simp add: discover_tokenizer_def tokenizer_candidates_def Let_def guarded_server_def
        request_json_def count_token_payload_def jget_def)
  then show ?thesis
    unfolding wait_for_tokenizer_def
    by (subst wait_loop.simps) (auto simp: guarded_world_def)
qed

lemma guarded_count: "tokenize_with guarded_server t s = Inr 131100"
  by (simp add: tokenize_with_def guarded_server_def request_json_def count_token_payload_def jget_def)

lemma guarded_calibrated:
  "calibrate_context 131073 (tokenize_with guarded_server t) = Inr (make_context 1, 131100, 1)"
proof -
  have "calibrate_rounds (Suc 3) (tokenize_with guarded_server t) 131073 131100 1 ([], 0)
      = Inr (make_context 1, 131100, 1)"
    by (subst calibrate_rounds.simps) (simp add: guarded_count Let_def)
  then show ?thesis by (simp add: calibrate_context_def guarded_count)
qed

lemma guarded_prepared: "prepare_prompt guarded_args guarded_world = Some (Inr (make_context 1, 131100))"
proof -
  obtain t where t: "wait_for_tokenizer (lc_rounds guarded_world) (base_url guarded_args) (lc_model guarded_args)
      (of_int (readiness_timeout guarded_args)) = Some (Inr t)"
    using guarded_tokenizer by blast
  have "refuse_live_startup_guard (lc_guard guarded_world) = Inr ()"
    "model_api_status (models_before guarded_world) (Some (lc_model guarded_args)) (Some (target_tokens guarded_args + 512))"
    by code_simp+
  moreover have "enforce_long_context_safety (Some guarded_env) (target_tokens guarded_args) (allow_unsafe guarded_args) = Inr ()"
    by (simp add: enforce_long_context_safety_def guarded_args_def guarded_safe)
  moreover have "\<exists>u. flush_cache (flush_reply guarded_world) (base_url guarded_args) = Inr u"
    by (simp add: flush_cache_def Let_def guarded_world_def)
  moreover have "lc_server guarded_world = guarded_server" by (simp add: guarded_world_def)
  moreover have "target_tokens guarded_args = 131073" by (simp add: guarded_args_def)
  ultimately show ?thesis
    using t guarded_calibrated [of t] by (auto simp: prepare_prompt_def guarded_read)
qed

lemma guarded_judged: "judge_run guarded_world model prompt 131100 = Inr guarded_artifact"
proof -
  have "stream_lines (parse_json guarded_world) [(100, ''data: event''), (101, ''data: [DONE]'')] stream_start
      = Inr \<lparr>first_token = Some 100, content_parts = [JStr expected], reasoning_parts = [], usage = JObj []\<rparr>"
    by code_simp
  then have "stream_chat (parse_json guarded_world) (lc_started guarded_world) (lc_post guarded_world) (lc_finished guarded_world) model prompt
      = Inr guarded_answer"
    by (simp add: stream_chat_def guarded_world_def guarded_answer_def obj_get_def jget_def)
  moreover have "contains expected (normalized (content guarded_answer))" "model_api_status (models_after guarded_world) None None"
    by code_simp+
  ultimately show ?thesis by (simp add: judge_run_def Let_def guarded_artifact_def)
qed

lemma guarded_run: "lc_main guarded_args guarded_world = Some (0, Some guarded_artifact)"
proof -
  have "\<not> bad_args guarded_args" by (simp add: bad_args_def guarded_args_def)
  moreover have "artifact_ok guarded_artifact" by (simp add: guarded_artifact_def)
  ultimately show ?thesis by (simp add: lc_main_def guarded_prepared guarded_judged)
qed

theorem preflight_fails_closed_witness:
  "lc_main guarded_args guarded_world = Some (0, Some guarded_artifact)
    \<and> refuse_live_startup_guard (lc_guard guarded_world) = Inr ()
    \<and> (\<exists>env. inspect_local_runtime (loopback guarded_world) (lc_docker guarded_world) = Some env
      \<and> (\<exists>n. lc_int env ''MAX_MODEL_LEN'' = Some n \<and> target_tokens guarded_args + 512 \<le> n)
      \<and> lc_int env ''MAX_NUM_SEQS'' = Some 1
      \<and> (\<exists>n. lc_int env ''MAX_NUM_BATCHED_TOKENS'' = Some n \<and> n \<le> max_prefill_chunk)
      \<and> lc_int env ''DISABLE_CUDA_GRAPH'' = Some 1 \<and> lc_int env ''MTP_NUM_TOKENS'' = Some 0
      \<and> map_of env ''SPECULATIVE_ALGORITHM'' = Some ''NONE''
      \<and> (\<exists>s v. map_of env ''MEM_FRACTION_STATIC'' = Some s \<and> parse_float s = Some v \<and> \<not> over_fraction v))"
  using guarded_run preflight_fails_closed [OF guarded_run]
  by (simp only: guarded_args_def lc_args.simps long_context_threshold_def) simp

theorem long_run_verdict_witness:
  "\<exists>rc art. lc_main guarded_args guarded_world = Some (rc, art) \<and> rc \<in> {0, 1, 2}
    \<and> (rc = 0 \<longleftrightarrow> (\<exists>x. art = Some x \<and> artifact_ok x))
    \<and> (rc = 0 \<longrightarrow> (\<exists>m\<ge>1. \<exists>x t c. art = Some x
        \<and> tokenize_with (lc_server guarded_world) t (make_context m) = Inr (raw_tokens x)
        \<and> stream_chat (parse_json guarded_world) (lc_started guarded_world) (lc_post guarded_world) (lc_finished guarded_world)
            (lc_model guarded_args) (make_context m) = Inr c
        \<and> answer x = Some c \<and> contains expected (normalized (content c))
        \<and> model_api_status (models_after guarded_world) None None))"
  by (rule long_run_verdict [of _ _ 1]) (simp add: guarded_args_def guarded_world_def)

text \<open>A memory fraction of \<open>nan\<close> is a number that exceeds nothing: the check lets it pass.\<close>

lemma nan_fraction_passes:
  "long_context_safety_issues (dict_set guarded_env ''MEM_FRACTION_STATIC'' ''nan'') 131073 = []"
proof -
  have "parse_float ''nan'' = Some NaN" by code_simp
  then show ?thesis
    by (simp add: long_context_safety_issues_def Let_def unknown_int_def int_issue_def lc_int_def
        guarded_env_def guarded_numbers over_fraction_def max_prefill_chunk_def)
qed

text \<open>Without convergence the number of records that is reported is the one of the next round.\<close>

lemma repeats_of_next_round:
  "calibrate_context 1024 (\<lambda>_. Inr 1) = Inr (make_context 4092, 1, 5115)"
proof -
  have r: "round_half_even (1023 / 1) = 1023"
    using floor_of_int [of 1023, where 'a = real] by (simp add: round_half_even_def del: floor_of_int)
  have step: "calibrate_rounds (Suc k) (\<lambda>_. Inr 1) 1024 1 n c
      = calibrate_rounds k (\<lambda>_. Inr 1) 1024 1 (n + 1023) (make_context n, 1)" if "1 \<le> n" for k n c
    using that r by (subst calibrate_rounds.simps) (simp add: Let_def)
  have "calibrate_rounds (Suc (Suc (Suc (Suc 0)))) (\<lambda>_. Inr 1) 1024 1 1023 ([], 0)
      = Inr (make_context 4092, 1, 5115)"
    by (simp only: step) simp
  then show ?thesis by (simp add: calibrate_context_def numeral_eq_Suc del: calibrate_rounds.simps)
qed

end
