(* ===== verification/Patch_Access.thy ===== *)
theory Patch_Access
  imports Patch_Engine
begin

text \<open>
  The installers that open or close the server's interfaces and make it know the drafter:
  \<open>patch_auth_all_routes.py\<close>, \<open>patch_cache_reset.py\<close>, \<open>patch_ablit.py\<close>, \<open>patch_model_overrides.py\<close>,
  \<open>patch_glm_eagle3.py\<close>, \<open>patch_dflash2.py\<close>, \<open>patch_glm_dflash.py\<close> and the file edit of
  \<open>patch_glm_video_placeholders.py\<close>.  The anchors are the texts
  of the source.  Where a script replaces all occurrences it has checked that there is one.
\<close>

section \<open>Authentication on every route\<close>

definition au_mark :: string where
  \<open>au_mark = ''# [glm53-auth-all-routes]''\<close>

definition au_prefix_old :: string where
  \<open>au_prefix_old = text_lines [
     ''GUARDED_PREFIX = ("/v1", "/v2", "/inference", "/cohere")'']\<close>

definition au_prefix_new :: string where
  \<open>au_prefix_new = text_lines [
     ''GUARDED_PREFIX = ("/v1", "/v2", "/inference", "/cohere")'',
     ''# [glm53-auth-all-routes] Keyless probes; every other path needs the bearer'',
     ''# once an API key is configured (root-mounted /invocations generates too).'',
     ''GLM53_AUTH_OPEN_PATHS = frozenset({"/health", "/metrics", "/metrics/"})'']\<close>

definition au_check_old :: string where
  \<open>au_check_old = text_lines [
     ''        if url_path.startswith(GUARDED_PREFIX) and not self.verify_token(headers):'']\<close>

definition au_check_new :: string where
  \<open>au_check_new = text_lines [
     ''        if url_path not in GLM53_AUTH_OPEN_PATHS and not self.verify_token(headers):'']\<close>

definition au_installed :: "string \<Rightarrow> bool" where
  "au_installed s \<longleftrightarrow> text_count au_prefix_new s = 1 \<and> text_count au_check_new s = 1
     \<and> text_count au_check_old s = 0 \<and> text_count au_mark s = 1"

definition au_prepare :: "(string \<Rightarrow> bool) \<Rightarrow> string \<Rightarrow> fault + string" where
  "au_prepare compiles s =
     (if au_installed s then Inr s
      else if text_count au_mark s \<noteq> 0 \<or> text_count au_prefix_new s \<noteq> 0 \<or> text_count au_check_new s \<noteq> 0
      then Inl (Refused ''partial/inconsistent'')
      else if text_count au_prefix_old s \<noteq> 1 \<or> text_count au_check_old s \<noteq> 1
      then Inl (Refused ''anchors drifted'')
      else (let u = replace_first au_check_old au_check_new (replace_first au_prefix_old au_prefix_new s) in
        if \<not> au_installed u then Inl (Refused ''post-patch verification'')
        else if \<not> compiles u then Inl Unparsable else Inr u))"

text \<open>The condition of the middleware before and after: the request is refused.\<close>

definition guarded_prefixes :: "string list" where
  "guarded_prefixes = [''/v1'', ''/v2'', ''/inference'', ''/cohere'']"

definition open_paths :: "string list" where
  "open_paths = [''/health'', ''/metrics'', ''/metrics/'']"

definition refuses_stock :: "string \<Rightarrow> bool \<Rightarrow> bool" where
  "refuses_stock path token_ok \<longleftrightarrow> (\<exists>p\<in>set guarded_prefixes. starts_with p path) \<and> \<not> token_ok"

definition refuses_patched :: "string \<Rightarrow> bool \<Rightarrow> bool" where
  "refuses_patched path token_ok \<longleftrightarrow> path \<notin> set open_paths \<and> \<not> token_ok"

section \<open>The cache-reset routes\<close>

definition cr_mark :: string where
  \<open>cr_mark = ''# [glm53-cache-reset]''\<close>

definition cr_old :: string where
  \<open>cr_old = text_lines [
     ''    if envs.VLLM_SERVER_DEV_MODE:'',
     ''        from vllm.entrypoints.serve import register_vllm_dev_api_routers'',
     [],
     ''        register_vllm_dev_api_routers(app)'']\<close>

definition cr_new :: string where
  \<open>cr_new = text_lines [
     ''    if envs.VLLM_SERVER_DEV_MODE:'',
     ''        from vllm.entrypoints.serve import register_vllm_dev_api_routers'',
     [],
     ''        register_vllm_dev_api_routers(app)'',
     ''    elif os.getenv("GLM53_EXPOSE_CACHE_RESET", "0") == "1":'',
     ''        # [glm53-cache-reset] Expose only the cache-reset dev routes (issue'',
     ''        # #31): /reset_prefix_cache, /reset_mm_cache, /reset_encoder_cache.'',
     ''        # The rest of the dev surface (sleep / rlhf / rpc / server_info)'',
     ''        # stays off; VLLM_SERVER_DEV_MODE=1 keeps mounting everything.'',
     ''        from vllm.entrypoints.serve.dev.cache.api_router import ('',
     ''            attach_router as attach_cache_reset_router,'',
     ''        )'',
     [],
     ''        attach_cache_reset_router(app)'']\<close>

definition cr_prepare :: "(string \<Rightarrow> bool) \<Rightarrow> string \<Rightarrow> fault + string" where
  "cr_prepare compiles s =
     (if text_count cr_new s = 1 \<and> text_count cr_mark s \<le> 1 then Inr s
      else if text_count cr_mark s \<noteq> 0 \<or> text_count cr_new s \<noteq> 0 then Inl (Refused ''partial/inconsistent'')
      else if text_count cr_old s \<noteq> 1 then Inl (Found ''dev-mode block'' (text_count cr_old s))
      else (let u = replace_first cr_old cr_new s in
        if text_count cr_new u \<noteq> 1 \<or> text_count cr_mark u \<noteq> 1 then Inl (Refused ''post-patch verification'')
        else if \<not> compiles u then Inl Unparsable else Inr u))"

text \<open>The routes the patched server mounts.\<close>

datatype routes = Dev_Routes | Cache_Reset_Only | No_Routes

definition mounted :: "bool \<Rightarrow> string option \<Rightarrow> routes" where
  "mounted dev_mode expose =
     (if dev_mode then Dev_Routes
      else if (case expose of None \<Rightarrow> ''0'' | Some v \<Rightarrow> v) = ''1'' then Cache_Reset_Only
      else No_Routes)"

section \<open>The transplant hook\<close>

definition hk_marker :: string where
  \<open>hk_marker = ''ABLIT-HOOK''\<close>

definition hk_model_old :: string where
  \<open>hk_model_old = text_lines [
     ''                    weight_loader(param, loaded_weight, **kwargs)'',
     ''            loaded_params.add(name)''] @ ''        return loaded_params''\<close>

definition hk_model_new :: string where
  \<open>hk_model_new = text_lines [
     ''                    weight_loader(param, loaded_weight, **kwargs)'',
     ''            loaded_params.add(name)'',
     ''        from vllm.models.glm5next.nvidia.glm53_ablit import maybe_apply as _glm53_ablit_maybe_apply  # ABLIT-HOOK'',
     ''        _glm53_ablit_maybe_apply(self)  # ABLIT-HOOK''] @ ''        return loaded_params''\<close>

definition hk_mtp_old :: string where
  \<open>hk_mtp_old = text_lines [
     ''                    f"missing from checkpoint."'',
     ''                )''] @ ''        return loaded_params''\<close>

definition hk_mtp_new :: string where
  \<open>hk_mtp_new = text_lines [
     ''                    f"missing from checkpoint."'',
     ''                )'',
     ''        from vllm.models.glm5next.nvidia.glm53_ablit import maybe_apply as _glm53_ablit_maybe_apply  # ABLIT-HOOK'',
     ''        _glm53_ablit_maybe_apply(self)  # ABLIT-HOOK''] @ ''        return loaded_params''\<close>

definition hk_edit :: "string \<Rightarrow> string \<Rightarrow> string \<Rightarrow> fault + string" where
  "hk_edit old new s = (if contains hk_marker s then Inr s else replace_once ''patch target'' old new s)"

record hook_paths =
  runtime_src :: string
  runtime_dst :: string
  model_py :: string
  mtp_py :: string

definition copy_file :: "string \<Rightarrow> string \<Rightarrow> files \<Rightarrow> files \<times> fault option" where
  "copy_file src dst fs =
     (case fs src of None \<Rightarrow> (fs, Some MissingFile) | Some t \<Rightarrow> (fs(dst \<mapsto> t), None))"

definition continue_with :: "files \<times> fault option \<Rightarrow> (files \<Rightarrow> files \<times> fault option) \<Rightarrow> files \<times> fault option" where
  "continue_with r k = (case r of (fs, Some e) \<Rightarrow> (fs, Some e) | (fs, None) \<Rightarrow> k fs)"

definition hook_main :: "hook_paths \<Rightarrow> files \<Rightarrow> files \<times> fault option" where
  "hook_main ps fs =
     continue_with (copy_file (runtime_src ps) (runtime_dst ps) fs) (\<lambda>fs.
     continue_with (install (hk_edit hk_model_old hk_model_new) (model_py ps) fs)
       (install (hk_edit hk_mtp_old hk_mtp_new) (mtp_py ps)))"

section \<open>The quantisation override\<close>

definition mo_old :: string where
  \<open>mo_old = text_lines [
     ''            overrides = ['',
     ''                "auto_gptq",'']\<close>

definition mo_new :: string where
  \<open>mo_new = text_lines [
     ''            overrides = ['',
     ''                "exl3",'',
     ''                "auto_gptq",'']\<close>

definition mo_main :: "string \<Rightarrow> files \<Rightarrow> files \<times> fault option" where
  "mo_main = install (replace_once ''overrides list'' mo_old mo_new)"

section \<open>The persistent top-k of GB10\<close>

definition tk_old :: string where
  \<open>tk_old = ''if current_platform.is_cuda() and select_k in (512, 1024, 2048):''\<close>

definition tk_new :: string where
  \<open>tk_new = ''if False and current_platform.is_cuda() and select_k in (512, 1024, 2048):  # GB10 persistent_topk smem''\<close>

definition tk_prepare :: "string \<Rightarrow> fault + string" where
  "tk_prepare s =
     (if contains tk_new s then Inr s
      else if contains tk_old s then Inr (replace_first tk_old tk_new s)
      else Inl (Refused ''pattern not found''))"

section \<open>EAGLE-3 and DFlash2\<close>

text \<open>Each edit reads the file and writes it back before the next one; an edit whose result is
  there and whose anchor is not is skipped.\<close>

definition edit_unless :: "string \<Rightarrow> string \<Rightarrow> string \<Rightarrow> fault + string" where
  "edit_unless old new s =
     (if contains new s \<and> \<not> contains old s then Inr s else replace_once ''patch target'' old new s)"

fun run_edits :: "(string \<times> string \<times> string) list \<Rightarrow> files \<Rightarrow> files \<times> fault option" where
  "run_edits [] fs = (fs, None)"
| "run_edits ((p, old, new) # es) fs = continue_with (install (edit_unless old new) p fs) (run_edits es)"

fun compile_all :: "(string \<Rightarrow> bool) \<Rightarrow> string list \<Rightarrow> files \<Rightarrow> files \<times> fault option" where
  "compile_all compiles [] fs = (fs, None)"
| "compile_all compiles (p # ps) fs =
     (case fs p of
        None \<Rightarrow> (fs, Some MissingFile)
      | Some t \<Rightarrow> (if compiles t then compile_all compiles ps fs else (fs, Some Unparsable)))"

definition eg_import_old :: string where
  \<open>eg_import_old = text_lines [
     ''from vllm.model_executor.models.interfaces import ('',
     ''    HasInnerState,'',
     ''    IsHybrid,'',
     ''    MixtureOfExperts,'',
     ''    SupportsPP,'',
     '')'']\<close>

definition eg_import_new :: string where
  \<open>eg_import_new = text_lines [
     ''from vllm.model_executor.models.interfaces import ('',
     ''    EagleModelMixin,'',
     ''    HasInnerState,'',
     ''    IsHybrid,'',
     ''    MixtureOfExperts,'',
     ''    SupportsEagle3,'',
     ''    SupportsPP,'',
     '')'']\<close>

definition eg_model_old :: string where
  \<open>eg_model_old = text_lines [
     ''class Glm5NextModel(nn.Module):'']\<close>

definition eg_model_new :: string where
  \<open>eg_model_new = text_lines [
     ''class Glm5NextModel(nn.Module, EagleModelMixin):'']\<close>

definition eg_layers_old :: string where
  \<open>eg_layers_old = text_lines [
     ''        self._active_layers = self.layers[self.start_layer : self.end_layer]'']\<close>

definition eg_layers_new :: string where
  \<open>eg_layers_new = text_lines [
     ''        self._active_layers = self.layers[self.start_layer : self.end_layer]'',
     ''        self.aux_hidden_state_layers: tuple[int, ...] = ()'']\<close>

definition eg_loop_old :: string where
  \<open>eg_loop_old = text_lines [
     ''        full_num_tokens = positions.shape[0]'',
     ''        if self.is_sequence_parallel:'',
     ''            hidden_states = sp_shard(hidden_states)'',
     [],
     ''        for layer in self._active_layers:'',
     ''            hidden_states, residual, post, comb = layer('',
     ''                positions, hidden_states, residual, post, comb'',
     ''            )'']\<close>

definition eg_loop_new :: string where
  \<open>eg_loop_new = text_lines [
     ''        full_num_tokens = positions.shape[0]'',
     ''        if self.is_sequence_parallel:'',
     ''            hidden_states = sp_shard(hidden_states)'',
     [],
     ''        aux_hidden_states: list[torch.Tensor] = []'',
     ''        for idx, layer in enumerate('',
     ''            self._active_layers, start=self.start_layer'',
     ''        ):'',
     ''            hidden_states, residual, post, comb = layer('',
     ''                positions, hidden_states, residual, post, comb'',
     ''            )'',
     ''            if idx + 1 not in self.aux_hidden_state_layers:'',
     ''                continue'',
     ''            # Mid-stack mHC defers hc_post; materialize then contract'',
     ''            # 4 streams -> [tokens, hidden] (deepseek_v4 eagle3 pattern).'',
     ''            if post is not None and hasattr(layer, "hc_post"):'',
     ''                value = hc_contract('',
     ''                    layer.hc_post(hidden_states, residual, post, comb),'',
     ''                    layer.n,'',
     ''                )'',
     ''            else:'',
     ''                value = hidden_states'',
     ''                if value.ndim == 3:'',
     ''                    value = value.mean(dim=1)'',
     ''            if self.is_sequence_parallel:'',
     ''                value = sp_all_gather(value)[:full_num_tokens]'',
     ''            aux_hidden_states.append(value)'']\<close>

definition eg_norm_old :: string where
  \<open>eg_norm_old = text_lines [
     ''        hidden_states = self.norm(hidden_states)'',
     ''        return hidden_states'']\<close>

definition eg_norm_new :: string where
  \<open>eg_norm_new = text_lines [
     ''        hidden_states = self.norm(hidden_states)'',
     ''        if aux_hidden_states:'',
     ''            return hidden_states, aux_hidden_states'',
     ''        return hidden_states'']\<close>

definition eg_causal_old :: string where
  \<open>eg_causal_old = text_lines [
     ''class Glm5NextForCausalLM('',
     ''    nn.Module, HasInnerState, SupportsPP, MixtureOfExperts, IsHybrid'',
     ''):'']\<close>

definition eg_causal_new :: string where
  \<open>eg_causal_new = text_lines [
     ''class Glm5NextForCausalLM('',
     ''    nn.Module,'',
     ''    HasInnerState,'',
     ''    SupportsPP,'',
     ''    MixtureOfExperts,'',
     ''    IsHybrid,'',
     ''    SupportsEagle3,'',
     ''):'']\<close>

definition eg_cond_old :: string where
  \<open>eg_cond_old = text_lines [
     ''class Glm5NextForConditionalGeneration('',
     ''    Glm4vForConditionalGeneration, HasInnerState, IsHybrid'',
     ''):'']\<close>

definition eg_cond_new :: string where
  \<open>eg_cond_new = text_lines [
     ''class Glm5NextForConditionalGeneration('',
     ''    Glm4vForConditionalGeneration, HasInnerState, IsHybrid, SupportsEagle3'',
     ''):'']\<close>

definition eagle_edits :: "string \<Rightarrow> (string \<times> string \<times> string) list" where
  "eagle_edits p =
     [(p, eg_import_old, eg_import_new), (p, eg_model_old, eg_model_new), (p, eg_layers_old, eg_layers_new),
      (p, eg_loop_old, eg_loop_new), (p, eg_norm_old, eg_norm_new), (p, eg_causal_old, eg_causal_new),
      (p, eg_cond_old, eg_cond_new)]"

definition eagle_main :: "(string \<Rightarrow> bool) \<Rightarrow> string \<Rightarrow> files \<Rightarrow> files \<times> fault option" where
  "eagle_main compiles p fs = continue_with (run_edits (eagle_edits p) fs) (compile_all compiles [p])"

definition dq_causal_old :: string where
  \<open>dq_causal_old = text_lines [
     ''def _dflash_layer_causal(config: Qwen3Config, layer_idx: int) -> bool:'',
     ''    """'' @ [CHR 0x60] @ [CHR 0x60] @ ''dflash_config.causal'' @ [CHR 0x60] @ [CHR 0x60] @ '' overrides all layers; else only SWA layers causal."""'',
     ''    override = (getattr(config, "dflash_config", None) or {}).get("causal")'']\<close>

definition dq_causal_new :: string where
  \<open>dq_causal_new = text_lines [
     ''def _dflash_layer_causal(config: Qwen3Config, layer_idx: int) -> bool:'',
     ''    """Honor checkpoint '' @ [CHR 0x60] @ [CHR 0x60] @ ''is_causal'' @ [CHR 0x60] @ [CHR 0x60] @ '' (incoai DFlash2: false) before SWA=causal."""'',
     ''    is_causal = getattr(config, "is_causal", None)'',
     ''    if is_causal is not None:'',
     ''        return bool(is_causal)'',
     ''    override = (getattr(config, "dflash_config", None) or {}).get("causal")'']\<close>

definition dq_class_old :: string where
  \<open>dq_class_old = text_lines [
     ''@support_torch_compile'',
     ''class DFlashQwen3Model(nn.Module):'',
     ''    hf_to_vllm_mapper = WeightsMapper('']\<close>

definition dq_class_new :: string where
  \<open>dq_class_new = text_lines [
     ''@support_torch_compile'',
     ''class DFlashQwen3Model(nn.Module):'',
     ''    decoder_layer_cls = DFlashQwen3DecoderLayer'',
     ''    hf_to_vllm_mapper = WeightsMapper('']\<close>

definition dq_layers_old :: string where
  \<open>dq_layers_old = text_lines [
     ''        self.layers = nn.ModuleList('',
     ''            ['',
     ''                DFlashQwen3DecoderLayer('']\<close>

definition dq_layers_new :: string where
  \<open>dq_layers_new = text_lines [
     ''        self.layers = nn.ModuleList('',
     ''            ['',
     ''                self.decoder_layer_cls('']\<close>

definition dq_lm_old :: string where
  \<open>dq_lm_old = text_lines [
     ''class DFlashQwen3ForCausalLM(Qwen3ForCausalLM):'',
     ''    def __init__(self, *, vllm_config: VllmConfig, prefix: str = ""):'']\<close>

definition dq_lm_new :: string where
  \<open>dq_lm_new = text_lines [
     ''class DFlashQwen3ForCausalLM(Qwen3ForCausalLM):'',
     ''    model_cls = DFlashQwen3Model'',
     [],
     ''    def __init__(self, *, vllm_config: VllmConfig, prefix: str = ""):'']\<close>

definition dq_self_old :: string where
  \<open>dq_self_old = text_lines [
     ''        self.model = DFlashQwen3Model('',
     ''            vllm_config=vllm_config,'',
     ''            prefix=maybe_prefix(prefix, "model"),'',
     ''            start_layer_id=target_layer_num,'',
     ''        )'']\<close>

definition dq_self_new :: string where
  \<open>dq_self_new = text_lines [
     ''        self.model = self.model_cls('',
     ''            vllm_config=vllm_config,'',
     ''            prefix=maybe_prefix(prefix, "model"),'',
     ''            start_layer_id=target_layer_num,'',
     ''        )'']\<close>

definition dq_registry_old :: string where
  \<open>dq_registry_old = text_lines [
     ''    "DFlashDraftModel": ("qwen3_dflash", "DFlashQwen3ForCausalLM"),'']\<close>

definition dq_registry_new :: string where
  \<open>dq_registry_new = text_lines [
     ''    "DFlashDraftModel": ("qwen3_dflash", "DFlashQwen3ForCausalLM"),'',
     ''    "DFlash2DraftModel": ("qwen3_dflash2", "DFlash2Qwen3ForCausalLM"),'']\<close>

definition dq_config_old :: string where
  \<open>dq_config_old = text_lines [
     ''    speculative_config = vllm_config.speculative_config'',
     ''    assert speculative_config is not None'',
     ''    draft_model_config = speculative_config.draft_model_config'',
     ''    # Select an attention backend that supports the drafter's attention: mixing'',
     ''    # a non-causal layer onto a causal-only backend would fail.'',
     ''    draft_vllm_config = replace('',
     ''        vllm_config,'',
     ''        attention_config=replace('',
     ''            vllm_config.attention_config,'',
     ''            use_non_causal=dflash_has_any_non_causal(draft_model_config.hf_config),'',
     ''            backend=speculative_config.attention_backend,'',
     ''        ),'',
     ''        cache_config=('',
     ''            replace('',
     ''                vllm_config.cache_config,'',
     ''                cache_dtype=speculative_config.kv_cache_dtype,'',
     ''            )'',
     ''            if speculative_config.kv_cache_dtype is not None'',
     ''            else vllm_config.cache_config'',
     ''        ),'',
     ''    )'']\<close>

definition dq_config_new :: string where
  \<open>dq_config_new = text_lines [
     ''    speculative_config = vllm_config.speculative_config'',
     ''    assert speculative_config is not None'',
     ''    draft_model_config = speculative_config.draft_model_config'',
     ''    # Dense DFlash2 attention cannot use the target's MLA-only fp8_ds_mla'',
     ''    # layout, and SM121 has no FA3/FA4 for plain FP8 KV. Keep draft KV in'',
     ''    # the model dtype unless speculative_config.kv_cache_dtype is set.'',
     ''    draft_kv = speculative_config.kv_cache_dtype'',
     ''    if draft_kv is None and vllm_config.cache_config.cache_dtype in ('',
     ''        "fp8_ds_mla",'',
     ''        "fp8",'',
     ''        "fp8_e4m3",'',
     ''        "fp8_e5m2",'',
     ''        "nvfp4",'',
     ''    ):'',
     ''        draft_kv = "auto"'',
     ''    # Select an attention backend that supports the drafter's attention: mixing'',
     ''    # a non-causal layer onto a causal-only backend would fail.'',
     ''    draft_vllm_config = replace('',
     ''        vllm_config,'',
     ''        attention_config=replace('',
     ''            vllm_config.attention_config,'',
     ''            use_non_causal=dflash_has_any_non_causal(draft_model_config.hf_config),'',
     ''            backend=speculative_config.attention_backend,'',
     ''        ),'',
     ''        cache_config=('',
     ''            replace('',
     ''                vllm_config.cache_config,'',
     ''                cache_dtype=draft_kv,'',
     ''            )'',
     ''            if draft_kv is not None'',
     ''            else vllm_config.cache_config'',
     ''        ),'',
     ''    )'']\<close>

definition dq_init_old :: string where
  \<open>dq_init_old = text_lines [
     ''    if speculative_config.method == "dflash":'',
     ''        from vllm.v1.worker.gpu.spec_decode.dflash.speculator import ('',
     ''            DFlashSpeculator,'',
     ''        )'',
     [],
     ''        return DFlashSpeculator(vllm_config, device)'']\<close>

definition dq_init_new :: string where
  \<open>dq_init_new = text_lines [
     ''    if speculative_config.method == "dflash":'',
     ''        if "DFlash2DraftModel" in speculative_config.draft_model_config.architectures:'',
     ''            from vllm.v1.worker.gpu.spec_decode.dflash2.speculator import ('',
     ''                DFlash2Speculator,'',
     ''            )'',
     [],
     ''            return DFlash2Speculator(vllm_config, device)'',
     ''        from vllm.v1.worker.gpu.spec_decode.dflash.speculator import ('',
     ''            DFlashSpeculator,'',
     ''        )'',
     [],
     ''        return DFlashSpeculator(vllm_config, device)'']\<close>

record dflash_paths =
  src_model :: string
  src_spec :: string
  dst_model :: string
  dst_spec :: string
  dst_init :: string
  qwen :: string
  registry :: string
  dflash_utils :: string
  spec_init :: string

definition licence_line :: string where
  "licence_line = ''# SPDX-License-Identifier: Apache-2.0'' @ [newline]"

definition dflash_edits :: "dflash_paths \<Rightarrow> (string \<times> string \<times> string) list" where
  "dflash_edits ps =
     [(qwen ps, dq_causal_old, dq_causal_new), (qwen ps, dq_class_old, dq_class_new),
      (qwen ps, dq_layers_old, dq_layers_new), (qwen ps, dq_lm_old, dq_lm_new), (qwen ps, dq_self_old, dq_self_new),
      (registry ps, dq_registry_old, dq_registry_new), (dflash_utils ps, dq_config_old, dq_config_new),
      (spec_init ps, dq_init_old, dq_init_new)]"

definition dflash2_main :: "(string \<Rightarrow> bool) \<Rightarrow> dflash_paths \<Rightarrow> files \<Rightarrow> files \<times> fault option" where
  "dflash2_main compiles ps fs =
     continue_with (copy_file (src_model ps) (dst_model ps) fs) (\<lambda>fs.
     continue_with (copy_file (src_spec ps) (dst_spec ps) fs) (\<lambda>fs.
     continue_with (run_edits (dflash_edits ps) (if fs (dst_init ps) = None then fs(dst_init ps \<mapsto> licence_line) else fs))
       (compile_all compiles [dst_model ps, dst_spec ps, qwen ps, dflash_utils ps, spec_init ps])))"

section \<open>The capture of hidden states in SGLang\<close>

definition gd_marker :: string where
  \<open>gd_marker = ''def set_dflash_layers_to_capture''\<close>

definition gd_import_old :: string where
  \<open>gd_import_old = text_lines [
     ''from sglang.kernels.ops.layernorm.mhc import hc_post as _hc_post_fn'']\<close>

definition gd_import_new :: string where
  \<open>gd_import_new = text_lines [
     ''from sglang.kernels.ops.layernorm.mhc import hc_contract'',
     ''from sglang.kernels.ops.layernorm.mhc import hc_post as _hc_post_fn'']\<close>

definition gd_config_old :: string where
  \<open>gd_config_old = text_lines [
     ''class Glm5NextModel(nn.Module):'',
     ''    fall_back_to_pt_during_load = False'',
     [],
     ''    def __init__('',
     ''        self,'',
     ''        config: Glm5NextTextConfig,'',
     ''        quant_config: Optional[QuantizationConfig] = None,'',
     ''        prefix: str = "",'',
     ''    ) -> None:'',
     ''        super().__init__()'',
     ''        self.padding_id = config.pad_token_id'']\<close>

definition gd_config_new :: string where
  \<open>gd_config_new = text_lines [
     ''class Glm5NextModel(nn.Module):'',
     ''    fall_back_to_pt_during_load = False'',
     [],
     ''    def __init__('',
     ''        self,'',
     ''        config: Glm5NextTextConfig,'',
     ''        quant_config: Optional[QuantizationConfig] = None,'',
     ''        prefix: str = "",'',
     ''    ) -> None:'',
     ''        super().__init__()'',
     ''        self.config = config'',
     ''        self.padding_id = config.pad_token_id'']\<close>

definition gd_state_old :: string where
  \<open>gd_state_old = text_lines [
     ''        self.layers_to_capture = []'']\<close>

definition gd_state_new :: string where
  \<open>gd_state_new = text_lines [
     ''        self.layers_to_capture = []'',
     ''        self.dflash_capture = False'']\<close>

definition gd_aux_old :: string where
  \<open>gd_aux_old = text_lines [
     ''    def get_input_embeddings(self) -> torch.Tensor:'',
     ''        return self.embed_tokens'',
     [],
     ''    def forward('',
     ''        self,'',
     ''        input_ids: torch.Tensor,'']\<close>

definition gd_aux_new :: string where
  \<open>gd_aux_new = text_lines [
     ''    def get_input_embeddings(self) -> torch.Tensor:'',
     ''        return self.embed_tokens'',
     [],
     ''    def _prepare_aux_hidden_state('',
     ''        self, hidden_states: torch.Tensor, residual: Optional[torch.Tensor]'',
     ''    ) -> torch.Tensor:'',
     ''        aux_hidden_state = ('',
     ''            hidden_states if residual is None else hidden_states + residual'',
     ''        )'',
     ''        if self.dflash_capture and self.config.mhc:'',
     ''            aux_hidden_state = hc_contract(aux_hidden_state, self.config.hc_mult)'',
     ''        return aux_hidden_state'',
     [],
     ''    def forward('',
     ''        self,'',
     ''        input_ids: torch.Tensor,'']\<close>

definition gd_tbo_old :: string where
  \<open>gd_tbo_old = text_lines [
     ''        if forward_batch.can_run_tbo:'']\<close>

definition gd_tbo_new :: string where
  \<open>gd_tbo_new = text_lines [
     ''        if forward_batch.can_run_tbo and not self.dflash_capture:'']\<close>

definition gd_loop_old :: string where
  \<open>gd_loop_old = text_lines [
     ''                if i in self.layers_to_capture:'',
     ''                    if self.enable_a2a_moe and i > self.first_k_dense_replace:'',
     ''                        aux_hidden_state = get_parallel().attn_tp_group.all_gather('',
     ''                            hidden_states + residual, dim=0'',
     ''                        )'',
     ''                        aux_hidden_states.append(aux_hidden_state)'',
     ''                    else:'',
     ''                        aux_hidden_states.append(hidden_states + residual)'']\<close>

definition gd_loop_new :: string where
  \<open>gd_loop_new = text_lines [
     ''                if i in self.layers_to_capture:'',
     ''                    aux_hidden_state = self._prepare_aux_hidden_state('',
     ''                        hidden_states, residual'',
     ''                    )'',
     ''                    if self.enable_a2a_moe and i > self.first_k_dense_replace:'',
     ''                        aux_hidden_state = get_parallel().attn_tp_group.all_gather('',
     ''                            aux_hidden_state, dim=0'',
     ''                        )'',
     ''                    aux_hidden_states.append(aux_hidden_state)'']\<close>

definition gd_hook_old :: string where
  \<open>gd_hook_old = text_lines [
     ''    def prepare_context_parallel_metadata_for_dcp('']\<close>

definition gd_hook_new :: string where
  \<open>gd_hook_new = text_lines [
     ''    def set_dflash_layers_to_capture(self, layer_ids: List[int]):'',
     ''        if not self.pp_group.is_last_rank:'',
     ''            return'',
     [],
     ''        if layer_ids is None:'',
     ''            raise ValueError('',
     ''                "DFLASH requires explicit layer_ids for aux hidden capture."'',
     ''            )'',
     [],
     ''        self.capture_aux_hidden_states = True'',
     ''        self.model.dflash_capture = True'',
     ''        self.model.layers_to_capture = [val + 1 for val in layer_ids]'',
     [],
     ''    def prepare_context_parallel_metadata_for_dcp('']\<close>

definition gd_edits :: "edit list" where
  "gd_edits =
     [(''hc_contract import'', gd_import_old, gd_import_new), (''model config'', gd_config_old, gd_config_new),
      (''dflash capture state'', gd_state_old, gd_state_new), (''aux hidden preparation'', gd_aux_old, gd_aux_new),
      (''TBO gate'', gd_tbo_old, gd_tbo_new), (''capture loop'', gd_loop_old, gd_loop_new),
      (''target hook'', gd_hook_old, gd_hook_new)]"

definition gd_prepare :: "string \<Rightarrow> fault + string" where
  "gd_prepare s = (if contains gd_marker s then Inr s else apply_edits gd_edits s)"

definition gd_contraction :: string where "gd_contraction = ''hc_contract(aux_hidden_state''"

record gate_paths =
  glm_file :: string
  server_args :: string
  draft_model :: string
  draft_worker :: string

text \<open>The file is written before the prerequisites are checked.\<close>

definition gd_main :: "(string \<Rightarrow> bool) \<Rightarrow> gate_paths \<Rightarrow> files \<Rightarrow> files \<times> fault option" where
  "gd_main parses ps fs =
     (case fs (glm_file ps) of
        None \<Rightarrow> (fs, Some MissingFile)
      | Some s \<Rightarrow>
     (case gd_prepare s of
        Inl e \<Rightarrow> (fs, Some e)
      | Inr u \<Rightarrow>
          (if \<not> parses u then (fs, Some Unparsable)
           else (let fs' = fs(glm_file ps \<mapsto> u) in
             (case fs' (server_args ps) of
                None \<Rightarrow> (fs', Some MissingFile)
              | Some a \<Rightarrow>
                  (if contains ''DFLASH'' a \<and> contains ''fa4'' (lower a)
                      \<and> fs' (draft_model ps) \<noteq> None \<and> fs' (draft_worker ps) \<noteq> None
                      \<and> contains gd_marker u \<and> contains gd_contraction u
                   then (fs', None) else (fs', Some (Refused ''prerequisites missing''))))))))"

section \<open>Contracts\<close>

interpretation au: stable_patch "au_prepare compiles" au_installed for compiles
  by unfold_locales (auto simp: au_prepare_def Let_def split: if_splits)

definition cr_installed :: "string \<Rightarrow> bool" where
  "cr_installed s \<longleftrightarrow> text_count cr_new s = 1 \<and> text_count cr_mark s \<le> 1"

interpretation cr: stable_patch "cr_prepare compiles" cr_installed for compiles
  by unfold_locales (auto simp: cr_prepare_def cr_installed_def Let_def split: if_splits)

lemma hk_marked: "contains hk_marker hk_model_new" "contains hk_marker hk_mtp_new"
  unfolding hk_model_new_def hk_mtp_new_def
  by (rule contains_appendI1, rule contains_lines, code_simp)+

interpretation hk_model: stable_patch "hk_edit hk_model_old hk_model_new" "contains hk_marker"
  by unfold_locales
     (auto simp: hk_edit_def split: if_splits dest: replace_once_contains intro: contains_trans [OF hk_marked(1)])

interpretation hk_mtp: stable_patch "hk_edit hk_mtp_old hk_mtp_new" "contains hk_marker"
  by unfold_locales
     (auto simp: hk_edit_def split: if_splits dest: replace_once_contains intro: contains_trans [OF hk_marked(2)])

interpretation tk: stable_patch tk_prepare "contains tk_new"
  by unfold_locales (auto simp: tk_prepare_def contains_replace_first split: if_splits)

lemma gd_marked: "contains gd_marker gd_hook_new"
  unfolding gd_hook_new_def by (rule contains_lines) code_simp

interpretation gd: stable_patch gd_prepare "contains gd_marker"
proof unfold_locales
  fix s u assume "gd_prepare s = Inr u"
  then show "contains gd_marker u"
    using apply_edits_last [of "butlast gd_edits" "''target hook''" gd_hook_old gd_hook_new s u]
    by (auto simp: gd_prepare_def gd_edits_def split: if_splits intro: contains_trans [OF gd_marked])
qed (auto simp: gd_prepare_def split: if_splits)

section \<open>What is refused\<close>

lemma open_not_guarded:
  "\<forall>q\<in>set open_paths. \<forall>p\<in>set guarded_prefixes. \<not> starts_with p q"
  by code_simp

lemma patched_refuses_more: "refuses_stock path ok \<Longrightarrow> refuses_patched path ok"
  using open_not_guarded by (auto simp: refuses_stock_def refuses_patched_def)

text \<open>A file of just the two anchors.\<close>

lemma count_zero: "w \<noteq> [] \<Longrightarrow> \<not> touch a w \<Longrightarrow> text_count w a = 0"
  using text_count_skip [of w a "[]"] text_count_empty [of w] by simp

lemma au_texts:
  "au_prefix_old \<noteq> [] \<and> au_prefix_new \<noteq> [] \<and> au_check_old \<noteq> [] \<and> au_check_new \<noteq> [] \<and> au_mark \<noteq> []"
  "\<not> touch (au_prefix_old @ au_check_old) au_prefix_new" "\<not> touch (au_prefix_old @ au_check_old) au_check_new"
  "\<not> touch (au_prefix_old @ au_check_old) au_mark" "\<not> touch au_check_old au_prefix_old"
  "\<not> touch au_prefix_old au_check_old" "\<not> touch au_prefix_new au_check_old" "\<not> touch au_prefix_new au_check_new"
  "\<not> touch au_check_new au_prefix_new" "\<not> touch (au_prefix_new @ au_check_new) au_check_old"
  by code_simp+

lemma au_mark_once: "text_count au_mark (au_prefix_new @ au_check_new) = 1"
  unfolding au_mark_def au_prefix_new_def au_check_new_def
  by (simp add: text_count_Cons starts_with_def newline_def)

lemma au_fresh: "au_prepare (\<lambda>_. True) (au_prefix_old @ au_check_old) = Inr (au_prefix_new @ au_check_new)"
proof -
  note here = text_count_here [of _ "[]", simplified] replace_first_here [of _ _ "[]", simplified]
  have "au_installed (au_prefix_new @ au_check_new)"
    using au_texts au_mark_once
    by (simp add: au_installed_def count_zero text_count_here text_count_skip here)
  then show ?thesis
    using au_texts
    by (simp add: au_prepare_def au_installed_def count_zero text_count_here text_count_skip
        replace_first_here replace_first_skip here)
qed



section \<open>Running the installers again\<close>

lemma copy_frame: "q \<noteq> dst \<Longrightarrow> fst (copy_file src dst fs) q = fs q"
  by (auto simp: copy_file_def split: option.splits)

text \<open>After the hook has been installed both files carry the mark, the runtime is the one of the
  image, and another run changes nothing.\<close>

lemma hook_installed:
  assumes "hook_main ps fs = (fs', None)"
    and "distinct [runtime_src ps, runtime_dst ps, model_py ps, mtp_py ps]"
  shows "(\<exists>m t r. fs' = fs(runtime_dst ps \<mapsto> r, model_py ps \<mapsto> m, mtp_py ps \<mapsto> t)
      \<and> fs (runtime_src ps) = Some r \<and> contains hk_marker m \<and> contains hk_marker t)
    \<and> hook_main ps fs' = (fs', None)"
proof -
  obtain r where r: "fs (runtime_src ps) = Some r"
    using assms(1) by (auto simp: hook_main_def continue_with_def copy_file_def split: option.splits)
  let ?f1 = "fs(runtime_dst ps \<mapsto> r)"
  obtain f2 where f2: "install (hk_edit hk_model_old hk_model_new) (model_py ps) ?f1 = (f2, None)"
    and f3: "install (hk_edit hk_mtp_old hk_mtp_new) (mtp_py ps) f2 = (fs', None)"
    using assms(1) r by (auto simp: hook_main_def continue_with_def copy_file_def split: prod.splits option.splits)
  obtain m where m: "f2 = ?f1(model_py ps \<mapsto> m)" "contains hk_marker m"
    using hk_model.install_success [OF f2] by blast
  obtain t where t: "fs' = f2(mtp_py ps \<mapsto> t)" "contains hk_marker t"
    using hk_mtp.install_success [OF f3] by blast
  have fs': "fs' = fs(runtime_dst ps \<mapsto> r, model_py ps \<mapsto> m, mtp_py ps \<mapsto> t)" using m t by simp
  have "fs' (runtime_src ps) = Some r" "fs'(runtime_dst ps \<mapsto> r) = fs'"
    "fs' (model_py ps) = Some m" "fs' (mtp_py ps) = Some t"
    using assms(2) r by (auto simp: fs' fun_eq_iff)
  then have "hook_main ps fs' = (fs', None)"
    using m(2) t(2) by (simp add: hook_main_def continue_with_def copy_file_def install_def hk_edit_def)
  then show ?thesis using fs' r m(2) t(2) by blast
qed

text \<open>An edit whose result extends its anchor is never recognised as done: every run adds its
  text once more.\<close>

lemma extension_repeats:
  assumes "edit_unless old (old @ x) s = Inr u" "old \<noteq> []" "x \<noteq> []" "apart x old"
  shows "\<exists>v. edit_unless old (old @ x) u = Inr v \<and> text_count x v = Suc (text_count x u)"
proof -
  have skip: "contains old t" if "contains (old @ x) t" for t
    using that contains_trans [of old "old @ x" t] contains_appendI1 [of old old x] by simp
  have one: "text_count old s = 1" and u: "u = replace_first old (old @ x) s"
    using assms(1) skip by (auto simp: edit_unless_def replace_once_Inr split: if_splits)
  then obtain a b where s: "s = a @ old @ b" and ub: "u = a @ old @ x @ b"
    using replace_first_split [of old s "old @ x"] text_count_contains [of old s] by auto
  have "text_count old u = text_count old (a @ old) + text_count old b"
    using text_count_apart [OF assms(4,2,3), of "a @ old" b] by (simp add: ub)
  moreover have "text_count old (a @ old) + text_count old b \<le> 1"
    using text_count_superadd [OF assms(2), of "a @ old" b] one by (simp add: s)
  moreover have "1 \<le> text_count old (a @ old)"
    using text_count_superadd [OF assms(2), of a old] text_count_here [OF assms(2), of "[]"] by simp
  ultimately have u1: "text_count old u = 1" by linarith
  then obtain c d where uc: "u = c @ old @ d" and v: "replace_first old (old @ x) u = c @ old @ x @ d"
    using replace_first_split [of old u "old @ x"] text_count_contains [of old u] by auto
  have "text_count x (c @ old @ x @ d) = Suc (text_count x (c @ old @ d))"
    using text_count_apart [OF apart_sym [OF assms(4)] assms(3,2), of c] text_count_here [OF assms(3)]
    by simp
  then show ?thesis
    using u1 v skip [of u] text_count_contains [of old u] uc
    by (auto simp: edit_unless_def replace_once_Inr)
qed

definition dq_entry :: string where
  "dq_entry = drop (length dq_registry_old) dq_registry_new"

lemma dq_registry_new: "dq_registry_new = dq_registry_old @ dq_entry"
  and dq_entry: "dq_registry_old \<noteq> []" "dq_entry \<noteq> []" "apart dq_entry dq_registry_old"
  unfolding apart_def by code_simp+

text \<open>So a second run registers the drafter a second time.\<close>

lemma registry_entry_repeats:
  "edit_unless dq_registry_old dq_registry_new s = Inr u \<Longrightarrow>
     \<exists>v. edit_unless dq_registry_old dq_registry_new u = Inr v \<and> text_count dq_entry v = Suc (text_count dq_entry u)"
  unfolding dq_registry_new by (rule extension_repeats [OF _ dq_entry])

end
