(* ===== verification/Video_Grid.thy ===== *)
theory Video_Grid
  imports Py_Text Py_Stats
begin

text \<open>
  Video placeholders (\<open>patch_glm_video_placeholders.py\<close>): the timestamps are resampled to the
  number of temporal groups the encoder produces, so that the prompt has one image block per
  group.  The processor, its three ways to compute timestamps and the tokenizer are arguments.
\<close>

section \<open>Timestamps\<close>

definition align_timestamps :: "real list \<Rightarrow> int \<Rightarrow> real list" where
  "align_timestamps timestamps t_groups =
     (let t = nat (if t_groups < 1 then 1 else t_groups); n = length timestamps in
      if timestamps = [] then replicate t 0
      else if n = t then timestamps
      else if t = 1 then [timestamps ! 0]
      else if n < t then timestamps @ replicate (t - n) (last timestamps)
      else (let l = n - 1 in
        map (\<lambda>i. timestamps ! nat (round_half_even (real (i * l) / real (t - 1)))) [0..<t]))"

text \<open>What \<open>_use_glm4v_timestamps\<close> looks at: the names of the two classes (\<open>None\<close> for no video
  processor), whether the video processor has \<open>max_duration\<close>, and \<open>isinstance\<close>.\<close>

record processor =
  proc_name :: string
  video_proc_name :: "string option"
  has_max_duration :: bool
  is_glm4v :: bool
  is_glmga :: bool

definition use_glm4v_timestamps :: "processor \<Rightarrow> bool" where
  "use_glm4v_timestamps p =
     (let vp_name = (case video_proc_name p of None \<Rightarrow> [] | Some n \<Rightarrow> n) in
      if contains ''Glm5'' (proc_name p) \<or> contains ''Glm5'' vp_name then False
      else if video_proc_name p \<noteq> None \<and> \<not> has_max_duration p then False
      else is_glm4v p)"

section \<open>The placeholder\<close>

datatype stamps = Glm4v_Seconds | Glmga_Seconds | Glm46v_Seconds

datatype stamp_format = Plain | With_Seconds

definition stamp_kind :: "processor \<Rightarrow> stamps \<times> stamp_format" where
  "stamp_kind p =
     (if use_glm4v_timestamps p then (Glm4v_Seconds, Plain)
      else if is_glmga p then (Glmga_Seconds, With_Seconds)
      else (Glm46v_Seconds, With_Seconds))"

record token_ids =
  video_start :: int
  image_start :: int
  embed :: int
  image_end :: int
  video_end :: int

definition image_block :: "token_ids \<Rightarrow> (stamp_format \<Rightarrow> real \<Rightarrow> int list) \<Rightarrow> stamp_format \<Rightarrow> nat \<Rightarrow> real \<Rightarrow> int list" where
  "image_block ids encode fmt n_per ts =
     [image_start ids] @ replicate n_per (embed ids) @ [image_end ids] @ encode fmt ts"

text \<open>\<open>grid\<close> is the encoder's grid: temporal groups, height and width; \<open>stamps_of\<close> computes the
  timestamps, and \<open>encode\<close> tokenizes a formatted one.\<close>

definition construct_video_placeholder ::
  "processor \<Rightarrow> token_ids \<Rightarrow> nat \<Rightarrow> (stamps \<Rightarrow> real list) \<Rightarrow> (stamp_format \<Rightarrow> real \<Rightarrow> int list)
     \<Rightarrow> nat \<times> nat \<times> nat \<Rightarrow> int list" where
  "construct_video_placeholder p ids merge_size stamps_of encode grid =
     (case grid of (t_groups, height, width) \<Rightarrow>
       let n_per = height * width div merge_size ^ 2; (kind, fmt) = stamp_kind p;
           timestamps = align_timestamps (stamps_of kind) (int t_groups) in
       [video_start ids] @ concat (map (image_block ids encode fmt n_per) timestamps) @ [video_end ids])"

section \<open>Alignment\<close>

lemma round_mono:
  assumes "x \<le> y"
  shows "round_half_even x \<le> round_half_even y"
proof (rule ccontr)
  assume "\<not> round_half_even x \<le> round_half_even y"
  then have "round_half_even y + 1 \<le> round_half_even x" by simp
  then have "real_of_int (round_half_even y) + 1 \<le> real_of_int (round_half_even x)" by linarith
  then have "x = y" using round_half_even_error [of x] round_half_even_error [of y] assms by linarith
  with \<open>\<not> _\<close> show False by simp
qed

lemma round_of_nat [simp]: "round_half_even (real n) = int n"
  by (simp add: round_half_even_def)

lemma round_within: "0 \<le> x \<Longrightarrow> x \<le> real n \<Longrightarrow> 0 \<le> round_half_even x \<and> round_half_even x \<le> int n"
  using round_mono [of "real 0" x] round_mono [of x "real n"] by (simp del: of_nat_0)

text \<open>The sampled position of the i-th of t groups.\<close>

definition sample_at :: "nat \<Rightarrow> nat \<Rightarrow> nat \<Rightarrow> nat" where
  "sample_at l t i = nat (round_half_even (real (i * l) / real (t - 1)))"

lemma sample_at_bounds:
  assumes "2 \<le> t"
  shows "i < t \<Longrightarrow> sample_at l t i \<le> l" "sample_at l t 0 = 0" "sample_at l t (t - 1) = l"
    "i \<le> j \<Longrightarrow> sample_at l t i \<le> sample_at l t j"
proof -
  have t: "0 < real (t - 1)" using assms by simp
  show "sample_at l t i \<le> l" if "i < t"
  proof -
    have "i \<le> t - 1" using that by simp
    then have "i * l \<le> l * (t - 1)" by (simp add: mult.commute)
    then have "real (i * l) \<le> real l * real (t - 1)" by (metis of_nat_le_iff of_nat_mult)
    then have "real (i * l) / real (t - 1) \<le> real l" using t by (simp add: divide_le_eq)
    then show ?thesis using round_within [of "real (i * l) / real (t - 1)" l] by (simp add: sample_at_def nat_le_iff)
  qed
  show "sample_at l t 0 = 0" using round_of_nat [of 0] by (simp add: sample_at_def del: round_of_nat)
  show "sample_at l t (t - 1) = l" using t by (simp add: sample_at_def)
  show "sample_at l t i \<le> sample_at l t j" if "i \<le> j"
  proof -
    have "real (i * l) / real (t - 1) \<le> real (j * l) / real (t - 1)"
      using that t by (intro divide_right_mono) (simp_all add: mult_right_mono)
    then show ?thesis using round_mono by (simp add: sample_at_def nat_mono)
  qed
qed

lemma align_cases:
  assumes "xs \<noteq> []" "1 \<le> t"
  shows "align_timestamps xs t = (if length xs < nat t then xs @ replicate (nat t - length xs) (last xs)
     else if t = 1 then [hd xs]
     else map (\<lambda>i. xs ! sample_at (length xs - 1) (nat t) i) [0..<nat t])"
proof (cases "length xs = nat t \<and> t \<noteq> 1")
  case True
  then have "xs ! sample_at (length xs - 1) (nat t) i = xs ! i" if "i < length xs" for i
    using that by (simp add: sample_at_def)
  then have "map (\<lambda>i. xs ! sample_at (length xs - 1) (nat t) i) [0..<nat t] = xs"
    using True by (intro nth_equalityI) simp_all
  then show ?thesis using True assms by (simp add: align_timestamps_def Let_def)
next
  case False
  then show ?thesis using assms
    by (auto simp: align_timestamps_def Let_def sample_at_def hd_conv_nth length_Suc_conv)
qed

lemma align_props:
  assumes "xs \<noteq> []" "1 \<le> t"
  shows "length (align_timestamps xs t) = nat t \<and> set (align_timestamps xs t) \<subseteq> set xs
    \<and> hd (align_timestamps xs t) = hd xs \<and> (1 < t \<longrightarrow> last (align_timestamps xs t) = last xs)
    \<and> (sorted xs \<longrightarrow> sorted (align_timestamps xs t))"
proof -
  consider "length xs < nat t" | "t = 1" "nat t \<le> length xs" | "1 < t" "nat t \<le> length xs" using assms(2) by linarith
  then show ?thesis
  proof cases
    case 1
    have "sorted xs \<Longrightarrow> y \<in> set xs \<Longrightarrow> y \<le> last xs" for y
      using assms(1) by (cases xs rule: rev_cases) (auto simp: sorted_append)
    then show ?thesis using 1 assms by (auto simp: align_cases sorted_append)
  next
    case 2
    then show ?thesis using assms by (simp add: align_cases)
  next
    case 3
    let ?f = "\<lambda>i. xs ! sample_at (length xs - 1) (nat t) i"
    have e: "align_timestamps xs t = map ?f [0..<nat t]" using 3 assms by (simp add: align_cases)
    have t: "2 \<le> nat t" using 3 by simp
    note b = sample_at_bounds [OF t]
    have r: "i < nat t \<Longrightarrow> sample_at (length xs - 1) (nat t) i < length xs" for i
      using b(1) [of i "length xs - 1"] assms(1) by (cases xs) auto
    have "[0..<nat t] ! 0 = 0" using t by simp
    then have "hd (map ?f [0..<nat t]) = hd xs" using t b(2) assms(1) by (simp add: hd_map hd_conv_nth del: upt_rec_numeral)
    moreover have "last (map ?f [0..<nat t]) = last xs" using t b(3) assms(1) by (simp add: last_map last_conv_nth)
    moreover have "sorted (map ?f [0..<nat t])" if "sorted xs"
      using that b(4) r by (auto simp: sorted_iff_nth_mono)
    moreover have "set (map ?f [0..<nat t]) \<subseteq> set xs" using r by auto
    ultimately show ?thesis by (simp add: e)
  qed
qed

lemma align_length: "length (align_timestamps xs (int t)) = max 1 t"
proof (cases "xs = []")
  case False
  have "align_timestamps xs 0 = align_timestamps xs 1" by (simp add: align_timestamps_def)
  then show ?thesis using align_props [OF False, of 1] align_props [OF False, of "int t"] by (cases t) auto
qed (auto simp: align_timestamps_def Let_def)

section \<open>The placeholder fits the encoder's grid\<close>

lemma count_blocks:
  assumes "\<And>ts. count_list (image_block ids encode fmt n ts) x = k"
  shows "count_list (concat (map (image_block ids encode fmt n) tss)) x = length tss * k"
  by (induction tss) (simp_all add: assms)



end
