(* ===== verification/Snapshot_Check.thy ===== *)
theory Snapshot_Check
  imports Py_Json
begin

text \<open>
  The checkpoint check (\<open>sglang-nvfp4/scripts/validate_checkpoint.py\<close>), the script that
  downloads and then checks (\<open>prepare_checkpoint.py\<close>), and the one for the drafter
  (\<open>prepare_dflash2.py\<close>).  The directory, the parsed files, the
  digests and the download are values; failures are kinds; printing is left out.
\<close>

section \<open>Values\<close>

datatype snap_error = Os_Error | Value_Error | Key_Error | Attribute_Fault | Type_Fault

definition item :: "json \<Rightarrow> string \<Rightarrow> snap_error + json" where
  "item v k = (case v of JObj d \<Rightarrow> opt_res Key_Error (map_of d k) | _ \<Rightarrow> Inl Type_Fault)"

text \<open>\<open>v.get(k)\<close> and \<open>v.get(k, {})\<close>.\<close>

definition get :: "json \<Rightarrow> string \<Rightarrow> snap_error + json" where
  "get v k = (case v of JObj d \<Rightarrow> Inr (jget d k) | _ \<Rightarrow> Inl Attribute_Fault)"

definition get_default :: "json \<Rightarrow> string \<Rightarrow> json \<Rightarrow> snap_error + json" where
  "get_default v k e = (case v of
       JObj d \<Rightarrow> Inr (case map_of d k of None \<Rightarrow> e | Some x \<Rightarrow> x) | _ \<Rightarrow> Inl Attribute_Fault)"

text \<open>Equality of values as Python has it: numbers and booleans compare as numbers, objects
  without regard to the order of their keys.  A number that is not finite equals nothing.\<close>

fun num_val :: "json \<Rightarrow> real option" where
  "num_val (JBool b) = Some (of_bool b)"
| "num_val (JInt i) = Some (of_int i)"
| "num_val (JFloat x) = Some x"
| "num_val _ = None"

function json_eq :: "json \<Rightarrow> json \<Rightarrow> bool" where
  "json_eq v w = (case v of
       JNull \<Rightarrow> w = JNull
     | JStr s \<Rightarrow> w = JStr s
     | JNonFinite \<Rightarrow> False
     | JList xs \<Rightarrow> (case w of
           JList ys \<Rightarrow> length xs = length ys \<and> (\<forall>p\<in>set (zip xs ys). json_eq (fst p) (snd p))
         | _ \<Rightarrow> False)
     | JObj d \<Rightarrow> (case w of
           JObj e \<Rightarrow> set (map fst d) = set (map fst e)
             \<and> (\<forall>p\<in>set d. (case map_of e (fst p) of None \<Rightarrow> False | Some y \<Rightarrow> json_eq (snd p) y))
         | _ \<Rightarrow> False)
     | JBool b \<Rightarrow> num_val w = Some (of_bool b)
     | JInt i \<Rightarrow> num_val w = Some (of_int i)
     | JFloat x \<Rightarrow> num_val w = Some x)"
  by auto

lemma size_in_list: "x \<in> set xs \<Longrightarrow> size x < Suc (size_list size xs)"
  by (simp add: less_Suc_eq_le size_list_estimation')

lemma size_in_obj: "(k, x) \<in> set d \<Longrightarrow> size x < Suc (size_list (size_prod (\<lambda>_. 0) size) d)"
  by (induction d) auto

termination json_eq
  by (relation "measure (\<lambda>(v, _). size v)")
     (auto dest!: set_zip_leftD intro: size_in_list size_in_obj)

declare json_eq.simps [simp del]

definition json_mem :: "json \<Rightarrow> json list \<Rightarrow> bool" where
  "json_mem v xs = list_ex (json_eq v) xs"

text \<open>\<open>len(set(xs))\<close>: lists and objects cannot be elements of a set.\<close>

fun hashable :: "json \<Rightarrow> bool" where
  "hashable (JList _) = False"
| "hashable (JObj _) = False"
| "hashable _ = True"

fun count_distinct :: "json list \<Rightarrow> nat" where
  "count_distinct [] = 0"
| "count_distinct (x # xs) = (if json_mem x xs then count_distinct xs else Suc (count_distinct xs))"

definition set_size :: "json list \<Rightarrow> snap_error + nat" where
  "set_size xs = (if list_all hashable xs then Inr (count_distinct xs) else Inl Type_Fault)"

definition int_of_json :: "json \<Rightarrow> snap_error + int" where
  "int_of_json v = (case v of
       JInt i \<Rightarrow> Inr i
     | JBool b \<Rightarrow> Inr (of_bool b)
     | JFloat x \<Rightarrow> Inr (if 0 \<le> x then \<lfloor>x\<rfloor> else \<lceil>x\<rceil>)
     | JStr s \<Rightarrow> opt_res Value_Error (parse_int s)
     | JNonFinite \<Rightarrow> Inl Value_Error
     | _ \<Rightarrow> Inl Type_Fault)"

section \<open>The directory\<close>

datatype path_state = Absent | Broken_Link | Regular | Not_Regular

record checkpoint_dir =
  snap_is_dir :: bool
  dir_names :: "string list"
  state_of :: "string \<Rightarrow> path_state"
  parsed :: "string \<Rightarrow> snap_error + json"
  digest :: "string \<Rightarrow> snap_error + string"
  size_of :: "string \<Rightarrow> int option"

definition path_exists :: "checkpoint_dir \<Rightarrow> string \<Rightarrow> bool" where
  "path_exists d n \<longleftrightarrow> state_of d n \<in> {Regular, Not_Regular}"

definition load_object :: "snap_error + json \<Rightarrow> snap_error + json" where
  "load_object r = res_bind r (\<lambda>v. case v of JObj _ \<Rightarrow> Inr v | _ \<Rightarrow> Inl Value_Error)"

definition static_names :: "string list" where
  "static_names = [''.gitattributes'', ''LICENSE'', ''README.md'', ''chat_template.jinja'', ''config.json'',
     ''generation_config.json'', ''model.safetensors.index.json'', ''processor_config.json'',
     ''tokenizer.json'', ''tokenizer_config.json'']"

text \<open>\<open>f"{n:05d}"\<close>, and the names of the shards.  A count that is not an integer fails when it is
  formatted, which happens when there is a shard to name.\<close>

definition pad5 :: "int \<Rightarrow> string" where
  "pad5 n = (let s = show_int n in replicate (5 - length s) CHR ''0'' @ s)"

definition shard_name :: "int \<Rightarrow> int \<Rightarrow> string" where
  "shard_name count n = ''model-'' @ pad5 n @ ''-of-'' @ pad5 count @ ''.safetensors''"

definition shard_names :: "json \<Rightarrow> snap_error + string list" where
  "shard_names v = res_bind (int_of_json v) (\<lambda>n.
     if n < 1 then Inr []
     else if (case v of JInt _ \<Rightarrow> True | JBool _ \<Rightarrow> True | _ \<Rightarrow> False) then Inr (map (shard_name n) [1..n])
     else Inl Value_Error)"

text \<open>\<open>PurePath.suffix\<close>\<close>

definition py_suffix :: "string \<Rightarrow> string" where
  "py_suffix n = (let r = takeWhile (\<lambda>c. c \<noteq> CHR ''.'') (rev n) in
     if r = [] \<or> length n \<le> Suc (length r) then [] else CHR ''.'' # rev r)"

definition dangerous_suffixes :: "string list" where
  "dangerous_suffixes = [''.py'', ''.sh'', ''.so'', ''.dll'', ''.dylib'', ''.exe'']"

section \<open>The checks\<close>

definition require :: "bool \<Rightarrow> string \<Rightarrow> string list" where
  "require c msg = (if c then [] else [msg])"

text \<open>A comparison with a value of the manifest.\<close>

definition require_item :: "json \<Rightarrow> json \<Rightarrow> string \<Rightarrow> snap_error + string list" where
  "require_item v spec k = res_bind (item spec k) (\<lambda>x. Inr (require (json_eq v x) k))"

text \<open>One check after the other, until one raises.\<close>

fun collect :: "(snap_error + string list) list \<Rightarrow> snap_error + string list" where
  "collect [] = Inr []"
| "collect (c # cs) = res_bind c (\<lambda>fs. res_bind (collect cs) (\<lambda>gs. Inr (fs @ gs)))"

definition check_ignore :: "json \<Rightarrow> json \<Rightarrow> snap_error + string list" where
  "check_ignore ignore quant_spec = (case ignore of
       JList xs \<Rightarrow> collect
         [require_item (JInt (int (length xs))) quant_spec ''ignore_count'',
          res_bind (set_size xs) (\<lambda>n. Inr (require (length xs = n) ''duplicate ignore entries'')),
          Inr (concat (map (\<lambda>p. require (json_mem (JStr p) xs) ''protected path'')
            [''lm_head'', ''model.language_model.embed_tokens'', ''model.visual.*''])),
          res_bind (get_default quant_spec ''required_ignore'' (JList [])) (\<lambda>r. case r of
              JList fs \<Rightarrow> Inr (concat (map (\<lambda>f. require (json_mem f xs) ''fused path'') fs))
            | JObj d \<Rightarrow> Inr (concat (map (\<lambda>f. require (json_mem (JStr f) xs) ''fused path'') (map fst d)))
            | JStr s \<Rightarrow> Inr (concat (map (\<lambda>c. require (json_mem (JStr [c]) xs) ''fused path'') s))
            | _ \<Rightarrow> Inl Type_Fault)]
     | _ \<Rightarrow> Inr [''ignore must be a list''])"

definition check_quant :: "json \<Rightarrow> json \<Rightarrow> snap_error + string list" where
  "check_quant quant spec = collect
     [res_bind (get quant ''quant_method'') (\<lambda>v. require_item v spec ''quant_method''),
      res_bind (get quant ''quant_algo'') (\<lambda>v. require_item v spec ''quant_algo''),
      res_bind (get_default quant ''producer'' (JObj [])) (\<lambda>producer. collect
        [res_bind (get producer ''name'') (\<lambda>v. require_item v spec ''producer_name''),
         res_bind (get producer ''version'') (\<lambda>v. require_item v spec ''producer_version'')]),
      res_bind (get_default quant ''config_groups'' (JObj [])) (\<lambda>groups.
      res_bind (get_default groups ''group_0'' (JObj [])) (\<lambda>group.
      res_bind (get_default group ''weights'' (JObj [])) (\<lambda>weights. collect
        [res_bind (get weights ''num_bits'') (\<lambda>v. require_item v spec ''num_bits''),
         res_bind (get weights ''type'') (\<lambda>v. require_item v spec ''type''),
         res_bind (get weights ''group_size'') (\<lambda>v. require_item v spec ''group_size'')]))),
      res_bind (get_default quant ''ignore'' (JList [])) (\<lambda>ignore. check_ignore ignore spec)]"

definition check_config :: "json \<Rightarrow> json \<Rightarrow> json \<Rightarrow> snap_error + string list" where
  "check_config config model_spec quant_spec = collect
     [res_bind (get config ''architectures'') (\<lambda>v. res_bind (item model_spec ''architecture'') (\<lambda>a.
        Inr (require (json_eq v (JList [a])) ''architecture''))),
      res_bind (get config ''model_type'') (\<lambda>v. require_item v model_spec ''model_type''),
      res_bind (get_default config ''text_config'' (JObj [])) (\<lambda>t. collect
        [res_bind (get t ''dtype'') (\<lambda>v. Inr (require (json_eq v (JStr ''bfloat16'')) ''dtype'')),
         res_bind (get t ''max_position_embeddings'') (\<lambda>v. require_item v model_spec ''max_position_embeddings''),
         res_bind (get t ''num_nextn_predict_layers'') (\<lambda>v. Inr (require (json_eq v (JInt 1)) ''MTP head'')),
         res_bind (get t ''n_routed_experts'') (\<lambda>v. Inr (require (json_eq v (JInt 288)) ''experts'')),
         res_bind (get t ''num_experts_per_tok'') (\<lambda>v. Inr (require (json_eq v (JInt 8)) ''experts per token''))]),
      res_bind (get_default config ''quantization_config'' (JObj [])) (\<lambda>q. check_quant q quant_spec)]"

definition expert_keys :: "dict \<Rightarrow> string list" where
  "expert_keys m = filter (contains ''.mlp.experts.'') (map fst m)"

definition count_suffix :: "string \<Rightarrow> string list \<Rightarrow> int" where
  "count_suffix x ks = int (length (filter (ends_with x) ks))"

definition check_index :: "json \<Rightarrow> json \<Rightarrow> string list \<Rightarrow> snap_error + string list" where
  "check_index index spec shards = collect
     [res_bind (get_default index ''weight_map'' (JObj [])) (\<lambda>wm. case wm of
          JObj m \<Rightarrow> collect
            [require_item (JInt (int (length m))) spec ''tensor_entries'',
             (if list_all hashable (map snd m)
              then Inr (require (set (map snd m) = set (map JStr shards)) ''shard set'') else Inl Type_Fault),
             require_item (JInt (count_suffix ''.weight'' (expert_keys m))) spec ''expert_weights'',
             require_item (JInt (count_suffix ''.weight_scale'' (expert_keys m))) spec ''expert_weight_scales'',
             require_item (JInt (count_suffix ''.weight_scale_2'' (expert_keys m))) spec ''expert_weight_scales_2'',
             require_item (JInt (int (length m) - int (length (expert_keys m)))) spec ''non_expert_entries'']
        | _ \<Rightarrow> Inr [''weight_map must be a JSON object'']),
      res_bind (get_default index ''metadata'' (JObj [])) (\<lambda>md.
      res_bind (get md ''total_size'') (\<lambda>v. require_item v spec ''tensor_payload_bytes''))]"

definition check_hash :: "checkpoint_dir \<Rightarrow> string \<times> json \<Rightarrow> snap_error + string list" where
  "check_hash d p =
     (if path_exists d (fst p)
      then res_bind (digest d (fst p)) (\<lambda>h. Inr (require (snd p = JStr h) (fst p))) else Inr [])"

definition check_size :: "checkpoint_dir \<Rightarrow> string \<Rightarrow> string list" where
  "check_size d n = (case size_of d n of
       None \<Rightarrow> [''cannot stat''] | Some s \<Rightarrow> require (1024 * 1024 < s) ''small shard'')"

text \<open>What the summary of a clean run reads.\<close>

definition summary_reads :: "json \<Rightarrow> json \<Rightarrow> snap_error + unit" where
  "summary_reads model_spec index_spec =
     res_bind (item index_spec ''tensor_payload_bytes'') (\<lambda>b. res_bind (int_of_json b) (\<lambda>_.
     res_bind (item model_spec ''id'') (\<lambda>_. res_bind (item model_spec ''revision'') (\<lambda>_. Inr ()))))"

definition check_names :: "checkpoint_dir \<Rightarrow> string list \<Rightarrow> string list" where
  "check_names d expected =
     require (set expected \<subseteq> set (dir_names d)) ''missing''
     @ require (set (dir_names d) \<subseteq> set expected) ''unexpected''
     @ require (\<forall>n\<in>set (dir_names d). lower (py_suffix n) \<notin> set dangerous_suffixes) ''code''
     @ concat (map (\<lambda>n. require (path_exists d n) ''broken'' @ require (state_of d n = Regular) ''not regular'')
         (filter (\<lambda>n. n \<in> set (dir_names d)) expected))"

definition all_checks ::
  "checkpoint_dir \<Rightarrow> json \<Rightarrow> json \<Rightarrow> json \<Rightarrow> json \<Rightarrow> string list \<Rightarrow> snap_error + string list" where
  "all_checks d model_spec quant_spec index_spec files shards = collect
         [Inr (check_names d (static_names @ shards)),
          (if path_exists d ''config.json''
           then res_bind (load_object (parsed d ''config.json'')) (\<lambda>c. check_config c model_spec quant_spec) else Inr []),
          (if path_exists d ''model.safetensors.index.json''
           then res_bind (load_object (parsed d ''model.safetensors.index.json'')) (\<lambda>i. check_index i index_spec shards) else Inr []),
          (case files of JObj fs \<Rightarrow> collect (map (check_hash d) fs) | _ \<Rightarrow> Inl Attribute_Fault),
          Inr (concat (map (check_size d) (filter (\<lambda>n. n \<in> set (dir_names d)) shards)))]"

definition validate_object :: "checkpoint_dir \<Rightarrow> json \<Rightarrow> snap_error + string list" where
  "validate_object d manifest =
     res_bind (item manifest ''model'') (\<lambda>model_spec.
     res_bind (item manifest ''quantization'') (\<lambda>quant_spec.
     res_bind (item manifest ''index'') (\<lambda>index_spec.
     res_bind (item manifest ''files'') (\<lambda>files.
     res_bind (item index_spec ''shards'') (\<lambda>sv.
     res_bind (shard_names sv) (\<lambda>shards.
     res_bind (all_checks d model_spec quant_spec index_spec files shards) (\<lambda>failures.
       if failures = [] then res_bind (summary_reads model_spec index_spec) (\<lambda>_. Inr []) else Inr failures)))))))"

definition validate_snapshot :: "checkpoint_dir \<Rightarrow> snap_error + json \<Rightarrow> snap_error + string list" where
  "validate_snapshot d manifest_file =
     res_bind (load_object manifest_file) (\<lambda>manifest.
       if \<not> snap_is_dir d then Inr [''no directory''] else validate_object d manifest)"

definition validate_main :: "checkpoint_dir \<Rightarrow> snap_error + json \<Rightarrow> int" where
  "validate_main d manifest_file = (case validate_snapshot d manifest_file of
       Inl Attribute_Fault \<Rightarrow> 1 | Inl Type_Fault \<Rightarrow> 1 | Inl _ \<Rightarrow> 2
     | Inr fs \<Rightarrow> (if fs = [] then 0 else 1))"

definition is_commit :: "string \<Rightarrow> bool" where
  "is_commit r \<longleftrightarrow> length r = 40 \<and> list_all (\<lambda>c. c \<in> set ''0123456789abcdef'') r"

text \<open>\<open>prepare_checkpoint.main\<close>: a commit is named, the download gives a directory, and it passes.\<close>

definition prepare_main :: "string \<Rightarrow> int \<Rightarrow> checkpoint_dir option \<Rightarrow> snap_error + json \<Rightarrow> int" where
  "prepare_main revision max_workers downloaded manifest_file =
     (if \<not> is_commit revision then 2
      else if max_workers < 1 \<or> 16 < max_workers then 2
      else (case downloaded of
              None \<Rightarrow> 1
            | Some d \<Rightarrow> (case validate_snapshot d manifest_file of
                Inl _ \<Rightarrow> 1 | Inr fs \<Rightarrow> (if fs = [] then 0 else 1))))"

section \<open>The drafter\<close>

text \<open>\<open>prepare_dflash2.py\<close>: the download, the geometry of the configuration, size and digest of the
  weights.\<close>

record draft =
  has_config :: bool
  has_weights :: bool
  draft_config :: "snap_error + json"
  weight_size :: int
  weight_sha :: string

definition expected_config :: dict where
  "expected_config = [(''architectures'', JList [JStr ''DFlash2DraftModel'']), (''dtype'', JStr ''bfloat16'')]"

definition expected_dflash :: dict where
  "expected_dflash = [(''block_size'', JInt 8), (''conv_group_size'', JInt 16), (''conv_kernel_size'', JInt 2),
     (''selector_rank'', JInt 256), (''selector_top_k'', JInt 16),
     (''target_layer_ids'', JList [JInt 5, JInt 14, JInt 24, JInt 33, JInt 42])]"

definition expected_weight_size :: int where "expected_weight_size = 2342169800"

definition expected_weight_sha :: string where
  "expected_weight_sha = ''8931dc522be0aa31760a7463f8d2f8044fa3e6d40be2e87aa08e9fd17bfd6683''"

definition wrong_fields :: "json \<Rightarrow> dict \<Rightarrow> snap_error + string list" where
  "wrong_fields v expected = collect
     (map (\<lambda>(k, e). res_bind (get v k) (\<lambda>x. Inr (require (json_eq x e) k))) expected)"

definition draft_failures :: "draft \<Rightarrow> snap_error + string list" where
  "draft_failures d =
     res_bind (draft_config d) (\<lambda>config.
     res_bind (wrong_fields config expected_config) (\<lambda>fs.
     res_bind (get_default config ''dflash_config'' (JObj [])) (\<lambda>dflash.
     res_bind (wrong_fields dflash expected_dflash) (\<lambda>gs.
       Inr (fs @ gs @ (if weight_size d \<noteq> expected_weight_size then [''size'']
                       else require (weight_sha d = expected_weight_sha) ''sha256''))))))"

definition draft_main :: "string \<Rightarrow> draft option \<Rightarrow> int" where
  "draft_main revision downloaded =
     (if \<not> is_commit revision then 2
      else (case downloaded of
              None \<Rightarrow> 1
            | Some d \<Rightarrow>
                (if \<not> has_config d \<or> \<not> has_weights d then 1
                 else (case draft_failures d of Inl _ \<Rightarrow> 1 | Inr fs \<Rightarrow> (if fs = [] then 0 else 1)))))"

section \<open>What acceptance means\<close>

lemma require_Nil [simp]: "require c msg = [] \<longleftrightarrow> c"
  by (simp add: require_def)

lemma require_item_Nil: "require_item v spec k = Inr [] \<longleftrightarrow> (\<exists>x. item spec k = Inr x \<and> json_eq v x)"
  by (auto simp: require_item_def res_bind_Inr)

lemma collect_Nil: "collect cs = Inr [] \<longleftrightarrow> (\<forall>c\<in>set cs. c = Inr [])"
  by (induction cs) (auto simp: res_bind_Inr)

lemma load_object_Inr: "load_object r = Inr v \<longleftrightarrow> r = Inr v \<and> (\<exists>d. v = JObj d)"
proof (cases r)
  case (Inr x)
  then show ?thesis by (cases x) (auto simp: load_object_def)
qed (auto simp: load_object_def)

lemma check_hash_Nil:
  "check_hash d p = Inr [] \<longleftrightarrow> (path_exists d (fst p) \<longrightarrow> (\<exists>h. digest d (fst p) = Inr h \<and> snd p = JStr h))"
  by (auto simp: check_hash_def res_bind_Inr)

lemma check_size_Nil: "check_size d n = [] \<longleftrightarrow> (\<exists>s. size_of d n = Some s \<and> 1024 * 1024 < s)"
  by (auto simp: check_size_def split: option.splits)

lemma check_names_Nil:
  "check_names d expected = [] \<longleftrightarrow> set (dir_names d) = set expected
     \<and> (\<forall>n\<in>set expected. state_of d n = Regular \<and> lower (py_suffix n) \<notin> set dangerous_suffixes)"
  by (auto simp: check_names_def path_exists_def)

lemma check_ignore_Nil:
  assumes "check_ignore v spec = Inr []"
  shows "\<exists>xs. v = JList xs \<and> set_size xs = Inr (length xs)
    \<and> (\<forall>p\<in>{''lm_head'', ''model.language_model.embed_tokens'', ''model.visual.*''}. json_mem (JStr p) xs)"
  using assms by (cases v) (auto simp: check_ignore_def collect_Nil res_bind_Inr)

lemma check_quant_Nil:
  assumes "check_quant q spec = Inr []"
  shows "\<exists>m a x y. get q ''quant_method'' = Inr m \<and> item spec ''quant_method'' = Inr x \<and> json_eq m x
    \<and> get q ''quant_algo'' = Inr a \<and> item spec ''quant_algo'' = Inr y \<and> json_eq a y
    \<and> (\<exists>xs. get_default q ''ignore'' (JList []) = Inr (JList xs) \<and> set_size xs = Inr (length xs)
       \<and> (\<forall>p\<in>{''lm_head'', ''model.language_model.embed_tokens'', ''model.visual.*''}. json_mem (JStr p) xs))"
  using assms
  by (auto simp: check_quant_def collect_Nil res_bind_Inr require_item_Nil dest!: check_ignore_Nil)

lemma check_config_Nil:
  assumes "check_config config model_spec quant_spec = Inr []"
  shows "(\<exists>v a. get config ''architectures'' = Inr v \<and> item model_spec ''architecture'' = Inr a \<and> json_eq v (JList [a]))
    \<and> (\<exists>t d e k. get_default config ''text_config'' (JObj []) = Inr t
        \<and> get t ''dtype'' = Inr d \<and> json_eq d (JStr ''bfloat16'')
        \<and> get t ''n_routed_experts'' = Inr e \<and> json_eq e (JInt 288)
        \<and> get t ''num_experts_per_tok'' = Inr k \<and> json_eq k (JInt 8))
    \<and> (\<exists>q. get_default config ''quantization_config'' (JObj []) = Inr q \<and> check_quant q quant_spec = Inr [])"
  using assms by (auto simp: check_config_def collect_Nil res_bind_Inr require_item_Nil)

lemma check_index_Nil:
  assumes "check_index index spec shards = Inr []"
  shows "(\<exists>m. get_default index ''weight_map'' (JObj []) = Inr (JObj m) \<and> set (map snd m) = set (map JStr shards)
      \<and> require_item (JInt (int (length m))) spec ''tensor_entries'' = Inr []
      \<and> require_item (JInt (count_suffix ''.weight'' (expert_keys m))) spec ''expert_weights'' = Inr [])
    \<and> (\<exists>md v. get_default index ''metadata'' (JObj []) = Inr md \<and> get md ''total_size'' = Inr v
        \<and> require_item v spec ''tensor_payload_bytes'' = Inr [])"
proof -
  obtain wm where w: "get_default index ''weight_map'' (JObj []) = Inr wm"
    using assms by (auto simp: check_index_def collect_Nil res_bind_Inr)
  then show ?thesis
    using assms by (cases wm) (auto simp: check_index_def collect_Nil res_bind_Inr split: if_splits)
qed

lemma validate_Nil:
  assumes "validate_snapshot d mf = Inr []"
  shows "\<exists>manifest model_spec quant_spec index_spec files sv shards c i.
    mf = Inr manifest \<and> snap_is_dir d
    \<and> item manifest ''model'' = Inr model_spec \<and> item manifest ''quantization'' = Inr quant_spec
    \<and> item manifest ''index'' = Inr index_spec \<and> item manifest ''files'' = Inr (JObj files)
    \<and> item index_spec ''shards'' = Inr sv \<and> shard_names sv = Inr shards
    \<and> check_names d (static_names @ shards) = []
    \<and> parsed d ''config.json'' = Inr c \<and> check_config c model_spec quant_spec = Inr []
    \<and> parsed d ''model.safetensors.index.json'' = Inr i \<and> check_index i index_spec shards = Inr []
    \<and> (\<forall>p\<in>set files. check_hash d p = Inr []) \<and> (\<forall>n\<in>set shards. check_size d n = [])"
proof -
  obtain manifest where mf: "mf = Inr manifest" "snap_is_dir d" "validate_object d manifest = Inr []"
    using assms by (auto simp: validate_snapshot_def res_bind_Inr load_object_Inr split: if_splits)
  obtain model_spec quant_spec index_spec files sv shards fs where
    m: "item manifest ''model'' = Inr model_spec"
      "item manifest ''quantization'' = Inr quant_spec" "item manifest ''index'' = Inr index_spec"
      "item manifest ''files'' = Inr files" "item index_spec ''shards'' = Inr sv" "shard_names sv = Inr shards"
    and fs: "all_checks d model_spec quant_spec index_spec files shards = Inr fs"
      "(if fs = [] then res_bind (summary_reads model_spec index_spec) (\<lambda>_. Inr []) else Inr fs) = Inr []"
    using mf(3) unfolding validate_object_def res_bind_Inr by blast
  have c: "all_checks d model_spec quant_spec index_spec files shards = Inr []"
    using fs by (cases "fs = []") simp_all
  note all = c [unfolded all_checks_def collect_Nil, THEN bspec]
  have n: "check_names d (static_names @ shards) = []"
    using all [of "Inr (check_names d (static_names @ shards))"] by simp
  then have s: "set (dir_names d) = set (static_names @ shards)"
    and r: "\<forall>n\<in>set (static_names @ shards). path_exists d n"
    by (simp_all add: check_names_Nil path_exists_def)
  have e: "path_exists d ''config.json''" "path_exists d ''model.safetensors.index.json''"
    using r by (simp_all add: static_names_def)
  obtain cf where x: "parsed d ''config.json'' = Inr cf" "check_config cf model_spec quant_spec = Inr []"
    using all [of "res_bind (load_object (parsed d ''config.json'')) (\<lambda>c. check_config c model_spec quant_spec)"] e(1)
    unfolding res_bind_Inr load_object_Inr by (simp only: if_True list.set insert_iff) blast
  obtain ix where y: "parsed d ''model.safetensors.index.json'' = Inr ix" "check_index ix index_spec shards = Inr []"
    using all [of "res_bind (load_object (parsed d ''model.safetensors.index.json'')) (\<lambda>i. check_index i index_spec shards)"] e(2)
    unfolding res_bind_Inr load_object_Inr by (simp only: if_True list.set insert_iff) blast
  have "(case files of JObj fs \<Rightarrow> collect (map (check_hash d) fs) | _ \<Rightarrow> Inl Attribute_Fault) = Inr []"
    by (rule all) (simp only: list.set insert_iff simp_thms)
  then obtain fs where f: "files = JObj fs" "\<forall>p\<in>set fs. check_hash d p = Inr []"
    by (cases files) (auto simp: collect_Nil)
  have "(Inr (concat (map (check_size d) (filter (\<lambda>n. n \<in> set (dir_names d)) shards))) :: snap_error + string list) = Inr []"
    by (rule all) (simp only: list.set insert_iff simp_thms)
  then have z: "\<forall>n\<in>set shards. check_size d n = []" using s by auto
  show ?thesis
    by (rule exI [of _ manifest], rule exI [of _ model_spec], rule exI [of _ quant_spec],
        rule exI [of _ index_spec], rule exI [of _ fs], rule exI [of _ sv], rule exI [of _ shards],
        rule exI [of _ cf], rule exI [of _ ix]) (use mf m n x y f z in simp_all)
qed


text \<open>A drafter is accepted only with the pinned weights.\<close>

lemma draft_accepted:
  assumes "draft_main revision (Some d) = 0"
  shows "is_commit revision \<and> weight_size d = expected_weight_size \<and> weight_sha d = expected_weight_sha
    \<and> (\<exists>c. draft_config d = Inr c \<and> wrong_fields c expected_config = Inr [])"
  using assms
  by (auto simp: draft_main_def draft_failures_def res_bind_Inr split: if_splits sum.splits)

section \<open>A directory that is accepted\<close>

definition pinned_manifest :: json where
  "pinned_manifest = JObj
     [(''model'', JObj [(''id'', JStr ''glm''), (''revision'', JStr ''r1''), (''architecture'', JStr ''Glm''),
        (''model_type'', JStr ''glm5''), (''max_position_embeddings'', JInt 1048576)]),
      (''quantization'', JObj [(''quant_method'', JStr ''modelopt''), (''quant_algo'', JStr ''NVFP4''),
        (''producer_name'', JStr ''p''), (''producer_version'', JStr ''1''), (''num_bits'', JInt 4),
        (''type'', JStr ''float''), (''group_size'', JInt 16), (''ignore_count'', JInt 3)]),
      (''index'', JObj [(''shards'', JInt 1), (''tensor_entries'', JInt 2), (''expert_weights'', JInt 1),
        (''expert_weight_scales'', JInt 0), (''expert_weight_scales_2'', JInt 0), (''non_expert_entries'', JInt 1),
        (''tensor_payload_bytes'', JInt 1900000)]),
      (''files'', JObj [(''LICENSE'', JStr ''d0'')])]"

definition pinned_config :: json where
  "pinned_config = JObj
     [(''architectures'', JList [JStr ''Glm'']), (''model_type'', JStr ''glm5''),
      (''text_config'', JObj [(''dtype'', JStr ''bfloat16''), (''max_position_embeddings'', JInt 1048576),
        (''num_nextn_predict_layers'', JInt 1), (''n_routed_experts'', JInt 288), (''num_experts_per_tok'', JInt 8)]),
      (''quantization_config'', JObj [(''quant_method'', JStr ''modelopt''), (''quant_algo'', JStr ''NVFP4''),
        (''producer'', JObj [(''name'', JStr ''p''), (''version'', JStr ''1'')]),
        (''config_groups'', JObj [(''group_0'', JObj [(''weights'', JObj [(''num_bits'', JInt 4),
           (''type'', JStr ''float''), (''group_size'', JInt 16)])])]),
        (''ignore'', JList [JStr ''lm_head'', JStr ''model.language_model.embed_tokens'', JStr ''model.visual.*''])])]"

definition pinned_index :: json where
  "pinned_index = JObj
     [(''weight_map'', JObj [(''a.mlp.experts.0.weight'', JStr ''model-00001-of-00001.safetensors''),
        (''embed'', JStr ''model-00001-of-00001.safetensors'')]),
      (''metadata'', JObj [(''total_size'', JInt 1900000)])]"

definition pinned_snapshot :: checkpoint_dir where
  "pinned_snapshot = \<lparr>snap_is_dir = True, dir_names = static_names @ [''model-00001-of-00001.safetensors''],
     state_of = (\<lambda>_. Regular),
     parsed = (\<lambda>n. if n = ''config.json'' then Inr pinned_config else Inr pinned_index),
     digest = (\<lambda>_. Inr ''d0''), size_of = (\<lambda>_. Some 1950000)\<rparr>"

lemma pinned_accepted: "validate_main pinned_snapshot (Inr pinned_manifest) = 0"
  by code_simp


end
