(* ===== verification/Selector_Walk.thy ===== *)
theory Selector_Walk
  imports Py_Prelude "HOL-Library.Option_ord"
begin

text \<open>
  The candidate walk of the drafter (\<open>dflash2_speculator.py\<close>): two kernels over flat memory.  One
  walks the selector scores of a request from step to step and picks a candidate at each; the
  other keeps, per request and step, the row of draft logits that the rejection sampler reads.
  Memory is a function from offsets, \<open>None\<close> is minus infinity, numbers are exact, and the random
  noise is an argument.  The model that computes candidates and scores is a tensor program and
  is an argument, too.
\<close>

section \<open>The walk\<close>

text \<open>\<open>tl.max(\<dots>, return_indices=True)\<close>: the leftmost of the largest lanes.\<close>

fun best_from :: "nat \<Rightarrow> real option \<Rightarrow> nat \<Rightarrow> real option list \<Rightarrow> nat" where
  "best_from i b j [] = i"
| "best_from i b j (x # xs) = (if b < x then best_from j x (Suc j) xs else best_from i b (Suc j) xs)"

definition max_index :: "real option list \<Rightarrow> nat" where
  "max_index xs = (case xs of [] \<Rightarrow> 0 | x # ys \<Rightarrow> best_from 0 x 1 ys)"

record walk_env =
  scores :: "nat \<Rightarrow> real option"
  candidates :: "nat \<Rightarrow> int"
  sample_pos :: "nat \<Rightarrow> int"
  req_state :: "nat \<Rightarrow> int"
  temperature :: "int \<Rightarrow> real"
  seeds :: "int \<Rightarrow> int"
  noise :: "int \<Rightarrow> int \<Rightarrow> int \<Rightarrow> real"
  num_steps :: nat
  top_k :: nat
  block_k :: nat
  probabilistic :: bool

text \<open>One lane of \<open>gumbel_noised_argmax\<close>.\<close>

definition noised :: "walk_env \<Rightarrow> bool \<Rightarrow> real option \<Rightarrow> int \<Rightarrow> int \<Rightarrow> int \<Rightarrow> real \<Rightarrow> real option" where
  "noised e live score key seed pos temp =
     (if \<not> live then None
      else if temp = 0 then score
      else map_option (\<lambda>s. s / temp + noise e seed pos key) score)"

definition row_valid :: "walk_env \<Rightarrow> nat \<Rightarrow> bool" where
  "row_valid e row \<longleftrightarrow> 0 \<le> req_state e (row * num_steps e)"

definition walk_temperature :: "walk_env \<Rightarrow> nat \<Rightarrow> real" where
  "walk_temperature e row =
     (if probabilistic e then (if row_valid e row then temperature e (req_state e (row * num_steps e)) else 0) else 0)"

definition walk_seed :: "walk_env \<Rightarrow> nat \<Rightarrow> int" where
  "walk_seed e row = (if row_valid e row then seeds e (req_state e (row * num_steps e)) else 0)"

text \<open>The lanes that one step of the walk compares.\<close>

definition lane :: "walk_env \<Rightarrow> nat \<Rightarrow> nat \<Rightarrow> nat \<Rightarrow> nat \<Rightarrow> real option" where
  "lane e row step previous j =
     (let flat = row * num_steps e + step; live = j < top_k e \<and> row_valid e row in
      noised e live
        (if live then scores e ((flat * top_k e + previous) * top_k e + j) else None)
        (if live then candidates e (flat * top_k e + j) else 0)
        (walk_seed e row) (sample_pos e flat - 1) (walk_temperature e row))"

type_synonym walk_memory = "(nat \<Rightarrow> int) \<times> (nat \<Rightarrow> real option)"  \<comment> \<open>tokens, realized scores\<close>

definition walk_step :: "walk_env \<Rightarrow> nat \<Rightarrow> nat \<Rightarrow> nat \<times> walk_memory \<Rightarrow> nat \<times> walk_memory" where
  "walk_step e row step st =
     (case st of (previous, tokens, realized) \<Rightarrow>
       let flat = row * num_steps e + step;
           index = max_index (map (lane e row step previous) [0..<block_k e]) in
       if row_valid e row
       then (index, tokens(flat := candidates e (flat * top_k e + index)),
             fold (\<lambda>j r. r(flat * top_k e + j := scores e ((flat * top_k e + previous) * top_k e + j)))
               [0..<min (top_k e) (block_k e)] realized)
       else (index, tokens, realized))"

definition walk_row :: "walk_env \<Rightarrow> nat \<Rightarrow> walk_memory \<Rightarrow> walk_memory" where
  "walk_row e row m = snd (fold (walk_step e row) [0..<num_steps e] (0, m))"

definition selector_walk :: "walk_env \<Rightarrow> nat \<Rightarrow> walk_memory \<Rightarrow> walk_memory" where
  "selector_walk e num_reqs m = fold (walk_row e) [0..<num_reqs] m"

section \<open>The rows of draft logits\<close>

record logit_cache =
  draft_logits :: "int \<Rightarrow> nat \<Rightarrow> int \<Rightarrow> real option"
  cached_ids :: "int \<Rightarrow> nat \<Rightarrow> nat \<Rightarrow> int"

definition fresh_cache :: logit_cache where
  "fresh_cache = \<lparr>draft_logits = (\<lambda>_ _ _. None), cached_ids = (\<lambda>_ _ _. 0)\<rparr>"

text \<open>A call: the request state of each flat row, its candidates and their realized scores.\<close>

record cache_call =
  call_rows :: nat
  call_state :: "nat \<Rightarrow> int"
  call_ids :: "nat \<Rightarrow> nat \<Rightarrow> int"
  call_scores :: "nat \<Rightarrow> nat \<Rightarrow> real option"

definition cache_row :: "nat \<Rightarrow> nat \<Rightarrow> cache_call \<Rightarrow> nat \<Rightarrow> logit_cache \<Rightarrow> logit_cache" where
  "cache_row n k c flat s =
     (let r = call_state c flat; step = flat mod n in
      if r < 0 then s
      else (let old = draft_logits s r step;
                cleared = fold (\<lambda>j f. f(cached_ids s r step j := None)) [0..<k] old;
                row = fold (\<lambda>j f. f(call_ids c flat j := call_scores c flat j)) [0..<k] cleared in
        s\<lparr>draft_logits := (draft_logits s)(r := (draft_logits s r)(step := row)),
          cached_ids := (cached_ids s)(r := (cached_ids s r)(step :=
             (\<lambda>j. if j < k then call_ids c flat j else cached_ids s r step j)))\<rparr>))"

definition cache_draft_logits :: "nat \<Rightarrow> nat \<Rightarrow> cache_call \<Rightarrow> logit_cache \<Rightarrow> logit_cache" where
  "cache_draft_logits n k c s = fold (cache_row n k c) [0..<call_rows c] s"

section \<open>The leftmost maximum\<close>

lemma best_from_props:
  "best_from i b j xs = i \<and> (\<forall>m<length xs. xs ! m \<le> b)
   \<or> (\<exists>m<length xs. best_from i b j xs = j + m \<and> b < xs ! m \<and> (\<forall>l<length xs. xs ! l \<le> xs ! m)
        \<and> (\<forall>l<m. xs ! l < xs ! m))"
proof (induction xs arbitrary: i b j)
  case (Cons x xs)
  show ?case
  proof (cases "b < x")
    case True
    from Cons [of j x "Suc j"] show ?thesis
    proof
      assume "best_from j x (Suc j) xs = j \<and> (\<forall>m<length xs. xs ! m \<le> x)"
      then show ?thesis using True by (intro disjI2 exI [of _ 0]) (auto simp: less_Suc_eq_0_disj)
    next
      assume "\<exists>m<length xs. best_from j x (Suc j) xs = Suc j + m \<and> x < xs ! m
        \<and> (\<forall>l<length xs. xs ! l \<le> xs ! m) \<and> (\<forall>l<m. xs ! l < xs ! m)"
      then obtain m where m: "m < length xs" "best_from j x (Suc j) xs = Suc j + m" "x < xs ! m"
        "\<forall>l<length xs. xs ! l \<le> xs ! m" "\<forall>l<m. xs ! l < xs ! m" by blast
      have "b < xs ! m" using True m(3) by (rule less_trans)
      then show ?thesis using True m
        by (intro disjI2 exI [of _ "Suc m"]) (auto simp: less_Suc_eq_0_disj intro: less_imp_le)
    qed
  next
    case False
    then have x: "x \<le> b" by simp
    from Cons [of i b "Suc j"] show ?thesis
    proof
      assume "best_from i b (Suc j) xs = i \<and> (\<forall>m<length xs. xs ! m \<le> b)"
      then show ?thesis using False x by (intro disjI1) (auto simp: less_Suc_eq_0_disj)
    next
      assume "\<exists>m<length xs. best_from i b (Suc j) xs = Suc j + m \<and> b < xs ! m
        \<and> (\<forall>l<length xs. xs ! l \<le> xs ! m) \<and> (\<forall>l<m. xs ! l < xs ! m)"
      then obtain m where m: "m < length xs" "best_from i b (Suc j) xs = Suc j + m" "b < xs ! m"
        "\<forall>l<length xs. xs ! l \<le> xs ! m" "\<forall>l<m. xs ! l < xs ! m" by blast
      have "x < xs ! m" using x m(3) by (rule le_less_trans)
      then show ?thesis using False m
        by (intro disjI2 exI [of _ "Suc m"]) (auto simp: less_Suc_eq_0_disj intro: less_imp_le)
    qed
  qed
qed simp

lemma max_index_props:
  assumes "xs \<noteq> []"
  shows "max_index xs < length xs \<and> (\<forall>l<length xs. xs ! l \<le> xs ! max_index xs)
    \<and> (\<forall>l<max_index xs. xs ! l < xs ! max_index xs)"
proof -
  obtain x ys where xs: "xs = x # ys" using assms by (cases xs) auto
  from best_from_props [of 0 x 1 ys] show ?thesis
  proof
    assume "best_from 0 x 1 ys = 0 \<and> (\<forall>m<length ys. ys ! m \<le> x)"
    then show ?thesis by (auto simp: xs max_index_def less_Suc_eq_0_disj)
  next
    assume "\<exists>m<length ys. best_from 0 x 1 ys = 1 + m \<and> x < ys ! m \<and> (\<forall>l<length ys. ys ! l \<le> ys ! m)
        \<and> (\<forall>l<m. ys ! l < ys ! m)"
    then show ?thesis by (auto simp: xs max_index_def less_Suc_eq_0_disj intro: less_imp_le)
  qed
qed

section \<open>What the walk leaves in memory\<close>

text \<open>The candidate chosen at a step, and the one of the step before.\<close>

fun path :: "walk_env \<Rightarrow> nat \<Rightarrow> nat \<Rightarrow> nat" where
  "path e row 0 = max_index (map (lane e row 0 0) [0..<block_k e])"
| "path e row (Suc s) = max_index (map (lane e row (Suc s) (path e row s)) [0..<block_k e])"

definition before :: "walk_env \<Rightarrow> nat \<Rightarrow> nat \<Rightarrow> nat" where
  "before e row s = (case s of 0 \<Rightarrow> 0 | Suc t \<Rightarrow> path e row t)"

lemma path_max: "path e row s = max_index (map (lane e row s (before e row s)) [0..<block_k e])"
  by (cases s) (simp_all add: before_def)

lemma before_Suc [simp]: "before e row (Suc s) = path e row s"
  by (simp add: before_def)

lemma dead_lane: "top_k e \<le> j \<Longrightarrow> lane e row s p j = None"
  by (simp add: lane_def noised_def Let_def)

lemma path_best:
  assumes "0 < top_k e" "top_k e \<le> block_k e"
  shows "path e row s < top_k e
    \<and> (\<forall>j<top_k e. lane e row s (before e row s) j \<le> lane e row s (before e row s) (path e row s))
    \<and> (\<forall>j<path e row s. lane e row s (before e row s) j < lane e row s (before e row s) (path e row s))"
proof -
  let ?xs = "map (lane e row s (before e row s)) [0..<block_k e]"
  have "?xs \<noteq> []" using assms by simp
  from max_index_props [OF this] have b: "path e row s < block_k e"
    "\<forall>j<block_k e. lane e row s (before e row s) j \<le> lane e row s (before e row s) (path e row s)"
    "\<forall>j<path e row s. lane e row s (before e row s) j < lane e row s (before e row s) (path e row s)"
    by (auto simp: path_max)
  have "path e row s < top_k e"
  proof (rule ccontr)
    assume "\<not> path e row s < top_k e"
    then have "lane e row s (before e row s) 0 < None" using b(3) dead_lane assms(1) by fastforce
    then show False by simp
  qed
  then show ?thesis using b assms(2) by simp
qed

lemma fold_store:
  "fold (\<lambda>j r. r(b + j := f j)) [0..<k] z = (\<lambda>x. if b \<le> x \<and> x < b + k then f (x - b) else z x)"
  by (induction k) (auto simp: fun_eq_iff)

lemma block_iff: "0 < k \<Longrightarrow> (b * k \<le> x \<and> x < b * k + k) = (x div k = (b::nat))"
  by (metis add.commute div_nat_eqI dividend_less_times_div mult.commute mult_Suc times_div_less_eq_dividend)

lemma walk_prefix:
  assumes "row_valid e row" "0 < top_k e" "top_k e \<le> block_k e" "m \<le> num_steps e"
  shows "fold (walk_step e row) [0..<m] (0, t, z) =
    (before e row m,
     \<lambda>x. if x div num_steps e = row \<and> x mod num_steps e < m
         then candidates e (x * top_k e + path e row (x mod num_steps e)) else t x,
     \<lambda>x. if x div top_k e div num_steps e = row \<and> x div top_k e mod num_steps e < m
         then scores e ((x div top_k e * top_k e + before e row (x div top_k e mod num_steps e)) * top_k e + x mod top_k e)
         else z x)"
  using assms(4)
proof (induction m)
  case 0
  then show ?case by (simp add: before_def)
next
  case (Suc m)
  let ?n = "num_steps e" and ?k = "top_k e"
  have m: "m < ?n" using Suc.prems by simp
  have flat: "x = row * ?n + m \<longleftrightarrow> x div ?n = row \<and> x mod ?n = m" for x
    using m by (metis div_mult_mod_eq div_mult_self3 mod_less mod_mult_self3 add.commute div_less add_0 less_nat_zero_code not_gr_zero)
  have blk: "((row * ?n + m) * ?k \<le> x \<and> x < (row * ?n + m) * ?k + ?k) = (x div ?k div ?n = row \<and> x div ?k mod ?n = m)" for x
    using block_iff [OF assms(2), of "row * ?n + m" x] flat [of "x div ?k"] by simp
  have off: "x - (row * ?n + m) * ?k = x mod ?k" if "x div ?k = row * ?n + m" for x
    using that by (metis minus_div_mult_eq_mod)
  show ?case
    using Suc.IH Suc.prems assms(1,3)
    by (auto simp: walk_step_def Let_def path_max [symmetric] fold_store fun_eq_iff flat blk off less_Suc_eq min_def)
qed

lemma walk_invalid: "\<not> row_valid e row \<Longrightarrow> snd (fold (walk_step e row) ss (p, m)) = m"
  by (induction ss arbitrary: p) (simp_all add: walk_step_def Let_def split_def)

lemma selector_walk_memory:
  assumes "0 < num_steps e" "0 < top_k e" "top_k e \<le> block_k e"
  shows "selector_walk e num_reqs (t, z) =
    (\<lambda>x. if x div num_steps e < num_reqs \<and> row_valid e (x div num_steps e)
         then candidates e (x * top_k e + path e (x div num_steps e) (x mod num_steps e)) else t x,
     \<lambda>x. if x div top_k e div num_steps e < num_reqs \<and> row_valid e (x div top_k e div num_steps e)
         then scores e ((x div top_k e * top_k e + before e (x div top_k e div num_steps e) (x div top_k e mod num_steps e)) * top_k e
                + x mod top_k e)
         else z x)"
proof (induction num_reqs)
  case (Suc r)
  have "walk_row e r (t', z') =
    (\<lambda>x. if x div num_steps e = r \<and> row_valid e r
         then candidates e (x * top_k e + path e r (x mod num_steps e)) else t' x,
     \<lambda>x. if x div top_k e div num_steps e = r \<and> row_valid e r
         then scores e ((x div top_k e * top_k e + before e r (x div top_k e mod num_steps e)) * top_k e + x mod top_k e)
         else z' x)" for t' z'
  proof (cases "row_valid e r")
    case True
    then show ?thesis using walk_prefix [OF True assms(2,3) order_refl] assms(1) by (simp add: walk_row_def)
  next
    case False
    then show ?thesis by (simp add: walk_row_def walk_invalid)
  qed
  with Suc show ?case by (auto simp: selector_walk_def fun_eq_iff less_Suc_eq)
qed (simp add: selector_walk_def)


section \<open>The draft logits of the sampler\<close>

text \<open>What is not a cached candidate is minus infinity, after any calls.\<close>

definition cache_ok :: "nat \<Rightarrow> logit_cache \<Rightarrow> bool" where
  "cache_ok k s \<longleftrightarrow> (\<forall>r step tok. tok \<notin> cached_ids s r step ` {..<k} \<longrightarrow> draft_logits s r step tok = None)"

lemma fold_clear:
  "fold (\<lambda>j f. f(g j := c)) [0..<k] h tok = (if tok \<in> g ` {..<k} then c else h tok)"
  by (induction k) (auto simp: lessThan_Suc)

lemma fold_put:
  assumes "inj_on g {..<k}" "j < k"
  shows "fold (\<lambda>j f. f(g j := v j)) [0..<k] h (g j) = v j"
  using assms
proof (induction k)
  case (Suc k)
  show ?case
  proof (cases "j = k")
    case False
    then have "j < k" using Suc.prems by simp
    moreover have "g j \<noteq> g k" using Suc.prems False inj_onD by fastforce
    moreover have "inj_on g {..<k}" using Suc.prems(1) by (rule inj_on_subset) auto
    ultimately show ?thesis using Suc.IH by simp
  qed simp
qed simp

lemma fold_put_other: "tok \<notin> g ` {..<k} \<Longrightarrow> fold (\<lambda>j f. f(g j := v j)) [0..<k] h tok = h tok"
  by (induction k) (auto simp: lessThan_Suc)

lemma cache_row_ok: "cache_ok k s \<Longrightarrow> cache_ok k (cache_row n k c flat s)"
  unfolding cache_ok_def cache_row_def Let_def
  by (auto simp: fold_put_other fold_clear image_iff)

lemma cache_call_ok: "cache_ok k s \<Longrightarrow> cache_ok k (cache_draft_logits n k c s)"
proof -
  have "cache_ok k s \<Longrightarrow> cache_ok k (fold (cache_row n k c) fs s)" for fs
    by (induction fs arbitrary: s) (simp_all add: cache_row_ok)
  then show "cache_ok k s \<Longrightarrow> cache_ok k (cache_draft_logits n k c s)" by (simp add: cache_draft_logits_def)
qed

lemma cache_calls_ok: "cache_ok k (fold (cache_draft_logits n k) cs fresh_cache)"
proof -
  have "cache_ok k s \<Longrightarrow> cache_ok k (fold (cache_draft_logits n k) cs s)" for s
    by (induction cs arbitrary: s) (simp_all add: cache_call_ok)
  moreover have "cache_ok k fresh_cache" by (simp add: cache_ok_def fresh_cache_def)
  ultimately show ?thesis by blast
qed

lemma cache_row_exact:
  assumes "cache_ok k s" "call_state c flat = r" "0 \<le> r" "inj_on (call_ids c flat) {..<k}"
  shows "j < k \<Longrightarrow> draft_logits (cache_row n k c flat s) r (flat mod n) (call_ids c flat j) = call_scores c flat j"
    and "tok \<notin> call_ids c flat ` {..<k} \<Longrightarrow> draft_logits (cache_row n k c flat s) r (flat mod n) tok = None"
proof -
  show "draft_logits (cache_row n k c flat s) r (flat mod n) (call_ids c flat j) = call_scores c flat j" if "j < k"
    using assms(2,3) fold_put [OF assms(4) that] by (simp add: cache_row_def Let_def)
  show "draft_logits (cache_row n k c flat s) r (flat mod n) tok = None" if "tok \<notin> call_ids c flat ` {..<k}"
    using assms(1-3) that by (auto simp: cache_row_def Let_def fold_put_other fold_clear cache_ok_def)
qed

lemma cache_row_frame:
  assumes "0 \<le> call_state c f \<Longrightarrow> (call_state c f, f mod n) \<noteq> (r, step)"
  shows "draft_logits (cache_row n k c f s) r step = draft_logits s r step"
  using assms by (auto simp: cache_row_def Let_def)

lemma cache_rows_frame:
  assumes "\<forall>f\<in>set fs. 0 \<le> call_state c f \<longrightarrow> (call_state c f, f mod n) \<noteq> (r, step)"
  shows "draft_logits (fold (cache_row n k c) fs s) r step = draft_logits s r step"
  using assms by (induction fs arbitrary: s) (simp_all add: cache_row_frame)

text \<open>C15: The sampler sees exactly the drafter's last distribution.  Whatever calls came before,
  after a call in which no two live rows share a request and a step, the row of draft logits of a
  live row with distinct candidates holds the score of each candidate at its token and minus
  infinity at every other token: nothing is left of earlier drafts.\<close>

theorem draft_rows_exact:
  assumes "flat < call_rows c" "0 \<le> call_state c flat" "inj_on (call_ids c flat) {..<k}"
    and "\<forall>f<call_rows c. \<forall>g<call_rows c. 0 \<le> call_state c f \<longrightarrow> call_state c f = call_state c g
      \<longrightarrow> f mod n = g mod n \<longrightarrow> f = g"
  shows "let s = cache_draft_logits n k c (fold (cache_draft_logits n k) history fresh_cache);
             row = draft_logits s (call_state c flat) (flat mod n) in
    (\<forall>j<k. row (call_ids c flat j) = call_scores c flat j) \<and> (\<forall>tok. tok \<notin> call_ids c flat ` {..<k} \<longrightarrow> row tok = None)"
proof -
  let ?s0 = "fold (cache_draft_logits n k) history fresh_cache"
  let ?s1 = "fold (cache_row n k c) [0..<flat] ?s0"
  have ok: "cache_ok k ?s1"
  proof -
    have "cache_ok k s \<Longrightarrow> cache_ok k (fold (cache_row n k c) fs s)" for fs s
      by (induction fs arbitrary: s) (simp_all add: cache_row_ok)
    then show ?thesis using cache_calls_ok by blast
  qed
  have "[0..<call_rows c] = [0..<flat] @ flat # [Suc flat..<call_rows c]"
    using assms(1) by (metis le_add_diff_inverse less_imp_le_nat upt_add_eq_append upt_conv_Cons zero_le)
  then have e: "cache_draft_logits n k c ?s0 = fold (cache_row n k c) [Suc flat..<call_rows c] (cache_row n k c flat ?s1)"
    by (simp add: cache_draft_logits_def)
  have other: "\<forall>f\<in>set [Suc flat..<call_rows c]. 0 \<le> call_state c f
      \<longrightarrow> (call_state c f, f mod n) \<noteq> (call_state c flat, flat mod n)"
  proof (intro ballI impI notI)
    fix f assume "f \<in> set [Suc flat..<call_rows c]" "0 \<le> call_state c f"
      "(call_state c f, f mod n) = (call_state c flat, flat mod n)"
    then have "f = flat" using assms(4) [rule_format, of f flat] assms(1) by simp
    then show False using \<open>f \<in> set _\<close> by simp
  qed
  have "draft_logits (cache_draft_logits n k c ?s0) (call_state c flat) (flat mod n)
      = draft_logits (cache_row n k c flat ?s1) (call_state c flat) (flat mod n)"
    unfolding e by (rule cache_rows_frame [OF other])
  then show ?thesis
    using cache_row_exact [OF ok refl assms(2,3)] by (simp add: Let_def)
qed

section \<open>A small batch\<close>

definition small_env :: walk_env where
  "small_env = \<lparr>scores = (\<lambda>x. Some (real (x mod 3))), candidates = (\<lambda>x. int x + 100), sample_pos = (\<lambda>_. 1),
     req_state = (\<lambda>x. if x < 2 then 7 else - 1), temperature = (\<lambda>_. 1), seeds = (\<lambda>_. 0), noise = (\<lambda>_ _ _. 0),
     num_steps = 2, top_k = 3, block_k = 4, probabilistic = True\<rparr>"


definition small_call :: cache_call where
  "small_call = \<lparr>call_rows = 2, call_state = (\<lambda>_. 5), call_ids = (\<lambda>f j. int (10 * f + j)), call_scores = (\<lambda>_ j. Some (real j))\<rparr>"

theorem draft_rows_exact_witness:
  "let s = cache_draft_logits 2 3 small_call (fold (cache_draft_logits 2 3) [small_call] fresh_cache);
       row = draft_logits s 5 (1 mod 2) in
    (\<forall>j<3. row (call_ids small_call 1 j) = call_scores small_call 1 j)
    \<and> (\<forall>tok. tok \<notin> call_ids small_call 1 ` {..<3} \<longrightarrow> row tok = None)"
proof -
  have c: "call_rows small_call = 2" "call_state small_call f = 5" "inj_on (call_ids small_call f) {..<3}" for f
    by (simp_all add: small_call_def inj_on_def)
  have h: "\<forall>f<2. \<forall>g<2. 0 \<le> (5::int) \<longrightarrow> (5::int) = 5 \<longrightarrow> f mod 2 = g mod 2 \<longrightarrow> f = (g::nat)" by simp
  have i: "(1::nat) < 2" "0 \<le> (5::int)" by simp_all
  show ?thesis
    by (rule draft_rows_exact [of 1 small_call 3 2 "[small_call]", unfolded c(1,2), OF i c(3) h])
qed

end
