(* ===== verification/Endpoint_Bench.thy ===== *)
theory Endpoint_Bench
  imports Long_Context
begin

text \<open>
  The comparison harness for endpoints (\<open>tools/bench-glm53.py\<close>): one streamed request, the
  targets, warmups, runs with and without concurrency, the summary and the exit code.  The
  answer to a request is a value, exceptions are kinds, printed text is left out; with
  concurrency, the order in which requests complete is an argument.
\<close>

section \<open>One request\<close>

datatype ep_error =
    Url_Failure | Http_Failure nat | Timed_Out | Bad_Json     \<comment> \<open>recorded as a failed result\<close>
  | Connection_Broken | Invalid_Value                         \<comment> \<open>end the program with code 2\<close>
  | Attribute_Raise | Type_Raise                              \<comment> \<open>leave the program\<close>

definition kept_as_result :: "ep_error \<Rightarrow> bool" where
  "kept_as_result e = (case e of Url_Failure \<Rightarrow> True | Http_Failure _ \<Rightarrow> True | Timed_Out \<Rightarrow> True | Bad_Json \<Rightarrow> True | _ \<Rightarrow> False)"

text \<open>What came back: the lines with the time each was read, and what broke the stream off.\<close>

record exchange =
  ex_started :: real
  ex_lines :: "(real \<times> string) list"
  ex_fault :: "ep_error option"
  ex_finished :: real

record ep_state =
  ep_first :: "real option"
  ep_parts :: "json list"
  finish_reason :: json
  ep_usage :: json

definition ep_get :: "json \<Rightarrow> string \<Rightarrow> ep_error + json" where
  "ep_get v k = (case v of JObj d \<Rightarrow> Inr (jget d k) | _ \<Rightarrow> Inl Attribute_Raise)"

definition ep_choice :: "real \<Rightarrow> json \<Rightarrow> ep_state \<Rightarrow> ep_error + ep_state" where
  "ep_choice now choice st =
     res_bind (ep_get choice ''delta'') (\<lambda>d0. res_bind (ep_get choice ''finish_reason'') (\<lambda>fr.
     let dl = json_or d0 (JObj []) in
     res_bind (ep_get dl ''content'') (\<lambda>piece. res_bind (ep_get dl ''reasoning_content'') (\<lambda>thought.
     res_bind (ep_get dl ''tool_calls'') (\<lambda>tools.
       Inr (st\<lparr>finish_reason := (if json_truthy fr then fr else finish_reason st),
               ep_first := (if ep_first st = None \<and> (json_truthy piece \<or> json_truthy thought \<or> json_truthy tools)
                            then Some now else ep_first st),
               ep_parts := ep_parts st @ (if json_truthy piece then [piece] else [])\<rparr>))))))"

fun ep_choices :: "real \<Rightarrow> json list \<Rightarrow> ep_state \<Rightarrow> ep_error + ep_state" where
  "ep_choices now [] st = Inr st"
| "ep_choices now (c # cs) st = res_bind (ep_choice now c st) (ep_choices now cs)"

definition ep_event :: "real \<Rightarrow> json \<Rightarrow> ep_state \<Rightarrow> ep_error + ep_state" where
  "ep_event now event st =
     res_bind (ep_get event ''usage'') (\<lambda>u.
     let st1 = (if json_truthy u then st\<lparr>ep_usage := u\<rparr> else st) in
     res_bind (ep_get event ''choices'') (\<lambda>cs.
       (case json_or cs (JList []) of
          JList xs \<Rightarrow> ep_choices now xs st1
        | JStr _ \<Rightarrow> Inl Attribute_Raise
        | JObj _ \<Rightarrow> Inl Attribute_Raise
        | _ \<Rightarrow> Inl Type_Raise)))"

fun ep_lines ::
  "(string \<Rightarrow> json option) \<Rightarrow> ep_error option \<Rightarrow> (real \<times> string) list \<Rightarrow> ep_state \<Rightarrow> ep_error + ep_state" where
  "ep_lines parse fault [] st = (case fault of None \<Rightarrow> Inr st | Some e \<Rightarrow> Inl e)"
| "ep_lines parse fault ((now, raw) # ls) st =
     (let line = strip raw in
      if \<not> starts_with ''data:'' line then ep_lines parse fault ls st
      else (let data = strip (drop 5 line) in
        if data = ''[DONE]'' then Inr st
        else (case parse data of
                None \<Rightarrow> Inl Bad_Json
              | Some event \<Rightarrow> res_bind (ep_event now event st) (ep_lines parse fault ls))))"

fun ep_join :: "json list \<Rightarrow> ep_error + string" where
  "ep_join [] = Inr []"
| "ep_join (JStr s # xs) = res_bind (ep_join xs) (\<lambda>t. Inr (s @ t))"
| "ep_join (_ # xs) = Inl Type_Raise"

record ep_result =
  res_target :: string
  res_prompt :: json
  res_run :: nat
  res_ok :: bool
  res_error :: "ep_error option"
  res_ttft :: "real option"
  res_total :: real
  res_prompt_tokens :: json
  res_completion_tokens :: json
  res_rate :: "real option"
  res_content :: "string option"
  res_chars :: nat

datatype thinking = Default | Thinking_On | Thinking_Off

definition ep_payload :: "string \<Rightarrow> dict \<Rightarrow> thinking \<Rightarrow> dict option \<Rightarrow> dict" where
  "ep_payload model prompt thinking extra =
     (let default = (\<lambda>k v. case map_of prompt k of None \<Rightarrow> v | Some x \<Rightarrow> x);
          p = [(''model'', JStr model), (''messages'', jget prompt ''messages''),
               (''temperature'', default ''temperature'' (JInt 0)), (''max_tokens'', default ''max_tokens'' (JInt 512)),
               (''stream'', JBool True), (''stream_options'', JObj [(''include_usage'', JBool True)])];
          q = (case thinking of
                 Default \<Rightarrow> p
               | Thinking_On \<Rightarrow> dict_set p ''chat_template_kwargs'' (JObj [(''enable_thinking'', JBool True)])
               | Thinking_Off \<Rightarrow> dict_set p ''chat_template_kwargs'' (JObj [(''enable_thinking'', JBool False)])) in
      (case extra of None \<Rightarrow> q | Some d \<Rightarrow> fold (\<lambda>(k, v) a. dict_set a k v) d q))"

record ep_target =
  tg_name :: string
  tg_url :: string
  tg_model :: string
  tg_extra :: "dict option"

definition failed_result :: "ep_target \<Rightarrow> dict \<Rightarrow> nat \<Rightarrow> ep_error \<Rightarrow> real \<Rightarrow> ep_result" where
  "failed_result tg prompt run e t =
     \<lparr>res_target = tg_name tg, res_prompt = jget prompt ''name'', res_run = run, res_ok = False,
      res_error = Some e, res_ttft = None, res_total = t, res_prompt_tokens = JNull,
      res_completion_tokens = JNull, res_rate = None, res_content = None, res_chars = 0\<rparr>"

definition ep_start :: ep_state where
  "ep_start = \<lparr>ep_first = None, ep_parts = [], finish_reason = JNull, ep_usage = JObj []\<rparr>"

text \<open>A stream without any delta is a failed result with no error of its own kind: \<open>Invalid_Value\<close>.\<close>

definition stream_once ::
  "(string \<Rightarrow> json option) \<Rightarrow> exchange \<Rightarrow> bool \<Rightarrow> ep_target \<Rightarrow> dict \<Rightarrow> nat \<Rightarrow> ep_error + ep_result" where
  "stream_once parse ex save tg prompt run =
     (case ep_lines parse (ex_fault ex) (ex_lines ex) ep_start of
        Inl e \<Rightarrow> (if kept_as_result e then Inr (failed_result tg prompt run e (ex_finished ex - ex_started ex)) else Inl e)
      | Inr st \<Rightarrow>
          res_bind (ep_join (ep_parts st)) (\<lambda>text.
          res_bind (ep_get (ep_usage st) ''completion_tokens'') (\<lambda>ct.
          res_bind (ep_get (ep_usage st) ''prompt_tokens'') (\<lambda>pt.
            Inr \<lparr>res_target = tg_name tg, res_prompt = jget prompt ''name'', res_run = run,
              res_ok = (ep_first st \<noteq> None),
              res_error = (if ep_first st = None then Some Invalid_Value else None),
              res_ttft = map_option (\<lambda>f. f - ex_started ex) (ep_first st),
              res_total = ex_finished ex - ex_started ex, res_prompt_tokens = pt, res_completion_tokens = ct,
              res_rate = (case (as_int ct, ep_first st) of
                  (Some n, Some f) \<Rightarrow> (if 1 < n \<and> f < ex_finished ex
                      then Some (of_int (n - 1) / (ex_finished ex - f)) else None)
                | _ \<Rightarrow> None),
              res_content = (if save then Some text else None), res_chars = length text\<rparr>))))"

section \<open>Prompts and targets\<close>

text \<open>The lines of the prompt file; a line that is not JSON, no object, or without the two keys.\<close>

fun load_lines :: "(string \<Rightarrow> json option) \<Rightarrow> string list \<Rightarrow> ep_error + dict list" where
  "load_lines parse [] = Inr []"
| "load_lines parse (l # ls) =
     (if strip l = [] then load_lines parse ls
      else (case parse l of
              Some (JObj d) \<Rightarrow>
                (if map_of d ''name'' = None \<or> map_of d ''messages'' = None then Inl Invalid_Value
                 else res_bind (load_lines parse ls) (\<lambda>ps. Inr (d # ps)))
            | _ \<Rightarrow> Inl Invalid_Value))"

definition default_prompts :: "dict list" where
  "default_prompts =
     (let ask = (\<lambda>s. JList [JObj [(''role'', JStr ''user''), (''content'', JStr s)]]) in
      [[(''name'', JStr ''sanity''), (''messages'', ask ''Reply with exactly BENCH_OK.''), (''max_tokens'', JInt 64)],
       [(''name'', JStr ''coding''),
        (''messages'', ask (''Write a correct Python function merge_intervals(intervals) that merges ''
           @ ''overlapping closed integer intervals. Return only one fenced code block.'')),
        (''max_tokens'', JInt 1024)],
       [(''name'', JStr ''reasoning''),
        (''messages'', ask (''A service has p99 latency 800 ms. Three independent changes reduce it by ''
           @ ''20%, 15%, and 10% multiplicatively. Compute the final latency and explain briefly.'')),
        (''max_tokens'', JInt 512)]])"

definition load_prompts ::
  "(string \<Rightarrow> json option) \<Rightarrow> string list option \<Rightarrow> ep_error + dict list" where
  "load_prompts parse prompt_file =
     (case prompt_file of
        None \<Rightarrow> Inr default_prompts
      | Some ls \<Rightarrow> res_bind (load_lines parse ls) (\<lambda>ps. if ps = [] then Inl Invalid_Value else Inr ps))"

definition add_target ::
  "ep_target list \<Rightarrow> string \<Rightarrow> string option \<Rightarrow> string option \<Rightarrow> dict option \<Rightarrow> ep_error + ep_target list" where
  "add_target targets name url model extra =
     (let given = (\<lambda>x. case x of None \<Rightarrow> False | Some s \<Rightarrow> s \<noteq> []) in
      if \<not> given url \<and> \<not> given model then Inr targets
      else if \<not> given url \<or> \<not> given model then Inl Invalid_Value
      else Inr (targets @ [\<lparr>tg_name = name, tg_url = the url, tg_model = the model, tg_extra = extra\<rparr>]))"

section \<open>The run\<close>

record ep_args =
  ep_local :: "string option \<times> string option"
  ep_compare :: "string option \<times> string option \<times> dict option"
  ep_prompt_file :: "string list option"
  ep_runs :: nat
  ep_warmups :: nat
  ep_concurrency :: nat
  ep_thinking :: thinking
  ep_save :: bool

text \<open>The world: the answer to the n-th warmup or task of a target, and the order in which the
  tasks of a target complete.\<close>

record ep_world =
  ep_parse :: "string \<Rightarrow> json option"
  ask_warmup :: "string \<Rightarrow> nat \<Rightarrow> dict \<Rightarrow> exchange"
  ask_task :: "string \<Rightarrow> nat \<Rightarrow> dict \<Rightarrow> exchange"
  completed :: "string \<Rightarrow> nat list"
  wall :: "string \<Rightarrow> real"

record ep_artifact =
  art_concurrency :: nat
  art_warmup_runs :: nat
  art_targets :: "ep_target list"
  art_results :: "ep_result list"
  art_warmups :: "ep_result list"
  art_wall :: "(string \<times> real) list"

definition ep_tasks :: "dict list \<Rightarrow> nat \<Rightarrow> (dict \<times> nat) list" where
  "ep_tasks prompts runs = concat (map (\<lambda>p. map (Pair p) [1..<Suc runs]) prompts)"

text \<open>The warmups of one target: their results, and whether the last of them failed.\<close>

fun warmups ::
  "ep_world \<Rightarrow> ep_args \<Rightarrow> dict list \<Rightarrow> ep_target \<Rightarrow> nat list \<Rightarrow> ep_error + (ep_result list \<times> bool)" where
  "warmups w a prompts tg [] = Inr ([], False)"
| "warmups w a prompts tg (i # js) =
     (let p = prompts ! (i mod length prompts) in
      res_bind (stream_once (ep_parse w)
          (ask_warmup w (tg_name tg) i (ep_payload (tg_model tg) p (ep_thinking a) (tg_extra tg))) (ep_save a) tg p 0) (\<lambda>r.
        if \<not> res_ok r then Inr ([r], True)
        else res_bind (warmups w a prompts tg js) (\<lambda>(rs, bad). Inr (r # rs, bad))))"

definition run_task :: "ep_world \<Rightarrow> ep_args \<Rightarrow> ep_target \<Rightarrow> (dict \<times> nat) list \<Rightarrow> nat \<Rightarrow> ep_error + ep_result" where
  "run_task w a tg tasks i =
     (case tasks ! i of (p, run) \<Rightarrow> stream_once (ep_parse w)
        (ask_task w (tg_name tg) i (ep_payload (tg_model tg) p (ep_thinking a) (tg_extra tg))) (ep_save a) tg p run)"

definition run_tasks :: "ep_world \<Rightarrow> ep_args \<Rightarrow> dict list \<Rightarrow> ep_target \<Rightarrow> ep_error + ep_result list" where
  "run_tasks w a prompts tg =
     (let tasks = ep_tasks prompts (ep_runs a);
          order = (if ep_concurrency a = 1 then [0..<length tasks] else completed w (tg_name tg)) in
      map_res (run_task w a tg tasks) order)"

text \<open>All targets: the results so far and whether a warmup failed.\<close>

fun run_targets ::
  "ep_world \<Rightarrow> ep_args \<Rightarrow> dict list \<Rightarrow> ep_target list \<Rightarrow> ep_error + (ep_result list \<times> ep_result list) option" where
  "run_targets w a prompts [] = Inr (Some ([], []))"
| "run_targets w a prompts (tg # tgs) =
     res_bind (warmups w a prompts tg [0..<ep_warmups a]) (\<lambda>(ws, bad).
       if bad then Inr None
       else res_bind (run_tasks w a prompts tg) (\<lambda>rs.
         res_bind (run_targets w a prompts tgs) (\<lambda>r.
           Inr (map_option (\<lambda>(rs', ws'). (rs @ rs', ws @ ws')) r))))"

definition ep_targets :: "ep_args \<Rightarrow> ep_error + ep_target list" where
  "ep_targets a =
     res_bind (add_target [] ''local'' (fst (ep_local a)) (snd (ep_local a)) None) (\<lambda>ts.
       case ep_compare a of (u, m, e) \<Rightarrow> add_target ts ''official'' u m e)"

definition ep_main :: "ep_args \<Rightarrow> ep_world \<Rightarrow> int \<times> ep_artifact option" where
  "ep_main a w =
     (if ep_runs a < 1 \<or> 20 < ep_runs a \<or> 5 < ep_warmups a \<or> ep_concurrency a < 1 \<or> 64 < ep_concurrency a then (2, None)
      else (case res_bind (load_prompts (ep_parse w) (ep_prompt_file a)) (\<lambda>prompts.
               res_bind (ep_targets a) (\<lambda>ts. res_bind (run_targets w a prompts ts) (\<lambda>r. Inr (ts, r)))) of
              Inl e \<Rightarrow> (if e \<in> {Attribute_Raise, Type_Raise} then 1 else 2, None)
            | Inr (ts, None) \<Rightarrow> (1, None)
            | Inr (ts, Some (rs, ws)) \<Rightarrow>
                (if list_all res_ok rs then 0 else 1,
                 Some \<lparr>art_concurrency = ep_concurrency a, art_warmup_runs = ep_warmups a, art_targets = ts, art_results = rs,
                   art_warmups = ws, art_wall = map (\<lambda>tg. (tg_name tg, wall w (tg_name tg))) ts\<rparr>)))"

section \<open>The summary line of a target\<close>

definition ep_percentile :: "real list \<Rightarrow> real \<Rightarrow> real option" where
  "ep_percentile vs fraction =
     (if vs = [] then None
      else (let n = int (length vs) in Some (sort vs ! nat (min (n - 1) (max 0 (\<lceil>fraction * of_int n\<rceil> - 1))))))"

record ep_summary =
  successes :: nat
  attempts :: nat
  ttft_median :: "real option"
  ttft_p99 :: "real option"
  total_median :: "real option"
  rate_median :: "real option"
  aggregate :: "real option"

definition summarize_target :: "ep_world \<Rightarrow> ep_args \<Rightarrow> ep_result list \<Rightarrow> string \<Rightarrow> ep_summary" where
  "summarize_target w a results name =
     (let subset = filter (\<lambda>r. res_target r = name \<and> res_ok r) results;
          ttfts = List.map_filter res_ttft subset;
          tokens = sum_list (List.map_filter (\<lambda>r. as_int (res_completion_tokens r)) subset) in
      \<lparr>successes = length subset, attempts = length (filter (\<lambda>r. res_target r = name) results),
       ttft_median = median_opt ttfts, ttft_p99 = ep_percentile ttfts (99 / 100),
       total_median = median_opt (map res_total subset),
       rate_median = median_opt (List.map_filter res_rate subset),
       aggregate = (if 1 < ep_concurrency a \<and> subset \<noteq> []
           then Some (if 0 < wall w name then of_int tokens / wall w name else 0) else None)\<rparr>)"

section \<open>What the artifact holds\<close>

lemma once_result:
  assumes "stream_once parse ex save tg prompt run = Inr r"
  shows "res_target r = tg_name tg \<and> res_prompt r = jget prompt ''name'' \<and> res_run r = run
    \<and> (res_ok r \<longleftrightarrow> res_ttft r \<noteq> None) \<and> (res_ok r \<longleftrightarrow> res_error r = None)"
  using assms by (auto simp: stream_once_def failed_result_def res_bind_Inr split: sum.splits if_splits)

text \<open>What a result is about.\<close>

definition about :: "ep_result \<Rightarrow> string \<times> json \<times> nat" where
  "about r = (res_target r, res_prompt r, res_run r)"

definition planned :: "ep_target \<Rightarrow> dict list \<Rightarrow> nat \<Rightarrow> (string \<times> json \<times> nat) list" where
  "planned tg prompts runs =
     concat (map (\<lambda>p. map (\<lambda>run. (tg_name tg, jget p ''name'', run)) [1..<Suc runs]) prompts)"

lemma planned_tasks:
  "planned tg prompts runs = map (\<lambda>(p, run). (tg_name tg, jget p ''name'', run)) (ep_tasks prompts runs)"
  by (simp add: planned_def ep_tasks_def map_concat comp_def)

lemma mset_nths: "mset is = mset [0..<length xs] \<Longrightarrow> mset (map ((!) xs) is) = mset xs"
  by (metis map_nth mset_map)

lemma run_tasks_planned:
  assumes "run_tasks wd a prompts tg = Inr rs"
    and "ep_concurrency a = 1 \<or> mset (completed wd (tg_name tg)) = mset [0..<length (ep_tasks prompts (ep_runs a))]"
  shows "mset (map about rs) = mset (planned tg prompts (ep_runs a))
    \<and> (ep_concurrency a = 1 \<longrightarrow> map about rs = planned tg prompts (ep_runs a))
    \<and> (\<forall>r\<in>set rs. (res_ok r \<longleftrightarrow> res_ttft r \<noteq> None) \<and> (res_ok r \<longleftrightarrow> res_error r = None))"
proof -
  let ?ts = "ep_tasks prompts (ep_runs a)"
  let ?is = "if ep_concurrency a = 1 then [0..<length ?ts] else completed wd (tg_name tg)"
  have m: "map_res (run_task wd a tg ?ts) ?is = Inr rs" using assms(1) by (simp add: run_tasks_def Let_def)
  have each: "run_task wd a tg ?ts (?is ! i) = Inr (rs ! i)" if "i < length rs" for i
    using map_res_nth [OF m] map_res_length [OF m] that by simp
  have ab: "about (rs ! i) = planned tg prompts (ep_runs a) ! (?is ! i)
      \<and> (res_ok (rs ! i) \<longleftrightarrow> res_ttft (rs ! i) \<noteq> None) \<and> (res_ok (rs ! i) \<longleftrightarrow> res_error (rs ! i) = None)"
    if "i < length rs" for i
  proof -
    have "?is ! i \<in> set ?is" using that map_res_length [OF m] by (intro nth_mem) simp
    moreover have "set ?is = set [0..<length ?ts]"
      using assms(2) mset_eq_setD [of "completed wd (tg_name tg)" "[0..<length ?ts]"] by (auto simp del: mset_upt)
    ultimately have "?is ! i < length ?ts" by simp
    then show ?thesis using once_result each [OF that]
      by (fastforce simp: run_task_def planned_tasks about_def split: prod.splits)
  qed
  have e: "map about rs = map ((!) (planned tg prompts (ep_runs a))) ?is"
    using ab map_res_length [OF m] by (intro nth_equalityI) simp_all
  have l: "length (planned tg prompts (ep_runs a)) = length ?ts" by (simp add: planned_tasks)
  have "mset ?is = mset [0..<length ?ts]" using assms(2) by auto
  then have "mset (map about rs) = mset (planned tg prompts (ep_runs a))"
    unfolding e by (intro mset_nths) (simp add: l)
  moreover have "ep_concurrency a = 1 \<longrightarrow> map about rs = planned tg prompts (ep_runs a)"
    unfolding e using l by (auto simp flip: l simp: map_nth)
  moreover have "\<forall>r\<in>set rs. (res_ok r \<longleftrightarrow> res_ttft r \<noteq> None) \<and> (res_ok r \<longleftrightarrow> res_error r = None)"
    using ab by (metis in_set_conv_nth)
  ultimately show ?thesis by blast
qed

lemma run_targets_planned:
  assumes "run_targets wd a prompts tgs = Inr (Some (rs, ws))"
    and "ep_concurrency a = 1 \<or> (\<forall>tg\<in>set tgs. mset (completed wd (tg_name tg)) = mset [0..<length (ep_tasks prompts (ep_runs a))])"
  shows "mset (map about rs) = mset (concat (map (\<lambda>tg. planned tg prompts (ep_runs a)) tgs))
    \<and> (ep_concurrency a = 1 \<longrightarrow> map about rs = concat (map (\<lambda>tg. planned tg prompts (ep_runs a)) tgs))
    \<and> (\<forall>r\<in>set rs. (res_ok r \<longleftrightarrow> res_ttft r \<noteq> None) \<and> (res_ok r \<longleftrightarrow> res_error r = None))"
  using assms
proof (induction tgs arbitrary: rs ws)
  case (Cons tg tgs)
  obtain r1 r2 w2 where r: "run_tasks wd a prompts tg = Inr r1" "run_targets wd a prompts tgs = Inr (Some (r2, w2))"
    "rs = r1 @ r2"
    using Cons.prems(1) by (fastforce simp: res_bind_Inr split: if_splits)
  have 1: "mset (map about r1) = mset (planned tg prompts (ep_runs a))
    \<and> (ep_concurrency a = 1 \<longrightarrow> map about r1 = planned tg prompts (ep_runs a))
    \<and> (\<forall>r\<in>set r1. (res_ok r \<longleftrightarrow> res_ttft r \<noteq> None) \<and> (res_ok r \<longleftrightarrow> res_error r = None))"
    using Cons.prems(2) by (intro run_tasks_planned [OF r(1)]) auto
  have 2: "mset (map about r2) = mset (concat (map (\<lambda>tg. planned tg prompts (ep_runs a)) tgs))
    \<and> (ep_concurrency a = 1 \<longrightarrow> map about r2 = concat (map (\<lambda>tg. planned tg prompts (ep_runs a)) tgs))
    \<and> (\<forall>r\<in>set r2. (res_ok r \<longleftrightarrow> res_ttft r \<noteq> None) \<and> (res_ok r \<longleftrightarrow> res_error r = None))"
    using Cons.prems(2) by (intro Cons.IH [OF r(2)]) auto
  show ?case using 1 2 by (auto simp: r(3))
qed simp


text \<open>One connection that breaks loses the results of all requests.\<close>

lemma broken_connection_loses_all:
  assumes "load_prompts (ep_parse wd) (ep_prompt_file a) = Inr prompts"
    and "ep_targets a = Inr (tg # tgs)" "ep_warmups a = 0"
    and "run_tasks wd a prompts tg = Inl Connection_Broken"
  shows "ep_main a wd = (2, None)"
  using assms by (simp add: ep_main_def)

section \<open>A small run\<close>

definition mini_args :: ep_args where
  "mini_args = \<lparr>ep_local = (Some ''http://h/v1'', Some ''glm''), ep_compare = (None, None, None),
     ep_prompt_file = None, ep_runs = 2, ep_warmups = 1, ep_concurrency = 1, ep_thinking = Thinking_Off, ep_save = False\<rparr>"

definition mini_exchange :: exchange where
  "mini_exchange = \<lparr>ex_started = 0, ex_lines = [(1, ''data: x''), (2, ''data: [DONE]'')], ex_fault = None, ex_finished = 3\<rparr>"

definition mini_world :: ep_world where
  "mini_world = \<lparr>ep_parse = (\<lambda>_. Some (JObj [(''choices'', JList [JObj [(''delta'', JObj [(''content'', JStr ''OK'')])]])])),
     ask_warmup = (\<lambda>_ _ _. mini_exchange), ask_task = (\<lambda>_ _ _. mini_exchange),
     completed = (\<lambda>_. []), wall = (\<lambda>_. 1)\<rparr>"

lemma mini_run: "fst (ep_main mini_args mini_world) = 0" "snd (ep_main mini_args mini_world) \<noteq> None"
  by code_simp+


end
