(* ===== verification/Cold_Prefill.thy ===== *)
theory Cold_Prefill
  imports Long_Context
begin

text \<open>
  The measurement of cold prefills (\<open>docs/_run_cold_prefill.py\<close>): the counters it reads, the
  calibration of a prompt, the answer stream read in pieces of bytes, and the ladder of
  prompt sizes.  The server, the clock, the random salts and \<open>json.loads\<close> are parameters;
  exceptions are kinds, and printed text is left out.
\<close>

datatype cold_exc =
  Cold_Http | Cold_Value | Cold_Index | Cold_Key | Cold_Attribute | Cold_Type | Cold_Zero

section \<open>Counters\<close>

definition counter_names :: "(string \<times> string) list" where
  "counter_names = [(''vllm:prefix_cache_hits_total{'', ''prefix_cache_hits_total''),
     (''vllm:prefix_cache_queries_total{'', ''prefix_cache_queries_total''),
     (''vllm:prompt_tokens_total{'', ''prompt_tokens_total'')]"

definition gauge_names :: "(string \<times> string) list" where
  "gauge_names = [(''vllm:gpu_cache_usage_perc{'', ''gpu_cache_usage_perc''),
     (''vllm:num_requests_running{'', ''num_requests_running'')]"

definition by_source :: string where "by_source = ''vllm:prompt_tokens_by_source_total{''"

text \<open>The key under which a line is kept, if any.\<close>

definition metric_key :: "string \<Rightarrow> string option" where
  "metric_key line =
     (let named = (\<lambda>ns. map_option snd (List.find (\<lambda>(p, _). starts_with p line) ns)) in
      case named counter_names of
        Some k \<Rightarrow> Some k
      | None \<Rightarrow>
          (if contains ''source=\"local_compute\"'' line \<and> starts_with by_source line then Some ''local_compute''
           else if contains ''source=\"local_cache_hit\"'' line \<and> starts_with by_source line then Some ''local_cache_hit''
           else named gauge_names))"

text \<open>\<open>float(line.rsplit(" ", 1)[1])\<close>; a value that is not finite is outside the model.\<close>

definition cold_metric_value :: "string \<Rightarrow> cold_exc + real" where
  "cold_metric_value line =
     (let parts = split_on (CHR '' '') line in
      if length parts < 2 then Inl Cold_Index
      else (case parse_float (last parts) of Some (Fin x) \<Rightarrow> Inr x | _ \<Rightarrow> Inl Cold_Value))"

fun parse_lines :: "string list \<Rightarrow> (string \<times> real) list \<Rightarrow> cold_exc + (string \<times> real) list" where
  "parse_lines [] acc = Inr acc"
| "parse_lines (l # ls) acc =
     (if l = [] \<or> starts_with ''#'' l then parse_lines ls acc
      else (case metric_key l of
              None \<Rightarrow> parse_lines ls acc
            | Some k \<Rightarrow> res_bind (cold_metric_value l) (\<lambda>x. parse_lines ls (dict_set acc k x))))"

definition parse_metrics :: "string \<Rightarrow> cold_exc + (string \<times> real) list" where
  "parse_metrics raw = parse_lines (splitlines raw) []"

definition delta_keys :: "string list" where
  "delta_keys = [''prefix_cache_hits_total'', ''prefix_cache_queries_total'', ''prompt_tokens_total'',
     ''local_compute'', ''local_cache_hit'']"

definition delta_metrics :: "(string \<times> real) list \<Rightarrow> (string \<times> real) list \<Rightarrow> (string \<times> real) list" where
  "delta_metrics before after =
     (let val = (\<lambda>m k. case map_of m k of None \<Rightarrow> 0 | Some x \<Rightarrow> x) in
      map (\<lambda>k. (k, val after k - val before k)) delta_keys)"

section \<open>The prompt and its calibration\<close>

definition cold_line_feed :: char where "cold_line_feed = CHR 0x0A"
definition cold_filler :: string where "cold_filler = ''the ''"
definition cold_task :: string where "cold_task = ''Reply with OK.''"

definition build_user_text :: "int \<Rightarrow> string \<Rightarrow> string" where
  "build_user_text n salt =
     salt @ [cold_line_feed] @ concat (replicate (nat n) cold_filler) @ [cold_line_feed] @ cold_task"

definition user_message :: "string \<Rightarrow> json" where
  "user_message s = JObj [(''role'', JStr ''user''), (''content'', JStr s)]"

definition chat_messages :: "string \<Rightarrow> json list \<Rightarrow> json list" where
  "chat_messages s extra = user_message s # extra"

text \<open>\<open>int(v)\<close>.\<close>

fun cold_int :: "json \<Rightarrow> cold_exc + int" where
  "cold_int (JInt i) = Inr i"
| "cold_int (JBool b) = Inr (of_bool b)"
| "cold_int (JFloat x) = Inr (if 0 \<le> x then \<lfloor>x\<rfloor> else \<lceil>x\<rceil>)"
| "cold_int (JStr s) = (case parse_int s of Some i \<Rightarrow> Inr i | None \<Rightarrow> Inl Cold_Value)"
| "cold_int JNonFinite = Inl Cold_Value"
| "cold_int _ = Inl Cold_Type"

definition cold_item :: "json \<Rightarrow> string \<Rightarrow> cold_exc + json" where
  "cold_item v k =
     (case v of JObj d \<Rightarrow> (case map_of d k of Some x \<Rightarrow> Inr x | None \<Rightarrow> Inl Cold_Key) | _ \<Rightarrow> Inl Cold_Type)"

text \<open>The server counts the tokens of a list of messages.\<close>

definition tokenize_messages :: "(json list \<Rightarrow> cold_exc + json) \<Rightarrow> json list \<Rightarrow> cold_exc + int" where
  "tokenize_messages tok ms = res_bind (tok ms) (\<lambda>obj. res_bind (cold_item obj ''count'') cold_int)"

definition off_target :: "int \<Rightarrow> int \<Rightarrow> bool" where
  "off_target got target = (of_int \<bar>got - target\<bar> / of_int target > (5 / 1000 :: real))"

text \<open>The number of fillers after the step that uses the measured ratio.\<close>

definition corrected :: "int \<Rightarrow> int \<Rightarrow> int \<Rightarrow> int \<Rightarrow> int" where
  "corrected target overhead n got =
     (let p = of_int (got - overhead) / (of_int n :: real); per = (if p \<le> 0 then 1 else p) in
      max (round_half_even (of_int (target - overhead) / per)) 1)"

definition calibrate ::
  "(json list \<Rightarrow> cold_exc + json) \<Rightarrow> int \<Rightarrow> string \<Rightarrow> cold_exc + (int \<times> int \<times> string)" where
  "calibrate tok target salt =
     (let size = (\<lambda>n. tokenize_messages tok (chat_messages (build_user_text n salt) [])) in
      res_bind (size 0) (\<lambda>overhead.
      let n0 = max (target - overhead) 1 in
      res_bind (size n0) (\<lambda>got0.
      res_bind (if got0 > 0 \<and> off_target got0 target
                then (let n1 = corrected target overhead n0 got0 in res_bind (size n1) (\<lambda>g. Inr (n1, g)))
                else Inr (n0, got0)) (\<lambda>(n1, got1).
      res_bind (if off_target got1 target
                then (let n2 = max (n1 + (target - got1)) 1 in res_bind (size n2) (\<lambda>g. Inr (n2, g)))
                else Inr (n1, got1)) (\<lambda>(n2, got2). Inr (n2, got2, build_user_text n2 salt))))))"

section \<open>The answer stream\<close>

text \<open>The body arrives in pieces; a line is complete when its line feed has arrived.  Each
  complete line is paired with the time its piece arrived.\<close>

fun stream_pieces :: "string \<Rightarrow> (real \<times> string) list \<Rightarrow> (real \<times> string) list" where
  "stream_pieces buf [] = []"
| "stream_pieces buf ((t, p) # ps) =
     (let parts = split_on cold_line_feed (buf @ p) in map (Pair t) (butlast parts) @ stream_pieces (last parts) ps)"

record cold_state =
  first_content :: "real option"
  cold_chunks :: "json list"
  cold_reasoning :: "json list"
  cold_usage :: json
  cold_finish :: json

definition cold_start :: cold_state where
  "cold_start = \<lparr>first_content = None, cold_chunks = [], cold_reasoning = [], cold_usage = JNull, cold_finish = JNull\<rparr>"

text \<open>One choice, and one event; the flag says that an exception was raised, and what was
  recorded before it stays recorded.\<close>

definition cold_choice :: "real \<Rightarrow> dict \<Rightarrow> cold_state \<Rightarrow> cold_state \<times> bool" where
  "cold_choice now choice st =
     (case json_or (jget choice ''delta'') (JObj []) of
        JObj delta \<Rightarrow>
          (let content = jget delta ''content'';
               reason = json_or (jget delta ''reasoning'') (jget delta ''reasoning_content'');
               fr = jget choice ''finish_reason'' in
           (st\<lparr>cold_reasoning := cold_reasoning st @ (if json_truthy reason then [reason] else []),
               first_content := (if json_truthy content \<and> first_content st = None then Some now else first_content st),
               cold_chunks := cold_chunks st @ (if json_truthy content then [content] else []),
               cold_finish := (if json_truthy fr then fr else cold_finish st)\<rparr>, False))
      | _ \<Rightarrow> (st, True))"

definition cold_event :: "real \<Rightarrow> json \<Rightarrow> cold_state \<Rightarrow> cold_state \<times> bool" where
  "cold_event now obj st =
     (case obj of
        JObj d \<Rightarrow>
          (let st1 = (if json_truthy (jget d ''usage'') then st\<lparr>cold_usage := jget d ''usage''\<rparr> else st) in
           if \<not> json_truthy (jget d ''choices'') then (st1, False)
           else (case jget d ''choices'' of
                   JList (JObj c # _) \<Rightarrow> cold_choice now c st1
                 | _ \<Rightarrow> (st1, True)))
      | _ \<Rightarrow> (st, True))"

fun cold_events ::
  "(string \<Rightarrow> json option) \<Rightarrow> (real \<times> string) list \<Rightarrow> cold_state \<Rightarrow> cold_state \<times> bool" where
  "cold_events parse [] st = (st, False)"
| "cold_events parse ((now, raw) # ls) st =
     (let line = strip raw; payload = strip (drop 5 line) in
      if \<not> starts_with ''data:'' line \<or> payload = ''[DONE]'' then cold_events parse ls st
      else (case parse payload of
              None \<Rightarrow> cold_events parse ls st
            | Some obj \<Rightarrow>
                (case cold_event now obj st of
                   (st1, True) \<Rightarrow> (st1, True)
                 | (st1, False) \<Rightarrow> cold_events parse ls st1)))"

text \<open>An exchange: the status when the request was answered, the pieces, whether reading them
  broke off, and the times.\<close>

record cold_exchange =
  cx_status :: "int option"
  cx_pieces :: "(real \<times> string) list"
  cx_broken :: bool
  cx_start :: real
  cx_end :: real

record cold_result =
  cr_http :: "int option"
  cr_error :: bool
  cr_finish :: json
  cr_prompt :: int
  cr_completion :: int
  cr_cached :: json
  cr_ttft :: "real option"
  cr_wall :: real
  cr_prefill :: "real option"
  cr_gen :: string
  cr_reasoning :: string
  cr_ok :: bool
  cr_usage :: json

fun cold_join :: "json list \<Rightarrow> cold_exc + string" where
  "cold_join [] = Inr []"
| "cold_join (JStr s # xs) = res_bind (cold_join xs) (\<lambda>t. Inr (s @ t))"
| "cold_join (_ # xs) = Inl Cold_Type"

definition usage_int :: "dict \<Rightarrow> string \<Rightarrow> cold_exc + int" where
  "usage_int u k = cold_int (json_or (jget u k) (JInt 0))"

definition cold_body :: "string \<Rightarrow> json list \<Rightarrow> dict" where
  "cold_body served ms = [(''model'', JStr served), (''messages'', JList ms), (''temperature'', JInt 0),
     (''max_tokens'', JInt 8), (''stream'', JBool True), (''stream_options'', JObj [(''include_usage'', JBool True)]),
     (''chat_template_kwargs'', JObj [(''enable_thinking'', JBool False)])]"

definition generated_ok :: "string \<Rightarrow> bool" where
  "generated_ok s = (s \<noteq> [] \<and> contains ''ok'' (lower s) \<and> \<not> contains ''nan'' (lower s))"

definition cold_chat :: "(string \<Rightarrow> json option) \<Rightarrow> cold_exchange \<Rightarrow> cold_exc + cold_result" where
  "cold_chat parse ex =
     (let (st, raised) = (if cx_status ex = None then (cold_start, True)
                          else cold_events parse (stream_pieces [] (cx_pieces ex)) cold_start) in
      res_bind (cold_join (cold_chunks st)) (\<lambda>s.
      res_bind (cold_join (cold_reasoning st)) (\<lambda>thought.
      res_bind (case json_or (cold_usage st) (JObj []) of JObj u \<Rightarrow> Inr u | _ \<Rightarrow> Inl Cold_Attribute) (\<lambda>u.
      res_bind (usage_int u ''prompt_tokens'') (\<lambda>prompt.
      res_bind (usage_int u ''completion_tokens'') (\<lambda>completion.
      let ttft = map_option (\<lambda>f. f - cx_start ex) (first_content st) in
        Inr \<lparr>cr_http = cx_status ex, cr_error = (raised \<or> cx_broken ex), cr_finish = cold_finish st,
          cr_prompt = prompt, cr_completion = completion,
          cr_cached = (case jget u ''prompt_tokens_details'' of JObj d \<Rightarrow> jget d ''cached_tokens'' | _ \<Rightarrow> JNull),
          cr_ttft = ttft, cr_wall = cx_end ex - cx_start ex,
          cr_prefill = (case ttft of None \<Rightarrow> None
             | Some t \<Rightarrow> (if 0 < t \<and> 0 < prompt then Some (of_int prompt / t) else None)),
          cr_gen = s, cr_reasoning = thought, cr_ok = generated_ok s, cr_usage = cold_usage st\<rparr>))))))"

section \<open>The ladder\<close>

definition ladder :: "(string \<times> int) list" where
  "ladder = [(''~8k'', 8000), (''~12k'', 12000), (''~16k'', 16000), (''~100k'', 100000), (''~256k'', 256000),
     (''~300k'', 300000)]"

record cold_record =
  rc_result :: cold_result
  rc_name :: string
  rc_cold :: bool
  rc_target :: int
  rc_filler :: "(int \<times> int \<times> string) option"    \<comment> \<open>fillers, tokens, salt; cold requests only\<close>
  rc_delta :: "(string \<times> real) list"
  rc_gpu_cache :: "real option"
  rc_echo :: string

text \<open>The outside: answers by the number of the request of their kind.\<close>

record cold_world =
  cw_health :: "cold_exc + int"
  cw_models :: "cold_exc + json"
  cw_metrics :: "nat \<Rightarrow> cold_exc + string"
  cw_salt :: "nat \<Rightarrow> string"
  cw_count :: "json list \<Rightarrow> cold_exc + json"
  cw_chat :: "nat \<Rightarrow> dict \<Rightarrow> cold_exchange"
  cw_parse :: "string \<Rightarrow> json option"

definition metrics_snapshot :: "cold_world \<Rightarrow> nat \<Rightarrow> cold_exc + (string \<times> real) list" where
  "metrics_snapshot wd n = res_bind (cw_metrics wd n) parse_metrics"

text \<open>One request between two snapshots; \<open>k\<close> requests were made before, and one snapshot at
  the start.\<close>

definition measured ::
  "cold_world \<Rightarrow> string \<Rightarrow> nat \<Rightarrow> json list
   \<Rightarrow> cold_exc + (cold_result \<times> (string \<times> real) list \<times> real option)" where
  "measured wd served k ms =
     res_bind (metrics_snapshot wd (2 * k + 1)) (\<lambda>before.
     res_bind (cold_chat (cw_parse wd) (cw_chat wd k (cold_body served ms))) (\<lambda>r.
     res_bind (metrics_snapshot wd (2 * k + 2)) (\<lambda>after.
       Inr (r, delta_metrics before after, map_of after ''gpu_cache_usage_perc''))))"

definition cold_rung :: "cold_world \<Rightarrow> string \<Rightarrow> nat \<Rightarrow> nat \<Rightarrow> string \<times> int \<Rightarrow> cold_exc + (cold_record \<times> string)" where
  "cold_rung wd served i k rung =
     (case rung of (name, target) \<Rightarrow>
        let salt = cw_salt wd i in
        res_bind (calibrate (cw_count wd) target salt) (\<lambda>(n, est, s).
        res_bind (measured wd served k (chat_messages s [])) (\<lambda>(r, delta, gpu).
          Inr (\<lparr>rc_result = r, rc_name = name, rc_cold = True, rc_target = target, rc_filler = Some (n, est, salt),
                rc_delta = delta, rc_gpu_cache = gpu, rc_echo = []\<rparr>, s))))"

definition follow_up :: "cold_world \<Rightarrow> string \<Rightarrow> string \<Rightarrow> cold_record \<Rightarrow> cold_exc + cold_record" where
  "follow_up wd served s first =
     (let answer = cr_gen (rc_result first);
          ms = chat_messages s [JObj [(''role'', JStr ''assistant''), (''content'', JStr answer)],
                 user_message ''Confirm with OK.''] in
      res_bind (measured wd served 1 ms) (\<lambda>(r, delta, gpu).
        Inr \<lparr>rc_result = r, rc_name = ''~8k follow-up'', rc_cold = False, rc_target = rc_target first, rc_filler = None,
          rc_delta = delta, rc_gpu_cache = gpu, rc_echo = answer\<rparr>))"

text \<open>The rungs from the i-th on; the first one is followed by a second turn.\<close>

fun cold_rungs :: "cold_world \<Rightarrow> string \<Rightarrow> nat \<Rightarrow> (string \<times> int) list \<Rightarrow> cold_exc + cold_record list" where
  "cold_rungs wd served i [] = Inr []"
| "cold_rungs wd served i (rung # rungs) =
     res_bind (cold_rung wd served i (if i = 0 then 0 else Suc i) rung) (\<lambda>(r, s).
     res_bind (if i = 0 then res_bind (follow_up wd served s r) (\<lambda>f. Inr [f]) else Inr []) (\<lambda>f.
     res_bind (cold_rungs wd served (Suc i) rungs) (\<lambda>rs. Inr (r # f @ rs))))"

record cold_report =
  rp_served :: json
  rp_max_len :: json
  rp_start :: "(string \<times> real) list"
  rp_end :: "(string \<times> real) list"
  rp_results :: "cold_record list"

definition first_model :: "json \<Rightarrow> cold_exc + dict" where
  "first_model models =
     res_bind (cold_item models ''data'') (\<lambda>v.
       case v of
         JList [] \<Rightarrow> Inl Cold_Index | JList (JObj d # _) \<Rightarrow> Inr d | JObj _ \<Rightarrow> Inl Cold_Key | _ \<Rightarrow> Inl Cold_Type)"

text \<open>A failure that leaves the program ends it with code 1.  A served identifier that is no
  string is outside the model.\<close>

definition cold_run :: "cold_world \<Rightarrow> cold_exc + cold_report" where
  "cold_run wd =
     res_bind (cw_models wd) (\<lambda>models. res_bind (first_model models) (\<lambda>m.
     res_bind (cold_item (JObj m) ''id'') (\<lambda>served.
     res_bind (metrics_snapshot wd 0) (\<lambda>m0.
     res_bind (case served of JStr s \<Rightarrow> cold_rungs wd s 0 ladder | _ \<Rightarrow> Inl Cold_Type) (\<lambda>rs.
     res_bind (metrics_snapshot wd (2 * Suc (length ladder) + 1)) (\<lambda>m1.
       Inr \<lparr>rp_served = served, rp_max_len = jget m ''max_model_len'', rp_start = m0, rp_end = m1, rp_results = rs\<rparr>))))))"

definition cold_main :: "cold_world \<Rightarrow> int \<times> cold_report option" where
  "cold_main wd =
     (case cw_health wd of
        Inl _ \<Rightarrow> (1, None)
      | Inr st \<Rightarrow> (if st \<noteq> 200 then (1, None)
                   else (case cold_run wd of Inl _ \<Rightarrow> (1, None) | Inr r \<Rightarrow> (0, Some r))))"

section \<open>The pieces do not matter\<close>

lemma split_on_append:
  "split_on c (x @ y) = butlast (split_on c x) @ split_on c (last (split_on c x) @ y)"
proof (induction x)
  case (Cons a x)
  show ?case
  proof (cases "a = c")
    case False
    then show ?thesis using Cons by (cases "split_on c x") (auto split: list.splits)
  qed (use Cons in simp)
qed simp

text \<open>However the body is cut into pieces, the lines are those of the whole body, without the
  last one when it is not terminated.\<close>

lemma pieces_irrelevant:
  "ps \<noteq> [] \<Longrightarrow> map snd (stream_pieces buf ps) = butlast (split_on cold_line_feed (buf @ concat (map snd ps)))"
proof (induction buf ps rule: stream_pieces.induct)
  case (2 buf t p ps)
  let ?q = "split_on cold_line_feed (buf @ p)"
  have "split_on cold_line_feed (buf @ p @ concat (map snd ps))
      = butlast ?q @ split_on cold_line_feed (last ?q @ concat (map snd ps))"
    using split_on_append [of cold_line_feed "buf @ p"] by simp
  moreover have "ps = [] \<Longrightarrow> split_on cold_line_feed (last ?q) = [last ?q]"
    using split_on_append [of cold_line_feed "buf @ p" "[]"]
    by (metis append_Nil2 append_butlast_last_id same_append_eq split_on_nonempty)
  ultimately show ?case using 2 by (cases "ps = []") (auto simp: Let_def butlast_append comp_def)
qed simp

section \<open>The calibration\<close>

text \<open>When every filler is one token, the prompt has exactly the size asked for.\<close>

lemma calibration_exact:
  assumes "\<And>n. 0 \<le> n \<Longrightarrow> tokenize_messages tok (chat_messages (build_user_text n salt) []) = Inr (overhead + n)"
    and "overhead < target" and "0 < target"
  shows "calibrate tok target salt = Inr (target - overhead, target, build_user_text (target - overhead) salt)"
  using assms by (simp add: calibrate_def off_target_def Let_def)

section \<open>The report\<close>

lemma rungs_named:
  "cold_rungs wd served i rungs = Inr rs \<Longrightarrow> 0 < i \<Longrightarrow>
     map rc_name rs = map fst rungs \<and> map rc_target rs = map snd rungs \<and> list_all rc_cold rs"
  by (induction wd served i rungs arbitrary: rs rule: cold_rungs.induct)
     (auto simp: res_bind_Inr cold_rung_def Let_def split: prod.splits)

lemma first_rung:
  "cold_rungs wd s 0 (rung # rungs) = Inr rs \<Longrightarrow> \<exists>r f rs'. rs = r # f # rs' \<and> rc_name r = fst rung
     \<and> rc_name f = ''~8k follow-up'' \<and> cold_rungs wd s 1 rungs = Inr rs'"
  by (fastforce simp: res_bind_Inr cold_rung_def follow_up_def Let_def split: prod.splits)

text \<open>A report has a record for every rung, with the follow-up after the first, and the exit
  code is 0 exactly when there is a report: also when every request in it failed.\<close>

lemma report_complete:
  "cold_main wd = (code, rep) \<Longrightarrow> (code = 0 \<longleftrightarrow> rep \<noteq> None) \<and>
     (\<forall>r. rep = Some r \<longrightarrow> map rc_name (rp_results r)
        = [''~8k'', ''~8k follow-up'', ''~12k'', ''~16k'', ''~100k'', ''~256k'', ''~300k''])"
proof -
  assume run: "cold_main wd = (code, rep)"
  have "map rc_name rs = [''~8k'', ''~8k follow-up'', ''~12k'', ''~16k'', ''~100k'', ''~256k'', ''~300k'']"
    if "cold_rungs wd s 0 ladder = Inr rs" for s rs
  proof -
    have "ladder = (''~8k'', 8000) # tl ladder" by (simp add: ladder_def)
    with that have "cold_rungs wd s 0 ((''~8k'', 8000) # tl ladder) = Inr rs" by metis
    from first_rung [OF this] obtain r f rs' where r: "rs = r # f # rs'" "rc_name r = ''~8k''"
      "rc_name f = ''~8k follow-up''" "cold_rungs wd s 1 (tl ladder) = Inr rs'" by auto
    with rungs_named [OF r(4)] show ?thesis by (simp add: ladder_def)
  qed
  then show ?thesis using run
    by (auto simp: cold_main_def cold_run_def res_bind_Inr split: sum.splits if_splits json.splits)
qed

end
